(* ===== verification/Prelude.thy ===== *)
theory Prelude
  imports Complex_Main "HOL-Library.Product_Lexorder" "HOL-Library.AList"
begin

text \<open>
  What every component of the library shares: the model's names for the source's basic
  types, the exceptions as values, the result of running a piece of session code, the few
  query forms of the source (first row, at most one row, exactly one row), JSON values, and
  the Python string operations the sources use.

  A piece of code that works on a database session is a function from the store to
  \<open>('s, 'a) run\<close>: the store it leaves behind and either the exception it raised or the
  value it returned. The store is part of the result on both paths, because a Python
  exception does not undo what was flushed before it: only a savepoint (\<open>nested\<close>) or the
  rollback of the request (\<open>request\<close>) does.
\<close>

section \<open>Names and types\<close>

named_theorems run_simps \<open>evaluation of runs\<close>
named_theorems frame_simps \<open>parts of the store an operation leaves alone\<close>

type_synonym uuid = nat
type_synonym decimal = rat
type_synonym timestamp = int
type_synonym str = string

text \<open>A \<open>datetime\<close> counts microseconds; \<open>timedelta(seconds=n)\<close> is a difference of two of them.\<close>

definition timedelta_seconds :: "int \<Rightarrow> int" where
  "timedelta_seconds n = 1000000 * n"

text \<open>
  The exception classes of the sources (\<open>packages/core/exceptions.py\<close>,
  \<open>packages/payments/exceptions.py\<close>), of Python, of the database layer and of the web framework. Message texts
  are not modelled; an HTTP error carries its status, a fulfilment operation its code.
\<close>

datatype error =
    ValueError
  | TypeError
  | InvalidOperation
  | TimeoutError
  | OSError
  | AttributeError
  | KeyError
  | RuntimeError
  | AssertionError
  | OverflowError
  | NoResultFound
  | MultipleResultsFound
  | IntegrityError
  | TenantAccessViolationError
  | InvalidStateTransitionError
  | InsufficientFundsError
  | LedgerIntegrityError
  | ProviderError
  | PaymentError
  | PaymentIntentNotFoundError
  | PaymentIntegrityError
  | OnChainVerificationPending
  | PaymentProviderError
  | PaymentProviderTransportError
  | UnsupportedProviderCapabilityError
  | WebhookVerificationError
  | SecretNotFoundError
  | SecretStorageError
  | TokenExpiredError
  | TokenInvalidSignatureError
  | TokenMalformedError
  | PlatformNotFoundError
  | PlatformConflictError
  | PlatformValidationError
  | BillingEventConflictError
  | BillingProviderError
  | BillingProviderNotConfiguredError
  | BillingWebhookVerificationError
  | BillingProviderResponseError
  | EntitlementConfigurationError
  | CommercialAccessDenied
  | FeatureEntitlementDenied
  | FulfillmentOperationError str
  | HTTPException nat

text \<open>\<open>type(exc).__name__\<close>\<close>

fun error_name :: "error \<Rightarrow> str" where
  "error_name ValueError = ''ValueError''"
| "error_name TypeError = ''TypeError''"
| "error_name InvalidOperation = ''InvalidOperation''"
| "error_name TimeoutError = ''TimeoutError''"
| "error_name OSError = ''OSError''"
| "error_name AttributeError = ''AttributeError''"
| "error_name KeyError = ''KeyError''"
| "error_name RuntimeError = ''RuntimeError''"
| "error_name AssertionError = ''AssertionError''"
| "error_name NoResultFound = ''NoResultFound''"
| "error_name MultipleResultsFound = ''MultipleResultsFound''"
| "error_name IntegrityError = ''IntegrityError''"
| "error_name TenantAccessViolationError = ''TenantAccessViolationError''"
| "error_name InvalidStateTransitionError = ''InvalidStateTransitionError''"
| "error_name InsufficientFundsError = ''InsufficientFundsError''"
| "error_name LedgerIntegrityError = ''LedgerIntegrityError''"
| "error_name ProviderError = ''ProviderError''"
| "error_name PaymentError = ''PaymentError''"
| "error_name PaymentIntentNotFoundError = ''PaymentIntentNotFoundError''"
| "error_name PaymentIntegrityError = ''PaymentIntegrityError''"
| "error_name OnChainVerificationPending = ''OnChainVerificationPending''"
| "error_name PaymentProviderError = ''PaymentProviderError''"
| "error_name PaymentProviderTransportError = ''PaymentProviderTransportError''"
| "error_name UnsupportedProviderCapabilityError = ''UnsupportedProviderCapabilityError''"
| "error_name WebhookVerificationError = ''WebhookVerificationError''"
| "error_name SecretNotFoundError = ''SecretNotFoundError''"
| "error_name SecretStorageError = ''SecretStorageError''"
| "error_name TokenExpiredError = ''TokenExpiredError''"
| "error_name TokenInvalidSignatureError = ''TokenInvalidSignatureError''"
| "error_name TokenMalformedError = ''TokenMalformedError''"
| "error_name PlatformNotFoundError = ''PlatformNotFoundError''"
| "error_name PlatformConflictError = ''PlatformConflictError''"
| "error_name PlatformValidationError = ''PlatformValidationError''"
| "error_name BillingEventConflictError = ''BillingEventConflictError''"
| "error_name BillingProviderError = ''BillingProviderError''"
| "error_name BillingProviderNotConfiguredError = ''BillingProviderNotConfiguredError''"
| "error_name BillingWebhookVerificationError = ''BillingWebhookVerificationError''"
| "error_name BillingProviderResponseError = ''BillingProviderResponseError''"
| "error_name EntitlementConfigurationError = ''EntitlementConfigurationError''"
| "error_name CommercialAccessDenied = ''CommercialAccessDenied''"
| "error_name FeatureEntitlementDenied = ''FeatureEntitlementDenied''"
| "error_name OverflowError = ''OverflowError''"
| "error_name (FulfillmentOperationError code) = ''FulfillmentOperationError''"
| "error_name (HTTPException status) = ''HTTPException''"

type_synonym 'a res = "error + 'a"
type_synonym ('s, 'a) run = "'s \<times> (error + 'a)"

section \<open>Running session code\<close>

text \<open>The exceptions are \<open>error\<close>, or the richer exceptions a component reads attributes of.\<close>

type_synonym ('e, 's, 'a) step = "'s \<times> ('e + 'a)"

definition and_then :: "('e, 's, 'a) step \<Rightarrow> ('s \<Rightarrow> 'a \<Rightarrow> ('e, 's, 'b) step) \<Rightarrow> ('e, 's, 'b) step" where
  "and_then m f = (case m of (s, Inl e) \<Rightarrow> (s, Inl e) | (s, Inr x) \<Rightarrow> f s x)"

definition lift_res :: "'s \<Rightarrow> 'e + 'a \<Rightarrow> ('s \<Rightarrow> 'a \<Rightarrow> ('e, 's, 'b) step) \<Rightarrow> ('e, 's, 'b) step" where
  "lift_res s r f = (case r of Inl e \<Rightarrow> (s, Inl e) | Inr x \<Rightarrow> f s x)"

definition res_bind :: "'e + 'a \<Rightarrow> ('a \<Rightarrow> 'e + 'b) \<Rightarrow> 'e + 'b" where
  "res_bind r f = (case r of Inl e \<Rightarrow> Inl e | Inr x \<Rightarrow> f x)"

lemma res_bind_simps [simp, run_simps]: "res_bind (Inl e) f = Inl e" "res_bind (Inr x) f = f x"
  by (simp_all add: res_bind_def)

lemma res_bind_Inr_iff: "res_bind r f = Inr y \<longleftrightarrow> (\<exists>x. r = Inr x \<and> f x = Inr y)"
  by (cases r) auto

text \<open>\<open>async with session.begin_nested()\<close>: any exception rolls the savepoint back.\<close>

definition nested :: "'s \<Rightarrow> ('s, 'a) run \<Rightarrow> ('s, 'a) run" where
  "nested s m = (case m of (s', Inl e) \<Rightarrow> (s, Inl e) | (s', Inr x) \<Rightarrow> (s', Inr x))"

text \<open>\<open>except IntegrityError\<close> around a piece of code.\<close>

definition on_integrity_error ::
  "('s, 'a) run \<Rightarrow> ('s \<Rightarrow> ('s, 'a) run) \<Rightarrow> ('s, 'a) run" where
  "on_integrity_error m h = (case m of (s, Inl IntegrityError) \<Rightarrow> h s | r \<Rightarrow> r)"

text \<open>
  The request's own transaction, \<open>get_db_session\<close>: commit when the handler returns, roll
  the whole session back when it raises.
\<close>

definition get_db_session :: "('s \<Rightarrow> ('s, 'a) run) \<Rightarrow> 's \<Rightarrow> ('s, 'a) run" where
  "get_db_session handler s =
     (case handler s of (s', Inl e) \<Rightarrow> (s, Inl e) | (s', Inr x) \<Rightarrow> (s', Inr x))"

lemma and_then_Inl [simp, run_simps]: "and_then (s, Inl e) f = (s, Inl e)"
  by (simp add: and_then_def)

lemma and_then_Inr [simp, run_simps]: "and_then (s, Inr x) f = f s x"
  by (simp add: and_then_def)

lemma lift_res_Inl [simp, run_simps]: "lift_res s (Inl e) f = (s, Inl e)"
  by (simp add: lift_res_def)

lemma lift_res_Inr [simp, run_simps]: "lift_res s (Inr x) f = f s x"
  by (simp add: lift_res_def)

lemma nested_Inl [simp, run_simps]: "nested s (s', Inl e) = (s, Inl e)"
  by (simp add: nested_def)

lemma nested_Inr [simp, run_simps]: "nested s (s', Inr x) = (s', Inr x)"
  by (simp add: nested_def)

lemma on_integrity_error_Inr [simp, run_simps]: "on_integrity_error (s, Inr x) h = (s, Inr x)"
  by (simp add: on_integrity_error_def)

lemma on_integrity_error_hit [simp, run_simps]:
  "on_integrity_error (s, Inl IntegrityError) h = h s"
  by (simp add: on_integrity_error_def)

lemma on_integrity_error_other [simp, run_simps]:
  "e \<noteq> IntegrityError \<Longrightarrow> on_integrity_error (s, Inl e) h = (s, Inl e)"
  by (cases e) (simp_all add: on_integrity_error_def)

lemma and_then_Inr_iff:
  "and_then m f = (s', Inr y) \<longleftrightarrow> (\<exists>s x. m = (s, Inr x) \<and> f s x = (s', Inr y))"
  by (cases m; cases "snd m") (auto simp: and_then_def)

lemma lift_res_Inr_iff:
  "lift_res s r f = (s', Inr y) \<longleftrightarrow> (\<exists>x. r = Inr x \<and> f s x = (s', Inr y))"
  by (cases r) auto

lemma savepoint_Inr_iff:
  "on_integrity_error (nested s m) h = (s', Inr y) \<longleftrightarrow>
     m = (s', Inr y) \<or> (\<exists>s1. m = (s1, Inl IntegrityError) \<and> h s = (s', Inr y))"
proof (cases m)
  case (Pair s1 r)
  show ?thesis
  proof (cases r)
    case (Inl e)
    with Pair show ?thesis by (cases "e = IntegrityError") auto
  next
    case (Inr x)
    with Pair show ?thesis by auto
  qed
qed

lemma savepoint_Inl_cases:
  assumes "on_integrity_error (nested s m) h = (s', Inl e)"
  shows "(s' = s \<and> e \<noteq> IntegrityError \<and> (\<exists>s1. m = (s1, Inl e))) \<or>
         (\<exists>s1. m = (s1, Inl IntegrityError) \<and> h s = (s', Inl e))"
proof (cases m)
  case (Pair s1 r)
  show ?thesis
  proof (cases r)
    case (Inl e')
    with Pair assms show ?thesis by (cases "e' = IntegrityError") auto
  next
    case (Inr x)
    with Pair assms show ?thesis by simp
  qed
qed

text \<open>
  The rules that carry an invariant of the store through a run: each part keeps it, on the
  error path as well as on the return path.
\<close>

lemma and_then_keeps:
  assumes "P (fst m)" and "\<And>s x. m = (s, Inr x) \<Longrightarrow> P (fst (f s x))"
  shows "P (fst (and_then m f))"
  using assms by (cases m; cases "snd m") (auto simp: and_then_def)

lemma lift_res_keeps:
  assumes "P s" and "\<And>x. r = Inr x \<Longrightarrow> P (fst (f s x))"
  shows "P (fst (lift_res s r f))"
  using assms by (cases r) auto

lemma nested_keeps:
  assumes "P s" and "P (fst m)"
  shows "P (fst (nested s m))"
  using assms by (cases m; cases "snd m") (auto simp: nested_def)

lemma on_integrity_error_keeps:
  assumes "P (fst m)" and "\<And>s. m = (s, Inl IntegrityError) \<Longrightarrow> P (fst (h s))"
  shows "P (fst (on_integrity_error m h))"
proof (cases m)
  case (Pair s r)
  show ?thesis
  proof (cases r)
    case (Inl e)
    with Pair assms show ?thesis by (cases "e = IntegrityError") auto
  next
    case (Inr x)
    with Pair assms show ?thesis by simp
  qed
qed

lemma request_keeps:
  assumes "P s" and "\<And>s' x. handler s = (s', Inr x) \<Longrightarrow> P s'"
  shows "P (fst (get_db_session handler s))"
  using assms by (cases "handler s"; cases "snd (handler s)") (auto simp: get_db_session_def)

lemma request_rolls_back:
  "handler s = (s', Inl e) \<Longrightarrow> get_db_session handler s = (s, Inl e)"
  by (simp add: get_db_session_def)

section \<open>Tables and queries\<close>

text \<open>
  A table is the list of its rows in insertion order. \<open>first_row\<close> is
  \<open>scalars().first()\<close> and \<open>session.scalar\<close>; \<open>scalar_one_or_none\<close> and \<open>scalar_one\<close>
  raise as the database layer does when a query that must be unique is not.
\<close>

primrec first_row :: "('r \<Rightarrow> bool) \<Rightarrow> 'r list \<Rightarrow> 'r option" where
  "first_row p [] = None"
| "first_row p (r # rs) = (if p r then Some r else first_row p rs)"

definition scalar_one_or_none :: "('r \<Rightarrow> bool) \<Rightarrow> 'r list \<Rightarrow> 'r option res" where
  "scalar_one_or_none p rs =
     (case filter p rs of [] \<Rightarrow> Inr None | [r] \<Rightarrow> Inr (Some r) | _ \<Rightarrow> Inl MultipleResultsFound)"

definition scalar_one :: "('r \<Rightarrow> bool) \<Rightarrow> 'r list \<Rightarrow> 'r res" where
  "scalar_one p rs =
     (case filter p rs of [] \<Rightarrow> Inl NoResultFound | [r] \<Rightarrow> Inr r | _ \<Rightarrow> Inl MultipleResultsFound)"

definition update_where :: "('r \<Rightarrow> bool) \<Rightarrow> ('r \<Rightarrow> 'r) \<Rightarrow> 'r list \<Rightarrow> 'r list" where
  "update_where p f rs = map (\<lambda>r. if p r then f r else r) rs"

text \<open>A unique index over the rows that satisfy \<open>p\<close>, with key \<open>k\<close>.\<close>

definition unique_on :: "('r \<Rightarrow> bool) \<Rightarrow> ('r \<Rightarrow> 'k) \<Rightarrow> 'r list \<Rightarrow> bool" where
  "unique_on p k rs \<longleftrightarrow> distinct (map k (filter p rs))"

definition violates :: "('r \<Rightarrow> bool) \<Rightarrow> ('r \<Rightarrow> 'k) \<Rightarrow> 'r list \<Rightarrow> 'r \<Rightarrow> bool" where
  "violates p k rs r \<longleftrightarrow> p r \<and> list_ex (\<lambda>x. p x \<and> k x = k r) rs"

lemma first_row_SomeD: "first_row p rs = Some r \<Longrightarrow> r \<in> set rs \<and> p r"
  by (induction rs) (auto split: if_splits)

lemma first_row_None_iff: "first_row p rs = None \<longleftrightarrow> (\<forall>r \<in> set rs. \<not> p r)"
  by (induction rs) auto

lemma first_row_append:
  "first_row p (xs @ ys) = (case first_row p xs of Some r \<Rightarrow> Some r | None \<Rightarrow> first_row p ys)"
  by (induction xs) auto

lemma first_row_append_Some [simp]:
  "first_row p xs = Some r \<Longrightarrow> first_row p (xs @ ys) = Some r"
  by (simp add: first_row_append)

lemma first_row_append_None [simp]:
  "first_row p xs = None \<Longrightarrow> first_row p (xs @ ys) = first_row p ys"
  by (simp add: first_row_append)

lemma first_row_hd_filter:
  "first_row p rs = (case filter p rs of [] \<Rightarrow> None | r # _ \<Rightarrow> Some r)"
  by (induction rs) auto

lemma scalar_one_or_none_SomeD:
  "scalar_one_or_none p rs = Inr (Some r) \<Longrightarrow> r \<in> set rs \<and> p r"
proof -
  assume "scalar_one_or_none p rs = Inr (Some r)"
  then have "filter p rs = [r]"
    by (auto simp: scalar_one_or_none_def split: list.splits)
  then have "r \<in> set (filter p rs)" by simp
  then show ?thesis by simp
qed

lemma scalar_one_InrD: "scalar_one p rs = Inr r \<Longrightarrow> r \<in> set rs \<and> p r"
proof -
  assume "scalar_one p rs = Inr r"
  then have "filter p rs = [r]"
    by (auto simp: scalar_one_def split: list.splits)
  then have "r \<in> set (filter p rs)" by simp
  then show ?thesis by simp
qed

lemma scalar_one_or_none_NoneD:
  "scalar_one_or_none p rs = Inr None \<Longrightarrow> \<forall>r \<in> set rs. \<not> p r"
  by (auto simp: scalar_one_or_none_def filter_empty_conv split: list.splits)

text \<open>A query over a key that is unique in the table never raises.\<close>

lemma filter_unique_key:
  assumes "distinct (map k rs)" and "\<And>x y. p x \<Longrightarrow> p y \<Longrightarrow> k x = k y"
  shows "filter p rs = [] \<or> (\<exists>r. filter p rs = [r])"
  using assms(1)
proof (induction rs)
  case Nil
  then show ?case by simp
next
  case (Cons a rs)
  show ?case
  proof (cases "p a")
    case True
    have "\<not> p x" if "x \<in> set rs" for x
      using that True Cons.prems assms(2) [of a x] by auto
    then have "filter p rs = []" by (simp add: filter_empty_conv)
    with True show ?thesis by simp
  next
    case False
    with Cons show ?thesis by simp
  qed
qed

lemma scalar_one_or_none_unique:
  assumes "distinct (map k rs)" and "\<And>x y. p x \<Longrightarrow> p y \<Longrightarrow> k x = k y"
  shows "scalar_one_or_none p rs = Inr (first_row p rs)"
proof -
  have "filter p rs = [] \<or> (\<exists>r. filter p rs = [r])"
    using assms by (rule filter_unique_key)
  then show ?thesis
    by (auto simp: scalar_one_or_none_def first_row_hd_filter)
qed

lemma update_where_map [simp]:
  "(\<And>r. p r \<Longrightarrow> k (f r) = k r) \<Longrightarrow> map k (update_where p f rs) = map k rs"
  by (induction rs) (auto simp: update_where_def)

lemma in_update_where:
  "r' \<in> set (update_where p f rs) \<longleftrightarrow> (\<exists>r \<in> set rs. r' = (if p r then f r else r))"
  by (auto simp: update_where_def)

lemma update_where_Nil [simp]: "update_where p f [] = []"
  by (simp add: update_where_def)

lemma update_where_Cons [simp]:
  "update_where p f (r # rs) = (if p r then f r else r) # update_where p f rs"
  by (simp add: update_where_def)

lemma unique_on_snoc [simp]:
  "unique_on p k (rs @ [r]) \<longleftrightarrow> unique_on p k rs \<and> \<not> violates p k rs r"
  by (simp add: unique_on_def violates_def list_ex_iff image_iff) metis

lemma unique_on_Nil [simp]: "unique_on p k []"
  by (simp add: unique_on_def)

lemma unique_on_first_row:
  assumes "unique_on p k rs" and "r \<in> set rs" and "p r" and "x \<in> set rs" and "p x" and "k x = k r"
  shows "x = r"
  using assms by (auto simp: unique_on_def distinct_map inj_on_def)

section \<open>JSON values\<close>

text \<open>
  The \<open>JSON_TYPE\<close> columns hold Python dicts. A dict keeps its insertion order, so it is an
  association list; \<open>d[k] = v\<close> and \<open>{**d, k: v}\<close> are \<open>AList.update\<close>, which overwrites in
  place or appends.
\<close>

datatype json =
    JNull
  | JBool bool
  | JNum decimal
  | JStr str
  | JList "json list"
  | JObj "(str \<times> json) list"

type_synonym dict = "(str \<times> json) list"

definition dict_get :: "dict \<Rightarrow> str \<Rightarrow> json \<Rightarrow> json" where
  "dict_get d k dflt = (case map_of d k of Some v \<Rightarrow> v | None \<Rightarrow> dflt)"

definition dict_set :: "dict \<Rightarrow> str \<Rightarrow> json \<Rightarrow> dict" where
  "dict_set d k v = AList.update k v d"

text \<open>The truth value of a JSON value as Python sees it.\<close>

fun json_truthy :: "json \<Rightarrow> bool" where
  "json_truthy JNull = False"
| "json_truthy (JBool b) = b"
| "json_truthy (JNum x) = (x \<noteq> 0)"
| "json_truthy (JStr s) = (s \<noteq> [])"
| "json_truthy (JList xs) = (xs \<noteq> [])"
| "json_truthy (JObj d) = (d \<noteq> [])"

definition json_opt :: "str option \<Rightarrow> json" where
  "json_opt s = (case s of None \<Rightarrow> JNull | Some x \<Rightarrow> JStr x)"

lemma dict_get_set [simp]:
  "dict_get (dict_set d k v) k' dflt = (if k' = k then v else dict_get d k' dflt)"
  by (simp add: dict_get_def dict_set_def update_conv')

section \<open>Python strings\<close>

text \<open>
  Strings are lists of ASCII characters: \<open>strip\<close>, \<open>upper\<close> and \<open>lower\<close> follow Python on
  ASCII text. \<open>str_uuid\<close> renders an identifier in hexadecimal digits; only its injectivity
  is used.
\<close>

definition char_code :: "char \<Rightarrow> nat" where
  "char_code c = of_char c"

definition is_space :: "char \<Rightarrow> bool" where
  "is_space c \<longleftrightarrow> char_code c \<in> {9, 10, 11, 12, 13, 28, 29, 30, 31, 32}"

definition strip :: "str \<Rightarrow> str" where
  "strip s = rev (dropWhile is_space (rev (dropWhile is_space s)))"

definition upper_char :: "char \<Rightarrow> char" where
  "upper_char c = (if 97 \<le> char_code c \<and> char_code c \<le> 122 then char_of (char_code c - 32) else c)"

definition lower_char :: "char \<Rightarrow> char" where
  "lower_char c = (if 65 \<le> char_code c \<and> char_code c \<le> 90 then char_of (char_code c + 32) else c)"

definition upper :: "str \<Rightarrow> str" where
  "upper s = map upper_char s"

definition lower :: "str \<Rightarrow> str" where
  "lower s = map lower_char s"

definition is_alpha :: "char \<Rightarrow> bool" where
  "is_alpha c \<longleftrightarrow> (65 \<le> char_code c \<and> char_code c \<le> 90) \<or> (97 \<le> char_code c \<and> char_code c \<le> 122)"

definition is_digit_char :: "char \<Rightarrow> bool" where
  "is_digit_char c \<longleftrightarrow> 48 \<le> char_code c \<and> char_code c \<le> 57"

definition isalpha :: "str \<Rightarrow> bool" where
  "isalpha s \<longleftrightarrow> s \<noteq> [] \<and> list_all is_alpha s"

definition isalnum :: "str \<Rightarrow> bool" where
  "isalnum s \<longleftrightarrow> s \<noteq> [] \<and> list_all (\<lambda>c. is_alpha c \<or> is_digit_char c) s"

definition hex_digit :: "nat \<Rightarrow> char" where
  "hex_digit n = char_of (if n < 10 then 48 + n else 87 + n)"

fun str_uuid :: "uuid \<Rightarrow> str" where
  "str_uuid n = (if n < 16 then [hex_digit n] else str_uuid (n div 16) @ [hex_digit (n mod 16)])"

declare str_uuid.simps [simp del]

text \<open>\<open>str(n)\<close> of an integer.\<close>

fun nat_digits :: "nat \<Rightarrow> str" where
  "nat_digits n = (if n < 10 then [char_of (48 + n)] else nat_digits (n div 10) @ [char_of (48 + n mod 10)])"

declare nat_digits.simps [simp del]

definition str_int :: "int \<Rightarrow> str" where
  "str_int n = (if n < 0 then ''-'' @ nat_digits (nat (- n)) else nat_digits (nat n))"

fun hex_value :: "char \<Rightarrow> nat" where
  "hex_value c = (if char_code c < 58 then char_code c - 48 else char_code c - 87)"

text \<open>\<open>uuid.UUID(s)\<close>, on the rendering of \<open>str_uuid\<close>.\<close>

definition parse_uuid :: "str \<Rightarrow> uuid option" where
  "parse_uuid s = (let n = foldl (\<lambda>a c. 16 * a + hex_value c) 0 s in if str_uuid n = s then Some n else None)"

definition starts_with :: "str \<Rightarrow> str \<Rightarrow> bool" where
  "starts_with prefix s \<longleftrightarrow> take (length prefix) s = prefix"

fun contains :: "str \<Rightarrow> str \<Rightarrow> bool" where
  "contains fragment [] = (fragment = [])"
| "contains fragment (c # s) = (starts_with fragment (c # s) \<or> contains fragment s)"

text \<open>
  \<open>urllib.parse.urlsplit\<close> as far as the sources look at the result: the scheme, the network
  location and the user information in it. The syntax check of a bracketed host is not modelled.
\<close>

record url_parts =
  url_scheme :: str
  url_netloc :: str
  url_username :: "str option"
  url_password :: "str option"

definition is_scheme_char :: "char \<Rightarrow> bool" where
  "is_scheme_char c \<longleftrightarrow> is_alpha c \<or> is_digit_char c \<or> c \<in> {CHR ''+'', CHR ''-'', CHR ''.''}"

definition user_info :: "str \<Rightarrow> str option \<times> str option" where
  "user_info netloc =
     (if CHR ''@'' \<notin> set netloc then (None, None)
      else
        let userinfo = rev (tl (dropWhile (\<lambda>c. c \<noteq> CHR ''@'') (rev netloc)));
            username = takeWhile (\<lambda>c. c \<noteq> CHR '':'') userinfo
        in (Some username,
            if CHR '':'' \<in> set userinfo then Some (drop (Suc (length username)) userinfo) else None))"

definition urlsplit :: "str \<Rightarrow> url_parts res" where
  "urlsplit s =
     (let url = filter (\<lambda>c. char_code c \<notin> {9, 10, 13}) (dropWhile (\<lambda>c. char_code c \<le> 32) s);
          head = takeWhile (\<lambda>c. c \<noteq> CHR '':'') url;
          has_scheme = (CHR '':'' \<in> set url \<and> head \<noteq> [] \<and> is_alpha (hd head) \<and> list_all is_scheme_char head);
          scheme = (if has_scheme then lower head else []);
          rest = (if has_scheme then drop (Suc (length head)) url else url);
          netloc = (if starts_with ''//'' rest
                    then takeWhile (\<lambda>c. c \<notin> {CHR ''/'', CHR ''?'', CHR ''#''}) (drop 2 rest) else [])
      in if (CHR ''['' \<in> set netloc) \<noteq> (CHR '']'' \<in> set netloc) then Inl ValueError
         else Inr \<lparr>url_scheme = scheme, url_netloc = netloc,
                   url_username = fst (user_info netloc), url_password = snd (user_info netloc)\<rparr>)"

lemmas str_simps =
  strip_def upper_def lower_def upper_char_def lower_char_def is_space_def char_code_def
  isalpha_def isalnum_def is_alpha_def is_digit_char_def

lemma hex_digit_inj: "m < 16 \<Longrightarrow> n < 16 \<Longrightarrow> hex_digit m = hex_digit n \<longleftrightarrow> m = n"
proof -
  assume m: "m < 16" and n: "n < 16"
  have "(of_char (hex_digit k) :: nat) = (if k < 10 then 48 + k else 87 + k)" if "k < 16" for k
    using that by (simp add: hex_digit_def)
  then have "hex_digit m = hex_digit n \<Longrightarrow>
      (if m < 10 then 48 + m else 87 + m) = (if n < 10 then 48 + n else 87 + n)"
    using m n by metis
  with m n show ?thesis by (auto split: if_splits)
qed

lemma str_uuid_nonempty [simp]: "str_uuid n \<noteq> []"
  by (subst str_uuid.simps) simp

lemma Nil_neq_str_uuid [simp]: "[] \<noteq> str_uuid n"
  by (simp add: not_sym)

lemma str_uuid_inj [simp]: "str_uuid m = str_uuid n \<longleftrightarrow> m = n"
proof
  show "str_uuid m = str_uuid n \<Longrightarrow> m = n"
  proof (induction m arbitrary: n rule: str_uuid.induct)
    case (1 m)
    have big: "k < 16 \<or> str_uuid k = str_uuid (k div 16) @ [hex_digit (k mod 16)]" for k
      by (cases "k < 16") (simp_all add: str_uuid.simps [of k])
    have small: "k < 16 \<Longrightarrow> str_uuid k = [hex_digit k]" for k
      by (subst str_uuid.simps) simp
    show ?case
    proof (cases "m < 16"; cases "n < 16")
      assume "m < 16" "n < 16"
      with "1.prems" show ?thesis by (simp add: small hex_digit_inj)
    next
      assume "m < 16" "\<not> n < 16"
      with "1.prems" big [of n] show ?thesis by (simp add: small)
    next
      assume "\<not> m < 16" "n < 16"
      with "1.prems" big [of m] show ?thesis by (simp add: small)
    next
      assume m: "\<not> m < 16" and n: "\<not> n < 16"
      with "1.prems" big [of m] big [of n]
      have "str_uuid (m div 16) = str_uuid (n div 16)" and "hex_digit (m mod 16) = hex_digit (n mod 16)"
        by auto
      then have "m div 16 = n div 16" and "m mod 16 = n mod 16"
        using "1.IH" [OF m] by (auto simp: hex_digit_inj)
      then show ?thesis by (metis div_mult_mod_eq)
    qed
  qed
qed simp

lemma strip_ident:
  assumes "s \<noteq> []" and "\<not> is_space (hd s)" and "\<not> is_space (last s)"
  shows "strip s = s"
proof -
  have "dropWhile is_space s = s" using assms by (cases s) auto
  moreover have "dropWhile is_space (rev s) = rev s" using assms by (cases "rev s") (auto simp: last_rev hd_rev)
  ultimately show ?thesis by (simp add: strip_def)
qed

lemma hex_digit_not_space: "n < 16 \<Longrightarrow> \<not> is_space (hex_digit n)"
  by (auto simp: is_space_def char_code_def hex_digit_def)

lemma last_str_uuid: "\<not> is_space (last (str_uuid n))"
  by (subst str_uuid.simps) (simp add: hex_digit_not_space)

lemma hex_value_digit: "n < 16 \<Longrightarrow> hex_value (hex_digit n) = n"
  by (simp add: char_code_def hex_digit_def)

lemma foldl_str_uuid: "foldl (\<lambda>a c. 16 * a + hex_value c) 0 (str_uuid n) = n"
proof (induction n rule: str_uuid.induct)
  case (1 n)
  show ?case
  proof (cases "n < 16")
    case True
    then show ?thesis by (subst str_uuid.simps) (simp add: hex_value_digit del: hex_value.simps)
  next
    case False
    then show ?thesis
      using 1 [OF False] by (subst str_uuid.simps) (simp add: hex_value_digit del: hex_value.simps)
  qed
qed

lemma parse_str_uuid [simp]: "parse_uuid (str_uuid n) = Some n"
  by (simp add: parse_uuid_def foldl_str_uuid del: hex_value.simps)

lemma parse_uuid_Some: "parse_uuid s = Some n \<Longrightarrow> s = str_uuid n"
  by (auto simp: parse_uuid_def Let_def split: if_splits)

section \<open>Decimal rounding\<close>

text \<open>
  \<open>quantize\<close> to a given number of places with the three rounding modes of the sources. Decimal
  values are exact rationals: the sums and products of the sources stay within the 28
  significant digits of Python's default context for values of their column types.
\<close>

definition round_half_up :: "decimal \<Rightarrow> int" where
  "round_half_up x = (if 0 \<le> x then \<lfloor>x + 1 / 2\<rfloor> else - \<lfloor>- x + 1 / 2\<rfloor>)"

definition round_down :: "decimal \<Rightarrow> int" where
  "round_down x = (if 0 \<le> x then \<lfloor>x\<rfloor> else - \<lfloor>- x\<rfloor>)"

definition round_half_even :: "decimal \<Rightarrow> int" where
  "round_half_even x =
     (let f = \<lfloor>x\<rfloor>; d = x - of_int f
      in if d < 1 / 2 then f else if d > 1 / 2 then f + 1 else if even f then f else f + 1)"

definition quantize :: "(decimal \<Rightarrow> int) \<Rightarrow> nat \<Rightarrow> decimal \<Rightarrow> decimal" where
  "quantize mode places x = of_int (mode (x * 10 ^ places)) / 10 ^ places"

lemma quantize_half_up_bounds:
  assumes "0 \<le> x"
  shows "quantize round_half_up p x \<le> x + 1 / (2 * 10 ^ p)"
    and "x - 1 / (2 * 10 ^ p) < quantize round_half_up p x"
proof -
  let ?s = "10 ^ p :: rat"
  have pos: "0 < ?s" by simp
  have q: "quantize round_half_up p x = of_int \<lfloor>x * ?s + 1 / 2\<rfloor> / ?s"
    using assms by (simp add: quantize_def round_half_up_def)
  have "of_int \<lfloor>x * ?s + 1 / 2\<rfloor> \<le> x * ?s + 1 / 2" by (rule of_int_floor_le)
  then show "quantize round_half_up p x \<le> x + 1 / (2 * 10 ^ p)"
    using pos by (simp add: q field_simps)
  have "x * ?s + 1 / 2 < of_int \<lfloor>x * ?s + 1 / 2\<rfloor> + 1" by linarith
  then have "(x * ?s - 1 / 2) / ?s < of_int \<lfloor>x * ?s + 1 / 2\<rfloor> / ?s"
    using pos by (intro divide_strict_right_mono) linarith+
  moreover have "(x * ?s - 1 / 2) / ?s = x - 1 / (2 * 10 ^ p)"
    using pos by (simp add: diff_divide_distrib)
  ultimately show "x - 1 / (2 * 10 ^ p) < quantize round_half_up p x"
    by (simp add: q)
qed

lemma quantize_down_bounds:
  assumes "0 \<le> x"
  shows "0 \<le> quantize round_down p x" and "quantize round_down p x \<le> x"
    and "x < quantize round_down p x + 1 / 10 ^ p"
proof -
  let ?s = "10 ^ p :: rat"
  have pos: "0 < ?s" by simp
  have q: "quantize round_down p x = of_int \<lfloor>x * ?s\<rfloor> / ?s"
    using assms by (simp add: quantize_def round_down_def)
  show "0 \<le> quantize round_down p x" using assms pos by (simp add: q)
  have "of_int \<lfloor>x * ?s\<rfloor> \<le> x * ?s" by (rule of_int_floor_le)
  then show "quantize round_down p x \<le> x" using pos by (simp add: q field_simps)
  have "x * ?s < of_int \<lfloor>x * ?s\<rfloor> + 1" by linarith
  then show "x < quantize round_down p x + 1 / 10 ^ p" using pos by (simp add: q field_simps)
qed

end
