(* ===== verification/Lifecycle.thy ===== *)
theory Lifecycle
  imports Prelude "HOL-Library.Sublist"
begin

text \<open>
  The two status machines of the program: orders (\<open>packages/commerce/state_machine.py\<close>, rows
  of \<open>packages/commerce/models.py\<close>) and payment intents
  (\<open>packages/payments/state_machine.py\<close>, rows of \<open>packages/payments/models.py\<close>). Both
  promise the same contract, the locale \<open>lifecycle\<close>; the order machine has no cycle, the
  locale \<open>ranked_lifecycle\<close>.
\<close>

section \<open>Orders\<close>

datatype OrderStatus =
    PENDING
  | PAYMENT_PENDING
  | PAID
  | PROCESSING
  | PARTIALLY_FULFILLED
  | FULFILLED
  | CANCELLED
  | FAILED
  | REFUNDED

record order =
  o_id :: uuid
  o_created_at :: timestamp
  o_tenant_id :: uuid
  o_user_id :: uuid
  o_order_number :: str
  o_status :: OrderStatus
  o_total_amount :: decimal
  o_currency :: str
  o_checkout_idempotency_key :: "str option"
  o_checkout_request_hash :: "str option"

fun LEGAL_TRANSITIONS :: "OrderStatus \<Rightarrow> OrderStatus list" where
  "LEGAL_TRANSITIONS OrderStatus.PENDING =
     [OrderStatus.PAYMENT_PENDING, OrderStatus.CANCELLED, OrderStatus.FAILED]"
| "LEGAL_TRANSITIONS OrderStatus.PAYMENT_PENDING =
     [OrderStatus.PAID, OrderStatus.CANCELLED, OrderStatus.FAILED]"
| "LEGAL_TRANSITIONS OrderStatus.PAID =
     [OrderStatus.PROCESSING, OrderStatus.REFUNDED, OrderStatus.CANCELLED, OrderStatus.FAILED]"
| "LEGAL_TRANSITIONS OrderStatus.PROCESSING =
     [OrderStatus.PARTIALLY_FULFILLED, OrderStatus.FULFILLED, OrderStatus.FAILED,
      OrderStatus.CANCELLED, OrderStatus.REFUNDED]"
| "LEGAL_TRANSITIONS OrderStatus.PARTIALLY_FULFILLED = [OrderStatus.FULFILLED, OrderStatus.FAILED]"
| "LEGAL_TRANSITIONS OrderStatus.FULFILLED = [OrderStatus.REFUNDED]"
| "LEGAL_TRANSITIONS OrderStatus.CANCELLED = []"
| "LEGAL_TRANSITIONS OrderStatus.FAILED = []"
| "LEGAL_TRANSITIONS OrderStatus.REFUNDED = []"

definition OrderStateMachine_can_transition :: "OrderStatus \<Rightarrow> OrderStatus \<Rightarrow> bool" where
  "OrderStateMachine_can_transition current target =
     (if current = target then True else target \<in> set (LEGAL_TRANSITIONS current))"

definition OrderStateMachine_transition :: "order \<Rightarrow> OrderStatus \<Rightarrow> error + order" where
  "OrderStateMachine_transition ord target =
     (let current_status = o_status ord in
      if \<not> OrderStateMachine_can_transition current_status target
      then Inl InvalidStateTransitionError
      else Inr (ord\<lparr>o_status := target\<rparr>))"

section \<open>Payment intents\<close>

datatype PaymentIntentStatus =
    CREATED
  | PENDING
  | PROCESSING
  | SUCCEEDED
  | FAILED
  | EXPIRED
  | UNKNOWN
  | CANCELLED

datatype PaymentIntentPurpose = ORDER_PAYMENT | WALLET_TOPUP

record payment_intent =
  pi_id :: uuid
  pi_created_at :: timestamp
  pi_tenant_id :: uuid
  pi_order_id :: "uuid option"
  pi_purpose :: PaymentIntentPurpose
  pi_user_id :: uuid
  pi_payment_method_id :: "uuid option"
  pi_provider :: str
  pi_provider_payment_id :: "str option"
  pi_checkout_url :: "str option"
  pi_currency :: str
  pi_amount :: decimal
  pi_status :: PaymentIntentStatus
  pi_idempotency_key :: str
  pi_expires_at :: "timestamp option"
  pi_metadata_json :: dict

fun LEGAL_PAYMENT_TRANSITIONS :: "PaymentIntentStatus \<Rightarrow> PaymentIntentStatus list" where
  "LEGAL_PAYMENT_TRANSITIONS PaymentIntentStatus.CREATED =
     [PaymentIntentStatus.PENDING, PaymentIntentStatus.PROCESSING, PaymentIntentStatus.SUCCEEDED,
      PaymentIntentStatus.CANCELLED, PaymentIntentStatus.EXPIRED, PaymentIntentStatus.FAILED,
      PaymentIntentStatus.UNKNOWN]"
| "LEGAL_PAYMENT_TRANSITIONS PaymentIntentStatus.PENDING =
     [PaymentIntentStatus.PROCESSING, PaymentIntentStatus.SUCCEEDED, PaymentIntentStatus.FAILED,
      PaymentIntentStatus.EXPIRED, PaymentIntentStatus.CANCELLED, PaymentIntentStatus.UNKNOWN]"
| "LEGAL_PAYMENT_TRANSITIONS PaymentIntentStatus.PROCESSING =
     [PaymentIntentStatus.SUCCEEDED, PaymentIntentStatus.FAILED, PaymentIntentStatus.UNKNOWN,
      PaymentIntentStatus.CANCELLED, PaymentIntentStatus.EXPIRED]"
| "LEGAL_PAYMENT_TRANSITIONS PaymentIntentStatus.UNKNOWN =
     [PaymentIntentStatus.SUCCEEDED, PaymentIntentStatus.FAILED, PaymentIntentStatus.PROCESSING,
      PaymentIntentStatus.EXPIRED, PaymentIntentStatus.CANCELLED]"
| "LEGAL_PAYMENT_TRANSITIONS PaymentIntentStatus.SUCCEEDED = []"
| "LEGAL_PAYMENT_TRANSITIONS PaymentIntentStatus.FAILED = []"
| "LEGAL_PAYMENT_TRANSITIONS PaymentIntentStatus.EXPIRED = []"
| "LEGAL_PAYMENT_TRANSITIONS PaymentIntentStatus.CANCELLED = []"

definition PaymentStateMachine_can_transition ::
  "PaymentIntentStatus \<Rightarrow> PaymentIntentStatus \<Rightarrow> bool" where
  "PaymentStateMachine_can_transition current target =
     (if current = target then True else target \<in> set (LEGAL_PAYMENT_TRANSITIONS current))"

definition PaymentStateMachine_transition ::
  "payment_intent \<Rightarrow> PaymentIntentStatus \<Rightarrow> error + payment_intent" where
  "PaymentStateMachine_transition intent target =
     (let current_status = pi_status intent in
      if \<not> PaymentStateMachine_can_transition current_status target
      then Inl InvalidStateTransitionError
      else Inr (intent\<lparr>pi_status := target\<rparr>))"

section \<open>The contract of a status machine\<close>

text \<open>Driving a row through a list of targets stops at the first exception.\<close>

fun drive :: "('r \<Rightarrow> 's \<Rightarrow> error + 'r) \<Rightarrow> 'r \<Rightarrow> 's list \<Rightarrow> error + 'r" where
  "drive transition r [] = Inr r"
| "drive transition r (t # ts) =
     (case transition r t of Inl e \<Rightarrow> Inl e | Inr r' \<Rightarrow> drive transition r' ts)"

locale lifecycle =
  fixes status :: "'r \<Rightarrow> 's"
    and can :: "'s \<Rightarrow> 's \<Rightarrow> bool"
    and transition :: "'r \<Rightarrow> 's \<Rightarrow> error + 'r"
    and terminal :: "'s \<Rightarrow> bool"
  assumes can_refl: "can s s"
    and terminal_closed: "terminal s \<Longrightarrow> can s t \<Longrightarrow> t = s"
    and nonterminal_open: "\<not> terminal s \<Longrightarrow> \<exists>t. t \<noteq> s \<and> can s t"
    and transition_ok: "can (status r) t \<Longrightarrow> \<exists>r'. transition r t = Inr r' \<and> status r' = t"
    and transition_error: "\<not> can (status r) t \<Longrightarrow> transition r t = Inl InvalidStateTransitionError"
begin

lemma transition_cases:
  obtains (ok) r' where "can (status r) t" "transition r t = Inr r'" "status r' = t"
  | (error) "\<not> can (status r) t" "transition r t = Inl InvalidStateTransitionError"
  using transition_ok transition_error by metis

lemma drive_iff_path:
  "(\<exists>r'. drive transition r ts = Inr r') \<longleftrightarrow> successively can (status r # ts)"
proof (induction ts arbitrary: r)
  case Nil
  then show ?case by simp
next
  case (Cons t ts)
  show ?case
  proof (cases rule: transition_cases [of r t])
    case (ok r')
    with Cons.IH [of r'] show ?thesis by simp
  next
    case error
    then show ?thesis by simp
  qed
qed

lemma drive_status:
  "drive transition r ts = Inr r' \<Longrightarrow> status r' = last (status r # ts)"
proof (induction ts arbitrary: r)
  case Nil
  then show ?case by simp
next
  case (Cons t ts)
  show ?case
  proof (cases rule: transition_cases [of r t])
    case (ok r1)
    with Cons show ?thesis by auto
  next
    case error
    with Cons.prems show ?thesis by simp
  qed
qed

lemma path_terminal:
  "terminal s \<Longrightarrow> successively can (s # ts) \<Longrightarrow> t \<in> set ts \<Longrightarrow> t = s"
  by (induction ts arbitrary: s) (auto dest: terminal_closed)

lemma drive_terminal:
  assumes "terminal (status r)" and "drive transition r ts = Inr r'"
  shows "status r' = status r"
proof -
  have "successively can (status r # ts)" using assms(2) drive_iff_path by blast
  then have "\<forall>t \<in> set ts. t = status r" using path_terminal [OF assms(1)] by blast
  then show ?thesis using drive_status [OF assms(2)] by (cases ts) (auto simp: last_in_set)
qed

lemma drive_error:
  "drive transition r ts = Inl e \<Longrightarrow> e = InvalidStateTransitionError"
proof (induction ts arbitrary: r)
  case Nil
  then show ?case by simp
next
  case (Cons t ts)
  then show ?case by (cases rule: transition_cases [of r t]) auto
qed

end

locale ranked_lifecycle = lifecycle +
  fixes rank :: "'b \<Rightarrow> nat"
  assumes can_rank: "can s t \<Longrightarrow> s \<noteq> t \<Longrightarrow> rank t < rank s"
begin

lemma path_changes_bound:
  "successively can (s # ts) \<Longrightarrow> length (remdups_adj (s # ts)) \<le> Suc (rank s)"
proof (induction ts arbitrary: s)
  case Nil
  then show ?case by simp
next
  case (Cons t ts)
  then have "length (remdups_adj (t # ts)) \<le> Suc (rank t)" by simp
  moreover have "s \<noteq> t \<Longrightarrow> rank t < rank s" using Cons.prems can_rank by simp
  ultimately show ?case by (cases "s = t") auto
qed

lemma path_never_returns:
  "successively can (s # ts) \<Longrightarrow> t \<in> set ts \<Longrightarrow> rank t \<le> rank s \<and> (rank t = rank s \<longrightarrow> t = s)"
proof (induction ts arbitrary: s)
  case Nil
  then show ?case by simp
next
  case (Cons u ts)
  have u: "u = s \<or> rank u < rank s" using Cons.prems(1) can_rank by auto
  from Cons.prems have "t = u \<or> (rank t \<le> rank u \<and> (rank t = rank u \<longrightarrow> t = u))"
    using Cons.IH by auto
  with u show ?case by auto
qed

lemma path_distinct: "successively can (s # ts) \<Longrightarrow> distinct (remdups_adj (s # ts))"
proof (induction ts arbitrary: s)
  case Nil
  then show ?case by simp
next
  case (Cons t ts)
  show ?case
  proof (cases "s = t")
    case True
    with Cons show ?thesis by simp
  next
    case False
    then have lt: "rank t < rank s" using Cons.prems can_rank by simp
    have "rank u \<le> rank t" if "u \<in> set (t # ts)" for u
      using that path_never_returns [of t ts u] Cons.prems by auto
    then have "s \<notin> set (t # ts)" using lt by fastforce
    with False Cons show ?thesis by simp
  qed
qed

end

subsection \<open>Both machines keep it\<close>

fun order_terminal :: "OrderStatus \<Rightarrow> bool" where
  "order_terminal s = (LEGAL_TRANSITIONS s = [])"

fun order_rank :: "OrderStatus \<Rightarrow> nat" where
  "order_rank OrderStatus.PENDING = 6"
| "order_rank OrderStatus.PAYMENT_PENDING = 5"
| "order_rank OrderStatus.PAID = 4"
| "order_rank OrderStatus.PROCESSING = 3"
| "order_rank OrderStatus.PARTIALLY_FULFILLED = 2"
| "order_rank OrderStatus.FULFILLED = 1"
| "order_rank OrderStatus.CANCELLED = 0"
| "order_rank OrderStatus.FAILED = 0"
| "order_rank OrderStatus.REFUNDED = 0"

fun payment_terminal :: "PaymentIntentStatus \<Rightarrow> bool" where
  "payment_terminal s = (LEGAL_PAYMENT_TRANSITIONS s = [])"

lemma OrderStateMachine_can_nonterminal:
  "LEGAL_TRANSITIONS s \<noteq> [] \<Longrightarrow> \<exists>t. t \<noteq> s \<and> OrderStateMachine_can_transition s t"
  by (cases s; auto simp: OrderStateMachine_can_transition_def)

lemma PaymentStateMachine_can_nonterminal:
  "LEGAL_PAYMENT_TRANSITIONS s \<noteq> [] \<Longrightarrow> \<exists>t. t \<noteq> s \<and> PaymentStateMachine_can_transition s t"
  by (cases s; auto simp: PaymentStateMachine_can_transition_def)

lemma order_rank_decreases:
  "OrderStateMachine_can_transition s t \<Longrightarrow> s \<noteq> t \<Longrightarrow> order_rank t < order_rank s"
  by (cases s; auto simp: OrderStateMachine_can_transition_def)

interpretation order_machine: ranked_lifecycle
  o_status OrderStateMachine_can_transition OrderStateMachine_transition order_terminal order_rank
proof unfold_locales
  show "\<not> order_terminal s \<Longrightarrow> \<exists>t. t \<noteq> s \<and> OrderStateMachine_can_transition s t" for s
    using OrderStateMachine_can_nonterminal by simp
qed (auto simp: OrderStateMachine_can_transition_def OrderStateMachine_transition_def Let_def
       order_rank_decreases [unfolded OrderStateMachine_can_transition_def] split: if_splits)

interpretation payment_machine: lifecycle
  pi_status PaymentStateMachine_can_transition PaymentStateMachine_transition payment_terminal
proof unfold_locales
  show "\<not> payment_terminal s \<Longrightarrow> \<exists>t. t \<noteq> s \<and> PaymentStateMachine_can_transition s t" for s
    using PaymentStateMachine_can_nonterminal by simp
qed (auto simp: PaymentStateMachine_can_transition_def PaymentStateMachine_transition_def Let_def
       split: if_splits)

lemma order_transition_simps [simp]:
  "OrderStateMachine_transition r t = Inr r' \<longleftrightarrow>
     OrderStateMachine_can_transition (o_status r) t \<and> r' = r\<lparr>o_status := t\<rparr>"
  "OrderStateMachine_transition r t = Inl e \<longleftrightarrow>
     \<not> OrderStateMachine_can_transition (o_status r) t \<and> e = InvalidStateTransitionError"
  by (auto simp: OrderStateMachine_transition_def)

lemma payment_transition_simps [simp]:
  "PaymentStateMachine_transition i t = Inr i' \<longleftrightarrow>
     PaymentStateMachine_can_transition (pi_status i) t \<and> i' = i\<lparr>pi_status := t\<rparr>"
  "PaymentStateMachine_transition i t = Inl e \<longleftrightarrow>
     \<not> PaymentStateMachine_can_transition (pi_status i) t \<and> e = InvalidStateTransitionError"
  by (auto simp: PaymentStateMachine_transition_def)

section \<open>What an order must have been through\<close>

text \<open>The statuses every legal history from \<open>PENDING\<close> shows before its last status.\<close>

fun order_needs :: "OrderStatus \<Rightarrow> OrderStatus list" where
  "order_needs OrderStatus.PAID = [OrderStatus.PAYMENT_PENDING]"
| "order_needs OrderStatus.PROCESSING = [OrderStatus.PAYMENT_PENDING, OrderStatus.PAID]"
| "order_needs OrderStatus.PARTIALLY_FULFILLED =
     [OrderStatus.PAYMENT_PENDING, OrderStatus.PAID, OrderStatus.PROCESSING]"
| "order_needs OrderStatus.FULFILLED =
     [OrderStatus.PAYMENT_PENDING, OrderStatus.PAID, OrderStatus.PROCESSING]"
| "order_needs OrderStatus.REFUNDED = [OrderStatus.PAYMENT_PENDING, OrderStatus.PAID]"
| "order_needs s = []"

lemma order_needs_step:
  "OrderStateMachine_can_transition s t \<Longrightarrow> s \<noteq> t \<Longrightarrow> subseq (order_needs t) (order_needs s @ [s])"
  by (cases s; auto simp: OrderStateMachine_can_transition_def)

lemma order_needs_path:
  "successively OrderStateMachine_can_transition (OrderStatus.PENDING # xs @ [t]) \<Longrightarrow>
   subseq (order_needs t) xs"
proof (induction xs arbitrary: t rule: rev_induct)
  case Nil
  then show ?case by (cases t) (auto simp: OrderStateMachine_can_transition_def)
next
  case (snoc s xs)
  have path: "successively OrderStateMachine_can_transition (OrderStatus.PENDING # xs @ [s])"
    and step: "OrderStateMachine_can_transition s t"
    using snoc.prems successively_append_iff
      [of OrderStateMachine_can_transition "OrderStatus.PENDING # xs @ [s]" "[t]"]
    by simp_all
  have IH: "subseq (order_needs s) xs" using snoc.IH [OF path] .
  show ?case
  proof (cases "s = t")
    case True
    with IH show ?thesis by (simp add: subseq_append_iff) (metis append_Nil2 list_emb_Nil)
  next
    case False
    with step have "subseq (order_needs t) (order_needs s @ [s])" by (rule order_needs_step)
    moreover have "subseq (order_needs s @ [s]) (xs @ [s])" using IH by simp
    ultimately show ?thesis by (rule subseq_order.order_trans)
  qed
qed

section \<open>Properties\<close>

definition sample_order :: order where
  "sample_order = \<lparr>o_id = 1, o_created_at = 0, o_tenant_id = 7, o_user_id = 8, o_order_number = ''ORD-1'',
     o_status = OrderStatus.PENDING, o_total_amount = 40, o_currency = ''USD'',
     o_checkout_idempotency_key = None, o_checkout_request_hash = None\<rparr>"

text \<open>A fulfilled order was paid and processed: every sequence of successful transitions that takes a new
  order to \<open>FULFILLED\<close> goes through \<open>PAYMENT_PENDING\<close>, \<open>PAID\<close> and \<open>PROCESSING\<close>, in this order; one that
  takes it to \<open>REFUNDED\<close> goes through \<open>PAYMENT_PENDING\<close> and \<open>PAID\<close>.\<close>

theorem fulfilled_order_was_paid:
  assumes "o_status ord = OrderStatus.PENDING"
    and "drive OrderStateMachine_transition ord (xs @ [t]) = Inr ord'"
  shows "(t = OrderStatus.FULFILLED \<longrightarrow>
      subseq [OrderStatus.PAYMENT_PENDING, OrderStatus.PAID, OrderStatus.PROCESSING] xs) \<and>
    (t = OrderStatus.REFUNDED \<longrightarrow> subseq [OrderStatus.PAYMENT_PENDING, OrderStatus.PAID] xs) \<and>
    o_status ord' = t"
proof -
  have "successively OrderStateMachine_can_transition (OrderStatus.PENDING # xs @ [t])"
    using order_machine.drive_iff_path [of ord "xs @ [t]"] assms by auto
  then have "subseq (order_needs t) xs" by (rule order_needs_path)
  moreover have "o_status ord' = t" using order_machine.drive_status [OF assms(2)] by simp
  ultimately show ?thesis by auto
qed

theorem fulfilled_order_was_paid_witness:
  "\<exists>ord'. drive OrderStateMachine_transition sample_order
       ([OrderStatus.PAYMENT_PENDING, OrderStatus.PAID, OrderStatus.PROCESSING] @ [OrderStatus.FULFILLED]) = Inr ord' \<and>
     o_status ord' = OrderStatus.FULFILLED"
proof -
  have p: "o_status sample_order = OrderStatus.PENDING" by (simp add: sample_order_def)
  have "successively OrderStateMachine_can_transition (o_status sample_order #
      [OrderStatus.PAYMENT_PENDING, OrderStatus.PAID, OrderStatus.PROCESSING] @ [OrderStatus.FULFILLED])"
    by (simp add: OrderStateMachine_can_transition_def sample_order_def)
  then obtain ord' where "drive OrderStateMachine_transition sample_order
       ([OrderStatus.PAYMENT_PENDING, OrderStatus.PAID, OrderStatus.PROCESSING] @ [OrderStatus.FULFILLED]) = Inr ord'"
    using order_machine.drive_iff_path by blast
  then show ?thesis using fulfilled_order_was_paid [OF p] by blast
qed

text \<open>C34: An order moves forward only: in a sequence of successful transitions it shows at most
  \<open>order_rank + 1\<close> different statuses in a row (seven for a new order), it never returns to a status it
  has left, and once it is \<open>CANCELLED\<close>, \<open>FAILED\<close> or \<open>REFUNDED\<close> it stays so.\<close>

theorem order_moves_forward:
  assumes "drive OrderStateMachine_transition ord ts = Inr ord'"
  shows "length (remdups_adj (o_status ord # ts)) \<le> Suc (order_rank (o_status ord)) \<and>
    distinct (remdups_adj (o_status ord # ts)) \<and>
    (o_status ord \<in> {OrderStatus.CANCELLED, OrderStatus.FAILED, OrderStatus.REFUNDED} \<longrightarrow>
       o_status ord' = o_status ord)"
proof -
  have path: "successively OrderStateMachine_can_transition (o_status ord # ts)"
    using order_machine.drive_iff_path assms by blast
  have "o_status ord \<in> {OrderStatus.CANCELLED, OrderStatus.FAILED, OrderStatus.REFUNDED} \<Longrightarrow>
      order_terminal (o_status ord)"
    by auto
  then show ?thesis
    using order_machine.path_changes_bound [OF path] order_machine.path_distinct [OF path]
      order_machine.drive_terminal [OF _ assms] by blast
qed

theorem order_moves_forward_witness:
  "distinct (remdups_adj (o_status sample_order # [OrderStatus.PAYMENT_PENDING, OrderStatus.CANCELLED]))"
proof -
  have "\<exists>r. drive OrderStateMachine_transition sample_order [OrderStatus.PAYMENT_PENDING, OrderStatus.CANCELLED] = Inr r"
    unfolding order_machine.drive_iff_path by (simp add: OrderStateMachine_can_transition_def sample_order_def)
  then show ?thesis using order_moves_forward by blast
qed

text \<open>A payment intent that has succeeded, failed, expired or been cancelled keeps that status through
  every sequence of successful transitions, and any attempt to leave it raises
  \<open>InvalidStateTransitionError\<close>; from every other status the intent can still succeed.\<close>

theorem payment_outcome_is_final:
  "if pi_status intent \<in> {PaymentIntentStatus.SUCCEEDED, PaymentIntentStatus.FAILED,
        PaymentIntentStatus.EXPIRED, PaymentIntentStatus.CANCELLED}
   then drive PaymentStateMachine_transition intent ts =
     (if set ts \<subseteq> {pi_status intent} then Inr intent else Inl InvalidStateTransitionError)
   else PaymentStateMachine_transition intent PaymentIntentStatus.SUCCEEDED =
     Inr (intent\<lparr>pi_status := PaymentIntentStatus.SUCCEEDED\<rparr>)"
proof -
  have stay: "PaymentStateMachine_transition intent t =
      (if t = pi_status intent then Inr intent else Inl InvalidStateTransitionError)"
    if "pi_status intent \<in> {PaymentIntentStatus.SUCCEEDED, PaymentIntentStatus.FAILED,
        PaymentIntentStatus.EXPIRED, PaymentIntentStatus.CANCELLED}" for t
    using that by (cases intent) (auto simp: PaymentStateMachine_transition_def PaymentStateMachine_can_transition_def)
  have "drive PaymentStateMachine_transition intent ts =
     (if set ts \<subseteq> {pi_status intent} then Inr intent else Inl InvalidStateTransitionError)"
    if "pi_status intent \<in> {PaymentIntentStatus.SUCCEEDED, PaymentIntentStatus.FAILED,
        PaymentIntentStatus.EXPIRED, PaymentIntentStatus.CANCELLED}"
    using stay [OF that] by (induction ts) auto
  moreover have "PaymentStateMachine_transition intent PaymentIntentStatus.SUCCEEDED =
     Inr (intent\<lparr>pi_status := PaymentIntentStatus.SUCCEEDED\<rparr>)"
    if "pi_status intent \<notin> {PaymentIntentStatus.SUCCEEDED, PaymentIntentStatus.FAILED,
        PaymentIntentStatus.EXPIRED, PaymentIntentStatus.CANCELLED}"
    using that by (cases "pi_status intent") (auto simp: PaymentStateMachine_can_transition_def)
  ultimately show ?thesis by simp
qed

end
