(* ===== verification/Ledger.thy ===== *)
theory Ledger
  imports Lifecycle
begin

text \<open>
  The wallet ledger: \<open>Wallet\<close> and \<open>LedgerTransaction\<close> (\<open>packages/payments/models.py\<close>),
  \<open>WalletHold\<close> (\<open>packages/payments/economics_models.py\<close>), every operation of
  \<open>LedgerService\<close> (\<open>packages/payments/service.py\<close>) and of \<open>WalletHoldService\<close>
  (\<open>packages/payments/economics.py\<close>).

  The store is an extensible record: the later theories add their tables to it, and every
  operation here works on all extensions and leaves the added tables alone. A wallet row lock
  (\<open>with_for_update\<close>) serialises the operations on one wallet, so each operation is one
  atomic step. The clock is the argument \<open>now\<close>; fresh primary keys come from \<open>next_id\<close>.
\<close>

section \<open>Rows\<close>

datatype TransactionType = CREDIT | DEBIT | REFUND | ADJUSTMENT

record wallet =
  w_id :: uuid
  w_tenant_id :: uuid
  w_user_id :: uuid
  w_currency :: str
  w_balance :: decimal
  w_is_active :: bool

record ledger_transaction =
  lt_id :: uuid
  lt_created_at :: timestamp
  lt_tenant_id :: uuid
  lt_wallet_id :: uuid
  lt_transaction_type :: TransactionType
  lt_amount :: decimal
  lt_balance_before :: decimal
  lt_balance_after :: decimal
  lt_reference_id :: "str option"
  lt_reference_type :: "str option"
  lt_description :: "str option"

datatype WalletHoldStatus = ACTIVE | CAPTURED | RELEASED | EXPIRED

record wallet_hold =
  h_id :: uuid
  h_tenant_id :: uuid
  h_wallet_id :: uuid
  h_amount :: decimal
  h_status :: WalletHoldStatus
  h_idempotency_key :: str
  h_reference_type :: str
  h_reference_id :: str
  h_expires_at :: "timestamp option"
  h_captured_at :: "timestamp option"
  h_released_at :: "timestamp option"

record ledger_db =
  next_id :: uuid
  wallets :: "wallet list"
  ledger :: "ledger_transaction list"
  holds :: "wallet_hold list"

definition CANONICAL_REFUND_TYPE :: str where
  "CANONICAL_REFUND_TYPE = ''ORDER_FULFILLMENT_REFUND''"

definition CANONICAL_SETTLEMENT_TYPE :: str where
  "CANONICAL_SETTLEMENT_TYPE = ''PAYMENT_SETTLEMENT''"

definition CANONICAL_PAYMENT_REFUND_TYPE :: str where
  "CANONICAL_PAYMENT_REFUND_TYPE = ''PAYMENT_REFUND''"

definition CANONICAL_TOPUP_REVERSAL_TYPE :: str where
  "CANONICAL_TOPUP_REVERSAL_TYPE = ''WALLET_TOPUP_REVERSAL''"

definition CANONICAL_FLEXIBLE_DEPOSIT_TYPE :: str where
  "CANONICAL_FLEXIBLE_DEPOSIT_TYPE = ''FLEXIBLE_DEPOSIT_SETTLEMENT''"

definition WALLET_HOLD_CAPTURE_REF :: str where
  "WALLET_HOLD_CAPTURE_REF = ''WALLET_HOLD_CAPTURE''"

lemmas reference_type_defs =
  CANONICAL_REFUND_TYPE_def CANONICAL_SETTLEMENT_TYPE_def CANONICAL_PAYMENT_REFUND_TYPE_def
  CANONICAL_TOPUP_REVERSAL_TYPE_def CANONICAL_FLEXIBLE_DEPOSIT_TYPE_def WALLET_HOLD_CAPTURE_REF_def

section \<open>Constraints of the tables\<close>

text \<open>
  The partial unique indexes of \<open>ledger_transactions\<close>. All of them have the key
  \<open>(wallet_id, reference_type, reference_id)\<close> and differ in the rows they cover.
\<close>

definition ledger_key :: "ledger_transaction \<Rightarrow> uuid \<times> str option \<times> str option" where
  "ledger_key t = (lt_wallet_id t, lt_reference_type t, lt_reference_id t)"

definition uq_refund_idempotency :: "ledger_transaction \<Rightarrow> bool" where
  "uq_refund_idempotency t \<longleftrightarrow>
     lt_transaction_type t = REFUND \<and> lt_reference_type t \<noteq> None \<and> lt_reference_id t \<noteq> None"

definition uq_settlement_idempotency :: "ledger_transaction \<Rightarrow> bool" where
  "uq_settlement_idempotency t \<longleftrightarrow>
     lt_transaction_type t = CREDIT \<and> lt_reference_type t = Some ''PAYMENT_SETTLEMENT'' \<and>
     lt_reference_id t \<noteq> None"

definition uq_topup_reversal_debit :: "ledger_transaction \<Rightarrow> bool" where
  "uq_topup_reversal_debit t \<longleftrightarrow>
     lt_transaction_type t = DEBIT \<and> lt_reference_type t = Some ''WALLET_TOPUP_REVERSAL'' \<and>
     lt_reference_id t \<noteq> None"

definition uq_flexible_deposit_settlement :: "ledger_transaction \<Rightarrow> bool" where
  "uq_flexible_deposit_settlement t \<longleftrightarrow>
     lt_transaction_type t = CREDIT \<and> lt_reference_type t = Some ''FLEXIBLE_DEPOSIT_SETTLEMENT'' \<and>
     lt_reference_id t \<noteq> None"

definition uq_wallet_hold_capture :: "ledger_transaction \<Rightarrow> bool" where
  "uq_wallet_hold_capture t \<longleftrightarrow>
     lt_transaction_type t = DEBIT \<and> lt_reference_type t = Some ''WALLET_HOLD_CAPTURE'' \<and>
     lt_reference_id t \<noteq> None"

definition ledger_indexes :: "(ledger_transaction \<Rightarrow> bool) list" where
  "ledger_indexes =
     [uq_refund_idempotency, uq_settlement_idempotency, uq_topup_reversal_debit,
      uq_flexible_deposit_settlement, uq_wallet_hold_capture]"

definition ledger_conflict :: "ledger_transaction list \<Rightarrow> ledger_transaction \<Rightarrow> bool" where
  "ledger_conflict l t \<longleftrightarrow> list_ex (\<lambda>p. violates p ledger_key l t) ledger_indexes"

text \<open>\<open>session.add(tx); await session.flush()\<close> for a new ledger row.\<close>

definition flush_ledger ::
  "'x ledger_db_scheme \<Rightarrow> ledger_transaction \<Rightarrow> ('x ledger_db_scheme, ledger_transaction) run" where
  "flush_ledger db t =
     (if ledger_conflict (ledger db) t then (db, Inl IntegrityError)
      else (db\<lparr>ledger := ledger db @ [t], next_id := Suc (next_id db)\<rparr>, Inr t))"

definition set_balance :: "uuid \<Rightarrow> decimal \<Rightarrow> 'x ledger_db_scheme \<Rightarrow> 'x ledger_db_scheme" where
  "set_balance wid b db =
     db\<lparr>wallets := update_where (\<lambda>w. w_id w = wid) (\<lambda>w. w\<lparr>w_balance := b\<rparr>) (wallets db)\<rparr>"

text \<open>
  The body every balance change has: \<open>wallet.balance = balance_after\<close>, the new
  \<open>LedgerTransaction\<close> row with the balance before and after, \<open>add\<close> and \<open>flush\<close>.
\<close>

definition book ::
  "'x ledger_db_scheme \<Rightarrow> wallet \<Rightarrow> TransactionType \<Rightarrow> decimal \<Rightarrow> decimal \<Rightarrow>
   str option \<Rightarrow> str option \<Rightarrow> str option \<Rightarrow> timestamp \<Rightarrow>
   ('x ledger_db_scheme, ledger_transaction) run" where
  "book db wlt ty amount balance_after reference_id reference_type description now =
     flush_ledger (set_balance (w_id wlt) balance_after db)
       \<lparr>lt_id = next_id db, lt_created_at = now, lt_tenant_id = w_tenant_id wlt,
        lt_wallet_id = w_id wlt, lt_transaction_type = ty, lt_amount = amount,
        lt_balance_before = w_balance wlt, lt_balance_after = balance_after,
        lt_reference_id = reference_id, lt_reference_type = reference_type,
        lt_description = description\<rparr>"

section \<open>LedgerService\<close>

definition lock_wallet ::
  "'x ledger_db_scheme \<Rightarrow> wallet \<Rightarrow> ('x ledger_db_scheme, wallet) run" where
  "lock_wallet db wlt =
     lift_res db
       (scalar_one_or_none (\<lambda>w. w_id w = w_id wlt \<and> w_tenant_id w = w_tenant_id wlt) (wallets db))
       (\<lambda>db r. case r of None \<Rightarrow> (db, Inl ValueError) | Some w \<Rightarrow> (db, Inr w))"

definition wallet_key :: "wallet \<Rightarrow> uuid \<times> uuid \<times> str" where
  "wallet_key w = (w_tenant_id w, w_user_id w, w_currency w)"

definition flush_wallet ::
  "'x ledger_db_scheme \<Rightarrow> wallet \<Rightarrow> ('x ledger_db_scheme, wallet) run" where
  "flush_wallet db w =
     (if violates (\<lambda>_. True) wallet_key (wallets db) w then (db, Inl IntegrityError)
      else (db\<lparr>wallets := wallets db @ [w], next_id := Suc (next_id db)\<rparr>, Inr w))"

definition get_or_create_wallet ::
  "'x ledger_db_scheme \<Rightarrow> uuid \<Rightarrow> uuid \<Rightarrow> str \<Rightarrow> ('x ledger_db_scheme, wallet) run" where
  "get_or_create_wallet db tenant_id user_id currency =
     (let stmt = (\<lambda>w. w_tenant_id w = tenant_id \<and> w_user_id w = user_id \<and> w_currency w = currency) in
      lift_res db (scalar_one_or_none stmt (wallets db))
        (\<lambda>db r. case r of
            Some w \<Rightarrow> (db, Inr w)
          | None \<Rightarrow>
              on_integrity_error
                (nested db (flush_wallet db
                   \<lparr>w_id = next_id db, w_tenant_id = tenant_id, w_user_id = user_id,
                    w_currency = currency, w_balance = 0, w_is_active = True\<rparr>))
                (\<lambda>db. lift_res db (scalar_one stmt (wallets db)) (\<lambda>db w. (db, Inr w)))))"

definition credit ::
  "'x ledger_db_scheme \<Rightarrow> wallet \<Rightarrow> decimal \<Rightarrow> str option \<Rightarrow> str option \<Rightarrow> str option \<Rightarrow>
   timestamp \<Rightarrow> ('x ledger_db_scheme, ledger_transaction) run" where
  "credit db wlt amount reference_id reference_type description now =
     (if amount \<le> 0 then (db, Inl ValueError)
      else and_then (lock_wallet db wlt) (\<lambda>db wlt.
        book db wlt CREDIT amount (w_balance wlt + amount) reference_id reference_type description now))"

text \<open>\<open>description or default\<close>\<close>

definition or_default :: "str option \<Rightarrow> str \<Rightarrow> str option" where
  "or_default d dflt = (case d of None \<Rightarrow> Some dflt | Some s \<Rightarrow> if s = [] then Some dflt else Some s)"

text \<open>\<open>for _ in range(n)\<close>: run the query again until it finds a row.\<close>

fun requery :: "nat \<Rightarrow> (unit \<Rightarrow> 'r option) \<Rightarrow> 'r option" where
  "requery 0 q = None"
| "requery (Suc n) q = (case q () of Some r \<Rightarrow> Some r | None \<Rightarrow> requery n q)"

definition find_entry ::
  "'x ledger_db_scheme \<Rightarrow> uuid \<Rightarrow> TransactionType \<Rightarrow> str \<Rightarrow> str \<Rightarrow> ledger_transaction option" where
  "find_entry db wid ty ref_type ref_id =
     first_row (\<lambda>t. lt_wallet_id t = wid \<and> lt_transaction_type t = ty \<and>
                    lt_reference_type t = Some ref_type \<and> lt_reference_id t = Some ref_id) (ledger db)"

definition settle_payment ::
  "'x ledger_db_scheme \<Rightarrow> wallet \<Rightarrow> decimal \<Rightarrow> uuid \<Rightarrow> str option \<Rightarrow> timestamp \<Rightarrow>
   ('x ledger_db_scheme, ledger_transaction) run" where
  "settle_payment db wlt amount payment_intent_id description now =
     (if amount \<le> 0 then (db, Inl ValueError)
      else and_then (lock_wallet db wlt) (\<lambda>db wlt.
        let ref_id = str_uuid payment_intent_id;
            ref_type = CANONICAL_SETTLEMENT_TYPE;
            stmt = (\<lambda>db. find_entry db (w_id wlt) CREDIT ref_type ref_id);
            checked = (\<lambda>db tx. if lt_amount tx \<noteq> amount then (db, Inl LedgerIntegrityError)
                               else (db, Inr tx))
        in case stmt db of
          Some existing_tx \<Rightarrow> checked db existing_tx
        | None \<Rightarrow>
            on_integrity_error
              (nested db (book db wlt CREDIT amount (w_balance wlt + amount) (Some ref_id) (Some ref_type)
                 (or_default description (''Payment settlement for intent '' @ ref_id)) now))
              (\<lambda>db.
                 case (case stmt db of None \<Rightarrow> requery 20 (\<lambda>_. stmt db) | Some t \<Rightarrow> Some t) of
                   Some existing_tx \<Rightarrow> checked db existing_tx
                 | None \<Rightarrow> (db, Inl IntegrityError))))"

definition reserve_topup_reversal ::
  "'x ledger_db_scheme \<Rightarrow> wallet \<Rightarrow> decimal \<Rightarrow> uuid \<Rightarrow> str option \<Rightarrow> timestamp \<Rightarrow>
   ('x ledger_db_scheme, ledger_transaction) run" where
  "reserve_topup_reversal db wlt amount reversal_id description now =
     (if amount \<le> 0 then (db, Inl ValueError)
      else and_then (lock_wallet db wlt) (\<lambda>db wlt.
        let reference_id = str_uuid reversal_id;
            stmt = (\<lambda>db. find_entry db (w_id wlt) DEBIT CANONICAL_TOPUP_REVERSAL_TYPE reference_id);
            checked = (\<lambda>db tx. if lt_amount tx \<noteq> amount then (db, Inl LedgerIntegrityError)
                               else (db, Inr tx))
        in case stmt db of
          Some existing_tx \<Rightarrow> checked db existing_tx
        | None \<Rightarrow>
            if w_balance wlt < amount then (db, Inl InsufficientFundsError)
            else on_integrity_error
              (nested db (book db wlt DEBIT amount (w_balance wlt - amount)
                 (Some reference_id) (Some CANONICAL_TOPUP_REVERSAL_TYPE)
                 (or_default description (''Wallet top-up reversal reservation '' @ reference_id)) now))
              (\<lambda>db. case stmt db of
                  Some existing_tx \<Rightarrow> checked db existing_tx
                | None \<Rightarrow> (db, Inl IntegrityError))))"

definition settle_flexible_deposit ::
  "'x ledger_db_scheme \<Rightarrow> wallet \<Rightarrow> decimal \<Rightarrow> uuid \<Rightarrow> str option \<Rightarrow> timestamp \<Rightarrow>
   ('x ledger_db_scheme, ledger_transaction) run" where
  "settle_flexible_deposit db wlt amount flexible_deposit_id description now =
     (if amount \<le> 0 then (db, Inl ValueError)
      else and_then (lock_wallet db wlt) (\<lambda>db wlt.
        let ref_id = str_uuid flexible_deposit_id;
            stmt = (\<lambda>db. find_entry db (w_id wlt) CREDIT CANONICAL_FLEXIBLE_DEPOSIT_TYPE ref_id)
        in case stmt db of
          Some existing \<Rightarrow>
            if lt_amount existing \<noteq> amount then (db, Inl LedgerIntegrityError) else (db, Inr existing)
        | None \<Rightarrow>
            on_integrity_error
              (nested db (book db wlt CREDIT amount (w_balance wlt + amount)
                 (Some ref_id) (Some CANONICAL_FLEXIBLE_DEPOSIT_TYPE)
                 (or_default description ''Flexible deposit settlement'') now))
              (\<lambda>db. case stmt db of
                  None \<Rightarrow> (db, Inl LedgerIntegrityError)
                | Some existing \<Rightarrow>
                    if lt_amount existing \<noteq> amount then (db, Inl LedgerIntegrityError)
                    else (db, Inr existing))))"

definition active_total :: "'x ledger_db_scheme \<Rightarrow> uuid \<Rightarrow> decimal" where
  "active_total db wid =
     sum_list (map h_amount (filter (\<lambda>h. h_wallet_id h = wid \<and> h_status h = ACTIVE) (holds db)))"

definition debit ::
  "'x ledger_db_scheme \<Rightarrow> wallet \<Rightarrow> decimal \<Rightarrow> str option \<Rightarrow> str option \<Rightarrow> str option \<Rightarrow>
   timestamp \<Rightarrow> ('x ledger_db_scheme, ledger_transaction) run" where
  "debit db wlt amount reference_id reference_type description now =
     (if amount \<le> 0 then (db, Inl ValueError)
      else and_then (lock_wallet db wlt) (\<lambda>db wlt.
        if \<not> w_is_active wlt then (db, Inl InsufficientFundsError)
        else
          let held_total = active_total db (w_id wlt);
              available_balance = w_balance wlt - held_total
          in if available_balance < amount then (db, Inl InsufficientFundsError)
             else book db wlt DEBIT amount (w_balance wlt - amount)
                    reference_id reference_type description now))"

text \<open>\<open>if reference_id and reference_type\<close>: both present and not empty.\<close>

definition truthy_pair :: "str option \<Rightarrow> str option \<Rightarrow> (str \<times> str) option" where
  "truthy_pair a b =
     (case (a, b) of
        (Some x, Some y) \<Rightarrow> if x \<noteq> [] \<and> y \<noteq> [] then Some (x, y) else None
      | _ \<Rightarrow> None)"

definition refund ::
  "'x ledger_db_scheme \<Rightarrow> wallet \<Rightarrow> decimal \<Rightarrow> str option \<Rightarrow> str option \<Rightarrow> str option \<Rightarrow>
   timestamp \<Rightarrow> ('x ledger_db_scheme, ledger_transaction) run" where
  "refund db wlt amount reference_id reference_type description now =
     (if amount \<le> 0 then (db, Inl ValueError)
      else and_then (lock_wallet db wlt) (\<lambda>db wlt.
        let refs = truthy_pair reference_id reference_type;
            stmt = (\<lambda>db. case refs of
                       None \<Rightarrow> None
                     | Some (rid, rty) \<Rightarrow> find_entry db (w_id wlt) REFUND rty rid);
            checked = (\<lambda>db tx. if lt_amount tx \<noteq> amount then (db, Inl LedgerIntegrityError)
                               else (db, Inr tx))
        in case stmt db of
          Some existing_tx \<Rightarrow> checked db existing_tx
        | None \<Rightarrow>
            on_integrity_error
              (nested db (book db wlt REFUND amount (w_balance wlt + amount) reference_id reference_type
                 (or_default description ''Refund'') now))
              (\<lambda>db.
                 case (case stmt db of None \<Rightarrow> requery 20 (\<lambda>_. stmt db) | Some t \<Rightarrow> Some t) of
                   Some existing_tx \<Rightarrow> checked db existing_tx
                 | None \<Rightarrow> (db, Inl IntegrityError))))"

definition adjust ::
  "'x ledger_db_scheme \<Rightarrow> wallet \<Rightarrow> decimal \<Rightarrow> str \<Rightarrow> timestamp \<Rightarrow>
   ('x ledger_db_scheme, ledger_transaction) run" where
  "adjust db wlt target_balance reason now =
     (if target_balance < 0 then (db, Inl ValueError)
      else and_then (lock_wallet db wlt) (\<lambda>db wlt.
        book db wlt ADJUSTMENT \<bar>target_balance - w_balance wlt\<bar> target_balance
          None (Some ''MANUAL_ADJUSTMENT'') (Some reason) now))"

fun reconstruct_step :: "decimal \<Rightarrow> ledger_transaction \<Rightarrow> decimal" where
  "reconstruct_step r t =
     (case lt_transaction_type t of
        CREDIT \<Rightarrow> r + lt_amount t
      | REFUND \<Rightarrow> r + lt_amount t
      | DEBIT \<Rightarrow> r - lt_amount t
      | ADJUSTMENT \<Rightarrow> lt_balance_after t)"

declare reconstruct_step.simps [simp del]

definition entries :: "'x ledger_db_scheme \<Rightarrow> uuid \<Rightarrow> ledger_transaction list" where
  "entries db wid = filter (\<lambda>t. lt_wallet_id t = wid) (ledger db)"

text \<open>\<open>order_by(created_at.asc(), id.asc())\<close>\<close>

definition entries_by_time :: "'x ledger_db_scheme \<Rightarrow> uuid \<Rightarrow> ledger_transaction list" where
  "entries_by_time db wid = sort_key (\<lambda>t. (lt_created_at t, lt_id t)) (entries db wid)"

definition reconstruct_and_verify_balance ::
  "'x ledger_db_scheme \<Rightarrow> uuid \<Rightarrow> uuid \<Rightarrow> (decimal \<times> bool) res" where
  "reconstruct_and_verify_balance db wallet_id tenant_id =
     (case first_row (\<lambda>w. w_id w = wallet_id) (wallets db) of
        None \<Rightarrow> Inl ValueError
      | Some wlt \<Rightarrow>
          if w_tenant_id wlt \<noteq> tenant_id then Inl TenantAccessViolationError
          else
            let reconstructed = foldl reconstruct_step 0 (entries_by_time db wallet_id)
            in if reconstructed \<noteq> w_balance wlt then Inl LedgerIntegrityError
               else Inr (reconstructed, True))"

section \<open>WalletHoldService\<close>

definition available_balance :: "'x ledger_db_scheme \<Rightarrow> wallet \<Rightarrow> decimal" where
  "available_balance db wlt = w_balance wlt - active_total db (w_id wlt)"

definition hold_key :: "wallet_hold \<Rightarrow> uuid \<times> str" where
  "hold_key h = (h_tenant_id h, h_idempotency_key h)"

definition flush_hold ::
  "'x ledger_db_scheme \<Rightarrow> wallet_hold \<Rightarrow> ('x ledger_db_scheme, wallet_hold) run" where
  "flush_hold db h =
     (if violates (\<lambda>_. True) hold_key (holds db) h then (db, Inl IntegrityError)
      else (db\<lparr>holds := holds db @ [h], next_id := Suc (next_id db)\<rparr>, Inr h))"

definition reserve ::
  "'x ledger_db_scheme \<Rightarrow> wallet \<Rightarrow> decimal \<Rightarrow> str \<Rightarrow> str \<Rightarrow> str \<Rightarrow> timestamp option \<Rightarrow>
   ('x ledger_db_scheme, wallet_hold) run" where
  "reserve db wlt amount idempotency_key reference_type reference_id expires_at =
     (if amount \<le> 0 then (db, Inl ValueError)
      else and_then (lock_wallet db wlt) (\<lambda>db wlt.
        case first_row (\<lambda>h. h_tenant_id h = w_tenant_id wlt \<and> h_idempotency_key h = idempotency_key)
               (holds db) of
          Some existing \<Rightarrow>
            if h_wallet_id existing \<noteq> w_id wlt \<or> h_amount existing \<noteq> amount
            then (db, Inl LedgerIntegrityError) else (db, Inr existing)
        | None \<Rightarrow>
            let available = w_balance wlt - active_total db (w_id wlt)
            in if available < amount then (db, Inl InsufficientFundsError)
               else flush_hold db
                 \<lparr>h_id = next_id db, h_tenant_id = w_tenant_id wlt, h_wallet_id = w_id wlt,
                  h_amount = amount, h_status = ACTIVE, h_idempotency_key = idempotency_key,
                  h_reference_type = reference_type, h_reference_id = reference_id,
                  h_expires_at = expires_at, h_captured_at = None, h_released_at = None\<rparr>))"

definition set_hold ::
  "uuid \<Rightarrow> (wallet_hold \<Rightarrow> wallet_hold) \<Rightarrow> 'x ledger_db_scheme \<Rightarrow> 'x ledger_db_scheme" where
  "set_hold hid f db = db\<lparr>holds := update_where (\<lambda>h. h_id h = hid) f (holds db)\<rparr>"

definition lock_hold ::
  "'x ledger_db_scheme \<Rightarrow> wallet_hold \<Rightarrow> ('x ledger_db_scheme, wallet_hold) run" where
  "lock_hold db hold =
     lift_res db (scalar_one (\<lambda>h. h_id h = h_id hold \<and> h_tenant_id h = h_tenant_id hold) (holds db))
       (\<lambda>db h. (db, Inr h))"

definition capture ::
  "'x ledger_db_scheme \<Rightarrow> wallet_hold \<Rightarrow> str option \<Rightarrow> timestamp \<Rightarrow>
   ('x ledger_db_scheme, ledger_transaction) run" where
  "capture db hold description now =
     and_then (lock_hold db hold) (\<lambda>db locked.
       if h_status locked = CAPTURED then
         (case find_entry db (h_wallet_id locked) DEBIT WALLET_HOLD_CAPTURE_REF (str_uuid (h_id locked)) of
            None \<Rightarrow> (db, Inl LedgerIntegrityError)
          | Some existing \<Rightarrow> (db, Inr existing))
       else if h_status locked \<noteq> ACTIVE then (db, Inl LedgerIntegrityError)
       else
         case first_row (\<lambda>w. w_id w = h_wallet_id locked) (wallets db) of
           None \<Rightarrow> (db, Inl LedgerIntegrityError)
         | Some wlt \<Rightarrow>
             debit (set_hold (h_id locked) (\<lambda>h. h\<lparr>h_status := CAPTURED, h_captured_at := Some now\<rparr>) db)
               wlt (h_amount locked) (Some (str_uuid (h_id locked))) (Some WALLET_HOLD_CAPTURE_REF)
               (or_default description
                  (''Captured hold '' @ h_reference_type locked @ '':'' @ h_reference_id locked)) now)"

definition release ::
  "'x ledger_db_scheme \<Rightarrow> wallet_hold \<Rightarrow> timestamp \<Rightarrow> ('x ledger_db_scheme, wallet_hold) run" where
  "release db hold now =
     and_then (lock_hold db hold) (\<lambda>db locked.
       if h_status locked = RELEASED then (db, Inr locked)
       else if h_status locked \<noteq> ACTIVE then (db, Inl LedgerIntegrityError)
       else (set_hold (h_id locked) (\<lambda>h. h\<lparr>h_status := RELEASED, h_released_at := Some now\<rparr>) db,
             Inr (locked\<lparr>h_status := RELEASED, h_released_at := Some now\<rparr>)))"

end
