(* ===== verification/Ledger_Laws.thy ===== *)
theory Ledger_Laws
  imports Ledger
begin

text \<open>
  What the wallet ledger guarantees. The invariant \<open>ledger_inv\<close> says that the rows of every
  wallet form an unbroken audit chain from zero to the booked balance, that no balance is
  negative and that the unique indexes hold. Every operation either changes nothing it can
  answer from an existing row or books exactly one sound entry (\<open>books\<close>), so every committed
  request keeps the invariant. The locale \<open>exactly_once\<close> is the contract of the four operations
  that carry their own idempotency key.
\<close>

section \<open>Audit chains\<close>

text \<open>The balance a transaction of each type moves a wallet from and to.\<close>

definition sound_move :: "TransactionType \<Rightarrow> decimal \<Rightarrow> decimal \<Rightarrow> decimal \<Rightarrow> bool" where
  "sound_move ty b amount b' \<longleftrightarrow>
     0 \<le> b' \<and>
     (case ty of
        CREDIT \<Rightarrow> 0 < amount \<and> b' = b + amount
      | REFUND \<Rightarrow> 0 < amount \<and> b' = b + amount
      | DEBIT \<Rightarrow> 0 < amount \<and> b' = b - amount
      | ADJUSTMENT \<Rightarrow> amount = \<bar>b' - b\<bar>)"

definition tx_sound :: "ledger_transaction \<Rightarrow> bool" where
  "tx_sound t \<longleftrightarrow>
     sound_move (lt_transaction_type t) (lt_balance_before t) (lt_amount t) (lt_balance_after t)"

fun audits :: "decimal \<Rightarrow> ledger_transaction list \<Rightarrow> decimal \<Rightarrow> bool" where
  "audits b [] c \<longleftrightarrow> c = b"
| "audits b (t # ts) c \<longleftrightarrow> lt_balance_before t = b \<and> tx_sound t \<and> audits (lt_balance_after t) ts c"

lemma audits_snoc [simp]:
  "audits b (ts @ [t]) c \<longleftrightarrow>
     audits b ts (lt_balance_before t) \<and> tx_sound t \<and> c = lt_balance_after t"
  by (induction ts arbitrary: b) auto

lemma audits_nonneg: "0 \<le> b \<Longrightarrow> audits b ts c \<Longrightarrow> 0 \<le> c"
  by (induction ts arbitrary: b) (auto simp: tx_sound_def sound_move_def)

lemma tx_sound_reconstruct:
  "tx_sound t \<Longrightarrow> lt_balance_before t = b \<Longrightarrow> reconstruct_step b t = lt_balance_after t"
  by (auto simp: tx_sound_def sound_move_def reconstruct_step.simps split: TransactionType.splits)

lemma audits_reconstruct: "audits b ts c \<Longrightarrow> foldl reconstruct_step b ts = c"
proof (induction ts arbitrary: b)
  case Nil
  then show ?case by simp
next
  case (Cons t ts)
  then have "reconstruct_step b t = lt_balance_after t" by (simp add: tx_sound_reconstruct)
  with Cons show ?case by simp
qed

section \<open>The invariant\<close>

definition ledger_inv :: "'x ledger_db_scheme \<Rightarrow> bool" where
  "ledger_inv db \<longleftrightarrow>
     distinct (map w_id (wallets db)) \<and>
     distinct (map wallet_key (wallets db)) \<and>
     (\<forall>w \<in> set (wallets db). w_id w < next_id db \<and> audits 0 (entries db (w_id w)) (w_balance w)) \<and>
     distinct (map lt_id (ledger db)) \<and>
     (\<forall>t \<in> set (ledger db). lt_id t < next_id db \<and> lt_wallet_id t \<in> w_id ` set (wallets db)) \<and>
     (\<forall>p \<in> set ledger_indexes. unique_on p ledger_key (ledger db)) \<and>
     distinct (map h_id (holds db)) \<and>
     distinct (map hold_key (holds db)) \<and>
     (\<forall>h \<in> set (holds db). h_id h < next_id db \<and> 0 < h_amount h \<and>
        h_wallet_id h \<in> w_id ` set (wallets db))"

text \<open>One step of the ledger: wallet \<open>lt_wallet_id t\<close> moves to the new balance, \<open>t\<close> is appended.\<close>

definition books ::
  "timestamp \<Rightarrow> 'x ledger_db_scheme \<Rightarrow> 'x ledger_db_scheme \<Rightarrow> ledger_transaction \<Rightarrow> bool" where
  "books now db db' t \<longleftrightarrow>
     (\<exists>w \<in> set (wallets db). lt_wallet_id t = w_id w \<and> lt_balance_before t = w_balance w \<and>
        lt_tenant_id t = w_tenant_id w) \<and>
     lt_id t = next_id db \<and> lt_created_at t = now \<and> tx_sound t \<and> \<not> ledger_conflict (ledger db) t \<and>
     db' = (set_balance (lt_wallet_id t) (lt_balance_after t) db)
              \<lparr>ledger := ledger db @ [t], next_id := Suc (next_id db)\<rparr>"

lemma set_balance_simps [simp]:
  "ledger (set_balance i b db) = ledger db"
  "holds (set_balance i b db) = holds db"
  "next_id (set_balance i b db) = next_id db"
  "ledger_db.more (set_balance i b db) = ledger_db.more db"
  "map w_id (wallets (set_balance i b db)) = map w_id (wallets db)"
  "map wallet_key (wallets (set_balance i b db)) = map wallet_key (wallets db)"
  by (simp_all add: set_balance_def wallet_key_def)

lemma w_id_image_set_balance [simp]:
  "w_id ` set (wallets (set_balance i b db)) = w_id ` set (wallets db)"
  by (metis list.set_map set_balance_simps(5))

lemma ledger_inv_wallet:
  assumes "ledger_inv db" and "w \<in> set (wallets db)"
  shows "audits 0 (entries db (w_id w)) (w_balance w)" and "0 \<le> w_balance w"
    and "w_id w < next_id db"
proof -
  show a: "audits 0 (entries db (w_id w)) (w_balance w)" and "w_id w < next_id db"
    using assms by (auto simp: ledger_inv_def)
  show "0 \<le> w_balance w" using audits_nonneg [OF _ a] by simp
qed

lemma wallet_by_id:
  assumes "ledger_inv db" and "w \<in> set (wallets db)" and "w' \<in> set (wallets db)" and "w_id w = w_id w'"
  shows "w = w'"
  using assms by (auto simp: ledger_inv_def distinct_map inj_on_def)

lemma first_row_wallet:
  assumes "ledger_inv db" and "w \<in> set (wallets db)"
  shows "first_row (\<lambda>x. w_id x = w_id w) (wallets db) = Some w"
proof (cases "first_row (\<lambda>x. w_id x = w_id w) (wallets db)")
  case None
  with assms show ?thesis by (auto simp: first_row_None_iff)
next
  case (Some x)
  then have "x \<in> set (wallets db)" and "w_id x = w_id w"
    by (auto dest: first_row_SomeD)
  with Some wallet_by_id [OF assms(1) _ assms(2), of x] show ?thesis by simp
qed

lemma entries_append [simp]:
  "entries (db\<lparr>ledger := ledger db @ [t], next_id := n\<rparr>) i =
     (if lt_wallet_id t = i then entries db i @ [t] else entries db i)"
  by (simp add: entries_def)

lemma entries_frame [simp]:
  "entries (db\<lparr>wallets := ws\<rparr>) i = entries db i"
  "entries (db\<lparr>holds := hs\<rparr>) i = entries db i"
  "entries (db\<lparr>next_id := n\<rparr>) i = entries db i"
  "entries (set_balance j b db) i = entries db i"
  by (simp_all add: entries_def)

lemma ledger_conflict_unique:
  assumes "\<forall>p \<in> set ledger_indexes. unique_on p ledger_key l" and "\<not> ledger_conflict l t"
  shows "\<forall>p \<in> set ledger_indexes. unique_on p ledger_key (l @ [t])"
  using assms by (auto simp: ledger_conflict_def list_ex_iff)

theorem books_keeps_inv:
  assumes inv: "ledger_inv db" and b: "books now db db' t"
  shows "ledger_inv db'"
proof -
  from b obtain w where w: "w \<in> set (wallets db)" "lt_wallet_id t = w_id w"
      "lt_balance_before t = w_balance w"
    and t: "lt_id t = next_id db" "tx_sound t" "\<not> ledger_conflict (ledger db) t"
    and db': "db' = (set_balance (lt_wallet_id t) (lt_balance_after t) db)
                 \<lparr>ledger := ledger db @ [t], next_id := Suc (next_id db)\<rparr>"
    by (auto simp: books_def)
  have chain: "audits 0 (entries db (w_id w)) (w_balance w)"
    using ledger_inv_wallet(1) [OF inv w(1)] .
  have rows: "\<forall>v \<in> set (wallets db'). w_id v < next_id db' \<and> audits 0 (entries db' (w_id v)) (w_balance v)"
  proof
    fix v
    assume "v \<in> set (wallets db')"
    then obtain u where u: "u \<in> set (wallets db)"
      and v: "v = (if w_id u = w_id w then u\<lparr>w_balance := lt_balance_after t\<rparr> else u)"
      using w by (auto simp: db' set_balance_def in_update_where)
    have "audits 0 (entries db' (w_id v)) (w_balance v)"
    proof (cases "w_id u = w_id w")
      case True
      then have "u = w" using wallet_by_id [OF inv u w(1)] by simp
      then show ?thesis using chain t(2) w v by (simp add: db' entries_def)
    next
      case False
      then show ?thesis using ledger_inv_wallet(1) [OF inv u] w v by (simp add: db' entries_def)
    qed
    moreover have "w_id v < next_id db'"
      using ledger_inv_wallet(3) [OF inv u] v by (auto simp: db')
    ultimately show "w_id v < next_id db' \<and> audits 0 (entries db' (w_id v)) (w_balance v)" by simp
  qed
  have uniq: "\<forall>p \<in> set ledger_indexes. unique_on p ledger_key (ledger db @ [t])"
    using inv t(3) by (intro ledger_conflict_unique) (auto simp: ledger_inv_def)
  have ids: "lt_id t \<notin> lt_id ` set (ledger db)"
    using inv t(1) by (auto simp: ledger_inv_def)
  show ?thesis
    unfolding ledger_inv_def
    using inv rows uniq ids t(1) w by (auto simp: ledger_inv_def db' less_SucI)
qed

lemma books_more: "books now db db' t \<Longrightarrow> ledger_db.more db' = ledger_db.more db"
  by (auto simp: books_def)

lemma books_holds: "books now db db' t \<Longrightarrow> holds db' = holds db"
  by (auto simp: books_def)

section \<open>What each operation does\<close>

lemma fst_lock_wallet [simp]: "fst (lock_wallet db w) = db"
  by (auto simp: lock_wallet_def lift_res_def split: sum.splits option.splits)

lemma lock_wallet_InrD:
  assumes "lock_wallet db w = (db', Inr x)"
  shows "db' = db" and "x \<in> set (wallets db)" and "w_id x = w_id w" and "w_tenant_id x = w_tenant_id w"
  using assms
  by (auto simp: lock_wallet_def lift_res_Inr_iff split: option.splits
        dest!: scalar_one_or_none_SomeD)

lemma lock_wallet_InlD: "lock_wallet db w = (db', Inl e) \<Longrightarrow> db' = db"
  by (metis fst_conv fst_lock_wallet)

lemma lock_wallet_row:
  assumes "ledger_inv db" and "w \<in> set (wallets db)"
  shows "lock_wallet db w = (db, Inr w)"
proof -
  have "scalar_one_or_none (\<lambda>x. w_id x = w_id w \<and> w_tenant_id x = w_tenant_id w) (wallets db)
        = Inr (first_row (\<lambda>x. w_id x = w_id w \<and> w_tenant_id x = w_tenant_id w) (wallets db))"
    using assms(1) by (intro scalar_one_or_none_unique [where k = w_id]) (auto simp: ledger_inv_def)
  moreover have "first_row (\<lambda>x. w_id x = w_id w \<and> w_tenant_id x = w_tenant_id w) (wallets db) = Some w"
  proof (cases "first_row (\<lambda>x. w_id x = w_id w \<and> w_tenant_id x = w_tenant_id w) (wallets db)")
    case None
    with assms show ?thesis by (auto simp: first_row_None_iff)
  next
    case (Some x)
    then have "x \<in> set (wallets db)" and "w_id x = w_id w" by (auto dest: first_row_SomeD)
    with Some wallet_by_id [OF assms(1) _ assms(2), of x] show ?thesis by simp
  qed
  ultimately show ?thesis by (simp add: lock_wallet_def)
qed

lemma book_InrD:
  assumes "book db w ty a b' rid rty d now = (db', Inr t)"
    and "w \<in> set (wallets db)" and "sound_move ty (w_balance w) a b'"
  shows "books now db db' t"
  using assms by (auto simp: book_def flush_ledger_def books_def tx_sound_def
      split: if_splits)

lemma book_fields:
  assumes "book db w ty a b' rid rty d now = (db', Inr t)"
  shows "lt_wallet_id t = w_id w" and "lt_transaction_type t = ty" and "lt_amount t = a"
    and "lt_balance_before t = w_balance w" and "lt_balance_after t = b'"
    and "lt_reference_id t = rid" and "lt_reference_type t = rty" and "lt_created_at t = now"
  using assms by (auto simp: book_def flush_ledger_def Let_def split: if_splits)

text \<open>The outcome shared by all of them: answered from an existing row, or one entry booked.\<close>

definition one_entry ::
  "timestamp \<Rightarrow> 'x ledger_db_scheme \<Rightarrow> TransactionType \<Rightarrow> wallet \<Rightarrow> decimal \<Rightarrow> 'x ledger_db_scheme \<Rightarrow>
   ledger_transaction \<Rightarrow> bool" where
  "one_entry now db ty w a db' t \<longleftrightarrow>
     lt_wallet_id t = w_id w \<and> lt_transaction_type t = ty \<and> lt_amount t = a \<and>
     (db' = db \<and> t \<in> set (ledger db) \<or> books now db db' t)"

lemma book_one_entry:
  assumes "book db w' ty a b' rid rty d now = (db', Inr t)"
    and "w' \<in> set (wallets db)" and "sound_move ty (w_balance w') a b'" and "w_id w' = w_id w"
  shows "one_entry now db ty w a db' t"
  using book_InrD [OF assms(1,2,3)] book_fields [OF assms(1)] assms(4)
  by (simp add: one_entry_def)

lemma find_entry_SomeD:
  assumes "find_entry db i ty rty rid = Some t"
  shows "t \<in> set (ledger db)" and "lt_wallet_id t = i" and "lt_transaction_type t = ty"
    and "lt_reference_type t = Some rty" and "lt_reference_id t = Some rid"
  using assms by (auto simp: find_entry_def dest!: first_row_SomeD)

lemma requery_None [simp]: "requery n (\<lambda>_. None) = None"
  by (induction n) auto

text \<open>
  With the wallet row locked the answer of the fast-path query cannot change under the
  insert: an index conflict means the query would have found the row.
\<close>

lemma index_type:
  "p \<in> set ledger_indexes \<Longrightarrow> p x \<Longrightarrow> p t \<Longrightarrow> lt_transaction_type x = lt_transaction_type t"
  by (auto simp: ledger_indexes_def uq_refund_idempotency_def uq_settlement_idempotency_def
      uq_topup_reversal_debit_def uq_flexible_deposit_settlement_def uq_wallet_hold_capture_def)

lemma conflict_found:
  assumes "ledger_conflict (ledger db) t"
    and "lt_reference_type t = Some rty" and "lt_reference_id t = Some rid"
  shows "find_entry db (lt_wallet_id t) (lt_transaction_type t) rty rid \<noteq> None"
proof -
  from assms(1) obtain p x where "p \<in> set ledger_indexes" and "p t" and "x \<in> set (ledger db)" and "p x"
    and "ledger_key x = ledger_key t"
    by (auto simp: ledger_conflict_def list_ex_iff violates_def)
  with assms(2,3) index_type [of p x t] show ?thesis
    by (auto simp: find_entry_def first_row_None_iff ledger_key_def)
qed

lemma book_fresh_key:
  assumes "find_entry db (w_id w) ty rty rid = None"
  shows "\<exists>db' t. book db w ty a b' (Some rid) (Some rty) d now = (db', Inr t)"
proof -
  let ?t = "\<lparr>lt_id = next_id db, lt_created_at = now, lt_tenant_id = w_tenant_id w,
        lt_wallet_id = w_id w, lt_transaction_type = ty, lt_amount = a,
        lt_balance_before = w_balance w, lt_balance_after = b',
        lt_reference_id = Some rid, lt_reference_type = Some rty, lt_description = d\<rparr>"
  have "\<not> ledger_conflict (ledger db) ?t"
    using conflict_found [of db ?t rty rid] assms by auto
  then show ?thesis by (simp add: book_def flush_ledger_def)
qed

lemma active_total_nonneg: "ledger_inv db \<Longrightarrow> 0 \<le> active_total db i"
  unfolding active_total_def
  by (rule sum_list_nonneg) (auto simp: ledger_inv_def less_imp_le)

lemma keyed_entry:
  assumes cs: "(find_entry db (w_id x) ty rty rid = Some t \<and> lt_amount t = a \<and> db' = db) \<or>
      sound_move ty (w_balance x) a b' \<and>
      (\<exists>d. book db x ty a b' (Some rid) (Some rty) d now = (db', Inr t))"
    and x: "x \<in> set (wallets db)" "w_id x = w_id w"
  shows "one_entry now db ty w a db' t" and "lt_reference_type t = Some rty" and "lt_reference_id t = Some rid"
proof -
  show "lt_reference_type t = Some rty" and "lt_reference_id t = Some rid"
    using cs book_fields(6,7) find_entry_SomeD(4,5) by metis+
  from cs show "one_entry now db ty w a db' t"
  proof
    assume "find_entry db (w_id x) ty rty rid = Some t \<and> lt_amount t = a \<and> db' = db"
    then show ?thesis using x(2) find_entry_SomeD [of db "w_id x" ty rty rid t] by (simp add: one_entry_def)
  next
    assume "sound_move ty (w_balance x) a b' \<and>
      (\<exists>d. book db x ty a b' (Some rid) (Some rty) d now = (db', Inr t))"
    then show ?thesis using x book_one_entry by blast
  qed
qed

lemma credit_entry:
  assumes "ledger_inv db" and "credit db w a rid rty d now = (db', Inr t)"
  shows "one_entry now db CREDIT w a db' t" and "books now db db' t" and "0 < a"
proof -
  from assms(2) obtain x where pos: "0 < a" and x: "lock_wallet db w = (db, Inr x)"
    and bk: "book db x CREDIT a (w_balance x + a) rid rty d now = (db', Inr t)"
    by (auto simp: credit_def and_then_Inr_iff split: if_splits dest: lock_wallet_InrD(1))
  note lw = lock_wallet_InrD [OF x]
  have mv: "sound_move CREDIT (w_balance x) a (w_balance x + a)"
    using pos ledger_inv_wallet(2) [OF assms(1) lw(2)] by (simp add: sound_move_def)
  show "one_entry now db CREDIT w a db' t" using bk lw(2) mv lw(3) by (rule book_one_entry)
  show "books now db db' t" using bk lw(2) mv by (rule book_InrD)
  show "0 < a" by (rule pos)
qed

lemma debit_entry:
  assumes inv: "ledger_inv db" and "debit db w a rid rty d now = (db', Inr t)"
  shows "one_entry now db DEBIT w a db' t" and "books now db db' t" and "0 < a"
    and "a + active_total db (w_id w) \<le> lt_balance_before t"
proof -
  from assms(2) obtain x where pos: "0 < a" and x: "lock_wallet db w = (db, Inr x)"
    and av: "a \<le> w_balance x - active_total db (w_id x)"
    and bk: "book db x DEBIT a (w_balance x - a) rid rty d now = (db', Inr t)"
    by (auto simp: debit_def and_then_Inr_iff Let_def not_less split: if_splits dest: lock_wallet_InrD(1))
  note lw = lock_wallet_InrD [OF x]
  have "0 \<le> active_total db (w_id x)"
    using inv by (rule active_total_nonneg)
  then have mv: "sound_move DEBIT (w_balance x) a (w_balance x - a)"
    using pos av by (simp add: sound_move_def)
  show "one_entry now db DEBIT w a db' t" using bk lw(2) mv lw(3) by (rule book_one_entry)
  show "books now db db' t" using bk lw(2) mv by (rule book_InrD)
  show "0 < a" by (rule pos)
  show "a + active_total db (w_id w) \<le> lt_balance_before t"
    using av book_fields(4) [OF bk] lw(3) by simp
qed

lemma adjust_entry:
  assumes "ledger_inv db" and "adjust db w b reason now = (db', Inr t)"
  shows "books now db db' t" and "lt_wallet_id t = w_id w" and "lt_balance_after t = b"
proof -
  from assms(2) obtain x where pos: "0 \<le> b" and x: "lock_wallet db w = (db, Inr x)"
    and bk: "book db x ADJUSTMENT \<bar>b - w_balance x\<bar> b None (Some ''MANUAL_ADJUSTMENT'')
               (Some reason) now = (db', Inr t)"
    by (auto simp: adjust_def and_then_Inr_iff split: if_splits dest: lock_wallet_InrD(1))
  note lw = lock_wallet_InrD [OF x]
  show "books now db db' t"
    using bk lw(2) pos by (intro book_InrD) (auto simp: sound_move_def)
  show "lt_wallet_id t = w_id w" and "lt_balance_after t = b"
    using book_fields [OF bk] lw(3) by simp_all
qed

lemma settle_payment_entry:
  assumes inv: "ledger_inv db" and "settle_payment db w a i d now = (db', Inr t)"
  shows "one_entry now db CREDIT w a db' t" and "0 < a"
    and "lt_reference_type t = Some CANONICAL_SETTLEMENT_TYPE" and "lt_reference_id t = Some (str_uuid i)"
proof -
  let ?find = "\<lambda>x. find_entry db (w_id x) CREDIT CANONICAL_SETTLEMENT_TYPE (str_uuid i)"
  from assms(2) obtain x where pos: "0 < a" and x: "lock_wallet db w = (db, Inr x)"
    and cs: "(?find x = Some t \<and> lt_amount t = a \<and> db' = db) \<or>
      (\<exists>d. book db x CREDIT a (w_balance x + a) (Some (str_uuid i)) (Some CANONICAL_SETTLEMENT_TYPE) d now
         = (db', Inr t))"
    by (auto simp: settle_payment_def and_then_Inr_iff Let_def savepoint_Inr_iff
          split: if_splits option.splits dest: lock_wallet_InrD(1))
  note lw = lock_wallet_InrD [OF x]
  have mv: "sound_move CREDIT (w_balance x) a (w_balance x + a)"
    using pos ledger_inv_wallet(2) [OF inv lw(2)] by (simp add: sound_move_def)
  have cs': "(?find x = Some t \<and> lt_amount t = a \<and> db' = db) \<or>
      sound_move CREDIT (w_balance x) a (w_balance x + a) \<and>
      (\<exists>d. book db x CREDIT a (w_balance x + a) (Some (str_uuid i)) (Some CANONICAL_SETTLEMENT_TYPE) d now
         = (db', Inr t))"
    using cs mv by blast
  show "one_entry now db CREDIT w a db' t"
    and "lt_reference_type t = Some CANONICAL_SETTLEMENT_TYPE" and "lt_reference_id t = Some (str_uuid i)"
    using keyed_entry [OF cs' lw(2,3)] by simp_all
  show "0 < a" by (rule pos)
qed

lemma reserve_topup_reversal_entry:
  assumes inv: "ledger_inv db" and "reserve_topup_reversal db w a i d now = (db', Inr t)"
  shows "one_entry now db DEBIT w a db' t" and "0 < a"
    and "lt_reference_type t = Some CANONICAL_TOPUP_REVERSAL_TYPE" and "lt_reference_id t = Some (str_uuid i)"
proof -
  let ?find = "\<lambda>x. find_entry db (w_id x) DEBIT CANONICAL_TOPUP_REVERSAL_TYPE (str_uuid i)"
  from assms(2) obtain x where pos: "0 < a" and x: "lock_wallet db w = (db, Inr x)"
    and cs: "(?find x = Some t \<and> lt_amount t = a \<and> db' = db) \<or>
      a \<le> w_balance x \<and>
      (\<exists>d. book db x DEBIT a (w_balance x - a) (Some (str_uuid i)) (Some CANONICAL_TOPUP_REVERSAL_TYPE) d now
         = (db', Inr t))"
    by (auto simp: reserve_topup_reversal_def and_then_Inr_iff Let_def savepoint_Inr_iff not_less
          split: if_splits option.splits dest: lock_wallet_InrD(1))
  note lw = lock_wallet_InrD [OF x]
  have mv: "a \<le> w_balance x \<Longrightarrow> sound_move DEBIT (w_balance x) a (w_balance x - a)"
    using pos ledger_inv_wallet(2) [OF inv lw(2)] by (simp add: sound_move_def)
  have cs': "(?find x = Some t \<and> lt_amount t = a \<and> db' = db) \<or>
      sound_move DEBIT (w_balance x) a (w_balance x - a) \<and>
      (\<exists>d. book db x DEBIT a (w_balance x - a) (Some (str_uuid i)) (Some CANONICAL_TOPUP_REVERSAL_TYPE) d now
         = (db', Inr t))"
    using cs mv by blast
  show "one_entry now db DEBIT w a db' t"
    and "lt_reference_type t = Some CANONICAL_TOPUP_REVERSAL_TYPE" and "lt_reference_id t = Some (str_uuid i)"
    using keyed_entry [OF cs' lw(2,3)] by simp_all
  show "0 < a" by (rule pos)
qed

lemma settle_flexible_deposit_entry:
  assumes inv: "ledger_inv db" and "settle_flexible_deposit db w a i d now = (db', Inr t)"
  shows "one_entry now db CREDIT w a db' t" and "0 < a"
    and "lt_reference_type t = Some CANONICAL_FLEXIBLE_DEPOSIT_TYPE" and "lt_reference_id t = Some (str_uuid i)"
proof -
  let ?find = "\<lambda>x. find_entry db (w_id x) CREDIT CANONICAL_FLEXIBLE_DEPOSIT_TYPE (str_uuid i)"
  from assms(2) obtain x where pos: "0 < a" and x: "lock_wallet db w = (db, Inr x)"
    and cs: "(?find x = Some t \<and> lt_amount t = a \<and> db' = db) \<or>
      (\<exists>d. book db x CREDIT a (w_balance x + a) (Some (str_uuid i)) (Some CANONICAL_FLEXIBLE_DEPOSIT_TYPE) d now
         = (db', Inr t))"
    by (auto simp: settle_flexible_deposit_def and_then_Inr_iff Let_def savepoint_Inr_iff
          split: if_splits option.splits dest: lock_wallet_InrD(1))
  note lw = lock_wallet_InrD [OF x]
  have mv: "sound_move CREDIT (w_balance x) a (w_balance x + a)"
    using pos ledger_inv_wallet(2) [OF inv lw(2)] by (simp add: sound_move_def)
  have cs': "(?find x = Some t \<and> lt_amount t = a \<and> db' = db) \<or>
      sound_move CREDIT (w_balance x) a (w_balance x + a) \<and>
      (\<exists>d. book db x CREDIT a (w_balance x + a) (Some (str_uuid i)) (Some CANONICAL_FLEXIBLE_DEPOSIT_TYPE) d now
         = (db', Inr t))"
    using cs mv by blast
  show "one_entry now db CREDIT w a db' t"
    and "lt_reference_type t = Some CANONICAL_FLEXIBLE_DEPOSIT_TYPE" and "lt_reference_id t = Some (str_uuid i)"
    using keyed_entry [OF cs' lw(2,3)] by simp_all
  show "0 < a" by (rule pos)
qed

lemma refund_entry:
  assumes inv: "ledger_inv db" and "refund db w a rid rty d now = (db', Inr t)"
  shows "one_entry now db REFUND w a db' t" and "0 < a"
    and "lt_reference_type t = rty" and "lt_reference_id t = rid"
proof -
  let ?find = "\<lambda>x y z. find_entry db (w_id x) REFUND y z"
  from assms(2) obtain x where pos: "0 < a" and x: "lock_wallet db w = (db, Inr x)"
    and cs: "(\<exists>y z. rty = Some y \<and> rid = Some z \<and> ?find x y z = Some t \<and> lt_amount t = a \<and> db' = db) \<or>
      (\<exists>d. book db x REFUND a (w_balance x + a) rid rty d now = (db', Inr t))"
    by (auto simp: refund_def and_then_Inr_iff Let_def savepoint_Inr_iff truthy_pair_def
          split: if_splits option.splits dest: lock_wallet_InrD(1))
  note lw = lock_wallet_InrD [OF x]
  have mv: "sound_move REFUND (w_balance x) a (w_balance x + a)"
    using pos ledger_inv_wallet(2) [OF inv lw(2)] by (simp add: sound_move_def)
  from cs show "one_entry now db REFUND w a db' t"
  proof
    assume "\<exists>y z. rty = Some y \<and> rid = Some z \<and> ?find x y z = Some t \<and> lt_amount t = a \<and> db' = db"
    then obtain y z where "?find x y z = Some t" "lt_amount t = a" "db' = db" by blast
    then show ?thesis using lw(3) find_entry_SomeD [of db "w_id x" REFUND y z t] by (simp add: one_entry_def)
  next
    assume "\<exists>d. book db x REFUND a (w_balance x + a) rid rty d now = (db', Inr t)"
    then show ?thesis using book_one_entry [OF _ lw(2) mv lw(3)] by blast
  qed
  show "0 < a" by (rule pos)
  show "lt_reference_type t = rty" "lt_reference_id t = rid"
    using cs book_fields(6,7) find_entry_SomeD(4,5) by metis+
qed

lemma one_entry_inv: "ledger_inv db \<Longrightarrow> one_entry now db ty w a db' t \<Longrightarrow> ledger_inv db'"
  by (auto simp: one_entry_def intro: books_keeps_inv)

lemma one_entry_more: "one_entry now db ty w a db' t \<Longrightarrow> ledger_db.more db' = ledger_db.more db"
  by (auto simp: one_entry_def dest: books_more)

lemma one_entry_holds: "one_entry now db ty w a db' t \<Longrightarrow> holds db' = holds db"
  by (auto simp: one_entry_def dest: books_holds)

section \<open>Idempotent operations: exactly once\<close>

text \<open>
  The contract of the operations that carry their own idempotency key: a success records the
  entry under its key, and from then on the operation only ever answers from that record.
\<close>

locale exactly_once =
  fixes inv :: "'db \<Rightarrow> bool"
    and op :: "'db \<Rightarrow> 'k \<Rightarrow> decimal \<Rightarrow> 'x \<Rightarrow> ('db, 'tx) run"
    and recorded :: "'db \<Rightarrow> 'k \<Rightarrow> 'tx option"
    and amount_of :: "'tx \<Rightarrow> decimal"
    and known :: "'db \<Rightarrow> 'k \<Rightarrow> bool"
    and valid :: "'k \<Rightarrow> bool"
  assumes op_success: "inv db \<Longrightarrow> valid k \<Longrightarrow> op db k a x = (db', Inr t) \<Longrightarrow>
      inv db' \<and> known db' k \<and> recorded db' k = Some t \<and> amount_of t = a \<and> 0 < a"
    and op_failure: "inv db \<Longrightarrow> op db k a x = (db', Inl e) \<Longrightarrow> db' = db"
    and op_replay: "inv db \<Longrightarrow> valid k \<Longrightarrow> known db k \<Longrightarrow> recorded db k = Some t \<Longrightarrow> 0 < a \<Longrightarrow>
      op db k a x = (db, if amount_of t = a then Inr t else Inl LedgerIntegrityError)"
begin

lemma keeps_inv: "inv db \<Longrightarrow> valid k \<Longrightarrow> inv (fst (op db k a x))"
  using op_success op_failure by (cases "op db k a x"; cases "snd (op db k a x)") fastforce+

lemma retry:
  assumes "inv db" and "valid k" and "op db k a x = (db1, Inr t)"
  shows "op db1 k a y = (db1, Inr t)"
  using op_success [OF assms] op_replay assms(2) by simp

lemma mismatch_rejected:
  assumes "inv db" and "valid k" and "op db k a x = (db1, Inr t)" and "0 < b" and "b \<noteq> a"
  shows "op db1 k b y = (db1, Inl LedgerIntegrityError)"
  using op_success [OF assms(1,2,3)] op_replay assms(2,4,5) by simp

lemma retries:
  assumes "inv db" and "valid k" and "op db k a x = (db1, Inr t)"
  shows "foldl (\<lambda>s y. fst (op s k a y)) db1 ys = db1"
proof (induction ys)
  case Nil
  then show ?case by simp
next
  case (Cons y ys)
  then show ?case using retry [OF assms] by simp
qed

end

text \<open>
  With an append-only log the record also outlives every later request, and so does the contract.
\<close>

locale durable_exactly_once = exactly_once +
  fixes later :: "'a \<Rightarrow> 'a \<Rightarrow> bool"
  assumes later_keeps: "inv db \<Longrightarrow> later db db' \<Longrightarrow> known db k \<Longrightarrow> recorded db k = Some t \<Longrightarrow>
      inv db' \<and> known db' k \<and> recorded db' k = Some t"
begin

lemma once_forever:
  assumes "inv db" and "valid k" and "op db k a x = (db1, Inr t)" and "later db1 db2"
  shows "op db2 k a y = (db2, Inr t) \<and>
    (0 < b \<and> b \<noteq> a \<longrightarrow> op db2 k b y = (db2, Inl LedgerIntegrityError))"
proof -
  note s = op_success [OF assms(1,2,3)]
  then have "inv db2 \<and> known db2 k \<and> recorded db2 k = Some t" using later_keeps assms(4) by blast
  then show ?thesis using s op_replay assms(2) by auto
qed

end

definition wallet_ids :: "'x ledger_db_scheme \<Rightarrow> (uuid \<times> uuid) set" where
  "wallet_ids db = (\<lambda>x. (w_id x, w_tenant_id x)) ` set (wallets db)"

definition knows_wallet :: "'x ledger_db_scheme \<Rightarrow> wallet \<Rightarrow> bool" where
  "knows_wallet db w \<longleftrightarrow> (w_id w, w_tenant_id w) \<in> wallet_ids db"

lemma wallet_ids_set_balance [simp]: "wallet_ids (set_balance i b db) = wallet_ids db"
proof -
  let ?k = "\<lambda>x. (w_id x, w_tenant_id x)"
  have "map ?k (wallets (set_balance i b db)) = map ?k (wallets db)"
    by (simp add: set_balance_def)
  then show ?thesis unfolding wallet_ids_def by (metis list.set_map)
qed

lemma lock_wallet_known:
  assumes "ledger_inv db" and "knows_wallet db w"
  shows "\<exists>x \<in> set (wallets db). lock_wallet db w = (db, Inr x) \<and> w_id x = w_id w"
proof -
  from assms(2) obtain x where x: "x \<in> set (wallets db)" "w_id x = w_id w" "w_tenant_id x = w_tenant_id w"
    by (auto simp: knows_wallet_def wallet_ids_def)
  have "lock_wallet db x = (db, Inr x)" using assms(1) x(1) by (rule lock_wallet_row)
  then have "lock_wallet db w = (db, Inr x)" using x by (simp add: lock_wallet_def)
  with x show ?thesis by blast
qed

lemma lock_wallet_knows: "lock_wallet db w = (db', Inr x) \<Longrightarrow> knows_wallet db w"
  using lock_wallet_InrD [of db w db' x] unfolding knows_wallet_def wallet_ids_def image_iff by metis

lemma find_entry_unique:
  assumes "ledger_inv db" and "p \<in> set ledger_indexes" and "t \<in> set (ledger db)"
    and "lt_wallet_id t = i" and "lt_transaction_type t = ty"
    and "lt_reference_type t = Some rty" and "lt_reference_id t = Some rid"
    and covers: "\<And>x. lt_transaction_type x = ty \<Longrightarrow> lt_reference_type x = Some rty \<Longrightarrow>
                   lt_reference_id x = Some rid \<Longrightarrow> p x"
  shows "find_entry db i ty rty rid = Some t"
proof (cases "find_entry db i ty rty rid")
  case None
  with assms(3-7) show ?thesis by (auto simp: find_entry_def first_row_None_iff)
next
  case (Some x)
  note x = find_entry_SomeD [OF Some]
  have "unique_on p ledger_key (ledger db)" using assms(1,2) by (auto simp: ledger_inv_def)
  moreover have "p x" and "p t" using covers x assms(5-7) by blast+
  moreover have "ledger_key x = ledger_key t" using x assms(4,6,7) by (simp add: ledger_key_def)
  ultimately have "x = t" using x(1) assms(3) by (metis unique_on_first_row)
  with Some show ?thesis by simp
qed

lemma one_entry_in_ledger: "one_entry now db ty w a db' t \<Longrightarrow> t \<in> set (ledger db')"
  by (auto simp: one_entry_def books_def)

lemma books_wallet_ids: "books now db db' t \<Longrightarrow> wallet_ids db' = wallet_ids db"
  by (auto simp: books_def wallet_ids_def [of "_\<lparr>ledger := _, next_id := _\<rparr>"]
        simp flip: wallet_ids_def)

lemma one_entry_wallet_ids: "one_entry now db ty v a db' t \<Longrightarrow> wallet_ids db' = wallet_ids db"
  by (auto simp: one_entry_def dest: books_wallet_ids)

lemma knows_wallet_one_entry:
  "knows_wallet db w \<Longrightarrow> one_entry now db ty v a db' t \<Longrightarrow> knows_wallet db' w"
  by (simp add: knows_wallet_def one_entry_wallet_ids)

lemma knows_wallet_after:
  assumes "one_entry now db ty w a db' t" and "lock_wallet db v = (db, Inr x)"
  shows "knows_wallet db' v"
  using knows_wallet_one_entry [OF lock_wallet_knows [OF assms(2)] assms(1)] .

lemma checked_Inl:
  "(if c then (db, Inl e') else (db, Inr t)) = (db', Inl e) \<Longrightarrow> db' = db"
  by (simp split: if_splits)

lemma settle_payment_failure: "settle_payment db w a i d now = (db', Inl e) \<Longrightarrow> db' = db"
  unfolding settle_payment_def
  by (cases "lock_wallet db w"; cases "snd (lock_wallet db w)")
     (auto simp: Let_def split: if_splits option.splits
        dest!: savepoint_Inl_cases dest: lock_wallet_InrD(1) lock_wallet_InlD)

lemma reserve_topup_reversal_failure:
  "reserve_topup_reversal db w a i d now = (db', Inl e) \<Longrightarrow> db' = db"
  unfolding reserve_topup_reversal_def
  by (cases "lock_wallet db w"; cases "snd (lock_wallet db w)")
     (auto simp: Let_def split: if_splits option.splits
        dest!: savepoint_Inl_cases dest: lock_wallet_InrD(1) lock_wallet_InlD)

lemma settle_flexible_deposit_failure:
  "settle_flexible_deposit db w a i d now = (db', Inl e) \<Longrightarrow> db' = db"
  unfolding settle_flexible_deposit_def
  by (cases "lock_wallet db w"; cases "snd (lock_wallet db w)")
     (auto simp: Let_def split: if_splits option.splits
        dest!: savepoint_Inl_cases dest: lock_wallet_InrD(1) lock_wallet_InlD)

lemma refund_failure: "refund db w a rid rty d now = (db', Inl e) \<Longrightarrow> db' = db"
  unfolding refund_def
  by (cases "lock_wallet db w"; cases "snd (lock_wallet db w)")
     (auto simp: Let_def split: if_splits option.splits prod.splits
        dest!: savepoint_Inl_cases dest: lock_wallet_InrD(1) lock_wallet_InlD)

lemma settle_payment_replay:
  assumes "ledger_inv db" and "knows_wallet db w" and "0 < a"
    and "find_entry db (w_id w) CREDIT CANONICAL_SETTLEMENT_TYPE (str_uuid i) = Some t"
  shows "settle_payment db w a i d now = (db, if lt_amount t = a then Inr t else Inl LedgerIntegrityError)"
  using lock_wallet_known [OF assms(1,2)] assms(3,4) by (auto simp: settle_payment_def Let_def)

lemma reserve_topup_reversal_replay:
  assumes "ledger_inv db" and "knows_wallet db w" and "0 < a"
    and "find_entry db (w_id w) DEBIT CANONICAL_TOPUP_REVERSAL_TYPE (str_uuid i) = Some t"
  shows "reserve_topup_reversal db w a i d now =
           (db, if lt_amount t = a then Inr t else Inl LedgerIntegrityError)"
  using lock_wallet_known [OF assms(1,2)] assms(3,4) by (auto simp: reserve_topup_reversal_def Let_def)

lemma settle_flexible_deposit_replay:
  assumes "ledger_inv db" and "knows_wallet db w" and "0 < a"
    and "find_entry db (w_id w) CREDIT CANONICAL_FLEXIBLE_DEPOSIT_TYPE (str_uuid i) = Some t"
  shows "settle_flexible_deposit db w a i d now =
           (db, if lt_amount t = a then Inr t else Inl LedgerIntegrityError)"
  using lock_wallet_known [OF assms(1,2)] assms(3,4) by (auto simp: settle_flexible_deposit_def Let_def)

lemma refund_replay:
  assumes "ledger_inv db" and "knows_wallet db w" and "0 < a" and "rid \<noteq> []" and "rty \<noteq> []"
    and "find_entry db (w_id w) REFUND rty rid = Some t"
  shows "refund db w a (Some rid) (Some rty) d now =
           (db, if lt_amount t = a then Inr t else Inl LedgerIntegrityError)"
  using lock_wallet_known [OF assms(1,2)] assms(3-6) by (auto simp: refund_def Let_def truthy_pair_def)

lemma success_knows:
  "settle_payment db w a i d now = (db', Inr t) \<Longrightarrow> knows_wallet db w"
  "reserve_topup_reversal db w a i d now = (db', Inr t) \<Longrightarrow> knows_wallet db w"
  "settle_flexible_deposit db w a i d now = (db', Inr t) \<Longrightarrow> knows_wallet db w"
  "refund db w a rid rty d now = (db', Inr t) \<Longrightarrow> knows_wallet db w"
  by (auto simp: settle_payment_def reserve_topup_reversal_def settle_flexible_deposit_def refund_def
      and_then_Inr_iff split: if_splits dest!: lock_wallet_knows)

lemmas index_defs =
  ledger_indexes_def uq_refund_idempotency_def uq_settlement_idempotency_def
  uq_topup_reversal_debit_def uq_flexible_deposit_settlement_def uq_wallet_hold_capture_def
  reference_type_defs

lemma entry_recorded:
  assumes "ledger_inv db" and "one_entry now db ty w a db' t" and "knows_wallet db w"
    and "lt_reference_type t = Some rty" and "lt_reference_id t = Some rid"
    and "p \<in> set ledger_indexes"
    and "\<And>x. lt_transaction_type x = ty \<Longrightarrow> lt_reference_type x = Some rty \<Longrightarrow>
              lt_reference_id x = Some rid \<Longrightarrow> p x"
  shows "ledger_inv db' \<and> knows_wallet db' w \<and> find_entry db' (w_id w) ty rty rid = Some t \<and> lt_amount t = a"
proof -
  have inv': "ledger_inv db'" using assms(1,2) by (rule one_entry_inv)
  have "t \<in> set (ledger db')" using assms(2) by (rule one_entry_in_ledger)
  moreover have f: "lt_wallet_id t = w_id w" "lt_transaction_type t = ty" "lt_amount t = a"
    using assms(2) by (simp_all add: one_entry_def)
  ultimately have "find_entry db' (w_id w) ty rty rid = Some t"
    using find_entry_unique [OF inv' assms(6)] assms(4,5,7) by blast
  with inv' f(3) knows_wallet_one_entry [OF assms(3,2)] show ?thesis by simp
qed

interpretation settlement: exactly_once ledger_inv
  "\<lambda>db (w, i) a (d, now). settle_payment db w a i d now"
  "\<lambda>db (w, i). find_entry db (w_id w) CREDIT CANONICAL_SETTLEMENT_TYPE (str_uuid i)"
  lt_amount "\<lambda>db (w, i). knows_wallet db w" "\<lambda>_. True"
proof (unfold_locales, goal_cases)
  case (1 db k a x db' t)
  obtain w i d now where k: "k = (w, i)" and x: "x = (d, now)" by (cases k; cases x) auto
  have s: "settle_payment db w a i d now = (db', Inr t)" using 1(3) by (simp add: k x)
  note e = settle_payment_entry [OF 1(1) s]
  have "ledger_inv db' \<and> knows_wallet db' w \<and>
      find_entry db' (w_id w) CREDIT CANONICAL_SETTLEMENT_TYPE (str_uuid i) = Some t \<and> lt_amount t = a"
    by (rule entry_recorded [OF 1(1) e(1) success_knows(1) [OF s] e(3,4),
          where p = uq_settlement_idempotency]) (auto simp: index_defs)
  with e(2) show ?case by (simp add: k)
next
  case (2 db k a x db' e)
  then show ?case by (cases k; cases x) (auto dest: settle_payment_failure)
next
  case (3 db k t a x)
  then show ?case by (cases k; cases x) (simp add: settle_payment_replay)
qed

interpretation topup_reversal: exactly_once ledger_inv
  "\<lambda>db (w, i) a (d, now). reserve_topup_reversal db w a i d now"
  "\<lambda>db (w, i). find_entry db (w_id w) DEBIT CANONICAL_TOPUP_REVERSAL_TYPE (str_uuid i)"
  lt_amount "\<lambda>db (w, i). knows_wallet db w" "\<lambda>_. True"
proof (unfold_locales, goal_cases)
  case (1 db k a x db' t)
  obtain w i d now where k: "k = (w, i)" and x: "x = (d, now)" by (cases k; cases x) auto
  have s: "reserve_topup_reversal db w a i d now = (db', Inr t)" using 1(3) by (simp add: k x)
  note e = reserve_topup_reversal_entry [OF 1(1) s]
  have "ledger_inv db' \<and> knows_wallet db' w \<and>
      find_entry db' (w_id w) DEBIT CANONICAL_TOPUP_REVERSAL_TYPE (str_uuid i) = Some t \<and> lt_amount t = a"
    by (rule entry_recorded [OF 1(1) e(1) success_knows(2) [OF s] e(3,4),
          where p = uq_topup_reversal_debit]) (auto simp: index_defs)
  with e(2) show ?case by (simp add: k)
next
  case (2 db k a x db' e)
  then show ?case by (cases k; cases x) (auto dest: reserve_topup_reversal_failure)
next
  case (3 db k t a x)
  then show ?case by (cases k; cases x) (simp add: reserve_topup_reversal_replay)
qed

interpretation deposit_settlement: exactly_once ledger_inv
  "\<lambda>db (w, i) a (d, now). settle_flexible_deposit db w a i d now"
  "\<lambda>db (w, i). find_entry db (w_id w) CREDIT CANONICAL_FLEXIBLE_DEPOSIT_TYPE (str_uuid i)"
  lt_amount "\<lambda>db (w, i). knows_wallet db w" "\<lambda>_. True"
proof (unfold_locales, goal_cases)
  case (1 db k a x db' t)
  obtain w i d now where k: "k = (w, i)" and x: "x = (d, now)" by (cases k; cases x) auto
  have s: "settle_flexible_deposit db w a i d now = (db', Inr t)" using 1(3) by (simp add: k x)
  note e = settle_flexible_deposit_entry [OF 1(1) s]
  have "ledger_inv db' \<and> knows_wallet db' w \<and>
      find_entry db' (w_id w) CREDIT CANONICAL_FLEXIBLE_DEPOSIT_TYPE (str_uuid i) = Some t \<and> lt_amount t = a"
    by (rule entry_recorded [OF 1(1) e(1) success_knows(3) [OF s] e(3,4),
          where p = uq_flexible_deposit_settlement]) (auto simp: index_defs)
  with e(2) show ?case by (simp add: k)
next
  case (2 db k a x db' e)
  then show ?case by (cases k; cases x) (auto dest: settle_flexible_deposit_failure)
next
  case (3 db k t a x)
  then show ?case by (cases k; cases x) (simp add: settle_flexible_deposit_replay)
qed

text \<open>A refund is idempotent when the caller gives both references, as every caller in the sources does.\<close>

interpretation keyed_refund: exactly_once ledger_inv
  "\<lambda>db (w, rid, rty) a (d, now). refund db w a (Some rid) (Some rty) d now"
  "\<lambda>db (w, rid, rty). find_entry db (w_id w) REFUND rty rid"
  lt_amount "\<lambda>db (w, rid, rty). knows_wallet db w" "\<lambda>(w, rid, rty). rid \<noteq> [] \<and> rty \<noteq> []"
proof (unfold_locales, goal_cases)
  case (1 db k a x db' t)
  obtain w rid rty d now where k: "k = (w, rid, rty)" and x: "x = (d, now)" by (cases k; cases x) auto
  have s: "refund db w a (Some rid) (Some rty) d now = (db', Inr t)" using 1(3) by (simp add: k x)
  note e = refund_entry [OF 1(1) s]
  have "ledger_inv db' \<and> knows_wallet db' w \<and> find_entry db' (w_id w) REFUND rty rid = Some t \<and> lt_amount t = a"
    by (rule entry_recorded [OF 1(1) e(1) success_knows(4) [OF s] e(3,4),
          where p = uq_refund_idempotency]) (auto simp: index_defs)
  with e(2) show ?case by (simp add: k)
next
  case (2 db k a x db' e)
  then show ?case by (cases k; cases x) (auto dest: refund_failure)
next
  case (3 db k t a x)
  then show ?case by (cases k; cases x) (auto simp: refund_replay)
qed

lemma settle_flexible_deposit_recorded:
  assumes "ledger_inv db" and "settle_flexible_deposit db w a i d now = (db', Inr t)"
  shows "ledger_inv db' \<and> knows_wallet db' w \<and>
    find_entry db' (w_id w) CREDIT CANONICAL_FLEXIBLE_DEPOSIT_TYPE (str_uuid i) = Some t \<and> lt_amount t = a \<and> 0 < a"
  using deposit_settlement.op_success [of db "(w, i)" a "(d, now)" db' t] assms by simp

lemma settle_payment_recorded:
  assumes "ledger_inv db" and "settle_payment db w a i d now = (db', Inr t)"
  shows "ledger_inv db' \<and> knows_wallet db' w \<and>
    find_entry db' (w_id w) CREDIT CANONICAL_SETTLEMENT_TYPE (str_uuid i) = Some t \<and> lt_amount t = a \<and> 0 < a"
  using settlement.op_success [of db "(w, i)" a "(d, now)" db' t] assms by simp

end
