(* ===== verification/Ledger_Runs.thy ===== *)
theory Ledger_Runs
  imports Ledger_Laws "HOL-Library.Multiset"
begin

text \<open>
  The ledger over time. \<open>balance_of\<close> abstracts a store to the balance of each
  (tenant, user, currency); the operations refine plain additions and subtractions on it.
  \<open>ledger_history\<close> is the set of stores that committed requests can reach from an empty
  ledger, with the clock never going back; \<open>solvent\<close> says that active holds are covered by the
  booked balance.
\<close>

section \<open>Opening a wallet\<close>

lemma get_or_create_wallet_cases:
  assumes inv: "ledger_inv db"
  obtains (found) w where "get_or_create_wallet db n u c = (db, Inr w)" "w \<in> set (wallets db)"
      "wallet_key w = (n, u, c)"
  | (created) w where
      "get_or_create_wallet db n u c =
         (db\<lparr>wallets := wallets db @ [w], next_id := Suc (next_id db)\<rparr>, Inr w)"
      "w = \<lparr>w_id = next_id db, w_tenant_id = n, w_user_id = u, w_currency = c, w_balance = 0,
            w_is_active = True\<rparr>"
      "\<forall>x \<in> set (wallets db). wallet_key x \<noteq> (n, u, c)"
proof -
  let ?p = "\<lambda>w. w_tenant_id w = n \<and> w_user_id w = u \<and> w_currency w = c"
  have one: "scalar_one_or_none ?p (wallets db) = Inr (first_row ?p (wallets db))"
    using inv by (intro scalar_one_or_none_unique [where k = wallet_key])
      (auto simp: ledger_inv_def wallet_key_def)
  show thesis
  proof (cases "first_row ?p (wallets db)")
    case (Some w)
    then show thesis
      using one by (intro found [of w]) (auto simp: get_or_create_wallet_def wallet_key_def dest: first_row_SomeD)
  next
    case None
    then have none: "\<forall>x \<in> set (wallets db). wallet_key x \<noteq> (n, u, c)"
      by (auto simp: first_row_None_iff wallet_key_def)
    then show thesis
      using one None
      by (intro created) (auto simp: get_or_create_wallet_def flush_wallet_def violates_def
          list_ex_iff wallet_key_def Let_def)
  qed
qed

lemma entries_new_wallet: "ledger_inv db \<Longrightarrow> entries db (next_id db) = []"
  by (fastforce simp: ledger_inv_def entries_def filter_empty_conv)

lemma new_wallet_inv:
  assumes inv: "ledger_inv db" and "\<forall>x \<in> set (wallets db). wallet_key x \<noteq> wallet_key w"
    and "w_id w = next_id db" and "w_balance w = 0"
  shows "ledger_inv (db\<lparr>wallets := wallets db @ [w], next_id := Suc (next_id db)\<rparr>)"
  using assms entries_new_wallet [OF inv]
  unfolding ledger_inv_def by (auto simp: entries_def less_SucI)

lemma get_or_create_wallet_InrD:
  assumes inv: "ledger_inv db" and "get_or_create_wallet db n u c = (db', Inr w)"
  shows "ledger_inv db'" and "w \<in> set (wallets db')" and "wallet_key w = (n, u, c)"
    and "ledger db' = ledger db" and "holds db' = holds db"
    and "ledger_db.more db' = ledger_db.more db" and "wallet_ids db \<subseteq> wallet_ids db'"
proof -
  have "ledger_inv db' \<and> w \<in> set (wallets db') \<and> wallet_key w = (n, u, c) \<and> ledger db' = ledger db \<and>
      holds db' = holds db \<and> ledger_db.more db' = ledger_db.more db \<and> wallet_ids db \<subseteq> wallet_ids db'"
    using inv
  proof (cases rule: get_or_create_wallet_cases [of db n u c])
    case (found v)
    with assms show ?thesis by simp
  next
    case (created v)
    then show ?thesis using assms new_wallet_inv [OF inv, of v] by (auto simp: wallet_key_def wallet_ids_def)
  qed
  then show "ledger_inv db'" "w \<in> set (wallets db')" "wallet_key w = (n, u, c)"
    "ledger db' = ledger db" "holds db' = holds db" "ledger_db.more db' = ledger_db.more db"
    "wallet_ids db \<subseteq> wallet_ids db'"
    by simp_all
qed

lemma get_or_create_wallet_total:
  "ledger_inv db \<Longrightarrow> \<exists>db' w. get_or_create_wallet db n u c = (db', Inr w)"
  by (cases rule: get_or_create_wallet_cases [of db n u c]) auto

section \<open>The abstract balances\<close>

definition balance_of :: "'x ledger_db_scheme \<Rightarrow> uuid \<times> uuid \<times> str \<Rightarrow> decimal" where
  "balance_of db k = (case first_row (\<lambda>w. wallet_key w = k) (wallets db) of None \<Rightarrow> 0 | Some w \<Rightarrow> w_balance w)"

lemma first_row_key:
  assumes "ledger_inv db" and "w \<in> set (wallets db)"
  shows "first_row (\<lambda>x. wallet_key x = wallet_key w) (wallets db) = Some w"
proof (cases "first_row (\<lambda>x. wallet_key x = wallet_key w) (wallets db)")
  case None
  with assms show ?thesis by (auto simp: first_row_None_iff)
next
  case (Some x)
  then have "x \<in> set (wallets db)" and "wallet_key x = wallet_key w" by (auto dest: first_row_SomeD)
  with assms have "x = w" by (auto simp: ledger_inv_def distinct_map inj_on_def)
  with Some show ?thesis by simp
qed

lemma balance_of_wallet:
  "ledger_inv db \<Longrightarrow> w \<in> set (wallets db) \<Longrightarrow> balance_of db (wallet_key w) = w_balance w"
  by (simp add: balance_of_def first_row_key)

lemma first_row_update_where:
  assumes "\<And>r. p (f r) = p r"
  shows "first_row p (update_where q f rs) = map_option (\<lambda>r. if q r then f r else r) (first_row p rs)"
  using assms by (induction rs) auto

lemma balance_of_set_balance:
  assumes inv: "ledger_inv db" and w: "w \<in> set (wallets db)"
  shows "balance_of (set_balance (w_id w) b db) = (balance_of db)(wallet_key w := b)"
proof
  fix k
  have row: "first_row (\<lambda>x. wallet_key x = k) (wallets (set_balance (w_id w) b db)) =
      map_option (\<lambda>x. if w_id x = w_id w then x\<lparr>w_balance := b\<rparr> else x)
        (first_row (\<lambda>x. wallet_key x = k) (wallets db))"
    unfolding set_balance_def by (simp add: first_row_update_where wallet_key_def)
  show "balance_of (set_balance (w_id w) b db) k = ((balance_of db)(wallet_key w := b)) k"
  proof (cases "k = wallet_key w")
    case True
    then show ?thesis using row first_row_key [OF inv w] by (simp add: balance_of_def)
  next
    case False
    have "w_id x \<noteq> w_id w" if "first_row (\<lambda>x. wallet_key x = k) (wallets db) = Some x" for x
      using that False wallet_by_id [OF inv _ w, of x] by (auto dest!: first_row_SomeD)
    then show ?thesis using False row
      by (cases "first_row (\<lambda>x. wallet_key x = k) (wallets db)") (auto simp: balance_of_def)
  qed
qed

lemma balance_of_books:
  assumes inv: "ledger_inv db" and b: "books now db db' t" and w: "w \<in> set (wallets db)" "w_id w = lt_wallet_id t"
  shows "balance_of db' = (balance_of db)(wallet_key w := lt_balance_after t)"
    and "lt_balance_before t = balance_of db (wallet_key w)"
proof -
  from b obtain v where v: "v \<in> set (wallets db)" "lt_wallet_id t = w_id v" "lt_balance_before t = w_balance v"
    by (auto simp: books_def)
  then have vw: "v = w" using wallet_by_id [OF inv v(1) w(1)] w(2) by simp
  have db': "balance_of db' = balance_of (set_balance (w_id w) (lt_balance_after t) db)"
    using b w(2) by (auto simp: books_def balance_of_def)
  show "balance_of db' = (balance_of db)(wallet_key w := lt_balance_after t)"
    using balance_of_set_balance [OF inv w(1)] db' by simp
  show "lt_balance_before t = balance_of db (wallet_key w)"
    using v vw balance_of_wallet [OF inv w(1)] by simp
qed

lemma balance_of_get_or_create:
  assumes inv: "ledger_inv db" and "get_or_create_wallet db n u c = (db', Inr w)"
  shows "balance_of db' = balance_of db"
  using inv
proof (cases rule: get_or_create_wallet_cases [of db n u c])
  case (found v)
  with assms show ?thesis by simp
next
  case (created v)
  then have "wallet_key v = (n, u, c)" by (simp add: wallet_key_def)
  moreover have "balance_of (db\<lparr>wallets := wallets db @ [v], next_id := m\<rparr>) k = balance_of db k" for k m
    using created by (auto simp: balance_of_def first_row_append wallet_key_def split: option.splits)
  ultimately show ?thesis using created assms by auto
qed

text \<open>The signed effect of a transaction type on a balance.\<close>

fun signed :: "TransactionType \<Rightarrow> decimal \<Rightarrow> decimal" where
  "signed DEBIT a = - a"
| "signed _ a = a"

lemma sound_after:
  "tx_sound t \<Longrightarrow> lt_transaction_type t \<noteq> ADJUSTMENT \<Longrightarrow>
   lt_balance_after t = lt_balance_before t + signed (lt_transaction_type t) (lt_amount t)"
  by (cases "lt_transaction_type t") (auto simp: tx_sound_def sound_move_def)

lemma balance_of_one_entry:
  assumes inv: "ledger_inv db" and e: "one_entry now db ty w a db' t" and w: "w \<in> set (wallets db)"
    and ty: "ty \<noteq> ADJUSTMENT"
  shows "balance_of db' = balance_of db \<or>
    balance_of db' = (balance_of db)(wallet_key w := balance_of db (wallet_key w) + signed ty a)"
proof -
  have f: "lt_wallet_id t = w_id w" "lt_transaction_type t = ty" "lt_amount t = a"
    and "db' = db \<or> books now db db' t"
    using e by (auto simp: one_entry_def)
  then consider "db' = db" | "books now db db' t" by blast
  then show ?thesis
  proof cases
    case 2
    then have "tx_sound t" by (simp add: books_def)
    then have "lt_balance_after t = lt_balance_before t + signed ty a"
      using sound_after f ty by simp
    then show ?thesis using balance_of_books [OF inv 2 w] f by simp
  qed simp
qed

section \<open>Holds\<close>

definition solvent :: "'x ledger_db_scheme \<Rightarrow> bool" where
  "solvent db \<longleftrightarrow> (\<forall>w \<in> set (wallets db). active_total db (w_id w) \<le> w_balance w)"

lemma active_total_frame [simp]:
  "active_total (set_balance i b db) j = active_total db j"
  "active_total (db\<lparr>ledger := l, next_id := n\<rparr>) j = active_total db j"
  "active_total (db\<lparr>wallets := ws, next_id := n\<rparr>) j = active_total db j"
  by (simp_all add: active_total_def)

lemma books_solvent:
  assumes "ledger_inv db" and "solvent db" and "books now db db' t"
    and "active_total db (lt_wallet_id t) \<le> lt_balance_after t"
  shows "solvent db'"
proof -
  have db': "db' = (set_balance (lt_wallet_id t) (lt_balance_after t) db)
      \<lparr>ledger := ledger db @ [t], next_id := Suc (next_id db)\<rparr>"
    using assms(3) by (simp add: books_def)
  show ?thesis
    unfolding solvent_def
  proof
    fix v
    assume "v \<in> set (wallets db')"
    then obtain u where "u \<in> set (wallets db)"
      and "v = (if w_id u = lt_wallet_id t then u\<lparr>w_balance := lt_balance_after t\<rparr> else u)"
      by (auto simp: db' set_balance_def in_update_where)
    then show "active_total db' (w_id v) \<le> w_balance v"
      using assms(2,4) by (auto simp: db' solvent_def)
  qed
qed

lemma lock_hold_InrD:
  assumes "lock_hold db h = (db', Inr x)"
  shows "db' = db" and "x \<in> set (holds db)" and "h_id x = h_id h" and "h_tenant_id x = h_tenant_id h"
  using assms by (auto simp: lock_hold_def lift_res_Inr_iff dest!: scalar_one_InrD)

lemma lock_hold_row:
  assumes "ledger_inv db" and "h \<in> set (holds db)"
  shows "lock_hold db h = (db, Inr h)"
proof -
  let ?p = "\<lambda>x. h_id x = h_id h \<and> h_tenant_id x = h_tenant_id h"
  have "distinct (map h_id (holds db))" using assms(1) by (simp add: ledger_inv_def)
  then have "filter ?p (holds db) = [] \<or> (\<exists>r. filter ?p (holds db) = [r])"
    by (rule filter_unique_key) auto
  moreover have "h \<in> set (filter ?p (holds db))" using assms(2) by simp
  ultimately have "filter ?p (holds db) = [h]" by (auto simp del: set_filter)
  then show ?thesis by (simp add: lock_hold_def scalar_one_def)
qed

lemma set_hold_inv:
  assumes "ledger_inv db"
    and "\<And>x. h_id (f x) = h_id x \<and> hold_key (f x) = hold_key x \<and> h_amount (f x) = h_amount x \<and>
      h_wallet_id (f x) = h_wallet_id x"
  shows "ledger_inv (set_hold i f db)"
  using assms unfolding ledger_inv_def set_hold_def
  by (auto simp: in_update_where entries_def)

lemma active_sum_update:
  assumes "distinct (map h_id hs)" and "h \<in> set hs" and "h_status h = ACTIVE"
    and "\<And>x. h_status (f x) \<noteq> ACTIVE"
  shows "sum_list (map h_amount (filter (\<lambda>x. h_wallet_id x = j \<and> h_status x = ACTIVE)
            (update_where (\<lambda>x. h_id x = h_id h) f hs))) =
         sum_list (map h_amount (filter (\<lambda>x. h_wallet_id x = j \<and> h_status x = ACTIVE) hs)) -
         (if h_wallet_id h = j then h_amount h else 0)"
  using assms(1,2)
proof (induction hs)
  case Nil
  then show ?case by simp
next
  case (Cons x hs)
  show ?case
  proof (cases "h_id x = h_id h")
    case True
    have rest: "\<forall>y \<in> set hs. h_id y \<noteq> h_id h" using Cons.prems(1) True by (force simp: image_iff)
    then have "x = h" using Cons.prems(2) by auto
    moreover have "update_where (\<lambda>x. h_id x = h_id h) f hs = hs"
      using rest by (simp add: update_where_def map_idI)
    ultimately show ?thesis using assms(3,4) by simp
  next
    case False
    then show ?thesis using Cons by auto
  qed
qed

lemma active_total_set_hold:
  assumes "ledger_inv db" and "h \<in> set (holds db)" and "h_status h = ACTIVE"
    and "\<And>x. h_status (f x) \<noteq> ACTIVE"
  shows "active_total (set_hold (h_id h) f db) j =
           active_total db j - (if h_wallet_id h = j then h_amount h else 0)"
  using active_sum_update [OF _ assms(2-4)] assms(1)
  by (simp add: active_total_def set_hold_def ledger_inv_def)

lemma set_hold_solvent:
  assumes "ledger_inv db" and "solvent db" and "h \<in> set (holds db)" and "h_status h = ACTIVE"
    and "\<And>x. h_status (f x) \<noteq> ACTIVE"
  shows "solvent (set_hold (h_id h) f db)"
proof -
  have pos: "0 < h_amount h" using assms(1,3) by (auto simp: ledger_inv_def)
  show ?thesis
    unfolding solvent_def
  proof
    fix w
    assume "w \<in> set (wallets (set_hold (h_id h) f db))"
    then have "active_total db (w_id w) \<le> w_balance w"
      using assms(2) by (simp add: set_hold_def solvent_def)
    then show "active_total (set_hold (h_id h) f db) (w_id w) \<le> w_balance w"
      using active_total_set_hold [OF assms(1,3,4,5), where j = "w_id w"] pos by (auto split: if_splits)
  qed
qed

lemma reserve_cases:
  assumes "reserve db w a key rty rid ex = (db', Inr h)"
  obtains (existing) "db' = db" "h \<in> set (holds db)" "h_amount h = a" "h_wallet_id h = w_id w"
  | (fresh) x where "lock_wallet db w = (db, Inr x)" "0 < a"
      "a + active_total db (w_id x) \<le> w_balance x"
      "db' = db\<lparr>holds := holds db @ [h], next_id := Suc (next_id db)\<rparr>"
      "h_id h = next_id db" "h_amount h = a" "h_wallet_id h = w_id x" "h_status h = ACTIVE"
      "\<forall>y \<in> set (holds db). hold_key y \<noteq> hold_key h"
proof -
  obtain y where lw: "lock_wallet db w = (db, y)" using fst_lock_wallet [of db w] by (cases "lock_wallet db w") auto
  then obtain x where pos: "0 < a" and x: "lock_wallet db w = (db, Inr x)"
    using assms by (cases y) (auto simp: reserve_def split: if_splits)
  let ?p = "\<lambda>h. h_tenant_id h = w_tenant_id x \<and> h_idempotency_key h = key"
  show thesis
  proof (cases "first_row ?p (holds db)")
    case (Some g)
    then show thesis
      using existing assms pos x lock_wallet_InrD(3) [OF x]
      by (auto simp: reserve_def split: if_splits dest: first_row_SomeD)
  next
    case None
    then show thesis
      using assms pos x
      by (intro fresh [OF x pos])
         (auto simp: reserve_def flush_hold_def Let_def not_less violates_def list_ex_iff split: if_splits)
  qed
qed

lemma capture_cases:
  assumes "capture db h d now = (db', Inr t)"
  obtains (replay) x where "x \<in> set (holds db)" "h_id x = h_id h" "h_status x = CAPTURED" "db' = db"
      "t \<in> set (ledger db)"
  | (booked) x w d' where "x \<in> set (holds db)" "h_id x = h_id h" "h_status x = ACTIVE"
      "w \<in> set (wallets db)" "w_id w = h_wallet_id x"
      "debit (set_hold (h_id x) (\<lambda>h. h\<lparr>h_status := CAPTURED, h_captured_at := Some now\<rparr>) db)
         w (h_amount x) (Some (str_uuid (h_id x))) (Some WALLET_HOLD_CAPTURE_REF) d' now = (db', Inr t)"
proof -
  from assms obtain x where x: "lock_hold db h = (db, Inr x)"
    and r: "(h_status x = CAPTURED \<and> db' = db \<and>
        find_entry db (h_wallet_id x) DEBIT WALLET_HOLD_CAPTURE_REF (str_uuid (h_id x)) = Some t) \<or>
      (h_status x = ACTIVE \<and> (\<exists>w d'. first_row (\<lambda>w. w_id w = h_wallet_id x) (wallets db) = Some w \<and>
        debit (set_hold (h_id x) (\<lambda>h. h\<lparr>h_status := CAPTURED, h_captured_at := Some now\<rparr>) db)
         w (h_amount x) (Some (str_uuid (h_id x))) (Some WALLET_HOLD_CAPTURE_REF) d' now = (db', Inr t)))"
    by (auto simp: capture_def and_then_Inr_iff split: if_splits option.splits dest: lock_hold_InrD(1))
  note l = lock_hold_InrD [OF x]
  from r show thesis
  proof (elim disjE conjE exE)
    assume "h_status x = CAPTURED" "db' = db"
      "find_entry db (h_wallet_id x) DEBIT WALLET_HOLD_CAPTURE_REF (str_uuid (h_id x)) = Some t"
    then show thesis using replay l find_entry_SomeD(1) by blast
  next
    fix w d'
    assume "h_status x = ACTIVE" "first_row (\<lambda>w. w_id w = h_wallet_id x) (wallets db) = Some w"
      "debit (set_hold (h_id x) (\<lambda>h. h\<lparr>h_status := CAPTURED, h_captured_at := Some now\<rparr>) db)
         w (h_amount x) (Some (str_uuid (h_id x))) (Some WALLET_HOLD_CAPTURE_REF) d' now = (db', Inr t)"
    moreover have "w \<in> set (wallets db)" "w_id w = h_wallet_id x"
      using calculation(2) by (auto dest: first_row_SomeD)
    ultimately show thesis using booked [of x w d'] l by simp
  qed
qed

lemma release_cases:
  assumes "release db h now = (db', Inr r)"
  obtains (replay) "db' = db" "r \<in> set (holds db)" "h_id r = h_id h" "h_status r = RELEASED"
  | (released) x where "x \<in> set (holds db)" "h_id x = h_id h" "h_status x = ACTIVE"
      "db' = set_hold (h_id x) (\<lambda>h. h\<lparr>h_status := RELEASED, h_released_at := Some now\<rparr>) db"
proof -
  from assms obtain x where x: "lock_hold db h = (db, Inr x)"
    and r: "(h_status x = RELEASED \<and> db' = db \<and> r = x) \<or> (h_status x = ACTIVE \<and>
       db' = set_hold (h_id x) (\<lambda>h. h\<lparr>h_status := RELEASED, h_released_at := Some now\<rparr>) db)"
    by (auto simp: release_def and_then_Inr_iff split: if_splits dest: lock_hold_InrD(1))
  from r lock_hold_InrD [OF x] replay released [of x] show thesis by blast
qed

section \<open>Committed requests\<close>

datatype ledger_op =
    GetOrCreateWallet uuid uuid str
  | Credit wallet decimal "str option" "str option" "str option"
  | SettlePayment wallet decimal uuid "str option"
  | ReserveTopupReversal wallet decimal uuid "str option"
  | SettleFlexibleDeposit wallet decimal uuid "str option"
  | Debit wallet decimal "str option" "str option" "str option"
  | Refund wallet decimal "str option" "str option" "str option"
  | Adjust wallet decimal str
  | Reserve wallet decimal str str str "timestamp option"
  | Capture wallet_hold "str option"
  | Release wallet_hold

definition forget :: "('s, 'a) run \<Rightarrow> ('s, unit) run" where
  "forget m = (fst m, map_sum id (\<lambda>_. ()) (snd m))"

fun perform :: "'x ledger_db_scheme \<Rightarrow> timestamp \<Rightarrow> ledger_op \<Rightarrow> ('x ledger_db_scheme, unit) run" where
  "perform db now (GetOrCreateWallet n u c) = forget (get_or_create_wallet db n u c)"
| "perform db now (Credit w a rid rty d) = forget (credit db w a rid rty d now)"
| "perform db now (SettlePayment w a i d) = forget (settle_payment db w a i d now)"
| "perform db now (ReserveTopupReversal w a i d) = forget (reserve_topup_reversal db w a i d now)"
| "perform db now (SettleFlexibleDeposit w a i d) = forget (settle_flexible_deposit db w a i d now)"
| "perform db now (Debit w a rid rty d) = forget (debit db w a rid rty d now)"
| "perform db now (Refund w a rid rty d) = forget (refund db w a rid rty d now)"
| "perform db now (Adjust w b reason) = forget (adjust db w b reason now)"
| "perform db now (Reserve w a key rty rid ex) = forget (reserve db w a key rty rid ex)"
| "perform db now (Capture h d) = forget (capture db h d now)"
| "perform db now (Release h) = forget (release db h now)"

definition commit_op ::
  "'x ledger_db_scheme \<Rightarrow> timestamp \<Rightarrow> ledger_op \<Rightarrow> 'x ledger_db_scheme" where
  "commit_op db now op = fst (get_db_session (\<lambda>db. perform db now op) db)"

inductive ledger_history :: "'x ledger_db_scheme \<Rightarrow> timestamp \<Rightarrow> bool" where
  start: "wallets db = [] \<Longrightarrow> ledger db = [] \<Longrightarrow> holds db = [] \<Longrightarrow> ledger_history db t"
| step: "ledger_history db t \<Longrightarrow> t \<le> now \<Longrightarrow> ledger_history (commit_op db now op) now"

text \<open>
  What one successful operation does to the log: nothing, or one entry stamped \<open>now\<close> appended.
  No wallet row ever goes away.
\<close>

definition wallet_rows :: "'x ledger_db_scheme \<Rightarrow> (uuid \<times> uuid \<times> uuid \<times> str) set" where
  "wallet_rows db = (\<lambda>w. (w_id w, wallet_key w)) ` set (wallets db)"

lemma books_rows: "books now db db' t \<Longrightarrow> wallet_rows db' = wallet_rows db"
proof -
  have "map (\<lambda>w. (w_id w, wallet_key w)) (wallets (set_balance k b db)) = map (\<lambda>w. (w_id w, wallet_key w)) (wallets db)" for k b
    unfolding set_balance_def by (simp add: wallet_key_def)
  from arg_cong [OF this, of set] have "wallet_rows (set_balance k b db) = wallet_rows db" for k b
    by (simp add: wallet_rows_def)
  then show "books now db db' t \<Longrightarrow> wallet_rows db' = wallet_rows db" by (auto simp: books_def wallet_rows_def)
qed

lemma get_or_create_wallet_rows:
  assumes inv: "ledger_inv db" and "get_or_create_wallet db n u c = (db', Inr w)"
  shows "wallet_rows db \<subseteq> wallet_rows db'" and "next_id db \<le> next_id db'"
  using assms(2) by (cases rule: get_or_create_wallet_cases [OF inv, of n u c]; auto simp: wallet_rows_def)+

definition log_step :: "timestamp \<Rightarrow> 'x ledger_db_scheme \<Rightarrow> 'x ledger_db_scheme \<Rightarrow> bool" where
  "log_step now db db' \<longleftrightarrow>
     ledger_inv db' \<and> ledger_db.more db' = ledger_db.more db \<and> wallet_ids db \<subseteq> wallet_ids db' \<and>
     wallet_rows db \<subseteq> wallet_rows db' \<and> next_id db \<le> next_id db' \<and>
     (ledger db' = ledger db \<or>
      (\<exists>t. ledger db' = ledger db @ [t] \<and> lt_created_at t = now \<and>
         (\<forall>x \<in> set (ledger db). lt_id x < lt_id t)))"

lemma log_step_books:
  assumes "ledger_inv db" and "books now db db' t"
  shows "log_step now db db'"
proof -
  have "ledger_inv db'" using assms by (rule books_keeps_inv)
  moreover have "wallet_ids db' = wallet_ids db" using assms(2) by (rule books_wallet_ids)
  moreover have "wallet_rows db' = wallet_rows db" using assms(2) by (rule books_rows)
  ultimately show ?thesis using assms by (auto simp: log_step_def books_def ledger_inv_def)
qed

lemma log_step_one_entry: "ledger_inv db \<Longrightarrow> one_entry now db ty w a db' t \<Longrightarrow> log_step now db db'"
  by (auto simp: one_entry_def intro: log_step_books) (simp add: log_step_def)

lemma log_step_refl: "ledger_inv db \<Longrightarrow> log_step now db db"
  by (simp add: log_step_def)

lemma reserve_log_step:
  assumes inv: "ledger_inv db" and "reserve db w a key rty rid ex = (db', Inr h)"
  shows "log_step now db db'"
  using assms(2)
proof (cases rule: reserve_cases)
  case existing
  then show ?thesis using inv by (simp add: log_step_refl)
next
  case (fresh x)
  have "w_id x \<in> w_id ` set (wallets db)" using lock_wallet_InrD(2) [OF fresh(1)] by simp
  then have "ledger_inv db'"
    using inv fresh unfolding ledger_inv_def by (auto simp: entries_def less_SucI)
  then show ?thesis using fresh by (simp add: log_step_def wallet_ids_def wallet_rows_def)
qed

lemma capture_inv_parts:
  assumes inv: "ledger_inv db" and "capture db h d now = (db', Inr t)"
  shows "log_step now db db'" and "solvent db \<Longrightarrow> solvent db'"
proof -
  let ?cap = "\<lambda>h. h\<lparr>h_status := CAPTURED, h_captured_at := Some now\<rparr>"
  have "log_step now db db' \<and> (solvent db \<longrightarrow> solvent db')"
    using assms(2)
  proof (cases rule: capture_cases)
    case (replay x)
    then show ?thesis using inv by (simp add: log_step_refl)
  next
    case (booked x w d')
    let ?db = "set_hold (h_id x) ?cap db"
    have inv1: "ledger_inv ?db" using inv by (rule set_hold_inv) (simp add: hold_key_def)
    note e = debit_entry [OF inv1 booked(6)]
    have "log_step now ?db db'" using inv1 e(2) by (rule log_step_books)
    then have "log_step now db db'" by (simp add: log_step_def set_hold_def wallet_ids_def wallet_rows_def)
    moreover have "solvent db'" if "solvent db"
    proof -
      have "solvent ?db" using set_hold_solvent [OF inv that booked(1,3)] by simp
      moreover have "active_total ?db (lt_wallet_id t) \<le> lt_balance_after t"
        using e sound_after [of t] by (auto simp: one_entry_def books_def)
      ultimately show ?thesis using books_solvent [OF inv1 _ e(2)] by blast
    qed
    ultimately show ?thesis by blast
  qed
  then show "log_step now db db'" and "solvent db \<Longrightarrow> solvent db'" by blast+
qed

lemma release_inv_parts:
  assumes inv: "ledger_inv db" and "release db h now = (db', Inr r)"
  shows "log_step now db db'" and "solvent db \<Longrightarrow> solvent db'"
proof -
  let ?rel = "\<lambda>h. h\<lparr>h_status := RELEASED, h_released_at := Some now\<rparr>"
  have "log_step now db db' \<and> (solvent db \<longrightarrow> solvent db')"
    using assms(2)
  proof (cases rule: release_cases)
    case replay
    then show ?thesis using inv by (simp add: log_step_refl)
  next
    case (released x)
    have "ledger_inv (set_hold (h_id x) ?rel db)"
      using inv by (rule set_hold_inv) (simp add: hold_key_def)
    then have "log_step now db db'" using released(4) by (simp add: log_step_def set_hold_def wallet_ids_def wallet_rows_def)
    moreover have "solvent db \<longrightarrow> solvent db'"
      using set_hold_solvent [OF inv _ released(1,3)] released(4) by simp
    ultimately show ?thesis by blast
  qed
  then show "log_step now db db'" and "solvent db \<Longrightarrow> solvent db'" by blast+
qed

lemma forget_Inr_iff: "forget m = (db', Inr u) \<longleftrightarrow> (\<exists>x. m = (db', Inr x))"
  by (cases m; cases "snd m") (auto simp: forget_def)

lemma perform_log_step:
  assumes inv: "ledger_inv db" and "perform db now op = (db', Inr u)"
  shows "log_step now db db'"
proof (cases op)
  case (GetOrCreateWallet n u c)
  with assms(2) obtain w where "get_or_create_wallet db n u c = (db', Inr w)"
    by (auto simp: forget_Inr_iff)
  from get_or_create_wallet_InrD [OF inv this] get_or_create_wallet_rows [OF inv this] show ?thesis by (simp add: log_step_def)
next
  case (Credit w a rid rty d)
  with assms obtain t where "credit db w a rid rty d now = (db', Inr t)" by (auto simp: forget_Inr_iff)
  then show ?thesis using credit_entry(1) [OF inv] log_step_one_entry [OF inv] by blast
next
  case (SettlePayment w a i d)
  with assms obtain t where "settle_payment db w a i d now = (db', Inr t)" by (auto simp: forget_Inr_iff)
  then show ?thesis using settle_payment_entry(1) [OF inv] log_step_one_entry [OF inv] by blast
next
  case (ReserveTopupReversal w a i d)
  with assms obtain t where "reserve_topup_reversal db w a i d now = (db', Inr t)" by (auto simp: forget_Inr_iff)
  then show ?thesis using reserve_topup_reversal_entry(1) [OF inv] log_step_one_entry [OF inv] by blast
next
  case (SettleFlexibleDeposit w a i d)
  with assms obtain t where "settle_flexible_deposit db w a i d now = (db', Inr t)" by (auto simp: forget_Inr_iff)
  then show ?thesis using settle_flexible_deposit_entry(1) [OF inv] log_step_one_entry [OF inv] by blast
next
  case (Debit w a rid rty d)
  with assms obtain t where "debit db w a rid rty d now = (db', Inr t)" by (auto simp: forget_Inr_iff)
  then show ?thesis using debit_entry(1) [OF inv] log_step_one_entry [OF inv] by blast
next
  case (Refund w a rid rty d)
  with assms obtain t where "refund db w a rid rty d now = (db', Inr t)" by (auto simp: forget_Inr_iff)
  then show ?thesis using refund_entry(1) [OF inv] log_step_one_entry [OF inv] by blast
next
  case (Adjust w b reason)
  with assms obtain t where "adjust db w b reason now = (db', Inr t)" by (auto simp: forget_Inr_iff)
  then show ?thesis using adjust_entry(1) [OF inv] log_step_books [OF inv] by blast
next
  case (Reserve w a key rty rid ex)
  with assms obtain h where "reserve db w a key rty rid ex = (db', Inr h)" by (auto simp: forget_Inr_iff)
  then show ?thesis using reserve_log_step [OF inv] by blast
next
  case (Capture h d)
  with assms obtain t where "capture db h d now = (db', Inr t)" by (auto simp: forget_Inr_iff)
  then show ?thesis using capture_inv_parts(1) [OF inv] by blast
next
  case (Release h)
  with assms obtain r where "release db h now = (db', Inr r)" by (auto simp: forget_Inr_iff)
  then show ?thesis using release_inv_parts(1) [OF inv] by blast
qed

lemma commit_op_cases:
  obtains (rolled_back) "commit_op db now op = db"
  | (committed) "perform db now op = (commit_op db now op, Inr ())"
  by (cases "perform db now op"; cases "snd (perform db now op)") (auto simp: commit_op_def get_db_session_def)

lemma commit_op_log_step: "ledger_inv db \<Longrightarrow> log_step now db (commit_op db now op)"
  by (cases rule: commit_op_cases [of db now op]) (auto simp: log_step_refl intro: perform_log_step)

section \<open>Reachable ledgers\<close>

definition log_order :: "ledger_transaction \<Rightarrow> timestamp \<times> uuid" where
  "log_order t = (lt_created_at t, lt_id t)"

definition log_sorted :: "timestamp \<Rightarrow> 'x ledger_db_scheme \<Rightarrow> bool" where
  "log_sorted now db \<longleftrightarrow>
     sorted (map log_order (ledger db)) \<and> (\<forall>t \<in> set (ledger db). lt_created_at t \<le> now)"

lemma log_sorted_step:
  assumes "log_sorted t db" and "t \<le> now" and "log_step now db db'"
  shows "log_sorted now db'"
  using assms by (fastforce simp: log_sorted_def log_step_def log_order_def sorted_append less_eq_prod_simp)

lemma ledger_history_inv: "ledger_history db t \<Longrightarrow> ledger_inv db \<and> log_sorted t db"
proof (induction rule: ledger_history.induct)
  case (start db t)
  then show ?case by (simp add: ledger_inv_def log_sorted_def)
next
  case (step db t now op)
  then have st: "log_step now db (commit_op db now op)" using commit_op_log_step by blast
  then have "ledger_inv (commit_op db now op)" by (simp add: log_step_def)
  with st step show ?case using log_sorted_step by blast
qed

lemma entries_by_time_sorted:
  assumes "log_sorted t db"
  shows "entries_by_time db i = entries db i"
proof -
  have "sorted (map log_order (filter (\<lambda>t. lt_wallet_id t = i) (ledger db)))"
    using assms by (simp add: log_sorted_def sorted_filter)
  then show ?thesis
    by (simp add: entries_by_time_def entries_def log_order_def [abs_def] sorted_sort_id sort_key_id_if_sorted)
qed

text \<open>Without manual adjustments the replay is a sum, and the order of the rows does not matter.\<close>

lemma reconstruct_sum:
  assumes "\<forall>t \<in> set ts. lt_transaction_type t \<noteq> ADJUSTMENT"
  shows "foldl reconstruct_step b ts = b + sum_list (map (\<lambda>t. signed (lt_transaction_type t) (lt_amount t)) ts)"
  using assms
proof (induction ts arbitrary: b)
  case Nil
  then show ?case by simp
next
  case (Cons t ts)
  then have "reconstruct_step b t = b + signed (lt_transaction_type t) (lt_amount t)"
    by (cases "lt_transaction_type t") (simp_all add: reconstruct_step.simps)
  with Cons show ?case by simp
qed

lemma sum_list_sort_key: "sum_list (map f (sort_key k xs)) = (sum_list (map f xs) :: decimal)"
  by (metis mset_map mset_sort sum_mset_sum_list)

lemma reconstruct_any_order:
  assumes "\<forall>t \<in> set ts. lt_transaction_type t \<noteq> ADJUSTMENT"
  shows "foldl reconstruct_step b (sort_key k ts) = foldl reconstruct_step b ts"
  using assms by (simp add: reconstruct_sum sum_list_sort_key)

end
