(* ===== verification/Ledger_Properties.thy ===== *)
theory Ledger_Properties
  imports Ledger_Runs
begin

text \<open>
  The properties of the wallet ledger: the audit of every reachable ledger succeeds, the keyed
  operations happen exactly once whatever is committed in between, the operations refine
  arithmetic on the abstract balances, and active holds stay covered.
\<close>

section \<open>Facts that survive later requests\<close>

definition commit_all :: "'x ledger_db_scheme \<Rightarrow> (timestamp \<times> ledger_op) list \<Rightarrow> 'x ledger_db_scheme" where
  "commit_all db ops = foldl (\<lambda>db (now, op). commit_op db now op) db ops"

lemma find_entry_append:
  "find_entry db i ty rty rid = Some t \<Longrightarrow> ledger db' = ledger db @ ts \<Longrightarrow>
   find_entry db' i ty rty rid = Some t"
  by (simp add: find_entry_def)

lemma commit_all_step:
  assumes "ledger_inv db"
  shows "ledger_inv (commit_all db ops) \<and> wallet_ids db \<subseteq> wallet_ids (commit_all db ops) \<and>
         (\<exists>ts. ledger (commit_all db ops) = ledger db @ ts)"
  using assms
proof (induction ops arbitrary: db)
  case Nil
  then show ?case by (simp add: commit_all_def)
next
  case (Cons x ops)
  obtain now op where x: "x = (now, op)" by (cases x)
  let ?db = "commit_op db now op"
  have st: "log_step now db ?db" using Cons.prems by (rule commit_op_log_step)
  then have inv: "ledger_inv ?db" and ids: "wallet_ids db \<subseteq> wallet_ids ?db"
    and log: "\<exists>ts. ledger ?db = ledger db @ ts"
    by (auto simp: log_step_def)
  have step: "commit_all db (x # ops) = commit_all ?db ops" by (simp add: commit_all_def x)
  show ?case using Cons.IH [OF inv] ids log unfolding step by force
qed

lemma recorded_forever:
  assumes "ledger_inv db" and "knows_wallet db w" and "find_entry db (w_id w) ty rty rid = Some t"
  shows "ledger_inv (commit_all db ops)" and "knows_wallet (commit_all db ops) w"
    and "find_entry (commit_all db ops) (w_id w) ty rty rid = Some t"
  using commit_all_step [OF assms(1), of ops] assms(2,3)
  by (auto simp: knows_wallet_def intro: find_entry_append)

definition later :: "'x ledger_db_scheme \<Rightarrow> 'x ledger_db_scheme \<Rightarrow> bool" where
  "later db db' \<longleftrightarrow> (\<exists>ops. db' = commit_all db ops)"

lemma commit_later: "later db (commit_all db ops)"
  by (auto simp: later_def)

interpretation settlement_log: durable_exactly_once ledger_inv
  "\<lambda>db (w, i) a (d, now). settle_payment db w a i d now"
  "\<lambda>db (w, i). find_entry db (w_id w) CREDIT CANONICAL_SETTLEMENT_TYPE (str_uuid i)"
  lt_amount "\<lambda>db (w, i). knows_wallet db w" "\<lambda>_. True" later
  by unfold_locales (auto simp: later_def recorded_forever)

interpretation topup_reversal_log: durable_exactly_once ledger_inv
  "\<lambda>db (w, i) a (d, now). reserve_topup_reversal db w a i d now"
  "\<lambda>db (w, i). find_entry db (w_id w) DEBIT CANONICAL_TOPUP_REVERSAL_TYPE (str_uuid i)"
  lt_amount "\<lambda>db (w, i). knows_wallet db w" "\<lambda>_. True" later
  by unfold_locales (auto simp: later_def recorded_forever)

interpretation deposit_settlement_log: durable_exactly_once ledger_inv
  "\<lambda>db (w, i) a (d, now). settle_flexible_deposit db w a i d now"
  "\<lambda>db (w, i). find_entry db (w_id w) CREDIT CANONICAL_FLEXIBLE_DEPOSIT_TYPE (str_uuid i)"
  lt_amount "\<lambda>db (w, i). knows_wallet db w" "\<lambda>_. True" later
  by unfold_locales (auto simp: later_def recorded_forever)

interpretation keyed_refund_log: durable_exactly_once ledger_inv
  "\<lambda>db (w, rid, rty) a (d, now). refund db w a (Some rid) (Some rty) d now"
  "\<lambda>db (w, rid, rty). find_entry db (w_id w) REFUND rty rid"
  lt_amount "\<lambda>db (w, rid, rty). knows_wallet db w" "\<lambda>(w, rid, rty). rid \<noteq> [] \<and> rty \<noteq> []" later
  by unfold_locales (auto simp: later_def recorded_forever)

lemma balance_of_move:
  assumes inv: "ledger_inv db" and b: "books now db db' t" and w: "w \<in> set (wallets db)" "w_id w = lt_wallet_id t"
    and "lt_transaction_type t \<noteq> ADJUSTMENT"
  shows "balance_of db' =
    (balance_of db)(wallet_key w := balance_of db (wallet_key w) + signed (lt_transaction_type t) (lt_amount t))"
  using balance_of_books [OF inv b w] sound_after assms(5) b by (simp add: books_def)

lemma refund_fresh:
  assumes inv: "ledger_inv db" and w: "w \<in> set (wallets db)" and a: "0 < a" and keys: "rid \<noteq> []" "rty \<noteq> []"
    and none: "find_entry db (w_id w) TransactionType.REFUND rty rid = None"
  shows "\<exists>db' t. refund db w a (Some rid) (Some rty) d now = (db', Inr t) \<and> books now db db' t \<and>
    balance_of db' = (balance_of db)(wallet_key w := balance_of db (wallet_key w) + a)"
proof -
  obtain db' t where r: "refund db w a (Some rid) (Some rty) d now = (db', Inr t)"
    using book_fresh_key [OF none, of a "w_balance w + a" "or_default d ''Refund''" now] a none keys
    by (auto simp: refund_def lock_wallet_row [OF inv w] Let_def truthy_pair_def)
  note e = refund_entry [OF inv r]
  have b: "books now db db' t"
    using e none by (auto simp: one_entry_def find_entry_def first_row_None_iff)
  have "w_id w = lt_wallet_id t" "lt_transaction_type t = TransactionType.REFUND" "lt_amount t = a"
    using e(1) by (auto simp: one_entry_def)
  then show ?thesis using r b balance_of_move [OF inv b w] by auto
qed

lemma ledger_more_frame:
  "ledger_db.more (fst (get_or_create_wallet db t u c)) = ledger_db.more db"
  "ledger_db.more (fst (refund db w a rid rty d now)) = ledger_db.more db"
  "ledger_db.more (fst (settle_payment db w a i d now)) = ledger_db.more db"
proof -
  let ?P = "\<lambda>s. ledger_db.more s = ledger_db.more db"
  have flush: "flush_wallet s w = (s', r) \<Longrightarrow> ledger_db.more s' = ledger_db.more s" for s s' :: "'a ledger_db_scheme" and w r
    by (auto simp: flush_wallet_def split: if_splits)
  have book: "book s w ty x y r1 r2 d n = (s', r) \<Longrightarrow> ledger_db.more s' = ledger_db.more s" for s s' :: "'a ledger_db_scheme" and w ty x y r1 r2 d n r
    by (auto simp: book_def flush_ledger_def set_balance_def split: if_splits)
  show "?P (fst (get_or_create_wallet db t u c))"
    unfolding get_or_create_wallet_def Let_def
    by (rule lift_res_keeps [of ?P]) (auto intro!: on_integrity_error_keeps [of ?P] nested_keeps [of ?P] lift_res_keeps [of ?P]
        simp: nested_def dest: flush split: option.split sum.splits prod.splits)
  have lock: "lock_wallet s w = (s', Inr w') \<Longrightarrow> s' = s" for s s' :: "'a ledger_db_scheme" and w'
    by (auto simp: lock_wallet_def lift_res_def split: sum.splits option.splits)
  have locked: "?P (fst (lock_wallet db w))" by (auto simp: lock_wallet_def lift_res_def split: sum.splits option.splits)
  then show "?P (fst (refund db w a rid rty d now))"
    unfolding refund_def Let_def
    by (auto intro!: and_then_keeps [of ?P] on_integrity_error_keeps [of ?P] nested_keeps [of ?P]
        simp: nested_def dest!: lock dest: book split: option.split prod.splits sum.splits)
  show "?P (fst (settle_payment db w a i d now))"
    unfolding settle_payment_def Let_def using locked
    by (auto intro!: and_then_keeps [of ?P] on_integrity_error_keeps [of ?P] nested_keeps [of ?P]
        simp: nested_def dest!: lock dest: book split: option.split prod.splits sum.splits)
qed

section \<open>A sample ledger\<close>

text \<open>One tenant, one user: a wallet is opened, credited, and part of it is held.\<close>

definition empty_ledger :: ledger_db where
  "empty_ledger = \<lparr>next_id = 1, wallets = [], ledger = [], holds = []\<rparr>"

definition sample_wallet :: wallet where
  "sample_wallet = \<lparr>w_id = 1, w_tenant_id = 7, w_user_id = 8, w_currency = ''USD'', w_balance = 100,
     w_is_active = True\<rparr>"

definition sample_hold :: wallet_hold where
  "sample_hold = \<lparr>h_id = 3, h_tenant_id = 7, h_wallet_id = 1, h_amount = 80, h_status = ACTIVE,
     h_idempotency_key = ''k'', h_reference_type = ''ORDER'', h_reference_id = ''9'',
     h_expires_at = None, h_captured_at = None, h_released_at = None\<rparr>"

definition sample_credit :: ledger_transaction where
  "sample_credit = \<lparr>lt_id = 2, lt_created_at = 11, lt_tenant_id = 7, lt_wallet_id = 1,
     lt_transaction_type = CREDIT, lt_amount = 100, lt_balance_before = 0, lt_balance_after = 100,
     lt_reference_id = None, lt_reference_type = None, lt_description = None\<rparr>"

definition sample_ledger :: ledger_db where
  "sample_ledger = \<lparr>next_id = 4, wallets = [sample_wallet], ledger = [sample_credit], holds = [sample_hold]\<rparr>"

lemmas sample_defs =
  empty_ledger_def sample_wallet_def sample_hold_def sample_credit_def sample_ledger_def

lemmas ledger_eval =
  commit_op_def get_db_session_def forget_def get_or_create_wallet_def credit_def reserve_def flush_hold_def
  flush_wallet_def lock_wallet_def scalar_one_or_none_def scalar_one_def book_def flush_ledger_def
  set_balance_def ledger_conflict_def violates_def active_total_def index_defs ledger_key_def hold_key_def wallet_key_def
  settle_payment_def reserve_topup_reversal_def settle_flexible_deposit_def debit_def refund_def adjust_def
  find_entry_def truthy_pair_def or_default_def capture_def release_def lock_hold_def set_hold_def

lemma sample_built:
  "commit_all empty_ledger
     [(10, GetOrCreateWallet 7 8 ''USD''), (11, Credit sample_wallet 100 None None None),
      (12, Reserve sample_wallet 80 ''k'' ''ORDER'' ''9'' None)] = sample_ledger"
  by (simp add: commit_all_def sample_defs ledger_eval Let_def)

lemma sample_history: "ledger_history sample_ledger 12"
proof -
  have "ledger_history empty_ledger 10" by (rule ledger_history.start) (simp_all add: empty_ledger_def)
  then have "ledger_history (commit_all empty_ledger
     [(10, GetOrCreateWallet 7 8 ''USD''), (11, Credit sample_wallet 100 None None None),
      (12, Reserve sample_wallet 80 ''k'' ''ORDER'' ''9'' None)]) 12"
    by (auto simp: commit_all_def intro!: ledger_history.step)
  then show ?thesis by (simp only: sample_built)
qed

lemma sample_inv [simp]: "ledger_inv sample_ledger"
  using ledger_history_inv [OF sample_history] by blast

lemma sample_wallet_in [simp]: "sample_wallet \<in> set (wallets sample_ledger)"
  by (simp add: sample_ledger_def)

lemma sample_knows [simp]: "knows_wallet sample_ledger sample_wallet"
  by (simp add: knows_wallet_def wallet_ids_def sample_ledger_def)

lemma sample_solvent [simp]: "solvent sample_ledger"
  by (simp add: solvent_def sample_defs active_total_def)

section \<open>Properties of LedgerService\<close>



text \<open>C35: The audit does not depend on the clock as long as the wallet has no manual adjustment: whatever
  creation times the entries of a consistent ledger carry, the replay in \<open>created_at, id\<close> order gives
  the booked balance.\<close>

theorem audit_ignores_clock:
  assumes "ledger_inv db" and "w \<in> set (wallets db)"
    and "\<forall>t \<in> set (ledger db). lt_wallet_id t = w_id w \<longrightarrow> lt_transaction_type t \<noteq> ADJUSTMENT"
  shows "reconstruct_and_verify_balance db (w_id w) (w_tenant_id w) = Inr (w_balance w, True)"
proof -
  have "\<forall>t \<in> set (entries db (w_id w)). lt_transaction_type t \<noteq> ADJUSTMENT"
    using assms(3) by (auto simp: entries_def)
  then have "foldl reconstruct_step 0 (entries_by_time db (w_id w)) = w_balance w"
    using audits_reconstruct [OF ledger_inv_wallet(1) [OF assms(1,2)]]
    by (simp add: entries_by_time_def reconstruct_any_order)
  then show ?thesis
    by (simp add: reconstruct_and_verify_balance_def first_row_wallet [OF assms(1,2)])
qed

theorem audit_ignores_clock_witness:
  "reconstruct_and_verify_balance sample_ledger (w_id sample_wallet) (w_tenant_id sample_wallet) =
     Inr (w_balance sample_wallet, True)"
  by (rule audit_ignores_clock [OF sample_inv sample_wallet_in]) (simp add: sample_defs)

text \<open>C2: A payment intent is settled exactly once. After a successful settlement, and after any further
  committed ledger requests, settling the same intent on the same wallet with the same amount returns the
  first entry and changes nothing; another amount is refused with \<open>LedgerIntegrityError\<close> and changes
  nothing.\<close>

theorem settlement_exactly_once:
  assumes "ledger_inv db" and "settle_payment db w a i d now = (db1, Inr t)"
  shows "settle_payment (commit_all db1 ops) w a i d' now' = (commit_all db1 ops, Inr t) \<and>
    (0 < b \<and> b \<noteq> a \<longrightarrow>
      settle_payment (commit_all db1 ops) w b i d' now' = (commit_all db1 ops, Inl LedgerIntegrityError))"
  using settlement_log.once_forever
    [of db "(w, i)" a "(d, now)" db1 t "commit_all db1 ops" "(d', now')" b] assms commit_later [of db1 ops]
  by simp

theorem settlement_exactly_once_witness:
  "\<exists>db1 t. settle_payment sample_ledger sample_wallet 25 5 None 20 = (db1, Inr t) \<and>
     settle_payment (commit_all db1 [(21, Debit sample_wallet 10 None None None)]) sample_wallet 25 5 None 22 =
       (commit_all db1 [(21, Debit sample_wallet 10 None None None)], Inr t)"
proof -
  have "\<exists>db1 t. settle_payment sample_ledger sample_wallet 25 5 None 20 = (db1, Inr t)"
    by (simp add: sample_defs ledger_eval Let_def)
  then show ?thesis using settlement_exactly_once [OF sample_inv] by blast
qed

text \<open>C22: The first settlement of an intent on an open wallet always succeeds and refines an addition to
  the abstract balance: one entry is appended, this balance grows by exactly the amount, no other
  balance, no hold and no other table changes.\<close>

theorem settle_payment_refines:
  assumes "ledger_inv db" and "w \<in> set (wallets db)" and "0 < a"
    and "find_entry db (w_id w) CREDIT CANONICAL_SETTLEMENT_TYPE (str_uuid i) = None"
  shows "\<exists>db' t. settle_payment db w a i d now = (db', Inr t) \<and> ledger db' = ledger db @ [t] \<and>
    balance_of db' = (balance_of db)(wallet_key w := balance_of db (wallet_key w) + a) \<and>
    holds db' = holds db \<and> ledger_db.more db' = ledger_db.more db"
proof -
  obtain db' t where r: "settle_payment db w a i d now = (db', Inr t)"
    using book_fresh_key [OF assms(4), of a "w_balance w + a"
        "or_default d (''Payment settlement for intent '' @ str_uuid i)" now] assms(3,4)
    by (auto simp: settle_payment_def lock_wallet_row [OF assms(1,2)] Let_def)
  note e = settle_payment_entry [OF assms(1) r]
  have b: "books now db db' t"
    using e assms(4) by (auto simp: one_entry_def find_entry_def first_row_None_iff)
  have f: "w_id w = lt_wallet_id t" "lt_transaction_type t = CREDIT" "lt_amount t = a"
    using e(1) by (auto simp: one_entry_def)
  show ?thesis
    using r b balance_of_move [OF assms(1) b assms(2) f(1)] f books_holds [OF b] books_more [OF b]
    by (auto simp: books_def)
qed

theorem settle_payment_refines_witness:
  "\<exists>db' t. settle_payment sample_ledger sample_wallet 25 5 None 20 = (db', Inr t) \<and>
    balance_of db' (7, 8, ''USD'') = 125"
proof -
  have "find_entry sample_ledger (w_id sample_wallet) CREDIT CANONICAL_SETTLEMENT_TYPE (str_uuid 5) = None"
    by (simp add: find_entry_def sample_defs)
  moreover have "balance_of sample_ledger (7, 8, ''USD'') = 100" "wallet_key sample_wallet = (7, 8, ''USD'')"
    by (simp_all add: balance_of_def sample_defs wallet_key_def)
  ultimately show ?thesis
    using settle_payment_refines [OF sample_inv sample_wallet_in, of 25 5 None 20] by auto
qed

text \<open>A top-up reversal is debited exactly once, whatever is committed after it; a second
  reservation of the same reversal with another amount is refused and changes nothing.\<close>

theorem topup_reversal_exactly_once:
  assumes "ledger_inv db" and "reserve_topup_reversal db w a i d now = (db1, Inr t)"
  shows "reserve_topup_reversal (commit_all db1 ops) w a i d' now' = (commit_all db1 ops, Inr t) \<and>
    (0 < b \<and> b \<noteq> a \<longrightarrow>
      reserve_topup_reversal (commit_all db1 ops) w b i d' now' = (commit_all db1 ops, Inl LedgerIntegrityError))"
  using topup_reversal_log.once_forever
    [of db "(w, i)" a "(d, now)" db1 t "commit_all db1 ops" "(d', now')" b] assms commit_later [of db1 ops]
  by simp

theorem topup_reversal_exactly_once_witness:
  "\<exists>db1 t. reserve_topup_reversal sample_ledger sample_wallet 15 6 None 20 = (db1, Inr t) \<and>
     reserve_topup_reversal (commit_all db1 [(21, Credit sample_wallet 10 None None None)]) sample_wallet 16 6 None 22 =
       (commit_all db1 [(21, Credit sample_wallet 10 None None None)], Inl LedgerIntegrityError)"
proof -
  have "\<exists>db1 t. reserve_topup_reversal sample_ledger sample_wallet 15 6 None 20 = (db1, Inr t)"
    by (simp add: sample_defs ledger_eval Let_def)
  then show ?thesis using topup_reversal_exactly_once [OF sample_inv, of sample_wallet 15 6 None 20] by fastforce
qed

text \<open>A refund that carries a reference is paid exactly once per wallet and reference, whatever is
  committed after it; the same reference with another amount is refused and changes nothing.\<close>

theorem refund_exactly_once:
  assumes "ledger_inv db" and "rid \<noteq> []" and "rty \<noteq> []"
    and "refund db w a (Some rid) (Some rty) d now = (db1, Inr t)"
  shows "refund (commit_all db1 ops) w a (Some rid) (Some rty) d' now' = (commit_all db1 ops, Inr t) \<and>
    (0 < b \<and> b \<noteq> a \<longrightarrow>
      refund (commit_all db1 ops) w b (Some rid) (Some rty) d' now' = (commit_all db1 ops, Inl LedgerIntegrityError))"
  using keyed_refund_log.once_forever
    [of db "(w, rid, rty)" a "(d, now)" db1 t "commit_all db1 ops" "(d', now')" b] assms commit_later [of db1 ops]
  by simp

theorem refund_exactly_once_witness:
  "\<exists>db1 t. refund sample_ledger sample_wallet 15 (Some ''o1'') (Some CANONICAL_REFUND_TYPE) None 20 = (db1, Inr t) \<and>
     refund (commit_all db1 []) sample_wallet 15 (Some ''o1'') (Some CANONICAL_REFUND_TYPE) None 22 =
       (commit_all db1 [], Inr t)"
proof -
  have "\<exists>db1 t. refund sample_ledger sample_wallet 15 (Some ''o1'') (Some CANONICAL_REFUND_TYPE) None 20 = (db1, Inr t)"
    by (simp add: sample_defs ledger_eval Let_def)
  moreover have "CANONICAL_REFUND_TYPE \<noteq> []" by (simp add: reference_type_defs)
  ultimately show ?thesis using refund_exactly_once [OF sample_inv, of "''o1''" CANONICAL_REFUND_TYPE] by blast
qed

text \<open>\<open>debit\<close> on every branch, for a wallet of the ledger and no reference: a non-positive amount is a
  \<open>ValueError\<close>; an inactive wallet or an amount above the available balance (booked minus active holds)
  is an \<open>InsufficientFundsError\<close>; both change nothing. Otherwise it succeeds and refines a
  subtraction on the abstract balance.\<close>

theorem debit_spec:
  assumes "ledger_inv db" and "w \<in> set (wallets db)"
  shows "if a \<le> 0 then debit db w a None None d now = (db, Inl ValueError)
    else if \<not> w_is_active w \<or> available_balance db w < a
    then debit db w a None None d now = (db, Inl InsufficientFundsError)
    else \<exists>db' t. debit db w a None None d now = (db', Inr t) \<and> ledger db' = ledger db @ [t] \<and>
      balance_of db' = (balance_of db)(wallet_key w := balance_of db (wallet_key w) - a) \<and> holds db' = holds db"
proof -
  note lw = lock_wallet_row [OF assms]
  have free: "\<not> ledger_conflict l \<lparr>lt_id = x, lt_created_at = now, lt_tenant_id = y, lt_wallet_id = z,
      lt_transaction_type = DEBIT, lt_amount = a, lt_balance_before = e, lt_balance_after = f,
      lt_reference_id = None, lt_reference_type = None, lt_description = d\<rparr>" for l x y z e f
    by (simp add: ledger_conflict_def index_defs violates_def)
  have ok: "\<exists>db' t. debit db w a None None d now = (db', Inr t)"
    if "\<not> a \<le> 0" "w_is_active w" "\<not> available_balance db w < a"
    using that free by (simp add: debit_def lw available_balance_def book_def flush_ledger_def)
  have eff: "ledger db' = ledger db @ [t] \<and>
      balance_of db' = (balance_of db)(wallet_key w := balance_of db (wallet_key w) - a) \<and> holds db' = holds db"
    if r: "debit db w a None None d now = (db', Inr t)" for db' t
  proof -
    note e = debit_entry [OF assms(1) r]
    have f: "w_id w = lt_wallet_id t" "lt_transaction_type t = DEBIT" "lt_amount t = a"
      using e(1) by (auto simp: one_entry_def)
    show ?thesis
      using balance_of_move [OF assms(1) e(2) assms(2) f(1)] f books_holds [OF e(2)] e(2)
      by (simp add: books_def)
  qed
  have "a \<le> 0 \<Longrightarrow> debit db w a None None d now = (db, Inl ValueError)"
    by (simp add: debit_def)
  moreover have "\<not> a \<le> 0 \<Longrightarrow> \<not> w_is_active w \<or> available_balance db w < a \<Longrightarrow>
      debit db w a None None d now = (db, Inl InsufficientFundsError)"
    by (auto simp: debit_def lw available_balance_def Let_def)
  ultimately show ?thesis using ok eff by meson
qed

theorem debit_spec_witness:
  "debit sample_ledger sample_wallet 30 None None None 20 = (sample_ledger, Inl InsufficientFundsError)"
  using debit_spec [OF sample_inv sample_wallet_in, of 30 None 20]
  by (simp add: available_balance_def sample_defs active_total_def)

section \<open>Properties of WalletHoldService\<close>

lemma credit_side_solvent:
  assumes inv: "ledger_inv db" and "solvent db" and e: "one_entry now db ty w a db' t"
    and "ty = CREDIT \<or> ty = REFUND"
  shows "solvent db'"
proof -
  have "solvent db'" if b: "books now db db' t"
  proof -
    obtain v where v: "v \<in> set (wallets db)" "lt_wallet_id t = w_id v" "lt_balance_before t = w_balance v"
      using b by (auto simp: books_def)
    have "lt_balance_before t \<le> lt_balance_after t"
      using b e assms(4) by (auto simp: books_def one_entry_def tx_sound_def sound_move_def)
    moreover have "active_total db (w_id v) \<le> w_balance v" using assms(2) v(1) by (simp add: solvent_def)
    ultimately show ?thesis using books_solvent [OF inv assms(2) b] v by simp
  qed
  then show ?thesis using e assms(2) by (auto simp: one_entry_def)
qed

lemma debit_solvent:
  assumes "ledger_inv db" and "solvent db" and "debit db w a rid rty d now = (db', Inr t)"
  shows "solvent db'"
proof -
  note e = debit_entry [OF assms(1,3)]
  have "active_total db (lt_wallet_id t) \<le> lt_balance_after t"
    using e sound_after [of t] by (auto simp: one_entry_def books_def)
  then show ?thesis using books_solvent [OF assms(1,2) e(2)] by blast
qed

lemma get_or_create_wallet_solvent:
  assumes inv: "ledger_inv db" and "solvent db" and "get_or_create_wallet db n u c = (db', Inr w)"
  shows "solvent db'"
  using inv
proof (cases rule: get_or_create_wallet_cases [of db n u c])
  case (found v)
  with assms show ?thesis by simp
next
  case (created v)
  have "h_wallet_id h \<noteq> next_id db" if "h \<in> set (holds db)" for h
    using inv that by (fastforce simp: ledger_inv_def)
  then have "active_total db (next_id db) = 0"
    by (simp add: active_total_def cong: filter_cong)
  with created assms show ?thesis by (auto simp: solvent_def)
qed

lemma reserve_solvent:
  assumes inv: "ledger_inv db" and sol: "solvent db" and "reserve db w a key rty rid ex = (db', Inr h)"
  shows "solvent db'"
  using assms(3)
proof (cases rule: reserve_cases)
  case existing
  with sol show ?thesis by simp
next
  case (fresh x)
  have "active_total db' i = active_total db i + (if i = w_id x then a else 0)" for i
    using fresh by (simp add: active_total_def)
  moreover have "v = x" if "v \<in> set (wallets db)" "w_id v = w_id x" for v
    using wallet_by_id [OF inv that(1) _ that(2)] lock_wallet_InrD(2) [OF fresh(1)] by simp
  ultimately show ?thesis using sol fresh by (fastforce simp: solvent_def add.commute)
qed

text \<open>Every committed request other than a top-up reversal reservation and a manual adjustment keeps the
  ledger solvent: in every wallet the booked balance still covers the active holds.\<close>

theorem commit_keeps_solvent:
  assumes inv: "ledger_inv db" and sol: "solvent db"
    and op: "\<forall>w a i d. op \<noteq> ReserveTopupReversal w a i d" "\<forall>w b r. op \<noteq> Adjust w b r"
  shows "solvent (commit_op db now op)"
proof (cases rule: commit_op_cases [of db now op])
  case rolled_back
  with sol show ?thesis by simp
next
  case committed
  note credits = credit_entry(1) [OF inv] settle_payment_entry(1) [OF inv]
    settle_flexible_deposit_entry(1) [OF inv] refund_entry(1) [OF inv]
  note solvents = get_or_create_wallet_solvent [OF inv sol] debit_solvent [OF inv sol] reserve_solvent [OF inv sol]
    capture_inv_parts(2) [OF inv _ sol] release_inv_parts(2) [OF inv _ sol]
    credit_side_solvent [OF inv sol credits(1)] credit_side_solvent [OF inv sol credits(2)]
    credit_side_solvent [OF inv sol credits(3)] credit_side_solvent [OF inv sol credits(4)]
  show ?thesis using committed op by (cases op) (auto simp: forget_Inr_iff intro: solvents)
qed

theorem commit_keeps_solvent_witness:
  "solvent (commit_op sample_ledger 20 (Debit sample_wallet 10 None None None))"
  by (rule commit_keeps_solvent [OF sample_inv sample_solvent]) simp_all


lemma capture_debit:
  assumes inv: "ledger_inv db" and h: "h \<in> set (holds db)" and "h_status h = ACTIVE"
    and w: "w \<in> set (wallets db)" "h_wallet_id h = w_id w"
  shows "capture db h d now =
    debit (set_hold (h_id h) (\<lambda>h. h\<lparr>h_status := CAPTURED, h_captured_at := Some now\<rparr>) db)
      w (h_amount h) (Some (str_uuid (h_id h))) (Some WALLET_HOLD_CAPTURE_REF)
      (or_default d (''Captured hold '' @ h_reference_type h @ '':'' @ h_reference_id h)) now"
  using assms(3) by (simp add: capture_def lock_hold_row [OF inv h] w(2) first_row_wallet [OF inv w(1)])

lemma set_hold_wallets [simp]:
  "wallets (set_hold i f db) = wallets db" "ledger (set_hold i f db) = ledger db"
  "balance_of (set_hold i f db) = balance_of db"
  "find_entry (set_hold i f db) j ty rty rid = find_entry db j ty rty rid"
  by (simp_all add: set_hold_def balance_of_def fun_eq_iff find_entry_def)

lemma capture_succeeds:
  assumes inv: "ledger_inv db" and sol: "solvent db" and h: "h \<in> set (holds db)" "h_status h = ACTIVE"
    and w: "w \<in> set (wallets db)" "h_wallet_id h = w_id w" "w_is_active w"
    and free: "find_entry db (w_id w) DEBIT WALLET_HOLD_CAPTURE_REF (str_uuid (h_id h)) = None"
  shows "\<exists>db' t. capture db h d now = (db', Inr t)"
proof -
  let ?db = "set_hold (h_id h) (\<lambda>h. h\<lparr>h_status := CAPTURED, h_captured_at := Some now\<rparr>) db"
  have inv1: "ledger_inv ?db" using inv by (rule set_hold_inv) (simp add: hold_key_def)
  have "active_total ?db (w_id w) = active_total db (w_id w) - h_amount h"
    using active_total_set_hold [OF inv h] w(2) by simp
  moreover have "active_total db (w_id w) \<le> w_balance w" using sol w(1) by (simp add: solvent_def)
  ultimately have "\<not> w_balance w - active_total ?db (w_id w) < h_amount h" by simp
  moreover have "\<not> h_amount h \<le> 0" using inv h(1) by (auto simp: ledger_inv_def)
  moreover have "lock_wallet ?db w = (?db, Inr w)" using inv1 w(1) by (intro lock_wallet_row) simp_all
  moreover have "find_entry ?db (w_id w) DEBIT WALLET_HOLD_CAPTURE_REF (str_uuid (h_id h)) = None"
    using free by simp
  note book_fresh_key [OF this]
  ultimately show ?thesis
    using w(3) by (simp add: capture_debit [OF inv h w(1,2)] debit_def Let_def)
qed

lemma capture_effect:
  assumes inv: "ledger_inv db" and h: "h \<in> set (holds db)" "h_status h = ACTIVE"
    and w: "w \<in> set (wallets db)" "h_wallet_id h = w_id w"
    and r: "capture db h d now = (db', Inr t)"
  shows "ledger db' = ledger db @ [t]"
    and "balance_of db' = (balance_of db)(wallet_key w := balance_of db (wallet_key w) - h_amount h)"
    and "holds db' = update_where (\<lambda>x. h_id x = h_id h)
           (\<lambda>h. h\<lparr>h_status := CAPTURED, h_captured_at := Some now\<rparr>) (holds db)"
    and "find_entry db' (w_id w) DEBIT WALLET_HOLD_CAPTURE_REF (str_uuid (h_id h)) = Some t"
    and "ledger_inv db'"
proof -
  let ?db = "set_hold (h_id h) (\<lambda>h. h\<lparr>h_status := CAPTURED, h_captured_at := Some now\<rparr>) db"
  have inv1: "ledger_inv ?db" using inv by (rule set_hold_inv) (simp add: hold_key_def)
  have dr: "debit ?db w (h_amount h) (Some (str_uuid (h_id h))) (Some WALLET_HOLD_CAPTURE_REF)
      (or_default d (''Captured hold '' @ h_reference_type h @ '':'' @ h_reference_id h)) now = (db', Inr t)"
    using r by (simp only: capture_debit [OF inv h w])
  note e = debit_entry [OF inv1 dr]
  have f: "w_id w = lt_wallet_id t" "lt_transaction_type t = DEBIT" "lt_amount t = h_amount h"
    using e(1) by (auto simp: one_entry_def)
  have w1: "w \<in> set (wallets ?db)" using w(1) by simp
  have refs: "lt_reference_type t = Some WALLET_HOLD_CAPTURE_REF" "lt_reference_id t = Some (str_uuid (h_id h))"
    using dr by (auto simp: debit_def and_then_Inr_iff Let_def split: if_splits dest: book_fields(6,7))
  show inv': "ledger_inv db'" using inv1 e(2) by (rule books_keeps_inv)
  show "ledger db' = ledger db @ [t]" using e(2) by (simp add: books_def)
  show "holds db' = update_where (\<lambda>x. h_id x = h_id h)
           (\<lambda>h. h\<lparr>h_status := CAPTURED, h_captured_at := Some now\<rparr>) (holds db)"
    using books_holds [OF e(2)] by (simp add: set_hold_def)
  show "balance_of db' = (balance_of db)(wallet_key w := balance_of db (wallet_key w) - h_amount h)"
    using balance_of_move [OF inv1 e(2) w1 f(1)] f by simp
  have "t \<in> set (ledger db')" using e(1) by (rule one_entry_in_ledger)
  then show "find_entry db' (w_id w) DEBIT WALLET_HOLD_CAPTURE_REF (str_uuid (h_id h)) = Some t"
    by (intro find_entry_unique [OF inv', where p = uq_wallet_hold_capture])
       (use f refs in \<open>auto simp: index_defs\<close>)
qed

text \<open>A hold placed on an active wallet can always be captured while the ledger is solvent, exactly once:
  the capture books one debit of exactly the held amount, and a second capture of the same hold returns
  that entry and changes nothing.\<close>

theorem capture_exactly_once:
  assumes inv: "ledger_inv db" and sol: "solvent db" and h: "h \<in> set (holds db)" "h_status h = ACTIVE"
    and w: "w \<in> set (wallets db)" "h_wallet_id h = w_id w" "w_is_active w"
    and free: "find_entry db (w_id w) DEBIT WALLET_HOLD_CAPTURE_REF (str_uuid (h_id h)) = None"
  shows "\<exists>db' t. capture db h d now = (db', Inr t) \<and> ledger db' = ledger db @ [t] \<and>
     balance_of db' = (balance_of db)(wallet_key w := balance_of db (wallet_key w) - h_amount h) \<and>
     solvent db' \<and> capture db' h d' now' = (db', Inr t)"
proof -
  obtain db' t where r: "capture db h d now = (db', Inr t)"
    using capture_succeeds [OF assms] by blast
  note e = capture_effect [OF inv h w(1,2) r]
  let ?h = "h\<lparr>h_status := CAPTURED, h_captured_at := Some now\<rparr>"
  have "?h \<in> set (holds db')" using h(1) by (auto simp: e(3) in_update_where)
  then have "lock_hold db' ?h = (db', Inr ?h)" by (rule lock_hold_row [OF e(5)])
  then have "lock_hold db' h = (db', Inr ?h)" by (simp add: lock_hold_def)
  then have "capture db' h d' now' = (db', Inr t)"
    using e(4) w(2) by (simp add: capture_def)
  then show ?thesis using r e capture_inv_parts(2) [OF inv r sol] by blast
qed

theorem capture_exactly_once_witness:
  "\<exists>db' t. capture sample_ledger sample_hold None 20 = (db', Inr t) \<and>
     capture db' sample_hold None 21 = (db', Inr t)"
proof -
  have "sample_hold \<in> set (holds sample_ledger)" "h_status sample_hold = ACTIVE"
    "h_wallet_id sample_hold = w_id sample_wallet" "w_is_active sample_wallet"
    "find_entry sample_ledger (w_id sample_wallet) DEBIT WALLET_HOLD_CAPTURE_REF (str_uuid (h_id sample_hold)) = None"
    by (simp_all add: sample_defs find_entry_def)
  then show ?thesis
    using capture_exactly_once [OF sample_inv sample_solvent _ _ sample_wallet_in, of sample_hold None 20 None 21]
    by blast
qed

text \<open>Releasing an active hold gives the customer exactly the held amount back as available balance,
  moves no money, and is final: a later capture of the hold is refused with \<open>LedgerIntegrityError\<close> and
  a second release changes nothing.\<close>

theorem release_returns_funds:
  assumes inv: "ledger_inv db" and h: "h \<in> set (holds db)" "h_status h = ACTIVE"
    and w: "w \<in> set (wallets db)" "h_wallet_id h = w_id w"
  shows "\<exists>db' r. release db h now = (db', Inr r) \<and> wallets db' = wallets db \<and> ledger db' = ledger db \<and>
     available_balance db' w = available_balance db w + h_amount h \<and>
     capture db' h d now' = (db', Inl LedgerIntegrityError) \<and> release db' h now' = (db', Inr r)"
proof -
  let ?f = "\<lambda>h. h\<lparr>h_status := RELEASED, h_released_at := Some now\<rparr>"
  let ?db = "set_hold (h_id h) ?f db"
  have r: "release db h now = (?db, Inr (?f h))" using h by (simp add: release_def lock_hold_row [OF inv h(1)])
  have inv1: "ledger_inv ?db" using inv by (rule set_hold_inv) (simp add: hold_key_def)
  have "?f h \<in> set (holds ?db)" using h(1) by (auto simp: set_hold_def in_update_where)
  then have "lock_hold ?db (?f h) = (?db, Inr (?f h))" by (rule lock_hold_row [OF inv1])
  then have l: "lock_hold ?db h = (?db, Inr (?f h))" by (simp add: lock_hold_def)
  have "active_total ?db (w_id w) = active_total db (w_id w) - h_amount h"
    using active_total_set_hold [OF inv h, of ?f "w_id w"] w(2) by simp
  then have "available_balance ?db w = available_balance db w + h_amount h"
    by (simp add: available_balance_def)
  moreover have "capture ?db h d now' = (?db, Inl LedgerIntegrityError)" by (simp add: capture_def l)
  moreover have "release ?db h now' = (?db, Inr (?f h))" by (simp add: release_def l)
  ultimately show ?thesis using r by auto
qed

theorem release_returns_funds_witness:
  "\<exists>db' r. release sample_ledger sample_hold 20 = (db', Inr r) \<and> available_balance db' sample_wallet = 100"
proof -
  have h: "sample_hold \<in> set (holds sample_ledger)" "h_status sample_hold = ACTIVE"
    "h_wallet_id sample_hold = w_id sample_wallet"
    by (simp_all add: sample_defs)
  have "available_balance sample_ledger sample_wallet = 20" "h_amount sample_hold = 80"
    by (simp_all add: available_balance_def active_total_def sample_defs)
  then show ?thesis
    using release_returns_funds [OF sample_inv h(1,2) sample_wallet_in h(3), of 20 None 21] by auto
qed

text \<open>A customer has one wallet per tenant and currency: \<open>get_or_create_wallet\<close> always returns one, asking
  again returns the same row and changes nothing, and opening it moves no balance.\<close>

theorem get_or_create_wallet_once:
  assumes inv: "ledger_inv db"
  shows "\<exists>db' w. get_or_create_wallet db n u c = (db', Inr w) \<and> ledger_inv db' \<and> wallet_key w = (n, u, c) \<and>
    balance_of db' = balance_of db \<and> get_or_create_wallet db' n u c = (db', Inr w)"
proof -
  obtain db' w where r: "get_or_create_wallet db n u c = (db', Inr w)"
    using get_or_create_wallet_total [OF inv] by blast
  note d = get_or_create_wallet_InrD [OF inv r]
  have "get_or_create_wallet db' n u c = (db', Inr w)"
    using d(1)
  proof (cases rule: get_or_create_wallet_cases [of db' n u c])
    case (found v)
    then have "v = w" using d(1-3) by (auto simp: ledger_inv_def distinct_map inj_on_def)
    with found show ?thesis by simp
  next
    case (created v)
    with d show ?thesis by auto
  qed
  then show ?thesis using r d balance_of_get_or_create [OF inv r] by blast
qed

theorem get_or_create_wallet_once_witness:
  "\<exists>db' w. get_or_create_wallet sample_ledger 7 8 ''EUR'' = (db', Inr w) \<and>
     get_or_create_wallet db' 7 8 ''EUR'' = (db', Inr w)"
  using get_or_create_wallet_once [OF sample_inv, of 7 8 "''EUR''"] by blast

end
