(* ===== verification/Payment_Store.thy ===== *)
theory Payment_Store
  imports Ledger_Properties
begin

text \<open>
  The rows of the payment tables (\<open>packages/payments/models.py\<close>,
  \<open>packages/payments/economics_models.py\<close>), the messages exchanged with payment providers
  (\<open>packages/payments/providers/interface.py\<close>), and the store that holds them: \<open>pay_db\<close> extends
  the ledger's store, so every operation of the ledger works on it unchanged.

  \<open>put_row\<close> is the effect of assigning attributes of a mapped row: the session keeps one object per
  row, so an assignment is seen by everything that follows in the session.
\<close>

section \<open>Enumerations\<close>

datatype PaymentMethodType =
  REGULATED_PROVIDER | CRYPTO_GATEWAY | SELF_CUSTODY | MANUAL_TRANSFER | EXCHANGE_TRANSFER

datatype PaymentVerificationMode = PROVIDER_RECONCILIATION | ONCHAIN | MANUAL | HYBRID

datatype PaymentObservationSource = PROVIDER | ONCHAIN | MANUAL | EXCHANGE

datatype PaymentObservationStatus =
  SUBMITTED | PENDING_VERIFICATION | MANUAL_REVIEW | VERIFIED | REJECTED

datatype PaymentAssuranceLevel =
  REGULATED_RECONCILED | ONCHAIN_VERIFIED | GATEWAY_VERIFIED | MANUAL_APPROVED

datatype PaymentTransactionType = AUTHORIZATION | CAPTURE | SETTLEMENT | REFUND | VOID

datatype WalletTopUpReversalStatus =
  REQUESTED | FUNDS_RESERVED | PROCESSING | RECONCILIATION_REQUIRED | COMPLETED | MANUAL_REVIEW

datatype PaymentReconciliationEventStatus = PROCESSED | MANUAL_REVIEW | IGNORED

datatype FinancialResolutionCaseStatus = OPEN | IN_PROGRESS | RESOLVED

datatype AssetLedgerTransactionType = CREDIT | DEBIT | CONVERSION_IN | CONVERSION_OUT | ADJUSTMENT

datatype FxPolicyMode = PARITY | FIXED_RATE

datatype AutoCreditTarget = ASSET_WALLET | SETTLEMENT_WALLET

datatype FlexibleDepositStatus =
  CREATED | PENDING | PROCESSING | SETTLED_REVIEW | CREDITED | EXPIRED | CANCELLED | UNKNOWN | REVERSED

section \<open>Rows\<close>

record payment_transaction =
  pt_id :: uuid
  pt_tenant_id :: uuid
  pt_payment_intent_id :: uuid
  pt_transaction_type :: PaymentTransactionType
  pt_amount :: decimal
  pt_currency :: str
  pt_status :: str
  pt_provider_tx_id :: "str option"
  pt_reference_id :: "str option"
  pt_metadata_json :: dict

record wallet_topup_reversal =
  rv_id :: uuid
  rv_created_at :: timestamp
  rv_tenant_id :: uuid
  rv_payment_intent_id :: uuid
  rv_user_id :: uuid
  rv_wallet_id :: uuid
  rv_provider :: str
  rv_original_provider_payment_id :: str
  rv_provider_refund_id :: "str option"
  rv_amount :: decimal
  rv_currency :: str
  rv_idempotency_key :: str
  rv_status :: WalletTopUpReversalStatus
  rv_attempts :: int
  rv_next_attempt_at :: "timestamp option"
  rv_last_attempt_at :: "timestamp option"
  rv_completed_at :: "timestamp option"
  rv_last_error_code :: "str option"
  rv_last_error_detail :: "str option"
  rv_metadata_json :: dict

record payment_reconciliation_event =
  re_id :: uuid
  re_tenant_id :: uuid
  re_provider :: str
  re_provider_event_id :: str
  re_event_type :: str
  re_payment_intent_id :: "uuid option"
  re_status :: PaymentReconciliationEventStatus
  re_amount :: decimal
  re_currency :: str
  re_occurred_at :: "timestamp option"
  re_classification :: str
  re_requires_review :: bool
  re_metadata_json :: dict

record financial_resolution_case =
  fc_id :: uuid
  fc_tenant_id :: uuid
  fc_source_key :: str
  fc_case_type :: str
  fc_severity :: str
  fc_status :: FinancialResolutionCaseStatus
  fc_payment_intent_id :: "uuid option"
  fc_wallet_id :: "uuid option"
  fc_reversal_id :: "uuid option"
  fc_reconciliation_event_id :: "uuid option"
  fc_assigned_to_user_id :: "uuid option"
  fc_version :: int
  fc_resolution_code :: "str option"
  fc_resolution_note :: "str option"
  fc_resolved_by_user_id :: "uuid option"
  fc_resolved_at :: "timestamp option"
  fc_metadata_json :: dict

record payment_method_config =
  pm_id :: uuid
  pm_tenant_id :: uuid
  pm_code :: str
  pm_display_name :: str
  pm_method_type :: PaymentMethodType
  pm_verification_mode :: PaymentVerificationMode
  pm_provider_name :: "str option"
  pm_asset :: "str option"
  pm_network :: "str option"
  pm_destination_address :: "str option"
  pm_destination_memo :: "str option"
  pm_instructions :: "str option"
  pm_is_enabled :: bool
  pm_requires_admin_approval :: bool
  pm_auto_credit_enabled :: bool
  pm_auto_credit_target :: str
  pm_settings_json :: dict

record payment_quote =
  pq_id :: uuid
  pq_created_at :: timestamp
  pq_tenant_id :: uuid
  pq_payment_intent_id :: uuid
  pq_payment_method_id :: uuid
  pq_settlement_amount :: decimal
  pq_settlement_currency :: str
  pq_asset_amount :: decimal
  pq_asset :: str
  pq_network :: str
  pq_rate :: decimal
  pq_rate_source :: str
  pq_quote_reference :: "str option"
  pq_quote_fingerprint :: str
  pq_expires_at :: timestamp
  pq_metadata_json :: dict

record payment_observation =
  po_id :: uuid
  po_created_at :: timestamp
  po_tenant_id :: uuid
  po_payment_intent_id :: uuid
  po_payment_method_id :: uuid
  po_payment_quote_id :: "uuid option"
  po_source :: PaymentObservationSource
  po_status :: PaymentObservationStatus
  po_assurance_level :: "PaymentAssuranceLevel option"
  po_external_reference :: "str option"
  po_asset :: "str option"
  po_network :: "str option"
  po_destination_address :: "str option"
  po_asset_amount :: "decimal option"
  po_settlement_amount :: "decimal option"
  po_settlement_currency :: "str option"
  po_confirmations :: "int option"
  po_is_final :: bool
  po_evidence_fingerprint :: str
  po_observed_at :: "timestamp option"
  po_verified_at :: "timestamp option"
  po_verified_by_user_id :: "uuid option"
  po_rejection_reason :: "str option"
  po_details_json :: dict

record payment_webhook_event =
  we_id :: uuid
  we_tenant_id :: uuid
  we_provider :: str
  we_provider_event_id :: str
  we_payment_intent_id :: "uuid option"
  we_event_type :: str
  we_signature_verified :: bool
  we_processed :: bool
  we_processed_at :: "timestamp option"
  we_payload_hash :: str
  we_payload_json :: json

record payment_provider_config =
  pc_id :: uuid
  pc_tenant_id :: uuid
  pc_provider_name :: str
  pc_is_enabled :: bool
  pc_credentials_ref :: str
  pc_webhook_secret_ref :: "str option"
  pc_settings_json :: dict

record asset_wallet =
  aw_id :: uuid
  aw_tenant_id :: uuid
  aw_user_id :: uuid
  aw_asset :: str
  aw_network :: str
  aw_balance :: decimal
  aw_is_active :: bool

record asset_ledger_transaction =
  al_id :: uuid
  al_tenant_id :: uuid
  al_wallet_id :: uuid
  al_transaction_type :: AssetLedgerTransactionType
  al_amount :: decimal
  al_balance_before :: decimal
  al_balance_after :: decimal
  al_idempotency_key :: str
  al_reference_type :: "str option"
  al_reference_id :: "str option"
  al_description :: "str option"

record fx_policy =
  fx_id :: uuid
  fx_tenant_id :: uuid
  fx_from_asset :: str
  fx_from_network :: str
  fx_to_currency :: str
  fx_mode :: FxPolicyMode
  fx_rate :: decimal
  fx_max_auto_credit_amount :: "decimal option"
  fx_is_enabled :: bool
  fx_acknowledged_at :: timestamp
  fx_metadata_json :: dict

record flexible_deposit_session =
  fd_id :: uuid
  fd_tenant_id :: uuid
  fd_user_id :: uuid
  fd_payment_method_id :: uuid
  fd_provider :: str
  fd_provider_deposit_id :: str
  fd_idempotency_key :: str
  fd_status :: FlexibleDepositStatus
  fd_checkout_url :: "str option"
  fd_asset :: "str option"
  fd_network :: "str option"
  fd_amount_received :: "decimal option"
  fd_fee_amount :: "decimal option"
  fd_auto_credit_enabled :: bool
  fd_auto_credit_target :: AutoCreditTarget
  fd_auto_credit_basis :: str
  fd_settlement_currency :: "str option"
  fd_fx_policy_id :: "uuid option"
  fd_credited_amount :: "decimal option"
  fd_credited_asset :: "str option"
  fd_credited_currency :: "str option"
  fd_credited_at :: "timestamp option"
  fd_last_reconciled_at :: "timestamp option"
  fd_last_error :: "str option"
  fd_provider_snapshot_json :: dict
  fd_policy_snapshot_json :: dict

record user =
  u_id :: uuid
  u_telegram_id :: "int option"
  u_username :: "str option"
  u_email :: "str option"
  u_hashed_password :: "str option"
  u_first_name :: "str option"
  u_last_name :: "str option"
  u_is_active :: bool
  u_deleted_at :: "timestamp option"
  u_token_version :: int

section \<open>Provider messages\<close>

record payment_create_request =
  cr_order_id :: "uuid option"
  cr_amount :: decimal
  cr_currency :: str
  cr_idempotency_key :: str
  cr_metadata :: dict
  cr_return_url :: "str option"

record payment_create_result =
  cs_provider_payment_id :: str
  cs_status :: PaymentIntentStatus
  cs_checkout_url :: "str option"
  cs_raw_data :: dict
  cs_verification_attributes :: "(str \<times> str) list"

record payment_details_result =
  ds_provider_payment_id :: str
  ds_status :: PaymentIntentStatus
  ds_amount :: decimal
  ds_currency :: str
  ds_raw_data :: dict
  ds_verification_attributes :: "(str \<times> str) list"

record webhook_verification_result =
  wr_is_valid :: bool
  wr_provider_event_id :: str
  wr_event_type :: str
  wr_provider_payment_id :: "str option"
  wr_status :: "PaymentIntentStatus option"
  wr_amount :: "decimal option"
  wr_currency :: "str option"
  wr_raw_data :: dict
  wr_verification_attributes :: "(str \<times> str) list"

record payment_refund_request =
  rr_provider_payment_id :: str
  rr_amount :: decimal
  rr_currency :: str
  rr_idempotency_key :: str
  rr_reason :: "str option"
  rr_metadata :: dict

record payment_refund_result =
  rs_provider_refund_id :: str
  rs_status :: str
  rs_amount :: decimal
  rs_is_success :: bool
  rs_raw_data :: dict

record flexible_deposit_create_request =
  fq_idempotency_key :: str
  fq_order_reference :: str
  fq_metadata :: dict
  fq_return_url :: "str option"

record flexible_deposit_result =
  fr_provider_deposit_id :: str
  fr_status :: FlexibleDepositStatus
  fr_checkout_url :: "str option"
  fr_asset :: "str option"
  fr_network :: "str option"
  fr_amount_received :: "decimal option"
  fr_fee_amount :: "decimal option"
  fr_raw_data :: dict

section \<open>The store\<close>

record pay_db = ledger_db +
  orders :: "order list"
  payment_intents :: "payment_intent list"
  payment_transactions :: "payment_transaction list"
  topup_reversals :: "wallet_topup_reversal list"
  reconciliation_events :: "payment_reconciliation_event list"
  resolution_cases :: "financial_resolution_case list"
  payment_methods :: "payment_method_config list"
  payment_quotes :: "payment_quote list"
  payment_observations :: "payment_observation list"
  webhook_events :: "payment_webhook_event list"
  provider_configs :: "payment_provider_config list"
  users :: "user list"
  asset_wallets :: "asset_wallet list"
  asset_ledger :: "asset_ledger_transaction list"
  fx_policies :: "fx_policy list"
  flexible_deposits :: "flexible_deposit_session list"

definition put_row :: "('r \<Rightarrow> uuid) \<Rightarrow> 'r \<Rightarrow> 'r list \<Rightarrow> 'r list" where
  "put_row key r rs = update_where (\<lambda>x. key x = key r) (\<lambda>_. r) rs"

lemma put_row_keys [simp]: "map key (put_row key r rs) = map key rs"
  unfolding put_row_def by (rule update_where_map) simp

lemma in_put_row: "x \<in> set (put_row key r rs) \<Longrightarrow> x = r \<or> x \<in> set rs"
  by (auto simp: put_row_def in_update_where split: if_splits)

lemma put_row_in: "key r \<in> key ` set rs \<Longrightarrow> r \<in> set (put_row key r rs)"
  by (auto simp: put_row_def in_update_where)

lemma put_row_same [simp]: "r \<in> set rs \<Longrightarrow> distinct (map key rs) \<Longrightarrow> put_row key r rs = rs"
  unfolding put_row_def update_where_def by (rule map_idI) (auto simp: distinct_map inj_on_def)

text \<open>\<open>x or y\<close> for an optional string and \<open>not x\<close>.\<close>

definition truthy :: "str option \<Rightarrow> bool" where
  "truthy s \<longleftrightarrow> s \<noteq> None \<and> s \<noteq> Some []"

lemma truthy_simps [simp]: "\<not> truthy None" "truthy (Some s) \<longleftrightarrow> s \<noteq> []"
  by (auto simp: truthy_def)

end
