(* ===== verification/Asset_Ledger.thy ===== *)
theory Asset_Ledger
  imports Payment_Store
begin

text \<open>
  \<open>packages/payments/economics.py\<close>: the high-precision asset ledger (\<open>AssetLedgerService\<close>), the
  conversion policies (\<open>FxPolicyService\<close>) and the settlement of open-amount deposits
  (\<open>FlexibleDepositSettlementService\<close>). The asset ledger keeps the same \<open>exactly_once\<close> contract as
  the wallet ledger; a settlement credits one of the two ledgers, at most once.
\<close>

section \<open>Identifiers\<close>

definition normalize_asset :: "str \<Rightarrow> str res" where
  "normalize_asset value =
     (let normalized = upper (strip value)
      in if normalized = [] \<or> 24 < length normalized then Inl ValueError else Inr normalized)"

definition normalize_network :: "str option \<Rightarrow> str res" where
  "normalize_network value =
     (let normalized = upper (strip (if truthy value then the value else ''OFFCHAIN''))
      in if normalized = [] \<or> 64 < length normalized then Inl ValueError else Inr normalized)"

definition normalize_currency :: "str \<Rightarrow> str res" where
  "normalize_currency value =
     (let normalized = upper (strip value)
      in if length normalized \<notin> {3, 4, 5, 6, 7, 8, 9, 10, 11, 12} \<or>
            \<not> isalnum (filter (\<lambda>c. c \<noteq> CHR ''_'') normalized)
         then Inl ValueError else Inr normalized)"

section \<open>AssetLedgerService\<close>

definition asset_wallet_key :: "asset_wallet \<Rightarrow> uuid \<times> uuid \<times> str \<times> str" where
  "asset_wallet_key w = (aw_tenant_id w, aw_user_id w, aw_asset w, aw_network w)"

definition flush_asset_wallet ::
  "'x pay_db_scheme \<Rightarrow> asset_wallet \<Rightarrow> ('x pay_db_scheme, asset_wallet) run" where
  "flush_asset_wallet db w =
     (if violates (\<lambda>_. True) asset_wallet_key (asset_wallets db) w then (db, Inl IntegrityError)
      else (db\<lparr>asset_wallets := asset_wallets db @ [w], next_id := Suc (next_id db)\<rparr>, Inr w))"

definition asset_get_or_create_wallet ::
  "'x pay_db_scheme \<Rightarrow> uuid \<Rightarrow> uuid \<Rightarrow> str \<Rightarrow> str option \<Rightarrow> ('x pay_db_scheme, asset_wallet) run" where
  "asset_get_or_create_wallet db tenant_id user_id asset network =
     lift_res db (normalize_asset asset) (\<lambda>db asset_code.
     lift_res db (normalize_network network) (\<lambda>db network_code.
       let stmt = (\<lambda>w. aw_tenant_id w = tenant_id \<and> aw_user_id w = user_id \<and>
                       aw_asset w = asset_code \<and> aw_network w = network_code) in
       lift_res db (scalar_one_or_none stmt (asset_wallets db))
         (\<lambda>db r. case r of
             Some w \<Rightarrow> (db, Inr w)
           | None \<Rightarrow>
               on_integrity_error
                 (nested db (flush_asset_wallet db
                    \<lparr>aw_id = next_id db, aw_tenant_id = tenant_id, aw_user_id = user_id,
                     aw_asset = asset_code, aw_network = network_code, aw_balance = 0, aw_is_active = True\<rparr>))
                 (\<lambda>db. lift_res db (scalar_one stmt (asset_wallets db)) (\<lambda>db w. (db, Inr w))))))"

definition asset_lock_wallet ::
  "'x pay_db_scheme \<Rightarrow> asset_wallet \<Rightarrow> ('x pay_db_scheme, asset_wallet) run" where
  "asset_lock_wallet db wlt =
     lift_res db
       (scalar_one_or_none (\<lambda>w. aw_id w = aw_id wlt \<and> aw_tenant_id w = aw_tenant_id wlt) (asset_wallets db))
       (\<lambda>db r. case r of None \<Rightarrow> (db, Inl ValueError) | Some w \<Rightarrow> (db, Inr w))"

definition asset_ledger_key :: "asset_ledger_transaction \<Rightarrow> uuid \<times> str" where
  "asset_ledger_key t = (al_tenant_id t, al_idempotency_key t)"

definition set_asset_balance :: "uuid \<Rightarrow> decimal \<Rightarrow> 'x pay_db_scheme \<Rightarrow> 'x pay_db_scheme" where
  "set_asset_balance wid b db =
     db\<lparr>asset_wallets := update_where (\<lambda>w. aw_id w = wid) (\<lambda>w. w\<lparr>aw_balance := b\<rparr>) (asset_wallets db)\<rparr>"

definition flush_asset_ledger ::
  "'x pay_db_scheme \<Rightarrow> asset_ledger_transaction \<Rightarrow> ('x pay_db_scheme, asset_ledger_transaction) run" where
  "flush_asset_ledger db t =
     (if violates (\<lambda>_. True) asset_ledger_key (asset_ledger db) t then (db, Inl IntegrityError)
      else (db\<lparr>asset_ledger := asset_ledger db @ [t], next_id := Suc (next_id db)\<rparr>, Inr t))"

definition find_asset_entry :: "'x pay_db_scheme \<Rightarrow> uuid \<Rightarrow> str \<Rightarrow> asset_ledger_transaction option" where
  "find_asset_entry db tenant_id key =
     first_row (\<lambda>t. al_tenant_id t = tenant_id \<and> al_idempotency_key t = key) (asset_ledger db)"

definition asset_book ::
  "'x pay_db_scheme \<Rightarrow> asset_wallet \<Rightarrow> decimal \<Rightarrow> str \<Rightarrow> str option \<Rightarrow> str option \<Rightarrow> str option \<Rightarrow>
   ('x pay_db_scheme, asset_ledger_transaction) run" where
  "asset_book db wlt amount key reference_type reference_id description =
     (let before = aw_balance wlt; after = before + amount
      in flush_asset_ledger (set_asset_balance (aw_id wlt) after db)
        \<lparr>al_id = next_id db, al_tenant_id = aw_tenant_id wlt, al_wallet_id = aw_id wlt,
         al_transaction_type = AssetLedgerTransactionType.CREDIT, al_amount = amount,
         al_balance_before = before, al_balance_after = after, al_idempotency_key = key,
         al_reference_type = reference_type, al_reference_id = reference_id,
         al_description = description\<rparr>)"

definition asset_credit ::
  "'x pay_db_scheme \<Rightarrow> asset_wallet \<Rightarrow> decimal \<Rightarrow> str \<Rightarrow> str option \<Rightarrow> str option \<Rightarrow> str option \<Rightarrow>
   ('x pay_db_scheme, asset_ledger_transaction) run" where
  "asset_credit db wlt amount idempotency_key reference_type reference_id description =
     (if amount \<le> 0 then (db, Inl ValueError)
      else let key = strip idempotency_key in
        if key = [] \<or> 180 < length key then (db, Inl ValueError)
        else and_then (asset_lock_wallet db wlt) (\<lambda>db wlt.
          case find_asset_entry db (aw_tenant_id wlt) key of
            Some existing \<Rightarrow>
              if al_wallet_id existing \<noteq> aw_id wlt \<or> al_amount existing \<noteq> amount \<or>
                 al_transaction_type existing \<noteq> AssetLedgerTransactionType.CREDIT
              then (db, Inl LedgerIntegrityError) else (db, Inr existing)
          | None \<Rightarrow>
              on_integrity_error
                (nested db (asset_book db wlt amount key reference_type reference_id description))
                (\<lambda>db. case find_asset_entry db (aw_tenant_id wlt) key of
                    None \<Rightarrow> (db, Inl LedgerIntegrityError)
                  | Some existing \<Rightarrow>
                      if al_wallet_id existing \<noteq> aw_id wlt \<or> al_amount existing \<noteq> amount
                      then (db, Inl LedgerIntegrityError) else (db, Inr existing))))"

section \<open>FxPolicyService\<close>

definition normalize_rate :: "decimal \<Rightarrow> decimal res" where
  "normalize_rate value = (if value \<le> 0 then Inl ValueError else Inr (quantize round_half_even 18 value))"

definition fx_policy_key :: "fx_policy \<Rightarrow> uuid \<times> str \<times> str \<times> str" where
  "fx_policy_key p = (fx_tenant_id p, fx_from_asset p, fx_from_network p, fx_to_currency p)"

definition create_policy ::
  "'x pay_db_scheme \<Rightarrow> uuid \<Rightarrow> str \<Rightarrow> str option \<Rightarrow> str \<Rightarrow> FxPolicyMode \<Rightarrow> decimal \<Rightarrow> decimal option \<Rightarrow>
   dict \<Rightarrow> timestamp \<Rightarrow> ('x pay_db_scheme, fx_policy) run" where
  "create_policy db tenant_id from_asset from_network to_currency mode rate max_auto_credit_amount metadata now =
     lift_res db (normalize_rate rate) (\<lambda>db rate.
     if mode = PARITY \<and> rate \<noteq> 1 then (db, Inl ValueError)
     else if (case max_auto_credit_amount of Some m \<Rightarrow> m \<le> 0 | None \<Rightarrow> False) then (db, Inl ValueError)
     else
       lift_res db (normalize_asset from_asset) (\<lambda>db asset_code.
       lift_res db (if truthy from_network then normalize_network from_network else Inr ''ANY'') (\<lambda>db network_code.
       lift_res db (normalize_currency to_currency) (\<lambda>db currency_code.
         let policy = \<lparr>fx_id = next_id db, fx_tenant_id = tenant_id, fx_from_asset = asset_code,
               fx_from_network = network_code, fx_to_currency = currency_code, fx_mode = mode,
               fx_rate = rate, fx_max_auto_credit_amount = max_auto_credit_amount, fx_is_enabled = True,
               fx_acknowledged_at = now, fx_metadata_json = metadata\<rparr>
         in if violates (\<lambda>_. True) fx_policy_key (fx_policies db) policy then (db, Inl LedgerIntegrityError)
            else (db\<lparr>fx_policies := fx_policies db @ [policy], next_id := Suc (next_id db)\<rparr>, Inr policy)))))"

definition fx_lookup ::
  "'x pay_db_scheme \<Rightarrow> uuid \<Rightarrow> str \<Rightarrow> str \<Rightarrow> str \<Rightarrow> uuid option \<Rightarrow> fx_policy option res" where
  "fx_lookup db tenant_id asset network currency policy_id =
     (let live = (\<lambda>p. fx_tenant_id p = tenant_id \<and> fx_is_enabled p) in
      case policy_id of
        Some pid \<Rightarrow> Inr (first_row (\<lambda>p. live p \<and> fx_id p = pid) (fx_policies db))
      | None \<Rightarrow>
          res_bind (normalize_asset asset) (\<lambda>asset_code.
          res_bind (normalize_network (Some network)) (\<lambda>network_code.
          res_bind (normalize_currency currency) (\<lambda>currency_code.
            let scoped = (\<lambda>p. live p \<and> fx_from_asset p = asset_code \<and>
                              fx_from_network p \<in> {network_code, ''ANY''} \<and> fx_to_currency p = currency_code)
            in Inr (case first_row (\<lambda>p. scoped p \<and> fx_from_network p = network_code) (fx_policies db) of
                      Some p \<Rightarrow> Some p
                    | None \<Rightarrow> first_row scoped (fx_policies db))))))"

definition fx_resolve ::
  "'x pay_db_scheme \<Rightarrow> uuid \<Rightarrow> str \<Rightarrow> str \<Rightarrow> str \<Rightarrow> uuid option \<Rightarrow> fx_policy res" where
  "fx_resolve db tenant_id asset network currency policy_id =
     res_bind (fx_lookup db tenant_id asset network currency policy_id) (\<lambda>found.
       case found of
         None \<Rightarrow> Inl LedgerIntegrityError
       | Some p \<Rightarrow>
           res_bind (normalize_asset asset) (\<lambda>asset_code.
           if fx_from_asset p \<noteq> asset_code then Inl LedgerIntegrityError
           else res_bind (normalize_network (Some network)) (\<lambda>network_code.
           if fx_from_network p \<notin> {''ANY'', network_code} then Inl LedgerIntegrityError
           else res_bind (normalize_currency currency) (\<lambda>currency_code.
           if fx_to_currency p \<noteq> currency_code then Inl LedgerIntegrityError
           else Inr p))))"

definition fx_convert :: "fx_policy \<Rightarrow> decimal \<Rightarrow> decimal res" where
  "fx_convert policy amount =
     (if amount \<le> 0 then Inl ValueError
      else Inr (quantize round_half_up 2 (amount * fx_rate policy)))"

section \<open>FlexibleDepositSettlementService\<close>

definition net_asset_amount :: "decimal \<Rightarrow> decimal option \<Rightarrow> str \<Rightarrow> decimal res" where
  "net_asset_amount amount_received fee_amount basis =
     (let normalized_basis = upper (strip basis) in
      if normalized_basis \<notin> {''GROSS_RECEIVED'', ''NET_AFTER_FEE''} then Inl LedgerIntegrityError
      else
        let result = (if normalized_basis = ''GROSS_RECEIVED'' then amount_received
                      else amount_received - (case fee_amount of Some f \<Rightarrow> f | None \<Rightarrow> 0))
        in if result \<le> 0 then Inl LedgerIntegrityError else Inr result)"

definition put_deposit :: "flexible_deposit_session \<Rightarrow> 'x pay_db_scheme \<Rightarrow> 'x pay_db_scheme" where
  "put_deposit d db = db\<lparr>flexible_deposits := put_row fd_id d (flexible_deposits db)\<rparr>"

definition deposit_credit_key :: "uuid \<Rightarrow> str" where
  "deposit_credit_key deposit_id = ''flexible-deposit:'' @ str_uuid deposit_id"

definition mark_credited ::
  "'x pay_db_scheme \<Rightarrow> flexible_deposit_session \<Rightarrow> timestamp \<Rightarrow> ('x pay_db_scheme, flexible_deposit_session) run" where
  "mark_credited db d now =
     (let d' = d\<lparr>fd_status := CREDITED, fd_credited_at := Some now, fd_last_error := None\<rparr>
      in (put_deposit d' db, Inr d'))"

definition flexible_settle ::
  "'x pay_db_scheme \<Rightarrow> flexible_deposit_session \<Rightarrow> timestamp \<Rightarrow> ('x pay_db_scheme, flexible_deposit_session) run" where
  "flexible_settle db d now =
     (if fd_status d = CREDITED then (db, Inr d)
      else case fd_amount_received d of
        None \<Rightarrow> (db, Inl LedgerIntegrityError)
      | Some amount_received \<Rightarrow>
          if amount_received \<le> 0 \<or> \<not> truthy (fd_asset d) \<or> \<not> truthy (fd_network d)
          then (db, Inl LedgerIntegrityError)
          else if \<not> fd_auto_credit_enabled d then
            let d' = d\<lparr>fd_status := SETTLED_REVIEW\<rparr> in (put_deposit d' db, Inr d')
          else
            let basis = (if fd_auto_credit_basis d = [] then ''NET_AFTER_FEE'' else fd_auto_credit_basis d);
                asset = the (fd_asset d); network = the (fd_network d)
            in lift_res db (net_asset_amount amount_received (fd_fee_amount d) basis) (\<lambda>db asset_amount.
              case fd_auto_credit_target d of
                ASSET_WALLET \<Rightarrow>
                  and_then (asset_get_or_create_wallet db (fd_tenant_id d) (fd_user_id d) asset (Some network))
                    (\<lambda>db wlt.
                  and_then (asset_credit db wlt asset_amount (deposit_credit_key (fd_id d))
                      (Some ''FLEXIBLE_DEPOSIT_SETTLEMENT'') (Some (str_uuid (fd_id d)))
                      (Some (''Flexible deposit via '' @ fd_provider d))) (\<lambda>db _.
                    mark_credited db
                      (d\<lparr>fd_credited_amount := Some asset_amount, fd_credited_asset := Some asset\<rparr>) now))
              | SETTLEMENT_WALLET \<Rightarrow>
                  if \<not> truthy (fd_settlement_currency d) then (db, Inl LedgerIntegrityError)
                  else
                    lift_res db (normalize_currency (the (fd_settlement_currency d))) (\<lambda>db currency.
                    lift_res db (fx_resolve db (fd_tenant_id d) asset network currency (fd_fx_policy_id d))
                      (\<lambda>db policy.
                    lift_res db (fx_convert policy asset_amount) (\<lambda>db settlement_amount.
                      if (case fx_max_auto_credit_amount policy of Some m \<Rightarrow> m < settlement_amount | None \<Rightarrow> False)
                      then
                        let d' = d\<lparr>fd_status := SETTLED_REVIEW, fd_last_error := Some ''AUTO_CREDIT_LIMIT_EXCEEDED''\<rparr>
                        in (put_deposit d' db, Inr d')
                      else
                        and_then (get_or_create_wallet db (fd_tenant_id d) (fd_user_id d) currency) (\<lambda>db wlt.
                        and_then (settle_flexible_deposit db wlt settlement_amount (fd_id d)
                            (Some (''Flexible '' @ asset @ '' deposit via '' @ fd_provider d)) now) (\<lambda>db _.
                          mark_credited db
                            (d\<lparr>fd_credited_amount := Some settlement_amount,
                               fd_credited_currency := Some currency,
                               fd_fx_policy_id := Some (fx_id policy)\<rparr>) now)))))))"

section \<open>The asset ledger's contract\<close>

definition asset_inv :: "'x pay_db_scheme \<Rightarrow> bool" where
  "asset_inv db \<longleftrightarrow>
     distinct (map aw_id (asset_wallets db)) \<and> distinct (map asset_wallet_key (asset_wallets db)) \<and>
     (\<forall>w \<in> set (asset_wallets db). aw_id w < next_id db \<and>
        aw_balance w = sum_list (map al_amount (filter (\<lambda>t. al_wallet_id t = aw_id w) (asset_ledger db)))) \<and>
     distinct (map asset_ledger_key (asset_ledger db)) \<and>
     (\<forall>t \<in> set (asset_ledger db). al_wallet_id t \<in> aw_id ` set (asset_wallets db) \<and>
        al_transaction_type t = AssetLedgerTransactionType.CREDIT \<and> 0 < al_amount t)"

lemma asset_lock_wallet_InrD:
  assumes "asset_lock_wallet db w = (db', Inr x)"
  shows "db' = db" and "x \<in> set (asset_wallets db)" and "aw_id x = aw_id w" and "aw_tenant_id x = aw_tenant_id w"
  using assms
  by (auto simp: asset_lock_wallet_def lift_res_Inr_iff split: option.splits dest!: scalar_one_or_none_SomeD)

lemma asset_lock_wallet_InlD: "asset_lock_wallet db w = (db', Inl e) \<Longrightarrow> db' = db"
  by (auto simp: asset_lock_wallet_def lift_res_def split: sum.splits option.splits)

lemma asset_lock_wallet_row:
  assumes "asset_inv db" and "x \<in> set (asset_wallets db)" and "aw_id x = aw_id w" and "aw_tenant_id x = aw_tenant_id w"
  shows "asset_lock_wallet db w = (db, Inr x)"
proof -
  let ?p = "\<lambda>y. aw_id y = aw_id w \<and> aw_tenant_id y = aw_tenant_id w"
  have "distinct (map aw_id (asset_wallets db))" using assms(1) by (simp add: asset_inv_def)
  then have "filter ?p (asset_wallets db) = [] \<or> (\<exists>r. filter ?p (asset_wallets db) = [r])"
    by (rule filter_unique_key) auto
  moreover have "x \<in> set (filter ?p (asset_wallets db))" using assms(2-4) by simp
  ultimately have "filter ?p (asset_wallets db) = [x]" by (auto simp del: set_filter)
  then show ?thesis by (simp add: asset_lock_wallet_def scalar_one_or_none_def)
qed

text \<open>What a successful credit does: it answers from the entry under its key, or books one.\<close>

definition asset_books ::
  "'x pay_db_scheme \<Rightarrow> asset_wallet \<Rightarrow> 'x pay_db_scheme \<Rightarrow> asset_ledger_transaction \<Rightarrow> bool" where
  "asset_books db x db' t \<longleftrightarrow>
     x \<in> set (asset_wallets db) \<and> al_wallet_id t = aw_id x \<and> al_tenant_id t = aw_tenant_id x \<and>
     al_balance_before t = aw_balance x \<and> al_balance_after t = aw_balance x + al_amount t \<and>
     al_transaction_type t = AssetLedgerTransactionType.CREDIT \<and> 0 < al_amount t \<and>
     (\<forall>y \<in> set (asset_ledger db). asset_ledger_key y \<noteq> asset_ledger_key t) \<and>
     db' = (set_asset_balance (aw_id x) (aw_balance x + al_amount t) db)
             \<lparr>asset_ledger := asset_ledger db @ [t], next_id := Suc (next_id db)\<rparr>"

lemma asset_credit_InrD:
  assumes "asset_credit db w a key rty rid d = (db', Inr t)"
  shows "0 < a" and "strip key \<noteq> []" and "length (strip key) \<le> 180" and "al_amount t = a"
    and "al_wallet_id t = aw_id w" and "al_tenant_id t = aw_tenant_id w" and "al_idempotency_key t = strip key"
    and "(db' = db \<and> find_asset_entry db (aw_tenant_id w) (strip key) = Some t) \<or>
         (\<exists>x. asset_books db x db' t \<and> aw_id x = aw_id w \<and> aw_tenant_id x = aw_tenant_id w)"
    and "\<exists>x \<in> set (asset_wallets db). aw_id x = aw_id w \<and> aw_tenant_id x = aw_tenant_id w"
proof -
  from assms obtain x where c: "0 < a" "strip key \<noteq> []" "length (strip key) \<le> 180"
    and x: "asset_lock_wallet db w = (db, Inr x)"
    by (auto simp: asset_credit_def Let_def and_then_Inr_iff split: if_splits dest: asset_lock_wallet_InrD)
  have r: "(db' = db \<and> find_asset_entry db (aw_tenant_id x) (strip key) = Some t \<and>
         al_wallet_id t = aw_id x \<and> al_amount t = a) \<or>
       (al_amount t = a \<and> al_idempotency_key t = strip key \<and> asset_books db x db' t)"
  proof (cases "find_asset_entry db (aw_tenant_id x) (strip key)")
    case None
    then have "asset_book db x a (strip key) rty rid d = (db', Inr t)"
      using assms c x by (auto simp: asset_credit_def Let_def savepoint_Inr_iff split: option.splits if_splits)
    then show ?thesis
      using None c asset_lock_wallet_InrD(2) [OF x]
      by (auto simp: asset_book_def flush_asset_ledger_def asset_books_def Let_def set_asset_balance_def
            asset_ledger_key_def find_asset_entry_def first_row_None_iff split: if_splits)
  next
    case (Some y)
    then show ?thesis using assms c x by (auto simp: asset_credit_def Let_def split: if_splits)
  qed
  note l = asset_lock_wallet_InrD [OF x]
  show "0 < a" "strip key \<noteq> []" "length (strip key) \<le> 180" by (fact c)+
  show "\<exists>x \<in> set (asset_wallets db). aw_id x = aw_id w \<and> aw_tenant_id x = aw_tenant_id w" using l by blast
  show "al_amount t = a" "al_wallet_id t = aw_id w" "al_tenant_id t = aw_tenant_id w" "al_idempotency_key t = strip key"
    using r l(3,4) by (auto simp: asset_books_def find_asset_entry_def dest: first_row_SomeD)
  show "(db' = db \<and> find_asset_entry db (aw_tenant_id w) (strip key) = Some t) \<or>
         (\<exists>x. asset_books db x db' t \<and> aw_id x = aw_id w \<and> aw_tenant_id x = aw_tenant_id w)"
    using r l(3,4) by auto
qed

lemma sum_asset_append:
  "sum_list (map al_amount (filter p (l @ [t]))) = sum_list (map al_amount (filter p l)) + (if p t then al_amount t else 0)"
  by simp

lemma asset_books_inv:
  assumes inv: "asset_inv db" and b: "asset_books db x db' t"
  shows "asset_inv db'"
proof -
  from b have x: "x \<in> set (asset_wallets db)" and t: "al_wallet_id t = aw_id x"
      "al_transaction_type t = AssetLedgerTransactionType.CREDIT" "0 < al_amount t"
      "\<forall>y \<in> set (asset_ledger db). asset_ledger_key y \<noteq> asset_ledger_key t"
    and db': "db' = (set_asset_balance (aw_id x) (aw_balance x + al_amount t) db)
             \<lparr>asset_ledger := asset_ledger db @ [t], next_id := Suc (next_id db)\<rparr>"
    by (auto simp: asset_books_def)
  have ids: "map aw_id (asset_wallets db') = map aw_id (asset_wallets db)"
    and keys: "map asset_wallet_key (asset_wallets db') = map asset_wallet_key (asset_wallets db)"
    by (simp_all add: db' set_asset_balance_def asset_wallet_key_def)
  have "aw_id v < next_id db' \<and>
      aw_balance v = sum_list (map al_amount (filter (\<lambda>t. al_wallet_id t = aw_id v) (asset_ledger db')))"
    if v: "v \<in> set (asset_wallets db')" for v
  proof -
    from v obtain u where u: "u \<in> set (asset_wallets db)"
      and v': "v = (if aw_id u = aw_id x then u\<lparr>aw_balance := aw_balance x + al_amount t\<rparr> else u)"
      by (auto simp: db' set_asset_balance_def in_update_where)
    have "aw_id u = aw_id x \<Longrightarrow> u = x" using inv u x by (auto simp: asset_inv_def distinct_map inj_on_def)
    then show ?thesis using inv u v' t(1) by (auto simp: asset_inv_def db' set_asset_balance_def)
  qed
  moreover have "aw_id ` set (asset_wallets db') = aw_id ` set (asset_wallets db)"
    using ids by (metis list.set_map)
  ultimately show ?thesis
    using inv t x ids keys by (auto simp: asset_inv_def db')
qed

lemma asset_credit_inv:
  "asset_inv db \<Longrightarrow> asset_credit db w a key rty rid d = (db', Inr t) \<Longrightarrow> asset_inv db'"
  using asset_credit_InrD(8) [of db w a key rty rid d db' t] asset_books_inv by blast

lemma asset_credit_failure: "asset_credit db w a key rty rid d = (db', Inl e) \<Longrightarrow> db' = db"
  unfolding asset_credit_def
  by (cases "asset_lock_wallet db w"; cases "snd (asset_lock_wallet db w)")
     (auto simp: Let_def split: if_splits option.splits dest!: savepoint_Inl_cases
        dest: asset_lock_wallet_InrD(1) asset_lock_wallet_InlD)

definition asset_recorded :: "'x pay_db_scheme \<Rightarrow> asset_wallet \<times> str \<Rightarrow> asset_ledger_transaction option" where
  "asset_recorded db k =
     (case find_asset_entry db (aw_tenant_id (fst k)) (strip (snd k)) of
        Some t \<Rightarrow> if al_wallet_id t = aw_id (fst k) then Some t else None
      | None \<Rightarrow> None)"

definition knows_asset_wallet :: "'x pay_db_scheme \<Rightarrow> asset_wallet \<Rightarrow> bool" where
  "knows_asset_wallet db w \<longleftrightarrow> (aw_id w, aw_tenant_id w) \<in> (\<lambda>x. (aw_id x, aw_tenant_id x)) ` set (asset_wallets db)"

lemma knows_asset_walletI:
  "x \<in> set (asset_wallets db) \<Longrightarrow> aw_id x = aw_id w \<Longrightarrow> aw_tenant_id x = aw_tenant_id w \<Longrightarrow> knows_asset_wallet db w"
  unfolding knows_asset_wallet_def by (metis (no_types, lifting) image_eqI)

lemma asset_books_recorded:
  assumes "asset_books db x db' t" and "aw_id x = aw_id w" and "aw_tenant_id x = aw_tenant_id w"
    and "al_idempotency_key t = strip key"
  shows "asset_recorded db' (w, key) = Some t" and "knows_asset_wallet db' w"
proof -
  have "first_row (\<lambda>y. al_tenant_id y = aw_tenant_id w \<and> al_idempotency_key y = strip key) (asset_ledger db) = None"
    using assms by (auto simp: first_row_None_iff asset_books_def asset_ledger_key_def)
  then show "asset_recorded db' (w, key) = Some t"
    using assms by (auto simp: asset_recorded_def find_asset_entry_def asset_books_def)
  have "map (\<lambda>x. (aw_id x, aw_tenant_id x)) (asset_wallets db') = map (\<lambda>x. (aw_id x, aw_tenant_id x)) (asset_wallets db)"
    using assms(1) by (auto simp: asset_books_def set_asset_balance_def)
  then have "(\<lambda>x. (aw_id x, aw_tenant_id x)) ` set (asset_wallets db') = (\<lambda>x. (aw_id x, aw_tenant_id x)) ` set (asset_wallets db)"
    by (metis list.set_map)
  then show "knows_asset_wallet db' w"
    using assms(1-3) unfolding knows_asset_wallet_def asset_books_def by (metis (no_types, lifting) image_eqI)
qed

interpretation asset_credits: exactly_once asset_inv
  "\<lambda>db (w, key) a (rty, rid, d). asset_credit db w a key rty rid d"
  asset_recorded al_amount "\<lambda>db (w, key). knows_asset_wallet db w"
  "\<lambda>(w, key). strip key \<noteq> [] \<and> length (strip key) \<le> 180"
proof (unfold_locales, goal_cases)
  case (1 db k a x db' t)
  obtain w key rty rid d where k: "k = (w, key)" and x: "x = (rty, rid, d)" by (cases k; cases x) auto
  have s: "asset_credit db w a key rty rid d = (db', Inr t)" using 1(3) by (simp add: k x)
  note c = asset_credit_InrD [OF s]
  from c(8) have "asset_recorded db' (w, key) = Some t \<and> knows_asset_wallet db' w"
  proof
    assume "db' = db \<and> find_asset_entry db (aw_tenant_id w) (strip key) = Some t"
    then show ?thesis using c(5,9) knows_asset_walletI by (auto simp: asset_recorded_def)
  next
    assume "\<exists>x. asset_books db x db' t \<and> aw_id x = aw_id w \<and> aw_tenant_id x = aw_tenant_id w"
    then show ?thesis using asset_books_recorded c(7) by blast
  qed
  with c(1,4) asset_credit_inv [OF 1(1) s] show ?case by (simp add: k)
next
  case (2 db k a x db' e)
  then show ?case by (cases k; cases x) (auto dest: asset_credit_failure)
next
  case (3 db k t a x)
  obtain w key rty rid d where k: "k = (w, key)" and x: "x = (rty, rid, d)" by (cases k; cases x) auto
  from 3 obtain y where "asset_lock_wallet db w = (db, Inr y)" "aw_id y = aw_id w" "aw_tenant_id y = aw_tenant_id w"
    using asset_lock_wallet_row [OF 3(1)] by (auto simp: k knows_asset_wallet_def)
  moreover have "find_asset_entry db (aw_tenant_id w) (strip key) = Some t" "al_wallet_id t = aw_id w"
    using 3(4) by (auto simp: k asset_recorded_def split: option.splits if_splits)
  moreover from this(1) have "al_transaction_type t = AssetLedgerTransactionType.CREDIT"
    using 3(1) by (auto simp: find_asset_entry_def asset_inv_def dest!: first_row_SomeD)
  ultimately show ?case using 3(2,5) by (auto simp: k x asset_credit_def Let_def)
qed

end
