(* ===== verification/Asset_Properties.thy ===== *)
theory Asset_Properties
  imports Asset_Ledger
begin

text \<open>
  Properties of the asset ledger, the conversion policies and the settlement of open-amount deposits.
\<close>

section \<open>Opening an asset wallet\<close>

lemma asset_get_or_create_wallet_InrD:
  assumes inv: "asset_inv db" and "asset_get_or_create_wallet db n u asset net = (db', Inr w)"
  shows "asset_inv db'" and "w \<in> set (asset_wallets db')"
    and "\<exists>a m. normalize_asset asset = Inr a \<and> normalize_network net = Inr m \<and> asset_wallet_key w = (n, u, a, m)"
    and "asset_ledger db' = asset_ledger db" and "\<exists>ws k. db' = db\<lparr>asset_wallets := asset_wallets db @ ws, next_id := k\<rparr>"
proof -
  from assms(2) obtain a m where n: "normalize_asset asset = Inr a" "normalize_network net = Inr m"
    by (auto simp: asset_get_or_create_wallet_def lift_res_Inr_iff)
  let ?p = "\<lambda>w. aw_tenant_id w = n \<and> aw_user_id w = u \<and> aw_asset w = a \<and> aw_network w = m"
  let ?v = "\<lparr>aw_id = next_id db, aw_tenant_id = n, aw_user_id = u, aw_asset = a, aw_network = m, aw_balance = 0, aw_is_active = True\<rparr>"
  have one: "scalar_one_or_none ?p (asset_wallets db) = Inr (first_row ?p (asset_wallets db))"
    using inv by (intro scalar_one_or_none_unique [where k = asset_wallet_key]) (auto simp: asset_inv_def asset_wallet_key_def)
  have "asset_inv db' \<and> w \<in> set (asset_wallets db') \<and> asset_wallet_key w = (n, u, a, m) \<and> asset_ledger db' = asset_ledger db \<and>
      (\<exists>ws k. db' = db\<lparr>asset_wallets := asset_wallets db @ ws, next_id := k\<rparr>)"
  proof (cases "first_row ?p (asset_wallets db)")
    case (Some x)
    then have "db' = db \<and> w = x"
      using assms(2) one n by (auto simp: asset_get_or_create_wallet_def Let_def)
    moreover have "\<exists>ws k. db = db\<lparr>asset_wallets := asset_wallets db @ ws, next_id := k\<rparr>"
      by (intro exI [of _ "[]"] exI [of _ "next_id db"]) simp
    ultimately show ?thesis using inv first_row_SomeD [OF Some] by (auto simp: asset_wallet_key_def)
  next
    case None
    then have fresh: "\<forall>x \<in> set (asset_wallets db). asset_wallet_key x \<noteq> asset_wallet_key ?v"
      by (auto simp: first_row_None_iff asset_wallet_key_def)
    then have "\<not> violates (\<lambda>_. True) asset_wallet_key (asset_wallets db) ?v"
      by (auto simp: violates_def list_ex_iff)
    then have r: "db' = db\<lparr>asset_wallets := asset_wallets db @ [?v], next_id := Suc (next_id db)\<rparr>" "w = ?v"
      using assms(2) one n None by (auto simp: asset_get_or_create_wallet_def Let_def flush_asset_wallet_def)
    have "\<forall>t \<in> set (asset_ledger db). al_wallet_id t \<noteq> next_id db"
      using inv by (fastforce simp: asset_inv_def)
    then have "filter (\<lambda>t. al_wallet_id t = next_id db) (asset_ledger db) = []" by (simp add: filter_empty_conv)
    moreover have "next_id db \<notin> aw_id ` set (asset_wallets db)" using inv by (auto simp: asset_inv_def)
    moreover have "asset_wallet_key ?v \<notin> asset_wallet_key ` set (asset_wallets db)"
      using fresh by (auto simp: image_iff)
    ultimately have "asset_inv db'" using inv by (auto simp: asset_inv_def r less_SucI)
    then show ?thesis using r by (auto simp: asset_wallet_key_def)
  qed
  then show "asset_inv db'" "w \<in> set (asset_wallets db')" "asset_ledger db' = asset_ledger db"
    "\<exists>a m. normalize_asset asset = Inr a \<and> normalize_network net = Inr m \<and> asset_wallet_key w = (n, u, a, m)"
    "\<exists>ws k. db' = db\<lparr>asset_wallets := asset_wallets db @ ws, next_id := k\<rparr>"
    using n by auto
qed

lemma asset_get_or_create_wallet_again:
  assumes inv: "asset_inv db" and "w \<in> set (asset_wallets db)" and "asset_wallet_key w = (n, u, a, m)"
    and "normalize_asset asset = Inr a" and "normalize_network net = Inr m"
  shows "asset_get_or_create_wallet db n u asset net = (db, Inr w)"
proof -
  let ?p = "\<lambda>w. aw_tenant_id w = n \<and> aw_user_id w = u \<and> aw_asset w = a \<and> aw_network w = m"
  have "filter ?p (asset_wallets db) = [] \<or> (\<exists>r. filter ?p (asset_wallets db) = [r])"
    using inv by (intro filter_unique_key [where k = asset_wallet_key]) (auto simp: asset_inv_def asset_wallet_key_def)
  moreover have "w \<in> set (filter ?p (asset_wallets db))" using assms(2,3) by (auto simp: asset_wallet_key_def)
  ultimately have "filter ?p (asset_wallets db) = [w]" by (auto simp del: set_filter)
  then show ?thesis using assms(4,5) by (simp add: asset_get_or_create_wallet_def scalar_one_or_none_def)
qed

section \<open>The two ledgers share a store\<close>

lemma pay_tables_eq:
  assumes "ledger_db.more db' = ledger_db.more (db :: 'x pay_db_scheme)"
  shows "asset_wallets db' = asset_wallets db" "asset_ledger db' = asset_ledger db"
    "fx_policies db' = fx_policies db" "flexible_deposits db' = flexible_deposits db"
    "orders db' = orders db" "payment_intents db' = payment_intents db"
    "payment_transactions db' = payment_transactions db" "topup_reversals db' = topup_reversals db"
    "reconciliation_events db' = reconciliation_events db" "resolution_cases db' = resolution_cases db"
    "payment_methods db' = payment_methods db" "payment_quotes db' = payment_quotes db"
    "payment_observations db' = payment_observations db" "webhook_events db' = webhook_events db"
    "provider_configs db' = provider_configs db" "users db' = users db" "pay_db.more db' = pay_db.more db"
  using assms by (cases db; cases db'; simp)+

lemma asset_inv_frame:
  assumes "asset_inv db" and "asset_wallets db' = asset_wallets db" and "asset_ledger db' = asset_ledger db"
    and "next_id db \<le> next_id db'"
  shows "asset_inv db'"
  using assms by (auto simp: asset_inv_def intro: less_le_trans)

lemma ledger_inv_frame:
  assumes "ledger_inv db" and "wallets db' = wallets db" and "ledger db' = ledger db" and "holds db' = holds db"
    and "next_id db \<le> next_id db'"
  shows "ledger_inv db'"
  using assms by (fastforce simp: ledger_inv_def entries_def)

lemma one_entry_next_id: "one_entry now db ty w a db' t \<Longrightarrow> next_id db \<le> next_id db'"
  by (auto simp: one_entry_def books_def)

lemma get_or_create_wallet_next_id:
  "ledger_inv db \<Longrightarrow> get_or_create_wallet db n u c = (db', Inr w) \<Longrightarrow> next_id db \<le> next_id db'"
  by (cases rule: get_or_create_wallet_cases [of db n u c]) auto

section \<open>Settling a deposit\<close>

lemma put_deposit_frame [simp]:
  "wallets (put_deposit d db) = wallets db" "ledger (put_deposit d db) = ledger db" "holds (put_deposit d db) = holds db"
  "next_id (put_deposit d db) = next_id db" "asset_wallets (put_deposit d db) = asset_wallets db"
  "asset_ledger (put_deposit d db) = asset_ledger db" "fx_policies (put_deposit d db) = fx_policies db"
  "balance_of (put_deposit d db) = balance_of db"
  by (simp_all add: put_deposit_def balance_of_def fun_eq_iff)

lemma flexible_settle_credited: "fd_status d = CREDITED \<Longrightarrow> flexible_settle db d now = (db, Inr d)"
  by (simp add: flexible_settle_def)

text \<open>The deposits the tenant's policy credits by itself, with the net amount.\<close>

definition auto_creditable :: "flexible_deposit_session \<Rightarrow> decimal \<Rightarrow> bool" where
  "auto_creditable d net \<longleftrightarrow> fd_status d \<noteq> CREDITED \<and> fd_auto_credit_enabled d \<and> truthy (fd_asset d) \<and> truthy (fd_network d) \<and>
     (\<exists>amt. fd_amount_received d = Some amt \<and> 0 < amt \<and>
        net_asset_amount amt (fd_fee_amount d)
          (if fd_auto_credit_basis d = [] then ''NET_AFTER_FEE'' else fd_auto_credit_basis d) = Inr net)"

lemma flexible_settle_asset:
  assumes "auto_creditable d net" and "fd_auto_credit_target d = ASSET_WALLET"
  shows "flexible_settle db d now =
    and_then (asset_get_or_create_wallet db (fd_tenant_id d) (fd_user_id d) (the (fd_asset d)) (Some (the (fd_network d))))
      (\<lambda>db wlt. and_then (asset_credit db wlt net (deposit_credit_key (fd_id d))
          (Some ''FLEXIBLE_DEPOSIT_SETTLEMENT'') (Some (str_uuid (fd_id d)))
          (Some (''Flexible deposit via '' @ fd_provider d))) (\<lambda>db _.
        mark_credited db (d\<lparr>fd_credited_amount := Some net, fd_credited_asset := fd_asset d\<rparr>) now))"
  using assms by (auto simp: auto_creditable_def flexible_settle_def Let_def truthy_def)

lemma flexible_settle_settlement:
  assumes "auto_creditable d net" and "fd_auto_credit_target d = SETTLEMENT_WALLET"
    and "truthy (fd_settlement_currency d)" and "normalize_currency (the (fd_settlement_currency d)) = Inr cur"
    and "fx_resolve db (fd_tenant_id d) (the (fd_asset d)) (the (fd_network d)) cur (fd_fx_policy_id d) = Inr p"
    and "fx_convert p net = Inr a"
  shows "flexible_settle db d now =
    (if (case fx_max_auto_credit_amount p of Some m \<Rightarrow> m < a | None \<Rightarrow> False)
     then let d' = d\<lparr>fd_status := SETTLED_REVIEW, fd_last_error := Some ''AUTO_CREDIT_LIMIT_EXCEEDED''\<rparr>
       in (put_deposit d' db, Inr d')
     else and_then (get_or_create_wallet db (fd_tenant_id d) (fd_user_id d) cur) (\<lambda>db wlt.
       and_then (settle_flexible_deposit db wlt a (fd_id d)
          (Some (''Flexible '' @ the (fd_asset d) @ '' deposit via '' @ fd_provider d)) now) (\<lambda>db _.
        mark_credited db (d\<lparr>fd_credited_amount := Some a, fd_credited_currency := Some cur,
          fd_fx_policy_id := Some (fx_id p)\<rparr>) now)))"
  using assms by (auto simp: auto_creditable_def flexible_settle_def Let_def)

lemma flexible_settle_manual:
  assumes "flexible_settle db d now = (db', Inr d')" and "fd_status d \<noteq> CREDITED"
  shows "(\<exists>net. auto_creditable d net) \<or> (d' = d\<lparr>fd_status := SETTLED_REVIEW\<rparr> \<and> db' = put_deposit d' db)"
proof -
  from assms obtain amt where a: "fd_amount_received d = Some amt" "0 < amt" "truthy (fd_asset d)" "truthy (fd_network d)"
    by (auto simp: flexible_settle_def split: option.splits if_splits)
  show ?thesis
  proof (cases "fd_auto_credit_enabled d")
    case False
    then show ?thesis using assms a by (auto simp: flexible_settle_def Let_def)
  next
    case True
    let ?net = "net_asset_amount amt (fd_fee_amount d) (if fd_auto_credit_basis d = [] then ''NET_AFTER_FEE'' else fd_auto_credit_basis d)"
    obtain net where "?net = Inr net" using assms a True by (cases ?net) (auto simp: flexible_settle_def Let_def)
    then show ?thesis using assms a True by (auto simp: auto_creditable_def)
  qed
qed

lemma flexible_settle_settlementD:
  assumes "flexible_settle db d now = (db', Inr d')" and "auto_creditable d net" and "fd_auto_credit_target d = SETTLEMENT_WALLET"
  obtains cur p a where "truthy (fd_settlement_currency d)" "normalize_currency (the (fd_settlement_currency d)) = Inr cur"
    "fx_resolve db (fd_tenant_id d) (the (fd_asset d)) (the (fd_network d)) cur (fd_fx_policy_id d) = Inr p"
    "fx_convert p net = Inr a"
proof -
  have "\<exists>cur p a. truthy (fd_settlement_currency d) \<and> normalize_currency (the (fd_settlement_currency d)) = Inr cur \<and>
    fx_resolve db (fd_tenant_id d) (the (fd_asset d)) (the (fd_network d)) cur (fd_fx_policy_id d) = Inr p \<and>
    fx_convert p net = Inr a"
    using assms by (auto simp: auto_creditable_def flexible_settle_def Let_def lift_res_Inr_iff split: if_splits)
  then show thesis using that by blast
qed

lemma flexible_settle_cases:
  assumes s: "flexible_settle db d now = (db', Inr d')"
  obtains (already) "fd_status d = CREDITED" "db' = db" "d' = d"
  | (review) "fd_status d \<noteq> CREDITED" "fd_status d' = SETTLED_REVIEW" "db' = put_deposit d' db" "fd_credited_at d' = fd_credited_at d"
      "fd_id d' = fd_id d"
  | (asset) net w db1 db2 t where "auto_creditable d net" "fd_auto_credit_target d = ASSET_WALLET"
      "asset_get_or_create_wallet db (fd_tenant_id d) (fd_user_id d) (the (fd_asset d)) (Some (the (fd_network d))) = (db1, Inr w)"
      "asset_credit db1 w net (deposit_credit_key (fd_id d)) (Some ''FLEXIBLE_DEPOSIT_SETTLEMENT'')
         (Some (str_uuid (fd_id d))) (Some (''Flexible deposit via '' @ fd_provider d)) = (db2, Inr t)"
      "d' = d\<lparr>fd_credited_amount := Some net, fd_credited_asset := fd_asset d,
              fd_status := CREDITED, fd_credited_at := Some now, fd_last_error := None\<rparr>"
      "db' = put_deposit d' db2"
  | (settlement) net cur p a w db1 db2 t where "auto_creditable d net" "fd_auto_credit_target d = SETTLEMENT_WALLET"
      "truthy (fd_settlement_currency d)" "normalize_currency (the (fd_settlement_currency d)) = Inr cur"
      "fx_resolve db (fd_tenant_id d) (the (fd_asset d)) (the (fd_network d)) cur (fd_fx_policy_id d) = Inr p"
      "fx_convert p net = Inr a" "\<forall>m. fx_max_auto_credit_amount p = Some m \<longrightarrow> a \<le> m"
      "get_or_create_wallet db (fd_tenant_id d) (fd_user_id d) cur = (db1, Inr w)"
      "settle_flexible_deposit db1 w a (fd_id d)
         (Some (''Flexible '' @ the (fd_asset d) @ '' deposit via '' @ fd_provider d)) now = (db2, Inr t)"
      "d' = d\<lparr>fd_credited_amount := Some a, fd_credited_currency := Some cur, fd_fx_policy_id := Some (fx_id p),
              fd_status := CREDITED, fd_credited_at := Some now, fd_last_error := None\<rparr>"
      "db' = put_deposit d' db2"
proof (cases "fd_status d = CREDITED")
  case True
  with s show thesis by (intro already) (simp_all add: flexible_settle_credited)
next
  case nc: False
  from flexible_settle_manual [OF s nc] show thesis
  proof
    assume "d' = d\<lparr>fd_status := SETTLED_REVIEW\<rparr> \<and> db' = put_deposit d' db"
    then show thesis using nc by (intro review) simp_all
  next
    assume "\<exists>net. auto_creditable d net"
    then obtain net where net: "auto_creditable d net" by blast
    show thesis
    proof (cases "fd_auto_credit_target d")
      case tgt: ASSET_WALLET
      from s obtain db1 w db2 t where r:
        "asset_get_or_create_wallet db (fd_tenant_id d) (fd_user_id d) (the (fd_asset d)) (Some (the (fd_network d))) = (db1, Inr w)"
        "asset_credit db1 w net (deposit_credit_key (fd_id d)) (Some ''FLEXIBLE_DEPOSIT_SETTLEMENT'')
           (Some (str_uuid (fd_id d))) (Some (''Flexible deposit via '' @ fd_provider d)) = (db2, Inr t)"
        "mark_credited db2 (d\<lparr>fd_credited_amount := Some net, fd_credited_asset := fd_asset d\<rparr>) now = (db', Inr d')"
        unfolding flexible_settle_asset [OF net tgt] and_then_Inr_iff by blast
      from r(3) show thesis by (intro asset [OF net tgt r(1,2)]) (auto simp: mark_credited_def Let_def)
    next
      case tgt: SETTLEMENT_WALLET
      from flexible_settle_settlementD [OF s net tgt] obtain cur p a where
        c: "truthy (fd_settlement_currency d)" "normalize_currency (the (fd_settlement_currency d)) = Inr cur"
          "fx_resolve db (fd_tenant_id d) (the (fd_asset d)) (the (fd_network d)) cur (fd_fx_policy_id d) = Inr p"
          "fx_convert p net = Inr a" by metis
      note eq = flexible_settle_settlement [OF net tgt c, of now]
      show thesis
      proof (cases "case fx_max_auto_credit_amount p of Some m \<Rightarrow> m < a | None \<Rightarrow> False")
        case True
        with s eq have "d' = d\<lparr>fd_status := SETTLED_REVIEW, fd_last_error := Some ''AUTO_CREDIT_LIMIT_EXCEEDED''\<rparr>"
          and "db' = put_deposit d' db" by (auto simp: Let_def)
        with nc show thesis by (intro review) simp_all
      next
        case False
        then have lim: "\<forall>m. fx_max_auto_credit_amount p = Some m \<longrightarrow> a \<le> m" by (auto split: option.splits)
        from s [unfolded eq if_not_P [OF False] and_then_Inr_iff] obtain db1 w db2 t where r:
          "get_or_create_wallet db (fd_tenant_id d) (fd_user_id d) cur = (db1, Inr w)"
          "settle_flexible_deposit db1 w a (fd_id d)
             (Some (''Flexible '' @ the (fd_asset d) @ '' deposit via '' @ fd_provider d)) now = (db2, Inr t)"
          "mark_credited db2 (d\<lparr>fd_credited_amount := Some a, fd_credited_currency := Some cur,
             fd_fx_policy_id := Some (fx_id p)\<rparr>) now = (db', Inr d')"
          by blast
        from r(3) show thesis by (intro settlement [OF net tgt c lim r(1,2)]) (auto simp: mark_credited_def Let_def)
      qed
    qed
  qed
qed

lemma fx_resolve_lookup:
  "fx_resolve db n asset network currency pid = Inr p \<Longrightarrow> fx_lookup db n asset network currency pid = Inr (Some p)"
  by (auto simp: fx_resolve_def res_bind_Inr_iff split: option.splits if_splits)

lemma fx_resolve_InrD:
  assumes "fx_resolve db n asset network currency pid = Inr p"
  shows "p \<in> set (fx_policies db)" and "fx_tenant_id p = n" and "fx_is_enabled p"
    and "normalize_asset asset = Inr (fx_from_asset p)" and "normalize_currency currency = Inr (fx_to_currency p)"
    and "fx_from_network p = ''ANY'' \<or> normalize_network (Some network) = Inr (fx_from_network p)"
proof -
  have l: "fx_lookup db n asset network currency pid = Inr (Some p)"
    and "normalize_asset asset = Inr (fx_from_asset p) \<and> normalize_currency currency = Inr (fx_to_currency p) \<and>
      (fx_from_network p = ''ANY'' \<or> normalize_network (Some network) = Inr (fx_from_network p))"
    using assms by (auto simp: fx_resolve_def res_bind_Inr_iff split: option.splits if_splits)
  then show "normalize_asset asset = Inr (fx_from_asset p)" "normalize_currency currency = Inr (fx_to_currency p)"
    "fx_from_network p = ''ANY'' \<or> normalize_network (Some network) = Inr (fx_from_network p)"
    by auto
  have "\<exists>q. first_row q (fx_policies db) = Some p \<and> (q p \<longrightarrow> fx_tenant_id p = n \<and> fx_is_enabled p)"
    using l by (auto simp: fx_lookup_def Let_def res_bind_Inr_iff split: option.splits)
  then have "p \<in> set (fx_policies db) \<and> fx_tenant_id p = n \<and> fx_is_enabled p"
    by (auto dest: first_row_SomeD)
  then show "p \<in> set (fx_policies db)" "fx_tenant_id p = n" "fx_is_enabled p" by auto
qed

lemma upper_char_idem [simp]: "upper_char (upper_char c) = upper_char c"
  by (auto simp: upper_char_def char_code_def)

lemma is_space_upper [simp]: "is_space (upper_char c) = is_space c"
  by (auto simp: upper_char_def is_space_def char_code_def)



lemma deposit_key [simp]: "strip (deposit_credit_key n) = deposit_credit_key n"
  unfolding deposit_credit_key_def
proof (rule strip_ident)
  show "\<not> is_space (last (''flexible-deposit:'' @ str_uuid n))" by (simp add: last_str_uuid)
qed (simp_all add: is_space_def char_code_def)

lemma asset_credit_recorded:
  "asset_inv db \<Longrightarrow> asset_credit db w a key rty rid d = (db', Inr t) \<Longrightarrow> asset_recorded db' (w, key) = Some t"
  using asset_credits.op_success [of db "(w, key)" a "(rty, rid, d)" db' t]
    asset_credit_InrD(2,3) [of db w a key rty rid d db' t] by simp


section \<open>Settling a stale copy\<close>

lemma fx_resolve_cong:
  assumes "fx_policies db' = fx_policies db"
  shows "fx_resolve db' = fx_resolve db"
  by (intro ext) (unfold fx_resolve_def fx_lookup_def assms, rule refl)

lemma one_entry_wallet_row:
  assumes "one_entry now db ty v a db' t" and "w \<in> set (wallets db)"
  shows "\<exists>x \<in> set (wallets db'). w_id x = w_id w \<and> wallet_key x = wallet_key w"
proof -
  from assms(1) have "db' = db \<or> wallets db' = wallets (set_balance (lt_wallet_id t) (lt_balance_after t) db)"
    by (auto simp: one_entry_def books_def)
  moreover have "\<exists>x \<in> set (wallets (set_balance i b db)). w_id x = w_id w \<and> wallet_key x = wallet_key w" for i b
    using assms(2) unfolding set_balance_def
    by (intro bexI [of _ "if w_id w = i then w\<lparr>w_balance := b\<rparr> else w"]) (auto simp: in_update_where wallet_key_def)
  ultimately show ?thesis using assms(2) by auto
qed

lemma get_or_create_wallet_again:
  assumes "ledger_inv db" and "w \<in> set (wallets db)" and "wallet_key w = (n, u, c)"
  shows "get_or_create_wallet db n u c = (db, Inr w)"
  using assms(1)
proof (cases rule: get_or_create_wallet_cases [of db n u c])
  case (found v)
  then have "v = w" using assms by (auto simp: ledger_inv_def distinct_map inj_on_def)
  with found show ?thesis by simp
next
  case (created v)
  with assms show ?thesis by auto
qed

lemma asset_credit_wallet_row:
  assumes "asset_credit db w a key rty rid d = (db', Inr t)" and "w \<in> set (asset_wallets db)"
  shows "\<exists>x \<in> set (asset_wallets db'). aw_id x = aw_id w \<and> asset_wallet_key x = asset_wallet_key w"
proof -
  have "\<exists>x \<in> set (asset_wallets (set_asset_balance i b db)). aw_id x = aw_id w \<and> asset_wallet_key x = asset_wallet_key w" for i b
    using assms(2) unfolding set_asset_balance_def
    by (intro bexI [of _ "if aw_id w = i then w\<lparr>aw_balance := b\<rparr> else w"]) (auto simp: in_update_where asset_wallet_key_def)
  then show ?thesis using asset_credit_InrD(8) [OF assms(1)] assms(2) by (auto simp: asset_books_def)
qed

lemma asset_settle_again:
  assumes ai: "asset_inv db" and cr: "auto_creditable d net" and tgt: "fd_auto_credit_target d = ASSET_WALLET"
    and g: "asset_get_or_create_wallet db (fd_tenant_id d) (fd_user_id d) (the (fd_asset d)) (Some (the (fd_network d))) = (db1, Inr w)"
    and c: "asset_credit db1 w net (deposit_credit_key (fd_id d)) rty rid de = (db2, Inr t)"
    and db3: "asset_wallets db3 = asset_wallets db2" "asset_ledger db3 = asset_ledger db2" "next_id db3 = next_id db2"
  shows "\<exists>d'. flexible_settle db3 d now = (put_deposit d' db3, Inr d')"
proof -
  note gi = asset_get_or_create_wallet_InrD [OF ai g] and cd = asset_credit_InrD [OF c]
  have inv2: "asset_inv db2" using gi(1) c by (rule asset_credit_inv)
  then have inv3: "asset_inv db3" by (rule asset_inv_frame) (simp_all add: db3)
  from asset_credit_wallet_row [OF c gi(2)] obtain x where
    x: "x \<in> set (asset_wallets db3)" "aw_id x = aw_id w" "asset_wallet_key x = asset_wallet_key w"
    by (auto simp: db3)
  have g3: "asset_get_or_create_wallet db3 (fd_tenant_id d) (fd_user_id d) (the (fd_asset d)) (Some (the (fd_network d))) = (db3, Inr x)"
    using asset_get_or_create_wallet_again [OF inv3 x(1)] gi(3) x(3) by auto
  have "asset_recorded db2 (w, deposit_credit_key (fd_id d)) = Some t"
    using gi(1) c by (rule asset_credit_recorded)
  then have rec: "asset_recorded db3 (x, deposit_credit_key (fd_id d)) = Some t"
    using x(2,3) by (auto simp: asset_recorded_def find_asset_entry_def db3 asset_wallet_key_def split: option.splits)
  have "asset_credit db3 x net (deposit_credit_key (fd_id d)) r1 r2 r3 = (db3, Inr t)" for r1 r2 r3
    using asset_credits.op_replay [of db3 "(x, deposit_credit_key (fd_id d))" t net "(r1, r2, r3)"]
      inv3 rec cd(1-4) knows_asset_walletI [OF x(1)] by simp
  then show ?thesis
    unfolding flexible_settle_asset [OF cr tgt] g3 by (auto simp: mark_credited_def Let_def)
qed

lemma settlement_settle_again:
  assumes li: "ledger_inv db" and cr: "auto_creditable d net" and tgt: "fd_auto_credit_target d = SETTLEMENT_WALLET"
    and cur: "truthy (fd_settlement_currency d)" "normalize_currency (the (fd_settlement_currency d)) = Inr cur"
    and p: "fx_resolve db (fd_tenant_id d) (the (fd_asset d)) (the (fd_network d)) cur (fd_fx_policy_id d) = Inr p"
      "fx_convert p net = Inr a" "\<forall>m. fx_max_auto_credit_amount p = Some m \<longrightarrow> a \<le> m"
    and g: "get_or_create_wallet db (fd_tenant_id d) (fd_user_id d) cur = (db1, Inr w)"
    and s: "settle_flexible_deposit db1 w a (fd_id d) de tm = (db2, Inr t)"
    and db3: "wallets db3 = wallets db2" "ledger db3 = ledger db2" "holds db3 = holds db2" "next_id db3 = next_id db2"
      "fx_policies db3 = fx_policies db"
  shows "\<exists>d'. flexible_settle db3 d now = (put_deposit d' db3, Inr d')"
proof -
  note gi = get_or_create_wallet_InrD [OF li g] and e = settle_flexible_deposit_entry [OF gi(1) s]
  have st: "ledger_inv db2 \<and> knows_wallet db2 w \<and>
      find_entry db2 (w_id w) TransactionType.CREDIT CANONICAL_FLEXIBLE_DEPOSIT_TYPE (str_uuid (fd_id d)) = Some t \<and> lt_amount t = a \<and> 0 < a"
    using gi(1) s by (rule settle_flexible_deposit_recorded)
  then have inv3: "ledger_inv db3" by (intro ledger_inv_frame [of db2 db3]) (simp_all add: db3)
  from one_entry_wallet_row [OF e(1) gi(2)] obtain x where
    x: "x \<in> set (wallets db3)" "w_id x = w_id w" "wallet_key x = wallet_key w" by (auto simp: db3)
  have g3: "get_or_create_wallet db3 (fd_tenant_id d) (fd_user_id d) cur = (db3, Inr x)"
    using get_or_create_wallet_again [OF inv3 x(1)] gi(3) x(3) by simp
  have p3: "fx_resolve db3 (fd_tenant_id d) (the (fd_asset d)) (the (fd_network d)) cur (fd_fx_policy_id d) = Inr p"
    using p(1) fx_resolve_cong [OF db3(5)] by simp
  have "knows_wallet db3 x" using x(1) by (auto simp: knows_wallet_def wallet_ids_def)
  then have "settle_flexible_deposit db3 x a (fd_id d) de' now = (db3, Inr t)" for de'
    using settle_flexible_deposit_replay [OF inv3] st x(2) by (auto simp: find_entry_def db3)
  moreover have "\<not> (case fx_max_auto_credit_amount p of Some m \<Rightarrow> m < a | None \<Rightarrow> False)"
    using p(3) by (auto split: option.splits)
  ultimately show ?thesis
    unfolding flexible_settle_settlement [OF cr tgt cur p3 p(2)] g3 by (auto simp: mark_credited_def Let_def)
qed

section \<open>A sample store\<close>

definition sample_policy :: fx_policy where
  "sample_policy = \<lparr>fx_id = 50, fx_tenant_id = 7, fx_from_asset = ''USDT'', fx_from_network = ''ANY'', fx_to_currency = ''USD'',
     fx_mode = FIXED_RATE, fx_rate = 9 / 10, fx_max_auto_credit_amount = Some 500, fx_is_enabled = True,
     fx_acknowledged_at = 0, fx_metadata_json = []\<rparr>"

definition sample_deposit :: flexible_deposit_session where
  "sample_deposit = \<lparr>fd_id = 60, fd_tenant_id = 7, fd_user_id = 8, fd_payment_method_id = 61, fd_provider = ''triplea'',
     fd_provider_deposit_id = ''p1'', fd_idempotency_key = ''deposit-1'', fd_status = FlexibleDepositStatus.PROCESSING,
     fd_checkout_url = None, fd_asset = Some ''USDT'', fd_network = Some ''TRON'', fd_amount_received = Some 21,
     fd_fee_amount = Some 1, fd_auto_credit_enabled = True, fd_auto_credit_target = SETTLEMENT_WALLET,
     fd_auto_credit_basis = ''NET_AFTER_FEE'', fd_settlement_currency = Some ''USD'', fd_fx_policy_id = None,
     fd_credited_amount = None, fd_credited_asset = None, fd_credited_currency = None, fd_credited_at = None,
     fd_last_reconciled_at = None, fd_last_error = None, fd_provider_snapshot_json = [], fd_policy_snapshot_json = []\<rparr>"

definition sample_pay :: pay_db where
  "sample_pay = \<lparr>next_id = 100, wallets = [sample_wallet], ledger = [sample_credit], holds = [sample_hold],
     orders = [], payment_intents = [], payment_transactions = [], topup_reversals = [], reconciliation_events = [],
     resolution_cases = [], payment_methods = [], payment_quotes = [], payment_observations = [], webhook_events = [],
     provider_configs = [], users = [], asset_wallets = [], asset_ledger = [], fx_policies = [sample_policy],
     flexible_deposits = [sample_deposit]\<rparr>"

lemma sample_pay_inv [simp]: "ledger_inv sample_pay" "asset_inv sample_pay"
proof -
  have "ledger_inv (ledger_db.truncate sample_pay\<lparr>next_id := 4\<rparr>)"
    using sample_inv by (simp add: sample_pay_def sample_ledger_def ledger_db.truncate_def)
  then show "ledger_inv sample_pay"
    using ledger_inv_frame [of "ledger_db.truncate sample_pay\<lparr>next_id := 4\<rparr>" sample_pay]
    by (simp add: sample_pay_def ledger_db.truncate_def)
  show "asset_inv sample_pay" by (simp add: asset_inv_def sample_pay_def)
qed

lemma sample_normalized:
  "normalize_currency ''USD'' = Inr ''USD''" "normalize_asset ''USDT'' = Inr ''USDT''"
  "normalize_network (Some ''TRON'') = Inr ''TRON''"
  by (simp_all add: normalize_currency_def normalize_asset_def normalize_network_def str_simps)

lemma sample_net:
  "net_asset_amount 21 (Some 1) ''NET_AFTER_FEE'' = Inr 20" "fx_convert sample_policy 20 = Inr 18"
  by (simp_all add: net_asset_amount_def str_simps fx_convert_def sample_policy_def quantize_def round_half_up_def floor_eq_iff)

lemma sample_creditable: "auto_creditable sample_deposit 20"
  by (simp add: auto_creditable_def sample_deposit_def sample_net)

lemma sample_resolved:
  "fx_resolve sample_pay (fd_tenant_id sample_deposit) (the (fd_asset sample_deposit)) (the (fd_network sample_deposit)) ''USD''
     (fd_fx_policy_id sample_deposit) = Inr sample_policy"
  by (simp add: fx_resolve_def fx_lookup_def sample_normalized sample_deposit_def sample_pay_def sample_policy_def)

lemma sample_settles:
  "\<exists>db' d'. flexible_settle sample_pay sample_deposit 30 = (db', Inr d') \<and> fd_status d' = CREDITED"
proof -
  have c: "truthy (fd_settlement_currency sample_deposit)" "fd_auto_credit_target sample_deposit = SETTLEMENT_WALLET"
    "normalize_currency (the (fd_settlement_currency sample_deposit)) = Inr ''USD''"
    "fx_max_auto_credit_amount sample_policy = Some 500" "fd_tenant_id sample_deposit = 7" "fd_user_id sample_deposit = 8"
    by (simp_all add: sample_deposit_def sample_normalized sample_policy_def)
  have w: "sample_wallet \<in> set (wallets sample_pay)" "wallet_key sample_wallet = (7, 8, ''USD'')" "w_id sample_wallet = 1"
    by (simp_all add: sample_pay_def sample_wallet_def wallet_key_def)
  note g = get_or_create_wallet_again [OF sample_pay_inv(1) w(1,2)]
  have "find_entry sample_pay (w_id sample_wallet) TransactionType.CREDIT CANONICAL_FLEXIBLE_DEPOSIT_TYPE (str_uuid (fd_id sample_deposit)) = None"
    by (simp add: find_entry_def sample_pay_def sample_credit_def)
  note bk = book_fresh_key [OF this]
  have "\<exists>db' t. settle_flexible_deposit sample_pay sample_wallet 18 (fd_id sample_deposit) de 30 = (db', Inr t)" for de
    using bk [of 18 "w_balance sample_wallet + 18" "or_default de ''Flexible deposit settlement''" 30]
      \<open>find_entry _ _ _ _ _ = None\<close>
    by (auto simp: settle_flexible_deposit_def lock_wallet_row [OF sample_pay_inv(1) w(1)] Let_def)
  then obtain db' t where "settle_flexible_deposit sample_pay sample_wallet 18 (fd_id sample_deposit)
      (Some (''Flexible '' @ the (fd_asset sample_deposit) @ '' deposit via '' @ fd_provider sample_deposit)) 30 = (db', Inr t)"
    by blast
  then show ?thesis
    unfolding flexible_settle_settlement [OF sample_creditable c(2,1,3) sample_resolved sample_net(2)]
    using c(4-6) g by (simp add: mark_credited_def Let_def)
qed

section \<open>Properties\<close>




text \<open>A deposit is credited at most once even if its own status is lost: settling a stale copy of a deposit
  that has been credited succeeds and changes no balance and no ledger row of either ledger.\<close>

theorem stale_deposit_not_credited_twice:
  assumes li: "ledger_inv db" and ai: "asset_inv db" and s: "flexible_settle db d now = (db1, Inr d1)"
    and nc: "fd_status d \<noteq> CREDITED" and cr: "fd_status d1 = CREDITED"
  shows "\<exists>db2 d2. flexible_settle db1 d now2 = (db2, Inr d2) \<and> wallets db2 = wallets db1 \<and> ledger db2 = ledger db1 \<and>
    asset_wallets db2 = asset_wallets db1 \<and> asset_ledger db2 = asset_ledger db1"
proof -
  have "\<exists>d2. flexible_settle db1 d now2 = (put_deposit d2 db1, Inr d2)"
    using s
  proof (cases rule: flexible_settle_cases)
    case already
    with nc show ?thesis by simp
  next
    case review
    with cr show ?thesis by simp
  next
    case (asset net w dba dbb t)
    show ?thesis by (rule asset_settle_again [OF ai asset(1-4)]) (simp_all add: asset(6))
  next
    case (settlement net cur p a w dba dbb t)
    note g = get_or_create_wallet_InrD [OF li settlement(8)]
    have "ledger_db.more dbb = ledger_db.more db"
      using one_entry_more [OF settle_flexible_deposit_entry(1) [OF g(1) settlement(9)]] g(6) by simp
    then have f: "fx_policies dbb = fx_policies db" by (rule pay_tables_eq(3))
    show ?thesis by (rule settlement_settle_again [OF li settlement(1-9)]) (simp_all add: settlement(11) f)
  qed
  then show ?thesis by auto
qed

theorem stale_deposit_not_credited_twice_witness:
  "\<exists>db1 d1 db2 d2. flexible_settle sample_pay sample_deposit 30 = (db1, Inr d1) \<and>
     flexible_settle db1 sample_deposit 31 = (db2, Inr d2) \<and> wallets db2 = wallets db1"
proof -
  obtain db1 d1 where s: "flexible_settle sample_pay sample_deposit 30 = (db1, Inr d1)" "fd_status d1 = CREDITED"
    using sample_settles by blast
  have "fd_status sample_deposit \<noteq> CREDITED" by (simp add: sample_deposit_def)
  from stale_deposit_not_credited_twice [OF sample_pay_inv s(1) this s(2), of 31] s(1) show ?thesis by blast
qed

text \<open>An asset credit happens exactly once per tenant and key: repeating it returns the first entry and
  changes nothing; the key with another amount is refused with \<open>LedgerIntegrityError\<close>; and the balance of
  every asset wallet stays the sum of its entries.\<close>

theorem asset_credit_exactly_once:
  assumes inv: "asset_inv db" and c: "asset_credit db w a key rty rid d = (db1, Inr t)"
  shows "asset_credit db1 w a key rty' rid' d' = (db1, Inr t) \<and>
    (0 < b \<and> b \<noteq> a \<longrightarrow> asset_credit db1 w b key rty' rid' d' = (db1, Inl LedgerIntegrityError)) \<and>
    (\<forall>x \<in> set (asset_wallets db1).
       aw_balance x = sum_list (map al_amount (filter (\<lambda>t. al_wallet_id t = aw_id x) (asset_ledger db1))))"
proof -
  note k = asset_credit_InrD(2,3) [OF c]
  have "asset_credit db1 w a key rty' rid' d' = (db1, Inr t)"
    using asset_credits.retry [of db "(w, key)" a "(rty, rid, d)" db1 t "(rty', rid', d')"] inv c k by simp
  moreover have "0 < b \<and> b \<noteq> a \<longrightarrow> asset_credit db1 w b key rty' rid' d' = (db1, Inl LedgerIntegrityError)"
    using asset_credits.mismatch_rejected [of db "(w, key)" a "(rty, rid, d)" db1 t b "(rty', rid', d')"] inv c k by simp
  moreover have "asset_inv db1" using inv c by (rule asset_credit_inv)
  ultimately show ?thesis by (simp add: asset_inv_def)
qed

definition sample_asset_wallet :: asset_wallet where
  "sample_asset_wallet = \<lparr>aw_id = 70, aw_tenant_id = 7, aw_user_id = 8, aw_asset = ''USDT'', aw_network = ''TRON'',
     aw_balance = 0, aw_is_active = True\<rparr>"

theorem asset_credit_exactly_once_witness:
  "\<exists>db1 t. asset_credit (sample_pay\<lparr>asset_wallets := [sample_asset_wallet]\<rparr>) sample_asset_wallet 5 ''k1'' None None None = (db1, Inr t) \<and>
     asset_credit db1 sample_asset_wallet 6 ''k1'' None None None = (db1, Inl LedgerIntegrityError)"
proof -
  let ?db = "sample_pay\<lparr>asset_wallets := [sample_asset_wallet]\<rparr>"
  have inv: "asset_inv ?db" by (simp add: asset_inv_def sample_pay_def sample_asset_wallet_def)
  have "\<exists>db1 t. asset_credit ?db sample_asset_wallet 5 ''k1'' None None None = (db1, Inr t)"
    by (simp add: asset_credit_def asset_lock_wallet_def scalar_one_or_none_def str_simps find_asset_entry_def asset_book_def
        flush_asset_ledger_def set_asset_balance_def violates_def sample_pay_def sample_asset_wallet_def Let_def)
  then show ?thesis using asset_credit_exactly_once [OF inv, of sample_asset_wallet 5 "''k1''" None None None _ _ None None None 6] by fastforce
qed

text \<open>\<open>resolve\<close> only returns an enabled policy of the tenant for exactly this asset and currency and for this
  network or \<open>ANY\<close>; without an explicit policy id, a policy for the exact network is preferred to \<open>ANY\<close>;
  and the conversion of a positive amount is within half a cent of \<open>amount * rate\<close>.\<close>

theorem fx_policy_applies:
  assumes "fx_resolve db n asset network currency pid = Inr p"
  shows "p \<in> set (fx_policies db) \<and> fx_tenant_id p = n \<and> fx_is_enabled p \<and>
    normalize_asset asset = Inr (fx_from_asset p) \<and> normalize_currency currency = Inr (fx_to_currency p) \<and>
    (fx_from_network p = ''ANY'' \<or> normalize_network (Some network) = Inr (fx_from_network p)) \<and>
    (pid = None \<longrightarrow> (\<exists>q \<in> set (fx_policies db). fx_tenant_id q = n \<and> fx_is_enabled q \<and> fx_from_asset q = fx_from_asset p \<and>
        normalize_network (Some network) = Inr (fx_from_network q) \<and> fx_to_currency q = fx_to_currency p) \<longrightarrow>
      normalize_network (Some network) = Inr (fx_from_network p)) \<and>
    (0 < a \<longrightarrow> 0 \<le> fx_rate p \<longrightarrow>
      (\<exists>c. fx_convert p a = Inr c \<and> c \<le> a * fx_rate p + 1 / 200 \<and> a * fx_rate p - 1 / 200 < c))"
proof -
  note r = fx_resolve_InrD [OF assms]
  have "normalize_network (Some network) = Inr (fx_from_network p)"
    if "pid = None" and ex: "\<exists>q \<in> set (fx_policies db). fx_tenant_id q = n \<and> fx_is_enabled q \<and> fx_from_asset q = fx_from_asset p \<and>
        normalize_network (Some network) = Inr (fx_from_network q) \<and> fx_to_currency q = fx_to_currency p"
  proof -
    obtain m where m: "normalize_network (Some network) = Inr m" using ex by auto
    let ?q = "\<lambda>q. ((fx_tenant_id q = n \<and> fx_is_enabled q) \<and> fx_from_asset q = fx_from_asset p \<and>
        fx_from_network q \<in> {m, ''ANY''} \<and> fx_to_currency q = fx_to_currency p) \<and> fx_from_network q = m"
    obtain y where y: "first_row ?q (fx_policies db) = Some y"
      using ex m by (cases "first_row ?q (fx_policies db)") (auto simp: first_row_None_iff)
    have "fx_lookup db n asset network currency None = Inr (Some y)"
      unfolding fx_lookup_def Let_def r(4,5) m res_bind_simps option.case y by (rule refl)
    moreover have "fx_lookup db n asset network currency None = Inr (Some p)"
      using fx_resolve_lookup [OF assms] that(1) by simp
    ultimately have "first_row ?q (fx_policies db) = Some p" using y by simp
    then have "fx_from_network p = m" by (auto dest: first_row_SomeD)
    with m show ?thesis by simp
  qed
  moreover have "\<exists>c. fx_convert p a = Inr c \<and> c \<le> a * fx_rate p + 1 / 200 \<and> a * fx_rate p - 1 / 200 < c"
    if "0 < a" "0 \<le> fx_rate p"
    using quantize_half_up_bounds [of "a * fx_rate p" 2] that by (simp add: fx_convert_def)
  ultimately show ?thesis using r by blast
qed

theorem fx_policy_applies_witness:
  "fx_resolve sample_pay 7 ''USDT'' ''TRON'' ''USD'' None = Inr sample_policy \<and>
     (\<exists>c. fx_convert sample_policy 20 = Inr c \<and> c \<le> 20 * fx_rate sample_policy + 1 / 200)"
proof -
  have r: "fx_resolve sample_pay 7 ''USDT'' ''TRON'' ''USD'' None = Inr sample_policy"
    using sample_resolved by (simp add: sample_deposit_def)
  have "0 \<le> fx_rate sample_policy" by (simp add: sample_policy_def)
  with fx_policy_applies [OF r, of 20] r show ?thesis by force
qed

end
