(* ===== verification/Gateway.thy ===== *)
theory Gateway
  imports Asset_Properties
begin

text \<open>
  The adapters of external payment services and how they are found. A payment service is outside
  the program: \<open>payment_provider\<close> is the \<open>PaymentProvider\<close> and \<open>FlexibleDepositProvider\<close> protocols of
  \<open>packages/payments/providers/interface.py\<close> as a record of functions, what the service answers to
  each call being a parameter; the methods that only some adapters have, which callers look for with
  \<open>getattr\<close> and \<open>hasattr\<close>, are optional. \<open>get_provider\<close> is \<open>PaymentProviderRegistry.get_provider\<close>
  (\<open>packages/payments/providers/registry.py\<close>) with the registry's caches as its state.
\<close>

section \<open>Adapters\<close>

record payment_provider =
  provider_name :: str
  supports_idempotency_keys :: bool
  supports_payment_lookup :: bool
  supports_webhooks :: bool
  supports_refunds :: bool
  supports_partial_refunds :: bool
  supports_safe_refund_retries :: bool
  supports_flexible_deposits :: bool
  create_payment :: "payment_create_request \<Rightarrow> payment_create_result res"
  get_payment :: "str \<Rightarrow> payment_details_result res"
  verify_webhook :: "str \<Rightarrow> (str \<times> str) list \<Rightarrow> str \<Rightarrow> webhook_verification_result res"
  provider_refund :: "payment_refund_request \<Rightarrow> payment_refund_result res"
  create_flexible_deposit :: "flexible_deposit_create_request \<Rightarrow> flexible_deposit_result res"
  get_flexible_deposit :: "str \<Rightarrow> flexible_deposit_result res"
  supports_creation_recovery :: bool
  recover_payment_creation :: "(payment_create_request \<Rightarrow> payment_details_result res) option"
  list_recent_star_transactions :: "dict list res option"

section \<open>The registry\<close>

type_synonym provider_factory = "dict \<Rightarrow> str \<Rightarrow> str option \<Rightarrow> payment_provider"

record registry =
  factories :: "(str \<times> provider_factory) list"
  instance_overrides :: "((uuid \<times> str) \<times> payment_provider) list"
  cached_instances :: "((uuid \<times> str) \<times> payment_provider) list"

definition register_factory :: "registry \<Rightarrow> str \<Rightarrow> provider_factory \<Rightarrow> registry" where
  "register_factory reg name factory = reg\<lparr>factories := AList.update (lower name) factory (factories reg)\<rparr>"

definition register_instance :: "registry \<Rightarrow> uuid \<Rightarrow> str \<Rightarrow> payment_provider \<Rightarrow> registry" where
  "register_instance reg tenant_id name provider =
     reg\<lparr>instance_overrides := AList.update (tenant_id, lower name) provider (instance_overrides reg)\<rparr>"

definition unregister_instance :: "registry \<Rightarrow> uuid \<Rightarrow> str \<Rightarrow> registry" where
  "unregister_instance reg tenant_id name =
     reg\<lparr>instance_overrides := AList.delete (tenant_id, lower name) (instance_overrides reg),
         cached_instances := AList.delete (tenant_id, lower name) (cached_instances reg)\<rparr>"

definition invalidate_cached_instance :: "registry \<Rightarrow> uuid \<Rightarrow> str \<Rightarrow> registry" where
  "invalidate_cached_instance reg tenant_id name =
     reg\<lparr>cached_instances := AList.delete (tenant_id, lower name) (cached_instances reg)\<rparr>"

definition has_provider :: "registry \<Rightarrow> uuid \<Rightarrow> str \<Rightarrow> bool" where
  "has_provider reg tenant_id name \<longleftrightarrow>
     map_of (instance_overrides reg) (tenant_id, lower name) \<noteq> None \<or> map_of (factories reg) (lower name) \<noteq> None"

text \<open>\<open>get_secret\<close> is the secret store, which may raise.\<close>

definition get_provider ::
  "(str \<Rightarrow> str res) \<Rightarrow> 'x pay_db_scheme \<Rightarrow> registry \<Rightarrow> uuid \<Rightarrow> str \<Rightarrow> (registry, payment_provider) run" where
  "get_provider get_secret db reg tenant_id name =
     (let normalized_name = lower name; override_key = (tenant_id, normalized_name) in
      case map_of (instance_overrides reg) override_key of
        Some p \<Rightarrow> (reg, Inr p)
      | None \<Rightarrow>
          lift_res reg (scalar_one_or_none
              (\<lambda>c. pc_tenant_id c = tenant_id \<and> pc_provider_name c = normalized_name) (provider_configs db))
            (\<lambda>reg found. case found of
                None \<Rightarrow> (reg, Inl PaymentProviderError)
              | Some config \<Rightarrow>
                  if \<not> pc_is_enabled config then (reg, Inl PaymentProviderError)
                  else case map_of (factories reg) normalized_name of
                    None \<Rightarrow> (reg, Inl PaymentProviderError)
                  | Some factory \<Rightarrow>
                      (case map_of (cached_instances reg) override_key of
                         Some p \<Rightarrow> (reg, Inr p)
                       | None \<Rightarrow>
                           lift_res reg (get_secret (pc_credentials_ref config)) (\<lambda>reg credentials.
                           lift_res reg
                             (if truthy (pc_webhook_secret_ref config)
                              then map_sum id Some (get_secret (the (pc_webhook_secret_ref config))) else Inr None)
                             (\<lambda>reg webhook_secret.
                               let p = factory (pc_settings_json config) credentials webhook_secret
                               in (reg\<lparr>cached_instances := AList.update override_key p (cached_instances reg)\<rparr>, Inr p))))))"

section \<open>Tenant isolation\<close>

text \<open>Where an adapter of a tenant may come from: an override of that tenant, or that tenant's own enabled row.\<close>

definition built_from ::
  "(str \<Rightarrow> str res) \<Rightarrow> (str \<times> provider_factory) list \<Rightarrow> payment_provider_config \<Rightarrow> payment_provider \<Rightarrow> bool" where
  "built_from get_secret fs c p \<longleftrightarrow>
     (\<exists>f cred ws. map_of fs (pc_provider_name c) = Some f \<and> get_secret (pc_credentials_ref c) = Inr cred \<and>
        p = f (pc_settings_json c) cred ws)"

text \<open>
  Every cached adapter was built for its own key from a row of that tenant; the rows a cache
  entry was built from are the set \<open>C\<close>, which grows with the rows the registry has seen.
\<close>

definition cache_ok :: "(str \<Rightarrow> str res) \<Rightarrow> payment_provider_config set \<Rightarrow> registry \<Rightarrow> bool" where
  "cache_ok get_secret C reg \<longleftrightarrow>
     (\<forall>n name p. map_of (cached_instances reg) (n, name) = Some p \<longrightarrow>
        (\<exists>c \<in> C. pc_tenant_id c = n \<and> pc_provider_name c = name \<and> built_from get_secret (factories reg) c p))"

lemma cache_ok_mono: "cache_ok get_secret C reg \<Longrightarrow> C \<subseteq> D \<Longrightarrow> cache_ok get_secret D reg"
  unfolding cache_ok_def by blast

lemma get_provider_cases:
  assumes "get_provider get_secret db reg n name = (reg', Inr p)"
  obtains (override) "map_of (instance_overrides reg) (n, lower name) = Some p" "reg' = reg"
  | (cached) c where "map_of (cached_instances reg) (n, lower name) = Some p" "reg' = reg" "c \<in> set (provider_configs db)"
      "pc_tenant_id c = n" "pc_provider_name c = lower name" "pc_is_enabled c"
  | (built) c where "c \<in> set (provider_configs db)" "pc_tenant_id c = n" "pc_provider_name c = lower name" "pc_is_enabled c"
      "built_from get_secret (factories reg) c p"
      "reg' = reg\<lparr>cached_instances := AList.update (n, lower name) p (cached_instances reg)\<rparr>"
proof (cases "map_of (instance_overrides reg) (n, lower name)")
  case (Some q)
  with assms show thesis by (intro override) (auto simp: get_provider_def)
next
  case None
  let ?q = "\<lambda>c. pc_tenant_id c = n \<and> pc_provider_name c = lower name"
  obtain c where c: "scalar_one_or_none ?q (provider_configs db) = Inr (Some c)" "pc_is_enabled c"
  proof (cases "scalar_one_or_none ?q (provider_configs db)")
    case (Inl e)
    with None assms show thesis by (simp add: get_provider_def)
  next
    case (Inr found)
    with None assms show thesis
      by (cases found; cases "pc_is_enabled (the found)") (auto simp: get_provider_def intro: that)
  qed
  have cp: "c \<in> set (provider_configs db)" "pc_tenant_id c = n" "pc_provider_name c = lower name"
    using scalar_one_or_none_SomeD [OF c(1)] by auto
  from None assms c obtain f where f: "map_of (factories reg) (lower name) = Some f"
    by (cases "map_of (factories reg) (lower name)") (auto simp: get_provider_def)
  show thesis
  proof (cases "map_of (cached_instances reg) (n, lower name)")
    case (Some q)
    with None assms c f cp show thesis by (intro cached [of c]) (auto simp: get_provider_def)
  next
    case nc: None
    with None assms c f cp show thesis
      by (intro built [of c]) (auto simp: get_provider_def lift_res_Inr_iff built_from_def Let_def)
  qed
qed

lemma get_provider_cache_ok:
  assumes "cache_ok get_secret C reg" and "get_provider get_secret db reg n name = (reg', Inr p)"
  shows "cache_ok get_secret (C \<union> set (provider_configs db)) reg'"
  using assms(2)
proof (cases rule: get_provider_cases)
  case (built c)
  then show ?thesis using assms(1) by (fastforce simp: cache_ok_def update_conv')
qed (use cache_ok_mono [OF assms(1)] in auto)

text \<open>A tenant only ever gets its own payment adapters: without a test override, the adapter the registry
  returns was built from a configuration row of this tenant and this provider with that row's
  credentials, the tenant's present row for the provider exists and is enabled, even when the
  adapter comes from the cache, and the cache keeps this for every other tenant.\<close>

theorem provider_belongs_to_tenant:
  assumes "cache_ok get_secret C reg" and "get_provider get_secret db reg n name = (reg', Inr p)"
    and "map_of (instance_overrides reg) (n, lower name) = None"
  shows "(\<exists>c \<in> set (provider_configs db). pc_tenant_id c = n \<and> pc_provider_name c = lower name \<and> pc_is_enabled c) \<and>
    (\<exists>c \<in> C \<union> set (provider_configs db). pc_tenant_id c = n \<and> pc_provider_name c = lower name \<and>
       built_from get_secret (factories reg) c p) \<and>
    cache_ok get_secret (C \<union> set (provider_configs db)) reg'"
  using get_provider_cases [OF assms(2)] get_provider_cache_ok [OF assms(1,2)] assms(1,3)
  unfolding cache_ok_def by (metis UnI1 UnI2 option.distinct(1))

definition sample_provider :: payment_provider where
  "sample_provider = \<lparr>provider_name = ''mock'', supports_idempotency_keys = True, supports_payment_lookup = True,
     supports_webhooks = True, supports_refunds = True, supports_partial_refunds = True,
     supports_safe_refund_retries = True, supports_flexible_deposits = True,
     create_payment = (\<lambda>_. Inl PaymentProviderTransportError), get_payment = (\<lambda>_. Inl PaymentProviderTransportError),
     verify_webhook = (\<lambda>_ _ _. Inl WebhookVerificationError), provider_refund = (\<lambda>_. Inl PaymentProviderError),
     create_flexible_deposit = (\<lambda>_. Inl PaymentProviderError), get_flexible_deposit = (\<lambda>_. Inl PaymentProviderError),
     supports_creation_recovery = False, recover_payment_creation = None, list_recent_star_transactions = None\<rparr>"

definition sample_config :: payment_provider_config where
  "sample_config = \<lparr>pc_id = 80, pc_tenant_id = 7, pc_provider_name = ''mock'', pc_is_enabled = True,
     pc_credentials_ref = ''ref'', pc_webhook_secret_ref = None, pc_settings_json = []\<rparr>"

theorem provider_belongs_to_tenant_witness:
  "\<exists>reg'. get_provider Inr (sample_pay\<lparr>provider_configs := [sample_config]\<rparr>)
       \<lparr>factories = [(''mock'', \<lambda>_ _ _. sample_provider)], instance_overrides = [], cached_instances = []\<rparr> 7 ''mock''
     = (reg', Inr sample_provider) \<and> cache_ok Inr {sample_config} reg'"
proof -
  let ?db = "sample_pay\<lparr>provider_configs := [sample_config]\<rparr>"
  let ?reg = "\<lparr>factories = [(''mock'', \<lambda>_ _ _. sample_provider)], instance_overrides = [], cached_instances = []\<rparr> :: registry"
  have ok: "cache_ok Inr {} ?reg" by (simp add: cache_ok_def)
  have low: "lower ''mock'' = ''mock''" by (simp add: lower_def lower_char_def char_code_def)
  obtain reg' where r: "get_provider Inr ?db ?reg 7 ''mock'' = (reg', Inr sample_provider)"
    by (simp add: get_provider_def low scalar_one_or_none_def sample_config_def sample_pay_def Let_def)
  have "map_of (instance_overrides ?reg) (7, lower ''mock'') = None" by simp
  from provider_belongs_to_tenant [OF ok r this] r show ?thesis by (simp add: sample_pay_def)
qed

end
