(* ===== verification/Deposits.thy ===== *)
theory Deposits
  imports Gateway "HOL-Library.Char_ord" "HOL-Library.List_Lexorder"
begin

text \<open>
  \<open>packages/payments/flexible_deposits.py\<close>: open-amount deposits. A deposit is created with the
  provider, its state is then reconciled with what the provider reports, and a settled deposit is
  credited by the settlement of \<open>Asset_Ledger\<close>. \<open>deposit_env\<close> collects what is outside the model:
  the adapter of a tenant, \<open>sha256\<close>, and the rendering of decimals, non-string JSON values and
  exception messages.
\<close>

section \<open>The service's surroundings\<close>

record deposit_env =
  env_provider :: "uuid \<Rightarrow> str \<Rightarrow> payment_provider res"
  env_sha256 :: "str \<Rightarrow> str"
  env_str_decimal :: "decimal \<Rightarrow> str"
  env_str_json :: "json \<Rightarrow> str"
  env_message :: "error \<Rightarrow> str"

definition py_str :: "'e deposit_env_scheme \<Rightarrow> json \<Rightarrow> str" where
  "py_str env j = (case j of JStr s \<Rightarrow> s | _ \<Rightarrow> env_str_json env j)"

section \<open>Policy\<close>

definition merchant_reference :: "'e deposit_env_scheme \<Rightarrow> uuid \<Rightarrow> uuid \<Rightarrow> str \<Rightarrow> str" where
  "merchant_reference env tenant_id user_id idempotency_key =
     ''DEP-'' @ upper (take 28 (env_sha256 env (str_uuid tenant_id @ '':'' @ str_uuid user_id @ '':'' @ idempotency_key)))"

fun allowed_list :: "(str \<Rightarrow> str res) \<Rightarrow> json list \<Rightarrow> str list res" where
  "allowed_list normalizer [] = Inr []"
| "allowed_list normalizer (v # vs) =
     (case v of
        JStr s \<Rightarrow>
          if strip s = [] then Inl PaymentIntegrityError
          else res_bind (normalizer s) (\<lambda>x. res_bind (allowed_list normalizer vs) (\<lambda>xs. Inr (x # xs)))
      | _ \<Rightarrow> Inl PaymentIntegrityError)"

definition allowed_values :: "dict \<Rightarrow> str \<Rightarrow> (str \<Rightarrow> str res) \<Rightarrow> str list res" where
  "allowed_values settings key normalizer =
     (case dict_get settings key JNull of
        JNull \<Rightarrow> Inr []
      | JList raw \<Rightarrow> res_bind (allowed_list normalizer raw) (\<lambda>xs. Inr (sort (remdups xs)))
      | _ \<Rightarrow> Inl PaymentIntegrityError)"

definition auto_credit_target_of :: "str \<Rightarrow> AutoCreditTarget option" where
  "auto_credit_target_of s =
     (if s = ''ASSET_WALLET'' then Some ASSET_WALLET
      else if s = ''SETTLEMENT_WALLET'' then Some SETTLEMENT_WALLET else None)"

definition settings_str :: "'e deposit_env_scheme \<Rightarrow> dict \<Rightarrow> str \<Rightarrow> str \<Rightarrow> str" where
  "settings_str env settings key dflt =
     (let v = dict_get settings key JNull in if json_truthy v then py_str env v else dflt)"

definition policy_snapshot ::
  "'e deposit_env_scheme \<Rightarrow> payment_method_config \<Rightarrow> bool \<Rightarrow>
   (AutoCreditTarget \<times> str \<times> str option \<times> uuid option \<times> bool \<times> dict) res" where
  "policy_snapshot env method allow_auto_credit =
     (let settings = pm_settings_json method in
      if \<not> json_truthy (dict_get settings ''flexible_deposits_enabled'' (JBool False)) then Inl PaymentError
      else
        let target_raw = upper (strip (if pm_auto_credit_target method = [] then ''ASSET_WALLET''
                                       else pm_auto_credit_target method))
        in case auto_credit_target_of target_raw of
          None \<Rightarrow> Inl PaymentIntegrityError
        | Some target \<Rightarrow>
            let basis = upper (strip (settings_str env settings ''auto_credit_basis'' ''NET_AFTER_FEE'')) in
            if basis \<notin> {''NET_AFTER_FEE'', ''GROSS_RECEIVED''} then Inl PaymentIntegrityError
            else
              let effective_auto_credit = (pm_auto_credit_enabled method \<and> allow_auto_credit) in
              res_bind
                (if effective_auto_credit \<and> target = SETTLEMENT_WALLET then
                   let raw_currency = strip (settings_str env settings ''auto_credit_currency'' []) in
                   if raw_currency = [] then Inl PaymentIntegrityError
                   else res_bind (normalize_currency raw_currency) (\<lambda>settlement_currency.
                     let raw_policy = strip (settings_str env settings ''fx_policy_id'' []) in
                     if raw_policy = [] then Inl PaymentIntegrityError
                     else case parse_uuid raw_policy of
                       None \<Rightarrow> Inl PaymentIntegrityError
                     | Some pid \<Rightarrow> Inr (Some settlement_currency, Some pid))
                 else Inr (None, None))
                (\<lambda>(settlement_currency, fx_policy_id).
              res_bind (allowed_values settings ''allowed_assets'' normalize_asset) (\<lambda>assets.
              res_bind (allowed_values settings ''allowed_networks'' (\<lambda>v. normalize_network (Some v))) (\<lambda>networks.
                Inr (target, basis, settlement_currency, fx_policy_id, effective_auto_credit,
                  [(''auto_credit_enabled'', JBool effective_auto_credit),
                   (''auto_credit_target'', JStr target_raw),
                   (''auto_credit_basis'', JStr basis),
                   (''settlement_currency'', json_opt settlement_currency),
                   (''fx_policy_id'', json_opt (map_option str_uuid fx_policy_id)),
                   (''allowed_assets'', JList (map JStr assets)),
                   (''allowed_networks'', JList (map JStr networks))])))))"

section \<open>Provider evidence\<close>

definition snapshot_values :: "dict \<Rightarrow> str \<Rightarrow> json list" where
  "snapshot_values snapshot key =
     (case dict_get snapshot key JNull of JList xs \<Rightarrow> xs | _ \<Rightarrow> [])"

definition normalized :: "('a \<Rightarrow> str res) \<Rightarrow> 'a \<Rightarrow> bool \<Rightarrow> str option res" where
  "normalized f x present = (if present then map_sum id Some (f x) else Inr None)"

definition assert_provider_result_allowed ::
  "flexible_deposit_session \<Rightarrow> flexible_deposit_result \<Rightarrow> unit res" where
  "assert_provider_result_allowed d r =
     (let allowed_assets = snapshot_values (fd_policy_snapshot_json d) ''allowed_assets'';
          allowed_networks = snapshot_values (fd_policy_snapshot_json d) ''allowed_networks'' in
      res_bind (normalized (\<lambda>s. normalize_asset (the s)) (fr_asset r) (truthy (fr_asset r))) (\<lambda>asset.
      res_bind (normalized normalize_network (fr_network r) (truthy (fr_network r))) (\<lambda>network.
        if asset \<noteq> None \<and> allowed_assets \<noteq> [] \<and> JStr (the asset) \<notin> set allowed_assets
        then Inl PaymentIntegrityError
        else if network \<noteq> None \<and> allowed_networks \<noteq> [] \<and> JStr (the network) \<notin> set allowed_networks
        then Inl PaymentIntegrityError
        else if truthy (fd_asset d) \<and> asset \<noteq> None \<and> fd_asset d \<noteq> asset then Inl PaymentIntegrityError
        else if truthy (fd_network d) \<and> network \<noteq> None \<and> fd_network d \<noteq> network then Inl PaymentIntegrityError
        else Inr ())))"

text \<open>The attributes are assigned one after the other; an exception leaves the earlier assignments.\<close>

definition apply_provider_result ::
  "flexible_deposit_session \<Rightarrow> flexible_deposit_result \<Rightarrow> timestamp \<Rightarrow> (flexible_deposit_session, unit) run" where
  "apply_provider_result d r now =
     (if fr_provider_deposit_id r \<noteq> fd_provider_deposit_id d then (d, Inl PaymentIntegrityError)
      else
        lift_res d (assert_provider_result_allowed d r) (\<lambda>d _.
        lift_res d (normalized (\<lambda>s. normalize_asset (the s)) (fr_asset r) (truthy (fr_asset r))) (\<lambda>d asset.
        let d = (case asset of None \<Rightarrow> d | Some a \<Rightarrow> d\<lparr>fd_asset := Some a\<rparr>) in
        lift_res d (normalized normalize_network (fr_network r) (truthy (fr_network r))) (\<lambda>d network.
        let d = (case network of None \<Rightarrow> d | Some n \<Rightarrow> d\<lparr>fd_network := Some n\<rparr>) in
        and_then
          (case fr_amount_received r of
             None \<Rightarrow> (d, Inr ())
           | Some received \<Rightarrow>
               if received < 0 then (d, Inl PaymentIntegrityError)
               else if (case fd_amount_received d of Some old \<Rightarrow> received < old | None \<Rightarrow> False)
               then (d, Inl PaymentIntegrityError)
               else (d\<lparr>fd_amount_received := Some received\<rparr>, Inr ()))
          (\<lambda>d _.
        and_then
          (case fr_fee_amount r of
             None \<Rightarrow> (d, Inr ())
           | Some fee \<Rightarrow>
               if fee < 0 then (d, Inl PaymentIntegrityError)
               else (d\<lparr>fd_fee_amount := Some fee\<rparr>, Inr ()))
          (\<lambda>d _.
            let d = (if truthy (fr_checkout_url r) then d\<lparr>fd_checkout_url := fr_checkout_url r\<rparr> else d)
            in (d\<lparr>fd_provider_snapshot_json := fr_raw_data r, fd_last_reconciled_at := Some now,
                  fd_status := fr_status r, fd_last_error := None\<rparr>, Inr ())))))))"

definition deposit_provider :: "'e deposit_env_scheme \<Rightarrow> uuid \<Rightarrow> str \<Rightarrow> payment_provider res" where
  "deposit_provider env tenant_id name =
     res_bind (env_provider env tenant_id name) (\<lambda>p.
       if \<not> supports_flexible_deposits p then Inl PaymentError else Inr p)"

section \<open>Creating a deposit\<close>

definition deposit_key1 :: "flexible_deposit_session \<Rightarrow> uuid \<times> str" where
  "deposit_key1 d = (fd_tenant_id d, fd_idempotency_key d)"

definition deposit_key2 :: "flexible_deposit_session \<Rightarrow> uuid \<times> str \<times> str" where
  "deposit_key2 d = (fd_tenant_id d, fd_provider d, fd_provider_deposit_id d)"

definition flush_deposit ::
  "'x pay_db_scheme \<Rightarrow> flexible_deposit_session \<Rightarrow> ('x pay_db_scheme, flexible_deposit_session) run" where
  "flush_deposit db d =
     (if violates (\<lambda>_. True) deposit_key1 (flexible_deposits db) d \<or> violates (\<lambda>_. True) deposit_key2 (flexible_deposits db) d
      then (db, Inl IntegrityError)
      else (db\<lparr>flexible_deposits := flexible_deposits db @ [d], next_id := Suc (next_id db)\<rparr>, Inr d))"

definition find_deposit_by_key :: "'x pay_db_scheme \<Rightarrow> uuid \<Rightarrow> str \<Rightarrow> flexible_deposit_session option" where
  "find_deposit_by_key db tenant_id key =
     first_row (\<lambda>d. fd_tenant_id d = tenant_id \<and> fd_idempotency_key d = key) (flexible_deposits db)"

definition deposit_create ::
  "'e deposit_env_scheme \<Rightarrow> 'x pay_db_scheme \<Rightarrow> uuid \<Rightarrow> uuid \<Rightarrow> uuid \<Rightarrow> str \<Rightarrow> str option \<Rightarrow> bool \<Rightarrow> timestamp \<Rightarrow>
   ('x pay_db_scheme, flexible_deposit_session) run" where
  "deposit_create env db tenant_id user_id payment_method_id idempotency_key return_url allow_auto_credit now =
     (let key = strip idempotency_key in
      if \<not> (8 \<le> length key \<and> length key \<le> 100) then (db, Inl PaymentError)
      else case find_deposit_by_key db tenant_id key of
        Some existing \<Rightarrow>
          if fd_user_id existing \<noteq> user_id \<or> fd_payment_method_id existing \<noteq> payment_method_id
          then (db, Inl PaymentIntegrityError) else (db, Inr existing)
      | None \<Rightarrow>
          (case first_row (\<lambda>m. pm_id m = payment_method_id \<and> pm_tenant_id m = tenant_id \<and> pm_is_enabled m)
                  (payment_methods db) of
             None \<Rightarrow> (db, Inl PaymentError)
           | Some method \<Rightarrow>
               let provider_name = lower (strip (case pm_provider_name method of Some s \<Rightarrow> s | None \<Rightarrow> [])) in
               if provider_name = [] then (db, Inl PaymentError)
               else
                 lift_res db (policy_snapshot env method allow_auto_credit)
                   (\<lambda>db (target, basis, currency, fx_policy, auto, snapshot).
                 lift_res db (deposit_provider env tenant_id provider_name) (\<lambda>db provider.
                 lift_res db (create_flexible_deposit provider
                     \<lparr>fq_idempotency_key = key, fq_order_reference = merchant_reference env tenant_id user_id key,
                      fq_metadata = [(''product_name'', JStr (pm_display_name method))], fq_return_url = return_url\<rparr>)
                   (\<lambda>db result.
                 if fr_provider_deposit_id result = [] then (db, Inl PaymentIntegrityError)
                 else
                   lift_res db (normalized (\<lambda>s. normalize_asset (the s)) (fr_asset result) (truthy (fr_asset result)))
                     (\<lambda>db asset.
                   lift_res db (normalized normalize_network (fr_network result) (truthy (fr_network result)))
                     (\<lambda>db network.
                   let deposit = \<lparr>fd_id = next_id db, fd_tenant_id = tenant_id, fd_user_id = user_id,
                         fd_payment_method_id = pm_id method, fd_provider = provider_name,
                         fd_provider_deposit_id = fr_provider_deposit_id result, fd_idempotency_key = key,
                         fd_status = fr_status result, fd_checkout_url = fr_checkout_url result,
                         fd_asset = asset, fd_network = network,
                         fd_amount_received = fr_amount_received result, fd_fee_amount = fr_fee_amount result,
                         fd_auto_credit_enabled = auto, fd_auto_credit_target = target,
                         fd_auto_credit_basis = basis, fd_settlement_currency = currency,
                         fd_fx_policy_id = fx_policy, fd_credited_amount = None, fd_credited_asset = None,
                         fd_credited_currency = None, fd_credited_at = None,
                         fd_last_reconciled_at = Some now, fd_last_error = None,
                         fd_provider_snapshot_json = fr_raw_data result, fd_policy_snapshot_json = snapshot\<rparr>
                   in lift_res db (assert_provider_result_allowed deposit result) (\<lambda>db _.
                      on_integrity_error (nested db (flush_deposit db deposit))
                        (\<lambda>db. case find_deposit_by_key db tenant_id key of
                            None \<Rightarrow> (db, Inl IntegrityError)
                          | Some winner \<Rightarrow>
                              if fd_provider_deposit_id winner \<noteq> fr_provider_deposit_id result
                              then (db, Inl PaymentIntegrityError) else (db, Inr winner))))))))))"

definition deposit_get ::
  "'x pay_db_scheme \<Rightarrow> uuid \<Rightarrow> uuid \<Rightarrow> flexible_deposit_session res" where
  "deposit_get db tenant_id deposit_id =
     (case first_row (\<lambda>d. fd_id d = deposit_id \<and> fd_tenant_id d = tenant_id) (flexible_deposits db) of
        None \<Rightarrow> Inl PaymentError
      | Some d \<Rightarrow> Inr d)"

section \<open>Reconciliation\<close>

definition freeze_wallet :: "uuid \<Rightarrow> 'x ledger_db_scheme \<Rightarrow> 'x ledger_db_scheme" where
  "freeze_wallet wid db =
     db\<lparr>wallets := update_where (\<lambda>w. w_id w = wid) (\<lambda>w. w\<lparr>w_is_active := False\<rparr>) (wallets db)\<rparr>"

definition freeze_asset_wallet :: "uuid \<Rightarrow> 'x pay_db_scheme \<Rightarrow> 'x pay_db_scheme" where
  "freeze_asset_wallet wid db =
     db\<lparr>asset_wallets := update_where (\<lambda>w. aw_id w = wid) (\<lambda>w. w\<lparr>aw_is_active := False\<rparr>) (asset_wallets db)\<rparr>"

definition reversal_case ::
  "'e deposit_env_scheme \<Rightarrow> flexible_deposit_session \<Rightarrow> uuid \<Rightarrow> uuid option \<Rightarrow> uuid option \<Rightarrow> financial_resolution_case" where
  "reversal_case env d cid wid awid =
     \<lparr>fc_id = cid, fc_tenant_id = fd_tenant_id d, fc_source_key = ''flexible-reversal:'' @ str_uuid (fd_id d),
      fc_case_type = ''FLEXIBLE_DEPOSIT_REVERSED_AFTER_CREDIT'', fc_severity = ''CRITICAL'',
      fc_status = OPEN, fc_payment_intent_id = None, fc_wallet_id = wid, fc_reversal_id = None,
      fc_reconciliation_event_id = None, fc_assigned_to_user_id = None, fc_version = 1,
      fc_resolution_code = None, fc_resolution_note = None, fc_resolved_by_user_id = None, fc_resolved_at = None,
      fc_metadata_json =
        [(''deposit_id'', JStr (str_uuid (fd_id d))), (''provider'', JStr (fd_provider d)),
         (''provider_deposit_id'', JStr (fd_provider_deposit_id d)),
         (''credited_amount'', JStr (case fd_credited_amount d of Some a \<Rightarrow> env_str_decimal env a | None \<Rightarrow> ''None'')),
         (''asset'', json_opt (fd_credited_asset d)), (''network'', json_opt (fd_network d)),
         (''currency'', json_opt (fd_credited_currency d)),
         (''asset_wallet_id'', json_opt (map_option str_uuid awid))]\<rparr>"

definition open_reversal_case ::
  "'e deposit_env_scheme \<Rightarrow> 'x pay_db_scheme \<Rightarrow> flexible_deposit_session \<Rightarrow> uuid option \<Rightarrow> uuid option \<Rightarrow> 'x pay_db_scheme" where
  "open_reversal_case env db d wid awid =
     (case first_row (\<lambda>c. fc_tenant_id c = fd_tenant_id d \<and>
                          fc_source_key c = ''flexible-reversal:'' @ str_uuid (fd_id d)) (resolution_cases db) of
        Some _ \<Rightarrow> db
      | None \<Rightarrow> db\<lparr>resolution_cases := resolution_cases db @ [reversal_case env d (next_id db) wid awid],
                   next_id := Suc (next_id db)\<rparr>)"

definition record_credited_reversal ::
  "'e deposit_env_scheme \<Rightarrow> 'x pay_db_scheme \<Rightarrow> flexible_deposit_session \<Rightarrow> ('x pay_db_scheme, unit) run" where
  "record_credited_reversal env db d =
     (let wlt = (if truthy (fd_credited_currency d)
                 then first_row (\<lambda>w. w_tenant_id w = fd_tenant_id d \<and> w_user_id w = fd_user_id d \<and>
                                     Some (w_currency w) = fd_credited_currency d) (wallets db) else None);
          asset_wlt = (if truthy (fd_credited_currency d) then None
                       else first_row (\<lambda>w. aw_tenant_id w = fd_tenant_id d \<and> aw_user_id w = fd_user_id d \<and>
                              Some (aw_asset w) = fd_credited_asset d \<and> Some (aw_network w) = fd_network d)
                              (asset_wallets db))
      in if wlt = None \<and> asset_wlt = None then (db, Inl LedgerIntegrityError)
         else
           let db1 = (case wlt of Some w \<Rightarrow> freeze_wallet (w_id w) db
                      | None \<Rightarrow> freeze_asset_wallet (aw_id (the asset_wlt)) db);
               db2 = open_reversal_case env db1 d (map_option w_id wlt) (map_option aw_id asset_wlt);
               d' = d\<lparr>fd_status := REVERSED,
                      fd_last_error := Some ''PROVIDER_REVERSED_AFTER_CREDIT_REQUIRES_FINANCIAL_RESOLUTION''\<rparr>
           in (put_deposit d' db2, Inr ()))"

text \<open>\<open>except (PaymentProviderError, PaymentIntegrityError, LedgerIntegrityError)\<close>, subclasses included.\<close>

definition reconcile_catches :: "error \<Rightarrow> bool" where
  "reconcile_catches e \<longleftrightarrow>
     e \<in> {PaymentProviderError, PaymentProviderTransportError, UnsupportedProviderCapabilityError,
          PaymentIntegrityError, LedgerIntegrityError}"

text \<open>The body of the \<open>try\<close>, on the locked row \<open>d\<close>.\<close>

definition reconcile_body ::
  "'e deposit_env_scheme \<Rightarrow> 'x pay_db_scheme \<Rightarrow> flexible_deposit_session \<Rightarrow> payment_provider \<Rightarrow> timestamp \<Rightarrow>
   ('x pay_db_scheme, unit) run" where
  "reconcile_body env db d provider now =
     lift_res db (get_flexible_deposit provider (fd_provider_deposit_id d)) (\<lambda>db result.
       if fr_provider_deposit_id result \<noteq> fd_provider_deposit_id d then (db, Inl PaymentIntegrityError)
       else if fd_credited_at d \<noteq> None then
         let d = d\<lparr>fd_last_reconciled_at := Some now\<rparr>; db = put_deposit d db in
         if fr_status result = REVERSED then record_credited_reversal env db d
         else lift_res db (assert_provider_result_allowed d result) (\<lambda>db _.
           (put_deposit (d\<lparr>fd_status := CREDITED, fd_last_error := None\<rparr>) db, Inr ()))
       else
         (case apply_provider_result d result now of
            (d, Inl e) \<Rightarrow> (put_deposit d db, Inl e)
          | (d, Inr _) \<Rightarrow>
              let db = put_deposit d db in
              if fr_status result = SETTLED_REVIEW
              then and_then (flexible_settle db d now) (\<lambda>db _. (db, Inr ()))
              else (db, Inr ())))"

definition current_deposit :: "'x pay_db_scheme \<Rightarrow> flexible_deposit_session \<Rightarrow> flexible_deposit_session" where
  "current_deposit db d =
     (case first_row (\<lambda>x. fd_id x = fd_id d) (flexible_deposits db) of Some x \<Rightarrow> x | None \<Rightarrow> d)"

definition deposit_reconcile ::
  "'e deposit_env_scheme \<Rightarrow> 'x pay_db_scheme \<Rightarrow> uuid \<Rightarrow> uuid \<Rightarrow> timestamp \<Rightarrow>
   ('x pay_db_scheme, flexible_deposit_session) run" where
  "deposit_reconcile env db tenant_id deposit_id now =
     (case first_row (\<lambda>d. fd_id d = deposit_id \<and> fd_tenant_id d = tenant_id) (flexible_deposits db) of
        None \<Rightarrow> (db, Inl PaymentError)
      | Some d \<Rightarrow>
          if fd_status d \<in> {EXPIRED, CANCELLED, REVERSED} then (db, Inr d)
          else
            lift_res db (deposit_provider env tenant_id (fd_provider d)) (\<lambda>db provider.
              case reconcile_body env db d provider now of
                (db', Inr _) \<Rightarrow> (db', Inr (current_deposit db' d))
              | (db', Inl e) \<Rightarrow>
                  if reconcile_catches e then
                    let d' = (current_deposit db' d)
                          \<lparr>fd_status := UNKNOWN, fd_last_error := Some (take 500 (env_message env e)),
                           fd_last_reconciled_at := Some now\<rparr>
                    in (put_deposit d' db', Inr d')
                  else (db', Inl e)))"

fun reconcile_deposits ::
  "'e deposit_env_scheme \<Rightarrow> timestamp \<Rightarrow> 'x pay_db_scheme \<Rightarrow> flexible_deposit_session list \<Rightarrow>
   ('x pay_db_scheme, flexible_deposit_session list) run" where
  "reconcile_deposits env now db [] = (db, Inr [])"
| "reconcile_deposits env now db (d # ds) =
     and_then (deposit_reconcile env db (fd_tenant_id d) (fd_id d) now) (\<lambda>db r.
     and_then (reconcile_deposits env now db ds) (\<lambda>db rs. (db, Inr (r # rs))))"

definition open_deposits :: "'x pay_db_scheme \<Rightarrow> nat \<Rightarrow> flexible_deposit_session list" where
  "open_deposits db limit =
     take (max 1 (min limit 200))
       (sort_key (\<lambda>d. (case fd_last_reconciled_at d of None \<Rightarrow> (0 :: nat, 0) | Some t \<Rightarrow> (1, t), fd_id d))
          (filter (\<lambda>d. fd_status d \<in> {CREDITED, CREATED, PENDING, PROCESSING, SETTLED_REVIEW, UNKNOWN})
             (flexible_deposits db)))"

definition reconcile_open ::
  "'e deposit_env_scheme \<Rightarrow> 'x pay_db_scheme \<Rightarrow> nat \<Rightarrow> timestamp \<Rightarrow> ('x pay_db_scheme, flexible_deposit_session list) run" where
  "reconcile_open env db limit now = reconcile_deposits env now db (open_deposits db limit)"

text \<open>One iteration of the worker's loop: its own session, committed when the batch returns.\<close>

definition deposit_worker_iteration ::
  "'e deposit_env_scheme \<Rightarrow> nat \<Rightarrow> timestamp \<Rightarrow> 'x pay_db_scheme \<Rightarrow> ('x pay_db_scheme, flexible_deposit_session list) run" where
  "deposit_worker_iteration env batch_size now = get_db_session (\<lambda>db. reconcile_open env db batch_size now)"

end
