(* ===== verification/Deposit_Properties.thy ===== *)
theory Deposit_Properties
  imports Deposits
begin

text \<open>
  Properties of open-amount deposits: what the provider reports after the credit never moves money,
  evidence only grows, creation is idempotent, and two ways in which one deposit can stop the
  reconciliation of all others.
\<close>

section \<open>Frames\<close>

text \<open>Two stores with the same money: same balances in the same rows, same ledger rows.\<close>

definition same_money :: "'x pay_db_scheme \<Rightarrow> 'x pay_db_scheme \<Rightarrow> bool" where
  "same_money db db' \<longleftrightarrow> ledger db' = ledger db \<and> asset_ledger db' = asset_ledger db \<and> holds db' = holds db \<and>
     map (\<lambda>w. (w_id w, w_balance w)) (wallets db') = map (\<lambda>w. (w_id w, w_balance w)) (wallets db) \<and>
     map (\<lambda>w. (aw_id w, aw_balance w)) (asset_wallets db') = map (\<lambda>w. (aw_id w, aw_balance w)) (asset_wallets db)"

lemma same_money_refl [simp]: "same_money db db"
  by (simp add: same_money_def)

lemma same_money_trans: "same_money a b \<Longrightarrow> same_money b c \<Longrightarrow> same_money a c"
  by (simp add: same_money_def)

lemma same_money_frame [simp]:
  "same_money a (put_deposit d db) \<longleftrightarrow> same_money a db"
  "same_money a (freeze_wallet i db) \<longleftrightarrow> same_money a db"
  "same_money a (freeze_asset_wallet i db) \<longleftrightarrow> same_money a db"
  "same_money a (open_reversal_case env db d w aw) \<longleftrightarrow> same_money a db"
  by (simp_all add: same_money_def freeze_wallet_def freeze_asset_wallet_def open_reversal_case_def split: option.splits)

lemma same_money_reversal: "same_money a (fst (record_credited_reversal env db d)) \<longleftrightarrow> same_money a db"
  unfolding record_credited_reversal_def Let_def by (auto split: option.splits)

lemma reconcile_body_credited:
  assumes "fd_credited_at d \<noteq> None"
  shows "same_money db (fst (reconcile_body env db d p now))"
proof (cases "get_flexible_deposit p (fd_provider_deposit_id d)")
  case (Inl e)
  then show ?thesis by (simp add: reconcile_body_def)
next
  case (Inr r)
  show ?thesis
    using Inr assms by (auto simp: reconcile_body_def Let_def same_money_reversal intro: lift_res_keeps)
qed

lemma first_row_by_id:
  assumes "d \<in> set ds" and "distinct (map fd_id ds)"
  shows "first_row (\<lambda>x. fd_id x = fd_id d \<and> fd_tenant_id x = fd_tenant_id d) ds = Some d"
  using assms by (induction ds) (auto simp: image_iff)

lemma frozen_lock:
  assumes inv: "ledger_inv db" and w: "w \<in> set (wallets db)"
    and wl: "wallets db' = update_where (\<lambda>x. w_id x = w_id w) (\<lambda>w. w\<lparr>w_is_active := False\<rparr>) (wallets db)"
  shows "lock_wallet db' w = (db', Inr (w\<lparr>w_is_active := False\<rparr>))"
proof -
  let ?p = "\<lambda>x. w_id x = w_id w \<and> w_tenant_id x = w_tenant_id w"
  let ?f = "\<lambda>w. w\<lparr>w_is_active := False\<rparr>"
  have "map w_id (wallets db') = map w_id (wallets db)" by (simp add: wl)
  then have "distinct (map w_id (wallets db'))" using inv by (simp add: ledger_inv_def)
  then have "filter ?p (wallets db') = [] \<or> (\<exists>r. filter ?p (wallets db') = [r])"
    by (rule filter_unique_key) auto
  moreover have "?f w \<in> set (filter ?p (wallets db'))" using w by (auto simp: wl in_update_where)
  ultimately have "filter ?p (wallets db') = [?f w]" by (auto simp del: set_filter)
  then show ?thesis by (simp add: lock_wallet_def scalar_one_or_none_def)
qed

section \<open>Properties\<close>

text \<open>Once a deposit has been credited, no later report of the provider moves money: whatever the provider
  answers, and whether the reconciliation returns or raises, every balance, every ledger row of both
  ledgers and every hold stays as it is.\<close>

theorem credited_deposit_is_settled:
  assumes "first_row (\<lambda>d. fd_id d = i \<and> fd_tenant_id d = n) (flexible_deposits db) = Some d" and "fd_credited_at d \<noteq> None"
  shows "same_money db (fst (deposit_reconcile env db n i now))"
proof -
  have "same_money db (fst (case reconcile_body env db d p now of
      (db', Inr _) \<Rightarrow> (db', Inr (current_deposit db' d))
    | (db', Inl e) \<Rightarrow> if reconcile_catches e then
          let d' = (current_deposit db' d) \<lparr>fd_status := UNKNOWN, fd_last_error := Some (take 500 (env_message env e)),
                     fd_last_reconciled_at := Some now\<rparr>
          in (put_deposit d' db', Inr d') else (db', Inl e)))" for p
    using reconcile_body_credited [OF assms(2), of db env p now]
    by (auto simp: Let_def split: prod.splits sum.splits intro: same_money_trans)
  then show ?thesis
    using assms(1) by (auto simp: deposit_reconcile_def intro: lift_res_keeps)
qed

definition sample_env :: deposit_env where
  "sample_env = \<lparr>env_provider = (\<lambda>n name. if n = 7 then Inr sample_provider else Inl PaymentProviderError),
     env_sha256 = id, env_str_decimal = (\<lambda>_. []), env_str_json = (\<lambda>_. []), env_message = (\<lambda>_. [])\<rparr>"

theorem credited_deposit_is_settled_witness:
  "same_money (sample_pay\<lparr>flexible_deposits := [sample_deposit\<lparr>fd_credited_at := Some 5\<rparr>]\<rparr>)
     (fst (deposit_reconcile sample_env (sample_pay\<lparr>flexible_deposits := [sample_deposit\<lparr>fd_credited_at := Some 5\<rparr>]\<rparr>) 7 60 40))"
  by (rule credited_deposit_is_settled [where d = "sample_deposit\<lparr>fd_credited_at := Some 5\<rparr>"])
     (simp_all add: sample_deposit_def)

text \<open>Provider evidence only grows: applying a report, even one that is refused half-way, never lowers
  the amount received, never changes an asset or network that was already known, and never changes the
  provider's identity of the deposit.\<close>

theorem evidence_only_grows:
  assumes "apply_provider_result d r now = (d', res)"
  shows "(\<forall>a. fd_amount_received d = Some a \<longrightarrow> (\<exists>b. fd_amount_received d' = Some b \<and> a \<le> b)) \<and>
    (truthy (fd_asset d) \<longrightarrow> fd_asset d' = fd_asset d) \<and> (truthy (fd_network d) \<longrightarrow> fd_network d' = fd_network d) \<and>
    fd_provider_deposit_id d' = fd_provider_deposit_id d \<and> fd_credited_amount d' = fd_credited_amount d"
proof (cases "fr_provider_deposit_id r = fd_provider_deposit_id d \<and> assert_provider_result_allowed d r = Inr ()")
  case False
  with assms have "d' = d" by (auto simp: apply_provider_result_def lift_res_def split: if_splits sum.splits)
  then show ?thesis by auto
next
  case True
  obtain asset network where n: "normalized (\<lambda>s. normalize_asset (the s)) (fr_asset r) (truthy (fr_asset r)) = Inr asset"
      "normalized normalize_network (fr_network r) (truthy (fr_network r)) = Inr network"
    and s: "asset \<noteq> None \<Longrightarrow> truthy (fd_asset d) \<Longrightarrow> fd_asset d = asset"
      "network \<noteq> None \<Longrightarrow> truthy (fd_network d) \<Longrightarrow> fd_network d = network"
    using True by (auto simp: assert_provider_result_allowed_def res_bind_Inr_iff Let_def split: if_splits)
  let ?d = "(case network of None \<Rightarrow> (case asset of None \<Rightarrow> d | Some a \<Rightarrow> d\<lparr>fd_asset := Some a\<rparr>)
    | Some m \<Rightarrow> (case asset of None \<Rightarrow> d | Some a \<Rightarrow> d\<lparr>fd_asset := Some a\<rparr>)\<lparr>fd_network := Some m\<rparr>)"
  have base: "fd_amount_received ?d = fd_amount_received d" "truthy (fd_asset d) \<Longrightarrow> fd_asset ?d = fd_asset d"
    "truthy (fd_network d) \<Longrightarrow> fd_network ?d = fd_network d" "fd_provider_deposit_id ?d = fd_provider_deposit_id d"
    "fd_credited_amount ?d = fd_credited_amount d"
    using s by (auto split: option.splits)
  show ?thesis
    using assms True n base
    by (auto simp: apply_provider_result_def Let_def and_then_def split: option.splits if_splits)
qed

theorem evidence_only_grows_witness:
  "\<exists>d' res b. apply_provider_result sample_deposit
      \<lparr>fr_provider_deposit_id = ''p1'', fr_status = FlexibleDepositStatus.PROCESSING, fr_checkout_url = None, fr_asset = None, fr_network = None,
       fr_amount_received = Some 5, fr_fee_amount = None, fr_raw_data = []\<rparr> 9 = (d', res) \<and>
    res = Inl PaymentIntegrityError \<and> fd_amount_received d' = Some b \<and> 21 \<le> b"
proof -
  let ?r = "\<lparr>fr_provider_deposit_id = ''p1'', fr_status = FlexibleDepositStatus.PROCESSING, fr_checkout_url = None, fr_asset = None,
    fr_network = None, fr_amount_received = Some 5, fr_fee_amount = None, fr_raw_data = []\<rparr> :: flexible_deposit_result"
  have r: "\<exists>d'. apply_provider_result sample_deposit ?r 9 = (d', Inl PaymentIntegrityError)"
    by (simp add: apply_provider_result_def sample_deposit_def assert_provider_result_allowed_def normalized_def snapshot_values_def)
  moreover have "fd_amount_received sample_deposit = Some 21" by (simp add: sample_deposit_def)
  ultimately show ?thesis using evidence_only_grows [of sample_deposit ?r 9] by blast
qed

lemma deposit_create_InrD:
  assumes "deposit_create env db n u m key ret auto now = (db1, Inr d)"
  shows "8 \<le> length (strip key)" "length (strip key) \<le> 100" "find_deposit_by_key db1 n (strip key) = Some d"
    "fd_user_id d = u" "fd_payment_method_id d = m"
proof -
  let ?key = "strip key"
  have len: "8 \<le> length ?key" "length ?key \<le> 100"
    using assms by (auto simp: deposit_create_def Let_def split: if_splits)
  have "find_deposit_by_key db1 n ?key = Some d \<and> fd_user_id d = u \<and> fd_payment_method_id d = m"
  proof (cases "find_deposit_by_key db n ?key")
    case (Some x)
    with assms len show ?thesis by (auto simp: deposit_create_def Let_def split: if_splits)
  next
    case none: None
    obtain e where f: "flush_deposit db e = (db1, Inr d)"
      and k: "fd_tenant_id e = n" "fd_idempotency_key e = ?key" "fd_user_id e = u" "fd_payment_method_id e = m"
      using assms len none
      by (auto simp: deposit_create_def Let_def lift_res_Inr_iff savepoint_Inr_iff split: option.splits if_splits prod.splits
          dest!: first_row_SomeD)
    then show ?thesis using none
      by (auto simp: flush_deposit_def find_deposit_by_key_def split: if_splits)
  qed
  with len show "8 \<le> length (strip key)" "length (strip key) \<le> 100" "find_deposit_by_key db1 n (strip key) = Some d"
    "fd_user_id d = u" "fd_payment_method_id d = m" by auto
qed

text \<open>Creating a deposit is idempotent: after a successful creation, repeating the request with the same key
  returns the same deposit and changes nothing, whatever the providers and policies have become; the key
  used by another customer or for another method is refused with \<open>PaymentIntegrityError\<close>.\<close>

theorem deposit_create_idempotent:
  assumes "deposit_create env db n u m key ret auto now = (db1, Inr d)"
  shows "deposit_create env' db1 n u m key ret' auto' now' = (db1, Inr d) \<and>
    (u' \<noteq> u \<or> m' \<noteq> m \<longrightarrow> deposit_create env' db1 n u' m' key ret' auto' now' = (db1, Inl PaymentIntegrityError))"
  using deposit_create_InrD [OF assms] by (auto simp: deposit_create_def Let_def)

theorem deposit_create_idempotent_witness:
  "deposit_create sample_env sample_pay 7 8 61 ''deposit-1'' None True 5 = (sample_pay, Inr sample_deposit) \<and>
   deposit_create sample_env sample_pay 7 9 61 ''deposit-1'' None True 5 = (sample_pay, Inl PaymentIntegrityError)"
proof -
  have s: "strip ''deposit-1'' = ''deposit-1''" by (simp add: strip_def is_space_def char_code_def)
  have r: "deposit_create sample_env sample_pay 7 8 61 ''deposit-1'' None True 5 = (sample_pay, Inr sample_deposit)"
    by (simp add: deposit_create_def s find_deposit_by_key_def sample_pay_def sample_deposit_def Let_def)
  then show ?thesis using deposit_create_idempotent [OF r, where env' = sample_env and u' = 9 and m' = 61 and ret' = None and auto' = True and now' = 5] by simp
qed

text \<open>A reversal reported after the credit freezes the money: the customer's settlement wallet is deactivated,
  so every later debit is refused with \<open>InsufficientFundsError\<close>, the deposit is \<open>REVERSED\<close>, and a resolution
  case for it is on file; no balance changes.\<close>

theorem reversal_freezes_wallet:
  assumes inv: "ledger_inv db" and w: "w \<in> set (wallets db)" "wallet_key w = (fd_tenant_id d, fd_user_id d, cur)"
    and cur: "fd_credited_currency d = Some cur" "cur \<noteq> []" and a: "0 < a"
    and r: "record_credited_reversal env db d = (db', res)" and d: "d \<in> set (flexible_deposits db)"
  shows "res = Inr () \<and> same_money db db' \<and> snd (debit db' w a rid rty de now) = Inl InsufficientFundsError \<and>
    (\<exists>x \<in> set (flexible_deposits db'). fd_id x = fd_id d \<and> fd_status x = REVERSED) \<and>
    (\<exists>c \<in> set (resolution_cases db'). fc_tenant_id c = fd_tenant_id d \<and> fc_source_key c = ''flexible-reversal:'' @ str_uuid (fd_id d))"
proof -
  have row: "first_row (\<lambda>w. w_tenant_id w = fd_tenant_id d \<and> w_user_id w = fd_user_id d \<and>
      Some (w_currency w) = fd_credited_currency d) (wallets db) = Some w"
    using first_row_key [OF inv w(1)] w(2) cur(1) by (simp add: wallet_key_def conj_commute eq_commute)
  let ?d = "d\<lparr>fd_status := REVERSED, fd_last_error := Some ''PROVIDER_REVERSED_AFTER_CREDIT_REQUIRES_FINANCIAL_RESOLUTION''\<rparr>"
  let ?db = "open_reversal_case env (freeze_wallet (w_id w) db) d (Some (w_id w)) None"
  have db': "db' = put_deposit ?d ?db" and "res = Inr ()"
    using r row cur by (auto simp: record_credited_reversal_def Let_def)
  have wl: "wallets db' = update_where (\<lambda>x. w_id x = w_id w) (\<lambda>w. w\<lparr>w_is_active := False\<rparr>) (wallets db)"
    by (simp add: db' open_reversal_case_def freeze_wallet_def split: option.splits)
  have "lock_wallet db' w = (db', Inr (w\<lparr>w_is_active := False\<rparr>))"
    using frozen_lock [OF inv w(1) wl] .
  then have "snd (debit db' w a rid rty de now) = Inl InsufficientFundsError"
    using a by (simp add: debit_def)
  moreover have "fd_id ?d \<in> fd_id ` set (flexible_deposits ?db)"
    using d by (simp add: open_reversal_case_def freeze_wallet_def split: option.splits)
  then have "\<exists>x \<in> set (flexible_deposits db'). fd_id x = fd_id d \<and> fd_status x = REVERSED"
    using put_row_in [of fd_id ?d "flexible_deposits ?db"]
    by (intro bexI [of _ ?d]) (simp_all add: db' put_deposit_def)
  moreover have "\<exists>c \<in> set (resolution_cases db'). fc_tenant_id c = fd_tenant_id d \<and> fc_source_key c = ''flexible-reversal:'' @ str_uuid (fd_id d)"
    by (auto simp: db' put_deposit_def open_reversal_case_def reversal_case_def split: option.splits dest!: first_row_SomeD)
  ultimately show ?thesis using \<open>res = Inr ()\<close> by (simp add: db')
qed

theorem reversal_freezes_wallet_witness:
  "\<exists>db' res. record_credited_reversal sample_env (sample_pay\<lparr>flexible_deposits := [sample_deposit\<lparr>fd_credited_currency := Some ''USD''\<rparr>]\<rparr>)
      (sample_deposit\<lparr>fd_credited_currency := Some ''USD''\<rparr>) = (db', res) \<and>
    snd (debit db' sample_wallet 1 None None None 9) = Inl InsufficientFundsError"
proof -
  let ?d = "sample_deposit\<lparr>fd_credited_currency := Some ''USD''\<rparr>"
  let ?db = "sample_pay\<lparr>flexible_deposits := [?d]\<rparr>"
  obtain db' res where r: "record_credited_reversal sample_env ?db ?d = (db', res)" by fastforce
  have inv: "ledger_inv ?db"
    using ledger_inv_frame [OF sample_pay_inv(1), of ?db] by (simp add: sample_pay_def)
  have "sample_wallet \<in> set (wallets ?db)" "wallet_key sample_wallet = (fd_tenant_id ?d, fd_user_id ?d, ''USD'')"
    "fd_credited_currency ?d = Some ''USD''" "''USD'' \<noteq> []" "(0::decimal) < 1" "?d \<in> set (flexible_deposits ?db)"
    by (simp_all add: sample_pay_def sample_deposit_def sample_wallet_def wallet_key_def)
  from reversal_freezes_wallet [OF inv this(1-5) r this(6), of None None None 9] r show ?thesis by blast
qed

text \<open>C39: One deposit whose provider cannot be resolved any more, for instance because its tenant disabled the
  provider, stops the reconciliation worker for all tenants: the adapter is looked up outside the
  \<open>try\<close>, so when that deposit comes first in the batch every iteration, at every time, raises and
  rolls back, and the store never changes.\<close>

theorem unresolvable_provider_blocks_worker:
  assumes "open_deposits db limit = d # ds" and "d \<in> set (flexible_deposits db)" and "distinct (map fd_id (flexible_deposits db))"
    and "deposit_provider env (fd_tenant_id d) (fd_provider d) = Inl e"
  shows "foldl (\<lambda>db now. fst (deposit_worker_iteration env limit now db)) db clock = db \<and>
    snd (deposit_worker_iteration env limit now db) = Inl e"
proof -
  have "fd_status d \<in> {CREDITED, CREATED, PENDING, PROCESSING, SETTLED_REVIEW, UNKNOWN}"
  proof -
    have "d \<in> set (open_deposits db limit)" using assms(1) by simp
    then show ?thesis unfolding open_deposits_def by (auto dest!: in_set_takeD)
  qed
  then have st: "fd_status d \<notin> {EXPIRED, CANCELLED, REVERSED}" by auto
  have "first_row (\<lambda>x. fd_id x = fd_id d \<and> fd_tenant_id x = fd_tenant_id d) (flexible_deposits db) = Some d"
    using assms(2,3) by (rule first_row_by_id)
  then have "deposit_reconcile env db (fd_tenant_id d) (fd_id d) now = (db, Inl e)" for now
    using st assms(4) by (simp add: deposit_reconcile_def)
  then have it: "deposit_worker_iteration env limit now db = (db, Inl e)" for now
    by (simp add: deposit_worker_iteration_def reconcile_open_def assms(1) get_db_session_def)
  then have "foldl (\<lambda>db now. fst (deposit_worker_iteration env limit now db)) db clock = db"
    by (induction clock) simp_all
  with it show ?thesis by simp
qed

theorem unresolvable_provider_blocks_worker_witness:
  "foldl (\<lambda>db now. fst (deposit_worker_iteration sample_env 50 now db))
     (sample_pay\<lparr>flexible_deposits := [sample_deposit\<lparr>fd_id := 59, fd_tenant_id := 6\<rparr>, sample_deposit]\<rparr>) [1, 2, 3] =
   sample_pay\<lparr>flexible_deposits := [sample_deposit\<lparr>fd_id := 59, fd_tenant_id := 6\<rparr>, sample_deposit]\<rparr>"
proof -
  let ?d = "sample_deposit\<lparr>fd_id := 59, fd_tenant_id := 6\<rparr>"
  let ?db = "sample_pay\<lparr>flexible_deposits := [?d, sample_deposit]\<rparr>"
  have "open_deposits ?db 50 = ?d # [sample_deposit]" by (simp add: open_deposits_def sample_deposit_def)
  moreover have "?d \<in> set (flexible_deposits ?db)" "distinct (map fd_id (flexible_deposits ?db))"
    "deposit_provider sample_env (fd_tenant_id ?d) (fd_provider ?d) = Inl PaymentProviderError"
    by (simp_all add: sample_deposit_def deposit_provider_def sample_env_def)
  ultimately show ?thesis using unresolvable_provider_blocks_worker [of ?db 50 ?d "[sample_deposit]"] by blast
qed

text \<open>A deposit so small that it converts to 0.00 is not sent to review: its settlement raises \<open>ValueError\<close>,
  which the reconciliation does not catch.\<close>

theorem dust_deposit_raises:
  assumes "ledger_inv db" and "auto_creditable d net" and "fd_auto_credit_target d = SETTLEMENT_WALLET"
    and "truthy (fd_settlement_currency d)" and "normalize_currency (the (fd_settlement_currency d)) = Inr cur"
    and "fx_resolve db (fd_tenant_id d) (the (fd_asset d)) (the (fd_network d)) cur (fd_fx_policy_id d) = Inr p"
    and "0 < net" and "0 \<le> net * fx_rate p" and "net * fx_rate p < 1 / 200" and "\<forall>m. fx_max_auto_credit_amount p = Some m \<longrightarrow> 0 < m"
  shows "snd (flexible_settle db d now) = Inl ValueError \<and> \<not> reconcile_catches ValueError"
proof -
  have "\<lfloor>net * fx_rate p * 100 + 1 / 2\<rfloor> = 0" using assms(8,9) by (simp add: floor_eq_iff)
  then have c: "fx_convert p net = Inr 0"
    using assms(7,8) by (simp add: fx_convert_def quantize_def round_half_up_def)
  obtain db1 w where g: "get_or_create_wallet db (fd_tenant_id d) (fd_user_id d) cur = (db1, Inr w)"
    using get_or_create_wallet_total [OF assms(1)] by blast
  have "\<not> (case fx_max_auto_credit_amount p of Some m \<Rightarrow> m < 0 | None \<Rightarrow> False)"
    using assms(10) by (auto split: option.splits)
  then have "snd (flexible_settle db d now) = Inl ValueError"
    unfolding flexible_settle_settlement [OF assms(2-6) c] g by (simp add: settle_flexible_deposit_def)
  then show ?thesis by (simp add: reconcile_catches_def)
qed

theorem dust_deposit_raises_witness:
  "snd (flexible_settle sample_pay (sample_deposit\<lparr>fd_amount_received := Some (1 / 1000), fd_fee_amount := None\<rparr>) 5) = Inl ValueError"
proof -
  let ?d = "sample_deposit\<lparr>fd_amount_received := Some (1 / 1000), fd_fee_amount := None\<rparr>"
  have n: "net_asset_amount (1 / 1000) None ''NET_AFTER_FEE'' = Inr (1 / 1000)"
    by (simp add: net_asset_amount_def str_simps)
  have c: "auto_creditable ?d (1 / 1000)" using n by (auto simp: auto_creditable_def sample_deposit_def intro!: exI [of _ "1 / 1000"])
  have f: "fd_auto_credit_target ?d = SETTLEMENT_WALLET" "truthy (fd_settlement_currency ?d)"
    "normalize_currency (the (fd_settlement_currency ?d)) = Inr ''USD''"
    "(0 :: decimal) < 1 / 1000" "0 \<le> 1 / 1000 * fx_rate sample_policy" "1 / 1000 * fx_rate sample_policy < 1 / 200"
    "\<forall>m. fx_max_auto_credit_amount sample_policy = Some m \<longrightarrow> 0 < m"
    by (simp_all add: sample_deposit_def sample_normalized sample_policy_def)
  have "fx_resolve sample_pay (fd_tenant_id ?d) (the (fd_asset ?d)) (the (fd_network ?d)) ''USD'' (fd_fx_policy_id ?d) = Inr sample_policy"
    using sample_resolved by simp
  from dust_deposit_raises [OF sample_pay_inv(1) c f(1-3) this f(4-7)] show ?thesis by blast
qed

end
