(* ===== verification/Payments.thy ===== *)
theory Payments
  imports Deposit_Properties
begin

text \<open>
  \<open>PaymentService\<close> (\<open>packages/payments/payment_service.py\<close>), first part: payment intents for orders and
  wallet top-ups, their settlement in the ledger, cancellation, Telegram Stars, webhooks and gateway
  refunds. The reversal of top-ups is in \<open>Reversals\<close>.
\<close>

record pay_env = deposit_env +
  env_isoformat :: "timestamp \<Rightarrow> str"
  env_decimal :: "str \<Rightarrow> decimal option"
  env_get_secret :: "str \<Rightarrow> str res"
  env_json_loads :: "str \<Rightarrow> json option"

section \<open>Rows\<close>

definition put_intent :: "payment_intent \<Rightarrow> 'x pay_db_scheme \<Rightarrow> 'x pay_db_scheme" where
  "put_intent i db = db\<lparr>payment_intents := put_row pi_id i (payment_intents db)\<rparr>"

definition put_order :: "order \<Rightarrow> 'x pay_db_scheme \<Rightarrow> 'x pay_db_scheme" where
  "put_order ord db = db\<lparr>orders := put_row o_id ord (orders db)\<rparr>"

definition find_order :: "'x pay_db_scheme \<Rightarrow> uuid option \<Rightarrow> order option" where
  "find_order db oid = (case oid of None \<Rightarrow> None | Some i \<Rightarrow> first_row (\<lambda>ord. o_id ord = i) (orders db))"

definition intent_key :: "payment_intent \<Rightarrow> uuid \<times> str" where
  "intent_key i = (pi_tenant_id i, pi_idempotency_key i)"

definition active_order_intent :: "payment_intent \<Rightarrow> bool" where
  "active_order_intent i \<longleftrightarrow> pi_order_id i \<noteq> None \<and>
     pi_status i \<in> {PaymentIntentStatus.CREATED, PaymentIntentStatus.PENDING, PaymentIntentStatus.PROCESSING}"

definition flush_intent ::
  "'x pay_db_scheme \<Rightarrow> payment_intent \<Rightarrow> ('x pay_db_scheme, payment_intent) run" where
  "flush_intent db i =
     (if violates (\<lambda>_. True) intent_key (payment_intents db) i \<or>
         violates active_order_intent (\<lambda>i. (pi_tenant_id i, pi_order_id i)) (payment_intents db) i
      then (db, Inl IntegrityError)
      else (db\<lparr>payment_intents := payment_intents db @ [i], next_id := Suc (next_id db)\<rparr>, Inr i))"

definition find_intent_by_key :: "'x pay_db_scheme \<Rightarrow> uuid \<Rightarrow> str \<Rightarrow> payment_intent option res" where
  "find_intent_by_key db tenant_id key =
     scalar_one_or_none (\<lambda>i. pi_tenant_id i = tenant_id \<and> pi_idempotency_key i = key) (payment_intents db)"

text \<open>The partial unique index \<open>uq_topup_reversal_payment_tx\<close>, whose \<open>LIKE 'topup_reversal:%'\<close> reads \<open>_\<close> as any character.\<close>

definition topup_reversal_reference :: "str \<Rightarrow> bool" where
  "topup_reversal_reference s \<longleftrightarrow> starts_with ''topup'' s \<and> 5 < length s \<and> starts_with ''reversal:'' (drop 6 s)"

definition uq_topup_reversal_payment_tx :: "payment_transaction \<Rightarrow> bool" where
  "uq_topup_reversal_payment_tx t \<longleftrightarrow>
     pt_transaction_type t = PaymentTransactionType.REFUND \<and>
     (case pt_reference_id t of None \<Rightarrow> False | Some s \<Rightarrow> topup_reversal_reference s)"

definition flush_payment_transaction ::
  "'x pay_db_scheme \<Rightarrow> payment_transaction \<Rightarrow> ('x pay_db_scheme, payment_transaction) run" where
  "flush_payment_transaction db t =
     (if violates uq_topup_reversal_payment_tx
           (\<lambda>t. (pt_tenant_id t, pt_payment_intent_id t, pt_reference_id t)) (payment_transactions db) t
      then (db, Inl IntegrityError)
      else (db\<lparr>payment_transactions := payment_transactions db @ [t], next_id := Suc (next_id db)\<rparr>, Inr t))"

section \<open>Helpers\<close>

definition validated_checkout_url :: "str option \<Rightarrow> str option res" where
  "validated_checkout_url checkout_url =
     (case checkout_url of
        None \<Rightarrow> Inr None
      | Some u \<Rightarrow>
          res_bind (urlsplit (strip u)) (\<lambda>parsed.
            if lower (url_scheme parsed) \<noteq> ''https'' \<or> url_netloc parsed = [] then Inl PaymentProviderError
            else if truthy (url_username parsed) \<or> truthy (url_password parsed) then Inl PaymentProviderError
            else Inr (Some (strip u))))"

definition mark_provider_creation_ambiguous ::
  "'e pay_env_scheme \<Rightarrow> payment_intent \<Rightarrow> timestamp \<Rightarrow> payment_intent res" where
  "mark_provider_creation_ambiguous env intent now =
     res_bind (if pi_status intent \<noteq> PaymentIntentStatus.UNKNOWN
               then PaymentStateMachine_transition intent PaymentIntentStatus.UNKNOWN else Inr intent)
       (\<lambda>intent. Inr (intent\<lparr>pi_metadata_json :=
          dict_set (pi_metadata_json intent) ''_provider_creation_ambiguity''
            (JObj [(''detected_at'', JStr (env_isoformat env now)), (''provider'', JStr (pi_provider intent)),
                   (''reason'', JStr ''transport_outcome_unknown'')])\<rparr>))"

fun normalized_attributes :: "(str \<times> str) list \<Rightarrow> (str \<times> str) list \<Rightarrow> (str \<times> str) list res" where
  "normalized_attributes acc [] = Inr acc"
| "normalized_attributes acc ((raw_key, raw_value) # rest) =
     (let key = lower (strip raw_key); value = lower (strip raw_value) in
      if key = [] \<or> 64 < length key \<or> value = [] \<or> 255 < length value then Inl PaymentProviderError
      else if contains ''secret'' key \<or> contains ''token'' key \<or> contains ''password'' key \<or> contains ''key'' key
      then Inl PaymentProviderError
      else normalized_attributes (AList.update key value acc) rest)"

definition store_provider_verification_attributes ::
  "payment_intent \<Rightarrow> (str \<times> str) list \<Rightarrow> payment_intent res" where
  "store_provider_verification_attributes intent attributes =
     res_bind (normalized_attributes [] attributes) (\<lambda>normalized.
       if normalized = [] then Inr intent
       else Inr (intent\<lparr>pi_metadata_json :=
         dict_set (pi_metadata_json intent) ''_provider_verification''
           (JObj (map (\<lambda>(k, v). (k, JStr v)) normalized))\<rparr>))"

definition assert_provider_verification_attributes ::
  "'e deposit_env_scheme \<Rightarrow> payment_intent \<Rightarrow> (str \<times> str) list \<Rightarrow> unit res" where
  "assert_provider_verification_attributes env intent attributes =
     (let expected_raw = dict_get (pi_metadata_json intent) ''_provider_verification'' JNull in
      if \<not> json_truthy expected_raw then Inr ()
      else case expected_raw of
        JObj d \<Rightarrow>
          res_bind (normalized_attributes [] (map (\<lambda>(k, v). (k, py_str env v)) d)) (\<lambda>expected.
          res_bind (normalized_attributes [] attributes) (\<lambda>actual.
            if list_all (\<lambda>(k, v). map_of actual k = Some v) expected then Inr ()
            else Inl PaymentIntegrityError))
      | _ \<Rightarrow> Inl PaymentIntegrityError)"

section \<open>Settlement\<close>

definition get_payment_intent :: "'x pay_db_scheme \<Rightarrow> uuid \<Rightarrow> uuid \<Rightarrow> payment_intent res" where
  "get_payment_intent db tenant_id intent_id =
     res_bind (scalar_one_or_none (\<lambda>i. pi_id i = intent_id) (payment_intents db)) (\<lambda>found.
       case found of
         None \<Rightarrow> Inl PaymentIntentNotFoundError
       | Some intent \<Rightarrow>
           if pi_tenant_id intent \<noteq> tenant_id then Inl TenantAccessViolationError else Inr intent)"

text \<open>\<open>if intent.status != SUCCEEDED: intent.transition_to(SUCCEEDED)\<close>\<close>

definition succeed_intent :: "'x pay_db_scheme \<Rightarrow> payment_intent \<Rightarrow> ('x pay_db_scheme, payment_intent) run" where
  "succeed_intent db intent =
     (if pi_status intent \<noteq> PaymentIntentStatus.SUCCEEDED
      then lift_res db (PaymentStateMachine_transition intent PaymentIntentStatus.SUCCEEDED)
             (\<lambda>db i. (put_intent i db, Inr i))
      else (db, Inr intent))"

text \<open>\<open>if order.status in (PENDING, PAYMENT_PENDING): order.transition_to(PAID)\<close>\<close>

definition pay_order :: "'x pay_db_scheme \<Rightarrow> order \<Rightarrow> ('x pay_db_scheme, order) run" where
  "pay_order db ord =
     (if o_status ord \<in> {OrderStatus.PENDING, OrderStatus.PAYMENT_PENDING}
      then lift_res db (OrderStateMachine_transition ord OrderStatus.PAID) (\<lambda>db ord. (put_order ord db, Inr ord))
      else (db, Inr ord))"

definition find_settlement :: "'x ledger_db_scheme \<Rightarrow> wallet \<Rightarrow> uuid \<Rightarrow> ledger_transaction option" where
  "find_settlement db wlt intent_id =
     first_row (\<lambda>t. lt_wallet_id t = w_id wlt \<and> lt_reference_type t = Some CANONICAL_SETTLEMENT_TYPE \<and>
                    lt_reference_id t = Some (str_uuid intent_id)) (ledger db)"

definition settlement_transaction :: "'x pay_db_scheme \<Rightarrow> payment_intent \<Rightarrow> dict \<Rightarrow> payment_transaction" where
  "settlement_transaction db intent metadata =
     \<lparr>pt_id = next_id db, pt_tenant_id = pi_tenant_id intent, pt_payment_intent_id = pi_id intent,
      pt_transaction_type = SETTLEMENT, pt_amount = pi_amount intent, pt_currency = pi_currency intent,
      pt_status = ''SUCCESS'', pt_provider_tx_id = pi_provider_payment_id intent,
      pt_reference_id = Some (str_uuid (pi_id intent)), pt_metadata_json = metadata\<rparr>"

definition amounts_mismatch :: "payment_intent \<Rightarrow> decimal option \<Rightarrow> str option \<Rightarrow> bool" where
  "amounts_mismatch intent verified_amount verified_currency \<longleftrightarrow>
     (verified_amount \<noteq> None \<and> verified_amount \<noteq> Some (pi_amount intent)) \<or>
     (verified_currency \<noteq> None \<and> verified_currency \<noteq> Some (pi_currency intent))"

definition settle_wallet_topup ::
  "'x pay_db_scheme \<Rightarrow> payment_intent \<Rightarrow> decimal option \<Rightarrow> str option \<Rightarrow> timestamp \<Rightarrow>
   ('x pay_db_scheme, payment_intent \<times> ledger_transaction) run" where
  "settle_wallet_topup db intent verified_amount verified_currency now =
     (if pi_order_id intent \<noteq> None then (db, Inl PaymentIntegrityError)
      else if amounts_mismatch intent verified_amount verified_currency then (db, Inl PaymentIntegrityError)
      else
        and_then (get_or_create_wallet db (pi_tenant_id intent) (pi_user_id intent) (pi_currency intent)) (\<lambda>db wlt.
        case find_settlement db wlt (pi_id intent) of
          Some existing_tx \<Rightarrow> and_then (succeed_intent db intent) (\<lambda>db intent. (db, Inr (intent, existing_tx)))
        | None \<Rightarrow>
            and_then (settle_payment db wlt (pi_amount intent) (pi_id intent)
                (Some (''Wallet top-up settlement via '' @ pi_provider intent)) now) (\<lambda>db ledger_tx.
            and_then (succeed_intent db intent) (\<lambda>db intent.
            and_then (flush_payment_transaction db
                 (settlement_transaction db intent [(''purpose'', JStr ''WALLET_TOPUP'')])) (\<lambda>db _.
              (db, Inr (intent, ledger_tx)))))))"

definition settle_payment_intent ::
  "'x pay_db_scheme \<Rightarrow> uuid \<Rightarrow> uuid \<Rightarrow> decimal option \<Rightarrow> str option \<Rightarrow> timestamp \<Rightarrow>
   ('x pay_db_scheme, payment_intent \<times> ledger_transaction) run" where
  "settle_payment_intent db tenant_id intent_id verified_amount verified_currency now =
     lift_res db (get_payment_intent db tenant_id intent_id) (\<lambda>db intent.
       if pi_purpose intent = WALLET_TOPUP then settle_wallet_topup db intent verified_amount verified_currency now
       else if pi_order_id intent = None then (db, Inl PaymentIntegrityError)
       else case find_order db (pi_order_id intent) of
         None \<Rightarrow> (db, Inl TenantAccessViolationError)
       | Some ord \<Rightarrow>
           if o_tenant_id ord \<noteq> tenant_id then (db, Inl TenantAccessViolationError)
           else if amounts_mismatch intent verified_amount verified_currency then (db, Inl PaymentIntegrityError)
           else if pi_amount intent \<noteq> o_total_amount ord then (db, Inl PaymentIntegrityError)
           else if pi_currency intent \<noteq> o_currency ord then (db, Inl PaymentIntegrityError)
           else
             and_then (get_or_create_wallet db tenant_id (pi_user_id intent) (pi_currency intent)) (\<lambda>db wlt.
             case find_settlement db wlt (pi_id intent) of
               Some existing_tx \<Rightarrow>
                 and_then (succeed_intent db intent) (\<lambda>db intent.
                 and_then (pay_order db ord) (\<lambda>db _. (db, Inr (intent, existing_tx))))
             | None \<Rightarrow>
                 and_then (settle_payment db wlt (pi_amount intent) (pi_id intent)
                     (Some (''Payment settlement for order '' @ o_order_number ord)) now) (\<lambda>db ledger_tx.
                 and_then (succeed_intent db intent) (\<lambda>db intent.
                 and_then (pay_order db ord) (\<lambda>db _.
                 and_then (flush_payment_transaction db (settlement_transaction db intent [])) (\<lambda>db _.
                   (db, Inr (intent, ledger_tx))))))))"

definition cancel_payment_intent ::
  "'x pay_db_scheme \<Rightarrow> uuid \<Rightarrow> uuid \<Rightarrow> ('x pay_db_scheme, payment_intent) run" where
  "cancel_payment_intent db tenant_id intent_id =
     lift_res db (get_payment_intent db tenant_id intent_id) (\<lambda>db intent.
       if pi_status intent \<in> {PaymentIntentStatus.SUCCEEDED, PaymentIntentStatus.FAILED,
                              PaymentIntentStatus.EXPIRED, PaymentIntentStatus.CANCELLED}
       then (db, Inl InvalidStateTransitionError)
       else
         lift_res db (PaymentStateMachine_transition intent PaymentIntentStatus.CANCELLED) (\<lambda>db intent.
         let db = put_intent intent db in
         case find_order db (pi_order_id intent) of
           None \<Rightarrow> (db, Inr intent)
         | Some ord \<Rightarrow>
             if o_status ord = OrderStatus.PAYMENT_PENDING
             then lift_res db (OrderStateMachine_transition ord OrderStatus.CANCELLED)
                    (\<lambda>db ord. (put_order ord db, Inr intent))
             else (db, Inr intent)))"

section \<open>Creating an intent for an order\<close>

definition new_intent ::
  "uuid \<Rightarrow> timestamp \<Rightarrow> uuid \<Rightarrow> uuid option \<Rightarrow> PaymentIntentPurpose \<Rightarrow> uuid \<Rightarrow> uuid option \<Rightarrow> str \<Rightarrow> str \<Rightarrow> decimal \<Rightarrow> str \<Rightarrow>
   dict \<Rightarrow> payment_intent" where
  "new_intent i now tenant_id order_id purpose user_id payment_method_id provider currency amount key metadata =
     \<lparr>pi_id = i, pi_created_at = now, pi_tenant_id = tenant_id, pi_order_id = order_id, pi_purpose = purpose,
      pi_user_id = user_id, pi_payment_method_id = payment_method_id, pi_provider = provider,
      pi_provider_payment_id = None, pi_checkout_url = None, pi_currency = currency, pi_amount = amount,
      pi_status = PaymentIntentStatus.CREATED, pi_idempotency_key = key, pi_expires_at = None,
      pi_metadata_json = metadata\<rparr>"

text \<open>\<open>if order.status == PENDING: order.transition_to(PAYMENT_PENDING)\<close>, on the current row of the order.\<close>

definition await_payment :: "'x pay_db_scheme \<Rightarrow> uuid \<Rightarrow> ('x pay_db_scheme, unit) run" where
  "await_payment db order_id =
     (case find_order db (Some order_id) of
        None \<Rightarrow> (db, Inr ())
      | Some ord \<Rightarrow>
          if o_status ord = OrderStatus.PENDING
          then lift_res db (OrderStateMachine_transition ord OrderStatus.PAYMENT_PENDING)
                 (\<lambda>db ord. (put_order ord db, Inr ()))
          else (db, Inr ()))"

text \<open>The provider's answer to \<open>create_payment\<close> stored in the intent: payment id, checkout URL, attributes.\<close>

definition store_provider_result ::
  "'x pay_db_scheme \<Rightarrow> payment_intent \<Rightarrow> payment_create_result \<Rightarrow> ('x pay_db_scheme, payment_intent) run" where
  "store_provider_result db intent result =
     (let intent = intent\<lparr>pi_provider_payment_id := Some (cs_provider_payment_id result)\<rparr>; db = put_intent intent db in
      lift_res db (validated_checkout_url (cs_checkout_url result)) (\<lambda>db url.
      let intent = intent\<lparr>pi_checkout_url := url\<rparr>; db = put_intent intent db in
      lift_res db (store_provider_verification_attributes intent (cs_verification_attributes result)) (\<lambda>db intent.
        (put_intent intent db, Inr intent))))"

text \<open>\<open>elif provider_result.status != intent.status: intent.transition_to(...)\<close>\<close>

definition follow_provider_status ::
  "'x pay_db_scheme \<Rightarrow> payment_intent \<Rightarrow> PaymentIntentStatus \<Rightarrow> ('x pay_db_scheme, payment_intent) run" where
  "follow_provider_status db intent status =
     (if status \<noteq> pi_status intent
      then lift_res db (PaymentStateMachine_transition intent status) (\<lambda>db i. (put_intent i db, Inr i))
      else (db, Inr intent))"

text \<open>Step 4: the stored intent is offered to the provider and follows its answer.\<close>

definition initialize_order_payment ::
  "'e pay_env_scheme \<Rightarrow> 'x pay_db_scheme \<Rightarrow> uuid \<Rightarrow> uuid \<Rightarrow> str \<Rightarrow> dict \<Rightarrow> str option \<Rightarrow> payment_intent \<Rightarrow> timestamp \<Rightarrow>
   ('x pay_db_scheme, payment_intent) run" where
  "initialize_order_payment env db tenant_id order_id prov_name metadata return_url intent now =
     lift_res db (env_provider env tenant_id prov_name) (\<lambda>db provider.
     case create_payment provider
         \<lparr>cr_order_id = Some order_id, cr_amount = pi_amount intent, cr_currency = pi_currency intent,
          cr_idempotency_key = pi_idempotency_key intent, cr_metadata = metadata, cr_return_url = return_url\<rparr> of
       Inl e \<Rightarrow>
         if e = TimeoutError \<or> e = PaymentProviderTransportError then
           lift_res db (mark_provider_creation_ambiguous env intent now) (\<lambda>db intent.
           and_then (await_payment (put_intent intent db) order_id) (\<lambda>db _. (db, Inr intent)))
         else (db, Inl e)
     | Inr result \<Rightarrow>
         and_then (store_provider_result db intent result) (\<lambda>db intent.
         and_then
           (if cs_status result = PaymentIntentStatus.SUCCEEDED
            then and_then (settle_payment_intent db tenant_id (pi_id intent) (Some (pi_amount intent)) (Some (pi_currency intent)) now)
                   (\<lambda>db (i, _). (db, Inr i))
            else follow_provider_status db intent (cs_status result))
           (\<lambda>db intent.
         and_then (await_payment db order_id) (\<lambda>db _. (db, Inr intent)))))"

definition create_payment_intent ::
  "'e pay_env_scheme \<Rightarrow> 'x pay_db_scheme \<Rightarrow> uuid \<Rightarrow> uuid \<Rightarrow> uuid \<Rightarrow> str \<Rightarrow> str \<Rightarrow> dict \<Rightarrow> str option \<Rightarrow> timestamp \<Rightarrow>
   ('x pay_db_scheme, payment_intent) run" where
  "create_payment_intent env db tenant_id user_id order_id prov_name idempotency_key metadata return_url now =
     (if idempotency_key = [] then (db, Inl ValueError)
      else
        lift_res db (scalar_one_or_none (\<lambda>ord. o_id ord = order_id) (orders db)) (\<lambda>db found.
        case found of
          None \<Rightarrow> (db, Inl PaymentError)
        | Some ord \<Rightarrow>
            if o_tenant_id ord \<noteq> tenant_id then (db, Inl TenantAccessViolationError)
            else if o_status ord \<notin> {OrderStatus.PENDING, OrderStatus.PAYMENT_PENDING} then (db, Inl PaymentError)
            else if o_user_id ord \<noteq> user_id then (db, Inl TenantAccessViolationError)
            else
              let amount = o_total_amount ord; currency = o_currency ord in
              lift_res db (find_intent_by_key db tenant_id idempotency_key) (\<lambda>db existing.
              case existing of
                Some existing_intent \<Rightarrow>
                  if pi_order_id existing_intent \<noteq> Some order_id then (db, Inl PaymentIntegrityError)
                  else if pi_amount existing_intent \<noteq> amount then (db, Inl PaymentIntegrityError)
                  else (db, Inr existing_intent)
              | None \<Rightarrow>
                  (case nested db (flush_intent db
                      (new_intent (next_id db) now tenant_id (Some order_id) ORDER_PAYMENT user_id None
                         (lower prov_name) currency amount idempotency_key metadata)) of
                     (db, Inl _) \<Rightarrow>
                       lift_res db (find_intent_by_key db tenant_id idempotency_key) (\<lambda>db existing.
                       case existing of
                         Some e \<Rightarrow>
                           if pi_order_id e \<noteq> Some order_id \<or> pi_amount e \<noteq> amount
                           then (db, Inl PaymentIntegrityError) else (db, Inr e)
                       | None \<Rightarrow> (db, Inl PaymentError))
                   | (db, Inr intent) \<Rightarrow>
                       initialize_order_payment env db tenant_id order_id prov_name metadata return_url intent now))))"

section \<open>Wallet top-ups\<close>

text \<open>\<open>for value in policy.get("topup_currencies", ["USD"]) if str(value).strip()\<close>\<close>

definition topup_currencies :: "'e deposit_env_scheme \<Rightarrow> dict \<Rightarrow> str list res" where
  "topup_currencies env policy =
     (let render = (\<lambda>vs. Inr (map upper (filter (\<lambda>s. strip s \<noteq> []) vs))) in
      case dict_get policy ''topup_currencies'' (JList [JStr ''USD'']) of
        JList vs \<Rightarrow> render (map (py_str env) vs)
      | JStr s \<Rightarrow> render (map (\<lambda>c. [c]) s)
      | JObj d \<Rightarrow> render (map fst d)
      | _ \<Rightarrow> Inl TypeError)"

definition topup_limit :: "'e pay_env_scheme \<Rightarrow> dict \<Rightarrow> str \<Rightarrow> str \<Rightarrow> decimal res" where
  "topup_limit env policy key dflt =
     (case env_decimal env (py_str env (dict_get policy key (JStr dflt))) of
        None \<Rightarrow> Inl PaymentProviderError
      | Some x \<Rightarrow> Inr x)"

definition topup_terms ::
  "'e pay_env_scheme \<Rightarrow> dict \<Rightarrow> dict \<Rightarrow> timestamp \<Rightarrow> dict res" where
  "topup_terms env policy metadata now =
     (if dict_get policy ''terms_required'' JNull \<noteq> JBool True then Inr metadata
      else
        let terms_url = strip (settings_str env policy ''terms_url'' []) in
        res_bind (urlsplit terms_url) (\<lambda>parsed.
          if lower (url_scheme parsed) \<noteq> ''https'' \<or> url_netloc parsed = [] then Inl PaymentProviderError
          else if dict_get metadata ''terms_accepted'' JNull \<noteq> JBool True then Inl PaymentError
          else Inr (dict_set (dict_set (dict_set metadata ''terms_url'' (JStr terms_url))
                 ''terms_version'' (JStr (settings_str env policy ''terms_version'' ''current'')))
                 ''terms_accepted_at'' (JStr (env_isoformat env now)))))"

definition topup_policy_check ::
  "'e pay_env_scheme \<Rightarrow> dict \<Rightarrow> decimal \<Rightarrow> str \<Rightarrow> dict \<Rightarrow> timestamp \<Rightarrow> dict res" where
  "topup_policy_check env policy amount currency metadata now =
     (if dict_get policy ''topup_enabled'' JNull = JBool False then Inl PaymentProviderError
      else
        res_bind (topup_limit env policy ''topup_min_amount'' ''1.00'') (\<lambda>min_amount.
        res_bind (topup_limit env policy ''topup_max_amount'' ''1000.00'') (\<lambda>max_amount.
        if min_amount \<le> 0 \<or> max_amount < min_amount then Inl PaymentProviderError
        else
          res_bind (topup_currencies env policy) (\<lambda>currencies.
          if currency \<notin> set currencies then Inl PaymentError
          else if amount < min_amount \<or> max_amount < amount then Inl PaymentError
          else if dict_get policy ''topup_whole_units_only'' JNull = JBool True \<and> amount \<noteq> of_int (round_half_even amount)
          then Inl PaymentError
          else topup_terms env policy metadata now))))"

definition same_topup ::
  "payment_intent \<Rightarrow> uuid \<Rightarrow> str \<Rightarrow> uuid option \<Rightarrow> decimal \<Rightarrow> str \<Rightarrow> bool" where
  "same_topup e user_id provider payment_method_id amount currency \<longleftrightarrow>
     pi_purpose e = WALLET_TOPUP \<and> pi_user_id e = user_id \<and> pi_provider e = provider \<and>
     pi_payment_method_id e = payment_method_id \<and> pi_amount e = amount \<and> pi_currency e = currency"

text \<open>The stored top-up intent is offered to the provider and follows its answer.\<close>

definition topup_request_metadata :: "payment_intent \<Rightarrow> uuid \<Rightarrow> uuid \<Rightarrow> (str \<times> str) list \<Rightarrow> dict" where
  "topup_request_metadata intent tenant_id user_id provider_context =
     (let metadata = dict_set (dict_set (dict_set (dict_set (pi_metadata_json intent)
            ''purpose'' (JStr ''WALLET_TOPUP''))
            ''payment_intent_id'' (JStr (str_uuid (pi_id intent))))
            ''tenant_id'' (JStr (str_uuid tenant_id)))
            ''user_id'' (JStr (str_uuid user_id))
      in if provider_context = [] then metadata
         else dict_set metadata ''_provider_context'' (JObj (map (\<lambda>(k, v). (k, JStr v)) provider_context)))"

definition initialize_topup ::
  "'e pay_env_scheme \<Rightarrow> 'x pay_db_scheme \<Rightarrow> uuid \<Rightarrow> uuid \<Rightarrow> str option \<Rightarrow> (str \<times> str) list \<Rightarrow> payment_intent \<Rightarrow> timestamp \<Rightarrow>
   ('x pay_db_scheme, payment_intent) run" where
  "initialize_topup env db tenant_id user_id return_url provider_context intent now =
     lift_res db (env_provider env tenant_id (pi_provider intent)) (\<lambda>db provider.
     case create_payment provider
         \<lparr>cr_order_id = None, cr_amount = pi_amount intent, cr_currency = pi_currency intent,
          cr_idempotency_key = pi_idempotency_key intent,
          cr_metadata = topup_request_metadata intent tenant_id user_id provider_context, cr_return_url = return_url\<rparr> of
       Inl e \<Rightarrow>
         if e = TimeoutError \<or> e = PaymentProviderTransportError then
           lift_res db (mark_provider_creation_ambiguous env intent now) (\<lambda>db intent. (put_intent intent db, Inr intent))
         else (db, Inl e)
     | Inr result \<Rightarrow>
         and_then (store_provider_result db intent result) (\<lambda>db intent.
         let intent = (if cs_raw_data result = [] then intent
               else intent\<lparr>pi_metadata_json :=
                 dict_set (pi_metadata_json intent) ''provider_create'' (JObj (cs_raw_data result))\<rparr>);
             db = put_intent intent db
         in if cs_status result = PaymentIntentStatus.SUCCEEDED
            then and_then (settle_wallet_topup db intent (Some (pi_amount intent)) (Some (pi_currency intent)) now)
                   (\<lambda>db (i, _). (db, Inr i))
            else follow_provider_status db intent (cs_status result)))"

definition create_wallet_topup_intent ::
  "'e pay_env_scheme \<Rightarrow> 'x pay_db_scheme \<Rightarrow> uuid \<Rightarrow> uuid \<Rightarrow> decimal \<Rightarrow> str \<Rightarrow> str \<Rightarrow> str \<Rightarrow> dict \<Rightarrow> str option \<Rightarrow>
   uuid option \<Rightarrow> (str \<times> str) list \<Rightarrow> timestamp \<Rightarrow> ('x pay_db_scheme, payment_intent) run" where
  "create_wallet_topup_intent env db tenant_id user_id amount currency prov_name idempotency_key metadata return_url
     payment_method_id provider_context now =
     (if idempotency_key = [] then (db, Inl ValueError)
      else
        let normalized_provider = lower (strip prov_name); normalized_currency = upper (strip currency) in
        if length normalized_currency \<noteq> 3 \<or> \<not> isalpha normalized_currency then (db, Inl PaymentError)
        else
          let normalized_amount = quantize round_half_even 2 amount in
          if normalized_amount \<noteq> amount \<or> normalized_amount \<le> 0 then (db, Inl PaymentError)
          else
            lift_res db (scalar_one_or_none
                (\<lambda>c. pc_tenant_id c = tenant_id \<and> pc_provider_name c = normalized_provider \<and> pc_is_enabled c)
                (provider_configs db)) (\<lambda>db cfg.
            case cfg of
              None \<Rightarrow> (db, Inl PaymentProviderError)
            | Some config \<Rightarrow>
                lift_res db (topup_policy_check env (pc_settings_json config) normalized_amount normalized_currency metadata now)
                  (\<lambda>db effective_metadata.
                lift_res db (find_intent_by_key db tenant_id idempotency_key) (\<lambda>db existing.
                case existing of
                  Some e \<Rightarrow>
                    if \<not> same_topup e user_id normalized_provider payment_method_id normalized_amount normalized_currency \<or>
                       pi_order_id e \<noteq> None
                    then (db, Inl PaymentIntegrityError) else (db, Inr e)
                | None \<Rightarrow>
                    (case nested db (flush_intent db
                        (new_intent (next_id db) now tenant_id None WALLET_TOPUP user_id payment_method_id
                           normalized_provider normalized_currency normalized_amount idempotency_key effective_metadata)) of
                       (db, Inl _) \<Rightarrow>
                         lift_res db (find_intent_by_key db tenant_id idempotency_key) (\<lambda>db concurrent.
                         case concurrent of
                           Some e \<Rightarrow>
                             if same_topup e user_id normalized_provider payment_method_id normalized_amount normalized_currency
                             then (db, Inr e) else (db, Inl PaymentIntegrityError)
                         | None \<Rightarrow> (db, Inl PaymentIntegrityError))
                     | (db, Inr intent) \<Rightarrow>
                         initialize_topup env db tenant_id user_id return_url provider_context intent now)))))"

section \<open>Telegram Stars\<close>

definition parse_stars_invoice_payload :: "str \<Rightarrow> uuid res" where
  "parse_stars_invoice_payload invoice_payload =
     (let prefix = ''ghbf:wallet-topup:'' in
      if \<not> starts_with prefix invoice_payload then Inl PaymentIntegrityError
      else case parse_uuid (drop (length prefix) invoice_payload) of
        None \<Rightarrow> Inl PaymentIntegrityError
      | Some i \<Rightarrow> Inr i)"

definition validate_telegram_stars_checkout ::
  "'x pay_db_scheme \<Rightarrow> uuid \<Rightarrow> uuid \<Rightarrow> str \<Rightarrow> decimal \<Rightarrow> str \<Rightarrow> payment_intent res" where
  "validate_telegram_stars_checkout db tenant_id user_id invoice_payload amount currency =
     res_bind (parse_stars_invoice_payload invoice_payload) (\<lambda>intent_id.
     res_bind (get_payment_intent db tenant_id intent_id) (\<lambda>intent.
       if pi_purpose intent \<noteq> WALLET_TOPUP \<or> pi_provider intent \<noteq> ''telegram_stars'' then Inl PaymentIntegrityError
       else if pi_user_id intent \<noteq> user_id then Inl PaymentIntegrityError
       else if upper currency \<noteq> ''XTR'' \<or> pi_currency intent \<noteq> ''XTR'' then Inl PaymentIntegrityError
       else if amount \<noteq> pi_amount intent then Inl PaymentIntegrityError
       else if pi_status intent \<notin> {PaymentIntentStatus.PENDING, PaymentIntentStatus.PROCESSING, PaymentIntentStatus.SUCCEEDED}
       then Inl PaymentError
       else Inr intent))"

definition settle_telegram_stars_topup ::
  "'x pay_db_scheme \<Rightarrow> uuid \<Rightarrow> uuid \<Rightarrow> str \<Rightarrow> str \<Rightarrow> decimal \<Rightarrow> str \<Rightarrow> timestamp \<Rightarrow>
   ('x pay_db_scheme, payment_intent) run" where
  "settle_telegram_stars_topup db tenant_id user_id invoice_payload charge_id amount currency now =
     lift_res db (validate_telegram_stars_checkout db tenant_id user_id invoice_payload amount currency) (\<lambda>db intent.
       if charge_id = [] then (db, Inl PaymentIntegrityError)
       else
         let existing_provider_id = (case pi_provider_payment_id intent of Some s \<Rightarrow> s | None \<Rightarrow> []) in
         if existing_provider_id \<noteq> [] \<and> \<not> starts_with ''stars_invoice:'' existing_provider_id \<and>
            existing_provider_id \<noteq> charge_id
         then (db, Inl PaymentIntegrityError)
         else
           let intent = intent\<lparr>pi_provider_payment_id := Some charge_id,
                 pi_metadata_json := dict_set (pi_metadata_json intent) ''telegram_payment_charge_id'' (JStr charge_id)\<rparr>
           in and_then (settle_wallet_topup (put_intent intent db) intent (Some amount) (Some ''XTR'') now)
                (\<lambda>db (intent, _). (db, Inr intent)))"

section \<open>Webhooks\<close>

definition webhook_key :: "payment_webhook_event \<Rightarrow> uuid \<times> str \<times> str" where
  "webhook_key e = (we_tenant_id e, we_provider e, we_provider_event_id e)"

definition find_webhook ::
  "'x pay_db_scheme \<Rightarrow> uuid \<Rightarrow> str \<Rightarrow> str \<Rightarrow> payment_webhook_event option res" where
  "find_webhook db tenant_id provider event_id =
     scalar_one_or_none (\<lambda>e. we_tenant_id e = tenant_id \<and> we_provider e = provider \<and>
                             we_provider_event_id e = event_id) (webhook_events db)"

definition flush_webhook ::
  "'x pay_db_scheme \<Rightarrow> payment_webhook_event \<Rightarrow> ('x pay_db_scheme, payment_webhook_event) run" where
  "flush_webhook db e =
     (if violates (\<lambda>_. True) webhook_key (webhook_events db) e then (db, Inl IntegrityError)
      else (db\<lparr>webhook_events := webhook_events db @ [e], next_id := Suc (next_id db)\<rparr>, Inr e))"

text \<open>Step 5: the verified event applied to the intent it names.\<close>

definition apply_webhook ::
  "'e deposit_env_scheme \<Rightarrow> 'x pay_db_scheme \<Rightarrow> uuid \<Rightarrow> payment_intent \<Rightarrow> webhook_verification_result \<Rightarrow> timestamp \<Rightarrow>
   ('x pay_db_scheme, unit) run" where
  "apply_webhook env db tenant_id intent verification now =
     lift_res db (assert_provider_verification_attributes env intent (wr_verification_attributes verification)) (\<lambda>db _.
       if amounts_mismatch intent (wr_amount verification) (wr_currency verification)
       then (db, Inl PaymentIntegrityError)
       else if wr_status verification = Some PaymentIntentStatus.SUCCEEDED then
         and_then (settle_payment_intent db tenant_id (pi_id intent) (wr_amount verification) (wr_currency verification) now)
           (\<lambda>db _. (db, Inr ()))
       else case wr_status verification of
         None \<Rightarrow> (db, Inr ())
       | Some status \<Rightarrow>
           if status \<in> {PaymentIntentStatus.FAILED, PaymentIntentStatus.CANCELLED, PaymentIntentStatus.EXPIRED} \<and>
              pi_status intent \<noteq> status
           then lift_res db (PaymentStateMachine_transition intent status) (\<lambda>db i. (put_intent i db, Inr ()))
           else (db, Inr ()))"

text \<open>Steps 1 and 2: the tenant's enabled configuration, its secret, its adapter, and the signature.\<close>

definition verify_webhook_request ::
  "'e pay_env_scheme \<Rightarrow> 'x pay_db_scheme \<Rightarrow> uuid \<Rightarrow> str \<Rightarrow> str \<Rightarrow> (str \<times> str) list \<Rightarrow> webhook_verification_result res" where
  "verify_webhook_request env db tenant_id prov_name payload_bytes headers =
     res_bind (scalar_one_or_none (\<lambda>c. pc_tenant_id c = tenant_id \<and> pc_provider_name c = lower prov_name)
         (provider_configs db)) (\<lambda>cfg.
     case cfg of
       None \<Rightarrow> Inl PaymentProviderError
     | Some config \<Rightarrow>
         if \<not> pc_is_enabled config then Inl PaymentProviderError
         else
           res_bind (if truthy (pc_webhook_secret_ref config)
                     then env_get_secret env (the (pc_webhook_secret_ref config)) else Inr []) (\<lambda>webhook_secret.
           res_bind (env_provider env tenant_id prov_name) (\<lambda>provider.
           res_bind (verify_webhook provider payload_bytes headers webhook_secret) (\<lambda>verification.
           if \<not> wr_is_valid verification then Inl WebhookVerificationError else Inr verification))))"

text \<open>Step 4: the intent the event is about, and the event's own row.\<close>

definition webhook_intent :: "'x pay_db_scheme \<Rightarrow> uuid \<Rightarrow> webhook_verification_result \<Rightarrow> payment_intent option res" where
  "webhook_intent db tenant_id verification =
     (if truthy (wr_provider_payment_id verification)
      then scalar_one_or_none (\<lambda>i. pi_tenant_id i = tenant_id \<and>
             pi_provider_payment_id i = wr_provider_payment_id verification) (payment_intents db)
      else Inr None)"

definition new_webhook_event ::
  "'e pay_env_scheme \<Rightarrow> uuid \<Rightarrow> uuid \<Rightarrow> str \<Rightarrow> str \<Rightarrow> webhook_verification_result \<Rightarrow> payment_intent option \<Rightarrow> payment_webhook_event" where
  "new_webhook_event env i tenant_id provider payload_bytes verification intent =
     \<lparr>we_id = i, we_tenant_id = tenant_id, we_provider = provider,
      we_provider_event_id = wr_provider_event_id verification,
      we_payment_intent_id = map_option pi_id intent, we_event_type = wr_event_type verification,
      we_signature_verified = True, we_processed = False, we_processed_at = None,
      we_payload_hash = env_sha256 env payload_bytes,
      we_payload_json = (case env_json_loads env payload_bytes of Some j \<Rightarrow> j | None \<Rightarrow> JObj (wr_raw_data verification))\<rparr>"

definition process_webhook ::
  "'e pay_env_scheme \<Rightarrow> 'x pay_db_scheme \<Rightarrow> uuid \<Rightarrow> str \<Rightarrow> str \<Rightarrow> (str \<times> str) list \<Rightarrow> timestamp \<Rightarrow>
   ('x pay_db_scheme, payment_webhook_event) run" where
  "process_webhook env db tenant_id prov_name payload_bytes headers now =
     lift_res db (verify_webhook_request env db tenant_id prov_name payload_bytes headers) (\<lambda>db verification.
     lift_res db (find_webhook db tenant_id (lower prov_name) (wr_provider_event_id verification)) (\<lambda>db dup.
     case dup of
       Some existing_event \<Rightarrow> (db, Inr existing_event)
     | None \<Rightarrow>
         lift_res db (webhook_intent db tenant_id verification) (\<lambda>db intent.
         case nested db (flush_webhook db
             (new_webhook_event env (next_id db) tenant_id (lower prov_name) payload_bytes verification intent)) of
           (db, Inl e) \<Rightarrow>
             lift_res db (find_webhook db tenant_id (lower prov_name) (wr_provider_event_id verification))
               (\<lambda>db dup. case dup of Some existing_event \<Rightarrow> (db, Inr existing_event) | None \<Rightarrow> (db, Inl e))
         | (db, Inr event) \<Rightarrow>
             and_then (case intent of None \<Rightarrow> (db, Inr ())
                       | Some i \<Rightarrow> apply_webhook env db tenant_id i verification now) (\<lambda>db _.
             let event = event\<lparr>we_processed := True, we_processed_at := Some now\<rparr>
             in (db\<lparr>webhook_events := put_row we_id event (webhook_events db)\<rparr>, Inr event)))))"

section \<open>Gateway refunds\<close>

text \<open>The checks of a refund and the call of the gateway.\<close>

definition gateway_refund ::
  "'e deposit_env_scheme \<Rightarrow> 'x pay_db_scheme \<Rightarrow> uuid \<Rightarrow> uuid \<Rightarrow> decimal option \<Rightarrow> str option \<Rightarrow> str option \<Rightarrow>
   (payment_intent \<times> decimal \<times> str \<times> payment_refund_result) res" where
  "gateway_refund env db tenant_id intent_id amount reason idempotency_key =
     res_bind (get_payment_intent db tenant_id intent_id) (\<lambda>intent.
       if pi_purpose intent = WALLET_TOPUP then Inl PaymentError
       else if pi_status intent \<noteq> PaymentIntentStatus.SUCCEEDED then Inl PaymentError
       else
         let refund_amount = (case amount of Some a \<Rightarrow> a | None \<Rightarrow> pi_amount intent) in
         if refund_amount \<le> 0 \<or> pi_amount intent < refund_amount then Inl ValueError
         else
           res_bind (env_provider env tenant_id (pi_provider intent)) (\<lambda>provider.
           if \<not> supports_refunds provider then Inl UnsupportedProviderCapabilityError
           else if \<not> supports_partial_refunds provider \<and> refund_amount < pi_amount intent
           then Inl UnsupportedProviderCapabilityError
           else
             let refund_key = (if truthy idempotency_key then the idempotency_key
                   else ''refund_'' @ str_uuid (pi_id intent) @ ''_'' @ env_str_decimal env refund_amount)
             in res_bind (provider_refund provider
                  \<lparr>rr_provider_payment_id = (case pi_provider_payment_id intent of Some s \<Rightarrow> s | None \<Rightarrow> []),
                   rr_amount = refund_amount, rr_currency = pi_currency intent, rr_idempotency_key = refund_key,
                   rr_reason = reason, rr_metadata = []\<rparr>) (\<lambda>refund_res.
                Inr (intent, refund_amount, refund_key, refund_res))))"

definition refund_transaction ::
  "uuid \<Rightarrow> payment_intent \<Rightarrow> decimal \<Rightarrow> str \<Rightarrow> payment_refund_result \<Rightarrow> str option \<Rightarrow> payment_transaction" where
  "refund_transaction i intent refund_amount refund_key refund_res reason =
     \<lparr>pt_id = i, pt_tenant_id = pi_tenant_id intent, pt_payment_intent_id = pi_id intent,
      pt_transaction_type = PaymentTransactionType.REFUND, pt_amount = refund_amount,
      pt_currency = pi_currency intent, pt_status = ''SUCCESS'',
      pt_provider_tx_id = Some (rs_provider_refund_id refund_res), pt_reference_id = Some refund_key,
      pt_metadata_json = [(''reason'', json_opt reason)]\<rparr>"

definition refund_payment ::
  "'e deposit_env_scheme \<Rightarrow> 'x pay_db_scheme \<Rightarrow> uuid \<Rightarrow> uuid \<Rightarrow> decimal option \<Rightarrow> str option \<Rightarrow> str option \<Rightarrow> timestamp \<Rightarrow>
   ('x pay_db_scheme, payment_transaction) run" where
  "refund_payment env db tenant_id intent_id amount reason idempotency_key now =
     lift_res db (gateway_refund env db tenant_id intent_id amount reason idempotency_key)
       (\<lambda>db (intent, refund_amount, refund_key, refund_res).
     and_then (flush_payment_transaction db
         (refund_transaction (next_id db) intent refund_amount refund_key refund_res reason)) (\<lambda>db pay_tx.
     and_then (get_or_create_wallet db tenant_id (pi_user_id intent) (pi_currency intent)) (\<lambda>db wlt.
     and_then (refund db wlt refund_amount (Some (str_uuid (pi_id intent)))
         (Some CANONICAL_PAYMENT_REFUND_TYPE)
         (or_default reason (''Payment refund for intent '' @ str_uuid (pi_id intent))) now) (\<lambda>db _.
     case find_order db (pi_order_id intent) of
       None \<Rightarrow> (db, Inr pay_tx)
     | Some ord \<Rightarrow>
         if refund_amount = pi_amount intent \<and> o_status ord = OrderStatus.PAID
         then lift_res db (OrderStateMachine_transition ord OrderStatus.REFUNDED)
                (\<lambda>db ord. (put_order ord db, Inr pay_tx))
         else (db, Inr pay_tx)))))"

end
