(* ===== verification/Payment_Properties.thy ===== *)
theory Payment_Properties
  imports Payments
begin

text \<open>
  What the payment service promises. \<open>paid_books\<close> ties the two records of a payment together: the
  status of the intent and the settlement row of the ledger. \<open>pay_inv\<close> adds the constraints of the
  tables, \<open>pay_history\<close> are the stores that requests to the service can produce, and every one of
  them satisfies it.
\<close>

section \<open>The invariant\<close>

type_synonym account = "uuid \<times> uuid \<times> str"

text \<open>What of an intent the books depend on: its identity, the account, the amount and whether it succeeded.\<close>

definition money_view :: "payment_intent \<Rightarrow> uuid \<times> account \<times> decimal \<times> bool" where
  "money_view i = (pi_id i, (pi_tenant_id i, pi_user_id i, pi_currency i), pi_amount i,
                   pi_status i = PaymentIntentStatus.SUCCEEDED)"

definition is_settlement :: "ledger_transaction \<Rightarrow> bool" where
  "is_settlement t \<longleftrightarrow> lt_reference_type t = Some CANONICAL_SETTLEMENT_TYPE"

definition pays :: "(uuid \<times> account) set \<Rightarrow> uuid \<Rightarrow> account \<Rightarrow> decimal \<Rightarrow> ledger_transaction \<Rightarrow> bool" where
  "pays W i acc amount t \<longleftrightarrow> lt_transaction_type t = TransactionType.CREDIT \<and> is_settlement t \<and>
     lt_reference_id t = Some (str_uuid i) \<and> lt_amount t = amount \<and> (lt_wallet_id t, acc) \<in> W"

definition paid_books ::
  "(uuid \<times> account) set \<Rightarrow> ledger_transaction set \<Rightarrow> (uuid \<times> account \<times> decimal \<times> bool) set \<Rightarrow> bool" where
  "paid_books W L M \<longleftrightarrow>
     (\<forall>t \<in> L. is_settlement t \<longrightarrow> (\<exists>i acc amount. (i, acc, amount, True) \<in> M \<and> pays W i acc amount t)) \<and>
     (\<forall>i acc amount. (i, acc, amount, True) \<in> M \<longrightarrow> (\<exists>t \<in> L. pays W i acc amount t))"

definition pay_rows :: "'x pay_db_scheme \<Rightarrow> bool" where
  "pay_rows db \<longleftrightarrow>
     distinct (map pi_id (payment_intents db)) \<and> distinct (map intent_key (payment_intents db)) \<and>
     (\<forall>i \<in> set (payment_intents db). pi_id i < next_id db) \<and> distinct (map o_id (orders db)) \<and>
     distinct (map webhook_key (webhook_events db)) \<and> distinct (map we_id (webhook_events db)) \<and>
     (\<forall>e \<in> set (webhook_events db). we_id e < next_id db)"

definition pay_inv :: "'x pay_db_scheme \<Rightarrow> bool" where
  "pay_inv db \<longleftrightarrow> ledger_inv db \<and> pay_rows db \<and>
     paid_books (wallet_rows db) (set (ledger db)) (money_view ` set (payment_intents db))"

lemma pays_mono: "pays W i acc a t \<Longrightarrow> W \<subseteq> W' \<Longrightarrow> pays W' i acc a t"
  by (auto simp: pays_def)

lemma paid_books_mono: "paid_books W L M \<Longrightarrow> W \<subseteq> W' \<Longrightarrow> paid_books W' L M"
  unfolding paid_books_def by (metis pays_mono)

lemma paid_books_other: "paid_books W L M \<Longrightarrow> \<not> is_settlement t \<Longrightarrow> paid_books W (insert t L) M"
  unfolding paid_books_def by auto

lemma paid_books_open: "paid_books W L M \<Longrightarrow> \<not> b \<Longrightarrow> paid_books W L (insert (i, acc, a, b) M)"
  unfolding paid_books_def by auto

lemma paid_books_settle:
  assumes "paid_books W L M" and p: "pays W i acc a t" and sub: "M' \<subseteq> insert (i, acc, a, True) M"
    and keep: "\<And>j ac b. (j, ac, b, True) \<in> M \<Longrightarrow> (j, ac, b, True) \<in> M'" and new: "(i, acc, a, True) \<in> M'"
  shows "paid_books W (insert t L) M'"
proof -
  have old: "\<exists>j ac b. (j, ac, b, True) \<in> M \<and> pays W j ac b x" if "x \<in> L" "is_settlement x" for x
    using assms(1) that unfolding paid_books_def by blast
  have row: "\<exists>x \<in> L. pays W j ac b x" if "(j, ac, b, True) \<in> M" for j ac b
    using assms(1) that unfolding paid_books_def by blast
  have "\<exists>j ac b. (j, ac, b, True) \<in> M' \<and> pays W j ac b x" if "x \<in> insert t L" "is_settlement x" for x
    using that old keep new p by blast
  moreover have "\<exists>x \<in> insert t L. pays W j ac b x" if "(j, ac, b, True) \<in> M'" for j ac b
    using that sub row p by blast
  ultimately show ?thesis unfolding paid_books_def by blast
qed

section \<open>Frames\<close>

lemma bounded_keys:
  fixes f :: "'r \<Rightarrow> uuid"
  assumes "map f xs' = map f xs" and "\<forall>x \<in> set xs. f x < n" and "n \<le> m"
  shows "\<forall>x \<in> set xs'. f x < m"
proof
  fix x
  assume "x \<in> set xs'"
  then have "f x \<in> set (map f xs)" using assms(1) by (metis image_eqI list.set_map)
  then show "f x < m" using assms(2,3) by fastforce
qed

lemma pay_rows_frame:
  assumes "pay_rows db" and "next_id db \<le> next_id db'"
    and "map pi_id (payment_intents db') = map pi_id (payment_intents db)"
    and "map intent_key (payment_intents db') = map intent_key (payment_intents db)"
    and "map o_id (orders db') = map o_id (orders db)"
    and "map webhook_key (webhook_events db') = map webhook_key (webhook_events db)"
    and "map we_id (webhook_events db') = map we_id (webhook_events db)"
  shows "pay_rows db'"
  using assms bounded_keys [OF assms(3) _ assms(2)] bounded_keys [OF assms(7) _ assms(2)] by (simp add: pay_rows_def)

text \<open>Changes that leave the intents and the settlement rows alone keep the invariant.\<close>

lemma pay_inv_frame:
  assumes "pay_inv db" and "ledger_inv db'" and "next_id db \<le> next_id db'" and "wallet_rows db \<subseteq> wallet_rows db'"
    and "ledger db' = ledger db \<or> (\<exists>t. ledger db' = ledger db @ [t] \<and> \<not> is_settlement t)"
    and "payment_intents db' = payment_intents db" and "map o_id (orders db') = map o_id (orders db)"
    and "map webhook_key (webhook_events db') = map webhook_key (webhook_events db)"
    and "map we_id (webhook_events db') = map we_id (webhook_events db)"
  shows "pay_inv db'"
proof -
  have "paid_books (wallet_rows db') (set (ledger db')) (money_view ` set (payment_intents db'))"
    using assms(1,4,5,6) paid_books_mono paid_books_other unfolding pay_inv_def by fastforce
  then show ?thesis using assms pay_rows_frame [of db db'] by (simp add: pay_inv_def)
qed

lemma put_intent_frame [simp]:
  "wallets (put_intent i db) = wallets db" "ledger (put_intent i db) = ledger db" "holds (put_intent i db) = holds db"
  "next_id (put_intent i db) = next_id db" "orders (put_intent i db) = orders db"
  "webhook_events (put_intent i db) = webhook_events db" "provider_configs (put_intent i db) = provider_configs db"
  "payment_intents (put_intent i db) = put_row pi_id i (payment_intents db)"
  "payment_transactions (put_intent i db) = payment_transactions db"
  by (simp_all add: put_intent_def)

lemma put_order_frame [simp]:
  "wallets (put_order r db) = wallets db" "ledger (put_order r db) = ledger db" "holds (put_order r db) = holds db"
  "next_id (put_order r db) = next_id db" "payment_intents (put_order r db) = payment_intents db"
  "webhook_events (put_order r db) = webhook_events db" "provider_configs (put_order r db) = provider_configs db"
  "orders (put_order r db) = put_row o_id r (orders db)" "payment_transactions (put_order r db) = payment_transactions db"
  by (simp_all add: put_order_def)

lemma ledger_inv_put [simp]:
  "ledger_inv (put_intent i db) = ledger_inv db" "ledger_inv (put_order r db) = ledger_inv db"
  "wallet_rows (put_intent i db) = wallet_rows db" "wallet_rows (put_order r db) = wallet_rows db"
  "balance_of (put_intent i db) = balance_of db" "balance_of (put_order r db) = balance_of db"
  by (auto simp: ledger_inv_def wallet_rows_def entries_def balance_of_def fun_eq_iff)

lemma put_row_maps:
  assumes "r \<in> set rs" and "distinct (map key rs)" and "key r' = key r" and "f r' = f r"
  shows "map f (put_row key r' rs) = map f rs"
proof -
  have "x = r" if "x \<in> set rs" "key x = key r" for x
    using that assms(1,2) by (auto simp: distinct_map inj_on_def)
  then show ?thesis using assms by (auto simp: put_row_def update_where_def)
qed

text \<open>An intent row is rewritten without touching its identity, account, amount and success.\<close>

lemma put_intent_keeps:
  assumes inv: "pay_inv db" and i: "i \<in> set (payment_intents db)"
    and v: "money_view i' = money_view i" "intent_key i' = intent_key i"
  shows "pay_inv (put_intent i' db)"
proof -
  have d: "distinct (map pi_id (payment_intents db))" using inv by (simp add: pay_inv_def pay_rows_def)
  have id: "pi_id i' = pi_id i" using v(1) by (simp add: money_view_def)
  have m: "map money_view (payment_intents (put_intent i' db)) = map money_view (payment_intents db)"
    and k: "map intent_key (payment_intents (put_intent i' db)) = map intent_key (payment_intents db)"
    using put_row_maps [OF i d id] v by simp_all
  from m have "money_view ` set (payment_intents (put_intent i' db)) = money_view ` set (payment_intents db)"
    by (metis list.set_map)
  moreover have "pay_rows (put_intent i' db)"
    using inv k pay_rows_frame [of db "put_intent i' db"] by (simp add: pay_inv_def)
  ultimately show ?thesis using inv by (simp add: pay_inv_def)
qed

lemma put_order_keeps: "pay_inv db \<Longrightarrow> pay_inv (put_order r db)"
  by (rule pay_inv_frame) (auto simp: pay_inv_def)

lemma flush_payment_transaction_keeps:
  assumes "pay_inv db" and "flush_payment_transaction db t = (db', Inr t')"
  shows "pay_inv db'" and "t' = t" and "wallets db' = wallets db" "ledger db' = ledger db" "holds db' = holds db"
    "payment_intents db' = payment_intents db" "orders db' = orders db" "webhook_events db' = webhook_events db"
    "provider_configs db' = provider_configs db" "next_id db \<le> next_id db'"
proof -
  have db': "db' = db\<lparr>payment_transactions := payment_transactions db @ [t], next_id := Suc (next_id db)\<rparr>" and "t' = t"
    using assms(2) by (auto simp: flush_payment_transaction_def split: if_splits)
  then show "t' = t" "wallets db' = wallets db" "ledger db' = ledger db" "holds db' = holds db"
    "payment_intents db' = payment_intents db" "orders db' = orders db" "webhook_events db' = webhook_events db"
    "provider_configs db' = provider_configs db" "next_id db \<le> next_id db'" by simp_all
  have "ledger_inv db'" using assms(1) ledger_inv_frame [of db db'] by (simp add: db' pay_inv_def)
  then show "pay_inv db'" using assms(1) by (rule_tac pay_inv_frame) (auto simp: db' wallet_rows_def)
qed

lemma get_or_create_wallet_keeps:
  assumes "pay_inv db" and "get_or_create_wallet db n u c = (db', Inr w)"
  shows "pay_inv db'"
proof -
  have inv: "ledger_inv db" using assms(1) by (simp add: pay_inv_def)
  note d = get_or_create_wallet_InrD [OF inv assms(2)]
  note tables = pay_tables_eq [OF d(6)]
  show ?thesis using d get_or_create_wallet_rows [OF inv assms(2)] tables by (intro pay_inv_frame [OF assms(1)]) auto
qed

section \<open>Settlement\<close>

abbreviation account_of :: "payment_intent \<Rightarrow> account" where
  "account_of i \<equiv> (pi_tenant_id i, pi_user_id i, pi_currency i)"

lemma succeed_intent_InrD:
  assumes "succeed_intent db i = (db', Inr i')"
  shows "i' = i\<lparr>pi_status := PaymentIntentStatus.SUCCEEDED\<rparr>"
    and "\<not> payment_terminal (pi_status i) \<and> db' = put_intent i' db \<or> pi_status i = PaymentIntentStatus.SUCCEEDED \<and> db' = db"
  using assms
  by (auto simp: succeed_intent_def lift_res_Inr_iff PaymentStateMachine_transition_def Let_def
        PaymentStateMachine_can_transition_def split: if_splits)

lemma pay_order_InrD:
  assumes "pay_order db ord = (db', Inr ord')"
  shows "o_status ord \<noteq> OrderStatus.PENDING"
    and "o_status ord = OrderStatus.PAYMENT_PENDING \<and> ord' = ord\<lparr>o_status := OrderStatus.PAID\<rparr> \<and> db' = put_order ord' db \<or>
         o_status ord \<noteq> OrderStatus.PAYMENT_PENDING \<and> ord' = ord \<and> db' = db"
  using assms
  by (auto simp: pay_order_def lift_res_Inr_iff OrderStateMachine_transition_def Let_def
        OrderStateMachine_can_transition_def split: if_splits)

lemma intent_by_id:
  assumes "pay_inv db" and "i \<in> set (payment_intents db)" and "j \<in> set (payment_intents db)" and "pi_id i = pi_id j"
  shows "i = j"
  using assms by (auto simp: pay_inv_def pay_rows_def distinct_map inj_on_def)

lemma find_settlement_SomeD:
  assumes "find_settlement db w i = Some t"
  shows "t \<in> set (ledger db)" and "lt_wallet_id t = w_id w" and "is_settlement t" and "lt_reference_id t = Some (str_uuid i)"
  using assms by (auto simp: find_settlement_def is_settlement_def dest!: first_row_SomeD)

lemma settlement_row:
  assumes inv: "pay_inv db" and i: "i \<in> set (payment_intents db)"
    and t: "t \<in> set (ledger db)" "is_settlement t" "lt_reference_id t = Some (str_uuid (pi_id i))"
  shows "pi_status i = PaymentIntentStatus.SUCCEEDED" and "pays (wallet_rows db) (pi_id i) (account_of i) (pi_amount i) t"
proof -
  have b: "paid_books (wallet_rows db) (set (ledger db)) (money_view ` set (payment_intents db))"
    using inv by (simp add: pay_inv_def)
  obtain j acc a where m: "(j, acc, a, True) \<in> money_view ` set (payment_intents db)"
    and p: "pays (wallet_rows db) j acc a t"
    using b t unfolding paid_books_def by blast
  from p t have "j = pi_id i" by (simp add: pays_def)
  with m obtain k where k: "k \<in> set (payment_intents db)" "money_view k = (pi_id i, acc, a, True)" by auto
  then have "k = i" using intent_by_id [OF inv k(1) i] by (simp add: money_view_def)
  with k p \<open>j = pi_id i\<close> show "pi_status i = PaymentIntentStatus.SUCCEEDED"
    "pays (wallet_rows db) (pi_id i) (account_of i) (pi_amount i) t" by (auto simp: money_view_def)
qed

lemma succeeded_has_row:
  assumes inv: "pay_inv db" and i: "i \<in> set (payment_intents db)" and "pi_status i = PaymentIntentStatus.SUCCEEDED"
  shows "\<exists>t \<in> set (ledger db). pays (wallet_rows db) (pi_id i) (account_of i) (pi_amount i) t"
proof -
  have "(pi_id i, account_of i, pi_amount i, True) \<in> money_view ` set (payment_intents db)"
    using i assms(3) by (force simp: money_view_def)
  then show ?thesis using inv unfolding pay_inv_def paid_books_def by blast
qed

lemma wallet_of_row:
  assumes inv: "ledger_inv db" and w: "w \<in> set (wallets db)" and "(k, wallet_key w) \<in> wallet_rows db"
  shows "k = w_id w"
proof -
  obtain v where "v \<in> set (wallets db)" "w_id v = k" "wallet_key v = wallet_key w"
    using assms(3) by (auto simp: wallet_rows_def)
  then have "v = w" using inv w by (auto simp: ledger_inv_def distinct_map inj_on_def)
  then show ?thesis using \<open>w_id v = k\<close> by simp
qed

text \<open>The settlement row of an intent is found exactly when the intent has succeeded.\<close>

lemma find_settlement_iff:
  assumes inv: "pay_inv db" and i: "i \<in> set (payment_intents db)" and w: "w \<in> set (wallets db)" "wallet_key w = account_of i"
  shows "find_settlement db w (pi_id i) \<noteq> None \<longleftrightarrow> pi_status i = PaymentIntentStatus.SUCCEEDED"
proof
  assume "find_settlement db w (pi_id i) \<noteq> None"
  then obtain t where "find_settlement db w (pi_id i) = Some t" by auto
  then show "pi_status i = PaymentIntentStatus.SUCCEEDED"
    using settlement_row(1) [OF inv i] find_settlement_SomeD by metis
next
  assume "pi_status i = PaymentIntentStatus.SUCCEEDED"
  then obtain t where t: "t \<in> set (ledger db)" "pays (wallet_rows db) (pi_id i) (account_of i) (pi_amount i) t"
    using succeeded_has_row [OF inv i] by blast
  then have "(lt_wallet_id t, wallet_key w) \<in> wallet_rows db" using w(2) by (simp add: pays_def)
  then have "lt_wallet_id t = w_id w" using wallet_of_row [OF _ w(1)] inv unfolding pay_inv_def by blast
  with t show "find_settlement db w (pi_id i) \<noteq> None"
    by (auto simp: find_settlement_def first_row_None_iff pays_def is_settlement_def)
qed

lemma set_put_row: "key r \<in> key ` set rs \<Longrightarrow> set (put_row key r rs) = insert r {x \<in> set rs. key x \<noteq> key r}"
  by (auto simp: put_row_def update_where_def)

lemma paid_books_succeed:
  assumes inv: "pay_inv db" and i: "i \<in> set (payment_intents db)" and ns: "pi_status i \<noteq> PaymentIntentStatus.SUCCEEDED"
    and p: "pays (wallet_rows db) (pi_id i) (account_of i) (pi_amount i) t"
    and i': "i' = i\<lparr>pi_status := PaymentIntentStatus.SUCCEEDED\<rparr>"
  shows "paid_books (wallet_rows db) (insert t (set (ledger db))) (money_view ` set (put_row pi_id i' (payment_intents db)))"
proof (rule paid_books_settle [OF _ p])
  let ?is = "payment_intents db"
  have st: "set (put_row pi_id i' ?is) = insert i' {x \<in> set ?is. pi_id x \<noteq> pi_id i}"
    using i i' by (subst set_put_row) auto
  have mv: "money_view i' = (pi_id i, account_of i, pi_amount i, True)" using i' by (simp add: money_view_def)
  show "paid_books (wallet_rows db) (set (ledger db)) (money_view ` set ?is)" using inv by (simp add: pay_inv_def)
  show "money_view ` set (put_row pi_id i' ?is) \<subseteq> insert (pi_id i, account_of i, pi_amount i, True) (money_view ` set ?is)"
    "(pi_id i, account_of i, pi_amount i, True) \<in> money_view ` set (put_row pi_id i' ?is)"
    using st mv by auto
  fix j ac a
  assume "(j, ac, a, True) \<in> money_view ` set ?is"
  then obtain k where k: "k \<in> set ?is" "money_view k = (j, ac, a, True)" by auto
  then have "pi_id k \<noteq> pi_id i" using intent_by_id [OF inv k(1) i] ns by (auto simp: money_view_def)
  then have "k \<in> set (put_row pi_id i' ?is)" using k(1) st by simp
  then show "(j, ac, a, True) \<in> money_view ` set (put_row pi_id i' ?is)" using k(2) by (metis image_eqI)
qed

text \<open>The first settlement: one row for the amount of the intent, and the intent succeeds.\<close>

lemma first_settlement:
  assumes inv: "pay_inv db" and i: "i \<in> set (payment_intents db)" and w: "w \<in> set (wallets db)" "wallet_key w = account_of i"
    and new: "find_settlement db w (pi_id i) = None"
    and s: "settle_payment db w (pi_amount i) (pi_id i) d now = (db2, Inr t)"
    and u: "succeed_intent db2 i = (db3, Inr i')"
  shows "pay_inv db3" and "ledger db3 = ledger db @ [t]" and "lt_amount t = pi_amount i"
    and "find_settlement db3 w (pi_id i) = Some t" and "\<not> payment_terminal (pi_status i)"
    and "balance_of db3 = (balance_of db)(account_of i := balance_of db (account_of i) + pi_amount i)"
    and "db3 = put_intent i' db2" and "ledger_db.more db2 = ledger_db.more db" and "holds db3 = holds db"
    and "wallet_rows db3 = wallet_rows db"
proof -
  have li: "ledger_inv db" using inv by (simp add: pay_inv_def)
  note e = settle_payment_entry [OF li s]
  have f: "lt_wallet_id t = w_id w" "lt_transaction_type t = TransactionType.CREDIT" "lt_amount t = pi_amount i"
    using e(1) by (simp_all add: one_entry_def)
  have match: "is_settlement t" using e(3) by (simp add: is_settlement_def)
  have b: "books now db db2 t"
    using e f new by (auto simp: one_entry_def find_settlement_def first_row_None_iff)
  show more: "ledger_db.more db2 = ledger_db.more db" using books_more [OF b] .
  have ns: "pi_status i \<noteq> PaymentIntentStatus.SUCCEEDED"
    using new find_settlement_iff [OF inv i w] by auto
  then show "\<not> payment_terminal (pi_status i)" and db3: "db3 = put_intent i' db2"
    using succeed_intent_InrD(2) [OF u] by blast+
  have l2: "ledger db2 = ledger db @ [t]" and n2: "next_id db2 = Suc (next_id db)"
    using b by (auto simp: books_def)
  have rows: "wallet_rows db2 = wallet_rows db" using books_rows [OF b] .
  show "wallet_rows db3 = wallet_rows db" using rows db3 by simp
  show "ledger db3 = ledger db @ [t]" "lt_amount t = pi_amount i" using l2 db3 f by simp_all
  show "holds db3 = holds db" using books_holds [OF b] db3 by simp
  have "find_settlement db2 w (pi_id i) = Some t"
    using new e(3,4) f l2 by (simp add: find_settlement_def first_row_append)
  then show "find_settlement db3 w (pi_id i) = Some t" by (simp add: db3 find_settlement_def)
  have "balance_of db2 = (balance_of db)(wallet_key w := balance_of db (wallet_key w) + pi_amount i)"
    using balance_of_move [OF li b w(1)] f by simp
  then show "balance_of db3 = (balance_of db)(account_of i := balance_of db (account_of i) + pi_amount i)"
    by (simp add: db3 w(2))
  have i': "i' = i\<lparr>pi_status := PaymentIntentStatus.SUCCEEDED\<rparr>" using succeed_intent_InrD(1) [OF u] .
  have isq: "payment_intents db3 = put_row pi_id i' (payment_intents db)" using pay_tables_eq [OF more] db3 by simp
  have "(w_id w, account_of i) \<in> wallet_rows db" using w by (force simp: wallet_rows_def)
  then have "pays (wallet_rows db) (pi_id i) (account_of i) (pi_amount i) t"
    using f e(3,4) by (simp add: pays_def is_settlement_def)
  note pb = paid_books_succeed [OF inv i ns this i']
  have "pay_rows db3"
  proof (rule pay_rows_frame [of db])
    show "map intent_key (payment_intents db3) = map intent_key (payment_intents db)"
      unfolding isq using inv i i' by (intro put_row_maps [of i]) (auto simp: pay_inv_def pay_rows_def intent_key_def)
  qed (use inv n2 db3 isq pay_tables_eq [OF more] in \<open>auto simp: pay_inv_def\<close>)
  then show "pay_inv db3"
    using books_keeps_inv [OF li b] db3 rows l2 isq pb by (simp add: pay_inv_def)
qed

text \<open>What a settlement of the intent \<open>i\<close> does to the store: the row \<open>t\<close> is written at most once.\<close>

definition settles ::
  "'x pay_db_scheme \<Rightarrow> payment_intent \<Rightarrow> 'x pay_db_scheme \<Rightarrow> payment_intent \<Rightarrow> ledger_transaction \<Rightarrow> bool" where
  "settles db i db' i' t \<longleftrightarrow>
     pay_inv db' \<and> i' = i\<lparr>pi_status := PaymentIntentStatus.SUCCEEDED\<rparr> \<and>
     payment_intents db' = put_row pi_id i' (payment_intents db) \<and> webhook_events db' = webhook_events db \<and>
     provider_configs db' = provider_configs db \<and> holds db' = holds db \<and> next_id db \<le> next_id db' \<and>
     lt_amount t = pi_amount i \<and>
     (\<exists>w \<in> set (wallets db'). wallet_key w = account_of i \<and> find_settlement db' w (pi_id i) = Some t) \<and>
     (if pi_status i = PaymentIntentStatus.SUCCEEDED then ledger db' = ledger db \<and> balance_of db' = balance_of db
      else \<not> payment_terminal (pi_status i) \<and> ledger db' = ledger db @ [t] \<and>
        balance_of db' = (balance_of db)(account_of i := balance_of db (account_of i) + pi_amount i))"

lemma settles_frame:
  assumes "settles db i db1 i' t" and "pay_inv db2" and "wallets db2 = wallets db1" "ledger db2 = ledger db1"
    "holds db2 = holds db1" "payment_intents db2 = payment_intents db1" "webhook_events db2 = webhook_events db1"
    "provider_configs db2 = provider_configs db1" "next_id db1 \<le> next_id db2"
  shows "settles db i db2 i' t"
proof -
  have "balance_of db2 = balance_of db1" using assms(3) by (simp add: balance_of_def fun_eq_iff)
  moreover have "find_settlement db2 = find_settlement db1" using assms(4) by (simp add: find_settlement_def fun_eq_iff)
  ultimately show ?thesis using assms by (auto simp: settles_def)
qed

lemma settle_core:
  assumes inv: "pay_inv db" and i: "i \<in> set (payment_intents db)"
    and g: "get_or_create_wallet db (pi_tenant_id i) (pi_user_id i) (pi_currency i) = (db1, Inr w)"
    and c: "find_settlement db1 w (pi_id i) = Some t \<and> db2 = db1 \<or>
       find_settlement db1 w (pi_id i) = None \<and> settle_payment db1 w (pi_amount i) (pi_id i) d now = (db2, Inr t)"
    and u: "succeed_intent db2 i = (db3, Inr i')"
  shows "settles db i db3 i' t" and "orders db3 = orders db"
proof -
  have li: "ledger_inv db" using inv by (simp add: pay_inv_def)
  note gd = get_or_create_wallet_InrD [OF li g]
  note tab = pay_tables_eq [OF gd(6)]
  have inv1: "pay_inv db1" using get_or_create_wallet_keeps [OF inv g] .
  have i1: "i \<in> set (payment_intents db1)" using i tab by simp
  have n1: "next_id db \<le> next_id db1" using get_or_create_wallet_next_id [OF li g] .
  have bal: "balance_of db1 = balance_of db" using balance_of_get_or_create [OF li g] .
  note f = find_settlement_iff [OF inv1 i1 gd(2,3)]
  from c have "settles db i db3 i' t \<and> orders db3 = orders db"
  proof
    assume old: "find_settlement db1 w (pi_id i) = Some t \<and> db2 = db1"
    then have ok: "pi_status i = PaymentIntentStatus.SUCCEEDED" using f by simp
    then have db3: "db3 = db1" "i' = i"
      using succeed_intent_InrD [OF u] old by (auto simp del: payment_terminal.simps) (simp_all add: payment_terminal.simps)
    note sd = find_settlement_SomeD [of db1 w "pi_id i" t]
    have "lt_amount t = pi_amount i"
      using old settlement_row(2) [OF inv1 i1 sd(1,3,4)] by (simp add: pays_def)
    moreover have "put_row pi_id i (payment_intents db) = payment_intents db"
      using i inv by (auto simp: pay_inv_def pay_rows_def)
    ultimately show ?thesis
      using db3 ok old gd tab inv1 n1 bal by (auto simp: settles_def)
  next
    assume new: "find_settlement db1 w (pi_id i) = None \<and> settle_payment db1 w (pi_amount i) (pi_id i) d now = (db2, Inr t)"
    note fs = first_settlement [OF inv1 i1 gd(2,3) conjunct1 [OF new] conjunct2 [OF new] u]
    note tab2 = pay_tables_eq [OF fs(8)]
    have "(w_id w, account_of i) \<in> wallet_rows db1" unfolding wallet_rows_def gd(3) [symmetric] using gd(2) by (rule imageI)
    then obtain v where v: "v \<in> set (wallets db3)" "wallet_key v = account_of i" "w_id v = w_id w"
      unfolding fs(10) [symmetric] by (auto simp: wallet_rows_def)
    then have "find_settlement db3 v (pi_id i) = Some t" using fs(4) by (simp add: find_settlement_def)
    moreover have "next_id db1 \<le> next_id db2"
      using one_entry_next_id [OF settle_payment_entry(1)] new inv1 by (auto simp: pay_inv_def)
    ultimately show ?thesis
      using fs(1,2,3,5,6,7,9) f new tab tab2 gd(4,5) n1 bal succeed_intent_InrD(1) [OF u] v(1,2)
      by (auto simp: settles_def simp del: payment_terminal.simps)
  qed
  then show "settles db i db3 i' t" "orders db3 = orders db" by simp_all
qed

lemma settle_wallet_topup_InrD:
  assumes inv: "pay_inv db" and i: "i \<in> set (payment_intents db)"
    and s: "settle_wallet_topup db i va vc now = (db', Inr (i', t))"
  shows "settles db i db' i' t" and "pi_order_id i = None" and "\<not> amounts_mismatch i va vc" and "orders db' = orders db"
proof -
  show ok: "pi_order_id i = None" "\<not> amounts_mismatch i va vc"
    using s by (auto simp: settle_wallet_topup_def split: if_splits)
  obtain db1 w where g: "get_or_create_wallet db (pi_tenant_id i) (pi_user_id i) (pi_currency i) = (db1, Inr w)"
    and r: "(case find_settlement db1 w (pi_id i) of
          Some existing_tx \<Rightarrow> and_then (succeed_intent db1 i) (\<lambda>db intent. (db, Inr (intent, existing_tx)))
        | None \<Rightarrow>
            and_then (settle_payment db1 w (pi_amount i) (pi_id i)
                (Some (''Wallet top-up settlement via '' @ pi_provider i)) now) (\<lambda>db ledger_tx.
            and_then (succeed_intent db i) (\<lambda>db intent.
            and_then (flush_payment_transaction db
                 (settlement_transaction db intent [(''purpose'', JStr ''WALLET_TOPUP'')])) (\<lambda>db _.
              (db, Inr (intent, ledger_tx)))))) = (db', Inr (i', t))"
    using s ok by (auto simp: settle_wallet_topup_def and_then_Inr_iff)
  show "settles db i db' i' t" "orders db' = orders db"
  proof (atomize (full), cases "find_settlement db1 w (pi_id i)")
    case None
    then obtain db2 db3 x where "settle_payment db1 w (pi_amount i) (pi_id i)
          (Some (''Wallet top-up settlement via '' @ pi_provider i)) now = (db2, Inr t)"
      and u: "succeed_intent db2 i = (db3, Inr i')" and f: "flush_payment_transaction db3
          (settlement_transaction db3 i' [(''purpose'', JStr ''WALLET_TOPUP'')]) = (db', Inr x)"
      using r by (auto simp: and_then_Inr_iff)
    note core = settle_core [OF inv i g disjI2 [OF conjI [OF None this(1)]] u]
    have "pay_inv db3" using core(1) by (simp add: settles_def)
    note fl = flush_payment_transaction_keeps [OF this f]
    show "settles db i db' i' t \<and> orders db' = orders db"
      using settles_frame [OF core(1) fl(1)] fl core(2) by simp
  next
    case (Some x)
    then have "x = t" and u: "succeed_intent db1 i = (db', Inr i')" using r by (auto simp: and_then_Inr_iff)
    then show "settles db i db' i' t \<and> orders db' = orders db"
      using settle_core [OF inv i g _ u, of t] Some by simp
  qed
qed

lemma get_payment_intent_InrD:
  assumes "get_payment_intent db n j = Inr i"
  shows "i \<in> set (payment_intents db)" and "pi_id i = j" and "pi_tenant_id i = n"
  using assms by (auto simp: get_payment_intent_def res_bind_Inr_iff dest!: scalar_one_or_none_SomeD
      split: option.splits if_splits)

lemma unique_found:
  assumes "distinct (map k rs)" and "r \<in> set rs"
  shows "scalar_one_or_none (\<lambda>x. k x = k r) rs = Inr (Some r)"
proof -
  have "scalar_one_or_none (\<lambda>x. k x = k r) rs = Inr (first_row (\<lambda>x. k x = k r) rs)"
    using assms(1) by (rule scalar_one_or_none_unique) simp
  moreover have "first_row (\<lambda>x. k x = k r) rs = Some r"
  proof (cases "first_row (\<lambda>x. k x = k r) rs")
    case (Some x)
    then show ?thesis using assms by (auto simp: distinct_map inj_on_def dest!: first_row_SomeD)
  qed (use assms(2) in \<open>auto simp: first_row_None_iff\<close>)
  ultimately show ?thesis by simp
qed

lemma get_payment_intent_row:
  assumes inv: "pay_inv db" and i: "i \<in> set (payment_intents db)"
  shows "get_payment_intent db n (pi_id i) = (if pi_tenant_id i = n then Inr i else Inl TenantAccessViolationError)"
  using unique_found [OF _ i, of pi_id] inv by (simp add: get_payment_intent_def pay_inv_def pay_rows_def)

lemma find_order_put:
  assumes "distinct (map o_id (orders db))" and "find_order db k = Some ord" and "o_id ord' = o_id ord"
  shows "find_order (put_order ord' db) k = Some ord'"
proof -
  obtain j where j: "k = Some j" "first_row (\<lambda>x. o_id x = j) (orders db) = Some ord"
    using assms(2) by (auto simp: find_order_def split: option.splits)
  then have "o_id ord = j" by (auto dest: first_row_SomeD)
  moreover have "first_row (\<lambda>x. o_id x = o_id ord) (put_row o_id ord' rs) = Some ord'"
    if "first_row (\<lambda>x. o_id x = o_id ord) rs = Some ord" for rs
    using that assms(3) by (induction rs) (auto simp: put_row_def split: if_splits)
  ultimately show ?thesis using j by (simp add: find_order_def)
qed

text \<open>An order is paid by a settlement of an intent for exactly its total.\<close>

definition order_settled :: "'x pay_db_scheme \<Rightarrow> payment_intent \<Rightarrow> 'x pay_db_scheme \<Rightarrow> bool" where
  "order_settled db i db' \<longleftrightarrow>
     (\<exists>ord ord'. find_order db (pi_order_id i) = Some ord \<and> find_order db' (pi_order_id i) = Some ord' \<and>
        o_total_amount ord = pi_amount i \<and> o_currency ord = pi_currency i \<and> o_tenant_id ord = pi_tenant_id i \<and>
        o_status ord \<noteq> OrderStatus.PENDING \<and> orders db' = put_row o_id ord' (orders db) \<and>
        ord' = (if o_status ord = OrderStatus.PAYMENT_PENDING then ord\<lparr>o_status := OrderStatus.PAID\<rparr> else ord))"

lemma pay_order_settles:
  assumes st: "settles db i db1 i' t" and o: "orders db1 = orders db" and f: "find_order db (pi_order_id i) = Some ord"
    and eq: "o_total_amount ord = pi_amount i" "o_currency ord = pi_currency i" "o_tenant_id ord = pi_tenant_id i"
    and p: "pay_order db1 ord = (db2, Inr ord')"
  shows "settles db i db2 i' t" and "order_settled db i db2"
proof -
  have inv: "pay_inv db1" using st by (simp add: settles_def)
  have f1: "find_order db1 (pi_order_id i) = Some ord" using f o by (simp add: find_order_def split: option.splits)
  note pd = pay_order_InrD [OF p]
  then have "db2 = put_order ord' db1 \<or> db2 = db1" by blast
  then show "settles db i db2 i' t"
    using st settles_frame [OF st put_order_keeps [OF inv], of ord'] by auto
  have "find_order (put_order ord' db1) (pi_order_id i) = Some ord'" if "o_id ord' = o_id ord"
    using find_order_put [OF _ f1 that] inv by (simp add: pay_inv_def pay_rows_def)
  moreover have "put_row o_id ord (orders db) = orders db"
    using f inv o by (auto simp: find_order_def pay_inv_def pay_rows_def dest!: first_row_SomeD split: option.splits)
  ultimately show "order_settled db i db2" using pd f f1 eq o by (auto simp: order_settled_def)
qed

lemma settle_payment_intent_InrD:
  assumes inv: "pay_inv db" and s: "settle_payment_intent db n j va vc now = (db', Inr (i', t))"
  obtains i where "get_payment_intent db n j = Inr i" "settles db i db' i' t" "\<not> amounts_mismatch i va vc"
    "if pi_purpose i = WALLET_TOPUP then pi_order_id i = None \<and> orders db' = orders db else order_settled db i db'"
proof -
  obtain i where gi: "get_payment_intent db n j = Inr i" using s by (auto simp: settle_payment_intent_def lift_res_Inr_iff)
  note i = get_payment_intent_InrD [OF gi]
  show thesis
  proof (cases "pi_purpose i = WALLET_TOPUP")
    case True
    then have "settle_wallet_topup db i va vc now = (db', Inr (i', t))" using s gi by (simp add: settle_payment_intent_def)
    from settle_wallet_topup_InrD [OF inv i(1) this] show ?thesis using True gi by (intro that) auto
  next
    case False
    obtain ord where f: "find_order db (pi_order_id i) = Some ord" "o_tenant_id ord = n" "\<not> amounts_mismatch i va vc"
      "pi_amount i = o_total_amount ord" "pi_currency i = o_currency ord"
      using s gi False by (auto simp: settle_payment_intent_def split: option.splits if_splits)
    obtain db1 w where g: "get_or_create_wallet db n (pi_user_id i) (pi_currency i) = (db1, Inr w)"
      and r: "(case find_settlement db1 w (pi_id i) of
          Some existing_tx \<Rightarrow> and_then (succeed_intent db1 i) (\<lambda>db intent. and_then (pay_order db ord) (\<lambda>db _. (db, Inr (intent, existing_tx))))
        | None \<Rightarrow> and_then (settle_payment db1 w (pi_amount i) (pi_id i)
              (Some (''Payment settlement for order '' @ o_order_number ord)) now) (\<lambda>db ledger_tx.
            and_then (succeed_intent db i) (\<lambda>db intent. and_then (pay_order db ord) (\<lambda>db _.
            and_then (flush_payment_transaction db (settlement_transaction db intent [])) (\<lambda>db _.
              (db, Inr (intent, ledger_tx))))))) = (db', Inr (i', t))"
      using s gi False f by (auto simp: settle_payment_intent_def and_then_Inr_iff split: if_splits)
    have eq: "o_total_amount ord = pi_amount i" "o_currency ord = pi_currency i" "o_tenant_id ord = pi_tenant_id i"
      using f i by simp_all
    have "settles db i db' i' t \<and> order_settled db i db'"
    proof (cases "find_settlement db1 w (pi_id i)")
      case None
      then obtain db2 db3 db4 ord' x where sp: "settle_payment db1 w (pi_amount i) (pi_id i)
            (Some (''Payment settlement for order '' @ o_order_number ord)) now = (db2, Inr t)"
        and u: "succeed_intent db2 i = (db3, Inr i')" and po: "pay_order db3 ord = (db4, Inr ord')"
        and fl: "flush_payment_transaction db4 (settlement_transaction db4 i' []) = (db', Inr x)"
        using r by (auto simp: and_then_Inr_iff)
      note core = settle_core [OF inv i(1) g [folded i(3)] disjI2 [OF conjI [OF None sp]] u]
      note paid = pay_order_settles [OF core f(1) eq po]
      have "pay_inv db4" using paid(1) by (simp add: settles_def)
      note fk = flush_payment_transaction_keeps [OF this fl]
      show ?thesis using settles_frame [OF paid(1) fk(1)] fk paid(2)
        by (auto simp: order_settled_def find_order_def split: option.splits)
    next
      case (Some x)
      then obtain db2 ord' where u: "succeed_intent db1 i = (db2, Inr i')" and po: "pay_order db2 ord = (db', Inr ord')"
        and "x = t" using r by (auto simp: and_then_Inr_iff)
      then have "find_settlement db1 w (pi_id i) = Some t \<and> db1 = db1 \<or>
          find_settlement db1 w (pi_id i) = None \<and> settle_payment db1 w (pi_amount i) (pi_id i) None now = (db1, Inr t)"
        using Some by simp
      note core = settle_core [OF inv i(1) g [folded i(3)] this u]
      show ?thesis using pay_order_settles [OF core f(1) eq po] by simp
    qed
    then show ?thesis using False gi f by (intro that) auto
  qed
qed

section \<open>Every request keeps the invariant\<close>

lemma settles_inv: "settles db i db' i' t \<Longrightarrow> pay_inv db'"
  by (simp add: settles_def)

lemma transition_InrD:
  assumes "PaymentStateMachine_transition i s = Inr i'"
  shows "i' = i\<lparr>pi_status := s\<rparr>" and "pi_status i = s \<or> \<not> payment_terminal (pi_status i)"
  using assms by (auto simp: PaymentStateMachine_transition_def PaymentStateMachine_can_transition_def Let_def split: if_splits)

lemma money_view_status:
  assumes "PaymentStateMachine_transition i s = Inr i'" and "s \<noteq> PaymentIntentStatus.SUCCEEDED"
  shows "money_view i' = money_view i" and "intent_key i' = intent_key i"
  using transition_InrD [OF assms(1)] assms(2) by (auto simp: money_view_def intent_key_def)

lemma put_transition_keeps:
  assumes "pay_inv db" and "i \<in> set (payment_intents db)" and "PaymentStateMachine_transition i s = Inr i'"
    and "s \<noteq> PaymentIntentStatus.SUCCEEDED"
  shows "pay_inv (put_intent i' db)" and "i' \<in> set (payment_intents (put_intent i' db))"
proof -
  show "pay_inv (put_intent i' db)" using put_intent_keeps [OF assms(1,2) money_view_status [OF assms(3,4)]] .
  show "i' \<in> set (payment_intents (put_intent i' db))"
    using assms(2) transition_InrD(1) [OF assms(3)] by (auto intro: put_row_in)
qed

lemma cancel_payment_intent_keeps:
  assumes inv: "pay_inv db" and c: "cancel_payment_intent db n j = (db', Inr i)"
  shows "pay_inv db'"
proof -
  obtain i0 i1 where g: "get_payment_intent db n j = Inr i0"
    and t: "PaymentStateMachine_transition i0 PaymentIntentStatus.CANCELLED = Inr i1"
    and db': "db' = put_intent i1 db \<or> (\<exists>ord. db' = put_order ord (put_intent i1 db))"
    using c by (auto simp: cancel_payment_intent_def lift_res_Inr_iff Let_def split: if_splits option.splits)
  have "pay_inv (put_intent i1 db)"
    using put_transition_keeps [OF inv get_payment_intent_InrD(1) [OF g] t] by simp
  then show ?thesis using db' put_order_keeps by auto
qed

lemma await_payment_keeps:
  assumes "pay_inv db" and "await_payment db k = (db', Inr u)"
  shows "pay_inv db'" and "payment_intents db' = payment_intents db" and "ledger db' = ledger db" and "wallets db' = wallets db"
    and "db' = db \<or> (\<exists>ord. db' = put_order ord db)"
proof -
  show c: "db' = db \<or> (\<exists>ord. db' = put_order ord db)"
    using assms(2) by (auto simp: await_payment_def lift_res_Inr_iff split: option.splits if_splits)
  then show "pay_inv db'" "payment_intents db' = payment_intents db" "ledger db' = ledger db" "wallets db' = wallets db"
    using assms(1) put_order_keeps by auto
qed

lemma flush_intent_InrD:
  assumes inv: "pay_inv db" and f: "flush_intent db i = (db', Inr i')"
    and new: "pi_id i = next_id db" "pi_status i \<noteq> PaymentIntentStatus.SUCCEEDED"
  shows "pay_inv db'" and "i' = i" and "i \<in> set (payment_intents db')"
    and "db' = db\<lparr>payment_intents := payment_intents db @ [i], next_id := Suc (next_id db)\<rparr>"
proof -
  show db': "db' = db\<lparr>payment_intents := payment_intents db @ [i], next_id := Suc (next_id db)\<rparr>" and "i' = i"
    using f by (auto simp: flush_intent_def split: if_splits)
  then show "i \<in> set (payment_intents db')" by simp
  have "intent_key i \<notin> intent_key ` set (payment_intents db)"
    using f by (auto simp: flush_intent_def violates_def list_ex_iff split: if_splits)
  moreover have "pi_id i \<notin> pi_id ` set (payment_intents db)" using inv new(1) by (auto simp: pay_inv_def pay_rows_def)
  ultimately have "pay_rows db'" using inv new(1) by (auto simp: db' pay_inv_def pay_rows_def less_SucI)
  moreover have "ledger_inv db'" using inv ledger_inv_frame [of db db'] by (simp add: db' pay_inv_def)
  moreover have "paid_books (wallet_rows db') (set (ledger db')) (money_view ` set (payment_intents db'))"
    using inv new(2) paid_books_open by (auto simp: db' pay_inv_def wallet_rows_def money_view_def)
  ultimately show "pay_inv db'" by (simp add: pay_inv_def)
qed

lemma store_provider_result_InrD:
  assumes inv: "pay_inv db" and i: "i \<in> set (payment_intents db)" and r: "store_provider_result db i res = (db', Inr i')"
  shows "pay_inv db'" and "i' \<in> set (payment_intents db')" and "money_view i' = money_view i" and "intent_key i' = intent_key i"
    and "pi_status i' = pi_status i" and "pi_order_id i' = pi_order_id i" and "pi_amount i' = pi_amount i"
    and "orders db' = orders db" and "pi_currency i' = pi_currency i" and "pi_id i' = pi_id i"
    and "payment_intents db' = put_row pi_id i' (payment_intents db)" and "pi_purpose i' = pi_purpose i"
    and "pi_tenant_id i' = pi_tenant_id i" and "wallets db' = wallets db" and "ledger db' = ledger db"
proof -
  have put2: "put_row pi_id y (put_row pi_id x rs) = put_row pi_id y rs" if "pi_id x = pi_id y" for x y rs
    using that by (auto simp: put_row_def update_where_def)
  obtain url i1 where "store_provider_verification_attributes
        (i\<lparr>pi_provider_payment_id := Some (cs_provider_payment_id res), pi_checkout_url := url\<rparr>)
        (cs_verification_attributes res) = Inr i1" and "i' = i1"
      and db': "db' = put_intent i1 (put_intent (i\<lparr>pi_provider_payment_id := Some (cs_provider_payment_id res), pi_checkout_url := url\<rparr>)
          (put_intent (i\<lparr>pi_provider_payment_id := Some (cs_provider_payment_id res)\<rparr>) db))"
    using r by (auto simp: store_provider_result_def Let_def lift_res_Inr_iff)
  then obtain m where i': "i' = i\<lparr>pi_provider_payment_id := Some (cs_provider_payment_id res), pi_checkout_url := url,
      pi_metadata_json := m\<rparr>"
    by (cases i) (auto simp: store_provider_verification_attributes_def res_bind_Inr_iff split: if_splits)
  have one: "db' = put_intent i' db"
    unfolding db' \<open>i' = i1\<close> [symmetric] put_intent_def by (simp add: put2 i')
  show mv: "money_view i' = money_view i" "intent_key i' = intent_key i" by (simp_all add: i' money_view_def intent_key_def)
  show "pay_inv db'" unfolding one using put_intent_keeps [OF inv i mv] .
  show "i' \<in> set (payment_intents db')" using i by (auto simp: one i' intro: put_row_in)
  show "pi_status i' = pi_status i" "pi_order_id i' = pi_order_id i" "pi_amount i' = pi_amount i" "orders db' = orders db"
    "pi_currency i' = pi_currency i" "pi_id i' = pi_id i" "payment_intents db' = put_row pi_id i' (payment_intents db)"
    "pi_purpose i' = pi_purpose i" "pi_tenant_id i' = pi_tenant_id i" "wallets db' = wallets db" "ledger db' = ledger db"
    by (simp_all add: one i')
qed

text \<open>How an intent for an order comes to be: found under its key, or written and offered to the provider.\<close>

lemma create_payment_intent_cases:
  assumes "create_payment_intent env db n u k prov key md ret now = (db', Inr i)"
  obtains (existing) ord where "scalar_one_or_none (\<lambda>x. o_id x = k) (orders db) = Inr (Some ord)" "o_tenant_id ord = n" "o_user_id ord = u"
      "o_status ord \<in> {OrderStatus.PENDING, OrderStatus.PAYMENT_PENDING}" "key \<noteq> []"
      "find_intent_by_key db n key = Inr (Some i)" "db' = db" "pi_order_id i = Some k" "pi_amount i = o_total_amount ord"
  | (fresh) ord i0 db1 where "scalar_one_or_none (\<lambda>x. o_id x = k) (orders db) = Inr (Some ord)" "o_tenant_id ord = n" "o_user_id ord = u"
      "o_status ord \<in> {OrderStatus.PENDING, OrderStatus.PAYMENT_PENDING}" "key \<noteq> []" "find_intent_by_key db n key = Inr None"
      "i0 = new_intent (next_id db) now n (Some k) ORDER_PAYMENT u None (lower prov) (o_currency ord) (o_total_amount ord) key md"
      "flush_intent db i0 = (db1, Inr i0)" "initialize_order_payment env db1 n k prov md ret i0 now = (db', Inr i)"
proof -
  obtain ord where ord: "scalar_one_or_none (\<lambda>x. o_id x = k) (orders db) = Inr (Some ord)" "o_tenant_id ord = n" "o_user_id ord = u"
      "o_status ord \<in> {OrderStatus.PENDING, OrderStatus.PAYMENT_PENDING}" "key \<noteq> []"
    using assms by (auto simp: create_payment_intent_def lift_res_Inr_iff split: if_splits option.splits)
  obtain found where found: "find_intent_by_key db n key = Inr found"
    using assms ord by (auto simp: create_payment_intent_def lift_res_Inr_iff Let_def split: if_splits)
  show thesis
  proof (cases found)
    case (Some e)
    then show ?thesis
      using assms ord found by (intro existing [OF ord]) (auto simp: create_payment_intent_def split: if_splits)
  next
    case None
    then show ?thesis
      using assms ord found
      by (intro fresh [OF ord found [unfolded None] refl]) (auto simp: create_payment_intent_def flush_intent_def Let_def split: if_splits)
  qed
qed

text \<open>What the provider's answer does to a new intent.\<close>

lemma mark_provider_creation_ambiguous_InrD:
  assumes "mark_provider_creation_ambiguous env i now = Inr i'"
  shows "\<exists>m. i' = i\<lparr>pi_status := PaymentIntentStatus.UNKNOWN, pi_metadata_json := m\<rparr>"
    and "pi_status i = PaymentIntentStatus.UNKNOWN \<or> \<not> payment_terminal (pi_status i)"
proof -
  obtain i1 m where i1: "(if pi_status i \<noteq> PaymentIntentStatus.UNKNOWN
      then PaymentStateMachine_transition i PaymentIntentStatus.UNKNOWN else Inr i) = Inr i1" and i': "i' = i1\<lparr>pi_metadata_json := m\<rparr>"
    using assms unfolding mark_provider_creation_ambiguous_def res_bind_Inr_iff by blast
  have "i1 = i\<lparr>pi_status := PaymentIntentStatus.UNKNOWN\<rparr> \<and>
      (pi_status i = PaymentIntentStatus.UNKNOWN \<or> \<not> payment_terminal (pi_status i))"
  proof (cases "pi_status i = PaymentIntentStatus.UNKNOWN")
    case True
    then show ?thesis using i1 by (cases i) auto
  next
    case False
    then have t: "PaymentStateMachine_transition i PaymentIntentStatus.UNKNOWN = Inr i1" using i1 by simp
    show ?thesis using transition_InrD [OF t] by blast
  qed
  then show "\<exists>m. i' = i\<lparr>pi_status := PaymentIntentStatus.UNKNOWN, pi_metadata_json := m\<rparr>"
    "pi_status i = PaymentIntentStatus.UNKNOWN \<or> \<not> payment_terminal (pi_status i)"
    using i' by auto
qed

lemma ambiguous_keeps:
  assumes "pay_inv db" and "i \<in> set (payment_intents db)" and m: "mark_provider_creation_ambiguous env i now = Inr i'"
  shows "pay_inv (put_intent i' db)" and "i' \<in> set (payment_intents (put_intent i' db))"
proof -
  from mark_provider_creation_ambiguous_InrD [OF m]
  have "money_view i' = money_view i" "intent_key i' = intent_key i" "pi_id i' = pi_id i"
    by (auto simp: money_view_def intent_key_def)
  then show "pay_inv (put_intent i' db)" "i' \<in> set (payment_intents (put_intent i' db))"
    using put_intent_keeps [OF assms(1,2)] assms(2) by (auto intro: put_row_in)
qed

lemma follow_provider_status_keeps:
  assumes "pay_inv db" and "i \<in> set (payment_intents db)" and "follow_provider_status db i s = (db', Inr i')"
    and "s \<noteq> PaymentIntentStatus.SUCCEEDED"
  shows "pay_inv db'" and "i' \<in> set (payment_intents db')" and "orders db' = orders db"
    and "i' = i\<lparr>pi_status := s\<rparr>" and "wallets db' = wallets db" and "ledger db' = ledger db"
proof -
  consider "db' = db" "i' = i" "s = pi_status i" | "PaymentStateMachine_transition i s = Inr i'" "db' = put_intent i' db"
    using assms(3) by (auto simp: follow_provider_status_def lift_res_Inr_iff split: if_splits)
  then have "pay_inv db' \<and> i' \<in> set (payment_intents db') \<and> orders db' = orders db \<and> i' = i\<lparr>pi_status := s\<rparr> \<and>
    wallets db' = wallets db \<and> ledger db' = ledger db"
  proof cases
    case 1
    then show ?thesis using assms(1,2) by (cases i) simp
  next
    case 2
    then show ?thesis using put_transition_keeps [OF assms(1,2) 2(1) assms(4)] transition_InrD(1) [OF 2(1)] by auto
  qed
  then show "pay_inv db'" "i' \<in> set (payment_intents db')" "orders db' = orders db" "i' = i\<lparr>pi_status := s\<rparr>"
    "wallets db' = wallets db" "ledger db' = ledger db" by blast+
qed

lemma settle_payment_intent_keeps:
  assumes inv: "pay_inv db" and "settle_payment_intent db n j va vc now = (db', Inr (i', t))"
  shows "pay_inv db'" and "i' \<in> set (payment_intents db')"
proof -
  from settle_payment_intent_InrD [OF assms] obtain i where g: "get_payment_intent db n j = Inr i" and s: "settles db i db' i' t"
    by blast
  show "pay_inv db'" using s by (rule settles_inv)
  show "i' \<in> set (payment_intents db')"
    using s get_payment_intent_InrD(1) [OF g] by (auto simp: settles_def intro: put_row_in)
qed

lemma initialize_order_payment_keeps:
  assumes inv: "pay_inv db" and i: "i \<in> set (payment_intents db)"
    and r: "initialize_order_payment env db n k prov md ret i now = (db', Inr i')"
  shows "pay_inv db' \<and> i' \<in> set (payment_intents db')"
proof -
  obtain p where p: "env_provider env n prov = Inr p" using r by (auto simp: initialize_order_payment_def lift_res_Inr_iff)
  let ?req = "\<lparr>cr_order_id = Some k, cr_amount = pi_amount i, cr_currency = pi_currency i,
          cr_idempotency_key = pi_idempotency_key i, cr_metadata = md, cr_return_url = ret\<rparr>"
  show ?thesis
  proof (cases "create_payment p ?req")
    case (Inl e)
    then have m: "mark_provider_creation_ambiguous env i now = Inr i'" and a: "await_payment (put_intent i' db) k = (db', Inr ())"
      using r p by (auto simp: initialize_order_payment_def lift_res_Inr_iff and_then_Inr_iff split: if_splits)
    note k = ambiguous_keeps [OF inv i m]
    show ?thesis using await_payment_keeps(1,2) [OF k(1) a] k(2) by simp
  next
    case (Inr res)
    then obtain db2 i1 db3 where st: "store_provider_result db i res = (db2, Inr i1)"
      and c: "(if cs_status res = PaymentIntentStatus.SUCCEEDED
         then and_then (settle_payment_intent db2 n (pi_id i1) (Some (pi_amount i1)) (Some (pi_currency i1)) now)
             (\<lambda>db (i, _). (db, Inr i))
         else follow_provider_status db2 i1 (cs_status res)) = (db3, Inr i')"
      and a: "await_payment db3 k = (db', Inr ())"
      using r p by (auto simp: initialize_order_payment_def and_then_Inr_iff)
    note sd = store_provider_result_InrD [OF inv i st]
    have "pay_inv db3 \<and> i' \<in> set (payment_intents db3)"
    proof (cases "cs_status res = PaymentIntentStatus.SUCCEEDED")
      case True
      then show ?thesis using c settle_payment_intent_keeps [OF sd(1)] by (auto simp: and_then_Inr_iff)
    next
      case False
      then show ?thesis using c follow_provider_status_keeps(1,2) [OF sd(1,2)] by auto
    qed
    then show ?thesis using await_payment_keeps(1,2) [OF _ a] by simp
  qed
qed

lemma create_payment_intent_keeps:
  assumes inv: "pay_inv db" and "create_payment_intent env db n u k prov key md ret now = (db', Inr i)"
  shows "pay_inv db'"
  using assms(2)
proof (cases rule: create_payment_intent_cases)
  case existing
  then show ?thesis using inv by simp
next
  case (fresh ord i0 db1)
  note fl = flush_intent_InrD [OF inv fresh(8)]
  show ?thesis using initialize_order_payment_keeps [OF _ _ fresh(9)] fl fresh(7) by (simp add: new_intent_def)
qed

lemma settle_wallet_topup_keeps:
  assumes "pay_inv db" and "i \<in> set (payment_intents db)" and "settle_wallet_topup db i va vc now = (db', Inr (i', t))"
  shows "pay_inv db'"
  using settles_inv [OF settle_wallet_topup_InrD(1) [OF assms]] .

lemma initialize_topup_keeps:
  assumes inv: "pay_inv db" and i: "i \<in> set (payment_intents db)"
    and r: "initialize_topup env db n u ret ctx i now = (db', Inr i')"
  shows "pay_inv db'"
proof -
  obtain p where p: "env_provider env n (pi_provider i) = Inr p" using r by (auto simp: initialize_topup_def lift_res_Inr_iff)
  let ?req = "\<lparr>cr_order_id = None, cr_amount = pi_amount i, cr_currency = pi_currency i,
          cr_idempotency_key = pi_idempotency_key i, cr_metadata = topup_request_metadata i n u ctx, cr_return_url = ret\<rparr>"
  show ?thesis
  proof (cases "create_payment p ?req")
    case (Inl e)
    then have m: "mark_provider_creation_ambiguous env i now = Inr i'" and "db' = put_intent i' db"
      using r p by (auto simp: initialize_topup_def lift_res_Inr_iff split: if_splits)
    then show ?thesis using ambiguous_keeps [OF inv i m] by simp
  next
    case (Inr res)
    then obtain db1 i1 where st: "store_provider_result db i res = (db1, Inr i1)"
      and c: "(let intent = (if cs_raw_data res = [] then i1 else i1\<lparr>pi_metadata_json :=
                 dict_set (pi_metadata_json i1) ''provider_create'' (JObj (cs_raw_data res))\<rparr>);
             db = put_intent intent db1
         in if cs_status res = PaymentIntentStatus.SUCCEEDED
            then and_then (settle_wallet_topup db intent (Some (pi_amount intent)) (Some (pi_currency intent)) now)
                   (\<lambda>db (i, _). (db, Inr i))
            else follow_provider_status db intent (cs_status res)) = (db', Inr i')"
      using r p by (auto simp: initialize_topup_def and_then_Inr_iff)
    note sd = store_provider_result_InrD [OF inv i st]
    define i2 where "i2 = (if cs_raw_data res = [] then i1 else i1\<lparr>pi_metadata_json :=
                 dict_set (pi_metadata_json i1) ''provider_create'' (JObj (cs_raw_data res))\<rparr>)"
    have mv: "money_view i2 = money_view i1" "intent_key i2 = intent_key i1" by (simp_all add: i2_def money_view_def intent_key_def)
    have k: "pay_inv (put_intent i2 db1)" "i2 \<in> set (payment_intents (put_intent i2 db1))"
      using put_intent_keeps [OF sd(1,2) mv] mv(1) sd(2) by (auto simp: money_view_def intro: put_row_in)
    show ?thesis
      using c [unfolded Let_def i2_def [symmetric]] settle_wallet_topup_keeps [OF k] follow_provider_status_keeps(1) [OF k]
      by (auto simp: and_then_Inr_iff split: if_splits)
  qed
qed

text \<open>A top-up intent: found under its key, or written within the policy and offered to the provider.\<close>

lemma create_wallet_topup_intent_cases:
  assumes "create_wallet_topup_intent env db n u amount cur prov key md ret pm ctx now = (db', Inr i)"
  obtains (existing) "find_intent_by_key db n key = Inr (Some i)" "db' = db"
      "same_topup i u (lower (strip prov)) pm amount (upper (strip cur))"
  | (fresh) c md' i0 db1 where "0 < amount" "quantize round_half_even 2 amount = amount" "c \<in> set (provider_configs db)"
      "pc_tenant_id c = n" "pc_is_enabled c" "topup_policy_check env (pc_settings_json c) amount (upper (strip cur)) md now = Inr md'"
      "find_intent_by_key db n key = Inr None"
      "i0 = new_intent (next_id db) now n None WALLET_TOPUP u pm (lower (strip prov)) (upper (strip cur)) amount key md'"
      "flush_intent db i0 = (db1, Inr i0)" "initialize_topup env db1 n u ret ctx i0 now = (db', Inr i)"
proof -
  let ?cfg = "\<lambda>c. pc_tenant_id c = n \<and> pc_provider_name c = lower (strip prov) \<and> pc_is_enabled c"
  have pre: "key \<noteq> []" "length (upper (strip cur)) = 3" "isalpha (upper (strip cur))"
      "quantize round_half_even 2 amount = amount" "0 < amount"
    using assms by (auto simp: create_wallet_topup_intent_def Let_def split: if_splits)
  obtain c where c: "scalar_one_or_none ?cfg (provider_configs db) = Inr (Some c)"
    using assms pre by (auto simp: create_wallet_topup_intent_def Let_def lift_res_Inr_iff split: option.splits)
  obtain md' where md': "topup_policy_check env (pc_settings_json c) amount (upper (strip cur)) md now = Inr md'"
    using assms pre c by (auto simp: create_wallet_topup_intent_def Let_def lift_res_Inr_iff)
  obtain found where found: "find_intent_by_key db n key = Inr found"
    using assms pre c md' by (auto simp: create_wallet_topup_intent_def Let_def lift_res_Inr_iff)
  note cd = scalar_one_or_none_SomeD [OF c]
  show thesis
  proof (cases found)
    case (Some e)
    then show ?thesis
      using assms pre c md' found by (intro existing) (auto simp: create_wallet_topup_intent_def Let_def split: if_splits)
  next
    case None
    then show ?thesis
      using assms pre c md' found cd
      by (intro fresh [OF pre(5,4) _ _ _ md' found [unfolded None] refl])
         (auto simp: create_wallet_topup_intent_def flush_intent_def Let_def split: if_splits)
  qed
qed

lemma create_wallet_topup_intent_keeps:
  assumes inv: "pay_inv db" and "create_wallet_topup_intent env db n u amount cur prov key md ret pm ctx now = (db', Inr i)"
  shows "pay_inv db'"
  using assms(2)
proof (cases rule: create_wallet_topup_intent_cases)
  case existing
  then show ?thesis using inv by simp
next
  case (fresh c md' i0 db1)
  note fl = flush_intent_InrD [OF inv fresh(9)]
  show ?thesis using initialize_topup_keeps [OF _ _ fresh(10)] fl fresh(8) by (simp add: new_intent_def)
qed

lemma settle_telegram_stars_topup_InrD:
  assumes inv: "pay_inv db" and "settle_telegram_stars_topup db n u payload charge amount cur now = (db', Inr i')"
  obtains i i1 t where "validate_telegram_stars_checkout db n u payload amount cur = Inr i" "charge \<noteq> []"
    "i \<in> set (payment_intents db)" "pi_provider_payment_id i1 = Some charge"
    "i1 = i\<lparr>pi_provider_payment_id := Some charge,
        pi_metadata_json := dict_set (pi_metadata_json i) ''telegram_payment_charge_id'' (JStr charge)\<rparr>"
    "pay_inv (put_intent i1 db)" "i1 \<in> set (payment_intents (put_intent i1 db))"
    "settle_wallet_topup (put_intent i1 db) i1 (Some amount) (Some ''XTR'') now = (db', Inr (i', t))"
    "settles (put_intent i1 db) i1 db' i' t"
proof -
  obtain i where v: "validate_telegram_stars_checkout db n u payload amount cur = Inr i" and ch: "charge \<noteq> []"
    using assms(2) by (auto simp: settle_telegram_stars_topup_def lift_res_Inr_iff split: if_splits)
  define i1 where "i1 = i\<lparr>pi_provider_payment_id := Some charge,
        pi_metadata_json := dict_set (pi_metadata_json i) ''telegram_payment_charge_id'' (JStr charge)\<rparr>"
  obtain t where s: "settle_wallet_topup (put_intent i1 db) i1 (Some amount) (Some ''XTR'') now = (db', Inr (i', t))"
    using assms(2) v ch unfolding i1_def
    by (auto simp: settle_telegram_stars_topup_def and_then_Inr_iff Let_def split: if_splits)
  have i: "i \<in> set (payment_intents db)"
    using v by (auto simp: validate_telegram_stars_checkout_def res_bind_Inr_iff dest: get_payment_intent_InrD split: if_splits)
  have mv: "money_view i1 = money_view i" "intent_key i1 = intent_key i" "pi_id i1 = pi_id i"
    by (simp_all add: i1_def money_view_def intent_key_def)
  have k: "pay_inv (put_intent i1 db)" "i1 \<in> set (payment_intents (put_intent i1 db))"
    using put_intent_keeps [OF inv i mv(1,2)] i mv(3) by (auto intro: put_row_in)
  show thesis using that [OF v ch i _ i1_def k s settle_wallet_topup_InrD(1) [OF k s]] by (simp add: i1_def)
qed

lemma verify_webhook_request_cong:
  "provider_configs db' = provider_configs db \<Longrightarrow> verify_webhook_request env db' = verify_webhook_request env db"
  by (simp add: verify_webhook_request_def fun_eq_iff)

lemma process_webhook_cases:
  assumes "process_webhook env db n prov payload headers now = (db', Inr ev)"
  obtains (duplicate) v where "verify_webhook_request env db n prov payload headers = Inr v"
      "find_webhook db n (lower prov) (wr_provider_event_id v) = Inr (Some ev)" "db' = db"
  | (processed) v intent ev0 db1 db2 where "verify_webhook_request env db n prov payload headers = Inr v"
      "find_webhook db n (lower prov) (wr_provider_event_id v) = Inr None" "webhook_intent db n v = Inr intent"
      "we_id ev0 = next_id db" "webhook_key ev0 = (n, lower prov, wr_provider_event_id v)"
      "flush_webhook db ev0 = (db1, Inr ev0)"
      "(case intent of None \<Rightarrow> (db1, Inr ()) | Some i \<Rightarrow> apply_webhook env db1 n i v now) = (db2, Inr ())"
      "ev = ev0\<lparr>we_processed := True, we_processed_at := Some now\<rparr>"
      "db' = db2\<lparr>webhook_events := put_row we_id ev (webhook_events db2)\<rparr>"
proof -
  obtain v dup where v: "verify_webhook_request env db n prov payload headers = Inr v"
    and dup: "find_webhook db n (lower prov) (wr_provider_event_id v) = Inr dup"
    using assms by (auto simp: process_webhook_def lift_res_Inr_iff)
  show thesis
  proof (cases dup)
    case (Some e)
    then show ?thesis using duplicate [OF v] dup assms v by (simp add: process_webhook_def)
  next
    case None
    obtain intent where i: "webhook_intent db n v = Inr intent"
      using assms v dup None by (auto simp: process_webhook_def lift_res_Inr_iff)
    define ev0 where "ev0 = new_webhook_event env (next_id db) n (lower prov) payload v intent"
    obtain db1 where fl: "flush_webhook db ev0 = (db1, Inr ev0)"
      using assms v dup None i by (auto simp: process_webhook_def flush_webhook_def ev0_def split: if_splits)
    then obtain db2 where "(case intent of None \<Rightarrow> (db1, Inr ()) | Some i \<Rightarrow> apply_webhook env db1 n i v now) = (db2, Inr ())"
      "ev = ev0\<lparr>we_processed := True, we_processed_at := Some now\<rparr>"
      "db' = db2\<lparr>webhook_events := put_row we_id ev (webhook_events db2)\<rparr>"
      using assms v dup None i by (auto simp: process_webhook_def and_then_Inr_iff Let_def ev0_def [symmetric])
    then show ?thesis
      using processed [OF v dup [unfolded None] i _ _ fl] by (simp add: ev0_def new_webhook_event_def webhook_key_def)
  qed
qed

lemma apply_webhook_keeps:
  assumes inv: "pay_inv db" and i: "i \<in> set (payment_intents db)" and r: "apply_webhook env db n i v now = (db', Inr ())"
  shows "pay_inv db'" and "webhook_events db' = webhook_events db" and "provider_configs db' = provider_configs db"
    and "next_id db \<le> next_id db'"
proof -
  have "(\<exists>i' t. settle_payment_intent db n (pi_id i) (wr_amount v) (wr_currency v) now = (db', Inr (i', t))) \<or> db' = db \<or>
    (\<exists>st i'. st \<noteq> PaymentIntentStatus.SUCCEEDED \<and> PaymentStateMachine_transition i st = Inr i' \<and> db' = put_intent i' db)"
    using r by (auto simp: apply_webhook_def lift_res_Inr_iff and_then_Inr_iff split: if_splits option.splits)
  then have "pay_inv db' \<and> webhook_events db' = webhook_events db \<and> provider_configs db' = provider_configs db \<and> next_id db \<le> next_id db'"
  proof (elim disjE exE conjE)
    fix i' t
    assume "settle_payment_intent db n (pi_id i) (wr_amount v) (wr_currency v) now = (db', Inr (i', t))"
    from settle_payment_intent_InrD [OF inv this] show ?thesis by (auto simp: settles_def)
  next
    assume "db' = db"
    then show ?thesis using inv by simp
  next
    fix st i'
    assume "st \<noteq> PaymentIntentStatus.SUCCEEDED" "PaymentStateMachine_transition i st = Inr i'" "db' = put_intent i' db"
    then show ?thesis using put_transition_keeps [OF inv i] by simp
  qed
  then show "pay_inv db'" "webhook_events db' = webhook_events db" "provider_configs db' = provider_configs db"
    "next_id db \<le> next_id db'" by blast+
qed

lemma webhook_intent_InrD:
  "webhook_intent db n v = Inr (Some i) \<Longrightarrow> i \<in> set (payment_intents db) \<and> pi_tenant_id i = n \<and> pi_provider_payment_id i = wr_provider_payment_id v"
  by (auto simp: webhook_intent_def dest!: scalar_one_or_none_SomeD split: if_splits)

lemma flush_webhook_keeps:
  assumes inv: "pay_inv db" and f: "flush_webhook db e = (db', Inr e')" and "we_id e = next_id db"
  shows "pay_inv db'" and "db' = db\<lparr>webhook_events := webhook_events db @ [e], next_id := Suc (next_id db)\<rparr>"
proof -
  show db': "db' = db\<lparr>webhook_events := webhook_events db @ [e], next_id := Suc (next_id db)\<rparr>"
    using f by (auto simp: flush_webhook_def split: if_splits)
  have "webhook_key e \<notin> webhook_key ` set (webhook_events db)"
    using f by (auto simp: flush_webhook_def violates_def list_ex_iff split: if_splits)
  then have "pay_rows db'" using inv assms(3) by (auto simp: db' pay_inv_def pay_rows_def less_SucI)
  moreover have "ledger_inv db'" using inv ledger_inv_frame [of db db'] by (simp add: db' pay_inv_def)
  ultimately show "pay_inv db'" using inv by (simp add: db' pay_inv_def wallet_rows_def)
qed

lemma put_webhook_keeps:
  assumes inv: "pay_inv db" and e0: "e0 \<in> set (webhook_events db)" and e: "we_id e = we_id e0" "webhook_key e = webhook_key e0"
  shows "pay_inv (db\<lparr>webhook_events := put_row we_id e (webhook_events db)\<rparr>)"
    and "scalar_one_or_none (\<lambda>x. webhook_key x = webhook_key e)
      (webhook_events (db\<lparr>webhook_events := put_row we_id e (webhook_events db)\<rparr>)) = Inr (Some e)"
    and "provider_configs (db\<lparr>webhook_events := put_row we_id e (webhook_events db)\<rparr>) = provider_configs db"
proof -
  let ?db = "db\<lparr>webhook_events := put_row we_id e (webhook_events db)\<rparr>"
  have d: "distinct (map we_id (webhook_events db))" using inv by (simp add: pay_inv_def pay_rows_def)
  have maps: "map webhook_key (webhook_events ?db) = map webhook_key (webhook_events db)"
    using put_row_maps [OF e0 d e(1), of webhook_key] e(2) by simp
  have li: "ledger_inv ?db" using inv ledger_inv_frame [of db ?db] by (simp add: pay_inv_def)
  show inv': "pay_inv ?db"
    by (rule pay_inv_frame [OF inv li]) (use maps in \<open>simp_all add: wallet_rows_def\<close>)
  have "e \<in> set (webhook_events ?db)" using e0 e(1) put_row_in [of we_id e "webhook_events db"] by simp
  then show "scalar_one_or_none (\<lambda>x. webhook_key x = webhook_key e) (webhook_events ?db) = Inr (Some e)"
    using inv' by (intro unique_found) (simp_all add: pay_inv_def pay_rows_def)
  show "provider_configs ?db = provider_configs db" by simp
qed

lemma process_webhook_keeps:
  assumes inv: "pay_inv db" and w: "process_webhook env db n prov payload headers now = (db', Inr ev)"
  shows "pay_inv db'" and "provider_configs db' = provider_configs db"
    and "\<exists>v. verify_webhook_request env db n prov payload headers = Inr v \<and>
           find_webhook db' n (lower prov) (wr_provider_event_id v) = Inr (Some ev)"
proof -
  have "pay_inv db' \<and> provider_configs db' = provider_configs db \<and>
    (\<exists>v. verify_webhook_request env db n prov payload headers = Inr v \<and>
         find_webhook db' n (lower prov) (wr_provider_event_id v) = Inr (Some ev))"
    using w
  proof (cases rule: process_webhook_cases)
    case (duplicate v)
    then show ?thesis using inv by auto
  next
    case (processed v intent ev0 db1 db2)
    note fl = flush_webhook_keeps [OF inv processed(6,4)]
    have w1: "webhook_events db1 = webhook_events db @ [ev0]" "provider_configs db1 = provider_configs db"
      "payment_intents db1 = payment_intents db" unfolding fl(2) by simp_all
    have st: "pay_inv db2 \<and> webhook_events db2 = webhook_events db @ [ev0] \<and> provider_configs db2 = provider_configs db"
    proof (cases intent)
      case None
      then have "db2 = db1" using processed(7) by simp
      then show ?thesis using fl(1) w1 by simp
    next
      case (Some i)
      have "i \<in> set (payment_intents db1)" using webhook_intent_InrD [of db n v i] processed(3) Some w1(3) by simp
      moreover have "apply_webhook env db1 n i v now = (db2, Inr ())" using processed(7) Some by simp
      ultimately show ?thesis using apply_webhook_keeps(1,2,3) [OF fl(1)] w1(1,2) by metis
    qed
    have ev: "we_id ev = we_id ev0" "webhook_key ev = webhook_key ev0" using processed(8) by (simp_all add: webhook_key_def)
    have "ev0 \<in> set (webhook_events db2)" using st by simp
    note pk = put_webhook_keeps [OF conjunct1 [OF st] this ev, folded processed(9)]
    have "webhook_key ev = (n, lower prov, wr_provider_event_id v)" using ev processed(5) by simp
    then have "find_webhook db' n (lower prov) (wr_provider_event_id v) = Inr (Some ev)"
      using pk(2) by (simp add: find_webhook_def webhook_key_def)
    then show ?thesis using pk st processed(1) by auto
  qed
  then show "pay_inv db'" "provider_configs db' = provider_configs db"
    "\<exists>v. verify_webhook_request env db n prov payload headers = Inr v \<and>
       find_webhook db' n (lower prov) (wr_provider_event_id v) = Inr (Some ev)" by blast+
qed

lemma refund_not_settlement:
  assumes li: "ledger_inv db" and r: "refund db w a rid (Some CANONICAL_PAYMENT_REFUND_TYPE) d now = (db', Inr t)"
  shows "ledger db' = ledger db \<or> (\<exists>t. ledger db' = ledger db @ [t] \<and> \<not> is_settlement t)"
    and "wallet_rows db' = wallet_rows db"
proof -
  note e = refund_entry [OF li r]
  have "\<not> is_settlement t" using e(3) by (simp add: is_settlement_def reference_type_defs)
  moreover have "db' = db \<or> books now db db' t" using e(1) by (auto simp: one_entry_def)
  ultimately show "ledger db' = ledger db \<or> (\<exists>t. ledger db' = ledger db @ [t] \<and> \<not> is_settlement t)"
    "wallet_rows db' = wallet_rows db"
    using books_rows by (auto simp: books_def)
qed

lemma gateway_refund_InrD:
  assumes "gateway_refund env db n j amount reason key = Inr (i, a, k, res)"
  shows "get_payment_intent db n j = Inr i" "pi_purpose i = ORDER_PAYMENT" "pi_status i = PaymentIntentStatus.SUCCEEDED"
    "a = (case amount of Some a \<Rightarrow> a | None \<Rightarrow> pi_amount i)" "0 < a" "a \<le> pi_amount i"
proof -
  have "pi_purpose i = ORDER_PAYMENT \<longleftrightarrow> pi_purpose i \<noteq> WALLET_TOPUP" by (cases "pi_purpose i") auto
  with assms show "get_payment_intent db n j = Inr i" "pi_purpose i = ORDER_PAYMENT" "pi_status i = PaymentIntentStatus.SUCCEEDED"
    "a = (case amount of Some a \<Rightarrow> a | None \<Rightarrow> pi_amount i)" "0 < a" "a \<le> pi_amount i"
    by (auto simp: gateway_refund_def res_bind_Inr_iff Let_def split: if_splits)
qed

lemma refund_payment_InrD:
  assumes "refund_payment env db n j amount reason key now = (db', Inr pt)"
  obtains i a k res db1 db2 w db3 t where "gateway_refund env db n j amount reason key = Inr (i, a, k, res)"
    "pt = refund_transaction (next_id db) i a k res reason" "flush_payment_transaction db pt = (db1, Inr pt)"
    "get_or_create_wallet db1 n (pi_user_id i) (pi_currency i) = (db2, Inr w)"
    "refund db2 w a (Some (str_uuid (pi_id i))) (Some CANONICAL_PAYMENT_REFUND_TYPE)
       (or_default reason (''Payment refund for intent '' @ str_uuid (pi_id i))) now = (db3, Inr t)"
    "db' = db3 \<or> (\<exists>ord. db' = put_order ord db3)"
proof -
  obtain i a k res where g: "gateway_refund env db n j amount reason key = Inr (i, a, k, res)"
    using assms by (auto simp: refund_payment_def lift_res_Inr_iff)
  have pt: "flush_payment_transaction db y = (db1, Inr x) \<Longrightarrow> x = y" for db1 x y
    by (auto simp: flush_payment_transaction_def split: if_splits)
  obtain db1 p1 db2 w db3 t where f: "flush_payment_transaction db (refund_transaction (next_id db) i a k res reason) = (db1, Inr p1)"
      and r: "get_or_create_wallet db1 n (pi_user_id i) (pi_currency i) = (db2, Inr w)"
      "refund db2 w a (Some (str_uuid (pi_id i))) (Some CANONICAL_PAYMENT_REFUND_TYPE)
         (or_default reason (''Payment refund for intent '' @ str_uuid (pi_id i))) now = (db3, Inr t)"
      and c: "(case find_order db3 (pi_order_id i) of
         None \<Rightarrow> (db3, Inr p1)
       | Some ord \<Rightarrow>
           if a = pi_amount i \<and> o_status ord = OrderStatus.PAID
           then lift_res db3 (OrderStateMachine_transition ord OrderStatus.REFUNDED) (\<lambda>db ord. (put_order ord db, Inr p1))
           else (db3, Inr p1)) = (db', Inr pt)"
    using assms unfolding refund_payment_def g lift_res_Inr and_then_Inr_iff prod.case by blast
  have "p1 = pt" "db' = db3 \<or> (\<exists>ord. db' = put_order ord db3)"
    using c by (auto simp: lift_res_Inr_iff split: option.splits if_splits)
  then show thesis using that [OF g _ _ r] f pt [OF f] by simp
qed

lemma refund_payment_keeps:
  assumes inv: "pay_inv db" and "refund_payment env db n j amount reason key now = (db', Inr pt)"
  shows "pay_inv db'"
  using assms(2)
proof (rule refund_payment_InrD)
  fix i a k res db1 db2 w db3 t
  assume f: "flush_payment_transaction db pt = (db1, Inr pt)"
    and g: "get_or_create_wallet db1 n (pi_user_id i) (pi_currency i) = (db2, Inr w)"
    and r: "refund db2 w a (Some (str_uuid (pi_id i))) (Some CANONICAL_PAYMENT_REFUND_TYPE)
       (or_default reason (''Payment refund for intent '' @ str_uuid (pi_id i))) now = (db3, Inr t)"
    and db': "db' = db3 \<or> (\<exists>ord. db' = put_order ord db3)"
  have k: "pay_inv db2" using get_or_create_wallet_keeps [OF flush_payment_transaction_keeps(1) [OF inv f] g] .
  then have li: "ledger_inv db2" by (simp add: pay_inv_def)
  note e = refund_entry [OF li r]
  note tab = pay_tables_eq [OF one_entry_more [OF e(1)]]
  have "pay_inv db3"
    using refund_not_settlement [OF li r] one_entry_inv [OF li e(1)] one_entry_next_id [OF e(1)] tab
    by (intro pay_inv_frame [OF k]) auto
  then show ?thesis using db' put_order_keeps by auto
qed

end
