(* ===== verification/Payment_Runs.thy ===== *)
theory Payment_Runs
  imports Payment_Properties
begin

text \<open>
  The payment service over time. \<open>pay_history\<close> are the stores that sequences of requests produce:
  every entry point of the service under any answers of the providers, ledger operations of other
  components, new and changed orders, changed provider configurations. The properties of the
  service are stated for these stores or, stronger, for every store that satisfies \<open>pay_inv\<close>.
\<close>

section \<open>Histories\<close>

definition commit :: "('s \<Rightarrow> ('s, 'a) run) \<Rightarrow> 's \<Rightarrow> 's" where
  "commit handler s = fst (get_db_session handler s)"

lemma commit_keeps:
  assumes "P s" and "\<And>s' x. handler s = (s', Inr x) \<Longrightarrow> P s'"
  shows "P (commit handler s)"
  unfolding commit_def using assms by (rule request_keeps)

inductive pay_history :: "'x pay_db_scheme \<Rightarrow> bool" where
  start: "wallets db = [] \<Longrightarrow> ledger db = [] \<Longrightarrow> holds db = [] \<Longrightarrow> payment_intents db = [] \<Longrightarrow> orders db = [] \<Longrightarrow>
    webhook_events db = [] \<Longrightarrow> pay_history db"
| ledger_request: "pay_history db \<Longrightarrow> \<forall>t \<in> set (ledger (commit_op db now op)) - set (ledger db). \<not> is_settlement t \<Longrightarrow>
    pay_history (commit_op db now op)"
| place_order: "pay_history db \<Longrightarrow> o_id ord \<notin> o_id ` set (orders db) \<Longrightarrow> pay_history (db\<lparr>orders := orders db @ [ord]\<rparr>)"
| change_order: "pay_history db \<Longrightarrow> pay_history (put_order ord db)"
| configure: "pay_history db \<Longrightarrow> pay_history (db\<lparr>provider_configs := cs\<rparr>)"
| create_intent: "pay_history db \<Longrightarrow>
    pay_history (commit (\<lambda>db. create_payment_intent (env :: pay_env) db n u k prov key md ret now) db)"
| create_topup: "pay_history db \<Longrightarrow>
    pay_history (commit (\<lambda>db. create_wallet_topup_intent (env :: pay_env) db n u a cur prov key md ret pm ctx now) db)"
| cancel: "pay_history db \<Longrightarrow> pay_history (commit (\<lambda>db. cancel_payment_intent db n i) db)"
| settle: "pay_history db \<Longrightarrow> pay_history (commit (\<lambda>db. settle_payment_intent db n i va vc now) db)"
| stars: "pay_history db \<Longrightarrow> pay_history (commit (\<lambda>db. settle_telegram_stars_topup db n u payload charge a cur now) db)"
| webhook: "pay_history db \<Longrightarrow>
    pay_history (commit (\<lambda>db. process_webhook (env :: pay_env) db n prov payload headers now) db)"
| refund: "pay_history db \<Longrightarrow>
    pay_history (commit (\<lambda>db. refund_payment (env :: pay_env) db n i amount reason key now) db)"

lemma commit_op_keeps:
  assumes inv: "pay_inv db" and new: "\<forall>t \<in> set (ledger (commit_op db now op)) - set (ledger db). \<not> is_settlement t"
  shows "pay_inv (commit_op db now op)"
proof -
  have li: "ledger_inv db" using inv by (simp add: pay_inv_def)
  have st: "log_step now db (commit_op db now op)" using commit_op_log_step [OF li] .
  note tab = pay_tables_eq [of "commit_op db now op" db]
  have more: "ledger_db.more (commit_op db now op) = ledger_db.more db" using st by (simp add: log_step_def)
  have "ledger (commit_op db now op) = ledger db \<or> (\<exists>t. ledger (commit_op db now op) = ledger db @ [t] \<and> \<not> is_settlement t)"
  proof -
    have "ledger (commit_op db now op) = ledger db \<or>
        (\<exists>t. ledger (commit_op db now op) = ledger db @ [t] \<and> (\<forall>x \<in> set (ledger db). lt_id x < lt_id t))"
      using st by (auto simp: log_step_def)
    then show ?thesis using new by auto
  qed
  then show ?thesis using st tab [OF more] by (intro pay_inv_frame [OF inv]) (auto simp: log_step_def)
qed

lemma new_order_keeps:
  assumes "pay_inv db" and "o_id ord \<notin> o_id ` set (orders db)"
  shows "pay_inv (db\<lparr>orders := orders db @ [ord]\<rparr>)"
  using assms ledger_inv_frame [of db "db\<lparr>orders := orders db @ [ord]\<rparr>"]
  by (simp add: pay_inv_def pay_rows_def wallet_rows_def)

lemma configure_keeps:
  assumes "pay_inv db"
  shows "pay_inv (db\<lparr>provider_configs := cs\<rparr>)"
  using assms ledger_inv_frame [of db "db\<lparr>provider_configs := cs\<rparr>"]
  by (simp add: pay_inv_def pay_rows_def wallet_rows_def)

lemma stars_keeps:
  assumes "pay_inv db" and "settle_telegram_stars_topup db n u payload charge a cur now = (db', Inr i)"
  shows "pay_inv db'"
  using assms(2) by (rule settle_telegram_stars_topup_InrD [OF assms(1)]) (rule settles_inv)

lemmas service_keeps =
  create_payment_intent_keeps create_wallet_topup_intent_keeps cancel_payment_intent_keeps settle_payment_intent_keeps(1)
  stars_keeps process_webhook_keeps(1) refund_payment_keeps

lemma pay_history_inv: "pay_history db \<Longrightarrow> pay_inv db"
proof (induction rule: pay_history.induct)
  case (start db)
  then show ?case by (simp add: pay_inv_def pay_rows_def paid_books_def ledger_inv_def)
next
  case (settle db n i va vc now)
  then show ?case by (intro commit_keeps [of pay_inv]) (auto intro: settle_payment_intent_keeps(1))
qed (auto intro: commit_op_keeps new_order_keeps put_order_keeps configure_keeps commit_keeps [of pay_inv] dest: service_keeps)

section \<open>Intents and settlements\<close>

definition settlement_rows :: "'x pay_db_scheme \<Rightarrow> payment_intent \<Rightarrow> ledger_transaction list" where
  "settlement_rows db i = filter (\<lambda>t. lt_reference_type t = Some CANONICAL_SETTLEMENT_TYPE \<and>
     lt_reference_id t = Some (str_uuid (pi_id i))) (ledger db)"

lemma pays_unique:
  assumes inv: "ledger_inv db" and t: "t \<in> set (ledger db)" "pays (wallet_rows db) i acc a t"
    and x: "x \<in> set (ledger db)" "pays (wallet_rows db) i acc b x"
  shows "x = t"
proof -
  have "(lt_wallet_id t, acc) \<in> wallet_rows db" "(lt_wallet_id x, acc) \<in> wallet_rows db" using t x by (simp_all add: pays_def)
  then obtain w where "w \<in> set (wallets db)" "wallet_key w = acc" "w_id w = lt_wallet_id t" by (auto simp: wallet_rows_def)
  then have "lt_wallet_id x = lt_wallet_id t"
    using wallet_of_row [OF inv, of w "lt_wallet_id x"] \<open>(lt_wallet_id x, acc) \<in> wallet_rows db\<close> by simp
  moreover have "unique_on uq_settlement_idempotency ledger_key (ledger db)"
    using inv by (simp add: ledger_inv_def ledger_indexes_def)
  ultimately show ?thesis
    using t x by (intro unique_on_first_row [of uq_settlement_idempotency ledger_key])
      (auto simp: pays_def is_settlement_def uq_settlement_idempotency_def ledger_key_def CANONICAL_SETTLEMENT_TYPE_def)
qed

lemma distinct_single:
  assumes "distinct xs" and "xs \<noteq> []" and "\<And>x y. x \<in> set xs \<Longrightarrow> y \<in> set xs \<Longrightarrow> x = y"
  shows "\<exists>x. xs = [x]"
proof (cases xs)
  case (Cons a ys)
  have "ys = []"
  proof (cases ys)
    case (Cons b zs)
    then show ?thesis using assms(1) assms(3) [of a b] \<open>xs = a # ys\<close> by simp
  qed simp
  then show ?thesis using Cons by simp
qed (use assms(2) in simp)

lemma settlement_rows_cases:
  assumes inv: "pay_inv db" and i: "i \<in> set (payment_intents db)"
  shows "if pi_status i = PaymentIntentStatus.SUCCEEDED
    then \<exists>t. settlement_rows db i = [t] \<and> pays (wallet_rows db) (pi_id i) (account_of i) (pi_amount i) t
    else settlement_rows db i = []"
proof (cases "pi_status i = PaymentIntentStatus.SUCCEEDED")
  case True
  have li: "ledger_inv db" using inv by (simp add: pay_inv_def)
  have row: "pays (wallet_rows db) (pi_id i) (account_of i) (pi_amount i) x" if "x \<in> set (settlement_rows db i)" for x
    using that settlement_row(2) [OF inv i, of x] by (simp add: settlement_rows_def is_settlement_def)
  have "settlement_rows db i \<noteq> []"
    using succeeded_has_row [OF inv i True] by (auto simp: settlement_rows_def filter_empty_conv pays_def is_settlement_def)
  moreover have "distinct (settlement_rows db i)"
    using li by (simp add: settlement_rows_def ledger_inv_def distinct_map)
  moreover have "x = y" if "x \<in> set (settlement_rows db i)" "y \<in> set (settlement_rows db i)" for x y
    using that row [OF that(1)] row [OF that(2)] pays_unique [OF li _ _ _ _, of y _ _ _ x] by (auto simp: settlement_rows_def)
  ultimately obtain t where "settlement_rows db i = [t]" using distinct_single by blast
  then show ?thesis using True row by auto
next
  case False
  then show ?thesis
    using settlement_row(1) [OF inv i] by (auto simp: settlement_rows_def filter_empty_conv is_settlement_def)
qed

section \<open>A settlement that must succeed\<close>

lemma settle_payment_fresh:
  assumes "ledger_inv db" and "w \<in> set (wallets db)" and "0 < a"
    and "find_entry db (w_id w) TransactionType.CREDIT CANONICAL_SETTLEMENT_TYPE (str_uuid i) = None"
  shows "\<exists>db' t. settle_payment db w a i d now = (db', Inr t)"
proof -
  obtain db' t where "book db w TransactionType.CREDIT a (w_balance w + a) (Some (str_uuid i)) (Some CANONICAL_SETTLEMENT_TYPE)
      (or_default d (''Payment settlement for intent '' @ str_uuid i)) now = (db', Inr t)"
    using book_fresh_key [OF assms(4)] by blast
  then show ?thesis using assms lock_wallet_row [OF assms(1,2)] by (simp add: settle_payment_def Let_def)
qed

lemma flush_settlement: "\<exists>db'. flush_payment_transaction db (settlement_transaction db i m) = (db', Inr (settlement_transaction db i m))"
  by (simp add: flush_payment_transaction_def violates_def uq_topup_reversal_payment_tx_def settlement_transaction_def)

lemma succeed_intent_ok:
  "\<not> payment_terminal (pi_status i) \<Longrightarrow> \<exists>db'. succeed_intent db i = (db', Inr (i\<lparr>pi_status := PaymentIntentStatus.SUCCEEDED\<rparr>))"
  by (cases "pi_status i")
     (simp_all add: succeed_intent_def PaymentStateMachine_transition_def PaymentStateMachine_can_transition_def)

lemma pay_order_ok:
  "o_status ord = OrderStatus.PAYMENT_PENDING \<Longrightarrow>
   pay_order db ord = (put_order (ord\<lparr>o_status := OrderStatus.PAID\<rparr>) db, Inr (ord\<lparr>o_status := OrderStatus.PAID\<rparr>))"
  by (simp add: pay_order_def OrderStateMachine_transition_def OrderStateMachine_can_transition_def Let_def)

lemma settlement_succeeds:
  assumes inv: "pay_inv db" and i: "i \<in> set (payment_intents db)" and st: "\<not> payment_terminal (pi_status i)" and pos: "0 < pi_amount i"
    and g: "get_or_create_wallet db (pi_tenant_id i) (pi_user_id i) (pi_currency i) = (db1, Inr w)"
  shows "find_settlement db1 w (pi_id i) = None"
    and "\<exists>db2 t. settle_payment db1 w (pi_amount i) (pi_id i) d now = (db2, Inr t)"
proof -
  have li: "ledger_inv db" using inv by (simp add: pay_inv_def)
  note gd = get_or_create_wallet_InrD [OF li g]
  have inv1: "pay_inv db1" using get_or_create_wallet_keeps [OF inv g] .
  have i1: "i \<in> set (payment_intents db1)" using i pay_tables_eq [OF gd(6)] by simp
  have "pi_status i \<noteq> PaymentIntentStatus.SUCCEEDED" using st by auto
  then show f: "find_settlement db1 w (pi_id i) = None" using find_settlement_iff [OF inv1 i1 gd(2,3)] by auto
  have "find_entry db1 (w_id w) TransactionType.CREDIT CANONICAL_SETTLEMENT_TYPE (str_uuid (pi_id i)) = None"
    using f by (auto simp: find_settlement_def find_entry_def first_row_None_iff)
  then show "\<exists>db2 t. settle_payment db1 w (pi_amount i) (pi_id i) d now = (db2, Inr t)"
    using settle_payment_fresh [OF gd(1,2) pos] by blast
qed

lemma order_settlement_runs:
  assumes inv: "pay_inv db" and i: "i \<in> set (payment_intents db)" "pi_purpose i = ORDER_PAYMENT" "0 < pi_amount i"
    and st: "\<not> payment_terminal (pi_status i)" and ord: "find_order db (pi_order_id i) = Some ord"
    and eq: "o_tenant_id ord = pi_tenant_id i" "o_total_amount ord = pi_amount i" "o_currency ord = pi_currency i"
    and os: "o_status ord = OrderStatus.PAYMENT_PENDING" and ok: "\<not> amounts_mismatch i va vc"
  shows "\<exists>db' i' t. settle_payment_intent db (pi_tenant_id i) (pi_id i) va vc now = (db', Inr (i', t))"
proof -
  have "ledger_inv db" using inv by (simp add: pay_inv_def)
  then obtain db1 w where g: "get_or_create_wallet db (pi_tenant_id i) (pi_user_id i) (pi_currency i) = (db1, Inr w)"
    using get_or_create_wallet_total by blast
  note s = settlement_succeeds [OF inv i(1) st i(3) g]
  obtain db2 t where sp: "settle_payment db1 w (pi_amount i) (pi_id i)
      (Some (''Payment settlement for order '' @ o_order_number ord)) now = (db2, Inr t)" using s(2) by blast
  obtain db3 where u: "succeed_intent db2 i = (db3, Inr (i\<lparr>pi_status := PaymentIntentStatus.SUCCEEDED\<rparr>))"
    using succeed_intent_ok [OF st] by blast
  have "pi_order_id i \<noteq> None" using ord by (auto simp: find_order_def split: option.splits)
  then show ?thesis
    using i(2) get_payment_intent_row [OF inv i(1), of "pi_tenant_id i"] ord eq ok g s(1) sp u pay_order_ok [OF os, of db3]
      flush_settlement [of "put_order (ord\<lparr>o_status := OrderStatus.PAID\<rparr>) db3" "i\<lparr>pi_status := PaymentIntentStatus.SUCCEEDED\<rparr>" "[]"]
    by (auto simp: settle_payment_intent_def)
qed

text \<open>A settled intent stays as it is: settling it again finds the row.\<close>

lemma settled_again:
  assumes inv: "pay_inv db" and i: "i \<in> set (payment_intents db)" "pi_purpose i = ORDER_PAYMENT"
    and st: "pi_status i = PaymentIntentStatus.SUCCEEDED" and ord: "find_order db (pi_order_id i) = Some ord"
    and eq: "o_tenant_id ord = pi_tenant_id i" "o_total_amount ord = pi_amount i" "o_currency ord = pi_currency i"
    and os: "o_status ord \<notin> {OrderStatus.PENDING, OrderStatus.PAYMENT_PENDING}" and ok: "\<not> amounts_mismatch i va vc"
    and w: "w \<in> set (wallets db)" "wallet_key w = account_of i" "find_settlement db w (pi_id i) = Some t"
  shows "settle_payment_intent db (pi_tenant_id i) (pi_id i) va vc now = (db, Inr (i, t))"
proof -
  have "ledger_inv db" using inv by (simp add: pay_inv_def)
  then have "get_or_create_wallet db (pi_tenant_id i) (pi_user_id i) (pi_currency i) = (db, Inr w)"
    using w get_or_create_wallet_again by blast
  moreover have "pi_order_id i \<noteq> None" using ord by (auto simp: find_order_def split: option.splits)
  ultimately show ?thesis
    using i get_payment_intent_row [OF inv i(1), of "pi_tenant_id i"] ord eq ok st os w(3)
    by (auto simp: settle_payment_intent_def succeed_intent_def pay_order_def)
qed

section \<open>A sample shop\<close>

definition sample_pay_env :: pay_env where
  "sample_pay_env = \<lparr>env_provider = (\<lambda>n name. if n = 7 then Inr sample_provider else Inl PaymentProviderError),
     env_sha256 = id, env_str_decimal = (\<lambda>_. []), env_str_json = (\<lambda>_. []), env_message = (\<lambda>_. []),
     env_isoformat = (\<lambda>_. []), env_decimal = (\<lambda>_. None), env_get_secret = Inr, env_json_loads = (\<lambda>_. None)\<rparr>"

definition empty_shop :: pay_db where
  "empty_shop = \<lparr>next_id = 100, wallets = [], ledger = [], holds = [],
     orders = [], payment_intents = [], payment_transactions = [], topup_reversals = [], reconciliation_events = [],
     resolution_cases = [], payment_methods = [], payment_quotes = [], payment_observations = [], webhook_events = [],
     provider_configs = [], users = [], asset_wallets = [], asset_ledger = [], fx_policies = [], flexible_deposits = []\<rparr>"

definition sample_intent :: payment_intent where
  "sample_intent = \<lparr>pi_id = 100, pi_created_at = 5, pi_tenant_id = 7, pi_order_id = Some 1, pi_purpose = ORDER_PAYMENT,
     pi_user_id = 8, pi_payment_method_id = None, pi_provider = ''mock'', pi_provider_payment_id = None, pi_checkout_url = None,
     pi_currency = ''USD'', pi_amount = 40, pi_status = PaymentIntentStatus.UNKNOWN, pi_idempotency_key = ''k'', pi_expires_at = None,
     pi_metadata_json = [(''_provider_creation_ambiguity'',
       JObj [(''detected_at'', JStr []), (''provider'', JStr ''mock''), (''reason'', JStr ''transport_outcome_unknown'')])]\<rparr>"

definition sample_shop :: pay_db where
  "sample_shop = empty_shop\<lparr>orders := [sample_order\<lparr>o_status := OrderStatus.PAYMENT_PENDING\<rparr>],
     payment_intents := [sample_intent], next_id := 101\<rparr>"

lemma sample_shop_created:
  "create_payment_intent sample_pay_env (empty_shop\<lparr>orders := [sample_order]\<rparr>) 7 8 1 ''mock'' ''k'' [] None 5 = (sample_shop, Inr sample_intent)"
  by (simp add: create_payment_intent_def empty_shop_def sample_order_def scalar_one_or_none_def find_intent_by_key_def flush_intent_def
      violates_def new_intent_def initialize_order_payment_def sample_pay_env_def sample_provider_def mark_provider_creation_ambiguous_def
      PaymentStateMachine_transition_def PaymentStateMachine_can_transition_def await_payment_def find_order_def put_intent_def put_order_def
      put_row_def OrderStateMachine_transition_def OrderStateMachine_can_transition_def sample_shop_def sample_intent_def dict_set_def
      lower_def lower_char_def char_code_def Let_def)

lemma sample_shop_history: "pay_history sample_shop"
proof -
  have "pay_history empty_shop" by (rule pay_history.start) (simp_all add: empty_shop_def)
  then have "pay_history (empty_shop\<lparr>orders := orders empty_shop @ [sample_order]\<rparr>)"
    by (rule pay_history.place_order) (simp add: empty_shop_def)
  then have "pay_history (empty_shop\<lparr>orders := [sample_order]\<rparr>)" by (simp add: empty_shop_def)
  from pay_history.create_intent [OF this, of sample_pay_env 7 8 1 "''mock''" "''k''" "[]" None 5]
  show ?thesis unfolding commit_def get_db_session_def sample_shop_created by simp
qed

lemma sample_shop_inv [simp]: "pay_inv sample_shop"
  using pay_history_inv [OF sample_shop_history] .

lemma sample_intent_in [simp]: "sample_intent \<in> set (payment_intents sample_shop)"
  by (simp add: sample_shop_def)

lemma sample_shop_order: "find_order sample_shop (pi_order_id sample_intent) = Some (sample_order\<lparr>o_status := OrderStatus.PAYMENT_PENDING\<rparr>)"
  by (simp add: find_order_def sample_shop_def sample_intent_def sample_order_def)

definition paid_notice :: webhook_verification_result where
  "paid_notice = \<lparr>wr_is_valid = True, wr_provider_event_id = ''e1'', wr_event_type = ''paid'', wr_provider_payment_id = Some ''p1'',
     wr_status = Some PaymentIntentStatus.SUCCEEDED, wr_amount = Some 40, wr_currency = Some ''USD'', wr_raw_data = [],
     wr_verification_attributes = []\<rparr>"

text \<open>An environment whose adapters accept every delivery as the notice above, and a shop with a second provider.\<close>

definition notice_env :: pay_env where
  "notice_env = sample_pay_env\<lparr>env_provider := \<lambda>n name. Inr (sample_provider\<lparr>verify_webhook := \<lambda>_ _ _. Inr paid_notice\<rparr>)\<rparr>"

definition notice_shop :: pay_db where
  "notice_shop = put_intent (sample_intent\<lparr>pi_provider_payment_id := Some ''p1''\<rparr>)
     (sample_shop\<lparr>provider_configs := [sample_config\<lparr>pc_provider_name := ''other''\<rparr>]\<rparr>)"

lemma notice_shop_inv [simp]: "pay_inv notice_shop"
  unfolding notice_shop_def
  by (rule put_intent_keeps [OF configure_keeps [OF sample_shop_inv], of sample_intent])
     (simp_all add: money_view_def intent_key_def)

lemma notice_shop_rows:
  "payment_intents notice_shop = [sample_intent\<lparr>pi_provider_payment_id := Some ''p1''\<rparr>]" "webhook_events notice_shop = []"
  "orders notice_shop = [sample_order\<lparr>o_status := OrderStatus.PAYMENT_PENDING\<rparr>]"
  by (simp_all add: notice_shop_def sample_shop_def put_row_def empty_shop_def sample_intent_def)

lemma lower_other: "lower ''other'' = ''other''"
  by (simp add: lower_def lower_char_def char_code_def)

lemma notice_verified: "provider_configs db = provider_configs notice_shop \<Longrightarrow>
    verify_webhook_request notice_env db 7 ''other'' payload headers = Inr paid_notice"
  by (simp add: verify_webhook_request_def notice_shop_def sample_shop_def sample_config_def scalar_one_or_none_def
      notice_env_def sample_pay_env_def paid_notice_def lower_other)

lemma flush_fresh_webhook:
  assumes inv: "pay_inv db" and "find_webhook db n (lower prov) (wr_provider_event_id v) = Inr None"
  shows "flush_webhook db (new_webhook_event env (next_id db) n (lower prov) payload v intent) =
    (db\<lparr>webhook_events := webhook_events db @ [new_webhook_event env (next_id db) n (lower prov) payload v intent],
        next_id := Suc (next_id db)\<rparr>, Inr (new_webhook_event env (next_id db) n (lower prov) payload v intent))"
  using scalar_one_or_none_NoneD [OF assms(2) [unfolded find_webhook_def]]
  by (auto simp: flush_webhook_def violates_def list_ex_iff webhook_key_def new_webhook_event_def)

lemma webhook_settles:
  assumes inv: "pay_inv db" and v: "verify_webhook_request env db n prov payload headers = Inr v"
    and new: "find_webhook db n (lower prov) (wr_provider_event_id v) = Inr None"
    and notice: "wr_status v = Some PaymentIntentStatus.SUCCEEDED" "\<not> amounts_mismatch i (wr_amount v) (wr_currency v)"
    and i: "webhook_intent db n v = Inr (Some i)" "pi_purpose i = ORDER_PAYMENT" "0 < pi_amount i" "\<not> payment_terminal (pi_status i)"
    and attrs: "assert_provider_verification_attributes env i (wr_verification_attributes v) = Inr ()"
    and ord: "find_order db (pi_order_id i) = Some ord" "o_status ord = OrderStatus.PAYMENT_PENDING"
    and eq: "o_tenant_id ord = pi_tenant_id i" "o_total_amount ord = pi_amount i" "o_currency ord = pi_currency i"
  shows "\<exists>db' ev. process_webhook env db n prov payload headers now = (db', Inr ev) \<and> we_provider ev = lower prov \<and> we_processed ev \<and>
    get_payment_intent db' n (pi_id i) = Inr (i\<lparr>pi_status := PaymentIntentStatus.SUCCEEDED\<rparr>) \<and>
    balance_of db' = (balance_of db)(account_of i := balance_of db (account_of i) + pi_amount i)"
proof -
  let ?ev = "new_webhook_event env (next_id db) n (lower prov) payload v (Some i)"
  define db1 where "db1 = db\<lparr>webhook_events := webhook_events db @ [?ev], next_id := Suc (next_id db)\<rparr>"
  have fl: "flush_webhook db ?ev = (db1, Inr ?ev)" unfolding db1_def using flush_fresh_webhook [OF inv new] .
  have inv1: "pay_inv db1" using flush_webhook_keeps(1) [OF inv fl] by (simp add: new_webhook_event_def)
  note wi = webhook_intent_InrD [OF i(1)]
  have i1: "i \<in> set (payment_intents db1)" "pi_tenant_id i = n" using wi by (simp_all add: db1_def)
  have ord1: "find_order db1 (pi_order_id i) = Some ord" using ord(1) by (simp add: db1_def find_order_def split: option.splits)
  obtain db2 i' t where s: "settle_payment_intent db1 n (pi_id i) (wr_amount v) (wr_currency v) now = (db2, Inr (i', t))"
    using order_settlement_runs [OF inv1 i1(1) i(2,3,4) ord1 eq ord(2) notice(2)] i1(2) by blast
  have gi: "get_payment_intent db1 n (pi_id i) = Inr i" using get_payment_intent_row [OF inv1 i1(1), of n] i1(2) by simp
  have st: "settles db1 i db2 i' t" using settle_payment_intent_InrD [OF inv1 s] gi by auto
  have ap: "apply_webhook env db1 n i v now = (db2, Inr ())" using attrs notice s by (simp add: apply_webhook_def)
  have r: "process_webhook env db n prov payload headers now =
      (db2\<lparr>webhook_events := put_row we_id (?ev\<lparr>we_processed := True, we_processed_at := Some now\<rparr>) (webhook_events db2)\<rparr>,
       Inr (?ev\<lparr>we_processed := True, we_processed_at := Some now\<rparr>))" (is "_ = (?db', Inr ?ev')")
    using v new i(1) fl ap by (simp add: process_webhook_def Let_def)
  have inv': "pay_inv ?db'" using process_webhook_keeps(1) [OF inv r] .
  have "i' = i\<lparr>pi_status := PaymentIntentStatus.SUCCEEDED\<rparr>" "i' \<in> set (payment_intents ?db')"
    using st settle_payment_intent_keeps(2) [OF inv1 s] by (simp_all add: settles_def)
  then have "get_payment_intent ?db' n (pi_id i) = Inr (i\<lparr>pi_status := PaymentIntentStatus.SUCCEEDED\<rparr>)"
    using get_payment_intent_row [OF inv', of i' n] i1(2) by simp
  moreover have "balance_of ?db' = (balance_of db)(account_of i := balance_of db (account_of i) + pi_amount i)"
  proof -
    have "balance_of ?db' = balance_of db2" "balance_of db1 = balance_of db" by (simp_all add: balance_of_def fun_eq_iff db1_def)
    moreover have "pi_status i \<noteq> PaymentIntentStatus.SUCCEEDED" using i(4) by auto
    ultimately show ?thesis using st by (simp add: settles_def)
  qed
  ultimately show ?thesis using r by (auto simp: new_webhook_event_def)
qed

lemma notice_conditions:
  fixes i
  defines "i \<equiv> sample_intent\<lparr>pi_provider_payment_id := Some ''p1''\<rparr>"
  shows "find_webhook notice_shop 7 (lower ''other'') (wr_provider_event_id paid_notice) = Inr None"
    "wr_status paid_notice = Some PaymentIntentStatus.SUCCEEDED" "\<not> amounts_mismatch i (wr_amount paid_notice) (wr_currency paid_notice)"
    "webhook_intent notice_shop 7 paid_notice = Inr (Some i)" "pi_purpose i = ORDER_PAYMENT" "0 < pi_amount i" "\<not> payment_terminal (pi_status i)"
    "assert_provider_verification_attributes notice_env i (wr_verification_attributes paid_notice) = Inr ()"
    "find_order notice_shop (pi_order_id i) = Some (sample_order\<lparr>o_status := OrderStatus.PAYMENT_PENDING\<rparr>)"
    "o_tenant_id sample_order = pi_tenant_id i" "o_total_amount sample_order = pi_amount i" "o_currency sample_order = pi_currency i"
  unfolding i_def
  by (simp_all add: find_webhook_def scalar_one_or_none_def notice_shop_rows paid_notice_def amounts_mismatch_def sample_intent_def
         webhook_intent_def find_order_def sample_order_def assert_provider_verification_attributes_def dict_get_def)

lemma notice_processed:
  "\<exists>db' ev. process_webhook notice_env notice_shop 7 ''other'' [] [] 9 = (db', Inr ev) \<and> we_provider ev = ''other'' \<and>
     we_provider_event_id ev = ''e1'' \<and> provider_configs db' = provider_configs notice_shop"
proof -
  let ?i = "sample_intent\<lparr>pi_provider_payment_id := Some ''p1''\<rparr>"
  have "\<exists>db' ev. process_webhook notice_env notice_shop 7 ''other'' [] [] 9 = (db', Inr ev) \<and> we_provider ev = lower ''other'' \<and>
      we_processed ev \<and> get_payment_intent db' 7 (pi_id ?i) = Inr (?i\<lparr>pi_status := PaymentIntentStatus.SUCCEEDED\<rparr>) \<and>
      balance_of db' = (balance_of notice_shop)(account_of ?i := balance_of notice_shop (account_of ?i) + pi_amount ?i)"
    by (rule webhook_settles [OF notice_shop_inv notice_verified [OF refl], where ord = "sample_order\<lparr>o_status := OrderStatus.PAYMENT_PENDING\<rparr>"])
       (use notice_conditions in simp_all)
  then obtain db' ev where w: "process_webhook notice_env notice_shop 7 ''other'' [] [] 9 = (db', Inr ev)" "we_provider ev = ''other''"
    by (auto simp: lower_other)
  note k = process_webhook_keeps [OF notice_shop_inv w(1)]
  from k(3) have "find_webhook db' 7 (lower ''other'') (wr_provider_event_id paid_notice) = Inr (Some ev)"
    using notice_verified [OF refl] by auto
  then have "we_provider_event_id ev = ''e1''" by (auto simp: find_webhook_def paid_notice_def dest!: scalar_one_or_none_SomeD)
  then show ?thesis using w k(2) by blast
qed

section \<open>Properties\<close>

text \<open>C9: A settlement pays an order once: for an open intent whose amount and currency are the order's, settling it
  succeeds, appends one credit of exactly the intent's amount to the customer's wallet, moves the intent to \<open>SUCCEEDED\<close> and the
  order from \<open>PAYMENT_PENDING\<close> to \<open>PAID\<close>; settling it again, at any time and with any consistent evidence, returns the same ledger
  row and changes nothing.\<close>

theorem settlement_pays_order:
  assumes inv: "pay_inv db" and i: "i \<in> set (payment_intents db)" "pi_purpose i = ORDER_PAYMENT" "0 < pi_amount i"
    and st: "pi_status i \<in> {PaymentIntentStatus.CREATED, PaymentIntentStatus.PENDING, PaymentIntentStatus.PROCESSING, PaymentIntentStatus.UNKNOWN}"
    and ord: "find_order db (pi_order_id i) = Some ord" "o_status ord = OrderStatus.PAYMENT_PENDING"
    and eq: "o_tenant_id ord = pi_tenant_id i" "o_total_amount ord = pi_amount i" "o_currency ord = pi_currency i"
    and ok: "\<not> amounts_mismatch i va vc" "\<not> amounts_mismatch i va' vc'"
  shows "\<exists>db' i' t. settle_payment_intent db (pi_tenant_id i) (pi_id i) va vc now = (db', Inr (i', t)) \<and>
    get_payment_intent db' (pi_tenant_id i) (pi_id i) = Inr i' \<and> i' = i\<lparr>pi_status := PaymentIntentStatus.SUCCEEDED\<rparr> \<and>
    ledger db' = ledger db @ [t] \<and> lt_amount t = pi_amount i \<and>
    balance_of db' = (balance_of db)(account_of i := balance_of db (account_of i) + pi_amount i) \<and>
    find_order db' (pi_order_id i) = Some (ord\<lparr>o_status := OrderStatus.PAID\<rparr>) \<and>
    settle_payment_intent db' (pi_tenant_id i) (pi_id i) va' vc' now' = (db', Inr (i', t))"
proof -
  have open_i: "\<not> payment_terminal (pi_status i)" "pi_status i \<noteq> PaymentIntentStatus.SUCCEEDED" using st by auto
  obtain db' i' t where s: "settle_payment_intent db (pi_tenant_id i) (pi_id i) va vc now = (db', Inr (i', t))"
    using order_settlement_runs [OF inv i open_i(1) ord(1) eq ord(2) ok(1)] by blast
  have gi: "get_payment_intent db (pi_tenant_id i) (pi_id i) = Inr i" using get_payment_intent_row [OF inv i(1)] by simp
  have st': "settles db i db' i' t" and os: "order_settled db i db'"
    using settle_payment_intent_InrD [OF inv s] gi i(2) by auto
  have i': "i' = i\<lparr>pi_status := PaymentIntentStatus.SUCCEEDED\<rparr>" using st' by (simp add: settles_def)
  have inv': "pay_inv db'" and in': "i' \<in> set (payment_intents db')" using settle_payment_intent_keeps [OF inv s] .
  have ord': "find_order db' (pi_order_id i') = Some (ord\<lparr>o_status := OrderStatus.PAID\<rparr>)"
    using os ord by (simp add: order_settled_def i')
  obtain w where w: "w \<in> set (wallets db')" "wallet_key w = account_of i'" "find_settlement db' w (pi_id i') = Some t"
    using st' by (auto simp: settles_def)
  have "settle_payment_intent db' (pi_tenant_id i') (pi_id i') va' vc' now' = (db', Inr (i', t))"
    by (rule settled_again [OF inv' in' _ _ ord' _ _ _ _ _ w]) (use i(2) i' eq ok(2) in \<open>auto simp: amounts_mismatch_def\<close>)
  moreover have "get_payment_intent db' (pi_tenant_id i) (pi_id i) = Inr i'"
    using get_payment_intent_row [OF inv' in', of "pi_tenant_id i"] i' by simp
  ultimately show ?thesis using s st' open_i(2) ord' i' by (auto simp: settles_def)
qed

theorem settlement_pays_order_witness:
  "\<exists>db' i' t. settle_payment_intent sample_shop 7 100 (Some 40) None 9 = (db', Inr (i', t)) \<and> lt_amount t = 40 \<and>
     settle_payment_intent db' 7 100 None (Some ''USD'') 10 = (db', Inr (i', t))"
  using settlement_pays_order [OF sample_shop_inv sample_intent_in _ _ _ sample_shop_order, of "Some 40" None None "Some ''USD''" 9 10]
  by (auto simp: sample_intent_def sample_order_def amounts_mismatch_def)

text \<open>C8: An intent has succeeded exactly when the wallet was credited: in every store that requests can produce, a
  \<open>SUCCEEDED\<close> intent has exactly one settlement row in the ledger, a credit of its amount on the wallet of its tenant, user and
  currency, and any other intent has none.\<close>

theorem reachable_intents_paid:
  assumes "pay_history db" and "i \<in> set (payment_intents db)"
  shows "if pi_status i = PaymentIntentStatus.SUCCEEDED
    then \<exists>t w. settlement_rows db i = [t] \<and> lt_transaction_type t = TransactionType.CREDIT \<and> lt_amount t = pi_amount i \<and>
      w \<in> set (wallets db) \<and> w_id w = lt_wallet_id t \<and> wallet_key w = (pi_tenant_id i, pi_user_id i, pi_currency i)
    else settlement_rows db i = []"
proof -
  have "pay_inv db" using assms(1) by (rule pay_history_inv)
  from settlement_rows_cases [OF this assms(2)] show ?thesis
    by (auto simp: pays_def wallet_rows_def split: if_splits)
qed

theorem reachable_intents_paid_witness:
  "\<exists>(db :: pay_db) i (t :: ledger_transaction). pay_history db \<and> i \<in> set (payment_intents db) \<and> pi_amount i = 40 \<and> settlement_rows db i = [t] \<and> lt_amount t = 40"
proof -
  have "\<exists>db' i' t. settle_payment_intent sample_shop (pi_tenant_id sample_intent) (pi_id sample_intent) None None 9 = (db', Inr (i', t))"
    by (rule order_settlement_runs [OF sample_shop_inv sample_intent_in _ _ _ sample_shop_order])
       (simp_all add: sample_intent_def sample_order_def amounts_mismatch_def)
  then obtain db' i' t where s: "settle_payment_intent sample_shop 7 100 None None 9 = (db', Inr (i', t))"
    by (auto simp: sample_intent_def)
  have h: "pay_history db'"
    using pay_history.settle [OF sample_shop_history, of 7 100 None None 9] s by (simp add: commit_def get_db_session_def)
  note k = settle_payment_intent_keeps [OF sample_shop_inv s]
  have "i' = sample_intent\<lparr>pi_status := PaymentIntentStatus.SUCCEEDED\<rparr>"
    using settle_payment_intent_InrD [OF sample_shop_inv s] get_payment_intent_row [OF sample_shop_inv sample_intent_in, of 7]
    by (auto simp: settles_def sample_intent_def)
  then have a: "pi_amount i' = 40" "pi_status i' = PaymentIntentStatus.SUCCEEDED" by (simp_all add: sample_intent_def)
  then obtain t where "settlement_rows db' i' = [t]" "lt_amount t = 40" using reachable_intents_paid [OF h k(2)] by auto
  then show ?thesis using a(1) h k(2) by blast
qed

text \<open>A closed intent is never settled, and nothing is settled on wrong evidence: for an intent that failed, expired
  or was cancelled, or when the verified amount or currency differs from the intent's, the settlement request raises and leaves
  the store as it was.\<close>

theorem refused_settlement:
  assumes inv: "pay_inv db" and i: "i \<in> set (payment_intents db)"
    and bad: "pi_status i \<in> {PaymentIntentStatus.FAILED, PaymentIntentStatus.EXPIRED, PaymentIntentStatus.CANCELLED} \<or>
      amounts_mismatch i va vc"
  shows "\<exists>e. get_db_session (\<lambda>db. settle_payment_intent db n (pi_id i) va vc now) db = (db, Inl e)"
proof (cases "settle_payment_intent db n (pi_id i) va vc now")
  case (Pair db' r)
  show ?thesis
  proof (cases r)
    case (Inl e)
    then show ?thesis using Pair by (simp add: get_db_session_def)
  next
    case (Inr x)
    obtain i' t where x: "x = (i', t)" by force
    have g: "get_payment_intent db n (pi_id i) = Inr j \<Longrightarrow> j = i" for j
      using get_payment_intent_row [OF inv i, of n] by (auto split: if_splits)
    have "settles db i db' i' t" "\<not> amounts_mismatch i va vc"
      using settle_payment_intent_InrD [OF inv, of n "pi_id i" va vc now db' i' t] Pair Inr x g by auto
    then show ?thesis using bad by (auto simp: settles_def)
  qed
qed

theorem refused_settlement_witness:
  "\<exists>e. get_db_session (\<lambda>db. settle_payment_intent db 7 (pi_id sample_intent) (Some 39) None 9) sample_shop = (sample_shop, Inl e)"
  by (rule refused_settlement [OF sample_shop_inv sample_intent_in]) (simp add: amounts_mismatch_def sample_intent_def)

text \<open>C36: A webhook event is applied once: after it was processed, every delivery that verifies to the same event, with any
  payload, headers and clock, returns the stored event and changes nothing.\<close>

theorem webhook_applied_once:
  assumes inv: "pay_inv db" and w: "process_webhook env db n prov payload headers now = (db', Inr ev)"
    and v: "verify_webhook_request env' db' n prov payload' headers' = Inr v" "wr_provider_event_id v = we_provider_event_id ev"
  shows "process_webhook env' db' n prov payload' headers' now' = (db', Inr ev)"
proof -
  obtain v0 :: webhook_verification_result where f: "find_webhook db' n (lower prov) (wr_provider_event_id v0) = Inr (Some ev)"
    using process_webhook_keeps(3) [OF inv w] by blast
  then have "we_provider_event_id ev = wr_provider_event_id v0" by (auto simp: find_webhook_def dest!: scalar_one_or_none_SomeD)
  then show ?thesis using f v by (simp add: process_webhook_def)
qed

text \<open>A verified success notice settles the intent that carries the reported payment id, whichever provider that intent
  was created with: the lookup compares the tenant and the payment id only.\<close>

theorem webhook_settles_any_provider:
  assumes inv: "pay_inv db" and v: "verify_webhook_request env db n prov payload headers = Inr v"
    and new: "find_webhook db n (lower prov) (wr_provider_event_id v) = Inr None"
    and notice: "wr_status v = Some PaymentIntentStatus.SUCCEEDED" "\<not> amounts_mismatch i (wr_amount v) (wr_currency v)"
    and i: "webhook_intent db n v = Inr (Some i)" "pi_purpose i = ORDER_PAYMENT" "0 < pi_amount i" "\<not> payment_terminal (pi_status i)"
    and attrs: "assert_provider_verification_attributes env i (wr_verification_attributes v) = Inr ()"
    and ord: "find_order db (pi_order_id i) = Some ord" "o_status ord = OrderStatus.PAYMENT_PENDING"
    and eq: "o_tenant_id ord = pi_tenant_id i" "o_total_amount ord = pi_amount i" "o_currency ord = pi_currency i"
  shows "\<exists>db' ev. process_webhook env db n prov payload headers now = (db', Inr ev) \<and> we_provider ev = lower prov \<and> we_processed ev \<and>
    get_payment_intent db' n (pi_id i) = Inr (i\<lparr>pi_status := PaymentIntentStatus.SUCCEEDED\<rparr>) \<and>
    balance_of db' = (balance_of db)(account_of i := balance_of db (account_of i) + pi_amount i)"
  using assms by (rule webhook_settles)

theorem webhook_settles_any_provider_witness:
  "\<exists>db' ev i. process_webhook notice_env notice_shop 7 ''other'' [] [] 9 = (db', Inr ev) \<and> we_provider ev = ''other'' \<and>
     get_payment_intent db' 7 100 = Inr i \<and> pi_provider i = ''mock'' \<and> pi_status i = PaymentIntentStatus.SUCCEEDED"
proof -
  let ?i = "sample_intent\<lparr>pi_provider_payment_id := Some ''p1''\<rparr>"
  have "\<exists>db' ev. process_webhook notice_env notice_shop 7 ''other'' [] [] 9 = (db', Inr ev) \<and> we_provider ev = lower ''other'' \<and>
      we_processed ev \<and> get_payment_intent db' 7 (pi_id ?i) = Inr (?i\<lparr>pi_status := PaymentIntentStatus.SUCCEEDED\<rparr>) \<and>
      balance_of db' = (balance_of notice_shop)(account_of ?i := balance_of notice_shop (account_of ?i) + pi_amount ?i)"
    by (rule webhook_settles_any_provider [OF notice_shop_inv notice_verified [OF refl], where ord = "sample_order\<lparr>o_status := OrderStatus.PAYMENT_PENDING\<rparr>"])
       (use notice_conditions in simp_all)
  then show ?thesis by (auto simp: lower_other) (auto simp: sample_intent_def)
qed

theorem webhook_applied_once_witness:
  "\<exists>db' ev. process_webhook notice_env notice_shop 7 ''other'' [] [] 9 = (db', Inr ev) \<and>
     process_webhook notice_env db' 7 ''other'' ''again'' [] 10 = (db', Inr ev)"
proof -
  obtain db' ev where w: "process_webhook notice_env notice_shop 7 ''other'' [] [] 9 = (db', Inr ev)"
    "we_provider_event_id ev = ''e1''" "provider_configs db' = provider_configs notice_shop"
    using notice_processed by blast
  have "process_webhook notice_env db' 7 ''other'' ''again'' [] 10 = (db', Inr ev)"
    by (rule webhook_applied_once [OF notice_shop_inv w(1) notice_verified [OF w(3)]]) (simp add: w(2) paid_notice_def)
  then show ?thesis using w(1) by blast
qed

end
