(* ===== verification/Payment_Requests.thy ===== *)
theory Payment_Requests
  imports Payment_Runs
begin

text \<open>
  Properties of the requests that create, refund and confirm payments: the idempotency of
  \<open>create_payment_intent\<close>, what happens to an instantly paid order, the ledger effect of a gateway refund
  and the binding of a Telegram charge to its top-up.
\<close>

section \<open>Orders under a payment request\<close>

text \<open>Everything of an order row but its status.\<close>

definition order_core :: "order \<Rightarrow> order" where
  "order_core ord = ord\<lparr>o_status := OrderStatus.PENDING\<rparr>"

lemma order_core_eq:
  assumes "order_core x = order_core y"
  shows "o_id x = o_id y" "o_tenant_id x = o_tenant_id y" "o_user_id x = o_user_id y" "o_total_amount x = o_total_amount y"
    "o_currency x = o_currency y"
  using assms by (cases x; cases y; simp add: order_core_def)+

lemma put_order_core:
  assumes "distinct (map o_id (orders db))" and "find_order db k = Some ord" and "order_core ord' = order_core ord"
  shows "map order_core (orders (put_order ord' db)) = map order_core (orders db)"
proof -
  have "ord \<in> set (orders db)" using assms(2) by (auto simp: find_order_def dest!: first_row_SomeD split: option.splits)
  then show ?thesis using assms(1,3) order_core_eq(1) [OF assms(3)] by (simp add: put_row_maps)
qed

lemma order_transition_InrD:
  assumes "OrderStateMachine_transition ord s = Inr ord'"
  shows "ord' = ord\<lparr>o_status := s\<rparr>" and "order_core ord' = order_core ord"
  using assms by (auto simp: OrderStateMachine_transition_def Let_def order_core_def split: if_splits)

lemma await_payment_orders:
  assumes "distinct (map o_id (orders db))" and "await_payment db k = (db', Inr u)"
  shows "map order_core (orders db') = map order_core (orders db)"
proof (cases "db' = db")
  case False
  then obtain ord ord' where "find_order db (Some k) = Some ord" "db' = put_order ord' db"
    "OrderStateMachine_transition ord OrderStatus.PAYMENT_PENDING = Inr ord'"
    using assms(2) by (auto simp: await_payment_def lift_res_Inr_iff split: option.splits if_splits)
  then show ?thesis using put_order_core [OF assms(1)] order_transition_InrD(2) by blast
qed simp

lemma order_settled_orders:
  assumes inv: "pay_inv db" and s: "settle_payment_intent db n j va vc now = (db', Inr (i', t))"
    and "get_payment_intent db n j = Inr i" and "pi_purpose i = ORDER_PAYMENT"
  shows "order_settled db i db'" and "settles db i db' i' t"
  using settle_payment_intent_InrD [OF inv s] assms(3,4) by auto

text \<open>An order that was never offered to a provider cannot be paid in one step: when the provider answers the
  creation request with \<open>SUCCEEDED\<close> while the order is still \<open>PENDING\<close>, \<open>create_payment_intent\<close> raises and the intent of the
  payment the provider has taken is rolled back.\<close>

theorem instant_payment_is_lost:
  assumes inv: "pay_inv db" and ord: "find_order db (Some k) = Some ord" "o_status ord = OrderStatus.PENDING"
    and new: "find_intent_by_key db n key = Inr None" and p: "env_provider env n prov = Inr p"
    and paid: "\<forall>req. \<exists>res. create_payment p req = Inr res \<and> cs_status res = PaymentIntentStatus.SUCCEEDED"
  shows "\<exists>e. get_db_session (\<lambda>db. create_payment_intent env db n u k prov key md ret now) db = (db, Inl e)"
proof -
  have False if c: "create_payment_intent env db n u k prov key md ret now = (db', Inr i)" for db' i
    using c
  proof (cases rule: create_payment_intent_cases)
    case (existing x)
    then show False using new by simp
  next
    case (fresh x i0 db1)
    have new0: "pi_id i0 = next_id db" "pi_status i0 \<noteq> PaymentIntentStatus.SUCCEEDED" "pi_order_id i0 = Some k" "pi_purpose i0 = ORDER_PAYMENT"
      "pi_tenant_id i0 = n"
      by (simp_all add: fresh(7) new_intent_def)
    note fl = flush_intent_InrD [OF inv fresh(8) new0(1,2)]
    obtain res db2 i1 db3 i2 t where st: "store_provider_result db1 i0 res = (db2, Inr i1)"
      and s: "settle_payment_intent db2 n (pi_id i1) (Some (pi_amount i1)) (Some (pi_currency i1)) now = (db3, Inr (i2, t))"
      using fresh(9) p paid [rule_format, of "\<lparr>cr_order_id = Some k, cr_amount = pi_amount i0, cr_currency = pi_currency i0,
          cr_idempotency_key = pi_idempotency_key i0, cr_metadata = md, cr_return_url = ret\<rparr>"]
      by (auto simp: initialize_order_payment_def and_then_Inr_iff)
    note sd = store_provider_result_InrD [OF fl(1,3) st]
    have g: "get_payment_intent db2 n (pi_id i1) = Inr i1"
      using get_payment_intent_row [OF sd(1,2), of n] sd(13) new0(5) by simp
    have "order_settled db2 i1 db3" using order_settled_orders(1) [OF sd(1) s g] sd(12) new0(4) by simp
    moreover have "find_order db2 (pi_order_id i1) = Some ord"
      using ord(1) sd(6,8) new0(3) by (simp add: find_order_def fl(4))
    ultimately show False using ord(2) by (simp add: order_settled_def)
  qed
  then show ?thesis
    by (cases "create_payment_intent env db n u k prov key md ret now"; cases "snd (create_payment_intent env db n u k prov key md ret now)")
       (auto simp: get_db_session_def)
qed

definition instant_provider :: payment_provider where
  "instant_provider = sample_provider\<lparr>create_payment := \<lambda>_. Inr
     \<lparr>cs_provider_payment_id = ''p1'', cs_status = PaymentIntentStatus.SUCCEEDED, cs_checkout_url = None, cs_raw_data = [],
      cs_verification_attributes = []\<rparr>\<rparr>"

definition instant_env :: pay_env where
  "instant_env = sample_pay_env\<lparr>env_provider := \<lambda>_ _. Inr instant_provider\<rparr>"

definition new_order_shop :: pay_db where
  "new_order_shop = empty_shop\<lparr>orders := [sample_order]\<rparr>"

lemma new_order_shop_inv [simp]: "pay_inv new_order_shop"
proof -
  have "pay_history empty_shop" by (rule pay_history.start) (simp_all add: empty_shop_def)
  then have "pay_inv empty_shop" by (rule pay_history_inv)
  from new_order_keeps [OF this, of sample_order] show ?thesis by (simp add: new_order_shop_def empty_shop_def)
qed

theorem instant_payment_is_lost_witness:
  "\<exists>e. get_db_session (\<lambda>db. create_payment_intent instant_env db 7 8 1 ''mock'' ''k'' [] None 9) new_order_shop = (new_order_shop, Inl e)"
  by (rule instant_payment_is_lost [OF new_order_shop_inv, where ord = sample_order and p = instant_provider])
     (simp_all add: new_order_shop_def empty_shop_def find_order_def sample_order_def find_intent_by_key_def scalar_one_or_none_def
       instant_env_def instant_provider_def)

section \<open>Gateway refunds\<close>

text \<open>C37: A gateway refund pays twice: for a settled order payment whose refund the gateway was asked for, the service
  records a \<open>SUCCESS\<close> transaction and credits the refunded amount to the wallet that the settlement had already credited, whatever
  outcome the gateway reported; nothing takes the settlement credit back.\<close>

theorem gateway_refund_credits_again:
  assumes inv: "pay_inv db" and g: "gateway_refund env db n j amount reason key = Inr (i, a, k, res)"
    and k: "\<not> topup_reversal_reference k"
    and new: "\<forall>t \<in> set (ledger db). lt_reference_type t = Some CANONICAL_PAYMENT_REFUND_TYPE \<longrightarrow> lt_reference_id t \<noteq> Some (str_uuid (pi_id i))"
  shows "\<exists>db' pt. refund_payment env db n j amount reason key now = (db', Inr pt) \<and> pt_status pt = ''SUCCESS'' \<and> pt_amount pt = a \<and>
    balance_of db' = (balance_of db)(account_of i := balance_of db (account_of i) + a) \<and>
    (\<exists>t. settlement_rows db' i = [t] \<and> lt_amount t = pi_amount i)"
proof -
  let ?pt = "refund_transaction (next_id db) i a k res reason"
  let ?d = "or_default reason (''Payment refund for intent '' @ str_uuid (pi_id i))"
  note gd = gateway_refund_InrD [OF g]
  note gi = get_payment_intent_InrD [OF gd(1)]
  obtain db1 where fl: "flush_payment_transaction db ?pt = (db1, Inr ?pt)"
    using k by (simp add: flush_payment_transaction_def violates_def uq_topup_reversal_payment_tx_def refund_transaction_def)
  note f = flush_payment_transaction_keeps [OF inv fl]
  have li1: "ledger_inv db1" using f(1) by (simp add: pay_inv_def)
  obtain db2 w where gw: "get_or_create_wallet db1 n (pi_user_id i) (pi_currency i) = (db2, Inr w)"
    using get_or_create_wallet_total [OF li1] by blast
  note wd = get_or_create_wallet_InrD [OF li1 gw]
  have "find_entry db2 (w_id w) TransactionType.REFUND CANONICAL_PAYMENT_REFUND_TYPE (str_uuid (pi_id i)) = None"
    using new wd(4) f(4) by (auto simp: find_entry_def first_row_None_iff)
  moreover have "CANONICAL_PAYMENT_REFUND_TYPE \<noteq> []" by (simp add: reference_type_defs)
  ultimately obtain db3 t where r: "refund db2 w a (Some (str_uuid (pi_id i))) (Some CANONICAL_PAYMENT_REFUND_TYPE) ?d now = (db3, Inr t)"
    and b: "books now db2 db3 t"
    using refund_fresh [OF wd(1,2) gd(5) str_uuid_nonempty] by blast
  have e: "lt_wallet_id t = w_id w" "lt_transaction_type t = TransactionType.REFUND" "lt_amount t = a"
    using refund_entry(1) [OF wd(1) r] by (simp_all add: one_entry_def)
  have "\<exists>db'. (case find_order db3 (pi_order_id i) of None \<Rightarrow> (db3, Inr ?pt)
      | Some ord \<Rightarrow> if a = pi_amount i \<and> o_status ord = OrderStatus.PAID
         then lift_res db3 (OrderStateMachine_transition ord OrderStatus.REFUNDED) (\<lambda>db ord. (put_order ord db, Inr ?pt))
         else (db3, Inr ?pt)) = (db', Inr ?pt) \<and> (db' = db3 \<or> (\<exists>ord. db' = put_order ord db3))"
    by (auto simp: OrderStateMachine_transition_def OrderStateMachine_can_transition_def Let_def split: option.splits)
  then obtain db' where run: "refund_payment env db n j amount reason key now = (db', Inr ?pt)" and db': "db' = db3 \<or> (\<exists>ord. db' = put_order ord db3)"
    unfolding refund_payment_def g lift_res_Inr prod.case fl and_then_Inr gw r by blast
  have "balance_of db3 = (balance_of db2)(wallet_key w := balance_of db2 (wallet_key w) + a)"
    using balance_of_move [OF wd(1) b wd(2)] e by simp
  moreover have "balance_of db2 = balance_of db"
    using balance_of_get_or_create [OF li1 gw] f(3) by (simp add: balance_of_def fun_eq_iff)
  ultimately have bal: "balance_of db' = (balance_of db)(account_of i := balance_of db (account_of i) + a)"
    using db' wd(3) gi(3) by auto
  have inv': "pay_inv db'" using refund_payment_keeps [OF inv run] .
  have "payment_intents db3 = payment_intents db"
    using pay_tables_eq [OF books_more [OF b]] pay_tables_eq [OF wd(6)] f(6) by simp
  then have "i \<in> set (payment_intents db')" using gi(1) db' by auto
  from settlement_rows_cases [OF inv' this] have "\<exists>t. settlement_rows db' i = [t] \<and> lt_amount t = pi_amount i"
    using gd(3) by (auto simp: pays_def)
  then show ?thesis using run bal by (auto simp: refund_transaction_def)
qed

definition refused_refund :: payment_refund_result where
  "refused_refund = \<lparr>rs_provider_refund_id = ''r1'', rs_status = ''failed'', rs_amount = 0, rs_is_success = False, rs_raw_data = []\<rparr>"

definition refusing_env :: pay_env where
  "refusing_env = sample_pay_env\<lparr>env_provider := \<lambda>_ _. Inr (sample_provider\<lparr>provider_refund := \<lambda>_. Inr refused_refund\<rparr>)\<rparr>"

theorem gateway_refund_credits_again_witness:
  "\<exists>(db :: pay_db) db' pt. refund_payment refusing_env db 7 100 None None None 20 = (db', Inr pt) \<and> pt_status pt = ''SUCCESS'' \<and>
     balance_of db (7, 8, ''USD'') = 40 \<and> balance_of db' (7, 8, ''USD'') = 80"
proof -
  obtain db i t where s: "settle_payment_intent sample_shop 7 100 None None 9 = (db, Inr (i, t))"
    using order_settlement_runs [OF sample_shop_inv sample_intent_in _ _ _ sample_shop_order, of None None 9]
    by (auto simp: sample_intent_def sample_order_def amounts_mismatch_def)
  note k = settle_payment_intent_keeps [OF sample_shop_inv s]
  have st: "settles sample_shop sample_intent db i t"
    using settle_payment_intent_InrD [OF sample_shop_inv s] get_payment_intent_row [OF sample_shop_inv sample_intent_in, of 7]
    by (auto simp: sample_intent_def)
  then have i: "i = sample_intent\<lparr>pi_status := PaymentIntentStatus.SUCCEEDED\<rparr>" by (simp add: settles_def)
  have l: "ledger db = [t]" and b: "balance_of db (7, 8, ''USD'') = 40"
    using st by (simp_all add: settles_def sample_intent_def sample_shop_def empty_shop_def balance_of_def)
  have g: "get_payment_intent db 7 100 = Inr i" using get_payment_intent_row [OF k(1,2), of 7] i by (simp add: sample_intent_def)
  have gr: "gateway_refund refusing_env db 7 100 None None None = Inr (i, 40, ''refund_'' @ str_uuid 100 @ ''_'', refused_refund)"
    using g by (simp add: gateway_refund_def i refusing_env_def sample_provider_def sample_intent_def sample_pay_env_def)
  have "is_settlement t"
    using settles_inv [OF st] st find_settlement_SomeD(3) by (auto simp: settles_def)
  then have "\<exists>db' pt. refund_payment refusing_env db 7 100 None None None 20 = (db', Inr pt) \<and> pt_status pt = ''SUCCESS'' \<and> pt_amount pt = 40 \<and>
    balance_of db' = (balance_of db)(account_of i := balance_of db (account_of i) + 40) \<and>
    (\<exists>t. settlement_rows db' i = [t] \<and> lt_amount t = pi_amount i)"
    by (intro gateway_refund_credits_again [OF k(1) gr])
       (simp_all add: l is_settlement_def reference_type_defs topup_reversal_reference_def starts_with_def)
  then obtain db' pt where "refund_payment refusing_env db 7 100 None None None 20 = (db', Inr pt)" "pt_status pt = ''SUCCESS''"
    "balance_of db' (7, 8, ''USD'') = 80"
    using b by (auto simp: i sample_intent_def)
  then show ?thesis using b by blast
qed

section \<open>Creating twice\<close>

lemma same_core:
  assumes "map order_core (orders db') = map order_core (orders db)" and "distinct (map o_id (orders db))"
    and "ord \<in> set (orders db)" and "ord' \<in> set (orders db')" and "o_id ord' = o_id ord"
  shows "order_core ord' = order_core ord"
proof -
  have "order_core ord' \<in> order_core ` set (orders db)"
    using assms(1,4) by (metis image_eqI list.set_map)
  then obtain x where x: "x \<in> set (orders db)" "order_core ord' = order_core x" by auto
  then have "o_id x = o_id ord" using order_core_eq(1) [OF x(2)] assms(5) by simp
  then have "x = ord" using x(1) assms(2,3) by (auto simp: distinct_map inj_on_def)
  then show ?thesis using x(2) by simp
qed

lemma settled_order_cores:
  assumes inv: "pay_inv db" and "order_settled db i db'"
  shows "map order_core (orders db') = map order_core (orders db)"
proof -
  obtain ord ord' where f: "find_order db (pi_order_id i) = Some ord" and o: "orders db' = put_row o_id ord' (orders db)"
    and c: "order_core ord' = order_core ord"
    using assms(2) by (auto simp: order_settled_def order_core_def)
  have d: "distinct (map o_id (orders db))" using inv by (simp add: pay_inv_def pay_rows_def)
  from put_order_core [OF d f c] show ?thesis using o by simp
qed

text \<open>What the provider's answer leaves of a new intent and of the orders.\<close>

lemma initialize_order_payment_frame:
  assumes inv: "pay_inv db" and i: "i \<in> set (payment_intents db)" "pi_purpose i = ORDER_PAYMENT" "pi_tenant_id i = n"
    and r: "initialize_order_payment env db n k prov md ret i now = (db', Inr i')"
  shows "map order_core (orders db') = map order_core (orders db)" and "intent_key i' = intent_key i"
    and "pi_order_id i' = pi_order_id i" and "pi_amount i' = pi_amount i"
proof -
  have d: "distinct (map o_id (orders x))" if "pay_inv x" for x :: "'a pay_db_scheme" using that by (simp add: pay_inv_def pay_rows_def)
  obtain p where p: "env_provider env n prov = Inr p" using r by (auto simp: initialize_order_payment_def lift_res_Inr_iff)
  let ?req = "\<lparr>cr_order_id = Some k, cr_amount = pi_amount i, cr_currency = pi_currency i,
          cr_idempotency_key = pi_idempotency_key i, cr_metadata = md, cr_return_url = ret\<rparr>"
  have "map order_core (orders db') = map order_core (orders db) \<and> intent_key i' = intent_key i \<and>
      pi_order_id i' = pi_order_id i \<and> pi_amount i' = pi_amount i"
  proof (cases "create_payment p ?req")
    case (Inl e)
    then have m: "mark_provider_creation_ambiguous env i now = Inr i'" and a: "await_payment (put_intent i' db) k = (db', Inr ())"
      using r p by (auto simp: initialize_order_payment_def lift_res_Inr_iff and_then_Inr_iff split: if_splits)
    have "map order_core (orders db') = map order_core (orders (put_intent i' db))"
      using await_payment_orders [OF d [OF ambiguous_keeps(1) [OF inv i(1) m]] a] .
    then show ?thesis using mark_provider_creation_ambiguous_InrD(1) [OF m] by (auto simp: intent_key_def)
  next
    case (Inr res)
    then obtain db2 i1 db3 where st: "store_provider_result db i res = (db2, Inr i1)"
      and c: "(if cs_status res = PaymentIntentStatus.SUCCEEDED
         then and_then (settle_payment_intent db2 n (pi_id i1) (Some (pi_amount i1)) (Some (pi_currency i1)) now)
             (\<lambda>db (i, _). (db, Inr i))
         else follow_provider_status db2 i1 (cs_status res)) = (db3, Inr i')"
      and a: "await_payment db3 k = (db', Inr ())"
      using r p by (auto simp: initialize_order_payment_def and_then_Inr_iff)
    note sd = store_provider_result_InrD [OF inv i(1) st]
    have "pay_inv db3 \<and> map order_core (orders db3) = map order_core (orders db2) \<and> (\<exists>s. i' = i1\<lparr>pi_status := s\<rparr>)"
    proof (cases "cs_status res = PaymentIntentStatus.SUCCEEDED")
      case True
      then obtain t where s: "settle_payment_intent db2 n (pi_id i1) (Some (pi_amount i1)) (Some (pi_currency i1)) now = (db3, Inr (i', t))"
        using c by (auto simp: and_then_Inr_iff)
      have g: "get_payment_intent db2 n (pi_id i1) = Inr i1" using get_payment_intent_row [OF sd(1,2), of n] sd(13) i(3) by simp
      note os = order_settled_orders [OF sd(1) s g]
      show ?thesis
        using os sd(12) i(2) settled_order_cores [OF sd(1)] settles_inv by (auto simp: settles_def)
    next
      case False
      then have f: "follow_provider_status db2 i1 (cs_status res) = (db3, Inr i')" using c by simp
      show ?thesis using follow_provider_status_keeps [OF sd(1,2) f False] by auto
    qed
    then show ?thesis using await_payment_orders [OF d a] sd by (auto simp: intent_key_def)
  qed
  then show "map order_core (orders db') = map order_core (orders db)" "intent_key i' = intent_key i"
    "pi_order_id i' = pi_order_id i" "pi_amount i' = pi_amount i" by blast+
qed

lemma find_intent_by_key_row:
  assumes inv: "pay_inv db" and i: "i \<in> set (payment_intents db)" and k: "intent_key i = (n, key)"
  shows "find_intent_by_key db n key = Inr (Some i)"
proof -
  have "distinct (map intent_key (payment_intents db))" using inv by (simp add: pay_inv_def pay_rows_def)
  from unique_found [OF this i] k show ?thesis by (simp add: find_intent_by_key_def intent_key_def)
qed

lemma create_payment_intent_row:
  assumes inv: "pay_inv db" and c: "create_payment_intent env db n u k prov key md ret now = (db', Inr i)"
    and ord: "find_order db' (Some k) = Some ord"
  shows "find_intent_by_key db' n key = Inr (Some i)" and "pi_order_id i = Some k" and "key \<noteq> []"
    and "pi_amount i = o_total_amount ord" and "o_tenant_id ord = n" and "o_user_id ord = u"
proof -
  have inv': "pay_inv db'" using create_payment_intent_keeps [OF inv c] .
  have od: "ord \<in> set (orders db')" "o_id ord = k" using ord by (auto simp: find_order_def dest!: first_row_SomeD)
  have d: "distinct (map o_id (orders db))" using inv by (simp add: pay_inv_def pay_rows_def)
  have "find_intent_by_key db' n key = Inr (Some i) \<and> pi_order_id i = Some k \<and> key \<noteq> [] \<and> pi_amount i = o_total_amount ord \<and>
      o_tenant_id ord = n \<and> o_user_id ord = u"
    using c
  proof (cases rule: create_payment_intent_cases)
    case (existing x)
    have "x \<in> set (orders db)" "o_id x = k" using scalar_one_or_none_SomeD [OF existing(1)] by auto
    then have "x = ord" using od d existing(7) by (auto simp: distinct_map inj_on_def)
    then show ?thesis using existing by simp
  next
    case (fresh x i0 db1)
    have x: "x \<in> set (orders db)" "o_id x = k" using scalar_one_or_none_SomeD [OF fresh(1)] by auto
    have new0: "pi_id i0 = next_id db" "pi_status i0 \<noteq> PaymentIntentStatus.SUCCEEDED" "pi_order_id i0 = Some k" "pi_purpose i0 = ORDER_PAYMENT"
      "pi_tenant_id i0 = n" "intent_key i0 = (n, key)" "pi_amount i0 = o_total_amount x"
      by (simp_all add: fresh(7) new_intent_def intent_key_def)
    note fl = flush_intent_InrD [OF inv fresh(8) new0(1,2)]
    note fr = initialize_order_payment_frame [OF fl(1,3) new0(4,5) fresh(9)]
    have "orders db1 = orders db" using fl(4) by simp
    then have core: "order_core ord = order_core x" using same_core [OF _ d x(1) od(1)] fr(1) x(2) od(2) by simp
    have "i \<in> set (payment_intents db')" using initialize_order_payment_keeps [OF fl(1,3) fresh(9)] by simp
    then show ?thesis
      using find_intent_by_key_row [OF inv'] fr new0 order_core_eq [OF core] fresh(2,3,5) by auto
  qed
  then show "find_intent_by_key db' n key = Inr (Some i)" "pi_order_id i = Some k" "key \<noteq> []" "pi_amount i = o_total_amount ord"
    "o_tenant_id ord = n" "o_user_id ord = u" by blast+
qed

lemma find_order_scalar:
  assumes "pay_inv db" and "find_order db (Some k) = Some ord"
  shows "scalar_one_or_none (\<lambda>x. o_id x = k) (orders db) = Inr (Some ord)"
proof -
  have "ord \<in> set (orders db)" "o_id ord = k" using assms(2) by (auto simp: find_order_def dest!: first_row_SomeD)
  then show ?thesis using unique_found [of o_id "orders db" ord] assms(1) by (simp add: pay_inv_def pay_rows_def)
qed

text \<open>Creating an intent twice creates it once: repeating \<open>create_payment_intent\<close> with the same key for the same order,
  while the order is still open, returns the intent of the first call and changes nothing, whatever the providers would answer,
  so the provider is not asked for a second payment; the same key for another order is refused.\<close>

theorem create_intent_idempotent:
  assumes inv: "pay_inv db" and c: "create_payment_intent env db n u k prov key md ret now = (db', Inr i)"
    and ord: "find_order db' (Some k) = Some ord" "o_status ord \<in> {OrderStatus.PENDING, OrderStatus.PAYMENT_PENDING}"
  shows "create_payment_intent env' db' n u k prov' key md' ret' now' = (db', Inr i) \<and>
    (\<forall>k' ord2. find_order db' (Some k') = Some ord2 \<and> k' \<noteq> k \<and> o_tenant_id ord2 = n \<and> o_user_id ord2 = u \<and>
       o_status ord2 \<in> {OrderStatus.PENDING, OrderStatus.PAYMENT_PENDING} \<longrightarrow>
       create_payment_intent env' db' n u k' prov' key md' ret' now' = (db', Inl PaymentIntegrityError))"
proof -
  have inv': "pay_inv db'" using create_payment_intent_keeps [OF inv c] .
  note row = create_payment_intent_row [OF inv c ord(1)]
  have "create_payment_intent env' db' n u k prov' key md' ret' now' = (db', Inr i)"
    using row ord(2) find_order_scalar [OF inv' ord(1)] by (simp add: create_payment_intent_def)
  moreover have "create_payment_intent env' db' n u k' prov' key md' ret' now' = (db', Inl PaymentIntegrityError)"
    if "find_order db' (Some k') = Some ord2" "k' \<noteq> k" "o_tenant_id ord2 = n" "o_user_id ord2 = u"
      "o_status ord2 \<in> {OrderStatus.PENDING, OrderStatus.PAYMENT_PENDING}" for k' ord2
    using row that find_order_scalar [OF inv' that(1)] by (simp add: create_payment_intent_def)
  ultimately show ?thesis by blast
qed

theorem create_intent_idempotent_witness:
  "create_payment_intent instant_env sample_shop 7 8 1 ''x'' ''k'' [] None 50 = (sample_shop, Inr sample_intent)"
proof -
  have f: "find_order sample_shop (Some 1) = Some (sample_order\<lparr>o_status := OrderStatus.PAYMENT_PENDING\<rparr>)"
    using sample_shop_order by (simp add: sample_intent_def)
  have c: "create_payment_intent sample_pay_env new_order_shop 7 8 1 ''mock'' ''k'' [] None 5 = (sample_shop, Inr sample_intent)"
    unfolding new_order_shop_def by (rule sample_shop_created)
  from create_intent_idempotent [OF new_order_shop_inv c f, of instant_env "''x''" "[]" None 50] show ?thesis by simp
qed

section \<open>Telegram Stars\<close>

lemma dict_set_again [simp]: "dict_set (dict_set d k v) k v = dict_set d k v"
  unfolding dict_set_def by (induction d) auto

lemma validate_stars_InrD:
  assumes "validate_telegram_stars_checkout db n u payload a cur = Inr i"
  shows "\<exists>j. parse_stars_invoice_payload payload = Inr j \<and> get_payment_intent db n j = Inr i"
    and "pi_purpose i = WALLET_TOPUP" "pi_provider i = ''telegram_stars''" "pi_user_id i = u" "upper cur = ''XTR''" "pi_currency i = ''XTR''"
    "a = pi_amount i"
  using assms by (auto simp: validate_telegram_stars_checkout_def res_bind_Inr_iff split: if_splits)

text \<open>A Stars top-up is bound to one charge: after a successful payment update settled it with a Telegram charge id,
  the same update settles nothing more and returns the same intent, and an update with another charge id is refused; the wallet
  is credited at most once.\<close>

theorem stars_charge_bound:
  assumes inv: "pay_inv db" and s: "settle_telegram_stars_topup db n u payload charge a cur now = (db', Inr i)"
    and c: "\<not> starts_with ''stars_invoice:'' charge"
  shows "settle_telegram_stars_topup db' n u payload charge a cur now' = (db', Inr i) \<and>
    (\<forall>charge'. charge' \<noteq> charge \<and> charge' \<noteq> [] \<longrightarrow>
       settle_telegram_stars_topup db' n u payload charge' a cur now' = (db', Inl PaymentIntegrityError)) \<and>
    length (settlement_rows db' i) = 1"
proof -
  obtain i0 i1 t where v: "validate_telegram_stars_checkout db n u payload a cur = Inr i0" and ne: "charge \<noteq> []"
    and i1: "i1 = i0\<lparr>pi_provider_payment_id := Some charge,
        pi_metadata_json := dict_set (pi_metadata_json i0) ''telegram_payment_charge_id'' (JStr charge)\<rparr>"
    and k1: "pay_inv (put_intent i1 db)" "i1 \<in> set (payment_intents (put_intent i1 db))"
    and st: "settles (put_intent i1 db) i1 db' i t"
    and r: "settle_wallet_topup (put_intent i1 db) i1 (Some a) (Some ''XTR'') now = (db', Inr (i, t))"
    using settle_telegram_stars_topup_InrD [OF inv s] by metis
  note vd = validate_stars_InrD [OF v]
  then obtain j where j: "parse_stars_invoice_payload payload = Inr j" "get_payment_intent db n j = Inr i0" by blast
  note gi = get_payment_intent_InrD [OF j(2)]
  have i: "i = i1\<lparr>pi_status := PaymentIntentStatus.SUCCEEDED\<rparr>" and inv': "pay_inv db'" using st by (simp_all add: settles_def)
  have in': "i \<in> set (payment_intents db')" using st k1(2) by (auto simp: settles_def intro!: put_row_in)
  have g': "get_payment_intent db' n j = Inr i" using get_payment_intent_row [OF inv' in', of n] gi i i1 by simp
  have v': "validate_telegram_stars_checkout db' n u payload a cur = Inr i"
    using vd j(1) g' by (simp add: validate_telegram_stars_checkout_def i i1)
  have same: "i\<lparr>pi_provider_payment_id := Some charge,
      pi_metadata_json := dict_set (pi_metadata_json i) ''telegram_payment_charge_id'' (JStr charge)\<rparr> = i"
    by (cases i0) (simp add: i i1)
  have put: "put_intent i db' = db'"
    using in' inv' by (simp add: put_intent_def pay_inv_def pay_rows_def)
  obtain w where w: "w \<in> set (wallets db')" "wallet_key w = account_of i" "find_settlement db' w (pi_id i) = Some t"
    using st by (auto simp: settles_def i)
  have "get_or_create_wallet db' (pi_tenant_id i) (pi_user_id i) (pi_currency i) = (db', Inr w)"
    using get_or_create_wallet_again [OF _ w(1,2)] inv' by (simp add: pay_inv_def)
  then have again: "settle_wallet_topup db' i (Some a) (Some ''XTR'') now' = (db', Inr (i, t))"
    using settle_wallet_topup_InrD(2,3) [OF k1 r] w(3)
    by (simp add: settle_wallet_topup_def i succeed_intent_def amounts_mismatch_def)
  have pp: "pi_provider_payment_id i = Some charge" by (simp add: i i1)
  have "settle_telegram_stars_topup db' n u payload charge a cur now' = (db', Inr i)"
    using v' ne pp same put again by (simp add: settle_telegram_stars_topup_def)
  moreover have "settle_telegram_stars_topup db' n u payload charge' a cur now' = (db', Inl PaymentIntegrityError)"
    if "charge' \<noteq> charge" "charge' \<noteq> []" for charge'
    using v' that ne pp c by (simp add: settle_telegram_stars_topup_def)
  moreover have "length (settlement_rows db' i) = 1"
    using settlement_rows_cases [OF inv' in'] by (auto simp: i)
  ultimately show ?thesis by blast
qed

lemma topup_settlement_runs:
  assumes inv: "pay_inv db" and i: "i \<in> set (payment_intents db)" "pi_order_id i = None" "0 < pi_amount i"
    and st: "\<not> payment_terminal (pi_status i)" and ok: "\<not> amounts_mismatch i va vc"
  shows "\<exists>db' i' t. settle_wallet_topup db i va vc now = (db', Inr (i', t))"
proof -
  have "ledger_inv db" using inv by (simp add: pay_inv_def)
  then obtain db1 w where g: "get_or_create_wallet db (pi_tenant_id i) (pi_user_id i) (pi_currency i) = (db1, Inr w)"
    using get_or_create_wallet_total by blast
  note s = settlement_succeeds [OF inv i(1) st i(3) g]
  obtain db2 t where sp: "settle_payment db1 w (pi_amount i) (pi_id i)
      (Some (''Wallet top-up settlement via '' @ pi_provider i)) now = (db2, Inr t)" using s(2) by blast
  obtain db3 where u: "succeed_intent db2 i = (db3, Inr (i\<lparr>pi_status := PaymentIntentStatus.SUCCEEDED\<rparr>))"
    using succeed_intent_ok [OF st] by blast
  show ?thesis
    using i(2) ok g s(1) sp u
      flush_settlement [of db3 "i\<lparr>pi_status := PaymentIntentStatus.SUCCEEDED\<rparr>" "[(''purpose'', JStr ''WALLET_TOPUP'')]"]
    by (auto simp: settle_wallet_topup_def)
qed

definition stars_intent :: payment_intent where
  "stars_intent = sample_intent\<lparr>pi_order_id := None, pi_purpose := WALLET_TOPUP, pi_provider := ''telegram_stars'',
     pi_currency := ''XTR'', pi_status := PaymentIntentStatus.PENDING\<rparr>"

definition stars_shop :: pay_db where
  "stars_shop = empty_shop\<lparr>payment_intents := [stars_intent], next_id := 101\<rparr>"

lemma stars_shop_inv [simp]: "pay_inv stars_shop"
  by (simp add: pay_inv_def pay_rows_def paid_books_def ledger_inv_def stars_shop_def empty_shop_def stars_intent_def sample_intent_def
      money_view_def)

theorem stars_charge_bound_witness:
  "\<exists>db' i. settle_telegram_stars_topup stars_shop 7 8 (''ghbf:wallet-topup:'' @ str_uuid 100) ''c1'' 40 ''XTR'' 9 = (db', Inr i) \<and>
     settle_telegram_stars_topup db' 7 8 (''ghbf:wallet-topup:'' @ str_uuid 100) ''c2'' 40 ''XTR'' 10 = (db', Inl PaymentIntegrityError)"
proof -
  let ?pl = "''ghbf:wallet-topup:'' @ str_uuid 100"
  let ?i = "stars_intent\<lparr>pi_provider_payment_id := Some ''c1'',
      pi_metadata_json := dict_set (pi_metadata_json stars_intent) ''telegram_payment_charge_id'' (JStr ''c1'')\<rparr>"
  have in1: "stars_intent \<in> set (payment_intents stars_shop)" by (simp add: stars_shop_def)
  have up: "upper ''XTR'' = ''XTR''" by (simp add: upper_def upper_char_def char_code_def)
  have "get_payment_intent stars_shop 7 100 = Inr stars_intent"
    using get_payment_intent_row [OF stars_shop_inv in1, of 7] by (simp add: stars_intent_def sample_intent_def)
  then have v: "validate_telegram_stars_checkout stars_shop 7 8 ?pl 40 ''XTR'' = Inr stars_intent"
    by (simp add: validate_telegram_stars_checkout_def parse_stars_invoice_payload_def starts_with_def up)
       (simp add: stars_intent_def sample_intent_def)
  have k: "pay_inv (put_intent ?i stars_shop)"
    by (rule put_intent_keeps [OF stars_shop_inv in1]) (simp_all add: money_view_def intent_key_def)
  have "?i \<in> set (payment_intents (put_intent ?i stars_shop))" using in1 by (auto intro!: put_row_in)
  from topup_settlement_runs [OF k this, of "Some 40" "Some ''XTR''" 9]
  obtain db' i t where r: "settle_wallet_topup (put_intent ?i stars_shop) ?i (Some 40) (Some ''XTR'') 9 = (db', Inr (i, t))"
    by (auto simp: stars_intent_def sample_intent_def amounts_mismatch_def)
  have "pi_provider_payment_id stars_intent = None" by (simp add: stars_intent_def sample_intent_def)
  then have s: "settle_telegram_stars_topup stars_shop 7 8 ?pl ''c1'' 40 ''XTR'' 9 = (db', Inr i)"
    using r unfolding settle_telegram_stars_topup_def v lift_res_Inr Let_def by simp
  have "\<not> starts_with ''stars_invoice:'' ''c1''" by (simp add: starts_with_def)
  from stars_charge_bound [OF stars_shop_inv s this, of 10] s show ?thesis by auto
qed

end
