(* ===== verification/Reversals.thy ===== *)
theory Reversals
  imports Payment_Requests
begin

text \<open>
  Reversal of wallet top-ups: the second part of \<open>PaymentService\<close>
  (\<open>packages/payments/payment_service.py\<close>). A reversal is a durable saga: the request takes the
  money from the wallet and records the reversal in one transaction, a worker
  (\<open>Reversal_Worker\<close>) then asks the provider for the refund. Refunds the provider made on its own
  are mirrored, and freeze the wallet when the money is already spent.
\<close>

section \<open>Rows\<close>

definition put_reversal :: "wallet_topup_reversal \<Rightarrow> 'x pay_db_scheme \<Rightarrow> 'x pay_db_scheme" where
  "put_reversal r db = db\<lparr>topup_reversals := put_row rv_id r (topup_reversals db)\<rparr>"

definition get_reversal :: "'x pay_db_scheme \<Rightarrow> uuid \<Rightarrow> wallet_topup_reversal option" where
  "get_reversal db rid = first_row (\<lambda>r. rv_id r = rid) (topup_reversals db)"

definition flush_reversal ::
  "'x pay_db_scheme \<Rightarrow> wallet_topup_reversal \<Rightarrow> ('x pay_db_scheme, wallet_topup_reversal) run" where
  "flush_reversal db r =
     (if violates (\<lambda>_. True) (\<lambda>r. (rv_tenant_id r, rv_payment_intent_id r)) (topup_reversals db) r \<or>
         violates (\<lambda>_. True) (\<lambda>r. (rv_tenant_id r, rv_idempotency_key r)) (topup_reversals db) r
      then (db, Inl IntegrityError)
      else (db\<lparr>topup_reversals := topup_reversals db @ [r], next_id := Suc (next_id db)\<rparr>, Inr r))"

definition find_reversal_by_intent ::
  "'x pay_db_scheme \<Rightarrow> uuid \<Rightarrow> uuid \<Rightarrow> wallet_topup_reversal option res" where
  "find_reversal_by_intent db tenant_id intent_id =
     scalar_one_or_none (\<lambda>r. rv_tenant_id r = tenant_id \<and> rv_payment_intent_id r = intent_id) (topup_reversals db)"

definition unfreeze_wallet :: "uuid \<Rightarrow> 'x ledger_db_scheme \<Rightarrow> 'x ledger_db_scheme" where
  "unfreeze_wallet wid db =
     db\<lparr>wallets := update_where (\<lambda>w. w_id w = wid) (\<lambda>w. w\<lparr>w_is_active := True\<rparr>) (wallets db)\<rparr>"

text \<open>\<open>session.get(Wallet, wallet_id)\<close>, which must be a wallet of the tenant.\<close>

definition reversal_wallet :: "'x ledger_db_scheme \<Rightarrow> uuid \<Rightarrow> uuid \<Rightarrow> wallet res" where
  "reversal_wallet db tenant_id wallet_id =
     (case first_row (\<lambda>w. w_id w = wallet_id) (wallets db) of
        None \<Rightarrow> Inl PaymentIntegrityError
      | Some w \<Rightarrow> if w_tenant_id w \<noteq> tenant_id then Inl PaymentIntegrityError else Inr w)"

definition EXTERNAL_PROVIDER :: json where
  "EXTERNAL_PROVIDER = JStr ''EXTERNAL_PROVIDER''"

definition is_external :: "wallet_topup_reversal \<Rightarrow> bool" where
  "is_external r \<longleftrightarrow> dict_get (rv_metadata_json r) ''origin'' JNull = EXTERNAL_PROVIDER"

section \<open>The refund's payment transaction\<close>

definition topup_reversal_ref :: "uuid \<Rightarrow> str" where
  "topup_reversal_ref rid = ''topup_reversal:'' @ str_uuid rid"

definition find_reversal_transaction ::
  "'x pay_db_scheme \<Rightarrow> payment_intent \<Rightarrow> wallet_topup_reversal \<Rightarrow> payment_transaction option" where
  "find_reversal_transaction db intent r =
     first_row (\<lambda>t. pt_tenant_id t = pi_tenant_id intent \<and> pt_payment_intent_id t = pi_id intent \<and>
                    pt_transaction_type t = PaymentTransactionType.REFUND \<and>
                    pt_reference_id t = Some (topup_reversal_ref (rv_id r))) (payment_transactions db)"

definition reversal_refund_transaction ::
  "uuid \<Rightarrow> payment_intent \<Rightarrow> wallet_topup_reversal \<Rightarrow> str \<Rightarrow> str \<Rightarrow> payment_transaction" where
  "reversal_refund_transaction i intent reversal provider_tx_id origin =
     \<lparr>pt_id = i, pt_tenant_id = pi_tenant_id intent, pt_payment_intent_id = pi_id intent,
      pt_transaction_type = PaymentTransactionType.REFUND, pt_amount = rv_amount reversal,
      pt_currency = rv_currency reversal, pt_status = ''SUCCESS'', pt_provider_tx_id = Some provider_tx_id,
      pt_reference_id = Some (topup_reversal_ref (rv_id reversal)),
      pt_metadata_json = [(''purpose'', JStr ''WALLET_TOPUP''),
        (''reversal_id'', JStr (str_uuid (rv_id reversal))), (''origin'', JStr origin)]\<rparr>"

definition record_topup_reversal_payment_transaction ::
  "'x pay_db_scheme \<Rightarrow> payment_intent \<Rightarrow> wallet_topup_reversal \<Rightarrow> str \<Rightarrow> str \<Rightarrow> ('x pay_db_scheme, unit) run" where
  "record_topup_reversal_payment_transaction db intent reversal provider_tx_id origin =
     (let checked = (\<lambda>db t. if pt_amount t \<noteq> rv_amount reversal \<or> pt_currency t \<noteq> rv_currency reversal
                            then (db, Inl PaymentIntegrityError) else (db, Inr ()))
      in case find_reversal_transaction db intent reversal of
        Some existing \<Rightarrow> checked db existing
      | None \<Rightarrow>
          on_integrity_error
            (nested db (and_then (flush_payment_transaction db
               (reversal_refund_transaction (next_id db) intent reversal provider_tx_id origin)) (\<lambda>db _. (db, Inr ()))))
            (\<lambda>db. case find_reversal_transaction db intent reversal of
                None \<Rightarrow> (db, Inl IntegrityError)
              | Some existing \<Rightarrow> checked db existing))"

section \<open>Refunds observed at the provider\<close>

text \<open>The attributes a completed reversal is left with.\<close>

definition completed :: "wallet_topup_reversal \<Rightarrow> timestamp \<Rightarrow> wallet_topup_reversal" where
  "completed r now = r\<lparr>rv_status := WalletTopUpReversalStatus.COMPLETED, rv_completed_at := Some now,
                       rv_last_error_code := None, rv_last_error_detail := None\<rparr>"

definition complete_wallet_topup_reversal_from_provider_event ::
  "'x pay_db_scheme \<Rightarrow> uuid \<Rightarrow> wallet_topup_reversal \<Rightarrow> str \<Rightarrow> json option \<Rightarrow> timestamp \<Rightarrow>
   ('x pay_db_scheme, wallet_topup_reversal) run" where
  "complete_wallet_topup_reversal_from_provider_event db tenant_id reversal provider_tx_id provider_metadata now =
     (if rv_tenant_id reversal \<noteq> tenant_id then (db, Inl TenantAccessViolationError)
      else if rv_status reversal = WalletTopUpReversalStatus.COMPLETED then (db, Inr reversal)
      else if rv_status reversal = WalletTopUpReversalStatus.MANUAL_REVIEW then (db, Inr reversal)
      else
        lift_res db (get_payment_intent db tenant_id (rv_payment_intent_id reversal)) (\<lambda>db intent.
        if pi_provider_payment_id intent \<noteq> Some provider_tx_id then (db, Inl PaymentIntegrityError)
        else
          lift_res db (reversal_wallet db tenant_id (rv_wallet_id reversal)) (\<lambda>db wlt.
          and_then (reserve_topup_reversal db wlt (rv_amount reversal) (rv_id reversal)
              (Some (''Reserve observed top-up refund '' @ str_uuid (pi_id intent))) now) (\<lambda>db _.
          let metadata = dict_set (rv_metadata_json reversal) ''provider_observed_outbound'' (JBool True);
              metadata = (case provider_metadata of None \<Rightarrow> metadata
                          | Some m \<Rightarrow> dict_set metadata ''provider_observation'' m);
              r = (completed reversal now)\<lparr>rv_metadata_json := metadata, rv_provider_refund_id := Some provider_tx_id,
                     rv_next_attempt_at := None\<rparr>
          in and_then (record_topup_reversal_payment_transaction (put_reversal r db) intent r provider_tx_id
                 ''merchant_request_provider_observed'') (\<lambda>db _. (db, Inr r))))))"

definition external_reversal_key :: "'e deposit_env_scheme \<Rightarrow> uuid \<Rightarrow> str \<Rightarrow> str \<Rightarrow> str" where
  "external_reversal_key env tenant_id provider provider_payment_id =
     ''external:'' @ take 64 (env_sha256 env (str_uuid tenant_id @ '':'' @ provider @ '':'' @ provider_payment_id @
       '':external-reversal''))"

definition external_reversal ::
  "'e deposit_env_scheme \<Rightarrow> uuid \<Rightarrow> timestamp \<Rightarrow> uuid \<Rightarrow> payment_intent \<Rightarrow> str \<Rightarrow> wallet \<Rightarrow> json \<Rightarrow> wallet_topup_reversal" where
  "external_reversal env i now tenant_id intent provider_payment_id wlt provider_metadata =
     \<lparr>rv_id = i, rv_created_at = now, rv_tenant_id = tenant_id, rv_payment_intent_id = pi_id intent,
      rv_user_id = pi_user_id intent, rv_wallet_id = w_id wlt, rv_provider = pi_provider intent,
      rv_original_provider_payment_id = provider_payment_id, rv_provider_refund_id = Some provider_payment_id,
      rv_amount = pi_amount intent, rv_currency = pi_currency intent,
      rv_idempotency_key = external_reversal_key env tenant_id (pi_provider intent) provider_payment_id,
      rv_status = REQUESTED, rv_attempts = 0, rv_next_attempt_at = None, rv_last_attempt_at = None,
      rv_completed_at = None, rv_last_error_code = None, rv_last_error_detail = None,
      rv_metadata_json = [(''origin'', EXTERNAL_PROVIDER), (''provider_observation'', provider_metadata)]\<rparr>"

text \<open>The reversal just recorded, taken from the wallet, or the wallet frozen.\<close>

definition apply_external_reversal ::
  "'x pay_db_scheme \<Rightarrow> payment_intent \<Rightarrow> str \<Rightarrow> wallet \<Rightarrow> wallet_topup_reversal \<Rightarrow> timestamp \<Rightarrow>
   ('x pay_db_scheme, wallet_topup_reversal) run" where
  "apply_external_reversal db intent provider_payment_id wlt reversal now =
     (case reserve_topup_reversal db wlt (pi_amount intent) (rv_id reversal)
          (Some (''External provider reversal for top-up '' @ str_uuid (pi_id intent))) now of
        (db, Inl InsufficientFundsError) \<Rightarrow>
          let r = reversal\<lparr>rv_status := WalletTopUpReversalStatus.MANUAL_REVIEW,
                rv_last_error_code := Some ''EXTERNAL_REVERSAL_INSUFFICIENT_FUNDS'',
                rv_last_error_detail := Some (''Provider reversed the top-up after some or all wallet value was spent; '' @
                  ''wallet frozen pending financial review.''),
                rv_next_attempt_at := None\<rparr>
          in (put_reversal r (freeze_wallet (w_id wlt) db), Inr r)
      | (db, Inl e) \<Rightarrow> (db, Inl e)
      | (db, Inr _) \<Rightarrow>
          let r = completed reversal now
          in and_then (record_topup_reversal_payment_transaction (put_reversal r db) intent r provider_payment_id
                 ''external_provider'') (\<lambda>db _. (db, Inr r)))"

definition record_external_wallet_topup_reversal ::
  "'e deposit_env_scheme \<Rightarrow> 'x pay_db_scheme \<Rightarrow> uuid \<Rightarrow> payment_intent \<Rightarrow> json \<Rightarrow> timestamp \<Rightarrow>
   ('x pay_db_scheme, wallet_topup_reversal) run" where
  "record_external_wallet_topup_reversal env db tenant_id intent provider_metadata now =
     (if pi_tenant_id intent \<noteq> tenant_id then (db, Inl TenantAccessViolationError)
      else if pi_purpose intent \<noteq> WALLET_TOPUP then (db, Inl PaymentIntegrityError)
      else if pi_status intent \<noteq> PaymentIntentStatus.SUCCEEDED then (db, Inl PaymentIntegrityError)
      else if \<not> truthy (pi_provider_payment_id intent) then (db, Inl PaymentIntegrityError)
      else
        let provider_payment_id = the (pi_provider_payment_id intent) in
        lift_res db (find_reversal_by_intent db tenant_id (pi_id intent)) (\<lambda>db existing.
        case existing of
          Some r \<Rightarrow> complete_wallet_topup_reversal_from_provider_event db tenant_id r provider_payment_id
                      (Some provider_metadata) now
        | None \<Rightarrow>
            and_then (get_or_create_wallet db tenant_id (pi_user_id intent) (pi_currency intent)) (\<lambda>db wlt.
            if (case find_settlement db wlt (pi_id intent) of None \<Rightarrow> True | Some s \<Rightarrow> lt_amount s \<noteq> pi_amount intent)
            then (db, Inl PaymentIntegrityError)
            else
              case nested db (flush_reversal db
                  (external_reversal env (next_id db) now tenant_id intent provider_payment_id wlt provider_metadata)) of
                (db, Inl _) \<Rightarrow>
                  lift_res db (find_reversal_by_intent db tenant_id (pi_id intent)) (\<lambda>db concurrent.
                  case concurrent of
                    Some r \<Rightarrow> complete_wallet_topup_reversal_from_provider_event db tenant_id r provider_payment_id
                                (Some provider_metadata) now
                  | None \<Rightarrow> (db, Inl PaymentIntegrityError))
              | (db, Inr reversal) \<Rightarrow> apply_external_reversal db intent provider_payment_id wlt reversal now)))"

section \<open>Resolution of an external reversal\<close>

definition put_event :: "payment_reconciliation_event \<Rightarrow> 'x pay_db_scheme \<Rightarrow> 'x pay_db_scheme" where
  "put_event e db = db\<lparr>reconciliation_events := put_row re_id e (reconciliation_events db)\<rparr>"

definition close_reversal_event ::
  "'e pay_env_scheme \<Rightarrow> 'x pay_db_scheme \<Rightarrow> uuid \<Rightarrow> wallet_topup_reversal \<Rightarrow> timestamp \<Rightarrow> 'x pay_db_scheme" where
  "close_reversal_event env db tenant_id reversal now =
     (case first_row (\<lambda>e. re_tenant_id e = tenant_id \<and> re_provider e = rv_provider reversal \<and>
             re_provider_event_id e = rv_original_provider_payment_id reversal \<and> re_requires_review e)
             (reconciliation_events db) of
        None \<Rightarrow> db
      | Some e \<Rightarrow> put_event (e\<lparr>re_status := PROCESSED, re_requires_review := False,
          re_classification := ''EXTERNAL_REVERSAL_RESOLVED'',
          re_metadata_json := dict_set (re_metadata_json e) ''resolved_at'' (JStr (env_isoformat env now))\<rparr>) db)"

definition resolve_external_wallet_topup_reversal ::
  "'e pay_env_scheme \<Rightarrow> 'x pay_db_scheme \<Rightarrow> uuid \<Rightarrow> uuid \<Rightarrow> timestamp \<Rightarrow> ('x pay_db_scheme, wallet_topup_reversal) run" where
  "resolve_external_wallet_topup_reversal env db tenant_id reversal_id now =
     (case get_reversal db reversal_id of
        None \<Rightarrow> (db, Inl PaymentIntentNotFoundError)
      | Some reversal \<Rightarrow>
          if rv_tenant_id reversal \<noteq> tenant_id then (db, Inl PaymentIntentNotFoundError)
          else if \<not> is_external reversal then (db, Inl PaymentError)
          else if rv_status reversal = WalletTopUpReversalStatus.COMPLETED then (db, Inr reversal)
          else if rv_status reversal \<noteq> WalletTopUpReversalStatus.MANUAL_REVIEW then (db, Inl PaymentError)
          else
            lift_res db (get_payment_intent db tenant_id (rv_payment_intent_id reversal)) (\<lambda>db intent.
            lift_res db (reversal_wallet db tenant_id (rv_wallet_id reversal)) (\<lambda>db wlt.
            and_then (reserve_topup_reversal db wlt (rv_amount reversal) (rv_id reversal)
                (Some (''Resolve external provider reversal for top-up '' @ str_uuid (pi_id intent))) now) (\<lambda>db _.
            let r = completed reversal now in
            and_then (record_topup_reversal_payment_transaction (put_reversal r db) intent r
                (if truthy (rv_provider_refund_id r) then the (rv_provider_refund_id r)
                 else rv_original_provider_payment_id r) ''external_provider_manual_resolution'') (\<lambda>db _.
            let db = (if list_ex (\<lambda>x. rv_wallet_id x = w_id wlt \<and>
                            rv_status x = WalletTopUpReversalStatus.MANUAL_REVIEW \<and> rv_id x \<noteq> rv_id r) (topup_reversals db)
                      then db else unfreeze_wallet (w_id wlt) db)
            in (close_reversal_event env db tenant_id r now, Inr r))))))"

section \<open>Reversals requested by the merchant\<close>

definition requested_reversal ::
  "uuid \<Rightarrow> timestamp \<Rightarrow> uuid \<Rightarrow> payment_intent \<Rightarrow> wallet \<Rightarrow> str \<Rightarrow> str option \<Rightarrow> uuid option \<Rightarrow> wallet_topup_reversal" where
  "requested_reversal i now tenant_id intent wlt idempotency_key reason requested_by_user_id =
     \<lparr>rv_id = i, rv_created_at = now, rv_tenant_id = tenant_id, rv_payment_intent_id = pi_id intent,
      rv_user_id = pi_user_id intent, rv_wallet_id = w_id wlt, rv_provider = pi_provider intent,
      rv_original_provider_payment_id = the (pi_provider_payment_id intent), rv_provider_refund_id = None,
      rv_amount = pi_amount intent, rv_currency = pi_currency intent, rv_idempotency_key = idempotency_key,
      rv_status = REQUESTED, rv_attempts = 0, rv_next_attempt_at = None, rv_last_attempt_at = None,
      rv_completed_at = None, rv_last_error_code = None, rv_last_error_detail = None,
      rv_metadata_json = [(''reason'', json_opt reason),
        (''requested_by_user_id'', json_opt (map_option str_uuid requested_by_user_id))]\<rparr>"

text \<open>What is checked of the provider before any money moves.\<close>

definition refund_capable :: "'e deposit_env_scheme \<Rightarrow> uuid \<Rightarrow> str \<Rightarrow> unit res" where
  "refund_capable env tenant_id name =
     res_bind (env_provider env tenant_id name) (\<lambda>provider.
       if \<not> supports_refunds provider then Inl UnsupportedProviderCapabilityError
       else if \<not> supports_safe_refund_retries provider then Inl UnsupportedProviderCapabilityError
       else Inr ())"

definition reserve_requested_reversal ::
  "'x pay_db_scheme \<Rightarrow> payment_intent \<Rightarrow> wallet \<Rightarrow> wallet_topup_reversal \<Rightarrow> str option \<Rightarrow> timestamp \<Rightarrow>
   ('x pay_db_scheme, wallet_topup_reversal) run" where
  "reserve_requested_reversal db intent wlt reversal reason now =
     and_then (reserve_topup_reversal db wlt (pi_amount intent) (rv_id reversal)
        (or_default reason (''Reserve funds for top-up refund '' @ str_uuid (pi_id intent))) now) (\<lambda>db _.
     let r = reversal\<lparr>rv_status := FUNDS_RESERVED, rv_next_attempt_at := Some now\<rparr>
     in (put_reversal r db, Inr r))"

definition request_wallet_topup_reversal ::
  "'e deposit_env_scheme \<Rightarrow> 'x pay_db_scheme \<Rightarrow> uuid \<Rightarrow> uuid \<Rightarrow> str \<Rightarrow> str option \<Rightarrow> uuid option \<Rightarrow> timestamp \<Rightarrow>
   ('x pay_db_scheme, wallet_topup_reversal) run" where
  "request_wallet_topup_reversal env db tenant_id intent_id idempotency_key reason requested_by_user_id now =
     (if idempotency_key = [] then (db, Inl ValueError)
      else
        lift_res db (get_payment_intent db tenant_id intent_id) (\<lambda>db intent.
        if pi_purpose intent \<noteq> WALLET_TOPUP then (db, Inl PaymentError)
        else if pi_status intent \<noteq> PaymentIntentStatus.SUCCEEDED then (db, Inl PaymentError)
        else if \<not> truthy (pi_provider_payment_id intent) \<or>
                starts_with ''stars_invoice:'' (the (pi_provider_payment_id intent))
        then (db, Inl PaymentIntegrityError)
        else
          lift_res db (scalar_one_or_none (\<lambda>r. rv_tenant_id r = tenant_id \<and> rv_idempotency_key r = idempotency_key)
              (topup_reversals db)) (\<lambda>db existing_by_key.
          case existing_by_key of
            Some r \<Rightarrow> if rv_payment_intent_id r \<noteq> pi_id intent then (db, Inl PaymentIntegrityError) else (db, Inr r)
          | None \<Rightarrow>
              lift_res db (find_reversal_by_intent db tenant_id (pi_id intent)) (\<lambda>db existing_by_intent.
              case existing_by_intent of
                Some r \<Rightarrow> (db, Inr r)
              | None \<Rightarrow>
                  lift_res db (refund_capable env tenant_id (pi_provider intent)) (\<lambda>db _.
                  and_then (get_or_create_wallet db tenant_id (pi_user_id intent) (pi_currency intent)) (\<lambda>db wlt.
                  if (case find_settlement db wlt (pi_id intent) of None \<Rightarrow> True | Some s \<Rightarrow> lt_amount s \<noteq> pi_amount intent)
                  then (db, Inl PaymentIntegrityError)
                  else
                    case nested db (flush_reversal db (requested_reversal (next_id db) now tenant_id intent wlt
                        idempotency_key reason requested_by_user_id)) of
                      (db, Inl _) \<Rightarrow>
                        lift_res db (find_reversal_by_intent db tenant_id (pi_id intent)) (\<lambda>db concurrent.
                        case concurrent of Some r \<Rightarrow> (db, Inr r) | None \<Rightarrow> (db, Inl PaymentIntegrityError))
                    | (db, Inr reversal) \<Rightarrow> reserve_requested_reversal db intent wlt reversal reason now))))))"

section \<open>The refund itself\<close>

definition json_str :: "json \<Rightarrow> str option" where
  "json_str j = (case j of JStr s \<Rightarrow> Some s | _ \<Rightarrow> None)"

definition reversal_refund_request ::
  "wallet_topup_reversal \<Rightarrow> payment_intent \<Rightarrow> user \<Rightarrow> payment_refund_request" where
  "reversal_refund_request reversal intent usr =
     \<lparr>rr_provider_payment_id = rv_original_provider_payment_id reversal, rr_amount = rv_amount reversal,
      rr_currency = rv_currency reversal, rr_idempotency_key = rv_idempotency_key reversal,
      rr_reason = json_str (dict_get (rv_metadata_json reversal) ''reason'' JNull),
      rr_metadata = [(''telegram_user_id'', case u_telegram_id usr of None \<Rightarrow> JNull | Some t \<Rightarrow> JNum (of_int t)),
        (''payment_intent_id'', JStr (str_uuid (pi_id intent))), (''reversal_id'', JStr (str_uuid (rv_id reversal)))]\<rparr>"

definition process_wallet_topup_reversal ::
  "'e deposit_env_scheme \<Rightarrow> 'x pay_db_scheme \<Rightarrow> uuid \<Rightarrow> uuid \<Rightarrow> timestamp \<Rightarrow> ('x pay_db_scheme, wallet_topup_reversal) run" where
  "process_wallet_topup_reversal env db tenant_id reversal_id now =
     (case get_reversal db reversal_id of
        None \<Rightarrow> (db, Inl PaymentIntentNotFoundError)
      | Some reversal \<Rightarrow>
          if rv_tenant_id reversal \<noteq> tenant_id then (db, Inl PaymentIntentNotFoundError)
          else if rv_status reversal = WalletTopUpReversalStatus.COMPLETED then (db, Inr reversal)
          else if rv_status reversal \<noteq> WalletTopUpReversalStatus.PROCESSING then (db, Inl PaymentError)
          else
            lift_res db (get_payment_intent db tenant_id (rv_payment_intent_id reversal)) (\<lambda>db intent.
            case first_row (\<lambda>u. u_id u = rv_user_id reversal) (users db) of
              None \<Rightarrow> (db, Inl PaymentIntegrityError)
            | Some usr \<Rightarrow>
                lift_res db (env_provider env tenant_id (rv_provider reversal)) (\<lambda>db provider.
                lift_res db (provider_refund provider (reversal_refund_request reversal intent usr)) (\<lambda>db refund_result.
                if \<not> rs_is_success refund_result then (db, Inl PaymentProviderError)
                else
                  let r = (completed reversal now)\<lparr>rv_provider_refund_id := Some (rs_provider_refund_id refund_result),
                             rv_next_attempt_at := None\<rparr>
                  in and_then (record_topup_reversal_payment_transaction (put_reversal r db) intent r
                         (rs_provider_refund_id refund_result) ''merchant_request'') (\<lambda>db _. (db, Inr r))))))"

end
