(* ===== verification/Resolution.thy ===== *)
theory Resolution
  imports Reversals
begin

text \<open>
  \<open>FinancialResolutionService\<close> (\<open>packages/payments/resolution.py\<close>): the cases operators work on when
  a reversal or a reconciliation event needs a human decision. A case is opened from its evidence,
  claimed, released and resolved under an optimistic version check; the resolution applies one of
  four actions.
\<close>

section \<open>Rows\<close>

datatype FinancialResolutionAction =
    RETRY_LOCAL_REVERSAL
  | ACKNOWLEDGE_NO_WALLET_IMPACT
  | CLOSE_KEEP_WALLET_FROZEN
  | MARK_FALSE_POSITIVE_AND_UNFREEZE

fun action_value :: "FinancialResolutionAction \<Rightarrow> str" where
  "action_value RETRY_LOCAL_REVERSAL = ''RETRY_LOCAL_REVERSAL''"
| "action_value ACKNOWLEDGE_NO_WALLET_IMPACT = ''ACKNOWLEDGE_NO_WALLET_IMPACT''"
| "action_value CLOSE_KEEP_WALLET_FROZEN = ''CLOSE_KEEP_WALLET_FROZEN''"
| "action_value MARK_FALSE_POSITIVE_AND_UNFREEZE = ''MARK_FALSE_POSITIVE_AND_UNFREEZE''"

definition put_case :: "financial_resolution_case \<Rightarrow> 'x pay_db_scheme \<Rightarrow> 'x pay_db_scheme" where
  "put_case c db = db\<lparr>resolution_cases := put_row fc_id c (resolution_cases db)\<rparr>"

definition find_case :: "'x pay_db_scheme \<Rightarrow> uuid \<Rightarrow> str \<Rightarrow> financial_resolution_case option res" where
  "find_case db tenant_id source_key =
     scalar_one_or_none (\<lambda>c. fc_tenant_id c = tenant_id \<and> fc_source_key c = source_key) (resolution_cases db)"

definition flush_case ::
  "'x pay_db_scheme \<Rightarrow> financial_resolution_case \<Rightarrow> ('x pay_db_scheme, financial_resolution_case) run" where
  "flush_case db c =
     (if violates (\<lambda>_. True) (\<lambda>c. (fc_tenant_id c, fc_source_key c)) (resolution_cases db) c
      then (db, Inl IntegrityError)
      else (db\<lparr>resolution_cases := resolution_cases db @ [c], next_id := Suc (next_id db)\<rparr>, Inr c))"

text \<open>\<open>==\<close> of two dicts: the same keys with the same values, in any order.\<close>

definition dict_eq :: "dict \<Rightarrow> dict \<Rightarrow> bool" where
  "dict_eq d e \<longleftrightarrow> list_all (\<lambda>k. map_of d k = map_of e k) (map fst d @ map fst e)"

text \<open>\<open>{**d, **e}\<close>\<close>

definition dict_merge :: "dict \<Rightarrow> dict \<Rightarrow> dict" where
  "dict_merge d e = foldl (\<lambda>d (k, v). dict_set d k v) d e"

definition new_case ::
  "uuid \<Rightarrow> uuid \<Rightarrow> str \<Rightarrow> str \<Rightarrow> str \<Rightarrow> uuid option \<Rightarrow> uuid option \<Rightarrow> uuid option \<Rightarrow> uuid option \<Rightarrow> dict \<Rightarrow>
   financial_resolution_case" where
  "new_case i tenant_id source_key case_type severity intent_id wallet_id reversal_id event_id metadata =
     \<lparr>fc_id = i, fc_tenant_id = tenant_id, fc_source_key = source_key, fc_case_type = case_type,
      fc_severity = severity, fc_status = OPEN, fc_payment_intent_id = intent_id, fc_wallet_id = wallet_id,
      fc_reversal_id = reversal_id, fc_reconciliation_event_id = event_id, fc_assigned_to_user_id = None,
      fc_version = 1, fc_resolution_code = None, fc_resolution_note = None, fc_resolved_by_user_id = None,
      fc_resolved_at = None, fc_metadata_json = metadata\<rparr>"

text \<open>The insertion both \<open>ensure\<close> operations end with, and the lookup after a lost race.\<close>

definition add_case ::
  "'x pay_db_scheme \<Rightarrow> financial_resolution_case \<Rightarrow> ('x pay_db_scheme, financial_resolution_case option) run" where
  "add_case db c =
     (case nested db (flush_case db c) of
        (db, Inr c) \<Rightarrow> (db, Inr (Some c))
      | (db, Inl e) \<Rightarrow>
          lift_res db (find_case db (fc_tenant_id c) (fc_source_key c)) (\<lambda>db concurrent.
            case concurrent of Some c \<Rightarrow> (db, Inr (Some c)) | None \<Rightarrow> (db, Inl e)))"

definition bump :: "bool \<Rightarrow> financial_resolution_case \<Rightarrow> financial_resolution_case" where
  "bump changed c = (if changed \<and> fc_status c \<noteq> RESOLVED then c\<lparr>fc_version := fc_version c + 1\<rparr> else c)"

section \<open>Opening cases\<close>

definition source_key_for_reversal :: "uuid \<Rightarrow> str" where
  "source_key_for_reversal reversal_id = ''reversal:'' @ str_uuid reversal_id"

definition source_key_for_event :: "uuid \<Rightarrow> str" where
  "source_key_for_event event_id = ''event:'' @ str_uuid event_id"

definition wallet_for_intent :: "'x pay_db_scheme \<Rightarrow> payment_intent option \<Rightarrow> wallet option res" where
  "wallet_for_intent db intent =
     (case intent of
        None \<Rightarrow> Inr None
      | Some i \<Rightarrow> scalar_one_or_none (\<lambda>w. w_tenant_id w = pi_tenant_id i \<and> w_user_id w = pi_user_id i \<and>
                     w_currency w = pi_currency i) (wallets db))"

definition severity_of :: "wallet option \<Rightarrow> str" where
  "severity_of wlt = (case wlt of Some w \<Rightarrow> if \<not> w_is_active w then ''CRITICAL'' else ''HIGH'' | None \<Rightarrow> ''HIGH'')"

definition ensure_case_for_reversal ::
  "'x pay_db_scheme \<Rightarrow> wallet_topup_reversal \<Rightarrow> ('x pay_db_scheme, financial_resolution_case option) run" where
  "ensure_case_for_reversal db reversal =
     (if rv_status reversal \<noteq> WalletTopUpReversalStatus.MANUAL_REVIEW then (db, Inr None)
      else
        let source_key = source_key_for_reversal (rv_id reversal) in
        lift_res db (find_case db (rv_tenant_id reversal) source_key) (\<lambda>db existing.
        let wlt = first_row (\<lambda>w. w_id w = rv_wallet_id reversal) (wallets db);
            severity = severity_of wlt;
            case_type = (if truthy (rv_last_error_code reversal) then the (rv_last_error_code reversal)
                         else ''TOPUP_REVERSAL_MANUAL_REVIEW'');
            metadata = [(''origin'', dict_get (rv_metadata_json reversal) ''origin'' (JStr ''MERCHANT_REQUEST'')),
                        (''last_error_code'', json_opt (rv_last_error_code reversal)),
                        (''last_error_detail'', json_opt (rv_last_error_detail reversal))]
        in case existing of
          Some c \<Rightarrow>
            let changed = (fc_case_type c \<noteq> case_type \<or> fc_severity c \<noteq> severity \<or>
                           fc_wallet_id c \<noteq> Some (rv_wallet_id reversal) \<or> \<not> dict_eq (fc_metadata_json c) metadata);
                c = bump changed (c\<lparr>fc_case_type := case_type, fc_severity := severity,
                      fc_wallet_id := Some (rv_wallet_id reversal),
                      fc_metadata_json := (if dict_eq (fc_metadata_json c) metadata then fc_metadata_json c else metadata)\<rparr>)
            in (put_case c db, Inr (Some c))
        | None \<Rightarrow>
            add_case db (new_case (next_id db) (rv_tenant_id reversal) source_key case_type severity
              (Some (rv_payment_intent_id reversal)) (Some (rv_wallet_id reversal)) (Some (rv_id reversal)) None metadata)))"

text \<open>\<open>if getattr(existing, attr) != value and value is not None: setattr(existing, attr, value)\<close>\<close>

definition set_known :: "'a option \<Rightarrow> 'a option \<Rightarrow> 'a option" where
  "set_known new old = (case new of None \<Rightarrow> old | Some _ \<Rightarrow> new)"

definition refresh_case ::
  "financial_resolution_case \<Rightarrow> payment_reconciliation_event \<Rightarrow> str \<Rightarrow> uuid option \<Rightarrow> dict \<Rightarrow> financial_resolution_case" where
  "refresh_case c event severity wallet_id metadata =
     (let merged = dict_merge (fc_metadata_json c) metadata;
          changed = (fc_case_type c \<noteq> re_classification event \<or> fc_severity c \<noteq> severity \<or>
            fc_reconciliation_event_id c \<noteq> Some (re_id event) \<or>
            set_known (re_payment_intent_id event) (fc_payment_intent_id c) \<noteq> fc_payment_intent_id c \<or>
            set_known wallet_id (fc_wallet_id c) \<noteq> fc_wallet_id c \<or> \<not> dict_eq merged (fc_metadata_json c))
      in bump changed (c\<lparr>fc_case_type := re_classification event, fc_severity := severity,
           fc_reconciliation_event_id := Some (re_id event),
           fc_payment_intent_id := set_known (re_payment_intent_id event) (fc_payment_intent_id c),
           fc_wallet_id := set_known wallet_id (fc_wallet_id c),
           fc_metadata_json := (if dict_eq merged (fc_metadata_json c) then fc_metadata_json c else merged)\<rparr>))"

definition ensure_case_for_reconciliation_event ::
  "'x pay_db_scheme \<Rightarrow> payment_reconciliation_event \<Rightarrow> wallet_topup_reversal option \<Rightarrow>
   ('x pay_db_scheme, financial_resolution_case option) run" where
  "ensure_case_for_reconciliation_event db event given =
     (if \<not> re_requires_review event then (db, Inr None)
      else
        let reversal = (case (given, re_payment_intent_id event) of
              (None, Some i) \<Rightarrow> first_row (\<lambda>r. rv_tenant_id r = re_tenant_id event \<and> rv_payment_intent_id r = i \<and>
                 rv_status r = WalletTopUpReversalStatus.MANUAL_REVIEW) (topup_reversals db)
            | _ \<Rightarrow> given);
            source_key = (case reversal of Some r \<Rightarrow> source_key_for_reversal (rv_id r)
                          | None \<Rightarrow> source_key_for_event (re_id event))
        in
        lift_res db (find_case db (re_tenant_id event) source_key) (\<lambda>db existing.
        let intent = (case re_payment_intent_id event of None \<Rightarrow> None
              | Some i \<Rightarrow> first_row (\<lambda>x. pi_id x = i) (payment_intents db)) in
        lift_res db (case reversal of Some r \<Rightarrow> Inr (first_row (\<lambda>w. w_id w = rv_wallet_id r) (wallets db))
                     | None \<Rightarrow> wallet_for_intent db intent) (\<lambda>db wlt.
        let severity = severity_of wlt;
            metadata = [(''provider'', JStr (re_provider event)), (''provider_event_id'', JStr (re_provider_event_id event)),
                        (''event_type'', JStr (re_event_type event)),
                        (''detail'', dict_get (re_metadata_json event) ''detail'' JNull)]
        in case existing of
          Some c \<Rightarrow> let c = refresh_case c event severity (map_option w_id wlt) metadata in (put_case c db, Inr (Some c))
        | None \<Rightarrow>
            add_case db (new_case (next_id db) (re_tenant_id event) source_key (re_classification event) severity
              (re_payment_intent_id event) (map_option w_id wlt) (map_option rv_id reversal) (Some (re_id event)) metadata))))"

section \<open>Assignment\<close>

definition locked_case :: "'x pay_db_scheme \<Rightarrow> uuid \<Rightarrow> uuid \<Rightarrow> financial_resolution_case res" where
  "locked_case db tenant_id case_id =
     res_bind (scalar_one_or_none (\<lambda>c. fc_id c = case_id \<and> fc_tenant_id c = tenant_id) (resolution_cases db))
       (\<lambda>found. case found of None \<Rightarrow> Inl PaymentError | Some c \<Rightarrow> Inr c)"

definition verify_version :: "financial_resolution_case \<Rightarrow> int \<Rightarrow> unit res" where
  "verify_version c expected_version =
     (if fc_version c \<noteq> expected_version then Inl PaymentIntegrityError else Inr ())"

definition claim_case ::
  "'x pay_db_scheme \<Rightarrow> uuid \<Rightarrow> uuid \<Rightarrow> uuid \<Rightarrow> int \<Rightarrow> ('x pay_db_scheme, financial_resolution_case) run" where
  "claim_case db tenant_id case_id actor_user_id expected_version =
     lift_res db (locked_case db tenant_id case_id) (\<lambda>db c.
     lift_res db (verify_version c expected_version) (\<lambda>db _.
       if fc_status c = RESOLVED then (db, Inl PaymentError)
       else if fc_assigned_to_user_id c \<notin> {None, Some actor_user_id} then (db, Inl PaymentIntegrityError)
       else
         let c = c\<lparr>fc_assigned_to_user_id := Some actor_user_id, fc_status := IN_PROGRESS,
                   fc_version := fc_version c + 1\<rparr>
         in (put_case c db, Inr c)))"

definition release_case ::
  "'x pay_db_scheme \<Rightarrow> uuid \<Rightarrow> uuid \<Rightarrow> uuid \<Rightarrow> int \<Rightarrow> bool \<Rightarrow> ('x pay_db_scheme, financial_resolution_case) run" where
  "release_case db tenant_id case_id actor_user_id expected_version allow_override =
     lift_res db (locked_case db tenant_id case_id) (\<lambda>db c.
     lift_res db (verify_version c expected_version) (\<lambda>db _.
       if fc_status c = RESOLVED then (db, Inl PaymentError)
       else if fc_assigned_to_user_id c \<notin> {None, Some actor_user_id} \<and> \<not> allow_override
       then (db, Inl PaymentIntegrityError)
       else
         let c = c\<lparr>fc_assigned_to_user_id := None, fc_status := OPEN, fc_version := fc_version c + 1\<rparr>
         in (put_case c db, Inr c)))"

section \<open>Resolution\<close>

definition mark_event_resolved ::
  "'e pay_env_scheme \<Rightarrow> 'x pay_db_scheme \<Rightarrow> financial_resolution_case \<Rightarrow> bool \<Rightarrow> FinancialResolutionAction \<Rightarrow> uuid \<Rightarrow>
   str \<Rightarrow> timestamp \<Rightarrow> ('x pay_db_scheme, unit) run" where
  "mark_event_resolved env db c ignored action actor_user_id note now =
     (case fc_reconciliation_event_id c of
        None \<Rightarrow> (db, Inr ())
      | Some eid \<Rightarrow>
          (case first_row (\<lambda>e. re_id e = eid) (reconciliation_events db) of
             None \<Rightarrow> (db, Inl PaymentIntegrityError)
           | Some e \<Rightarrow>
               if re_tenant_id e \<noteq> fc_tenant_id c then (db, Inl PaymentIntegrityError)
               else (put_event (e\<lparr>re_requires_review := False, re_status := (if ignored then IGNORED else PROCESSED),
                       re_metadata_json := dict_set (re_metadata_json e) ''operator_resolution''
                         (JObj [(''action'', JStr (action_value action)), (''actor_user_id'', JStr (str_uuid actor_user_id)),
                                (''resolved_at'', JStr (env_isoformat env now)), (''note'', JStr note)])\<rparr>) db, Inr ())))"

definition asset_wallet_id_of :: "financial_resolution_case \<Rightarrow> json" where
  "asset_wallet_id_of c = dict_get (fc_metadata_json c) ''asset_wallet_id'' JNull"

definition other_open_case_count :: "'x pay_db_scheme \<Rightarrow> financial_resolution_case \<Rightarrow> nat" where
  "other_open_case_count db c =
     (if fc_wallet_id c = None \<and> \<not> json_truthy (asset_wallet_id_of c) then 0
      else length (filter (\<lambda>x. fc_tenant_id x = fc_tenant_id c \<and>
             (if fc_wallet_id c \<noteq> None then fc_wallet_id x = fc_wallet_id c
              else asset_wallet_id_of x = asset_wallet_id_of c) \<and>
             fc_status x \<noteq> RESOLVED \<and> fc_id x \<noteq> fc_id c) (resolution_cases db)))"

datatype resolution_wallet = Cash wallet | Asset asset_wallet

fun rw_is_active :: "resolution_wallet \<Rightarrow> bool" where
  "rw_is_active (Cash w) = w_is_active w"
| "rw_is_active (Asset w) = aw_is_active w"

fun rw_id :: "resolution_wallet \<Rightarrow> uuid" where
  "rw_id (Cash w) = w_id w"
| "rw_id (Asset w) = aw_id w"

fun reactivate :: "resolution_wallet \<Rightarrow> 'x pay_db_scheme \<Rightarrow> 'x pay_db_scheme" where
  "reactivate (Cash w) db = unfreeze_wallet (w_id w) db"
| "reactivate (Asset w) db =
     db\<lparr>asset_wallets := update_where (\<lambda>x. aw_id x = aw_id w) (\<lambda>x. x\<lparr>aw_is_active := True\<rparr>) (asset_wallets db)\<rparr>"

text \<open>\<open>uuid.UUID(asset_id)\<close>\<close>

definition UUID_of_json :: "json \<Rightarrow> uuid res" where
  "UUID_of_json j =
     (case j of JStr s \<Rightarrow> (case parse_uuid s of None \<Rightarrow> Inl ValueError | Some i \<Rightarrow> Inr i) | _ \<Rightarrow> Inl AttributeError)"

definition get_resolution_wallet :: "'x pay_db_scheme \<Rightarrow> financial_resolution_case \<Rightarrow> resolution_wallet res" where
  "get_resolution_wallet db c =
     (case fc_wallet_id c of
        Some wid \<Rightarrow>
          (case first_row (\<lambda>w. w_id w = wid \<and> w_tenant_id w = fc_tenant_id c) (wallets db) of
             None \<Rightarrow> Inl PaymentIntegrityError | Some w \<Rightarrow> Inr (Cash w))
      | None \<Rightarrow>
          if json_truthy (asset_wallet_id_of c) then
            res_bind (UUID_of_json (asset_wallet_id_of c)) (\<lambda>wid.
            case first_row (\<lambda>w. aw_id w = wid \<and> aw_tenant_id w = fc_tenant_id c) (asset_wallets db) of
              None \<Rightarrow> Inl PaymentIntegrityError | Some w \<Rightarrow> Inr (Asset w))
          else Inl PaymentError)"

text \<open>The wallet of the case stays frozen while another case about it is open.\<close>

definition refreeze :: "'x pay_db_scheme \<Rightarrow> financial_resolution_case \<Rightarrow> 'x pay_db_scheme" where
  "refreeze db c =
     (let wlt = (case fc_wallet_id c of None \<Rightarrow> None | Some wid \<Rightarrow> first_row (\<lambda>w. w_id w = wid) (wallets db))
      in case wlt of
           Some w \<Rightarrow> if other_open_case_count db c \<noteq> 0 then freeze_wallet (w_id w) db else db
         | None \<Rightarrow> db)"

definition retry_local_reversal ::
  "'e pay_env_scheme \<Rightarrow> 'x pay_db_scheme \<Rightarrow> uuid \<Rightarrow> financial_resolution_case \<Rightarrow> uuid \<Rightarrow> str \<Rightarrow> timestamp \<Rightarrow>
   ('x pay_db_scheme, str) run" where
  "retry_local_reversal env db tenant_id c actor_user_id note now =
     (case fc_reversal_id c of
        None \<Rightarrow> (db, Inl PaymentError)
      | Some rid \<Rightarrow>
          (case get_reversal db rid of
             None \<Rightarrow> (db, Inl PaymentIntegrityError)
           | Some reversal \<Rightarrow>
               if rv_tenant_id reversal \<noteq> tenant_id then (db, Inl PaymentIntegrityError)
               else if \<not> is_external reversal then (db, Inl PaymentError)
               else
                 and_then (resolve_external_wallet_topup_reversal env db tenant_id (rv_id reversal) now) (\<lambda>db resolved.
                 if rv_status resolved \<noteq> WalletTopUpReversalStatus.COMPLETED then (db, Inl PaymentIntegrityError)
                 else
                   and_then (mark_event_resolved env db c False RETRY_LOCAL_REVERSAL actor_user_id note now) (\<lambda>db _.
                   (refreeze db c, Inr ''EXTERNAL_REVERSAL_DEBIT_APPLIED'')))))"

definition acknowledge_no_wallet_impact ::
  "'e pay_env_scheme \<Rightarrow> 'x pay_db_scheme \<Rightarrow> financial_resolution_case \<Rightarrow> uuid \<Rightarrow> str \<Rightarrow> timestamp \<Rightarrow>
   ('x pay_db_scheme, str) run" where
  "acknowledge_no_wallet_impact env db c actor_user_id note now =
     (if fc_wallet_id c \<noteq> None \<or> fc_reversal_id c \<noteq> None \<or> json_truthy (asset_wallet_id_of c)
      then (db, Inl PaymentError)
      else and_then (mark_event_resolved env db c True ACKNOWLEDGE_NO_WALLET_IMPACT actor_user_id note now)
             (\<lambda>db _. (db, Inr ''NO_WALLET_IMPACT_ACKNOWLEDGED'')))"

definition close_keep_wallet_frozen ::
  "'e pay_env_scheme \<Rightarrow> 'x pay_db_scheme \<Rightarrow> financial_resolution_case \<Rightarrow> uuid \<Rightarrow> str \<Rightarrow> timestamp \<Rightarrow>
   ('x pay_db_scheme, str) run" where
  "close_keep_wallet_frozen env db c actor_user_id note now =
     lift_res db (get_resolution_wallet db c) (\<lambda>db wlt.
       if rw_is_active wlt then (db, Inl PaymentError)
       else and_then (mark_event_resolved env db c False CLOSE_KEEP_WALLET_FROZEN actor_user_id note now)
              (\<lambda>db _. (db, Inr ''WALLET_REMAINS_FROZEN'')))"

definition pending_reversal_count :: "'x pay_db_scheme \<Rightarrow> uuid \<Rightarrow> uuid \<Rightarrow> nat" where
  "pending_reversal_count db tenant_id wid =
     length (filter (\<lambda>r. rv_tenant_id r = tenant_id \<and> rv_wallet_id r = wid \<and>
                         rv_status r = WalletTopUpReversalStatus.MANUAL_REVIEW) (topup_reversals db))"

definition mark_false_positive_and_unfreeze ::
  "'e pay_env_scheme \<Rightarrow> 'x pay_db_scheme \<Rightarrow> uuid \<Rightarrow> financial_resolution_case \<Rightarrow> uuid \<Rightarrow> str \<Rightarrow> bool \<Rightarrow> timestamp \<Rightarrow>
   ('x pay_db_scheme, str) run" where
  "mark_false_positive_and_unfreeze env db tenant_id c actor_user_id note actor_is_owner now =
     (if \<not> actor_is_owner then (db, Inl TenantAccessViolationError)
      else if length note < 20 then (db, Inl PaymentError)
      else if fc_reversal_id c \<noteq> None then (db, Inl PaymentError)
      else
        lift_res db (get_resolution_wallet db c) (\<lambda>db wlt.
        if rw_is_active wlt then (db, Inl PaymentError)
        else if other_open_case_count db c \<noteq> 0 then (db, Inl PaymentIntegrityError)
        else if pending_reversal_count db tenant_id (rw_id wlt) \<noteq> 0 then (db, Inl PaymentIntegrityError)
        else and_then (mark_event_resolved env (reactivate wlt db) c True MARK_FALSE_POSITIVE_AND_UNFREEZE actor_user_id note now)
               (\<lambda>db _. (db, Inr ''FALSE_POSITIVE_WALLET_REACTIVATED''))))"

definition apply_action ::
  "'e pay_env_scheme \<Rightarrow> 'x pay_db_scheme \<Rightarrow> uuid \<Rightarrow> financial_resolution_case \<Rightarrow> uuid \<Rightarrow> FinancialResolutionAction \<Rightarrow>
   str \<Rightarrow> bool \<Rightarrow> timestamp \<Rightarrow> ('x pay_db_scheme, str) run" where
  "apply_action env db tenant_id c actor_user_id action note actor_is_owner now =
     (case action of
        RETRY_LOCAL_REVERSAL \<Rightarrow> retry_local_reversal env db tenant_id c actor_user_id note now
      | ACKNOWLEDGE_NO_WALLET_IMPACT \<Rightarrow> acknowledge_no_wallet_impact env db c actor_user_id note now
      | CLOSE_KEEP_WALLET_FROZEN \<Rightarrow> close_keep_wallet_frozen env db c actor_user_id note now
      | MARK_FALSE_POSITIVE_AND_UNFREEZE \<Rightarrow>
          mark_false_positive_and_unfreeze env db tenant_id c actor_user_id note actor_is_owner now)"

definition resolve_case ::
  "'e pay_env_scheme \<Rightarrow> 'x pay_db_scheme \<Rightarrow> uuid \<Rightarrow> uuid \<Rightarrow> uuid \<Rightarrow> int \<Rightarrow> FinancialResolutionAction \<Rightarrow> str \<Rightarrow> bool \<Rightarrow>
   timestamp \<Rightarrow> ('x pay_db_scheme, financial_resolution_case) run" where
  "resolve_case env db tenant_id case_id actor_user_id expected_version action note actor_is_owner now =
     lift_res db (locked_case db tenant_id case_id) (\<lambda>db c.
     lift_res db (verify_version c expected_version) (\<lambda>db _.
       if fc_status c = RESOLVED then (db, Inr c)
       else if fc_assigned_to_user_id c \<notin> {None, Some actor_user_id} then (db, Inl PaymentIntegrityError)
       else
         let c = c\<lparr>fc_assigned_to_user_id := Some actor_user_id\<rparr>; db = put_case c db; clean_note = strip note in
         if length clean_note < 12 then (db, Inl PaymentError)
         else
           and_then (apply_action env db tenant_id c actor_user_id action clean_note actor_is_owner now) (\<lambda>db code.
           let c = c\<lparr>fc_status := RESOLVED, fc_resolution_code := Some code, fc_resolution_note := Some clean_note,
                     fc_resolved_by_user_id := Some actor_user_id, fc_resolved_at := Some now,
                     fc_version := fc_version c + 1,
                     fc_metadata_json := dict_set (fc_metadata_json c) ''resolution_action'' (JStr (action_value action))\<rparr>
           in (put_case c db, Inr c))))"

end
