(* ===== verification/Stars_Reconciliation.thy ===== *)
theory Stars_Reconciliation
  imports Resolution
begin

text \<open>
  \<open>TelegramStarsReconciliationService\<close> and the poll of its worker (\<open>packages/payments/stars_reconciliation.py\<close>):
  the outgoing transactions that Telegram lists for a bot are matched with the settled top-ups; a refund
  that the merchant did not ask for is mirrored in the wallet. A transaction is the JSON object of the Bot API.
  \<open>env_int\<close> is \<open>int\<close> on strings, \<open>None\<close> for its \<open>ValueError\<close>.
\<close>

record stars_env = pay_env +
  env_int :: "str \<Rightarrow> int option"

definition EVENT_TYPE :: str where
  "EVENT_TYPE = ''TELEGRAM_STARS_OUTBOUND_INVOICE''"

definition TOPUP_PREFIX :: str where
  "TOPUP_PREFIX = ''ghbf:wallet-topup:''"

text \<open>\<open>int(x)\<close> of a JSON value; \<open>None\<close> is a \<open>TypeError\<close> or \<open>ValueError\<close>.\<close>

definition int_of_json :: "'e stars_env_scheme \<Rightarrow> json \<Rightarrow> int option" where
  "int_of_json env j =
     (case j of JNum x \<Rightarrow> Some (round_down x) | JBool b \<Rightarrow> Some (if b then 1 else 0) | JStr s \<Rightarrow> env_int env s | _ \<Rightarrow> None)"

definition is_relevant_outbound :: "dict \<Rightarrow> bool" where
  "is_relevant_outbound tx \<longleftrightarrow>
     (case dict_get tx ''receiver'' JNull of
        JObj receiver \<Rightarrow> dict_get receiver ''type'' JNull = JStr ''user'' \<and>
          dict_get receiver ''transaction_type'' JNull = JStr ''invoice_payment''
      | _ \<Rightarrow> False)"

definition transaction_amount :: "'e stars_env_scheme \<Rightarrow> dict \<Rightarrow> decimal res" where
  "transaction_amount env tx =
     (case int_of_json env (dict_get tx ''amount'' (JNum 0)) of
        None \<Rightarrow> Inl PaymentIntegrityError
      | Some n \<Rightarrow> Inr (of_int \<bar>n\<bar>))"

text \<open>\<open>datetime.fromtimestamp\<close> accepts the seconds of the years 1 to 9999.\<close>

definition occurred_at :: "'e stars_env_scheme \<Rightarrow> dict \<Rightarrow> timestamp option" where
  "occurred_at env tx =
     (case int_of_json env (dict_get tx ''date'' JNull) of
        None \<Rightarrow> None
      | Some raw \<Rightarrow> if - 62135596800 \<le> raw \<and> raw \<le> 253402300799 then Some (raw * 1000000) else None)"

definition existing_event ::
  "'x pay_db_scheme \<Rightarrow> uuid \<Rightarrow> str \<Rightarrow> payment_reconciliation_event option res" where
  "existing_event db tenant_id transaction_id =
     scalar_one_or_none (\<lambda>e. re_tenant_id e = tenant_id \<and> re_provider e = ''telegram_stars'' \<and>
       re_provider_event_id e = transaction_id \<and> re_event_type e = EVENT_TYPE) (reconciliation_events db)"

definition find_stars_intent ::
  "'x pay_db_scheme \<Rightarrow> uuid \<Rightarrow> str \<Rightarrow> str option \<Rightarrow> payment_intent option res" where
  "find_stars_intent db tenant_id transaction_id invoice_payload =
     res_bind (scalar_one_or_none (\<lambda>i. pi_tenant_id i = tenant_id \<and> pi_provider i = ''telegram_stars'' \<and>
         pi_provider_payment_id i = Some transaction_id \<and> pi_purpose i = WALLET_TOPUP) (payment_intents db)) (\<lambda>found.
     case (found, invoice_payload) of
       (Some i, _) \<Rightarrow> Inr (Some i)
     | (None, None) \<Rightarrow> Inr None
     | (None, Some payload) \<Rightarrow>
         if payload = [] \<or> \<not> starts_with TOPUP_PREFIX payload then Inr None
         else case parse_uuid (drop (length TOPUP_PREFIX) payload) of
           None \<Rightarrow> Inr None
         | Some intent_id \<Rightarrow>
             (case first_row (\<lambda>i. pi_id i = intent_id) (payment_intents db) of
                None \<Rightarrow> Inr None
              | Some c \<Rightarrow>
                  if pi_tenant_id c \<noteq> tenant_id then Inr None
                  else if pi_provider c \<noteq> ''telegram_stars'' \<or> pi_purpose c \<noteq> WALLET_TOPUP then Inr None
                  else Inr (Some c)))"

definition freeze_intent_wallet :: "'x pay_db_scheme \<Rightarrow> payment_intent \<Rightarrow> ('x pay_db_scheme, unit) run" where
  "freeze_intent_wallet db intent =
     lift_res db (wallet_for_intent db (Some intent)) (\<lambda>db wlt.
       case wlt of None \<Rightarrow> (db, Inr ()) | Some w \<Rightarrow> (freeze_wallet (w_id w) db, Inr ()))"

section \<open>One transaction\<close>

fun intent_status_value :: "PaymentIntentStatus \<Rightarrow> str" where
  "intent_status_value PaymentIntentStatus.CREATED = ''CREATED''"
| "intent_status_value PaymentIntentStatus.PENDING = ''PENDING''"
| "intent_status_value PaymentIntentStatus.PROCESSING = ''PROCESSING''"
| "intent_status_value PaymentIntentStatus.SUCCEEDED = ''SUCCEEDED''"
| "intent_status_value PaymentIntentStatus.FAILED = ''FAILED''"
| "intent_status_value PaymentIntentStatus.EXPIRED = ''EXPIRED''"
| "intent_status_value PaymentIntentStatus.UNKNOWN = ''UNKNOWN''"
| "intent_status_value PaymentIntentStatus.CANCELLED = ''CANCELLED''"

definition receiver_user_id :: "dict \<Rightarrow> json" where
  "receiver_user_id receiver =
     (case dict_get receiver ''user'' JNull of JObj u \<Rightarrow> dict_get u ''id'' JNull | _ \<Rightarrow> JNull)"

definition integrity_error ::
  "'e stars_env_scheme \<Rightarrow> 'x pay_db_scheme \<Rightarrow> payment_intent \<Rightarrow> dict \<Rightarrow> str \<Rightarrow> decimal \<Rightarrow> str option" where
  "integrity_error env db intent receiver transaction_id amount =
     (if pi_status intent \<noteq> PaymentIntentStatus.SUCCEEDED
      then Some (''Intent is not settled: '' @ intent_status_value (pi_status intent) @ ''.'')
      else if pi_currency intent \<noteq> ''XTR'' \<or> pi_amount intent \<noteq> amount
      then Some (''Provider reversal amount/currency mismatch: intent='' @ env_str_decimal env (pi_amount intent) @ '' '' @
             pi_currency intent @ '', provider='' @ env_str_decimal env amount @ '' XTR.'')
      else if pi_provider_payment_id intent \<noteq> Some transaction_id
      then Some ''Provider transaction identifier does not match the settled intent.''
      else case (case first_row (\<lambda>u. u_id u = pi_user_id intent) (users db) of None \<Rightarrow> None | Some u \<Rightarrow> u_telegram_id u) of
        None \<Rightarrow> Some ''Settled intent user has no Telegram identity.''
      | Some telegram_id \<Rightarrow>
          if receiver_user_id receiver = JNull then None
          else (case int_of_json env (receiver_user_id receiver) of
              None \<Rightarrow> Some ''Provider reversal receiver contains an invalid Telegram user identifier.''
            | Some n \<Rightarrow> if n \<noteq> telegram_id then Some ''Provider reversal receiver does not match the settled intent user.''
                        else None))"

text \<open>What is found out about a transaction: the status, classification, review flag and detail of its event.\<close>

record finding =
  fi_status :: PaymentReconciliationEventStatus
  fi_classification :: str
  fi_requires_review :: bool
  fi_detail :: "str option"

definition processed :: "str \<Rightarrow> finding" where
  "processed c = \<lparr>fi_status = PROCESSED, fi_classification = c, fi_requires_review = False, fi_detail = None\<rparr>"

definition review :: "str \<Rightarrow> str option \<Rightarrow> finding" where
  "review c detail = \<lparr>fi_status = PaymentReconciliationEventStatus.MANUAL_REVIEW, fi_classification = c, fi_requires_review = True,
     fi_detail = detail\<rparr>"

definition mirror_reversal ::
  "'e stars_env_scheme \<Rightarrow> 'x pay_db_scheme \<Rightarrow> uuid \<Rightarrow> payment_intent \<Rightarrow> dict \<Rightarrow> str \<Rightarrow> timestamp \<Rightarrow>
   ('x pay_db_scheme, finding \<times> wallet_topup_reversal option) run" where
  "mirror_reversal env db tenant_id intent tx transaction_id now =
     lift_res db (find_reversal_by_intent db tenant_id (pi_id intent)) (\<lambda>db found.
     case found of
       Some reversal \<Rightarrow>
         and_then (complete_wallet_topup_reversal_from_provider_event db tenant_id reversal transaction_id (Some (JObj tx)) now)
           (\<lambda>db r. (db, Inr (if rv_status r = WalletTopUpReversalStatus.MANUAL_REVIEW
              then review ''LOCAL_REVERSAL_REQUIRES_REVIEW'' (rv_last_error_detail r)
              else processed ''EXPECTED_MERCHANT_REFUND'', Some r)))
     | None \<Rightarrow>
         and_then (record_external_wallet_topup_reversal env db tenant_id intent (JObj tx) now)
           (\<lambda>db r. (db, Inr (if rv_status r = WalletTopUpReversalStatus.COMPLETED
              then processed ''EXTERNAL_REVERSAL_APPLIED''
              else review ''EXTERNAL_REVERSAL_INSUFFICIENT_FUNDS'' (rv_last_error_detail r), Some r))))"

definition judge_transaction ::
  "'e stars_env_scheme \<Rightarrow> 'x pay_db_scheme \<Rightarrow> uuid \<Rightarrow> payment_intent option \<Rightarrow> dict \<Rightarrow> dict \<Rightarrow> str \<Rightarrow> decimal \<Rightarrow> timestamp \<Rightarrow>
   ('x pay_db_scheme, finding \<times> wallet_topup_reversal option) run" where
  "judge_transaction env db tenant_id intent receiver tx transaction_id amount now =
     (case intent of
        None \<Rightarrow> (db, Inr (review ''UNMATCHED_GHBF_OUTBOUND''
          (Some ''Telegram reported an outbound GH-Bot-Factory invoice transaction with no local intent.''), None))
      | Some i \<Rightarrow>
          (case integrity_error env db i receiver transaction_id amount of
             Some e \<Rightarrow> and_then (freeze_intent_wallet db i) (\<lambda>db _.
               (db, Inr (review ''OUTBOUND_INTEGRITY_MISMATCH'' (Some e), None)))
           | None \<Rightarrow> mirror_reversal env db tenant_id i tx transaction_id now))"

definition new_event ::
  "'e stars_env_scheme \<Rightarrow> uuid \<Rightarrow> uuid \<Rightarrow> str \<Rightarrow> payment_intent option \<Rightarrow> finding \<Rightarrow> decimal \<Rightarrow> dict \<Rightarrow> payment_reconciliation_event" where
  "new_event env i tenant_id transaction_id intent f amount tx =
     \<lparr>re_id = i, re_tenant_id = tenant_id, re_provider = ''telegram_stars'', re_provider_event_id = transaction_id,
      re_event_type = EVENT_TYPE, re_payment_intent_id = map_option pi_id intent, re_status = fi_status f, re_amount = amount,
      re_currency = ''XTR'', re_occurred_at = occurred_at env tx, re_classification = fi_classification f,
      re_requires_review = fi_requires_review f,
      re_metadata_json = [(''detail'', json_opt (fi_detail f)), (''transaction'', JObj tx)]\<rparr>"

definition event_key :: "payment_reconciliation_event \<Rightarrow> uuid \<times> str \<times> str \<times> str" where
  "event_key e = (re_tenant_id e, re_provider e, re_provider_event_id e, re_event_type e)"

definition flush_event ::
  "'x pay_db_scheme \<Rightarrow> payment_reconciliation_event \<Rightarrow> ('x pay_db_scheme, payment_reconciliation_event) run" where
  "flush_event db e =
     (if violates (\<lambda>_. True) event_key (reconciliation_events db) e then (db, Inl IntegrityError)
      else (db\<lparr>reconciliation_events := reconciliation_events db @ [e], next_id := Suc (next_id db)\<rparr>, Inr e))"

definition case_for_event ::
  "'x pay_db_scheme \<Rightarrow> payment_reconciliation_event \<Rightarrow> wallet_topup_reversal option \<Rightarrow>
   ('x pay_db_scheme, payment_reconciliation_event option) run" where
  "case_for_event db e reversal =
     (if re_requires_review e
      then and_then (ensure_case_for_reconciliation_event db e reversal) (\<lambda>db _. (db, Inr (Some e)))
      else (db, Inr (Some e)))"

definition process_outbound_transaction ::
  "'e stars_env_scheme \<Rightarrow> 'x pay_db_scheme \<Rightarrow> uuid \<Rightarrow> dict \<Rightarrow> timestamp \<Rightarrow>
   ('x pay_db_scheme, payment_reconciliation_event option) run" where
  "process_outbound_transaction env db tenant_id tx now =
     (let transaction_id = strip (settings_str env tx ''id'' []);
          receiver = (case dict_get tx ''receiver'' JNull of JObj r \<Rightarrow> r | _ \<Rightarrow> []);
          payload = strip (settings_str env receiver ''invoice_payload'' []) in
      if \<not> is_relevant_outbound tx then (db, Inr None)
      else if transaction_id = [] then (db, Inr None)
      else
        lift_res db (existing_event db tenant_id transaction_id) (\<lambda>db existing.
        case existing of
          Some e \<Rightarrow> case_for_event db e None
        | None \<Rightarrow>
            if payload \<noteq> [] \<and> \<not> starts_with TOPUP_PREFIX payload then (db, Inr None)
            else
              lift_res db (transaction_amount env tx) (\<lambda>db amount.
              lift_res db (find_stars_intent db tenant_id transaction_id (if payload = [] then None else Some payload)) (\<lambda>db intent.
              if intent = None \<and> payload = [] then (db, Inr None)
              else
                and_then (judge_transaction env db tenant_id intent receiver tx transaction_id amount now) (\<lambda>db (f, reversal).
                case nested db (flush_event db (new_event env (next_id db) tenant_id transaction_id intent f amount tx)) of
                  (db, Inr e) \<Rightarrow> case_for_event db e reversal
                | (db, Inl IntegrityError) \<Rightarrow>
                    lift_res db (existing_event db tenant_id transaction_id) (\<lambda>db concurrent.
                    case concurrent of Some e \<Rightarrow> case_for_event db e reversal | None \<Rightarrow> (db, Inl IntegrityError))
                | (db, Inl err) \<Rightarrow> (db, Inl err))))))"

section \<open>A tenant, and the worker's poll\<close>

fun process_each ::
  "'e stars_env_scheme \<Rightarrow> 'x pay_db_scheme \<Rightarrow> uuid \<Rightarrow> dict list \<Rightarrow> nat \<Rightarrow> timestamp \<Rightarrow> ('x pay_db_scheme, nat) run" where
  "process_each env db tenant_id [] so_far now = (db, Inr so_far)"
| "process_each env db tenant_id (tx # txs) so_far now =
     and_then (process_outbound_transaction env db tenant_id tx now) (\<lambda>db event.
       process_each env db tenant_id txs (if event = None then so_far else Suc so_far) now)"

definition scan_tenant ::
  "'e stars_env_scheme \<Rightarrow> 'x pay_db_scheme \<Rightarrow> uuid \<Rightarrow> timestamp \<Rightarrow> ('x pay_db_scheme, nat) run" where
  "scan_tenant env db tenant_id now =
     lift_res db (env_provider env tenant_id ''telegram_stars'') (\<lambda>db provider.
     case list_recent_star_transactions provider of
       None \<Rightarrow> (db, Inl PaymentProviderError)
     | Some answer \<Rightarrow> lift_res db answer (\<lambda>db transactions. process_each env db tenant_id transactions 0 now))"

definition stars_config :: "uuid \<Rightarrow> payment_provider_config \<Rightarrow> bool" where
  "stars_config tenant_id c \<longleftrightarrow> pc_tenant_id c = tenant_id \<and> pc_provider_name c = ''telegram_stars'' \<and> pc_is_enabled c"

text \<open>One tenant of the poll: its own session, committed or rolled back.\<close>

definition poll_tenant ::
  "'e stars_env_scheme \<Rightarrow> 'x pay_db_scheme \<Rightarrow> uuid \<Rightarrow> timestamp \<Rightarrow> ('x pay_db_scheme, nat) run" where
  "poll_tenant env db tenant_id now =
     lift_res db (scalar_one_or_none (stars_config tenant_id) (provider_configs db)) (\<lambda>db config.
     case config of
       None \<Rightarrow> (db, Inr 0)
     | Some c \<Rightarrow>
         if \<not> json_truthy (dict_get (pc_settings_json c) ''chargeback_reconciliation_enabled'' (JBool True)) then (db, Inr 0)
         else case get_db_session (\<lambda>db. scan_tenant env db tenant_id now) db of
           (db, Inr n) \<Rightarrow> (db, Inr n)
         | (db, Inl _) \<Rightarrow> (db, Inr 0))"

fun poll_tenants ::
  "'e stars_env_scheme \<Rightarrow> 'x pay_db_scheme \<Rightarrow> uuid list \<Rightarrow> nat \<Rightarrow> timestamp \<Rightarrow> ('x pay_db_scheme, nat) run" where
  "poll_tenants env db [] total_count now = (db, Inr total_count)"
| "poll_tenants env db (t # ts) total_count now =
     and_then (poll_tenant env db t now) (\<lambda>db n. poll_tenants env db ts (total_count + n) now)"

definition stars_poll_once :: "'e stars_env_scheme \<Rightarrow> 'x pay_db_scheme \<Rightarrow> timestamp \<Rightarrow> ('x pay_db_scheme, nat) run" where
  "stars_poll_once env db now =
     poll_tenants env db (map pc_tenant_id (filter (\<lambda>c. pc_provider_name c = ''telegram_stars'' \<and> pc_is_enabled c) (provider_configs db)))
       0 now"

end
