(* ===== verification/Reversal_Worker.thy ===== *)
theory Reversal_Worker
  imports Resolution
begin

text \<open>
  \<open>WalletTopUpReversalWorker\<close> (\<open>packages/payments/reversal_worker.py\<close>): claims the reversals that are
  due, asks the provider for each refund, and files the outcome: completed, retried later with
  exponential backoff, or handed to an operator. Every session of the worker commits on its own,
  so each function here maps committed stores to committed stores.
\<close>

record reversal_worker =
  max_backoff_seconds :: int

definition claimable :: "timestamp \<Rightarrow> wallet_topup_reversal \<Rightarrow> bool" where
  "claimable now r \<longleftrightarrow>
     rv_status r \<in> {FUNDS_RESERVED, RECONCILIATION_REQUIRED} \<and>
     (case rv_next_attempt_at r of None \<Rightarrow> True | Some t \<Rightarrow> t \<le> now)"

definition claim_reversal :: "'x pay_db_scheme \<Rightarrow> uuid \<Rightarrow> timestamp \<Rightarrow> 'x pay_db_scheme \<times> bool" where
  "claim_reversal db reversal_id now =
     (let p = (\<lambda>r. rv_id r = reversal_id \<and> claimable now r)
      in (db\<lparr>topup_reversals := update_where p
               (\<lambda>r. r\<lparr>rv_status := WalletTopUpReversalStatus.PROCESSING, rv_attempts := rv_attempts r + 1,
                      rv_last_attempt_at := Some now, rv_next_attempt_at := None\<rparr>) (topup_reversals db)\<rparr>,
          list_ex p (topup_reversals db)))"

definition recover_processing :: "'x pay_db_scheme \<Rightarrow> timestamp \<Rightarrow> 'x pay_db_scheme \<times> nat" where
  "recover_processing db now =
     (let p = (\<lambda>r. rv_status r = WalletTopUpReversalStatus.PROCESSING)
      in (db\<lparr>topup_reversals := update_where p
               (\<lambda>r. r\<lparr>rv_status := RECONCILIATION_REQUIRED, rv_next_attempt_at := Some now,
                      rv_last_error_code := Some ''WORKER_RECOVERY'',
                      rv_last_error_detail := Some ''Recovered an interrupted provider refund attempt.''\<rparr>)
               (topup_reversals db)\<rparr>,
          length (filter p (topup_reversals db))))"

definition retry_delay :: "reversal_worker \<Rightarrow> int \<Rightarrow> int" where
  "retry_delay worker attempts = min (max_backoff_seconds worker) (2 ^ nat (max 0 (min attempts 12)))"

definition mark_retry ::
  "reversal_worker \<Rightarrow> 'x pay_db_scheme \<Rightarrow> uuid \<Rightarrow> str \<Rightarrow> timestamp \<Rightarrow> 'x pay_db_scheme" where
  "mark_retry worker db reversal_id error_code now =
     (case get_reversal db reversal_id of
        None \<Rightarrow> db
      | Some r \<Rightarrow>
          if rv_status r = WalletTopUpReversalStatus.COMPLETED then db
          else put_reversal (r\<lparr>rv_status := RECONCILIATION_REQUIRED,
                 rv_next_attempt_at := Some (now + timedelta_seconds (retry_delay worker (rv_attempts r))),
                 rv_last_error_code := Some (take 100 error_code),
                 rv_last_error_detail := Some ''Provider refund outcome is uncertain; safe retry scheduled.''\<rparr>) db)"

definition mark_manual_review ::
  "'x pay_db_scheme \<Rightarrow> uuid \<Rightarrow> str \<Rightarrow> str \<Rightarrow> ('x pay_db_scheme, unit) run" where
  "mark_manual_review db reversal_id error_code detail =
     (case get_reversal db reversal_id of
        None \<Rightarrow> (db, Inr ())
      | Some r \<Rightarrow>
          if rv_status r = WalletTopUpReversalStatus.COMPLETED then (db, Inr ())
          else
            let r = r\<lparr>rv_status := WalletTopUpReversalStatus.MANUAL_REVIEW, rv_next_attempt_at := None,
                      rv_last_error_code := Some (take 100 error_code), rv_last_error_detail := Some (take 255 detail)\<rparr>
            in nested db (and_then (ensure_case_for_reversal (put_reversal r db) r) (\<lambda>db _. (db, Inr ()))))"

text \<open>\<open>except (PaymentProviderError, TimeoutError, OSError)\<close> and \<open>except (PaymentIntegrityError, PaymentError, ValueError)\<close>.\<close>

definition uncertain_outcome :: "error \<Rightarrow> bool" where
  "uncertain_outcome e \<longleftrightarrow>
     e \<in> {PaymentProviderError, PaymentProviderTransportError, UnsupportedProviderCapabilityError, TimeoutError, OSError}"

definition needs_review :: "error \<Rightarrow> bool" where
  "needs_review e \<longleftrightarrow>
     \<not> uncertain_outcome e \<and>
     e \<in> {PaymentError, PaymentIntentNotFoundError, PaymentIntegrityError, WebhookVerificationError, ValueError}"

definition process_claimed ::
  "reversal_worker \<Rightarrow> 'e deposit_env_scheme \<Rightarrow> 'x pay_db_scheme \<Rightarrow> uuid \<Rightarrow> timestamp \<Rightarrow> ('x pay_db_scheme, unit) run" where
  "process_claimed worker env db reversal_id now =
     (case get_reversal db reversal_id of
        None \<Rightarrow> (db, Inr ())
      | Some reversal \<Rightarrow>
          (case process_wallet_topup_reversal env db (rv_tenant_id reversal) (rv_id reversal) now of
             (db', Inr _) \<Rightarrow> (db', Inr ())
           | (_, Inl e) \<Rightarrow>
               if needs_review e then mark_manual_review db reversal_id (error_name e) (env_message env e)
               else (mark_retry worker db reversal_id (error_name e) now, Inr ())))"

definition due_reversals :: "'x pay_db_scheme \<Rightarrow> timestamp \<Rightarrow> nat \<Rightarrow> uuid list" where
  "due_reversals db now limit =
     take limit (map rv_id (sort_key rv_created_at (filter (claimable now) (topup_reversals db))))"

text \<open>The loop over a batch: claim each row, skip it when the claim fails, count the attempts.\<close>

fun run_batch ::
  "('s \<Rightarrow> 'i \<Rightarrow> 's \<times> bool) \<Rightarrow> ('s \<Rightarrow> 'i \<Rightarrow> ('s, unit) run) \<Rightarrow> 's \<Rightarrow> 'i list \<Rightarrow> nat \<Rightarrow> ('s, nat) run" where
  "run_batch claim attempt s [] processed = (s, Inr processed)"
| "run_batch claim attempt s (i # is) processed =
     (case claim s i of
        (s, False) \<Rightarrow> run_batch claim attempt s is processed
      | (s, True) \<Rightarrow> and_then (attempt s i) (\<lambda>s _. run_batch claim attempt s is (Suc processed)))"

definition process_due ::
  "reversal_worker \<Rightarrow> 'e deposit_env_scheme \<Rightarrow> timestamp \<Rightarrow> 'x pay_db_scheme \<Rightarrow> uuid list \<Rightarrow> nat \<Rightarrow> ('x pay_db_scheme, nat) run" where
  "process_due worker env now =
     run_batch (\<lambda>db rid. claim_reversal db rid now) (\<lambda>db rid. process_claimed worker env db rid now)"

definition poll_once ::
  "reversal_worker \<Rightarrow> 'e deposit_env_scheme \<Rightarrow> 'x pay_db_scheme \<Rightarrow> timestamp \<Rightarrow> nat \<Rightarrow> ('x pay_db_scheme, nat) run" where
  "poll_once worker env db now limit = process_due worker env now db (due_reversals db now limit) 0"

section \<open>What a batch needs of its steps\<close>

text \<open>
  The contract between a polling loop and the steps it is made of: an attempt always returns, and
  neither a claim nor an attempt of one row touches what another row \<open>k\<close> depends on (\<open>same k\<close>).
\<close>

locale batch_worker =
  fixes claim :: "'s \<Rightarrow> 'i \<Rightarrow> 's \<times> bool" and attempt :: "'s \<Rightarrow> 'i \<Rightarrow> ('s, unit) run"
    and ok :: "'s \<Rightarrow> bool" and same :: "'i \<Rightarrow> 's \<Rightarrow> 's \<Rightarrow> bool"
  assumes same_refl: "same k s s" and same_trans: "same k s s' \<Longrightarrow> same k s' s'' \<Longrightarrow> same k s s''"
    and claim_ok: "ok s \<Longrightarrow> ok (fst (claim s i))" and claim_same: "i \<noteq> k \<Longrightarrow> same k s (fst (claim s i))"
    and attempt_total: "ok s \<Longrightarrow> \<exists>s'. attempt s i = (s', Inr ()) \<and> ok s' \<and> (i \<noteq> k \<longrightarrow> same k s s')"
begin

lemma step_cases:
  assumes "ok s"
  obtains s1 b s2 where "claim s i = (s1, b)" "ok s1" "attempt s1 i = (s2, Inr ())" "ok s2" "i \<noteq> k \<longrightarrow> same k s s1 \<and> same k s s2"
proof -
  obtain s1 b where c: "claim s i = (s1, b)" by fastforce
  have ok1: "ok s1" using claim_ok [OF assms, of i] c by simp
  obtain s2 where a: "attempt s1 i = (s2, Inr ())" "ok s2" "i \<noteq> k \<longrightarrow> same k s1 s2" using attempt_total [OF ok1] by blast
  have "i \<noteq> k \<longrightarrow> same k s s1" using claim_same [of i k s] c by simp
  then show thesis using that [OF c ok1 a(1,2)] a(3) same_trans by blast
qed

lemma run_batch_total:
  assumes "ok s" and "k \<notin> set is"
  shows "\<exists>s' m. run_batch claim attempt s is n = (s', Inr m) \<and> ok s' \<and> same k s s'"
  using assms
proof (induction "is" arbitrary: s n)
  case Nil
  then show ?case by (simp add: same_refl)
next
  case (Cons i "is")
  obtain s1 b s2 where st: "claim s i = (s1, b)" "ok s1" "attempt s1 i = (s2, Inr ())" "ok s2" "same k s s1" "same k s s2"
    using step_cases [OF Cons.prems(1), of i k] Cons.prems(2) by (metis list.set_intros(1))
  have k: "k \<notin> set is" using Cons.prems(2) by simp
  show ?case
  proof (cases b)
    case True
    obtain s' m where "run_batch claim attempt s2 is (Suc n) = (s', Inr m)" "ok s'" "same k s2 s'"
      using Cons.IH [OF st(4) k] by blast
    then show ?thesis using True st(1,3) same_trans [OF st(6)] by simp
  next
    case False
    obtain s' m where "run_batch claim attempt s1 is n = (s', Inr m)" "ok s'" "same k s1 s'"
      using Cons.IH [OF st(2) k] by blast
    then show ?thesis using False st(1) same_trans [OF st(5)] by simp
  qed
qed

text \<open>A row that is ready gets done, if being ready and being done survive the steps of the other rows.\<close>

lemma run_batch_reaches:
  assumes "ok s" and "distinct is" and "k \<in> set is" and "ready s"
    and ready: "\<And>s s'. ready s \<Longrightarrow> same k s s' \<Longrightarrow> ready s'" and finished: "\<And>s s'. finished s \<Longrightarrow> same k s s' \<Longrightarrow> finished s'"
    and fire: "\<And>s s1 b. ok s \<Longrightarrow> ready s \<Longrightarrow> claim s k = (s1, b) \<Longrightarrow> b \<and> finished (fst (attempt s1 k))"
  shows "\<exists>s' m. run_batch claim attempt s is n = (s', Inr m) \<and> finished s'"
  using assms(1-4)
proof (induction "is" arbitrary: s n)
  case (Cons i "is")
  obtain s1 b s2 where st: "claim s i = (s1, b)" "ok s1" "attempt s1 i = (s2, Inr ())" "ok s2" "i \<noteq> k \<longrightarrow> same k s s1 \<and> same k s s2"
    using step_cases [OF Cons.prems(1)] by blast
  show ?case
  proof (cases "i = k")
    case True
    have f: "b" "finished s2" using fire [OF Cons.prems(1,4), of s1 b] st(1,3) True by simp_all
    obtain s' m where "run_batch claim attempt s2 is (Suc n) = (s', Inr m)" "same k s2 s'"
      using run_batch_total [OF st(4)] Cons.prems(2) True by fastforce
    then show ?thesis using st(1,3) f finished by auto
  next
    case False
    then have "ready s1" "ready s2" using ready [OF Cons.prems(4)] st(5) by blast+
    then show ?thesis using Cons.IH [OF st(2)] Cons.IH [OF st(4)] Cons.prems(2,3) False st by (cases b) simp_all
  qed
qed simp

end

end
