(* ===== verification/Reversal_Laws.thy ===== *)
theory Reversal_Laws
  imports Reversal_Worker
begin

text \<open>
  What ties a reversal to the ledger. A reversal is \<open>taken\<close> when its money has left the wallet: at
  every status but \<open>REQUESTED\<close>, and but the manual review of a refund the provider made on its own
  after the money was spent. \<open>rev_books\<close> says that the reversal debits of the ledger and the taken
  reversals correspond, amount for amount, and that every reversal belongs to a settled top-up of
  the same amount. \<open>rev_inv\<close> adds the constraints of the tables; every operation of the service, of
  the worker and of the operators keeps it.
\<close>

section \<open>The invariant\<close>

definition owes :: "wallet_topup_reversal \<Rightarrow> bool" where
  "owes r \<longleftrightarrow> is_external r \<and> rv_status r = WalletTopUpReversalStatus.MANUAL_REVIEW"

definition taken :: "wallet_topup_reversal \<Rightarrow> bool" where
  "taken r \<longleftrightarrow> rv_status r \<noteq> REQUESTED \<and> \<not> owes r"

definition is_reversal_debit :: "ledger_transaction \<Rightarrow> bool" where
  "is_reversal_debit t \<longleftrightarrow> lt_reference_type t = Some CANONICAL_TOPUP_REVERSAL_TYPE"

definition takes :: "wallet_topup_reversal \<Rightarrow> ledger_transaction \<Rightarrow> bool" where
  "takes r t \<longleftrightarrow> is_reversal_debit t \<and> lt_transaction_type t = TransactionType.DEBIT \<and>
     lt_reference_id t = Some (str_uuid (rv_id r)) \<and> lt_wallet_id t = rv_wallet_id r \<and> lt_amount t = rv_amount r"

definition funds :: "wallet_topup_reversal \<Rightarrow> ledger_transaction \<Rightarrow> bool" where
  "funds r s \<longleftrightarrow> is_settlement s \<and> lt_reference_id s = Some (str_uuid (rv_payment_intent_id r)) \<and>
     lt_wallet_id s = rv_wallet_id r \<and> lt_amount s = rv_amount r"

definition refunds :: "wallet_topup_reversal \<Rightarrow> payment_transaction \<Rightarrow> bool" where
  "refunds r t \<longleftrightarrow> pt_tenant_id t = rv_tenant_id r \<and> pt_payment_intent_id t = rv_payment_intent_id r \<and>
     pt_transaction_type t = PaymentTransactionType.REFUND \<and> pt_reference_id t = Some (topup_reversal_ref (rv_id r)) \<and>
     pt_amount t = rv_amount r \<and> pt_currency t = rv_currency r"

definition rev_books :: "ledger_transaction set \<Rightarrow> wallet_topup_reversal set \<Rightarrow> bool" where
  "rev_books L R \<longleftrightarrow>
     (\<forall>t \<in> L. is_reversal_debit t \<longrightarrow> (\<exists>r \<in> R. taken r \<and> takes r t)) \<and>
     (\<forall>r \<in> R. taken r \<longrightarrow> (\<exists>t \<in> L. takes r t)) \<and> (\<forall>r \<in> R. \<exists>s \<in> L. funds r s)"

definition reversal_ok :: "'x pay_db_scheme \<Rightarrow> wallet_topup_reversal \<Rightarrow> bool" where
  "reversal_ok db r \<longleftrightarrow>
     (is_external r \<longrightarrow> rv_status r \<in> {REQUESTED, WalletTopUpReversalStatus.COMPLETED, WalletTopUpReversalStatus.MANUAL_REVIEW}) \<and>
     (rv_status r = WalletTopUpReversalStatus.COMPLETED \<longrightarrow> (\<exists>t \<in> set (payment_transactions db). refunds r t))"

abbreviation reversal_intent_key :: "wallet_topup_reversal \<Rightarrow> uuid \<times> uuid" where
  "reversal_intent_key r \<equiv> (rv_tenant_id r, rv_payment_intent_id r)"

abbreviation reversal_idempotency_key :: "wallet_topup_reversal \<Rightarrow> uuid \<times> str" where
  "reversal_idempotency_key r \<equiv> (rv_tenant_id r, rv_idempotency_key r)"

definition rev_rows :: "'x pay_db_scheme \<Rightarrow> bool" where
  "rev_rows db \<longleftrightarrow> distinct (map rv_id (topup_reversals db)) \<and>
     distinct (map reversal_intent_key (topup_reversals db)) \<and>
     distinct (map reversal_idempotency_key (topup_reversals db)) \<and> (\<forall>r \<in> set (topup_reversals db). rv_id r < next_id db)"

definition rev_inv :: "'x pay_db_scheme \<Rightarrow> bool" where
  "rev_inv db \<longleftrightarrow> ledger_inv db \<and> rev_rows db \<and> rev_books (set (ledger db)) (set (topup_reversals db)) \<and>
     (\<forall>r \<in> set (topup_reversals db). reversal_ok db r)"

text \<open>In a committed store no reversal is left between its insertion and its outcome.\<close>

definition no_requested :: "'x pay_db_scheme \<Rightarrow> bool" where
  "no_requested db \<longleftrightarrow> (\<forall>r \<in> set (topup_reversals db). rv_status r \<noteq> REQUESTED)"

lemma rev_invD:
  assumes "rev_inv db"
  shows "ledger_inv db" "distinct (map rv_id (topup_reversals db))"
    "rev_books (set (ledger db)) (set (topup_reversals db))"
  using assms by (simp_all add: rev_inv_def rev_rows_def)

section \<open>Frames\<close>

text \<open>What never changes of a reversal row.\<close>

definition core :: "wallet_topup_reversal \<Rightarrow> uuid \<times> uuid \<times> uuid \<times> uuid \<times> decimal \<times> str \<times> str" where
  "core r = (rv_id r, rv_tenant_id r, rv_payment_intent_id r, rv_wallet_id r, rv_amount r, rv_currency r, rv_idempotency_key r)"

lemma core_cong:
  assumes "core r' = core r"
  shows "takes r' = takes r" "funds r' = funds r" "refunds r' = refunds r" "rv_id r' = rv_id r"
    "reversal_intent_key r' = reversal_intent_key r" "reversal_idempotency_key r' = reversal_idempotency_key r"
    "rv_tenant_id r' = rv_tenant_id r" "rv_payment_intent_id r' = rv_payment_intent_id r" "rv_wallet_id r' = rv_wallet_id r"
    "rv_amount r' = rv_amount r" "rv_currency r' = rv_currency r"
  using assms by (auto simp: core_def takes_def funds_def refunds_def fun_eq_iff)

lemma map_core:
  assumes "\<And>r. r \<in> set rs \<Longrightarrow> core (f r) = core r"
  shows "map rv_id (map f rs) = map rv_id rs" "map reversal_intent_key (map f rs) = map reversal_intent_key rs"
    "map reversal_idempotency_key (map f rs) = map reversal_idempotency_key rs"
  using assms by (auto dest: core_cong)

lemma rev_rows_map:
  assumes "rev_rows db" and "next_id db \<le> next_id db'" and "topup_reversals db' = map f (topup_reversals db)"
    and "\<And>r. r \<in> set (topup_reversals db) \<Longrightarrow> core (f r) = core r"
  shows "rev_rows db'"
proof -
  note m = map_core [of "topup_reversals db" f, OF assms(4), folded assms(3)]
  have "\<forall>r \<in> set (topup_reversals db'). rv_id r < next_id db'"
    using assms(1,2) by (intro bounded_keys [OF m(1)]) (auto simp: rev_rows_def)
  then show ?thesis using assms(1) m unfolding rev_rows_def by presburger
qed

lemma rev_inv_map:
  assumes inv: "rev_inv db" and li: "ledger_inv db'" and nx: "next_id db \<le> next_id db'"
    and rs: "topup_reversals db' = map f (topup_reversals db)"
    and old: "set (ledger db) \<subseteq> set (ledger db')"
    and new: "\<And>t. t \<in> set (ledger db') \<Longrightarrow> t \<notin> set (ledger db) \<Longrightarrow> is_reversal_debit t \<Longrightarrow>
       \<exists>r \<in> set (topup_reversals db). taken (f r) \<and> takes r t"
    and f: "\<And>r. r \<in> set (topup_reversals db) \<Longrightarrow> core (f r) = core r \<and> (taken r \<longrightarrow> taken (f r)) \<and>
       (taken (f r) \<longrightarrow> taken r \<or> (\<exists>t \<in> set (ledger db'). takes r t)) \<and> reversal_ok db' (f r)"
  shows "rev_inv db'"
proof -
  let ?L = "set (ledger db)" and ?R = "set (topup_reversals db)"
  have b: "rev_books ?L ?R" and rows: "rev_rows db" using inv by (auto simp: rev_inv_def)
  have c: "takes (f r) = takes r" "funds (f r) = funds r" if "r \<in> ?R" for r
    using core_cong(1,2) [OF conjunct1 [OF f [OF that]]] by simp_all
  have "\<exists>r \<in> ?R. taken (f r) \<and> takes r t" if t: "t \<in> set (ledger db')" "is_reversal_debit t" for t
  proof (cases "t \<in> ?L")
    case True
    then obtain r where "r \<in> ?R" "taken r" "takes r t" using b t(2) unfolding rev_books_def by blast
    then show ?thesis using f by blast
  qed (use t new in blast)
  moreover have "\<exists>t \<in> set (ledger db'). takes r t" if "r \<in> ?R" "taken (f r)" for r
  proof (cases "taken r")
    case True
    then show ?thesis using that(1) b old unfolding rev_books_def by blast
  qed (use that f in blast)
  moreover have "\<exists>s \<in> set (ledger db'). funds r s" if "r \<in> ?R" for r
    using that b old unfolding rev_books_def by blast
  ultimately have "rev_books (set (ledger db')) (f ` ?R)" unfolding rev_books_def by (simp add: c)
  moreover have "rev_rows db'" using rev_rows_map [OF rows nx rs] f by blast
  ultimately show ?thesis using li f rs by (auto simp: rev_inv_def)
qed

lemma reversal_ok_mono:
  "reversal_ok db r \<Longrightarrow> set (payment_transactions db) \<subseteq> set (payment_transactions db') \<Longrightarrow> reversal_ok db' r"
  by (auto simp: reversal_ok_def)

text \<open>A step of another component: rows are only added, no reversal debit among them, the reversals stay.\<close>

definition other_step :: "'x pay_db_scheme \<Rightarrow> 'x pay_db_scheme \<Rightarrow> bool" where
  "other_step db db' \<longleftrightarrow> ledger_inv db' \<and> next_id db \<le> next_id db' \<and> topup_reversals db' = topup_reversals db \<and>
     set (ledger db) \<subseteq> set (ledger db') \<and> (\<forall>t \<in> set (ledger db') - set (ledger db). \<not> is_reversal_debit t) \<and>
     set (payment_transactions db) \<subseteq> set (payment_transactions db')"

lemma other_step_keeps:
  assumes "rev_inv db" and "other_step db db'"
  shows "rev_inv db'"
  by (rule rev_inv_map [where f = id, OF assms(1)])
     (use assms in \<open>auto simp: other_step_def rev_inv_def intro: reversal_ok_mono\<close>)

lemma other_step_requested: "no_requested db \<Longrightarrow> other_step db db' \<Longrightarrow> no_requested db'"
  by (simp add: no_requested_def other_step_def)

lemma put_reversal_frame [simp]:
  "wallets (put_reversal r db) = wallets db" "ledger (put_reversal r db) = ledger db" "holds (put_reversal r db) = holds db"
  "next_id (put_reversal r db) = next_id db" "payment_transactions (put_reversal r db) = payment_transactions db"
  "payment_intents (put_reversal r db) = payment_intents db" "users (put_reversal r db) = users db"
  "topup_reversals (put_reversal r db) = put_row rv_id r (topup_reversals db)"
  "reconciliation_events (put_reversal r db) = reconciliation_events db"
  "resolution_cases (put_reversal r db) = resolution_cases db"
  by (simp_all add: put_reversal_def)

text \<open>Rewriting one row, with the debit that goes with it.\<close>

lemma rev_inv_put:
  assumes inv: "rev_inv db" and r: "r \<in> set (topup_reversals db)" and c: "core r' = core r"
    and li: "ledger_inv db'" and nx: "next_id db \<le> next_id db'"
    and rs: "topup_reversals db' = put_row rv_id r' (topup_reversals db)"
    and pt: "set (payment_transactions db) \<subseteq> set (payment_transactions db')"
    and l: "set (ledger db') = set (ledger db) \<or> (\<exists>t. set (ledger db') = insert t (set (ledger db)) \<and> takes r t \<and> taken r')"
    and k: "taken r \<longrightarrow> taken r'" "taken r' \<longrightarrow> taken r \<or> (\<exists>t \<in> set (ledger db'). takes r t)" and ok: "reversal_ok db' r'"
  shows "rev_inv db'"
proof -
  let ?f = "\<lambda>x. if rv_id x = rv_id r' then r' else x"
  have id: "rv_id r' = rv_id r" using c by (rule core_cong)
  have same: "x = r" if "x \<in> set (topup_reversals db)" "rv_id x = rv_id r" for x
    using that r rev_invD(2) [OF inv] by (auto simp: distinct_map inj_on_def)
  have row: "core (?f x) = core x \<and> (taken x \<longrightarrow> taken (?f x)) \<and>
      (taken (?f x) \<longrightarrow> taken x \<or> (\<exists>t \<in> set (ledger db'). takes x t)) \<and> reversal_ok db' (?f x)"
    if x: "x \<in> set (topup_reversals db)" for x
  proof (cases "rv_id x = rv_id r")
    case True
    then show ?thesis using same [OF x True] id c k ok by simp
  next
    case False
    have "reversal_ok db x" using inv x by (simp add: rev_inv_def)
    then show ?thesis using False id reversal_ok_mono [OF _ pt] by auto
  qed
  have new: "\<exists>x \<in> set (topup_reversals db). taken (?f x) \<and> takes x t"
    if "t \<in> set (ledger db')" "t \<notin> set (ledger db)" for t
    using that l r id by auto
  have rs': "topup_reversals db' = map ?f (topup_reversals db)" using rs by (simp add: put_row_def update_where_def)
  show ?thesis
    using l new row by (intro rev_inv_map [where f = ?f, OF inv li nx rs']) auto
qed

lemma no_requested_put:
  assumes "no_requested db" and "topup_reversals db' = put_row rv_id r' (topup_reversals db)" and "rv_status r' \<noteq> REQUESTED"
  shows "no_requested db'"
  using assms by (auto simp: no_requested_def dest!: in_put_row)

section \<open>The pieces of the operations\<close>

lemma ledger_inv_activity:
  assumes "ledger_inv db"
  shows "ledger_inv (freeze_wallet i db)" and "ledger_inv (unfreeze_wallet i db)"
proof -
  have "ledger_inv (db\<lparr>wallets := update_where (\<lambda>w. w_id w = i) (\<lambda>w. w\<lparr>w_is_active := b\<rparr>) (wallets db)\<rparr>)" for b
  proof -
    let ?ws = "update_where (\<lambda>w. w_id w = i) (\<lambda>w. w\<lparr>w_is_active := b\<rparr>) (wallets db)"
    have m: "map w_id ?ws = map w_id (wallets db)" "map wallet_key ?ws = map wallet_key (wallets db)"
      by (simp_all add: wallet_key_def)
    have "w_id ` set ?ws = w_id ` set (wallets db)" using m(1) by (metis list.set_map)
    then show ?thesis using assms m by (auto simp: ledger_inv_def entries_def in_update_where)
  qed
  then show "ledger_inv (freeze_wallet i db)" and "ledger_inv (unfreeze_wallet i db)"
    by (simp_all add: freeze_wallet_def unfreeze_wallet_def)
qed

lemma activity_other_step:
  assumes "ledger_inv db"
  shows "other_step db (freeze_wallet i db)" and "other_step db (unfreeze_wallet i db)"
  using ledger_inv_activity [OF assms] by (simp_all add: other_step_def) (simp_all add: freeze_wallet_def unfreeze_wallet_def)

lemma other_step_refl: "ledger_inv db \<Longrightarrow> other_step db db"
  by (simp add: other_step_def)

lemma other_step_trans: "other_step a b \<Longrightarrow> other_step b c \<Longrightarrow> other_step a c"
  by (auto simp: other_step_def)

lemma get_or_create_wallet_other_step:
  assumes "ledger_inv db" and "get_or_create_wallet db n u c = (db', Inr w)"
  shows "other_step db db'"
  using get_or_create_wallet_InrD [OF assms] get_or_create_wallet_rows [OF assms] pay_tables_eq [of db' db]
  by (simp add: other_step_def)

lemma reversal_reference [simp]: "topup_reversal_reference (topup_reversal_ref i)"
  by (simp add: topup_reversal_reference_def topup_reversal_ref_def starts_with_def)

lemma record_transaction_InrD:
  assumes "record_topup_reversal_payment_transaction db intent r tx origin = (db', Inr u)"
    and "pi_tenant_id intent = rv_tenant_id r" "pi_id intent = rv_payment_intent_id r"
  shows "\<exists>t \<in> set (payment_transactions db'). refunds r t" and "set (payment_transactions db) \<subseteq> set (payment_transactions db')"
    and "wallets db' = wallets db" "ledger db' = ledger db" "holds db' = holds db" "next_id db \<le> next_id db'"
      "topup_reversals db' = topup_reversals db" "payment_intents db' = payment_intents db"
      "reconciliation_events db' = reconciliation_events db" "users db' = users db" "resolution_cases db' = resolution_cases db"
    and "\<forall>t \<in> set (payment_transactions db') - set (payment_transactions db). pt_reference_id t = Some (topup_reversal_ref (rv_id r))"
proof -
  have new: "refunds r (reversal_refund_transaction i intent r tx origin)" for i
    using assms(2,3) by (simp add: refunds_def reversal_refund_transaction_def)
  have found: "refunds r t" if "find_reversal_transaction db intent r = Some t" "pt_amount t = rv_amount r" "pt_currency t = rv_currency r" for t
    using that assms(2,3) by (auto simp: find_reversal_transaction_def refunds_def dest!: first_row_SomeD)
  have mem: "t \<in> set (payment_transactions db)" if "find_reversal_transaction db intent r = Some t" for t
    using that by (auto simp: find_reversal_transaction_def dest!: first_row_SomeD)
  have "db' = db \<and> (\<exists>t. find_reversal_transaction db intent r = Some t \<and> pt_amount t = rv_amount r \<and> pt_currency t = rv_currency r) \<or>
    (\<exists>t. refunds r t \<and> db' = db\<lparr>payment_transactions := payment_transactions db @ [t], next_id := Suc (next_id db)\<rparr>)"
  proof (cases "find_reversal_transaction db intent r")
    case None
    then show ?thesis using assms(1) new
      by (auto simp: record_topup_reversal_payment_transaction_def savepoint_Inr_iff and_then_Inr_iff Let_def
            flush_payment_transaction_def split: if_splits)
  next
    case (Some t)
    then show ?thesis using assms(1)
      by (auto simp: record_topup_reversal_payment_transaction_def Let_def split: if_splits)
  qed
  then show "\<exists>t \<in> set (payment_transactions db'). refunds r t" and "set (payment_transactions db) \<subseteq> set (payment_transactions db')"
    and "wallets db' = wallets db" "ledger db' = ledger db" "holds db' = holds db" "next_id db \<le> next_id db'"
      "topup_reversals db' = topup_reversals db" "payment_intents db' = payment_intents db"
      "reconciliation_events db' = reconciliation_events db" "users db' = users db" "resolution_cases db' = resolution_cases db"
    and "\<forall>t \<in> set (payment_transactions db') - set (payment_transactions db). pt_reference_id t = Some (topup_reversal_ref (rv_id r))"
    using found mem by (auto simp: refunds_def)
qed

lemma record_transaction_fresh:
  assumes "\<forall>t \<in> set (payment_transactions db). pt_reference_id t \<noteq> Some (topup_reversal_ref (rv_id r))"
  shows "record_topup_reversal_payment_transaction db i r tx origin =
    (db\<lparr>payment_transactions := payment_transactions db @ [reversal_refund_transaction (next_id db) i r tx origin],
        next_id := Suc (next_id db)\<rparr>, Inr ())"
proof -
  have "find_reversal_transaction db i r = None"
    using assms by (auto simp: find_reversal_transaction_def first_row_None_iff)
  moreover have "\<not> violates uq_topup_reversal_payment_tx (\<lambda>t. (pt_tenant_id t, pt_payment_intent_id t, pt_reference_id t))
      (payment_transactions db) (reversal_refund_transaction (next_id db) i r tx origin)"
    using assms by (auto simp: violates_def list_ex_iff reversal_refund_transaction_def)
  ultimately show ?thesis
    by (simp add: record_topup_reversal_payment_transaction_def flush_payment_transaction_def)
qed

lemma reserve_takes:
  assumes "ledger_inv db" and "reserve_topup_reversal db w a i d now = (db', Inr t)"
    and "a = rv_amount r" "i = rv_id r" "w_id w = rv_wallet_id r"
  shows "takes r t" and "set (ledger db') = insert t (set (ledger db))" and "ledger_inv db'" and "next_id db \<le> next_id db'"
    and "ledger_db.more db' = ledger_db.more db"
proof -
  note e = reserve_topup_reversal_entry [OF assms(1,2)]
  have l: "log_step now db db'" using log_step_one_entry [OF assms(1) e(1)] .
  show "takes r t" using e assms(3-5) by (auto simp: takes_def one_entry_def is_reversal_debit_def)
  show "set (ledger db') = insert t (set (ledger db))" using e(1) by (auto simp: one_entry_def books_def)
  show "ledger_inv db'" "next_id db \<le> next_id db'" "ledger_db.more db' = ledger_db.more db" using l by (simp_all add: log_step_def)
qed

text \<open>The end of every path that completes a reversal.\<close>

lemma complete_keeps:
  assumes inv: "rev_inv db" and r: "r \<in> set (topup_reversals db)" and c: "core r' = core r"
    and st: "rv_status r' = WalletTopUpReversalStatus.COMPLETED"
    and res: "reserve_topup_reversal db w (rv_amount r) (rv_id r) d now = (db1, Inr t)" and w: "w_id w = rv_wallet_id r"
    and rec: "record_topup_reversal_payment_transaction (put_reversal r' db1) intent r' tx origin = (db', Inr u)"
    and i: "pi_tenant_id intent = rv_tenant_id r" "pi_id intent = rv_payment_intent_id r"
  shows "rev_inv db'" and "topup_reversals db' = put_row rv_id r' (topup_reversals db)"
proof -
  note t = reserve_takes [OF rev_invD(1) [OF inv] res refl refl w]
  note tab = pay_tables_eq [OF t(5)]
  note cc = core_cong [OF c]
  note d = record_transaction_InrD [OF rec, unfolded cc, OF i]
  show rs: "topup_reversals db' = put_row rv_id r' (topup_reversals db)" using d(7) tab by simp
  have "ledger_inv db'" using t(3) d by (intro ledger_inv_frame [OF t(3)]) simp_all
  moreover have "reversal_ok db' r'" using d(1) st cc(3) by (simp add: reversal_ok_def)
  moreover have "taken r'" using st by (simp add: taken_def owes_def)
  ultimately show "rev_inv db'"
    using d t tab by (intro rev_inv_put [OF inv r c _ _ rs]) (auto intro: order_trans)
qed

lemma completed_simps [simp]:
  "core (completed r now) = core r" "rv_status (completed r now) = WalletTopUpReversalStatus.COMPLETED"
  "rv_tenant_id (completed r now) = rv_tenant_id r" "rv_metadata_json (completed r now) = rv_metadata_json r"
  by (simp_all add: completed_def core_def)

lemma core_update [simp]:
  "core (r\<lparr>rv_metadata_json := m\<rparr>) = core r" "core (r\<lparr>rv_provider_refund_id := p\<rparr>) = core r"
  "core (r\<lparr>rv_next_attempt_at := n\<rparr>) = core r" "core (r\<lparr>rv_status := st\<rparr>) = core r"
  "core (r\<lparr>rv_last_error_code := e\<rparr>) = core r" "core (r\<lparr>rv_last_error_detail := e\<rparr>) = core r"
  "core (r\<lparr>rv_attempts := k\<rparr>) = core r" "core (r\<lparr>rv_last_attempt_at := n\<rparr>) = core r"
  by (simp_all add: core_def)

lemma reversal_wallet_InrD: "reversal_wallet db n i = Inr w \<Longrightarrow> w_id w = i \<and> w_tenant_id w = n \<and> w \<in> set (wallets db)"
  by (auto simp: reversal_wallet_def split: option.splits if_splits dest!: first_row_SomeD)

section \<open>The operations of the service\<close>

abbreviation rev_safe :: "'x pay_db_scheme \<Rightarrow> bool" where
  "rev_safe db \<equiv> rev_inv db \<and> no_requested db"

lemma other_step_safe: "rev_safe db \<Longrightarrow> other_step db db' \<Longrightarrow> rev_safe db'"
  using other_step_keeps other_step_requested by blast

lemma complete_event_keeps:
  assumes s: "rev_safe db" and r: "r \<in> set (topup_reversals db)"
    and c: "complete_wallet_topup_reversal_from_provider_event db n r tx m now = (db', Inr r')"
  shows "rev_safe db'"
proof (cases "rv_status r \<in> {WalletTopUpReversalStatus.COMPLETED, WalletTopUpReversalStatus.MANUAL_REVIEW}")
  case True
  then have "db' = db" using c by (auto simp: complete_wallet_topup_reversal_from_provider_event_def split: if_splits)
  then show ?thesis using s by simp
next
  case False
  let ?md = "case m of None \<Rightarrow> dict_set (rv_metadata_json r) ''provider_observed_outbound'' (JBool True)
      | Some m \<Rightarrow> dict_set (dict_set (rv_metadata_json r) ''provider_observed_outbound'' (JBool True)) ''provider_observation'' m"
  let ?r = "(completed r now)\<lparr>rv_metadata_json := ?md, rv_provider_refund_id := Some tx, rv_next_attempt_at := None\<rparr>"
  from c False obtain i w db1 t where n: "rv_tenant_id r = n" and g: "get_payment_intent db n (rv_payment_intent_id r) = Inr i"
    and w: "reversal_wallet db n (rv_wallet_id r) = Inr w"
    and res: "reserve_topup_reversal db w (rv_amount r) (rv_id r)
       (Some (''Reserve observed top-up refund '' @ str_uuid (pi_id i))) now = (db1, Inr t)"
    and rec: "record_topup_reversal_payment_transaction (put_reversal ?r db1) i ?r tx ''merchant_request_provider_observed'' = (db', Inr ())"
    by (auto simp: complete_wallet_topup_reversal_from_provider_event_def lift_res_Inr_iff and_then_Inr_iff Let_def split: if_splits)
  have i: "pi_tenant_id i = rv_tenant_id r" "pi_id i = rv_payment_intent_id r" using get_payment_intent_InrD [OF g] n by simp_all
  have k: "rev_inv db'" "topup_reversals db' = put_row rv_id ?r (topup_reversals db)"
    using s by (auto intro!: complete_keeps [OF _ r _ _ res _ rec i] simp: reversal_wallet_InrD [OF w])
  then show ?thesis using s no_requested_put [OF _ k(2)] by simp
qed

lemma close_event_other_step:
  assumes "ledger_inv db"
  shows "other_step db (close_reversal_event env db n r now)"
proof -
  have "other_step db (put_event e db)" for e
    using ledger_inv_frame [OF assms, of "put_event e db"] by (simp add: other_step_def put_event_def)
  then show ?thesis using other_step_refl [OF assms] by (simp add: close_reversal_event_def split: option.splits)
qed

lemma resolve_external_keeps:
  assumes s: "rev_safe db" and c: "resolve_external_wallet_topup_reversal env db n rid now = (db', Inr r')"
  shows "rev_safe db'"
proof -
  from c obtain r where g: "get_reversal db rid = Some r" by (auto simp: resolve_external_wallet_topup_reversal_def split: option.splits)
  have r: "r \<in> set (topup_reversals db)" using g by (auto simp: get_reversal_def dest!: first_row_SomeD)
  show ?thesis
  proof (cases "rv_status r = WalletTopUpReversalStatus.COMPLETED")
    case True
    then show ?thesis using s c g by (auto simp: resolve_external_wallet_topup_reversal_def split: if_splits)
  next
    case False
    let ?r = "completed r now"
    from c g False obtain i w db1 t db2 tx where n: "rv_tenant_id r = n" and gi: "get_payment_intent db n (rv_payment_intent_id r) = Inr i"
      and w: "reversal_wallet db n (rv_wallet_id r) = Inr w"
      and res: "reserve_topup_reversal db w (rv_amount r) (rv_id r)
         (Some (''Resolve external provider reversal for top-up '' @ str_uuid (pi_id i))) now = (db1, Inr t)"
      and rec: "record_topup_reversal_payment_transaction (put_reversal ?r db1) i ?r tx ''external_provider_manual_resolution'' = (db2, Inr ())"
      and db': "db' = close_reversal_event env db2 n ?r now \<or> db' = close_reversal_event env (unfreeze_wallet (w_id w) db2) n ?r now"
      by (auto simp: resolve_external_wallet_topup_reversal_def lift_res_Inr_iff and_then_Inr_iff Let_def split: if_splits)
    have i: "pi_tenant_id i = rv_tenant_id r" "pi_id i = rv_payment_intent_id r" using get_payment_intent_InrD [OF gi] n by simp_all
    have k: "rev_inv db2" "topup_reversals db2 = put_row rv_id ?r (topup_reversals db)"
      using s by (auto intro!: complete_keeps [OF _ r _ _ res _ rec i] simp: reversal_wallet_InrD [OF w])
    then have "rev_safe db2" using s no_requested_put [OF _ k(2)] by simp
    moreover have "other_step db2 db'"
      using db' other_step_trans close_event_other_step activity_other_step(2) ledger_inv_activity(2) rev_invD(1) [OF k(1)] by blast
    ultimately show ?thesis by (rule other_step_safe)
  qed
qed

lemma flush_reversal_keeps:
  assumes inv: "rev_inv db" and f: "flush_reversal db r = (db', Inr r')"
    and r: "rv_id r = next_id db" "rv_status r = REQUESTED" and s: "\<exists>s \<in> set (ledger db). funds r s"
  shows "rev_inv db'" and "r' = r" and "topup_reversals db' = topup_reversals db @ [r]"
    and "wallets db' = wallets db" "payment_intents db' = payment_intents db" "ledger db' = ledger db"
proof -
  have db': "db' = db\<lparr>topup_reversals := topup_reversals db @ [r], next_id := Suc (next_id db)\<rparr>" and "r' = r"
    and u: "reversal_intent_key r \<notin> set (map reversal_intent_key (topup_reversals db))"
      "reversal_idempotency_key r \<notin> set (map reversal_idempotency_key (topup_reversals db))"
    using f by (auto simp: flush_reversal_def violates_def list_ex_iff split: if_splits)
  then show "r' = r" "topup_reversals db' = topup_reversals db @ [r]" "wallets db' = wallets db"
    "payment_intents db' = payment_intents db" "ledger db' = ledger db" by simp_all
  have nt: "\<not> taken r" using r(2) by (simp add: taken_def)
  have "rev_books (set (ledger db')) (set (topup_reversals db'))"
    using rev_invD(3) [OF inv] nt s unfolding db' rev_books_def by auto
  moreover have "rev_rows db'" using inv u r(1) unfolding rev_inv_def rev_rows_def db' by fastforce
  moreover have "reversal_ok db' x" if "x \<in> set (topup_reversals db')" for x
    using that inv r(2) reversal_ok_mono [of db x db'] by (auto simp: rev_inv_def db' reversal_ok_def)
  moreover have "ledger_inv db'" using ledger_inv_frame [OF rev_invD(1) [OF inv], of db'] by (simp add: db')
  ultimately show "rev_inv db'" by (simp add: rev_inv_def)
qed

lemma outcome_requested:
  assumes "no_requested db" and "topup_reversals db1 = topup_reversals db @ [r]"
    and "topup_reversals db' = put_row rv_id r' (topup_reversals db1)" and "rv_id r' = rv_id r" and "rv_status r' \<noteq> REQUESTED"
  shows "no_requested db'"
  using assms by (auto simp: no_requested_def put_row_def in_update_where split: if_splits)

lemma find_settlement_funds:
  assumes "find_settlement db w i = Some s" and "lt_amount s = rv_amount r" "rv_payment_intent_id r = i" "rv_wallet_id r = w_id w"
  shows "\<exists>s \<in> set (ledger db). funds r s"
  using assms by (auto simp: find_settlement_def funds_def is_settlement_def dest!: first_row_SomeD)

lemma requested_reversal_simps [simp]:
  "rv_id (requested_reversal i now n p w k re u) = i" "rv_status (requested_reversal i now n p w k re u) = REQUESTED"
  "rv_amount (requested_reversal i now n p w k re u) = pi_amount p" "rv_wallet_id (requested_reversal i now n p w k re u) = w_id w"
  "rv_payment_intent_id (requested_reversal i now n p w k re u) = pi_id p"
  "rv_tenant_id (requested_reversal i now n p w k re u) = n"
  "\<not> is_external (requested_reversal i now n p w k re u)"
  by (simp_all add: requested_reversal_def is_external_def EXTERNAL_PROVIDER_def dict_get_def)

lemma external_reversal_simps [simp]:
  "rv_id (external_reversal env i now n p q w m) = i" "rv_status (external_reversal env i now n p q w m) = REQUESTED"
  "rv_amount (external_reversal env i now n p q w m) = pi_amount p" "rv_wallet_id (external_reversal env i now n p q w m) = w_id w"
  "rv_payment_intent_id (external_reversal env i now n p q w m) = pi_id p"
  "rv_tenant_id (external_reversal env i now n p q w m) = n"
  "is_external (external_reversal env i now n p q w m)"
  by (simp_all add: external_reversal_def is_external_def dict_get_def)

lemma is_external_update [simp]:
  "is_external (r\<lparr>rv_status := st\<rparr>) = is_external r" "is_external (r\<lparr>rv_next_attempt_at := t\<rparr>) = is_external r"
  "is_external (r\<lparr>rv_last_error_code := e\<rparr>) = is_external r" "is_external (r\<lparr>rv_last_error_detail := e\<rparr>) = is_external r"
  "is_external (r\<lparr>rv_attempts := k\<rparr>) = is_external r" "is_external (r\<lparr>rv_last_attempt_at := t\<rparr>) = is_external r"
  by (simp_all add: is_external_def)

lemma reserve_requested_keeps:
  assumes inv: "rev_inv db" and r: "r \<in> set (topup_reversals db)" "\<not> is_external r" "rv_status r = REQUESTED"
    and e: "reserve_requested_reversal db i w r reason now = (db', Inr r')"
    and w: "w_id w = rv_wallet_id r" "pi_amount i = rv_amount r"
  shows "rev_inv db'" and "topup_reversals db' = put_row rv_id r' (topup_reversals db)"
    and "r' = r\<lparr>rv_status := FUNDS_RESERVED, rv_next_attempt_at := Some now\<rparr>"
proof -
  let ?r = "r\<lparr>rv_status := FUNDS_RESERVED, rv_next_attempt_at := Some now\<rparr>"
  from e obtain d db1 t where res: "reserve_topup_reversal db w (pi_amount i) (rv_id r) d now = (db1, Inr t)"
    and db': "db' = put_reversal ?r db1" and "r' = ?r"
    by (auto simp: reserve_requested_reversal_def and_then_Inr_iff Let_def)
  note t = reserve_takes [OF rev_invD(1) [OF inv] res w(2) refl w(1)]
  note tab = pay_tables_eq [OF t(5)]
  show "r' = ?r" and rs: "topup_reversals db' = put_row rv_id r' (topup_reversals db)" by (simp_all add: db' tab \<open>r' = ?r\<close>)
  have "ledger_inv db'" using ledger_inv_frame [OF t(3), of db'] by (simp add: db')
  then show "rev_inv db'"
    using t(1,2,4) tab r rs by (intro rev_inv_put [OF inv r(1), of ?r])
      (auto simp: db' taken_def owes_def reversal_ok_def \<open>r' = ?r\<close>)
qed

lemma find_reversal_by_intentD: "find_reversal_by_intent db n i = Inr (Some r) \<Longrightarrow> r \<in> set (topup_reversals db)"
  by (auto simp: find_reversal_by_intent_def dest!: scalar_one_or_none_SomeD)

text \<open>A request either finds a reversal that exists, or records and takes a new one.\<close>

lemma request_cases:
  assumes li: "ledger_inv db" and c: "request_wallet_topup_reversal env db n j key reason u now = (db', Inr r')"
  shows "(\<exists>db1. other_step db db1 \<and> db' = db1 \<and> r' \<in> set (topup_reversals db1)) \<or>
    (\<exists>i db1 w db2 s. let r = requested_reversal (next_id db1) now n i w key reason u in
       i \<in> set (payment_intents db) \<and> pi_id i = j \<and> pi_tenant_id i = n \<and> pi_purpose i = WALLET_TOPUP \<and>
       pi_status i = PaymentIntentStatus.SUCCEEDED \<and>
       get_or_create_wallet db n (pi_user_id i) (pi_currency i) = (db1, Inr w) \<and>
       find_settlement db1 w j = Some s \<and> lt_amount s = pi_amount i \<and>
       flush_reversal db1 r = (db2, Inr r) \<and> reserve_requested_reversal db2 i w r reason now = (db', Inr r'))"
proof -
  from c obtain i where g: "get_payment_intent db n j = Inr i" by (auto simp: request_wallet_topup_reversal_def lift_res_Inr_iff split: if_splits)
  note i = get_payment_intent_InrD [OF g]
  have ok: "pi_purpose i = WALLET_TOPUP" "pi_status i = PaymentIntentStatus.SUCCEEDED"
    using c g by (auto simp: request_wallet_topup_reversal_def split: if_splits)
  show ?thesis
  proof (cases "\<exists>r. db' = db \<and> r' = r \<and> r \<in> set (topup_reversals db)")
    case True
    then show ?thesis using other_step_refl [OF li] by blast
  next
    case False
    from c g i False obtain db1 w s where w: "get_or_create_wallet db n (pi_user_id i) (pi_currency i) = (db1, Inr w)"
      and s: "find_settlement db1 w j = Some s" "lt_amount s = pi_amount i"
      and rest: "(case nested db1 (flush_reversal db1 (requested_reversal (next_id db1) now n i w key reason u)) of
          (db, Inl _) \<Rightarrow> lift_res db (find_reversal_by_intent db n (pi_id i))
             (\<lambda>db concurrent. case concurrent of Some r \<Rightarrow> (db, Inr r) | None \<Rightarrow> (db, Inl PaymentIntegrityError))
        | (db, Inr reversal) \<Rightarrow> reserve_requested_reversal db i w reversal reason now) = (db', Inr r')"
      by (auto simp: request_wallet_topup_reversal_def lift_res_Inr_iff and_then_Inr_iff
          split: if_splits option.splits dest!: scalar_one_or_none_SomeD find_reversal_by_intentD)
    obtain db2 x where f: "flush_reversal db1 (requested_reversal (next_id db1) now n i w key reason u) = (db2, x)"
      by (cases "flush_reversal db1 (requested_reversal (next_id db1) now n i w key reason u)")
    show ?thesis
    proof (cases x)
      case (Inl e)
      then have "other_step db db1 \<and> db' = db1 \<and> r' \<in> set (topup_reversals db1)"
        using rest f get_or_create_wallet_other_step [OF li w]
        by (auto simp: lift_res_Inr_iff split: option.splits dest: find_reversal_by_intentD)
      then show ?thesis by blast
    next
      case (Inr r)
      then have "r = requested_reversal (next_id db1) now n i w key reason u" using f by (auto simp: flush_reversal_def split: if_splits)
      then show ?thesis using rest f w s i ok Inr unfolding Let_def by (intro disjI2 exI conjI) auto
    qed
  qed
qed

lemma topup_request_keeps:
  assumes s: "rev_safe db" and c: "request_wallet_topup_reversal env db n j key reason u now = (db', Inr r')"
  shows "rev_safe db'"
proof -
  have li: "ledger_inv db" using s rev_invD(1) by blast
  from request_cases [OF li c] consider (found) "other_step db db'"
    | (new) i db1 w db2 st where "get_or_create_wallet db n (pi_user_id i) (pi_currency i) = (db1, Inr w)"
        "find_settlement db1 w j = Some st" "lt_amount st = pi_amount i" "pi_id i = j"
        "flush_reversal db1 (requested_reversal (next_id db1) now n i w key reason u) =
           (db2, Inr (requested_reversal (next_id db1) now n i w key reason u))"
        "reserve_requested_reversal db2 i w (requested_reversal (next_id db1) now n i w key reason u) reason now = (db', Inr r')"
    unfolding Let_def by blast
  then show ?thesis
  proof cases
    case found
    then show ?thesis using s other_step_safe by blast
  next
    case new
    let ?r = "requested_reversal (next_id db1) now n i w key reason u"
    have s1: "rev_safe db1" using other_step_safe [OF s get_or_create_wallet_other_step [OF li new(1)]] .
    have fu: "\<exists>s \<in> set (ledger db1). funds ?r s" using find_settlement_funds [OF new(2), of ?r] new(3,4) by simp
    have f: "rev_inv db2" "topup_reversals db2 = topup_reversals db1 @ [?r]"
      using flush_reversal_keeps(1,3) [OF conjunct1 [OF s1] new(5) _ _ fu] by simp_all
    have "?r \<in> set (topup_reversals db2)" using f(2) by simp
    note k = reserve_requested_keeps [OF f(1) this requested_reversal_simps(7,2) new(6) requested_reversal_simps(4) [symmetric]
      requested_reversal_simps(3) [symmetric]]
    have "no_requested db'" using s1 by (intro outcome_requested [OF _ f(2) k(2)]) (simp_all add: k(3))
    then show ?thesis using k(1) by simp
  qed
qed

text \<open>An external reversal is completed, or owed by a frozen wallet.\<close>

lemma apply_external_keeps:
  assumes inv: "rev_inv db" and r: "r \<in> set (topup_reversals db)" "is_external r" "rv_status r = REQUESTED"
    and e: "apply_external_reversal db i q w r now = (db', Inr r')"
    and w: "w_id w = rv_wallet_id r" "pi_amount i = rv_amount r"
    and i: "pi_tenant_id i = rv_tenant_id r" "pi_id i = rv_payment_intent_id r"
  shows "rev_inv db'" and "topup_reversals db' = put_row rv_id r' (topup_reversals db)"
    and "rv_status r' \<noteq> REQUESTED" and "core r' = core r"
proof -
  let ?d = "Some (''External provider reversal for top-up '' @ str_uuid (pi_id i))"
  obtain db1 x where res: "reserve_topup_reversal db w (rv_amount r) (rv_id r) ?d now = (db1, x)"
    by (cases "reserve_topup_reversal db w (rv_amount r) (rv_id r) ?d now")
  have "rev_inv db' \<and> topup_reversals db' = put_row rv_id r' (topup_reversals db) \<and> rv_status r' \<noteq> REQUESTED \<and> core r' = core r"
  proof (cases x)
    case (Inl err)
    have db1: "db1 = db" using reserve_topup_reversal_failure res Inl by blast
    have err: "err = InsufficientFundsError" using e res Inl w by (cases err) (auto simp: apply_external_reversal_def)
    have db': "db' = put_reversal r' (freeze_wallet (w_id w) db)" and st: "rv_status r' = WalletTopUpReversalStatus.MANUAL_REVIEW"
      and c: "core r' = core r" and x: "is_external r'"
      using e res Inl err w r(2) by (auto simp: apply_external_reversal_def Let_def db1)
    have fz: "ledger_inv (freeze_wallet (w_id w) db)" using ledger_inv_activity(1) rev_invD(1) [OF inv] by blast
    have fr: "ledger (freeze_wallet (w_id w) db) = ledger db" "next_id (freeze_wallet (w_id w) db) = next_id db"
      "topup_reversals (freeze_wallet (w_id w) db) = topup_reversals db"
      "payment_transactions (freeze_wallet (w_id w) db) = payment_transactions db"
      by (simp_all add: freeze_wallet_def)
    have "ledger_inv db'" using ledger_inv_frame [OF fz, of db'] by (simp add: db')
    then have "rev_inv db'"
      using st x r(3) by (intro rev_inv_put [OF inv r(1) c]) (auto simp: db' fr taken_def owes_def reversal_ok_def)
    then show ?thesis using st c by (simp add: db' fr)
  next
    case (Inr t)
    have r': "r' = completed r now"
      and rec: "record_topup_reversal_payment_transaction (put_reversal (completed r now) db1) i (completed r now) q ''external_provider'' = (db', Inr ())"
      using e res Inr w by (auto simp: apply_external_reversal_def and_then_Inr_iff Let_def)
    show ?thesis using complete_keeps [OF inv r(1) _ _ res [unfolded Inr] w(1) rec i] by (simp add: r')
  qed
  then show "rev_inv db'" and "topup_reversals db' = put_row rv_id r' (topup_reversals db)"
    and "rv_status r' \<noteq> REQUESTED" and "core r' = core r" by simp_all
qed

lemma new_external_keeps:
  assumes s: "rev_safe db" and f: "find_settlement db w (pi_id i) = Some st" "lt_amount st = pi_amount i" and n: "pi_tenant_id i = n"
    and fl: "flush_reversal db (external_reversal env (next_id db) now n i q w m) = (db1, Inr r)"
    and e: "apply_external_reversal db1 i q w r now = (db', Inr r')"
  shows "rev_safe db'"
proof -
  let ?r = "external_reversal env (next_id db) now n i q w m"
  have "\<exists>s \<in> set (ledger db). funds ?r s" using find_settlement_funds [OF f(1), of ?r] f(2) by simp
  then have k: "rev_inv db1" "r = ?r" "topup_reversals db1 = topup_reversals db @ [?r]"
    using s flush_reversal_keeps [OF _ fl] by simp_all
  have "?r \<in> set (topup_reversals db1)" using k(3) by simp
  note a = apply_external_keeps [OF k(1) this external_reversal_simps(7,2) e [unfolded k(2)] external_reversal_simps(4) [symmetric]
    external_reversal_simps(3) [symmetric]]
  have "no_requested db'"
    using s n a(3) core_cong(4) [OF a(4)] by (intro outcome_requested [OF _ k(3) a(2)]) simp_all
  then show ?thesis using a(1) n by simp
qed

lemma record_external_keeps:
  assumes s: "rev_safe db" and c: "record_external_wallet_topup_reversal env db n i m now = (db', Inr r')"
  shows "rev_safe db'"
proof -
  let ?q = "the (pi_provider_payment_id i)"
  have li: "ledger_inv db" using s rev_invD(1) by blast
  from c consider (known) r where "r \<in> set (topup_reversals db)"
      "complete_wallet_topup_reversal_from_provider_event db n r ?q (Some m) now = (db', Inr r')"
    | (new) db1 w st where "get_or_create_wallet db n (pi_user_id i) (pi_currency i) = (db1, Inr w)" "pi_tenant_id i = n"
        "find_settlement db1 w (pi_id i) = Some st" "lt_amount st = pi_amount i"
        "(case nested db1 (flush_reversal db1 (external_reversal env (next_id db1) now n i ?q w m)) of
            (db, Inl _) \<Rightarrow> lift_res db (find_reversal_by_intent db n (pi_id i)) (\<lambda>db concurrent.
               case concurrent of
                 Some r \<Rightarrow> complete_wallet_topup_reversal_from_provider_event db n r ?q (Some m) now
               | None \<Rightarrow> (db, Inl PaymentIntegrityError))
          | (db, Inr reversal) \<Rightarrow> apply_external_reversal db i ?q w reversal now) = (db', Inr r')"
    by (auto simp: record_external_wallet_topup_reversal_def lift_res_Inr_iff and_then_Inr_iff Let_def
        split: if_splits option.splits dest!: find_reversal_by_intentD)
  then show ?thesis
  proof cases
    case known
    then show ?thesis using complete_event_keeps [OF s] by blast
  next
    case new
    have s1: "rev_safe db1" using other_step_safe [OF s get_or_create_wallet_other_step [OF li new(1)]] .
    obtain db2 x where f: "flush_reversal db1 (external_reversal env (next_id db1) now n i ?q w m) = (db2, x)"
      by (cases "flush_reversal db1 (external_reversal env (next_id db1) now n i ?q w m)")
    show ?thesis
    proof (cases x)
      case (Inl e)
      then obtain r where "r \<in> set (topup_reversals db1)"
        "complete_wallet_topup_reversal_from_provider_event db1 n r ?q (Some m) now = (db', Inr r')"
        using new(5) f by (auto simp: lift_res_Inr_iff split: option.splits dest: find_reversal_by_intentD)
      then show ?thesis using complete_event_keeps [OF s1] by blast
    next
      case (Inr r)
      then show ?thesis using new_external_keeps [OF s1 new(3,4,2) f [unfolded Inr]] new(5) f by simp
    qed
  qed
qed

lemma process_cases:
  assumes c: "process_wallet_topup_reversal env db n rid now = (db', Inr r')"
  obtains (replayed) "get_reversal db rid = Some r'" "rv_status r' = WalletTopUpReversalStatus.COMPLETED" "db' = db"
  | (refunded) r i usr provider res where "get_reversal db rid = Some r" "rv_tenant_id r = n"
      "rv_status r = WalletTopUpReversalStatus.PROCESSING" "get_payment_intent db n (rv_payment_intent_id r) = Inr i"
      "env_provider env n (rv_provider r) = Inr provider"
      "provider_refund provider (reversal_refund_request r i usr) = Inr res" "rs_is_success res"
      "r' = (completed r now)\<lparr>rv_provider_refund_id := Some (rs_provider_refund_id res), rv_next_attempt_at := None\<rparr>"
      "record_topup_reversal_payment_transaction (put_reversal r' db) i r' (rs_provider_refund_id res) ''merchant_request'' = (db', Inr ())"
proof -
  from c obtain r where g: "get_reversal db rid = Some r"
    by (auto simp: process_wallet_topup_reversal_def split: option.splits)
  show thesis
  proof (cases "rv_status r = WalletTopUpReversalStatus.COMPLETED")
    case True
    then have "r' = r" "db' = db" using c g by (auto simp: process_wallet_topup_reversal_def split: if_splits)
    then show thesis using replayed g True by simp
  next
    case False
    let ?r = "\<lambda>res. (completed r now)\<lparr>rv_provider_refund_id := Some (rs_provider_refund_id res), rv_next_attempt_at := None\<rparr>"
    from c g False obtain i usr provider res where t: "rv_tenant_id r = n" "rv_status r = WalletTopUpReversalStatus.PROCESSING"
      "get_payment_intent db n (rv_payment_intent_id r) = Inr i" "env_provider env n (rv_provider r) = Inr provider"
      "provider_refund provider (reversal_refund_request r i usr) = Inr res" "rs_is_success res" "r' = ?r res"
      "record_topup_reversal_payment_transaction (put_reversal (?r res) db) i (?r res) (rs_provider_refund_id res) ''merchant_request'' = (db', Inr ())"
      by (auto simp: process_wallet_topup_reversal_def lift_res_Inr_iff and_then_Inr_iff Let_def split: option.splits if_splits)
    show thesis by (rule refunded [OF g t(1-7)]) (simp add: t(7,8))
  qed
qed

lemma get_reversal_in: "get_reversal db rid = Some r \<Longrightarrow> r \<in> set (topup_reversals db) \<and> rv_id r = rid"
  by (auto simp: get_reversal_def dest!: first_row_SomeD)

lemma process_keeps:
  assumes s: "rev_safe db" and c: "process_wallet_topup_reversal env db n rid now = (db', Inr r')"
  shows "rev_safe db'"
  using c
proof (cases rule: process_cases)
  case replayed
  then show ?thesis using s by simp
next
  case (refunded r i usr provider res)
  have r: "r \<in> set (topup_reversals db)" using get_reversal_in [OF refunded(1)] by simp
  have cr: "core r' = core r" using refunded(8) by simp
  note cc = core_cong [OF cr]
  have i: "pi_tenant_id i = rv_tenant_id r" "pi_id i = rv_payment_intent_id r" using get_payment_intent_InrD [OF refunded(4)] refunded(2) by simp_all
  note d = record_transaction_InrD [OF refunded(9), unfolded cc, OF i]
  have rs: "topup_reversals db' = put_row rv_id r' (topup_reversals db)" using d(7) by simp
  have li: "ledger_inv db'" using d s rev_invD(1) by (intro ledger_inv_frame [of db db']) auto
  have st: "rv_status r' = WalletTopUpReversalStatus.COMPLETED" using refunded(8) by simp
  have tk: "taken r" using refunded(3) by (simp add: taken_def owes_def)
  have "rev_inv db'"
    using s d st tk cc(3) by (intro rev_inv_put [OF _ r cr li _ rs]) (auto simp: taken_def owes_def reversal_ok_def)
  then show ?thesis using s no_requested_put [OF _ rs] st by simp
qed

section \<open>The worker\<close>

text \<open>Rows that change their bookkeeping only.\<close>

lemma bookkeeping_keeps:
  assumes s: "rev_safe db" and rs: "topup_reversals db' = map f (topup_reversals db)"
    and eq: "wallets db' = wallets db" "ledger db' = ledger db" "holds db' = holds db" "next_id db \<le> next_id db'"
      "payment_transactions db' = payment_transactions db"
    and f: "\<And>r. r \<in> set (topup_reversals db) \<Longrightarrow> f r = r \<or> core (f r) = core r \<and> (is_external (f r) \<longleftrightarrow> is_external r) \<and>
       (rv_status (f r) = WalletTopUpReversalStatus.MANUAL_REVIEW \<and> rv_status r \<noteq> WalletTopUpReversalStatus.COMPLETED \<or>
        \<not> is_external r \<and> rv_status (f r) \<notin> {REQUESTED, WalletTopUpReversalStatus.COMPLETED})"
  shows "rev_safe db'"
proof
  have inv: "rev_inv db" using s by simp
  have li: "ledger_inv db'" using eq by (intro ledger_inv_frame [OF rev_invD(1) [OF inv]]) simp_all
  have ok: "reversal_ok db r" "rv_status r \<noteq> REQUESTED" if "r \<in> set (topup_reversals db)" for r
    using s that by (auto simp: rev_inv_def no_requested_def)
  show "rev_inv db'"
  proof (rule rev_inv_map [where f = f, OF inv li eq(4) rs])
    fix r
    assume r: "r \<in> set (topup_reversals db)"
    show "core (f r) = core r \<and> (taken r \<longrightarrow> taken (f r)) \<and>
       (taken (f r) \<longrightarrow> taken r \<or> (\<exists>t \<in> set (ledger db'). takes r t)) \<and> reversal_ok db' (f r)"
      using f [OF r] ok [OF r] by (auto simp: taken_def owes_def reversal_ok_def eq(5))
  qed (auto simp: eq)
  show "no_requested db'" using s f unfolding no_requested_def rs by fastforce
qed

lemma put_bookkeeping:
  assumes s: "rev_safe db" and r: "get_reversal db rid = Some r" and c: "core r' = core r" "is_external r' \<longleftrightarrow> is_external r"
    and st: "rv_status r' = WalletTopUpReversalStatus.MANUAL_REVIEW \<and> rv_status r \<noteq> WalletTopUpReversalStatus.COMPLETED \<or>
        \<not> is_external r \<and> rv_status r' \<notin> {REQUESTED, WalletTopUpReversalStatus.COMPLETED}"
  shows "rev_safe (put_reversal r' db)"
proof -
  have inv: "rev_inv db" using s by simp
  have "x = r" if "x \<in> set (topup_reversals db)" "rv_id x = rv_id r'" for x
    using that get_reversal_in [OF r] core_cong(4) [OF c(1)] rev_invD(2) [OF inv] by (auto simp: distinct_map inj_on_def)
  then show ?thesis
    using c st by (intro bookkeeping_keeps [OF s, of _ "\<lambda>x. if rv_id x = rv_id r' then r' else x"])
      (auto simp: put_row_def update_where_def)
qed

end
