(* ===== verification/Stars_Laws.thy ===== *)
theory Stars_Laws
  imports Stars_Reconciliation Reversal_Laws
begin

text \<open>
  What the scan of the Stars transactions keeps: the reversals and the ledger agree after every transaction
  it processes, so they agree after every poll.
\<close>

lemma case_other_step:
  assumes "ledger_inv db" and "wallets db' = wallets db" "ledger db' = ledger db" "holds db' = holds db"
    "next_id db \<le> next_id db'" "topup_reversals db' = topup_reversals db" "payment_transactions db' = payment_transactions db"
  shows "other_step db db'"
  using assms ledger_inv_frame [OF assms(1-5)] by (simp add: other_step_def)

lemma put_other_step:
  assumes "ledger_inv db"
  shows "other_step db (put_case c db)" "other_step db (put_event e db)"
  using assms by (auto intro!: case_other_step simp: put_case_def put_event_def)

lemma add_case_other_step:
  assumes "ledger_inv db" and "add_case db c = (db', x)"
  shows "other_step db db'"
  using assms by (auto simp: add_case_def flush_case_def lift_res_def split: if_splits option.splits sum.splits
      intro!: case_other_step other_step_refl)

lemma rev_safe_inv: "rev_safe db \<Longrightarrow> ledger_inv db"
  using rev_invD(1) by blast

lemma event_case_other_step:
  assumes "ledger_inv db" and "ensure_case_for_reconciliation_event db e r = (db', x)"
  shows "other_step db db'"
  using assms(2) other_step_refl [OF assms(1)] put_other_step(1) [OF assms(1)] add_case_other_step [OF assms(1)]
  by (auto simp: ensure_case_for_reconciliation_event_def Let_def lift_res_def split: if_splits sum.splits option.splits)

lemma case_for_event_other_step:
  assumes "ledger_inv db" and "case_for_event db e r = (db', x)"
  shows "other_step db db'"
  using assms(2) other_step_refl [OF assms(1)]
  by (auto simp: case_for_event_def and_then_def split: if_splits prod.splits sum.splits dest: event_case_other_step [OF assms(1)])

lemma flush_event_other_step:
  assumes "ledger_inv db" and "flush_event db e = (db', x)"
  shows "other_step db db'"
  using assms by (auto simp: flush_event_def split: if_splits intro!: case_other_step other_step_refl)

lemma mirror_keeps:
  assumes s: "rev_safe db" and m: "mirror_reversal env db n i tx k now = (db', Inr x)"
  shows "rev_safe db'"
proof -
  from m consider r r' where "r \<in> set (topup_reversals db)"
      "complete_wallet_topup_reversal_from_provider_event db n r k (Some (JObj tx)) now = (db', Inr r')"
    | r' where "record_external_wallet_topup_reversal env db n i (JObj tx) now = (db', Inr r')"
    by (auto simp: mirror_reversal_def lift_res_Inr_iff and_then_Inr_iff split: option.splits dest!: find_reversal_by_intentD)
  then show ?thesis using complete_event_keeps [OF s] record_external_keeps [OF s] by cases blast+
qed

lemma judge_keeps:
  assumes s: "rev_safe db" and m: "judge_transaction env db n i rc tx k a now = (db', Inr x)"
  shows "rev_safe db'"
proof (cases i)
  case None
  then show ?thesis using m s by (simp add: judge_transaction_def)
next
  case (Some j)
  show ?thesis
  proof (cases "integrity_error env db j rc k a")
    case None
    then show ?thesis using m mirror_keeps [OF s] by (simp add: judge_transaction_def Some)
  next
    case e: (Some e)
    have "db' = db \<or> (\<exists>wid. db' = freeze_wallet wid db)"
      using m by (auto simp: judge_transaction_def Some e freeze_intent_wallet_def lift_res_Inr_iff and_then_Inr_iff split: option.splits)
    then show ?thesis using other_step_safe [OF s] other_step_refl activity_other_step(1) rev_safe_inv [OF s] by blast
  qed
qed

text \<open>The paths of a transaction that is processed without an exception.\<close>

abbreviation tx_id :: "'e stars_env_scheme \<Rightarrow> dict \<Rightarrow> str" where
  "tx_id env tx \<equiv> strip (settings_str env tx ''id'' [])"

lemma recorded_cases:
  assumes "(case nested db (flush_event db e) of
      (db, Inr e) \<Rightarrow> case_for_event db e r
    | (db, Inl IntegrityError) \<Rightarrow>
        lift_res db (existing_event db n k) (\<lambda>db concurrent.
        case concurrent of Some e \<Rightarrow> case_for_event db e r | None \<Rightarrow> (db, Inl IntegrityError))
    | (db, Inl err) \<Rightarrow> (db, Inl err)) = (db', Inr x)"
  obtains (new) db1 where "flush_event db e = (db1, Inr e)" "case_for_event db1 e r = (db', Inr x)"
  | (raced) c where "existing_event db n k = Inr (Some c)" "case_for_event db c r = (db', Inr x)"
  using assms by (cases "violates (\<lambda>_. True) event_key (reconciliation_events db) e")
    (auto simp: flush_event_def lift_res_Inr_iff split: option.splits)

lemma outbound_cases:
  assumes "process_outbound_transaction env db n tx now = (db', Inr x)"
  obtains (skipped) "db' = db" "x = None"
  | (known) e where "is_relevant_outbound tx" "tx_id env tx \<noteq> []" "existing_event db n (tx_id env tx) = Inr (Some e)" "case_for_event db e None = (db', Inr x)"
  | (judged) i rc a db1 f r db2 e where "is_relevant_outbound tx" "tx_id env tx \<noteq> []" "existing_event db n (tx_id env tx) = Inr None"
      "judge_transaction env db n i rc tx (tx_id env tx) a now = (db1, Inr (f, r))"
      "e = new_event env (next_id db1) n (tx_id env tx) i f a tx"
      "flush_event db1 e = (db2, Inr e)" "case_for_event db2 e r = (db', Inr x)"
  | (raced) i rc a db1 f r e where "is_relevant_outbound tx" "tx_id env tx \<noteq> []"
      "judge_transaction env db n i rc tx (tx_id env tx) a now = (db1, Inr (f, r))"
      "existing_event db1 n (tx_id env tx) = Inr (Some e)" "case_for_event db1 e r = (db', Inr x)"
proof (cases "is_relevant_outbound tx \<and> tx_id env tx \<noteq> []")
  case False
  then show ?thesis using assms skipped by (auto simp: process_outbound_transaction_def Let_def split: if_splits)
next
  case True
  then obtain ex where ex: "existing_event db n (tx_id env tx) = Inr ex"
    using assms by (auto simp: process_outbound_transaction_def Let_def lift_res_Inr_iff)
  show ?thesis
  proof (cases ex)
    case (Some e)
    then show ?thesis using assms True ex known by (simp add: process_outbound_transaction_def)
  next
    case None
    let ?rc = "case dict_get tx ''receiver'' JNull of JObj r \<Rightarrow> r | _ \<Rightarrow> []"
    consider "db' = db" "x = None" | i a db1 f r where
      "judge_transaction env db n i ?rc tx (tx_id env tx) a now = (db1, Inr (f, r))"
      "(case nested db1 (flush_event db1 (new_event env (next_id db1) n (tx_id env tx) i f a tx)) of
          (db, Inr e) \<Rightarrow> case_for_event db e r
        | (db, Inl IntegrityError) \<Rightarrow>
            lift_res db (existing_event db n (tx_id env tx)) (\<lambda>db concurrent.
            case concurrent of Some e \<Rightarrow> case_for_event db e r | None \<Rightarrow> (db, Inl IntegrityError))
        | (db, Inl err) \<Rightarrow> (db, Inl err)) = (db', Inr x)"
      using assms True ex None unfolding process_outbound_transaction_def Let_def
      by (auto simp: lift_res_Inr_iff and_then_Inr_iff split: if_splits)
    then show ?thesis
    proof cases
      case 1
      then show ?thesis by (rule skipped)
    next
      case j: 2
      from j(2) show ?thesis
      proof (cases rule: recorded_cases)
        case (new db2)
        then show ?thesis using judged True ex None j(1) by blast
      next
        case (raced c)
        then show ?thesis using that(4) True j(1) by blast
      qed
    qed
  qed
qed

lemma outbound_keeps:
  assumes s: "rev_safe db" and p: "process_outbound_transaction env db n tx now = (db', Inr x)"
  shows "rev_safe db'"
  using p
proof (cases rule: outbound_cases)
  case skipped
  then show ?thesis using s by simp
next
  case (known e)
  then show ?thesis using other_step_safe [OF s] case_for_event_other_step rev_safe_inv [OF s] by blast
next
  case (judged i rc a db1 f r db2 e)
  have s1: "rev_safe db1" using judge_keeps [OF s judged(4)] .
  have s2: "rev_safe db2" using other_step_safe [OF s1 flush_event_other_step [OF rev_safe_inv [OF s1] judged(6)]] .
  show ?thesis using other_step_safe [OF s2 case_for_event_other_step [OF rev_safe_inv [OF s2] judged(7)]] .
next
  case (raced i rc a db1 f r e)
  have s1: "rev_safe db1" using judge_keeps [OF s raced(3)] .
  show ?thesis using other_step_safe [OF s1 case_for_event_other_step [OF rev_safe_inv [OF s1] raced(5)]] .
qed

lemma process_each_keeps:
  "rev_safe db \<Longrightarrow> process_each env db n txs k now = (db', Inr x) \<Longrightarrow> rev_safe db'"
proof (induction txs arbitrary: db k)
  case (Cons tx txs)
  from Cons.prems(2) obtain db1 e where "process_outbound_transaction env db n tx now = (db1, Inr e)"
    "process_each env db1 n txs (if e = None then k else Suc k) now = (db', Inr x)"
    by (auto simp: and_then_Inr_iff)
  then show ?case using Cons.IH outbound_keeps [OF Cons.prems(1)] by blast
qed simp

lemma scan_keeps:
  assumes "rev_safe db" and "scan_tenant env db n now = (db', Inr x)"
  shows "rev_safe db'"
proof -
  obtain txs where "process_each env db n txs 0 now = (db', Inr x)"
    using assms(2) by (auto simp: scan_tenant_def lift_res_Inr_iff split: option.splits)
  then show ?thesis using process_each_keeps [OF assms(1)] by blast
qed

lemma poll_tenant_keeps:
  assumes "rev_safe db"
  shows "rev_safe (fst (poll_tenant env db n now))"
proof -
  have "rev_safe (commit (\<lambda>db. scan_tenant env db n now) db)"
    using assms scan_keeps [OF assms] by (intro commit_keeps [of rev_safe]) blast+
  then show ?thesis
    using assms by (auto simp: poll_tenant_def commit_def lift_res_def split: sum.split option.split prod.split)
qed

lemma stars_poll_keeps: "rev_safe db \<Longrightarrow> rev_safe (fst (stars_poll_once env db now))"
proof -
  have "rev_safe db \<Longrightarrow> rev_safe (fst (poll_tenants env db ts k now))" for ts k
  proof (induction ts arbitrary: db k)
    case (Cons t ts)
    then show ?case using poll_tenant_keeps [OF Cons.prems, of env t now] by (auto simp: and_then_def split: prod.split sum.split)
  qed simp
  then show "rev_safe db \<Longrightarrow> rev_safe (fst (stars_poll_once env db now))" by (simp add: stars_poll_once_def)
qed

end
