(* ===== verification/Reversal_Runs.thy ===== *)
theory Reversal_Runs
  imports Stars_Laws
begin

text \<open>
  Reversals over time. \<open>rev_history\<close> are the stores reached by requests of merchants, reports of
  providers, decisions of operators, steps of the worker and polls of the Stars transactions, in any order and interleaved with any
  steps of other components that add no reversal debit. In all of them the reversals and the
  ledger agree.
\<close>

section \<open>Worker and operator steps\<close>

lemma not_external:
  assumes "rev_safe db" and "r \<in> set (topup_reversals db)"
    and "rv_status r \<notin> {WalletTopUpReversalStatus.COMPLETED, WalletTopUpReversalStatus.MANUAL_REVIEW}"
  shows "\<not> is_external r"
  using assms by (auto simp: rev_inv_def no_requested_def reversal_ok_def)

lemma claim_keeps:
  assumes s: "rev_safe db"
  shows "rev_safe (fst (claim_reversal db rid now))"
proof -
  have "rv_status r \<notin> {WalletTopUpReversalStatus.COMPLETED, WalletTopUpReversalStatus.MANUAL_REVIEW}" if "claimable now r" for r
    using that by (auto simp: claimable_def)
  then show ?thesis
    using not_external [OF s] unfolding claim_reversal_def Let_def
    by (intro bookkeeping_keeps [OF s, where f = "\<lambda>r. if rv_id r = rid \<and> claimable now r then
          r\<lparr>rv_status := WalletTopUpReversalStatus.PROCESSING, rv_attempts := rv_attempts r + 1,
            rv_last_attempt_at := Some now, rv_next_attempt_at := None\<rparr> else r"])
       (auto simp: update_where_def)
qed

lemma recover_keeps:
  assumes s: "rev_safe db"
  shows "rev_safe (fst (recover_processing db now))"
  using not_external [OF s] unfolding recover_processing_def Let_def
  by (intro bookkeeping_keeps [OF s, where f = "\<lambda>r. if rv_status r = WalletTopUpReversalStatus.PROCESSING then
        r\<lparr>rv_status := RECONCILIATION_REQUIRED, rv_next_attempt_at := Some now,
          rv_last_error_code := Some ''WORKER_RECOVERY'',
          rv_last_error_detail := Some ''Recovered an interrupted provider refund attempt.''\<rparr> else r"])
     (auto simp: update_where_def)

lemma ensure_case_other_step:
  assumes "ledger_inv db" and "ensure_case_for_reversal db r = (db', x)"
  shows "other_step db db'"
  using assms(2) other_step_refl [OF assms(1)] put_other_step(1) [OF assms(1)] add_case_other_step [OF assms(1)]
  by (auto simp: ensure_case_for_reversal_def Let_def lift_res_def split: if_splits sum.splits option.splits)

lemma mark_manual_review_keeps:
  assumes s: "rev_safe db"
  shows "rev_safe (fst (mark_manual_review db rid code detail))"
proof (cases "get_reversal db rid")
  case None
  then show ?thesis using s by (simp add: mark_manual_review_def)
next
  case (Some r)
  let ?r = "r\<lparr>rv_status := WalletTopUpReversalStatus.MANUAL_REVIEW, rv_next_attempt_at := None,
      rv_last_error_code := Some (take 100 code), rv_last_error_detail := Some (take 255 detail)\<rparr>"
  show ?thesis
  proof (cases "rv_status r = WalletTopUpReversalStatus.COMPLETED")
    case True
    then show ?thesis using s Some by (simp add: mark_manual_review_def)
  next
    case False
    have p: "rev_safe (put_reversal ?r db)" using put_bookkeeping [OF s Some, of ?r] False by simp
    obtain db' x where e: "ensure_case_for_reversal (put_reversal ?r db) ?r = (db', x)" by fastforce
    then have "rev_safe db'" using other_step_safe [OF p] ensure_case_other_step [OF _ e] p rev_invD(1) by blast
    then show ?thesis using s Some False e by (cases x) (simp_all add: mark_manual_review_def Let_def)
  qed
qed

text \<open>An attempt that may be retried was made on a reversal being processed.\<close>

lemma retried_was_processing:
  assumes "get_reversal db rid = Some r"
    and "process_wallet_topup_reversal env db (rv_tenant_id r) (rv_id r) now = (db', Inl e)" and "\<not> needs_review e"
  shows "rv_status r = WalletTopUpReversalStatus.PROCESSING"
proof -
  have "get_reversal db (rv_id r) = Some r" using assms(1) get_reversal_in [OF assms(1)] by simp
  then show ?thesis using assms(2,3)
    by (auto simp: process_wallet_topup_reversal_def needs_review_def uncertain_outcome_def split: if_splits)
qed

lemma process_claimed_keeps:
  assumes s: "rev_safe db"
  shows "rev_safe (fst (process_claimed worker env db rid now))"
proof (cases "get_reversal db rid")
  case None
  then show ?thesis using s by (simp add: process_claimed_def)
next
  case (Some r)
  obtain db' x where p: "process_wallet_topup_reversal env db (rv_tenant_id r) (rv_id r) now = (db', x)" by fastforce
  show ?thesis
  proof (cases x)
    case (Inr r')
    then show ?thesis using process_keeps [OF s] p Some by (simp add: process_claimed_def)
  next
    case (Inl e)
    show ?thesis
    proof (cases "needs_review e")
      case True
      then show ?thesis using mark_manual_review_keeps [OF s] p Some Inl by (simp add: process_claimed_def)
    next
      case False
      have st: "rv_status r = WalletTopUpReversalStatus.PROCESSING" using retried_was_processing [OF Some] p Inl False by blast
      then have "\<not> is_external r" using not_external [OF s] get_reversal_in [OF Some] by simp
      then have "rev_safe (mark_retry worker db rid code now)" for code
        using Some st put_bookkeeping [OF s Some] by (simp add: mark_retry_def)
      then show ?thesis using p Some Inl False by (simp add: process_claimed_def)
    qed
  qed
qed

lemma mark_event_other_step:
  assumes "ledger_inv db" and "mark_event_resolved env db c ig ac u note now = (db', x)"
  shows "other_step db db'"
  using assms(2) other_step_refl [OF assms(1)] put_other_step(2) [OF assms(1)]
  by (auto simp: mark_event_resolved_def split: option.splits if_splits)

lemma mark_event_safe:
  assumes "rev_safe db" and "mark_event_resolved env db c ig ac u note now = (db', x)"
  shows "rev_safe db'"
  using other_step_safe [OF assms(1) mark_event_other_step [OF _ assms(2)]] assms(1) rev_invD(1) by blast

lemma reactivate_other_step:
  assumes "ledger_inv db"
  shows "other_step db (reactivate w db)"
  using activity_other_step(2) [OF assms] assms by (cases w) (auto intro!: case_other_step)

lemma retry_local_reversal_keeps:
  assumes s: "rev_safe db" and c: "retry_local_reversal env db n cs u note now = (db', Inr code)"
  shows "rev_safe db'"
proof -
  from c obtain rid db1 r' db2 where r: "resolve_external_wallet_topup_reversal env db n rid now = (db1, Inr r')"
    and m: "mark_event_resolved env db1 cs False RETRY_LOCAL_REVERSAL u note now = (db2, Inr ())"
    and db': "db' = refreeze db2 cs"
    by (auto simp: retry_local_reversal_def and_then_Inr_iff split: option.splits if_splits)
  have s1: "rev_safe db1" using resolve_external_keeps [OF s r] .
  have s2: "rev_safe db2" using mark_event_safe [OF s1 m] .
  moreover have "rev_safe (freeze_wallet i db2)" for i
    using other_step_safe [OF s2 activity_other_step(1)] rev_invD(1) s2 by blast
  ultimately show ?thesis unfolding db' refreeze_def Let_def by (simp split: option.splits)
qed

lemma apply_action_keeps:
  assumes s: "rev_safe db" and c: "apply_action env db n cs u ac note owner now = (db', Inr code)"
  shows "rev_safe db'"
proof (cases ac)
  case RETRY_LOCAL_REVERSAL
  then show ?thesis using retry_local_reversal_keeps [OF s] c by (simp add: apply_action_def)
next
  case ACKNOWLEDGE_NO_WALLET_IMPACT
  then have "mark_event_resolved env db cs True ACKNOWLEDGE_NO_WALLET_IMPACT u note now = (db', Inr ())"
    using c by (auto simp: apply_action_def acknowledge_no_wallet_impact_def and_then_Inr_iff split: if_splits)
  then show ?thesis using mark_event_safe [OF s] by blast
next
  case CLOSE_KEEP_WALLET_FROZEN
  then have "mark_event_resolved env db cs False CLOSE_KEEP_WALLET_FROZEN u note now = (db', Inr ())"
    using c by (auto simp: apply_action_def close_keep_wallet_frozen_def and_then_Inr_iff lift_res_Inr_iff split: if_splits)
  then show ?thesis using mark_event_safe [OF s] by blast
next
  case MARK_FALSE_POSITIVE_AND_UNFREEZE
  then obtain w where m: "mark_event_resolved env (reactivate w db) cs True MARK_FALSE_POSITIVE_AND_UNFREEZE u note now = (db', Inr ())"
    using c by (auto simp: apply_action_def mark_false_positive_and_unfreeze_def and_then_Inr_iff lift_res_Inr_iff split: if_splits)
  have s1: "rev_safe (reactivate w db)" using other_step_safe [OF s reactivate_other_step] s rev_invD(1) by blast
  then show ?thesis using mark_event_safe m by blast
qed

lemma resolve_case_keeps:
  assumes s: "rev_safe db" and c: "resolve_case env db n cid u v ac note owner now = (db', Inr cs)"
  shows "rev_safe db'"
proof -
  have li: "ledger_inv db" using s rev_invD(1) by blast
  from c consider "db' = db" | c1 c2 db1 code where "apply_action env (put_case c1 db) n c1 u ac (strip note) owner now = (db1, Inr code)" "db' = put_case c2 db1"
    by (auto simp: resolve_case_def lift_res_Inr_iff and_then_Inr_iff Let_def split: if_splits)
  then show ?thesis
  proof cases
    case 1
    then show ?thesis using s by simp
  next
    case 2
    have s1: "rev_safe (put_case c1 db)" using other_step_safe [OF s put_other_step(1) [OF li]] .
    have s2: "rev_safe db1" using apply_action_keeps [OF s1 2(1)] .
    show ?thesis unfolding 2(2) using other_step_safe [OF s2 put_other_step(1)] rev_invD(1) s2 by blast
  qed
qed

section \<open>Histories\<close>

inductive rev_history :: "'x pay_db_scheme \<Rightarrow> bool" where
  start: "ledger_inv db \<Longrightarrow> topup_reversals db = [] \<Longrightarrow> \<forall>t \<in> set (ledger db). \<not> is_reversal_debit t \<Longrightarrow> rev_history db"
| other: "rev_history db \<Longrightarrow> other_step db db' \<Longrightarrow> rev_history db'"
| request: "rev_history db \<Longrightarrow>
    rev_history (commit (\<lambda>db. request_wallet_topup_reversal (env :: pay_env) db n i key reason u now) db)"
| external: "rev_history db \<Longrightarrow>
    rev_history (commit (\<lambda>db. record_external_wallet_topup_reversal (env :: pay_env) db n intent m now) db)"
| observe: "rev_history db \<Longrightarrow> r \<in> set (topup_reversals db) \<Longrightarrow>
    rev_history (commit (\<lambda>db. complete_wallet_topup_reversal_from_provider_event db n r tx md now) db)"
| resolve: "rev_history db \<Longrightarrow>
    rev_history (commit (\<lambda>db. resolve_external_wallet_topup_reversal (env :: pay_env) db n rid now) db)"
| decide: "rev_history db \<Longrightarrow>
    rev_history (commit (\<lambda>db. resolve_case (env :: pay_env) db n cid u v action note owner now) db)"
| claim: "rev_history db \<Longrightarrow> rev_history (fst (claim_reversal db rid now))"
| recover: "rev_history db \<Longrightarrow> rev_history (fst (recover_processing db now))"
| attempt: "rev_history db \<Longrightarrow> rev_history (fst (process_claimed worker (env :: pay_env) db rid now))"
| stars: "rev_history db \<Longrightarrow> rev_history (fst (stars_poll_once (senv :: stars_env) db now))"

lemma rev_history_safe: "rev_history db \<Longrightarrow> rev_safe db"
proof (induction rule: rev_history.induct)
  case (start db)
  then show ?case by (simp add: rev_inv_def rev_rows_def rev_books_def no_requested_def)
next
  case (other db db')
  then show ?case using other_step_safe by blast
next
  case (request db env n i key reason u now)
  then show ?case using topup_request_keeps by (intro commit_keeps [of rev_safe]) blast+
next
  case (external db env n intent m now)
  then show ?case using record_external_keeps by (intro commit_keeps [of rev_safe]) blast+
next
  case (observe db r n tx md now)
  then show ?case using complete_event_keeps by (intro commit_keeps [of rev_safe]) blast+
next
  case (resolve db env n rid now)
  then show ?case using resolve_external_keeps by (intro commit_keeps [of rev_safe]) blast+
next
  case (decide db env n cid u v act nt owner now)
  then show ?case using resolve_case_keeps by (intro commit_keeps [of rev_safe]) blast+
next
  case (claim db rid now)
  then show ?case using claim_keeps by blast
next
  case (recover db now)
  then show ?case using recover_keeps by blast
next
  case (attempt db worker env rid now)
  then show ?case using process_claimed_keeps by blast
next
  case (stars db senv now)
  then show ?case using stars_poll_keeps by blast
qed

text \<open>The ledger requests of other components are such other steps, unless they are reversal reservations.\<close>

lemma ledger_request_other_step:
  assumes "rev_history db" and "\<forall>t \<in> set (ledger (commit_op db now op)) - set (ledger db). \<not> is_reversal_debit t"
  shows "other_step db (commit_op db now op)"
proof -
  have li: "ledger_inv db" using rev_history_safe [OF assms(1)] rev_invD(1) by blast
  have "log_step now db (commit_op db now op)" using commit_op_log_step [OF li] .
  then show ?thesis using assms(2) pay_tables_eq [of "commit_op db now op" db] by (auto simp: other_step_def log_step_def)
qed

lemma run_batch_history:
  "rev_history db \<Longrightarrow> rev_history (fst (run_batch (\<lambda>db rid. claim_reversal db rid now)
     (\<lambda>db rid. process_claimed worker (env :: pay_env) db rid now) db rids k))"
proof (induction rids arbitrary: db k)
  case (Cons rid rids)
  obtain db1 b where c: "claim_reversal db rid now = (db1, b)" by fastforce
  have h1: "rev_history db1" using rev_history.claim [OF Cons.prems, of rid now] c by simp
  obtain db2 x where a: "process_claimed worker env db1 rid now = (db2, x)" by fastforce
  have h2: "rev_history db2" using rev_history.attempt [OF h1, of worker env rid now] a by simp
  show ?case using c a Cons.IH [OF h1] Cons.IH [OF h2] h2 by (cases b; cases x) simp_all
qed simp

lemma poll_history: "rev_history db \<Longrightarrow> rev_history (fst (poll_once worker (env :: pay_env) db now limit))"
  unfolding poll_once_def process_due_def by (rule run_batch_history)

section \<open>The accounts of a reversal\<close>

definition reversal_rows :: "'x ledger_db_scheme \<Rightarrow> wallet_topup_reversal \<Rightarrow> ledger_transaction list" where
  "reversal_rows db r = filter (\<lambda>t. lt_reference_type t = Some CANONICAL_TOPUP_REVERSAL_TYPE \<and>
     lt_reference_id t = Some (str_uuid (rv_id r))) (ledger db)"

lemma reversal_row:
  assumes inv: "rev_inv db" and r: "r \<in> set (topup_reversals db)" and t: "t \<in> set (reversal_rows db r)"
  shows "taken r" and "takes r t"
proof -
  have "t \<in> set (ledger db)" "is_reversal_debit t" "lt_reference_id t = Some (str_uuid (rv_id r))"
    using t by (simp_all add: reversal_rows_def is_reversal_debit_def)
  then obtain x where x: "x \<in> set (topup_reversals db)" "taken x" "takes x t"
    using rev_invD(3) [OF inv] unfolding rev_books_def by blast
  then have "rv_id x = rv_id r" using t by (simp add: takes_def reversal_rows_def)
  then have "x = r" using x(1) r rev_invD(2) [OF inv] by (auto simp: distinct_map inj_on_def)
  then show "taken r" "takes r t" using x by simp_all
qed

lemma reversal_rows_cases:
  assumes inv: "rev_inv db" and r: "r \<in> set (topup_reversals db)"
  shows "if taken r then \<exists>t. reversal_rows db r = [t] \<and> takes r t else reversal_rows db r = []"
proof (cases "taken r")
  case False
  then show ?thesis using reversal_row(1) [OF inv r] by (cases "reversal_rows db r") auto
next
  case True
  then obtain t where "t \<in> set (ledger db)" "takes r t" using rev_invD(3) [OF inv] r unfolding rev_books_def by blast
  then have t: "t \<in> set (reversal_rows db r)" by (simp add: reversal_rows_def takes_def is_reversal_debit_def)
  have "x = y" if "x \<in> set (reversal_rows db r)" "y \<in> set (reversal_rows db r)" for x y
  proof (rule unique_on_first_row)
    show "unique_on uq_topup_reversal_debit ledger_key (ledger db)"
      using rev_invD(1) [OF inv] by (simp add: ledger_inv_def ledger_indexes_def)
  qed (use that reversal_row(2) [OF inv r that(1)] reversal_row(2) [OF inv r that(2)] in
        \<open>auto simp: reversal_rows_def takes_def is_reversal_debit_def uq_topup_reversal_debit_def ledger_key_def
           CANONICAL_TOPUP_REVERSAL_TYPE_def\<close>)
  moreover have "distinct (reversal_rows db r)"
    using rev_invD(1) [OF inv] by (simp add: reversal_rows_def ledger_inv_def distinct_map)
  ultimately have "\<exists>x. reversal_rows db r = [x]" using t by (intro distinct_single) auto
  then show ?thesis using True reversal_row(2) [OF inv r] by auto
qed

lemma find_entry_taken:
  assumes inv: "rev_inv db" and r: "r \<in> set (topup_reversals db)" and "\<not> taken r"
  shows "find_entry db k ty CANONICAL_TOPUP_REVERSAL_TYPE (str_uuid (rv_id r)) = None"
proof -
  have "reversal_rows db r = []" using reversal_rows_cases [OF inv r] assms(3) by simp
  then show ?thesis by (auto simp: find_entry_def first_row_None_iff reversal_rows_def filter_empty_conv)
qed

section \<open>Requests\<close>

lemma reserve_fresh:
  assumes inv: "ledger_inv db" and w: "w \<in> set (wallets db)" and a: "0 < a" "a \<le> w_balance w"
    and f: "find_entry db (w_id w) TransactionType.DEBIT CANONICAL_TOPUP_REVERSAL_TYPE (str_uuid i) = None"
  shows "\<exists>db' t. reserve_topup_reversal db w a i d now = (db', Inr t) \<and> books now db db' t \<and>
    balance_of db' = (balance_of db)(wallet_key w := balance_of db (wallet_key w) - a)"
proof -
  obtain db' t where b: "book db w TransactionType.DEBIT a (w_balance w - a) (Some (str_uuid i)) (Some CANONICAL_TOPUP_REVERSAL_TYPE)
      (or_default d (''Wallet top-up reversal reservation '' @ str_uuid i)) now = (db', Inr t)"
    using book_fresh_key [OF f] by blast
  then have r: "reserve_topup_reversal db w a i d now = (db', Inr t)"
    using lock_wallet_row [OF inv w] a f by (simp add: reserve_topup_reversal_def Let_def)
  have e: "one_entry now db TransactionType.DEBIT w a db' t" by (rule reserve_topup_reversal_entry [OF inv r])
  have "t \<notin> set (ledger db)" using b inv by (auto simp: book_def flush_ledger_def ledger_inv_def split: if_splits)
  then have bk: "books now db db' t" using e by (auto simp: one_entry_def)
  then have "balance_of db' = (balance_of db)(wallet_key w := lt_balance_after t)" "lt_balance_before t = balance_of db (wallet_key w)"
    using balance_of_books [OF inv bk w] e by (simp_all add: one_entry_def)
  moreover have "lt_balance_after t = lt_balance_before t - a" using sound_after [of t] bk e by (simp add: books_def one_entry_def)
  ultimately show ?thesis using r bk by metis
qed

lemma find_reversal_None:
  "\<forall>r \<in> set (topup_reversals db). \<not> (rv_tenant_id r = n \<and> rv_payment_intent_id r = j) \<Longrightarrow> find_reversal_by_intent db n j = Inr None"
  by (auto simp: find_reversal_by_intent_def scalar_one_or_none_def filter_empty_conv split: list.splits)

lemma find_reversal_Some:
  assumes "rev_inv db" and "r \<in> set (topup_reversals db)"
  shows "find_reversal_by_intent db (rv_tenant_id r) (rv_payment_intent_id r) = Inr (Some r)"
  using unique_found [of reversal_intent_key "topup_reversals db" r] assms
  by (simp add: find_reversal_by_intent_def rev_inv_def rev_rows_def)

text \<open>The settled top-up of an intent, found in the customer's wallet.\<close>

lemma settled_wallet:
  assumes inv: "pay_inv db" and i: "i \<in> set (payment_intents db)" "pi_status i = PaymentIntentStatus.SUCCEEDED"
  shows "\<exists>w s. w \<in> set (wallets db) \<and> wallet_key w = account_of i \<and>
    get_or_create_wallet db (pi_tenant_id i) (pi_user_id i) (pi_currency i) = (db, Inr w) \<and>
    find_settlement db w (pi_id i) = Some s \<and> lt_amount s = pi_amount i"
proof -
  have li: "ledger_inv db" using inv by (simp add: pay_inv_def)
  obtain t where t: "t \<in> set (ledger db)" "pays (wallet_rows db) (pi_id i) (account_of i) (pi_amount i) t"
    using succeeded_has_row [OF inv i] by blast
  then obtain w where w: "w \<in> set (wallets db)" "wallet_key w = account_of i" by (auto simp: pays_def wallet_rows_def)
  obtain s where s: "find_settlement db w (pi_id i) = Some s" using find_settlement_iff [OF inv i(1) w] i(2) by auto
  have "pays (wallet_rows db) (pi_id i) (account_of i) (pi_amount i) s"
    using settlement_row(2) [OF inv i(1)] find_settlement_SomeD [OF s] by blast
  then show ?thesis using w s get_or_create_wallet_again [OF li w(1)] w(2) by (auto simp: pays_def)
qed

lemma request_again:
  assumes rv: "rev_inv db" and r: "r \<in> set (topup_reversals db)" and g: "get_payment_intent db (rv_tenant_id r) (rv_payment_intent_id r) = Inr i"
    and i: "pi_purpose i = WALLET_TOPUP" "pi_status i = PaymentIntentStatus.SUCCEEDED"
    and p: "pi_provider_payment_id i = Some p" "p \<noteq> []" "\<not> starts_with ''stars_invoice:'' p"
    and k: "key \<noteq> []" "key = rv_idempotency_key r \<or> (\<forall>x \<in> set (topup_reversals db). rv_idempotency_key x \<noteq> key)"
  shows "request_wallet_topup_reversal env db (rv_tenant_id r) (rv_payment_intent_id r) key reason u now = (db, Inr r)"
proof (cases "key = rv_idempotency_key r")
  case True
  have "distinct (map reversal_idempotency_key (topup_reversals db))" using rv by (simp add: rev_inv_def rev_rows_def)
  from unique_found [OF this r]
  have "scalar_one_or_none (\<lambda>x. rv_tenant_id x = rv_tenant_id r \<and> rv_idempotency_key x = key) (topup_reversals db) = Inr (Some r)"
    using True by simp
  then show ?thesis using k(1) g i p get_payment_intent_InrD(2) [OF g] by (simp add: request_wallet_topup_reversal_def)
next
  case False
  then have "filter (\<lambda>x. rv_tenant_id x = rv_tenant_id r \<and> rv_idempotency_key x = key) (topup_reversals db) = []"
    using k(2) by (auto simp: filter_empty_conv)
  then have "scalar_one_or_none (\<lambda>x. rv_tenant_id x = rv_tenant_id r \<and> rv_idempotency_key x = key) (topup_reversals db) = Inr None"
    by (simp add: scalar_one_or_none_def)
  then show ?thesis
    using k(1) g i p find_reversal_Some [OF rv r] get_payment_intent_InrD(2) [OF g] by (simp add: request_wallet_topup_reversal_def)
qed

lemma request_runs:
  assumes inv: "pay_inv db" and rv: "rev_inv db"
    and i: "i \<in> set (payment_intents db)" "pi_purpose i = WALLET_TOPUP" "pi_status i = PaymentIntentStatus.SUCCEEDED" "0 < pi_amount i"
    and p: "pi_provider_payment_id i = Some p" "p \<noteq> []" "\<not> starts_with ''stars_invoice:'' p"
    and cap: "refund_capable env (pi_tenant_id i) (pi_provider i) = Inr ()"
    and free: "\<forall>r \<in> set (topup_reversals db). \<not> (rv_tenant_id r = pi_tenant_id i \<and>
        (rv_payment_intent_id r = pi_id i \<or> rv_idempotency_key r = key))"
    and key: "key \<noteq> []" and bal: "pi_amount i \<le> balance_of db (account_of i)"
  obtains w r q db1 db2 t where "w \<in> set (wallets db)" "wallet_key w = account_of i"
    "r = requested_reversal (next_id db) now (pi_tenant_id i) i w key reason u"
    "q = r\<lparr>rv_status := FUNDS_RESERVED, rv_next_attempt_at := Some now\<rparr>"
    "db1 = db\<lparr>topup_reversals := topup_reversals db @ [r], next_id := Suc (next_id db)\<rparr>"
    "request_wallet_topup_reversal env db (pi_tenant_id i) (pi_id i) key reason u now = (put_reversal q db2, Inr q)"
    "books now db1 db2 t" "rev_inv (put_reversal q db2)"
    "balance_of db2 = (balance_of db)(account_of i := balance_of db (account_of i) - pi_amount i)"
proof -
  let ?n = "pi_tenant_id i"
  obtain w s where w: "w \<in> set (wallets db)" "wallet_key w = account_of i"
    "get_or_create_wallet db ?n (pi_user_id i) (pi_currency i) = (db, Inr w)"
    "find_settlement db w (pi_id i) = Some s" "lt_amount s = pi_amount i"
    using settled_wallet [OF inv i(1,3)] by blast
  define r where "r = requested_reversal (next_id db) now ?n i w key reason u"
  define db1 where "db1 = db\<lparr>topup_reversals := topup_reversals db @ [r], next_id := Suc (next_id db)\<rparr>"
  have fl: "flush_reversal db r = (db1, Inr r)"
    using free by (auto simp: flush_reversal_def violates_def list_ex_iff r_def db1_def requested_reversal_def)
  have rv1: "rev_inv db1" using flush_reversal_keeps(1) [OF rv fl] find_settlement_funds [OF w(4), of r] w(5) by (simp add: r_def)
  have r1: "r \<in> set (topup_reversals db1)" "w \<in> set (wallets db1)" using w(1) by (simp_all add: db1_def)
  have none: "find_entry db1 (w_id w) TransactionType.DEBIT CANONICAL_TOPUP_REVERSAL_TYPE (str_uuid (rv_id r)) = None"
    using find_entry_taken [OF rv1 r1(1)] by (simp add: taken_def r_def)
  have "w_balance w = balance_of db (account_of i)" using balance_of_wallet [OF rev_invD(1) [OF rv] w(1)] w(2) by simp
  moreover have bo: "balance_of db1 = balance_of db" by (simp add: balance_of_def fun_eq_iff db1_def)
  ultimately obtain db2 t where res: "reserve_topup_reversal db1 w (pi_amount i) (rv_id r)
        (or_default reason (''Reserve funds for top-up refund '' @ str_uuid (pi_id i))) now = (db2, Inr t)" "books now db1 db2 t"
    and b2: "balance_of db2 = (balance_of db)(account_of i := balance_of db (account_of i) - pi_amount i)"
    using reserve_fresh [OF rev_invD(1) [OF rv1] r1(2) i(4) _ none] bal w(2) by metis
  let ?q = "r\<lparr>rv_status := FUNDS_RESERVED, rv_next_attempt_at := Some now\<rparr>"
  have rr: "reserve_requested_reversal db1 i w r reason now = (put_reversal ?q db2, Inr ?q)"
    using res(1) by (simp add: reserve_requested_reversal_def Let_def)
  have k0: "scalar_one_or_none (\<lambda>r. rv_tenant_id r = ?n \<and> rv_idempotency_key r = key) (topup_reversals db) = Inr None"
    using free by (auto simp: scalar_one_or_none_def filter_empty_conv split: list.splits)
  have k1: "find_reversal_by_intent db ?n (pi_id i) = Inr None" using free by (intro find_reversal_None) auto
  have run: "request_wallet_topup_reversal env db ?n (pi_id i) key reason u now = (put_reversal ?q db2, Inr ?q)"
    using key get_payment_intent_row [OF inv i(1), of ?n] i p k0 k1 cap w(3-5) fl rr
    by (simp add: request_wallet_topup_reversal_def r_def)
  have "rev_inv (put_reversal ?q db2)"
    by (rule reserve_requested_keeps(1) [OF rv1 r1(1) _ _ rr]) (simp_all add: r_def)
  then show thesis using that [OF w(1,2) r_def refl db1_def run res(2) _ b2] by blast
qed

end
