(* ===== verification/Reversal_Properties.thy ===== *)
theory Reversal_Properties
  imports Reversal_Runs
begin

text \<open>
  The properties of reversals, with a shop that has one settled Stars top-up as the sample they are
  applied to.
\<close>

section \<open>A sample shop\<close>

definition topup_intent :: payment_intent where
  "topup_intent = stars_intent\<lparr>pi_provider_payment_id := Some ''c1'', pi_status := PaymentIntentStatus.SUCCEEDED\<rparr>"

definition topup_wallet :: wallet where
  "topup_wallet = \<lparr>w_id = 101, w_tenant_id = 7, w_user_id = 8, w_currency = ''XTR'', w_balance = 40, w_is_active = True\<rparr>"

definition topup_entry :: ledger_transaction where
  "topup_entry = \<lparr>lt_id = 102, lt_created_at = 9, lt_tenant_id = 7, lt_wallet_id = 101,
     lt_transaction_type = TransactionType.CREDIT, lt_amount = 40, lt_balance_before = 0, lt_balance_after = 40,
     lt_reference_id = Some (str_uuid 100), lt_reference_type = Some CANONICAL_SETTLEMENT_TYPE, lt_description = None\<rparr>"

definition topup_user :: user where
  "topup_user = \<lparr>u_id = 8, u_telegram_id = Some 555, u_username = None, u_email = None, u_hashed_password = None,
     u_first_name = None, u_last_name = None, u_is_active = True, u_deleted_at = None, u_token_version = 0\<rparr>"

definition topup_shop :: pay_db where
  "topup_shop = empty_shop\<lparr>payment_intents := [topup_intent], wallets := [topup_wallet], ledger := [topup_entry],
     users := [topup_user], next_id := 103\<rparr>"

lemmas topup_defs = topup_shop_def empty_shop_def topup_intent_def stars_intent_def sample_intent_def topup_wallet_def
  topup_entry_def topup_user_def

definition refunding_provider :: payment_provider where
  "refunding_provider = sample_provider\<lparr>provider_refund := (\<lambda>rq. Inr \<lparr>rs_provider_refund_id = ''rf'', rs_status = ''OK'',
     rs_amount = rr_amount rq, rs_is_success = True, rs_raw_data = []\<rparr>)\<rparr>"

definition refund_env :: pay_env where
  "refund_env = sample_pay_env\<lparr>env_provider := (\<lambda>n name. if n = 7 then Inr refunding_provider else Inl PaymentProviderError)\<rparr>"

definition reserved_reversal :: wallet_topup_reversal where
  "reserved_reversal = (requested_reversal 103 20 7 topup_intent topup_wallet ''k1'' None None)
     \<lparr>rv_status := FUNDS_RESERVED, rv_next_attempt_at := Some 20\<rparr>"

definition reserved_entry :: ledger_transaction where
  "reserved_entry = \<lparr>lt_id = 104, lt_created_at = 20, lt_tenant_id = 7, lt_wallet_id = 101,
     lt_transaction_type = TransactionType.DEBIT, lt_amount = 40, lt_balance_before = 40, lt_balance_after = 0,
     lt_reference_id = Some (str_uuid 103), lt_reference_type = Some CANONICAL_TOPUP_REVERSAL_TYPE,
     lt_description = Some (''Reserve funds for top-up refund '' @ str_uuid 100)\<rparr>"

definition reserved_shop :: pay_db where
  "reserved_shop = topup_shop\<lparr>wallets := [topup_wallet\<lparr>w_balance := 0\<rparr>], ledger := [topup_entry, reserved_entry],
     topup_reversals := [reserved_reversal], next_id := 105\<rparr>"

lemma topup_shop_ledger [simp]: "ledger_inv topup_shop"
  by (simp add: ledger_inv_def topup_defs entries_def wallet_key_def tx_sound_def sound_move_def unique_on_def)

lemma topup_shop_inv [simp]: "pay_inv topup_shop"
  unfolding pay_inv_def using topup_shop_ledger
  by (simp add: pay_rows_def paid_books_def topup_defs money_view_def wallet_rows_def wallet_key_def pays_def is_settlement_def)

lemma topup_shop_history: "rev_history topup_shop"
proof (rule rev_history.start [OF topup_shop_ledger])
qed (simp_all add: topup_defs is_reversal_debit_def reference_type_defs)

lemma topup_intent_in [simp]: "topup_intent \<in> set (payment_intents topup_shop)"
  by (simp add: topup_shop_def)

lemma refund_env_provider [simp]: "env_provider refund_env 7 name = Inr refunding_provider"
  by (simp add: refund_env_def sample_pay_env_def)

lemma refund_capable_sample [simp]: "refund_capable refund_env 7 name = Inr ()"
  by (simp add: refund_capable_def refunding_provider_def sample_provider_def)

lemma topup_requested:
  "request_wallet_topup_reversal refund_env topup_shop 7 100 ''k1'' None None 20 = (reserved_shop, Inr reserved_reversal)"
proof -
  have g: "get_payment_intent topup_shop 7 100 = Inr topup_intent"
    using get_payment_intent_row [OF topup_shop_inv topup_intent_in, of 7] by (simp add: topup_defs)
  have i: "pi_purpose topup_intent = WALLET_TOPUP" "pi_status topup_intent = PaymentIntentStatus.SUCCEEDED"
    "pi_provider_payment_id topup_intent = Some ''c1''" "pi_user_id topup_intent = 8" "pi_currency topup_intent = ''XTR''"
    "pi_id topup_intent = 100" "pi_amount topup_intent = 40"
    by (simp_all add: topup_defs)
  have w: "get_or_create_wallet topup_shop 7 8 ''XTR'' = (topup_shop, Inr topup_wallet)"
    by (rule get_or_create_wallet_again [OF topup_shop_ledger]) (simp_all add: topup_defs wallet_key_def)
  have s: "find_settlement topup_shop topup_wallet 100 = Some topup_entry" "lt_amount topup_entry = 40"
    by (simp_all add: find_settlement_def topup_defs)
  let ?r = "requested_reversal 103 20 7 topup_intent topup_wallet ''k1'' None None"
  let ?db = "topup_shop\<lparr>topup_reversals := [?r], next_id := 104\<rparr>"
  have fl: "flush_reversal topup_shop ?r = (?db, Inr ?r)"
    by (simp add: flush_reversal_def violates_def topup_shop_def empty_shop_def)
  have lw: "lock_wallet ?db topup_wallet = (?db, Inr topup_wallet)"
    by (simp add: lock_wallet_def scalar_one_or_none_def topup_shop_def topup_wallet_def)
  have res: "reserve_topup_reversal ?db topup_wallet 40 103 (or_default None (''Reserve funds for top-up refund '' @ str_uuid 100)) 20 =
      (?db\<lparr>wallets := [topup_wallet\<lparr>w_balance := 0\<rparr>], ledger := [topup_entry, reserved_entry], next_id := 105\<rparr>, Inr reserved_entry)"
    unfolding reserve_topup_reversal_def lw
    by (simp add: Let_def find_entry_def topup_shop_def topup_wallet_def topup_entry_def book_def flush_ledger_def set_balance_def
        ledger_conflict_def ledger_indexes_def violates_def index_defs ledger_key_def reserved_entry_def or_default_def)
  have nx: "next_id topup_shop = 103" "topup_reversals topup_shop = []" by (simp_all add: topup_shop_def empty_shop_def)
  show ?thesis
    using g i w s fl res
    by (simp add: request_wallet_topup_reversal_def reserve_requested_reversal_def starts_with_def nx scalar_one_or_none_def
        find_reversal_by_intent_def Let_def put_reversal_def put_row_def reserved_shop_def reserved_reversal_def)
qed

lemma reserved_shop_history: "rev_history reserved_shop"
  using rev_history.request [OF topup_shop_history, of refund_env 7 100 "''k1''" None None 20]
  by (simp add: commit_def get_db_session_def topup_requested)

lemma reserved_reversal_simps [simp]:
  "rv_id reserved_reversal = 103" "rv_tenant_id reserved_reversal = 7" "rv_status reserved_reversal = FUNDS_RESERVED"
  "rv_amount reserved_reversal = 40" "rv_wallet_id reserved_reversal = 101" "rv_payment_intent_id reserved_reversal = 100"
  "\<not> is_external reserved_reversal" "topup_reversals reserved_shop = [reserved_reversal]" "claimable 20 reserved_reversal"
  "rv_user_id reserved_reversal = 8" "rv_attempts reserved_reversal = 0" "rv_provider reserved_reversal = ''telegram_stars''"
  by (simp_all add: reserved_reversal_def reserved_shop_def claimable_def)
     (simp_all add: requested_reversal_def topup_defs)

lemma reserved_shop_entries [simp]: "ledger reserved_shop = [topup_entry, reserved_entry]"
  by (simp add: reserved_shop_def)

definition processing_reversal :: wallet_topup_reversal where
  "processing_reversal = reserved_reversal\<lparr>rv_status := WalletTopUpReversalStatus.PROCESSING, rv_attempts := 1,
     rv_last_attempt_at := Some 20, rv_next_attempt_at := None\<rparr>"

definition processing_shop :: pay_db where
  "processing_shop = reserved_shop\<lparr>topup_reversals := [processing_reversal]\<rparr>"

lemma claimed: "claim_reversal reserved_shop 103 20 = (processing_shop, True)"
  by (simp add: claim_reversal_def processing_shop_def processing_reversal_def Let_def)

lemma processing_shop_history: "rev_history processing_shop"
  using rev_history.claim [OF reserved_shop_history, of 103 20] by (simp add: claimed)

lemma processing_get [simp]: "get_reversal processing_shop 103 = Some processing_reversal"
  by (simp add: get_reversal_def processing_shop_def processing_reversal_def)

lemma processing_simps [simp]:
  "rv_id processing_reversal = 103" "rv_tenant_id processing_reversal = 7" "rv_user_id processing_reversal = 8"
  "rv_status processing_reversal = WalletTopUpReversalStatus.PROCESSING" "rv_payment_intent_id processing_reversal = 100"
  "users processing_shop = [topup_user]" "u_id topup_user = 8" "rv_attempts processing_reversal = 1"
  "payment_transactions processing_shop = []" "topup_reversals processing_shop = [processing_reversal]"
  by (simp_all add: processing_reversal_def processing_shop_def reserved_shop_def topup_defs)

lemma processing_intent [simp]: "get_payment_intent processing_shop 7 100 = Inr topup_intent"
  by (simp add: get_payment_intent_def scalar_one_or_none_def processing_shop_def reserved_shop_def topup_shop_def)
     (simp add: topup_defs)

lemma sample_refund_fails: "process_wallet_topup_reversal sample_pay_env processing_shop 7 103 now = (processing_shop, Inl PaymentProviderError)"
  by (simp add: process_wallet_topup_reversal_def sample_pay_env_def sample_provider_def)

lemma sample_refund_succeeds: "\<exists>db r. process_wallet_topup_reversal refund_env processing_shop 7 103 now = (db, Inr r)"
  by (simp add: process_wallet_topup_reversal_def refunding_provider_def record_topup_reversal_payment_transaction_def Let_def
      find_reversal_transaction_def flush_payment_transaction_def violates_def)

section \<open>Accounts and requests\<close>

text \<open>C13: Reversals and the ledger agree at any time. In every store that merchants, providers, operators, the
  worker and the polls of the Telegram Stars transactions can produce, a reversal belongs to a settled top-up of exactly its amount on its wallet; exactly one debit of
  that amount carries it, unless it is a provider-initiated refund under manual review, for which no debit exists;
  no other reversal has its intent; and once it is completed the refund is on record with its amount and currency.\<close>

theorem reversal_accounts:
  assumes "rev_history db" and "r \<in> set (topup_reversals db)"
  shows "(if is_external r \<and> rv_status r = WalletTopUpReversalStatus.MANUAL_REVIEW then reversal_rows db r = []
      else \<exists>t. reversal_rows db r = [t] \<and> lt_transaction_type t = TransactionType.DEBIT \<and>
             lt_wallet_id t = rv_wallet_id r \<and> lt_amount t = rv_amount r) \<and>
    (\<exists>s \<in> set (ledger db). lt_reference_type s = Some CANONICAL_SETTLEMENT_TYPE \<and>
       lt_reference_id s = Some (str_uuid (rv_payment_intent_id r)) \<and> lt_wallet_id s = rv_wallet_id r \<and>
       lt_amount s = rv_amount r) \<and>
    (\<forall>x \<in> set (topup_reversals db). rv_tenant_id x = rv_tenant_id r \<and>
       rv_payment_intent_id x = rv_payment_intent_id r \<longrightarrow> x = r) \<and>
    (rv_status r = WalletTopUpReversalStatus.COMPLETED \<longrightarrow> (\<exists>t \<in> set (payment_transactions db). refunds r t))"
proof (intro conjI)
  have inv: "rev_inv db" and nr: "rv_status r \<noteq> REQUESTED"
    using rev_history_safe [OF assms(1)] assms(2) by (simp_all add: no_requested_def)
  have tk: "taken r \<longleftrightarrow> \<not> (is_external r \<and> rv_status r = WalletTopUpReversalStatus.MANUAL_REVIEW)"
    using nr by (simp add: taken_def owes_def)
  show "if is_external r \<and> rv_status r = WalletTopUpReversalStatus.MANUAL_REVIEW then reversal_rows db r = []
      else \<exists>t. reversal_rows db r = [t] \<and> lt_transaction_type t = TransactionType.DEBIT \<and>
             lt_wallet_id t = rv_wallet_id r \<and> lt_amount t = rv_amount r"
    using reversal_rows_cases [OF inv assms(2)] tk by (auto simp: takes_def)
  have "\<exists>s \<in> set (ledger db). funds r s" using rev_invD(3) [OF inv] assms(2) unfolding rev_books_def by blast
  then show "\<exists>s \<in> set (ledger db). lt_reference_type s = Some CANONICAL_SETTLEMENT_TYPE \<and>
       lt_reference_id s = Some (str_uuid (rv_payment_intent_id r)) \<and> lt_wallet_id s = rv_wallet_id r \<and>
       lt_amount s = rv_amount r"
    by (auto simp: funds_def is_settlement_def)
  show "\<forall>x \<in> set (topup_reversals db). rv_tenant_id x = rv_tenant_id r \<and>
       rv_payment_intent_id x = rv_payment_intent_id r \<longrightarrow> x = r"
    using inv assms(2) by (auto simp: rev_inv_def rev_rows_def distinct_map inj_on_def)
  show "rv_status r = WalletTopUpReversalStatus.COMPLETED \<longrightarrow> (\<exists>t \<in> set (payment_transactions db). refunds r t)"
    using inv assms(2) by (auto simp: rev_inv_def reversal_ok_def)
qed

theorem reversal_accounts_witness:
  "rev_history reserved_shop \<and> reversal_rows reserved_shop reserved_reversal = [reserved_entry] \<and>
   (\<exists>s \<in> set (ledger reserved_shop). lt_reference_type s = Some CANONICAL_SETTLEMENT_TYPE \<and> lt_amount s = 40)"
proof -
  have "reversal_rows reserved_shop reserved_reversal = [reserved_entry]"
    by (simp add: reversal_rows_def topup_entry_def reserved_entry_def reference_type_defs)
  moreover have "\<exists>s \<in> set (ledger reserved_shop). lt_reference_type s = Some CANONICAL_SETTLEMENT_TYPE \<and> lt_amount s = 40"
    using reversal_accounts [OF reserved_shop_history, of reserved_reversal] by auto
  ultimately show ?thesis using reserved_shop_history by blast
qed

text \<open>C23: The provider is asked for a refund only after the money has left the wallet: whenever the outcome of an
  attempt depends on the provider at all, the reversal is claimed for processing and the ledger holds exactly one
  debit for it, of the amount the provider is asked to refund.\<close>

theorem refund_asked_after_debit:
  assumes "rev_history db"
    and "process_wallet_topup_reversal env db n rid now \<noteq> process_wallet_topup_reversal env' db n rid now"
  shows "\<exists>r t. get_reversal db rid = Some r \<and> rv_status r = WalletTopUpReversalStatus.PROCESSING \<and>
    reversal_rows db r = [t] \<and> lt_transaction_type t = TransactionType.DEBIT \<and>
    (\<forall>i usr. lt_amount t = rr_amount (reversal_refund_request r i usr))"
proof -
  have inv: "rev_inv db" using rev_history_safe [OF assms(1)] by simp
  obtain r where g: "get_reversal db rid = Some r" and st: "rv_status r = WalletTopUpReversalStatus.PROCESSING"
    using assms(2) by (auto simp: process_wallet_topup_reversal_def split: option.splits if_splits)
  have "taken r" using st by (simp add: taken_def owes_def)
  then obtain t where "reversal_rows db r = [t]" "takes r t"
    using reversal_rows_cases [OF inv conjunct1 [OF get_reversal_in [OF g]]] by auto
  then show ?thesis using g st by (auto simp: takes_def reversal_refund_request_def)
qed

theorem refund_asked_after_debit_witness:
  "process_wallet_topup_reversal refund_env processing_shop 7 103 21 \<noteq> process_wallet_topup_reversal sample_pay_env processing_shop 7 103 21 \<and>
   (\<exists>t. reversal_rows processing_shop processing_reversal = [t] \<and> lt_transaction_type t = TransactionType.DEBIT)"
proof -
  have n: "process_wallet_topup_reversal refund_env processing_shop 7 103 21 \<noteq> process_wallet_topup_reversal sample_pay_env processing_shop 7 103 21"
    using sample_refund_fails [of 21] sample_refund_succeeds [of 21] by auto
  from refund_asked_after_debit [OF processing_shop_history this] n show ?thesis by auto
qed

text \<open>A reversal is requested once. For a settled top-up that has no reversal yet, with a provider that can repeat
  refunds safely and a balance that still covers the amount, the request succeeds, takes exactly the amount of the
  top-up from the customer's balance and leaves the reversal ready for the worker; every later request for the same
  top-up, under the same key or another unused one, returns the same reversal and changes nothing.\<close>

theorem reversal_requested_once:
  assumes inv: "pay_inv db" and rv: "rev_inv db"
    and i: "i \<in> set (payment_intents db)" "pi_purpose i = WALLET_TOPUP" "pi_status i = PaymentIntentStatus.SUCCEEDED" "0 < pi_amount i"
    and p: "pi_provider_payment_id i = Some p" "p \<noteq> []" "\<not> starts_with ''stars_invoice:'' p"
    and cap: "refund_capable env (pi_tenant_id i) (pi_provider i) = Inr ()"
    and free: "\<forall>r \<in> set (topup_reversals db). \<not> (rv_tenant_id r = pi_tenant_id i \<and>
        (rv_payment_intent_id r = pi_id i \<or> rv_idempotency_key r = key))"
    and key: "key \<noteq> []" and bal: "pi_amount i \<le> balance_of db (account_of i)"
  shows "\<exists>db' r. request_wallet_topup_reversal env db (pi_tenant_id i) (pi_id i) key reason u now = (db', Inr r) \<and>
    rv_status r = FUNDS_RESERVED \<and> rv_payment_intent_id r = pi_id i \<and> rv_amount r = pi_amount i \<and> claimable now r \<and>
    balance_of db' = (balance_of db)(account_of i := balance_of db (account_of i) - pi_amount i) \<and>
    length (ledger db') = Suc (length (ledger db)) \<and>
    (\<forall>key' reason' u' now'. key' = key \<or> key' \<noteq> [] \<and> (\<forall>x \<in> set (topup_reversals db). rv_idempotency_key x \<noteq> key') \<longrightarrow>
       request_wallet_topup_reversal env db' (pi_tenant_id i) (pi_id i) key' reason' u' now' = (db', Inr r))"
proof -
  let ?n = "pi_tenant_id i"
  from request_runs [OF assms] obtain w r q db1 db2 t where
    r: "r = requested_reversal (next_id db) now ?n i w key reason u" and q: "q = r\<lparr>rv_status := FUNDS_RESERVED, rv_next_attempt_at := Some now\<rparr>"
    and db1: "db1 = db\<lparr>topup_reversals := topup_reversals db @ [r], next_id := Suc (next_id db)\<rparr>"
    and run: "request_wallet_topup_reversal env db ?n (pi_id i) key reason u now = (put_reversal q db2, Inr q)"
    and bk: "books now db1 db2 t" and rv': "rev_inv (put_reversal q db2)"
    and b2: "balance_of db2 = (balance_of db)(account_of i := balance_of db (account_of i) - pi_amount i)"
    by (rule request_runs [OF assms])
  let ?db = "put_reversal q db2"
  have tab: "topup_reversals db2 = topup_reversals db @ [r]" "payment_intents db2 = payment_intents db"
    "length (ledger db2) = Suc (length (ledger db))"
    using bk pay_tables_eq [of db2 db1] by (auto simp: books_def db1)
  have "\<forall>x \<in> set (topup_reversals db). rv_id x \<noteq> next_id db" using rv by (auto simp: rev_inv_def rev_rows_def)
  then have rows: "topup_reversals ?db = topup_reversals db @ [q]"
    using tab(1) by (auto simp: put_row_def update_where_def q r intro!: map_idI)
  have f: "rv_tenant_id q = ?n" "rv_payment_intent_id q = pi_id i" "rv_idempotency_key q = key" "rv_amount q = pi_amount i"
    "rv_status q = FUNDS_RESERVED" "claimable now q"
    by (simp_all add: q r claimable_def requested_reversal_def)
  have "get_payment_intent ?db ?n (pi_id i) = Inr i"
    using get_payment_intent_row [OF inv i(1), of ?n] tab(2) by (simp add: get_payment_intent_def)
  then have again: "request_wallet_topup_reversal env ?db ?n (pi_id i) key' reason' u' now' = (?db, Inr q)"
    if "key' = key \<or> key' \<noteq> [] \<and> (\<forall>x \<in> set (topup_reversals db). rv_idempotency_key x \<noteq> key')" for key' reason' u' now'
    using request_again [OF rv', of q i p key' env reason' u' now'] that i(2,3) p key rows f by auto
  have "balance_of ?db = balance_of db2" by (simp add: balance_of_def fun_eq_iff)
  then show ?thesis using run again b2 tab(3) f by (intro exI [of _ ?db] exI [of _ q]) simp
qed

theorem reversal_requested_once_witness:
  "\<exists>db' r. request_wallet_topup_reversal refund_env topup_shop 7 100 ''k1'' None None 20 = (db', Inr r) \<and>
     balance_of db' (7, 8, ''XTR'') = 0 \<and>
     request_wallet_topup_reversal refund_env db' 7 100 ''k2'' None None 30 = (db', Inr r)"
proof -
  have b: "balance_of topup_shop (7, 8, ''XTR'') = 40" by (simp add: balance_of_def topup_defs wallet_key_def)
  have rv: "rev_inv topup_shop" using rev_history_safe [OF topup_shop_history] by simp
  have nil: "topup_reversals topup_shop = []" by (simp add: topup_shop_def empty_shop_def)
  have i: "pi_purpose topup_intent = WALLET_TOPUP" "pi_status topup_intent = PaymentIntentStatus.SUCCEEDED" "0 < pi_amount topup_intent"
    "pi_provider_payment_id topup_intent = Some ''c1''" "pi_tenant_id topup_intent = 7" "pi_id topup_intent = 100"
    "account_of topup_intent = (7, 8, ''XTR'')" "pi_amount topup_intent = 40"
    by (simp_all add: topup_defs)
  show ?thesis
    using reversal_requested_once [OF topup_shop_inv rv topup_intent_in i(1-4), of refund_env "''k1''" None None 20] b nil i
    by (auto simp: starts_with_def)
qed

end
