(* ===== verification/Reversal_Liveness.thy ===== *)
theory Reversal_Liveness
  imports Reversal_Properties
begin

text \<open>
  The worker makes progress: what one attempt leaves alone, that a poll never stops half-way, and
  what becomes of a reversal that is due.
\<close>

section \<open>Frames of an attempt\<close>

lemma get_reversal_put:
  "get_reversal (put_reversal r db) rid = (if rv_id r = rid then map_option (\<lambda>_. r) (get_reversal db rid) else get_reversal db rid)"
proof -
  have "first_row (\<lambda>x. rv_id x = rid) (update_where (\<lambda>x. rv_id x = rv_id r) (\<lambda>_. r) rs) =
      (if rv_id r = rid then map_option (\<lambda>_. r) (first_row (\<lambda>x. rv_id x = rid) rs) else first_row (\<lambda>x. rv_id x = rid) rs)" for rs
    by (induction rs) auto
  then show ?thesis by (simp add: get_reversal_def put_row_def)
qed

lemma get_reversal_claim:
  "get_reversal (fst (claim_reversal db x now)) rid =
     (if x = rid then map_option (\<lambda>r. if claimable now r then r\<lparr>rv_status := WalletTopUpReversalStatus.PROCESSING,
        rv_attempts := rv_attempts r + 1, rv_last_attempt_at := Some now, rv_next_attempt_at := None\<rparr> else r) (get_reversal db rid)
      else get_reversal db rid)"
proof -
  have "first_row (\<lambda>r. rv_id r = rid) (update_where (\<lambda>r. rv_id r = x \<and> claimable now r) f rs) =
      (if x = rid then map_option (\<lambda>r. if claimable now r then f r else r) (first_row (\<lambda>r. rv_id r = rid) rs)
       else first_row (\<lambda>r. rv_id r = rid) rs)" if "\<And>r. rv_id (f r) = rv_id r" for f rs
    using that by (induction rs) auto
  then show ?thesis by (simp add: get_reversal_def claim_reversal_def Let_def)
qed

definition source_case_key :: "financial_resolution_case \<Rightarrow> uuid \<times> str" where
  "source_case_key c = (fc_tenant_id c, fc_source_key c)"

definition case_rows :: "'x pay_db_scheme \<Rightarrow> bool" where
  "case_rows db \<longleftrightarrow> distinct (map source_case_key (resolution_cases db)) \<and> distinct (map fc_id (resolution_cases db)) \<and>
     (\<forall>c \<in> set (resolution_cases db). fc_id c < next_id db)"

text \<open>What a reversal \<open>rid\<close> that waits for its turn depends on.\<close>

definition leaves :: "uuid \<Rightarrow> 'x pay_db_scheme \<Rightarrow> 'x pay_db_scheme \<Rightarrow> bool" where
  "leaves rid db db' \<longleftrightarrow> get_reversal db' rid = get_reversal db rid \<and> payment_intents db' = payment_intents db \<and>
     users db' = users db \<and> ledger db' = ledger db \<and> wallets db' = wallets db \<and>
     (case_rows db \<longrightarrow> case_rows db') \<and>
     (\<forall>t \<in> set (payment_transactions db') - set (payment_transactions db). pt_reference_id t \<noteq> Some (topup_reversal_ref rid))"

lemma leaves_refl: "leaves rid db db"
  by (simp add: leaves_def)

lemma leaves_trans: "leaves rid a b \<Longrightarrow> leaves rid b c \<Longrightarrow> leaves rid a c"
  unfolding leaves_def by fastforce

lemma claim_leaves: "x \<noteq> rid \<Longrightarrow> leaves rid db (fst (claim_reversal db x now))"
  unfolding leaves_def by (simp add: get_reversal_claim) (simp add: claim_reversal_def Let_def case_rows_def)

lemma put_leaves: "rv_id r \<noteq> rid \<Longrightarrow> leaves rid db (put_reversal r db)"
  by (simp add: leaves_def get_reversal_put case_rows_def)

lemma topup_reversal_ref_inj [simp]: "topup_reversal_ref i = topup_reversal_ref j \<longleftrightarrow> i = j"
  by (simp add: topup_reversal_ref_def)

lemma process_leaves:
  assumes p: "process_wallet_topup_reversal env db n x now = (db', Inr r')" and "x \<noteq> rid"
  shows "leaves rid db db'"
  using p
proof (cases rule: process_cases)
  case replayed
  then show ?thesis by (simp add: leaves_refl)
next
  case (refunded r i usr provider res)
  have x: "rv_id r' = x" using get_reversal_in [OF refunded(1)] refunded(8) by (simp add: completed_def)
  have "pi_tenant_id i = rv_tenant_id r'" "pi_id i = rv_payment_intent_id r'"
    using get_payment_intent_InrD [OF refunded(4)] refunded(2,8) by (simp_all add: completed_def)
  note d = record_transaction_InrD [OF refunded(9) this]
  have "get_reversal db' rid = get_reversal (put_reversal r' db) rid" using d(7) by (simp add: get_reversal_def)
  moreover have "case_rows db \<longrightarrow> case_rows db'" using d(6,11) by (auto simp: case_rows_def)
  ultimately show ?thesis using d x assms(2) by (auto simp: leaves_def get_reversal_put)
qed

text \<open>Opening the case of a reversal never fails while the cases are unique.\<close>

lemma put_case_rows:
  assumes "case_rows db" and "c \<in> set (resolution_cases db)" and "fc_id c' = fc_id c" "source_case_key c' = source_case_key c"
  shows "case_rows (put_case c' db)"
proof -
  have d: "distinct (map fc_id (resolution_cases db))" using assms(1) by (simp add: case_rows_def)
  have "map source_case_key (put_row fc_id c' (resolution_cases db)) = map source_case_key (resolution_cases db)"
    using put_row_maps [OF assms(2) d assms(3,4)] .
  then show ?thesis
    using assms(1) bounded_keys [OF put_row_keys [of fc_id c' "resolution_cases db"], of "next_id db" "next_id db"]
    by (simp add: case_rows_def put_case_def)
qed

lemma add_case_rows:
  assumes "case_rows db" and "source_case_key c \<notin> source_case_key ` set (resolution_cases db)" and "fc_id c = next_id db"
  shows "add_case db c = (db\<lparr>resolution_cases := resolution_cases db @ [c], next_id := Suc (next_id db)\<rparr>, Inr (Some c)) \<and>
    case_rows (db\<lparr>resolution_cases := resolution_cases db @ [c], next_id := Suc (next_id db)\<rparr>)"
proof -
  have "\<not> violates (\<lambda>_. True) (\<lambda>c. (fc_tenant_id c, fc_source_key c)) (resolution_cases db) c"
    using assms(2) by (auto simp: violates_def list_ex_iff source_case_key_def image_iff)
  then show ?thesis using assms by (fastforce simp: add_case_def flush_case_def case_rows_def)
qed

lemma bump_simps [simp]: "fc_id (bump b c) = fc_id c" "source_case_key (bump b c) = source_case_key c"
  by (simp_all add: bump_def source_case_key_def)

definition only_cases :: "'x pay_db_scheme \<Rightarrow> 'x pay_db_scheme \<Rightarrow> bool" where
  "only_cases db db' \<longleftrightarrow> topup_reversals db' = topup_reversals db \<and> payment_intents db' = payment_intents db \<and> users db' = users db \<and>
    ledger db' = ledger db \<and> wallets db' = wallets db \<and> payment_transactions db' = payment_transactions db"

lemma ensure_case_total:
  assumes rows: "case_rows db"
  shows "\<exists>db' c. ensure_case_for_reversal db r = (db', Inr c) \<and> case_rows db' \<and> only_cases db db'"
proof -
  let ?p = "\<lambda>c. fc_tenant_id c = rv_tenant_id r \<and> fc_source_key c = source_key_for_reversal (rv_id r)"
  have d: "distinct (map source_case_key (resolution_cases db))" using rows by (simp add: case_rows_def)
  have f: "find_case db (rv_tenant_id r) (source_key_for_reversal (rv_id r)) = Inr (first_row ?p (resolution_cases db))"
    unfolding find_case_def by (rule scalar_one_or_none_unique [OF d]) (simp add: source_case_key_def)
  show ?thesis
  proof (cases "first_row ?p (resolution_cases db)")
    case None
    then have "source_case_key c \<notin> source_case_key ` set (resolution_cases db)" if "?p c" for c
      using that by (auto simp: source_case_key_def first_row_None_iff)
    then have "\<exists>db' x. add_case db (new_case (next_id db) (rv_tenant_id r) (source_key_for_reversal (rv_id r)) a b c d e g h) = (db', Inr x) \<and>
        case_rows db' \<and> only_cases db db'" for a b c d e g h
      using add_case_rows [OF rows, of "new_case (next_id db) (rv_tenant_id r) (source_key_for_reversal (rv_id r)) a b c d e g h"]
      by (simp add: only_cases_def new_case_def)
    then show ?thesis using f None rows by (cases "rv_status r = WalletTopUpReversalStatus.MANUAL_REVIEW")
      (simp_all add: ensure_case_for_reversal_def Let_def, simp add: only_cases_def)
  next
    case (Some c)
    have c: "c \<in> set (resolution_cases db)" using Some by (auto dest: first_row_SomeD)
    let ?c = "\<lambda>b ct sv w m. bump b (c\<lparr>fc_case_type := ct, fc_severity := sv, fc_wallet_id := w, fc_metadata_json := m\<rparr>)"
    have "case_rows (put_case (?c b ct sv w m) db) \<and> only_cases db (put_case (?c b ct sv w m) db)" for b ct sv w m
      using put_case_rows [OF rows c, of "?c b ct sv w m"] by (simp add: only_cases_def put_case_def) (simp add: source_case_key_def)
    then show ?thesis using f Some rows by (cases "rv_status r = WalletTopUpReversalStatus.MANUAL_REVIEW")
      (simp_all add: ensure_case_for_reversal_def Let_def, simp add: only_cases_def)
  qed
qed

lemma mark_manual_review_total:
  assumes rows: "case_rows db"
  shows "\<exists>db'. mark_manual_review db x code detail = (db', Inr ()) \<and> case_rows db' \<and> (x \<noteq> rid \<longrightarrow> leaves rid db db')"
proof (cases "get_reversal db x")
  case None
  then show ?thesis using rows by (simp add: mark_manual_review_def leaves_refl)
next
  case (Some r)
  let ?r = "r\<lparr>rv_status := WalletTopUpReversalStatus.MANUAL_REVIEW, rv_next_attempt_at := None,
      rv_last_error_code := Some (take 100 code), rv_last_error_detail := Some (take 255 detail)\<rparr>"
  have x: "rv_id ?r = x" using get_reversal_in [OF Some] by simp
  have "case_rows (put_reversal ?r db)" using rows by (simp add: case_rows_def)
  from ensure_case_total [OF this] obtain db' c where e: "ensure_case_for_reversal (put_reversal ?r db) ?r = (db', Inr c)"
    "case_rows db'" "only_cases (put_reversal ?r db) db'" by blast
  have "leaves rid (put_reversal ?r db) db'"
    using e(2,3) by (auto simp: leaves_def only_cases_def get_reversal_def)
  then have "x \<noteq> rid \<longrightarrow> leaves rid db db'" using put_leaves [of ?r rid db] x leaves_trans by blast
  then show ?thesis using Some e rows by (auto simp: mark_manual_review_def Let_def leaves_refl)
qed

lemma process_claimed_total:
  assumes rows: "case_rows db"
  shows "\<exists>db'. process_claimed worker env db x now = (db', Inr ()) \<and> case_rows db' \<and> (x \<noteq> rid \<longrightarrow> leaves rid db db')"
proof (cases "get_reversal db x")
  case None
  then show ?thesis using rows by (simp add: process_claimed_def leaves_refl)
next
  case (Some r)
  have x: "rv_id r = x" using get_reversal_in [OF Some] by simp
  obtain db1 y where p: "process_wallet_topup_reversal env db (rv_tenant_id r) (rv_id r) now = (db1, y)" by fastforce
  show ?thesis
  proof (cases y)
    case (Inr r')
    have l: "leaves k db db1" if "k \<noteq> x" for k using process_leaves [of env db "rv_tenant_id r" x now db1 r' k] p Inr x that by simp
    have "case_rows db1" using l [of "Suc x"] rows by (simp add: leaves_def)
    then show ?thesis using p Some Inr l [of rid] by (auto simp: process_claimed_def)
  next
    case (Inl e)
    have "case_rows (mark_retry worker db x code now) \<and> (x \<noteq> rid \<longrightarrow> leaves rid db (mark_retry worker db x code now))" for code
      using Some x rows by (auto simp: mark_retry_def leaves_refl case_rows_def intro!: put_leaves)
    then show ?thesis using p Some Inl mark_manual_review_total [OF rows, of x _ _ rid]
      by (cases "needs_review e") (auto simp: process_claimed_def)
  qed
qed

section \<open>A poll\<close>

lemma claim_case_rows: "case_rows (fst (claim_reversal db x now)) \<longleftrightarrow> case_rows db"
  by (simp add: claim_reversal_def Let_def case_rows_def)

interpretation reversal_batch: batch_worker "\<lambda>db rid. claim_reversal db rid now" "\<lambda>db rid. process_claimed worker env db rid now"
    case_rows leaves for worker env now
  by unfold_locales (auto simp: leaves_refl claim_case_rows intro: leaves_trans claim_leaves process_claimed_total)

text \<open>Everything an attempt needs to succeed.\<close>

definition refundable ::
  "'e deposit_env_scheme \<Rightarrow> 'x pay_db_scheme \<Rightarrow> wallet_topup_reversal \<Rightarrow> payment_refund_result \<Rightarrow> bool" where
  "refundable env db r res \<longleftrightarrow>
     (\<exists>i usr provider. get_payment_intent db (rv_tenant_id r) (rv_payment_intent_id r) = Inr i \<and>
        first_row (\<lambda>u. u_id u = rv_user_id r) (users db) = Some usr \<and>
        env_provider env (rv_tenant_id r) (rv_provider r) = Inr provider \<and>
        provider_refund provider (reversal_refund_request r i usr) = Inr res) \<and> rs_is_success res \<and>
     (\<forall>t \<in> set (payment_transactions db). pt_reference_id t \<noteq> Some (topup_reversal_ref (rv_id r)))"

lemma refundable_leaves: "refundable env db r res \<Longrightarrow> leaves (rv_id r) db db' \<Longrightarrow> refundable env db' r res"
  unfolding refundable_def leaves_def get_payment_intent_def by auto

lemma attempt_completes:
  assumes g: "get_reversal db (rv_id r) = Some r" and st: "rv_status r = WalletTopUpReversalStatus.PROCESSING"
    and ok: "refundable env db r res"
  shows "\<exists>db'. process_claimed worker env db (rv_id r) now = (db', Inr ()) \<and> ledger db' = ledger db \<and> wallets db' = wallets db \<and>
    get_reversal db' (rv_id r) = Some ((completed r now)\<lparr>rv_provider_refund_id := Some (rs_provider_refund_id res), rv_next_attempt_at := None\<rparr>)"
proof -
  let ?r = "(completed r now)\<lparr>rv_provider_refund_id := Some (rs_provider_refund_id res), rv_next_attempt_at := None\<rparr>"
  let ?t = "\<lambda>i. reversal_refund_transaction (next_id db) i ?r (rs_provider_refund_id res) ''merchant_request''"
  from ok obtain i usr provider where o: "get_payment_intent db (rv_tenant_id r) (rv_payment_intent_id r) = Inr i"
    "first_row (\<lambda>u. u_id u = rv_user_id r) (users db) = Some usr" "env_provider env (rv_tenant_id r) (rv_provider r) = Inr provider"
    "provider_refund provider (reversal_refund_request r i usr) = Inr res" "rs_is_success res"
    and fresh: "\<forall>t \<in> set (payment_transactions db). pt_reference_id t \<noteq> Some (topup_reversal_ref (rv_id r))"
    by (auto simp: refundable_def)
  have id: "rv_id ?r = rv_id r" by (simp add: completed_def)
  have rec: "record_topup_reversal_payment_transaction (put_reversal ?r db) i ?r (rs_provider_refund_id res) ''merchant_request'' =
      ((put_reversal ?r db)\<lparr>payment_transactions := payment_transactions db @ [?t i], next_id := Suc (next_id db)\<rparr>, Inr ())"
    using record_transaction_fresh [of "put_reversal ?r db" ?r] fresh id by simp
  have "process_wallet_topup_reversal env db (rv_tenant_id r) (rv_id r) now =
      ((put_reversal ?r db)\<lparr>payment_transactions := payment_transactions db @ [?t i], next_id := Suc (next_id db)\<rparr>, Inr ?r)"
    using g st o rec by (simp add: process_wallet_topup_reversal_def Let_def)
  moreover have "get_reversal ((put_reversal ?r db)\<lparr>payment_transactions := payment_transactions db @ [?t i], next_id := Suc (next_id db)\<rparr>)
      (rv_id r) = Some ?r"
    using g id get_reversal_put [of ?r db "rv_id r"] by (simp add: get_reversal_def)
  ultimately show ?thesis using g by (simp add: process_claimed_def)
qed

text \<open>The claim of a waiting reversal and the attempt after it.\<close>

lemma claimed_attempt_completes:
  assumes g: "get_reversal db (rv_id r) = Some r" and c: "claimable now r" and ok: "refundable env db r res"
    and cl: "claim_reversal db (rv_id r) now = (db1, b)"
  shows "b \<and> (\<exists>r'. get_reversal (fst (process_claimed worker env db1 (rv_id r) now)) (rv_id r) = Some r' \<and>
    rv_status r' = WalletTopUpReversalStatus.COMPLETED \<and> rv_provider_refund_id r' = Some (rs_provider_refund_id res)) \<and>
    ledger (fst (process_claimed worker env db1 (rv_id r) now)) = ledger db \<and>
    wallets (fst (process_claimed worker env db1 (rv_id r) now)) = wallets db"
proof -
  let ?r = "r\<lparr>rv_status := WalletTopUpReversalStatus.PROCESSING, rv_attempts := rv_attempts r + 1,
    rv_last_attempt_at := Some now, rv_next_attempt_at := None\<rparr>"
  have b: "b" using cl c get_reversal_in [OF g] by (auto simp: claim_reversal_def Let_def list_ex_iff)
  have g1: "get_reversal db1 (rv_id ?r) = Some ?r" using get_reversal_claim [of db "rv_id r" now "rv_id r"] cl g c by simp
  have f: "ledger db1 = ledger db" "wallets db1 = wallets db" using cl by (auto simp: claim_reversal_def Let_def)
  have "refundable env db1 ?r res"
    using ok cl by (auto simp: refundable_def claim_reversal_def Let_def get_payment_intent_def reversal_refund_request_def)
  from attempt_completes [OF g1 _ this, of worker now] show ?thesis using b f by (auto simp: completed_def)
qed

lemma process_due_completes:
  assumes "case_rows db" and "distinct rids" and "rv_id r \<in> set rids" and g: "get_reversal db (rv_id r) = Some r"
    and c: "claimable now r" and ok: "refundable env db r res"
  shows "\<exists>db' m. process_due worker env now db rids k = (db', Inr m) \<and> (\<exists>r'. get_reversal db' (rv_id r) = Some r' \<and>
    rv_status r' = WalletTopUpReversalStatus.COMPLETED \<and> rv_provider_refund_id r' = Some (rs_provider_refund_id res)) \<and>
    ledger db' = ledger db \<and> wallets db' = wallets db"
  unfolding process_due_def
proof (rule reversal_batch.run_batch_reaches [where k = "rv_id r" and
    ready = "\<lambda>s. get_reversal s (rv_id r) = Some r \<and> refundable env s r res \<and> ledger s = ledger db \<and> wallets s = wallets db"])
  fix s s1 b
  assume "get_reversal s (rv_id r) = Some r \<and> refundable env s r res \<and> ledger s = ledger db \<and> wallets s = wallets db"
    and "claim_reversal s (rv_id r) now = (s1, b)"
  then show "b \<and> (\<exists>r'. get_reversal (fst (process_claimed worker env s1 (rv_id r) now)) (rv_id r) = Some r' \<and>
      rv_status r' = WalletTopUpReversalStatus.COMPLETED \<and> rv_provider_refund_id r' = Some (rs_provider_refund_id res)) \<and>
      ledger (fst (process_claimed worker env s1 (rv_id r) now)) = ledger db \<and>
      wallets (fst (process_claimed worker env s1 (rv_id r) now)) = wallets db"
    using claimed_attempt_completes [of s r now env res s1 b worker] c by simp
next
  fix s s'
  assume "get_reversal s (rv_id r) = Some r \<and> refundable env s r res \<and> ledger s = ledger db \<and> wallets s = wallets db"
    and l: "leaves (rv_id r) s s'"
  then show "get_reversal s' (rv_id r) = Some r \<and> refundable env s' r res \<and> ledger s' = ledger db \<and> wallets s' = wallets db"
    using refundable_leaves [OF _ l, of env res] by (simp add: leaves_def)
qed (use assms in \<open>auto simp: leaves_def\<close>)

lemma due_reversals_distinct:
  assumes "rev_inv db"
  shows "distinct (due_reversals db now limit)"
proof -
  have "distinct (map rv_id (filter (claimable now) (topup_reversals db)))"
    using rev_invD(2) [OF assms] by (simp add: distinct_map inj_on_def)
  then have "distinct (map rv_id (sort_key rv_created_at (filter (claimable now) (topup_reversals db))))"
    by (metis distinct_map distinct_sort set_sort)
  then show ?thesis by (simp add: due_reversals_def)
qed

lemma first_row_unique: "r \<in> set rs \<Longrightarrow> distinct (map k rs) \<Longrightarrow> first_row (\<lambda>x. k x = k r) rs = Some r"
  by (induction rs) (auto simp: image_iff)

lemma due_reversal:
  assumes "rev_inv db" and "r \<in> set (topup_reversals db)" and "rv_id r \<in> set (due_reversals db now limit)"
  shows "claimable now r" and "get_reversal db (rv_id r) = Some r"
proof -
  have "rv_id r \<in> rv_id ` set (filter (claimable now) (topup_reversals db))"
    using assms(3) set_take_subset by (fastforce simp: due_reversals_def)
  then show "claimable now r" using assms(2) rev_invD(2) [OF assms(1)] by (auto simp: distinct_map inj_on_def)
  show "get_reversal db (rv_id r) = Some r"
    unfolding get_reversal_def using assms(2) rev_invD(2) [OF assms(1)] by (rule first_row_unique)
qed

section \<open>Properties\<close>

text \<open>C26: A due reversal is refunded at the next poll, whatever happens to the others. When the provider confirms the
  refund of a reversal in the batch, the poll returns, the reversal is COMPLETED with the provider's refund id, and
  neither a balance nor the ledger has changed: the money left the wallet when the reversal was requested. Other
  reversals of the batch that fail in any way, before or after it, make no difference.\<close>

theorem poll_refunds_due_reversal:
  assumes "rev_history db" and "case_rows db" and "r \<in> set (topup_reversals db)"
    and "rv_id r \<in> set (due_reversals db now limit)" and "refundable env db r res"
  shows "\<exists>db' m r'. poll_once worker env db now limit = (db', Inr m) \<and> wallets db' = wallets db \<and> ledger db' = ledger db \<and>
    get_reversal db' (rv_id r) = Some r' \<and> rv_status r' = WalletTopUpReversalStatus.COMPLETED \<and>
    rv_provider_refund_id r' = Some (rs_provider_refund_id res)"
proof -
  have inv: "rev_inv db" using rev_history_safe [OF assms(1)] by simp
  note d = due_reversal [OF inv assms(3,4)]
  show ?thesis unfolding poll_once_def
    using process_due_completes [OF assms(2) due_reversals_distinct [OF inv] assms(4) d(2,1) assms(5)] by blast
qed

theorem poll_refunds_due_reversal_witness:
  "\<exists>db' m r'. poll_once \<lparr>max_backoff_seconds = 3600\<rparr> refund_env reserved_shop 20 50 = (db', Inr m) \<and>
     get_reversal db' 103 = Some r' \<and> rv_status r' = WalletTopUpReversalStatus.COMPLETED"
proof -
  have c: "case_rows reserved_shop" by (simp add: case_rows_def reserved_shop_def topup_shop_def empty_shop_def)
  have d: "rv_id reserved_reversal \<in> set (due_reversals reserved_shop 20 50)" by (simp add: due_reversals_def)
  have "users reserved_shop = [topup_user]" "payment_transactions reserved_shop = []"
    by (simp_all add: reserved_shop_def topup_shop_def empty_shop_def)
  moreover have "get_payment_intent reserved_shop 7 100 = Inr topup_intent"
    using processing_intent by (simp add: get_payment_intent_def processing_shop_def)
  ultimately have "refundable refund_env reserved_shop reserved_reversal
      \<lparr>rs_provider_refund_id = ''rf'', rs_status = ''OK'', rs_amount = 40, rs_is_success = True, rs_raw_data = []\<rparr>"
    by (simp add: refundable_def refunding_provider_def reversal_refund_request_def)
  from poll_refunds_due_reversal [OF reserved_shop_history c _ d this, of "\<lparr>max_backoff_seconds = 3600\<rparr>"] show ?thesis by auto
qed

text \<open>A failed attempt is repeated later, never lost and never sooner than its delay. When the provider's answer to
  the refund of a claimed reversal is an error that leaves the outcome open, the reversal is scheduled again after
  \<open>min(max_backoff, 2 ^ attempts)\<close> seconds, between one second and the configured maximum and at most 4096, it can be
  claimed again from exactly that moment on, a later attempt never waits less, and no balance and no other reversal
  changes.\<close>

theorem retry_backoff:
  assumes "rev_history db" and "get_reversal db rid = Some r" and "1 \<le> max_backoff_seconds worker"
    and "process_wallet_topup_reversal env db (rv_tenant_id r) rid now = (db1, Inl e)" and "\<not> needs_review e"
  shows "\<exists>db' r' d. process_claimed worker env db rid now = (db', Inr ()) \<and> get_reversal db' rid = Some r' \<and>
    1 \<le> d \<and> d \<le> max_backoff_seconds worker \<and> d \<le> 4096 \<and>
    (\<forall>t. claimable t r' \<longleftrightarrow> now + timedelta_seconds d \<le> t) \<and>
    (\<forall>n \<ge> rv_attempts r. d \<le> retry_delay worker n) \<and>
    wallets db' = wallets db \<and> ledger db' = ledger db \<and> (\<forall>x. x \<noteq> rid \<longrightarrow> get_reversal db' x = get_reversal db x)"
proof -
  let ?d = "retry_delay worker (rv_attempts r)"
  have rid: "rv_id r = rid" using get_reversal_in [OF assms(2)] by simp
  have "rv_status r = WalletTopUpReversalStatus.PROCESSING"
    using retried_was_processing [OF assms(2), of env now db1 e] assms(4,5) rid by simp
  then have run: "process_claimed worker env db rid now = (mark_retry worker db rid (error_name e) now, Inr ())"
    "mark_retry worker db rid (error_name e) now = put_reversal (r\<lparr>rv_status := RECONCILIATION_REQUIRED,
       rv_next_attempt_at := Some (now + timedelta_seconds ?d), rv_last_error_code := Some (take 100 (error_name e)),
       rv_last_error_detail := Some ''Provider refund outcome is uncertain; safe retry scheduled.''\<rparr>) db"
    using assms(2,4,5) rid by (simp_all add: process_claimed_def mark_retry_def)
  have pow: "(1 :: int) \<le> 2 ^ k" for k by (rule one_le_power) simp
  have "(2 :: int) ^ nat (max 0 (min (rv_attempts r) 12)) \<le> 2 ^ 12" by (rule power_increasing) auto
  then have b: "1 \<le> ?d" "?d \<le> max_backoff_seconds worker" "?d \<le> 4096"
    using assms(3) pow by (auto simp: retry_delay_def)
  have mono: "?d \<le> retry_delay worker n" if "rv_attempts r \<le> n" for n
    unfolding retry_delay_def using that by (intro min.mono order_refl power_increasing) auto
  show ?thesis
    using run b mono assms(2) rid by (simp add: get_reversal_put claimable_def) blast
qed

theorem retry_backoff_witness:
  "\<exists>db' r'. process_claimed \<lparr>max_backoff_seconds = 3600\<rparr> sample_pay_env processing_shop 103 21 = (db', Inr ()) \<and>
     get_reversal db' 103 = Some r' \<and> \<not> claimable 21 r'"
proof -
  have "\<not> needs_review PaymentProviderError" by (simp add: needs_review_def uncertain_outcome_def)
  from retry_backoff [OF processing_shop_history processing_get, of "\<lparr>max_backoff_seconds = 3600\<rparr>" sample_pay_env 21]
    sample_refund_fails [of 21] this
  show ?thesis by (fastforce simp: timedelta_seconds_def)
qed

end
