(* ===== verification/Resolution_Properties.thy ===== *)
theory Resolution_Properties
  imports Reversal_Liveness
begin

text \<open>
  Refunds the provider made on its own, and what operators can decide about the cases that follow.
\<close>

section \<open>External reversals\<close>

lemma reserve_insufficient:
  assumes inv: "ledger_inv db" and w: "w \<in> set (wallets db)" and a: "0 < a" "w_balance w < a"
    and f: "find_entry db (w_id w) TransactionType.DEBIT CANONICAL_TOPUP_REVERSAL_TYPE (str_uuid i) = None"
  shows "reserve_topup_reversal db w a i d now = (db, Inl InsufficientFundsError)"
  using lock_wallet_row [OF inv w] a f by (simp add: reserve_topup_reversal_def Let_def)

lemma balance_of_frozen: "balance_of (freeze_wallet i db) = balance_of db"
proof
  fix k
  have "first_row (\<lambda>w. wallet_key w = k) (wallets (freeze_wallet i db)) =
      map_option (\<lambda>w. if w_id w = i then w\<lparr>w_is_active := False\<rparr> else w) (first_row (\<lambda>w. wallet_key w = k) (wallets db))"
    by (simp add: freeze_wallet_def first_row_update_where wallet_key_def)
  then show "balance_of (freeze_wallet i db) k = balance_of db k"
    by (cases "first_row (\<lambda>w. wallet_key w = k) (wallets db)") (simp_all add: balance_of_def)
qed

text \<open>What applying a freshly recorded external reversal does, with enough money and without.\<close>

lemma apply_external_runs:
  assumes inv: "rev_inv db" and r: "r \<in> set (topup_reversals db)" "rv_status r = REQUESTED" "rv_id r = rid" "pi_amount i = rv_amount r"
    and w: "w \<in> set (wallets db)" "w_id w = rv_wallet_id r" and a: "0 < pi_amount i"
    and tx: "\<forall>t \<in> set (payment_transactions db). pt_reference_id t \<noteq> Some (topup_reversal_ref rid)"
  shows "\<exists>db' r'. apply_external_reversal db i p w r now = (db', Inr r') \<and>
    (if pi_amount i \<le> w_balance w
     then rv_status r' = WalletTopUpReversalStatus.COMPLETED \<and> wallet_rows db' = wallet_rows db \<and>
       balance_of db' = (balance_of db)(wallet_key w := balance_of db (wallet_key w) - pi_amount i)
     else rv_status r' = WalletTopUpReversalStatus.MANUAL_REVIEW \<and> balance_of db' = balance_of db \<and> ledger db' = ledger db \<and>
       wallets db' = wallets (freeze_wallet (w_id w) db))"
proof (cases "pi_amount i \<le> w_balance w")
  case True
  let ?d = "Some (''External provider reversal for top-up '' @ str_uuid (pi_id i))"
  have li: "ledger_inv db" using rev_invD(1) [OF inv] .
  have none: "find_entry db (w_id w) TransactionType.DEBIT CANONICAL_TOPUP_REVERSAL_TYPE (str_uuid (rv_id r)) = None"
    using find_entry_taken [OF inv r(1)] r(2) by (simp add: taken_def)
  obtain db1 t where res: "reserve_topup_reversal db w (pi_amount i) (rv_id r) ?d now = (db1, Inr t)" "books now db db1 t"
    "balance_of db1 = (balance_of db)(wallet_key w := balance_of db (wallet_key w) - pi_amount i)"
    using reserve_fresh [OF li w(1) a True none] by blast
  have "payment_transactions db1 = payment_transactions db" using res(2) pay_tables_eq [of db1 db] by (auto simp: books_def)
  then have "record_topup_reversal_payment_transaction (put_reversal (completed r now) db1) i (completed r now) p ''external_provider'' =
     ((put_reversal (completed r now) db1)\<lparr>payment_transactions := payment_transactions db1 @
        [reversal_refund_transaction (next_id db1) i (completed r now) p ''external_provider''], next_id := Suc (next_id db1)\<rparr>, Inr ())"
    using record_transaction_fresh [of "put_reversal (completed r now) db1" "completed r now"] tx r(3) by (simp add: completed_def)
  then show ?thesis using res True books_rows [OF res(2)]
    by (auto simp: apply_external_reversal_def Let_def balance_of_def wallet_rows_def fun_eq_iff)
next
  case False
  have "find_entry db (w_id w) TransactionType.DEBIT CANONICAL_TOPUP_REVERSAL_TYPE (str_uuid (rv_id r)) = None"
    using find_entry_taken [OF inv r(1)] r(2) by (simp add: taken_def)
  then have "reserve_topup_reversal db w (pi_amount i) (rv_id r) d now = (db, Inl InsufficientFundsError)" for d
    using reserve_insufficient [OF rev_invD(1) [OF inv] w(1) a] False by simp
  moreover have "balance_of (put_reversal x (freeze_wallet (w_id w) db)) = balance_of db" for x
    using balance_of_frozen [of "w_id w" db] by (simp add: balance_of_def fun_eq_iff)
  ultimately show ?thesis using False by (simp add: apply_external_reversal_def Let_def) (simp add: freeze_wallet_def)
qed

text \<open>A refund the provider made on its own is mirrored or contained. For a settled top-up without a reversal,
  recording it always succeeds: if the wallet still covers the amount, exactly this amount is taken from it and the
  reversal is complete; otherwise no money moves, the reversal waits for an operator, and the wallet is frozen, so
  that every later debit of it is refused.\<close>

theorem external_reversal_contained:
  assumes inv: "pay_inv db" and rv: "rev_history db"
    and i: "i \<in> set (payment_intents db)" "pi_purpose i = WALLET_TOPUP" "pi_status i = PaymentIntentStatus.SUCCEEDED" "0 < pi_amount i"
    and p: "pi_provider_payment_id i = Some p" "p \<noteq> []"
    and free: "\<forall>r \<in> set (topup_reversals db). rv_tenant_id r = pi_tenant_id i \<longrightarrow> rv_payment_intent_id r \<noteq> pi_id i \<and>
       rv_idempotency_key r \<noteq> external_reversal_key env (pi_tenant_id i) (pi_provider i) p"
    and tx: "\<forall>t \<in> set (payment_transactions db). pt_reference_id t \<noteq> Some (topup_reversal_ref (next_id db))"
  shows "\<exists>db' r. record_external_wallet_topup_reversal env db (pi_tenant_id i) i m now = (db', Inr r) \<and>
    (if pi_amount i \<le> balance_of db (account_of i)
     then rv_status r = WalletTopUpReversalStatus.COMPLETED \<and>
       balance_of db' = (balance_of db)(account_of i := balance_of db (account_of i) - pi_amount i)
     else rv_status r = WalletTopUpReversalStatus.MANUAL_REVIEW \<and> balance_of db' = balance_of db \<and> ledger db' = ledger db \<and>
       (\<forall>w a rid rty d t. w \<in> set (wallets db) \<and> wallet_key w = account_of i \<and> 0 < a \<longrightarrow>
          debit db' w a rid rty d t = (db', Inl InsufficientFundsError)))"
proof -
  let ?n = "pi_tenant_id i"
  have rinv: "rev_inv db" using rev_history_safe [OF rv] by simp
  have li: "ledger_inv db" using rev_invD(1) [OF rinv] .
  obtain w s where w: "w \<in> set (wallets db)" "wallet_key w = account_of i"
    "get_or_create_wallet db ?n (pi_user_id i) (pi_currency i) = (db, Inr w)"
    "find_settlement db w (pi_id i) = Some s" "lt_amount s = pi_amount i"
    using settled_wallet [OF inv i(1,3)] by blast
  define r where "r = external_reversal env (next_id db) now ?n i p w m"
  define db1 where "db1 = db\<lparr>topup_reversals := topup_reversals db @ [r], next_id := Suc (next_id db)\<rparr>"
  have fl: "flush_reversal db r = (db1, Inr r)"
    using free by (auto simp: flush_reversal_def violates_def list_ex_iff r_def db1_def external_reversal_def)
  have rv1: "rev_inv db1" using flush_reversal_keeps(1) [OF rinv fl] find_settlement_funds [OF w(4), of r] w(5) by (simp add: r_def)
  have r1: "r \<in> set (topup_reversals db1)" "w \<in> set (wallets db1)" "payment_transactions db1 = payment_transactions db"
    "balance_of db1 = balance_of db" "ledger db1 = ledger db" "wallets db1 = wallets db"
    using w(1) by (simp_all add: db1_def balance_of_def fun_eq_iff)
  have wb: "w_balance w = balance_of db (account_of i)" using balance_of_wallet [OF li w(1)] w(2) by simp
  have k: "find_reversal_by_intent db ?n (pi_id i) = Inr None" using free by (intro find_reversal_None) auto
  obtain db' r' where a: "apply_external_reversal db1 i p w r now = (db', Inr r')"
    and out: "if pi_amount i \<le> w_balance w
     then rv_status r' = WalletTopUpReversalStatus.COMPLETED \<and> wallet_rows db' = wallet_rows db1 \<and>
       balance_of db' = (balance_of db1)(wallet_key w := balance_of db1 (wallet_key w) - pi_amount i)
     else rv_status r' = WalletTopUpReversalStatus.MANUAL_REVIEW \<and> balance_of db' = balance_of db1 \<and> ledger db' = ledger db1 \<and>
       wallets db' = wallets (freeze_wallet (w_id w) db1)"
    using apply_external_runs [OF rv1 r1(1) _ _ _ r1(2) _ i(4), of "next_id db" p now] tx r1(3) by (auto simp: r_def)
  have run: "record_external_wallet_topup_reversal env db ?n i m now = (db', Inr r')"
    using i p k w(3-5) fl a by (simp add: record_external_wallet_topup_reversal_def r_def)
  have fz: "debit db' v b rid rty d t = (db', Inl InsufficientFundsError)"
    if "v \<in> set (wallets db)" "wallet_key v = account_of i" "0 < b" "wallets db' = wallets (freeze_wallet (w_id w) db1)" for v b rid rty d t
  proof -
    have "v = w" using that(1,2) w li by (auto simp: ledger_inv_def distinct_map inj_on_def)
    then show ?thesis using frozen_lock [OF li w(1), of db'] that(3,4) r1(6) by (simp add: debit_def freeze_wallet_def)
  qed
  show ?thesis using run out fz wb r1(4,5) w(2) by (intro exI [of _ db'] exI [of _ r']) (auto split: if_splits)
qed

theorem external_reversal_contained_witness:
  "\<exists>db' r. record_external_wallet_topup_reversal refund_env topup_shop 7 topup_intent JNull 20 = (db', Inr r) \<and>
     rv_status r = WalletTopUpReversalStatus.COMPLETED \<and> balance_of db' (7, 8, ''XTR'') = 0"
proof -
  have b: "balance_of topup_shop (7, 8, ''XTR'') = 40" by (simp add: balance_of_def topup_defs wallet_key_def)
  have e: "topup_reversals topup_shop = []" "payment_transactions topup_shop = []" by (simp_all add: topup_shop_def empty_shop_def)
  have i: "pi_purpose topup_intent = WALLET_TOPUP" "pi_status topup_intent = PaymentIntentStatus.SUCCEEDED" "0 < pi_amount topup_intent"
    "pi_provider_payment_id topup_intent = Some ''c1''" "pi_tenant_id topup_intent = 7" "account_of topup_intent = (7, 8, ''XTR'')"
    "pi_amount topup_intent = 40"
    by (simp_all add: topup_defs)
  show ?thesis
    using external_reversal_contained [OF topup_shop_inv topup_shop_history topup_intent_in i(1-4), of refund_env JNull 20] e b i by auto
qed

section \<open>Operator decisions\<close>

lemma locked_case_row:
  assumes "case_rows db" and "c \<in> set (resolution_cases db)"
  shows "locked_case db n (fc_id c) = (if fc_tenant_id c = n then Inr c else Inl PaymentError)"
proof -
  let ?p = "\<lambda>x. fc_id x = fc_id c \<and> fc_tenant_id x = n"
  have d: "distinct (map fc_id (resolution_cases db))" using assms(1) by (simp add: case_rows_def)
  have "scalar_one_or_none ?p (resolution_cases db) = Inr (first_row ?p (resolution_cases db))"
    using d by (rule scalar_one_or_none_unique) simp
  moreover have "x = c" if "x \<in> set (resolution_cases db)" "fc_id x = fc_id c" for x
    using that assms(2) d by (auto simp: distinct_map inj_on_def)
  then have "first_row ?p (resolution_cases db) = (if fc_tenant_id c = n then Some c else None)"
    using assms(2) by (cases "first_row ?p (resolution_cases db)") (auto simp: first_row_None_iff dest!: first_row_SomeD)
  ultimately show ?thesis by (simp add: locked_case_def)
qed

lemma merchant_action_refused:
  assumes li: "ledger_inv db" and c: "fc_reversal_id c = Some (rv_id r)" "fc_wallet_id c = Some wid" "get_reversal db (rv_id r) = Some r"
    "\<not> is_external r" and w: "w \<in> set (wallets db)" "w_id w = wid" "w_is_active w"
  shows "\<exists>e. apply_action env db n c u action note owner now = (db, Inl e)"
proof (cases action)
  case CLOSE_KEEP_WALLET_FROZEN
  have "x = w" if "x \<in> set (wallets db)" "w_id x = wid" for x using wallet_by_id [OF li that(1) w(1)] that(2) w(2) by simp
  then have "get_resolution_wallet db c \<in> {Inl PaymentIntegrityError, Inr (Cash w)}"
    using c(2) by (auto simp: get_resolution_wallet_def split: option.splits dest!: first_row_SomeD)
  then show ?thesis using CLOSE_KEEP_WALLET_FROZEN w(3) by (auto simp: apply_action_def close_keep_wallet_frozen_def)
qed (use c in \<open>auto simp: apply_action_def retry_local_reversal_def acknowledge_no_wallet_impact_def mark_false_positive_and_unfreeze_def\<close>)

text \<open>C27: A refund requested by a merchant that ended in manual review cannot be resolved any more. The money has left the
  customer's active wallet, yet every action of \<open>resolve_case\<close> refuses the case, for every operator, version, note
  and time, so the request leaves the store as it is; the worker never claims the reversal again, and not even an
  observed refund of the provider closes it.\<close>

theorem merchant_review_is_stuck:
  assumes h: "rev_history db" and rows: "case_rows db" and r: "r \<in> set (topup_reversals db)" "\<not> is_external r"
    "rv_status r = WalletTopUpReversalStatus.MANUAL_REVIEW"
    and c: "c \<in> set (resolution_cases db)" "fc_reversal_id c = Some (rv_id r)" "fc_wallet_id c = Some (rv_wallet_id r)" "fc_status c \<noteq> RESOLVED"
    and w: "w \<in> set (wallets db)" "w_id w = rv_wallet_id r" "w_is_active w"
  shows "(\<exists>t. reversal_rows db r = [t] \<and> lt_amount t = rv_amount r) \<and>
    (\<forall>(env :: pay_env) n u v action note owner now. (\<exists>e. snd (resolve_case env db n (fc_id c) u v action note owner now) = Inl e) \<and>
       commit (\<lambda>db. resolve_case env db n (fc_id c) u v action note owner now) db = db) \<and>
    (\<forall>t. \<not> claimable t r) \<and>
    (\<forall>n tx md now. fst (complete_wallet_topup_reversal_from_provider_event db n r tx md now) = db)"
proof (intro conjI allI)
  have inv: "rev_inv db" and li: "ledger_inv db" using rev_history_safe [OF h] rev_invD(1) by blast+
  have g: "get_reversal db (rv_id r) = Some r"
    unfolding get_reversal_def using r(1) rev_invD(2) [OF inv] by (rule first_row_unique)
  have "taken r" using r by (simp add: taken_def owes_def)
  then show "\<exists>t. reversal_rows db r = [t] \<and> lt_amount t = rv_amount r"
    using reversal_rows_cases [OF inv r(1)] by (auto simp: takes_def)
  fix t show "\<not> claimable t r" using r(3) by (simp add: claimable_def)
next
  fix n tx md now
  show "fst (complete_wallet_topup_reversal_from_provider_event db n r tx md now) = db"
    using r(3) by (simp add: complete_wallet_topup_reversal_from_provider_event_def)
next
  fix env :: pay_env and n u v action nt owner now
  have inv: "rev_inv db" and li: "ledger_inv db" using rev_history_safe [OF h] rev_invD(1) by blast+
  have g: "get_reversal db (rv_id r) = Some r"
    unfolding get_reversal_def using r(1) rev_invD(2) [OF inv] by (rule first_row_unique)
  let ?c = "c\<lparr>fc_assigned_to_user_id := Some u\<rparr>"
  have "ledger_inv (put_case ?c db)" using other_step_safe put_other_step(1) [OF li] by (auto simp: other_step_def)
  moreover have "get_reversal (put_case ?c db) (rv_id r) = Some r" using g by (simp add: get_reversal_def put_case_def)
  moreover have "w \<in> set (wallets (put_case ?c db))" using w(1) by (simp add: put_case_def)
  ultimately have "\<exists>e. apply_action env (put_case ?c db) n ?c u action (strip nt) owner now = (put_case ?c db, Inl e)"
    using c(2,3) r(2) w(2,3) by (intro merchant_action_refused [where r = r and w = w]) simp_all
  then show "\<exists>e. snd (resolve_case env db n (fc_id c) u v action nt owner now) = Inl e"
    using locked_case_row [OF rows c(1), of n] c(4) by (auto simp: resolve_case_def verify_version_def Let_def)
  then show "commit (\<lambda>db. resolve_case env db n (fc_id c) u v action nt owner now) db = db"
    by (auto simp: commit_def get_db_session_def split: prod.splits sum.splits)
qed

definition review_env :: pay_env where
  "review_env = sample_pay_env\<lparr>env_provider := (\<lambda>n name. Inr (sample_provider\<lparr>provider_refund := (\<lambda>_. Inl PaymentIntegrityError)\<rparr>))\<rparr>"

definition review_reversal :: wallet_topup_reversal where
  "review_reversal = processing_reversal\<lparr>rv_status := WalletTopUpReversalStatus.MANUAL_REVIEW, rv_next_attempt_at := None,
     rv_last_error_code := Some ''PaymentIntegrityError'', rv_last_error_detail := Some []\<rparr>"

definition review_case :: financial_resolution_case where
  "review_case = new_case 105 7 (source_key_for_reversal 103) ''PaymentIntegrityError'' ''HIGH'' (Some 100) (Some 101) (Some 103) None
     [(''origin'', JStr ''MERCHANT_REQUEST''), (''last_error_code'', JStr ''PaymentIntegrityError''), (''last_error_detail'', JStr [])]"

definition review_shop :: pay_db where
  "review_shop = processing_shop\<lparr>topup_reversals := [review_reversal], resolution_cases := [review_case], next_id := 106\<rparr>"

lemma processing_shop_rows [simp]:
  "resolution_cases processing_shop = []" "next_id processing_shop = 105" "wallets processing_shop = [topup_wallet\<lparr>w_balance := 0\<rparr>]"
  "rv_wallet_id processing_reversal = 101" "w_id topup_wallet = 101" "w_is_active topup_wallet" "\<not> is_external processing_reversal"
  by (simp_all add: processing_shop_def reserved_shop_def topup_shop_def empty_shop_def processing_reversal_def topup_wallet_def)

lemma reviewed: "process_claimed worker review_env processing_shop 103 21 = (review_shop, Inr ())"
proof -
  have p: "process_wallet_topup_reversal review_env processing_shop 7 103 21 = (processing_shop, Inl PaymentIntegrityError)"
    by (simp add: process_wallet_topup_reversal_def review_env_def)
  have m: "env_message review_env e = []" for e by (simp add: review_env_def sample_pay_env_def)
  have o: "dict_get (rv_metadata_json processing_reversal) ''origin'' x = x" for x
    by (simp add: processing_reversal_def reserved_reversal_def requested_reversal_def dict_get_def)
  show ?thesis
    by (simp add: process_claimed_def p m needs_review_def uncertain_outcome_def mark_manual_review_def ensure_case_for_reversal_def
        find_case_def scalar_one_or_none_def add_case_def flush_case_def violates_def severity_of_def json_opt_def o new_case_def
        review_shop_def review_reversal_def review_case_def put_reversal_def put_row_def Let_def)
qed

theorem merchant_review_is_stuck_witness:
  "rev_history review_shop \<and> (\<forall>action. \<exists>e. snd (resolve_case review_env review_shop 7 105 9 1 action ''customer asked for it'' True 30) = Inl e)"
proof -
  have h: "rev_history review_shop" using rev_history.attempt [OF processing_shop_history, of _ review_env 103 21] by (simp add: reviewed)
  have "case_rows review_shop" by (simp add: case_rows_def review_shop_def review_case_def new_case_def)
  moreover have "review_reversal \<in> set (topup_reversals review_shop)" "\<not> is_external review_reversal"
    "rv_status review_reversal = WalletTopUpReversalStatus.MANUAL_REVIEW" "review_case \<in> set (resolution_cases review_shop)"
    "fc_reversal_id review_case = Some (rv_id review_reversal)" "fc_wallet_id review_case = Some (rv_wallet_id review_reversal)"
    "fc_status review_case \<noteq> RESOLVED" "topup_wallet\<lparr>w_balance := 0\<rparr> \<in> set (wallets review_shop)" "fc_id review_case = 105"
    "w_id (topup_wallet\<lparr>w_balance := 0\<rparr>) = rv_wallet_id review_reversal" "w_is_active (topup_wallet\<lparr>w_balance := 0\<rparr>)"
    by (simp_all add: review_shop_def review_reversal_def) (simp_all add: review_case_def new_case_def)
  ultimately show ?thesis using merchant_review_is_stuck [OF h, of review_reversal review_case "topup_wallet\<lparr>w_balance := 0\<rparr>"] h by auto
qed

end
