(* ===== verification/Shop_Store.thy ===== *)
theory Shop_Store
  imports Payment_Properties
begin

text \<open>
  The rows of the shop: catalogue and orders (\<open>packages/commerce/models.py\<close>), prices
  (\<open>packages/commerce/economics_models.py\<close>), suppliers (\<open>packages/providers/models.py\<close>), fulfilment
  (\<open>packages/fulfillment/models.py\<close>), customer care (\<open>packages/operations/models.py\<close>) and the tenant side
  (\<open>packages/tenants/models.py\<close>, \<open>packages/telegram/models.py\<close>). \<open>shop_db\<close> extends the store of the payment
  service, so the operations of the ledger work on it unchanged. The mixin columns \<open>created_at\<close> and
  \<open>updated_at\<close> are kept only where an operation reads them.

  Two of its fields are not tables but effects on the outside, in the order they happened:
  \<open>dispatched\<close> holds the purchase requests sent to suppliers, \<open>notices\<close> the notifications sent to customers.
\<close>

section \<open>Catalogue\<close>

record tenant =
  tn_id :: uuid
  tn_name :: str
  tn_slug :: str
  tn_is_active :: bool
  tn_settings :: dict
  tn_deleted_at :: "timestamp option"

record product =
  p_id :: uuid
  p_tenant_id :: uuid
  p_category_id :: "uuid option"
  p_sort_order :: int
  p_title :: str
  p_description :: "str option"
  p_is_active :: bool
  p_metadata_json :: dict
  p_deleted_at :: "timestamp option"

record product_variant =
  v_id :: uuid
  v_product_id :: uuid
  v_sku :: str
  v_title :: str
  v_price :: decimal
  v_currency :: str
  v_stock_quantity :: int
  v_is_active :: bool
  v_attributes :: dict
  v_deleted_at :: "timestamp option"

record order_item =
  oi_id :: uuid
  oi_order_id :: uuid
  oi_product_variant_id :: uuid
  oi_sale_terms :: dict
  oi_quantity :: int
  oi_unit_price :: decimal
  oi_total_price :: decimal

section \<open>Prices\<close>

datatype PricingScope = GLOBAL | CATEGORY | PRODUCT | VARIANT

datatype MarkupMode = FIXED | PERCENT | MIXED

record pricing_tier =
  ti_id :: uuid
  ti_tenant_id :: uuid
  ti_code :: str
  ti_display_name :: str
  ti_priority :: int
  ti_is_default :: bool
  ti_is_active :: bool

record user_pricing_tier =
  ut_id :: uuid
  ut_tenant_id :: uuid
  ut_user_id :: uuid
  ut_tier_id :: uuid

record pricing_rule =
  ru_id :: uuid
  ru_tenant_id :: uuid
  ru_name :: str
  ru_scope :: PricingScope
  ru_category_id :: "uuid option"
  ru_product_id :: "uuid option"
  ru_product_variant_id :: "uuid option"
  ru_tier_id :: "uuid option"
  ru_markup_mode :: MarkupMode
  ru_markup_percent :: decimal
  ru_markup_fixed :: decimal
  ru_minimum_margin :: decimal
  ru_rounding_increment :: decimal
  ru_priority :: int
  ru_is_active :: bool

record commerce_price_quote =
  cq_id :: uuid
  cq_tenant_id :: uuid
  cq_user_id :: uuid
  cq_product_variant_id :: uuid
  cq_provider_offer_snapshot_id :: "uuid option"
  cq_pricing_rule_id :: "uuid option"
  cq_pricing_tier_id :: "uuid option"
  cq_supplier_cost :: "decimal option"
  cq_supplier_currency :: "str option"
  cq_sell_price :: decimal
  cq_currency :: str
  cq_quote_fingerprint :: str
  cq_expires_at :: timestamp

record order_item_economics =
  ec_id :: uuid
  ec_tenant_id :: uuid
  ec_order_id :: uuid
  ec_order_item_id :: uuid
  ec_bot_id :: "uuid option"
  ec_price_quote_id :: "uuid option"
  ec_pricing_tier_id :: "uuid option"
  ec_pricing_rule_id :: "uuid option"
  ec_provider_id :: "uuid option"
  ec_sale_amount :: decimal
  ec_sale_currency :: str
  ec_estimated_supplier_cost :: "decimal option"
  ec_estimated_cost_currency :: "str option"
  ec_actual_supplier_cost :: "decimal option"
  ec_actual_cost_currency :: "str option"
  ec_gross_profit :: "decimal option"
  ec_attributed_at :: "timestamp option"

section \<open>Suppliers\<close>

datatype ProviderCategory = NUMBER | ACCOUNT | GIFT | DIGITAL_PRODUCT | SERVICE | OTHER

datatype ProviderHealthStatus = HEALTHY | DEGRADED | UNAVAILABLE | UNKNOWN

datatype ProviderRoutingStrategy = PRIORITY | LOWEST_COST | AVAILABILITY | HEALTHIEST | WEIGHTED | MANUAL

record provider =
  pr_id :: uuid
  pr_tenant_id :: uuid
  pr_name :: str
  pr_slug :: str
  pr_provider_type :: str
  pr_category :: ProviderCategory
  pr_is_enabled :: bool
  pr_priority :: int
  pr_health_status :: ProviderHealthStatus
  pr_consecutive_failures :: int
  pr_last_health_check_at :: "timestamp option"
  pr_last_health_latency_ms :: "decimal option"
  pr_last_health_message :: "str option"
  pr_metadata_json :: dict

record provider_credential =
  cd_id :: uuid
  cd_tenant_id :: uuid
  cd_provider_id :: uuid
  cd_credential_type :: str
  cd_secret_ref :: str

record provider_product_mapping =
  mp_id :: uuid
  mp_tenant_id :: uuid
  mp_provider_id :: uuid
  mp_product_id :: uuid
  mp_product_variant_id :: "uuid option"
  mp_external_product_id :: str
  mp_is_enabled :: bool
  mp_cost_price :: decimal
  mp_cost_currency :: str
  mp_priority_override :: "int option"
  mp_provider_metadata :: dict

record provider_routing_policy =
  rp_id :: uuid
  rp_tenant_id :: uuid
  rp_product_id :: uuid
  rp_product_variant_id :: "uuid option"
  rp_strategy :: ProviderRoutingStrategy
  rp_preferred_provider_id :: "uuid option"
  rp_failover_enabled :: bool
  rp_weights_json :: dict

record provider_offer_snapshot =
  of_id :: uuid
  of_tenant_id :: uuid
  of_provider_id :: uuid
  of_mapping_id :: uuid
  of_product_id :: uuid
  of_product_variant_id :: "uuid option"
  of_external_product_id :: str
  of_display_name :: "str option"
  of_cost_amount :: decimal
  of_cost_currency :: str
  of_is_available :: bool
  of_stock_quantity :: "int option"
  of_min_quantity :: int
  of_max_quantity :: int
  of_observed_at :: timestamp
  of_expires_at :: timestamp
  of_last_error_at :: "timestamp option"
  of_last_error_code :: "str option"

section \<open>Fulfilment\<close>

datatype FulfillmentStatus = PENDING | PROCESSING | SUCCEEDED | RETRYING | UNKNOWN | FAILED | CANCELLED

record fulfillment_attempt =
  fa_id :: uuid
  fa_created_at :: timestamp
  fa_tenant_id :: uuid
  fa_order_id :: uuid
  fa_order_item_id :: "uuid option"
  fa_provider_id :: "uuid option"
  fa_attempt_number :: int
  fa_idempotency_key :: str
  fa_status :: FulfillmentStatus
  fa_external_order_id :: "str option"
  fa_cost_amount :: decimal
  fa_cost_currency :: str
  fa_request_payload :: dict
  fa_response_payload :: json
  fa_error_classification :: "str option"
  fa_started_at :: timestamp
  fa_completed_at :: "timestamp option"

datatype FulfillmentJobStatus = QUEUED | RUNNING | COMPLETED | FAILED | DEAD_LETTER

record fulfillment_job_record =
  fj_id :: uuid
  fj_created_at :: timestamp
  fj_tenant_id :: uuid
  fj_order_id :: uuid
  fj_recipient :: str
  fj_attempt_number :: int
  fj_status :: FulfillmentJobStatus
  fj_payload :: dict
  fj_last_error :: "str option"
  fj_failure_classification :: "str option"
  fj_manual_requeue_count :: int
  fj_last_requeued_at :: "timestamp option"
  fj_last_requeued_by :: "uuid option"
  fj_locked_at :: "timestamp option"
  fj_completed_at :: "timestamp option"

text \<open>\<open>ProviderOrderRequest\<close> of \<open>packages/providers/interface.py\<close>.\<close>

record provider_order_request =
  oq_external_product_id :: str
  oq_quantity :: int
  oq_recipient :: str
  oq_idempotency_key :: str
  oq_parameters :: dict

section \<open>Customer care\<close>

record coupon =
  cp_id :: uuid
  cp_tenant_id :: uuid
  cp_code :: str
  cp_percent :: decimal
  cp_currency :: str
  cp_minimum_amount :: decimal
  cp_max_uses :: int
  cp_used_count :: int
  cp_expires_at :: timestamp
  cp_is_active :: bool

record coupon_redemption =
  cn_id :: uuid
  cn_tenant_id :: uuid
  cn_coupon_id :: uuid
  cn_order_id :: uuid
  cn_user_id :: uuid
  cn_code :: str
  cn_discount_amount :: decimal
  cn_currency :: str

record support_case =
  sc_id :: uuid
  sc_tenant_id :: uuid
  sc_user_id :: uuid
  sc_order_id :: "uuid option"
  sc_warranty_item_id :: "uuid option"
  sc_kind :: str
  sc_subject :: str
  sc_status :: str
  sc_version :: int
  sc_warranty_terms :: "json option"
  sc_resolution :: "str option"

record support_message =
  sm_id :: uuid
  sm_tenant_id :: uuid
  sm_case_id :: uuid
  sm_author_id :: uuid
  sm_is_staff :: bool
  sm_body :: str

record announcement =
  an_id :: uuid
  an_tenant_id :: uuid
  an_bot_id :: uuid
  an_title :: str
  an_body :: str
  an_audience :: str
  an_status :: str
  an_queued_at :: "timestamp option"

record announcement_delivery =
  ad_id :: uuid
  ad_tenant_id :: uuid
  ad_announcement_id :: uuid
  ad_binding_id :: uuid
  ad_status :: str
  ad_next_attempt_at :: timestamp
  ad_error_code :: "str option"
  ad_telegram_message_id :: "int option"

section \<open>Tenants and bots\<close>

datatype Role = OWNER | ADMIN | MANAGER | STAFF | CUSTOMER

record membership =
  me_id :: uuid
  me_tenant_id :: uuid
  me_user_id :: uuid
  me_role :: Role
  me_permissions :: "str list"
  me_is_active :: bool

record audit_log =
  au_id :: uuid
  au_tenant_id :: uuid
  au_user_id :: "uuid option"
  au_action :: str
  au_resource_type :: str
  au_resource_id :: str
  au_details :: dict
  au_ip_address :: "str option"

record bot_row =
  bt_id :: uuid
  bt_tenant_id :: uuid
  bt_telegram_bot_id :: int
  bt_username :: "str option"
  bt_display_name :: str
  bt_token_secret_ref :: str
  bt_credential_status :: str
  bt_credential_version :: int
  bt_credential_verified_at :: "timestamp option"
  bt_credential_rotated_at :: "timestamp option"
  bt_credential_last_error_type :: "str option"
  bt_runtime_revision :: int
  bt_release_channel :: str
  bt_is_enabled :: bool
  bt_config :: json
  bt_deleted_at :: "timestamp option"

record tenant_telegram_user =
  tu_id :: uuid
  tu_tenant_id :: uuid
  tu_bot_id :: uuid
  tu_telegram_user_id :: int
  tu_user_id :: uuid
  tu_telegram_username :: "str option"
  tu_first_name :: "str option"
  tu_last_name :: "str option"
  tu_language_code :: "str option"
  tu_is_blocked :: bool

datatype NotificationEventType =
    ORDER_CREATED
  | PAYMENT_CONFIRMED
  | FULFILLMENT_STARTED
  | FULFILLMENT_SUCCEEDED
  | FULFILLMENT_FAILED
  | ORDER_REFUNDED

text \<open>\<open>NotificationPayload\<close> without the message text and its metadata.\<close>

record notification_payload =
  np_event_type :: NotificationEventType
  np_tenant_id :: uuid
  np_recipient :: str
  np_order_id :: uuid
  np_order_number :: str

section \<open>The store\<close>

record shop_db = pay_db +
  tenants :: "tenant list"
  products :: "product list"
  product_variants :: "product_variant list"
  order_items :: "order_item list"
  pricing_tiers :: "pricing_tier list"
  user_pricing_tiers :: "user_pricing_tier list"
  pricing_rules :: "pricing_rule list"
  price_quotes :: "commerce_price_quote list"
  item_economics :: "order_item_economics list"
  providers :: "provider list"
  provider_credentials :: "provider_credential list"
  product_mappings :: "provider_product_mapping list"
  routing_policies :: "provider_routing_policy list"
  offer_snapshots :: "provider_offer_snapshot list"
  fulfillment_attempts :: "fulfillment_attempt list"
  fulfillment_jobs :: "fulfillment_job_record list"
  coupons :: "coupon list"
  coupon_redemptions :: "coupon_redemption list"
  support_cases :: "support_case list"
  support_messages :: "support_message list"
  announcements :: "announcement list"
  announcement_deliveries :: "announcement_delivery list"
  memberships :: "membership list"
  audit_logs :: "audit_log list"
  bots :: "bot_row list"
  telegram_users :: "tenant_telegram_user list"
  dispatched :: "(uuid \<times> provider_order_request) list"
  notices :: "notification_payload list"

text \<open>\<open>session.get(Model, id)\<close>\<close>

definition get_row :: "('r \<Rightarrow> uuid) \<Rightarrow> uuid \<Rightarrow> 'r list \<Rightarrow> 'r option" where
  "get_row key i rs = first_row (\<lambda>r. key r = i) rs"

definition notify :: "notification_payload \<Rightarrow> 'x shop_db_scheme \<Rightarrow> 'x shop_db_scheme" where
  "notify payload db = db\<lparr>notices := notices db @ [payload]\<rparr>"

definition put_attempt :: "fulfillment_attempt \<Rightarrow> 'x shop_db_scheme \<Rightarrow> 'x shop_db_scheme" where
  "put_attempt a db = db\<lparr>fulfillment_attempts := put_row fa_id a (fulfillment_attempts db)\<rparr>"

definition put_job :: "fulfillment_job_record \<Rightarrow> 'x shop_db_scheme \<Rightarrow> 'x shop_db_scheme" where
  "put_job j db = db\<lparr>fulfillment_jobs := put_row fj_id j (fulfillment_jobs db)\<rparr>"

definition put_provider :: "provider \<Rightarrow> 'x shop_db_scheme \<Rightarrow> 'x shop_db_scheme" where
  "put_provider p db = db\<lparr>providers := put_row pr_id p (providers db)\<rparr>"

lemma get_row_Some: "get_row key i rs = Some r \<Longrightarrow> r \<in> set rs \<and> key r = i"
  unfolding get_row_def by (drule first_row_SomeD) simp

lemma get_row_None: "get_row key i rs = None \<longleftrightarrow> i \<notin> key ` set rs"
  by (auto simp: get_row_def first_row_None_iff)

lemma get_row_put_row:
  assumes "get_row key i rs = Some r" and "key r' = i"
  shows "get_row key i (put_row key r' rs) = Some r'"
  using assms unfolding get_row_def put_row_def by (induction rs) (auto split: if_splits)

lemma get_row_put_other: "key r \<noteq> i \<Longrightarrow> get_row key i (put_row key r rs) = get_row key i rs"
  unfolding get_row_def put_row_def by (induction rs) auto

lemma get_row_in:
  assumes "distinct (map key rs)" and "r \<in> set rs"
  shows "get_row key (key r) rs = Some r"
  using assms unfolding get_row_def by (induction rs) auto

lemma scalar_get_row:
  assumes "distinct (map key rs)"
  shows "scalar_one_or_none (\<lambda>r. key r = i) rs = Inr (get_row key i rs)"
  unfolding get_row_def using assms by (rule scalar_one_or_none_unique) simp

lemma shop_tables_eq:
  assumes "ledger_db.more db' = ledger_db.more (db :: 'x shop_db_scheme)"
  shows "order_items db' = order_items db" "item_economics db' = item_economics db"
    "fulfillment_attempts db' = fulfillment_attempts db" "fulfillment_jobs db' = fulfillment_jobs db"
    "dispatched db' = dispatched db" "notices db' = notices db" "providers db' = providers db"
    "product_variants db' = product_variants db" "products db' = products db" "bots db' = bots db"
    "coupons db' = coupons db" "coupon_redemptions db' = coupon_redemptions db" "price_quotes db' = price_quotes db"
  using pay_tables_eq(17) [OF assms] by (cases db; cases db'; simp)+

text \<open>A shop with no rows, which the samples of the later theories fill.\<close>

definition blank_shop :: shop_db where
  "blank_shop = \<lparr>next_id = 100, wallets = [], ledger = [], holds = [], orders = [], payment_intents = [],
     payment_transactions = [], topup_reversals = [], reconciliation_events = [], resolution_cases = [],
     payment_methods = [], payment_quotes = [], payment_observations = [], webhook_events = [],
     provider_configs = [], users = [], asset_wallets = [], asset_ledger = [], fx_policies = [],
     flexible_deposits = [], tenants = [], products = [], product_variants = [], order_items = [],
     pricing_tiers = [], user_pricing_tiers = [], pricing_rules = [], price_quotes = [], item_economics = [],
     providers = [], provider_credentials = [], product_mappings = [], routing_policies = [],
     offer_snapshots = [], fulfillment_attempts = [], fulfillment_jobs = [], coupons = [],
     coupon_redemptions = [], support_cases = [], support_messages = [], announcements = [],
     announcement_deliveries = [], memberships = [], audit_logs = [], bots = [], telegram_users = [],
     dispatched = [], notices = []\<rparr>"

end
