(* ===== verification/Profiles.thy ===== *)
theory Profiles
  imports Shop_Store
begin

text \<open>
  \<open>packages/factory/business_profiles.py\<close>: what a bot sells and from whom. The profile is stored as JSON in the
  bot's configuration; it is parsed strictly, a stored profile that does not parse denies every
  supplier and payment method, and the profile's public form parses back to the profile.
\<close>

datatype BotBusinessType = GENERAL | RESELLER | NUMBER_SMS | ACCOUNT | GIFT_CARD | DIGITAL_PRODUCT | HYBRID

record bot_business_profile =
  bp_business_type :: BotBusinessType
  bp_provider_ids :: "uuid list"
  bp_payment_method_ids :: "uuid list"
  bp_routing_strategy :: "ProviderRoutingStrategy option"
  bp_preferred_provider_id :: "uuid option"
  bp_default_pricing_tier_id :: "uuid option"
  bp_allow_flexible_auto_credit :: bool

definition default_profile :: bot_business_profile where
  "default_profile =
     \<lparr>bp_business_type = BotBusinessType.GENERAL, bp_provider_ids = [], bp_payment_method_ids = [],
      bp_routing_strategy = None, bp_preferred_provider_id = None, bp_default_pricing_tier_id = None,
      bp_allow_flexible_auto_credit = True\<rparr>"

fun business_type_value :: "BotBusinessType \<Rightarrow> str" where
  "business_type_value BotBusinessType.GENERAL = ''GENERAL''"
| "business_type_value BotBusinessType.RESELLER = ''RESELLER''"
| "business_type_value BotBusinessType.NUMBER_SMS = ''NUMBER_SMS''"
| "business_type_value BotBusinessType.ACCOUNT = ''ACCOUNT''"
| "business_type_value BotBusinessType.GIFT_CARD = ''GIFT_CARD''"
| "business_type_value BotBusinessType.DIGITAL_PRODUCT = ''DIGITAL_PRODUCT''"
| "business_type_value BotBusinessType.HYBRID = ''HYBRID''"

fun routing_strategy_value :: "ProviderRoutingStrategy \<Rightarrow> str" where
  "routing_strategy_value ProviderRoutingStrategy.PRIORITY = ''PRIORITY''"
| "routing_strategy_value ProviderRoutingStrategy.LOWEST_COST = ''LOWEST_COST''"
| "routing_strategy_value ProviderRoutingStrategy.AVAILABILITY = ''AVAILABILITY''"
| "routing_strategy_value ProviderRoutingStrategy.HEALTHIEST = ''HEALTHIEST''"
| "routing_strategy_value ProviderRoutingStrategy.WEIGHTED = ''WEIGHTED''"
| "routing_strategy_value ProviderRoutingStrategy.MANUAL = ''MANUAL''"

text \<open>\<open>Enum(value)\<close>: the member with that value, or \<open>ValueError\<close>.\<close>

definition enum_member :: "('e \<Rightarrow> str) \<Rightarrow> 'e list \<Rightarrow> str \<Rightarrow> 'e res" where
  "enum_member val members s = (case find (\<lambda>m. val m = s) members of None \<Rightarrow> Inl ValueError | Some m \<Rightarrow> Inr m)"

definition business_types :: "BotBusinessType list" where
  "business_types = [BotBusinessType.GENERAL, BotBusinessType.RESELLER, BotBusinessType.NUMBER_SMS,
     BotBusinessType.ACCOUNT, BotBusinessType.GIFT_CARD, BotBusinessType.DIGITAL_PRODUCT, BotBusinessType.HYBRID]"

definition routing_strategies :: "ProviderRoutingStrategy list" where
  "routing_strategies = [PRIORITY, LOWEST_COST, AVAILABILITY, HEALTHIEST, WEIGHTED, MANUAL]"

definition provider_categories :: "ProviderCategory list" where
  "provider_categories = [NUMBER, ProviderCategory.ACCOUNT, GIFT, ProviderCategory.DIGITAL_PRODUCT, SERVICE, OTHER]"

definition public_payload :: "bot_business_profile \<Rightarrow> dict" where
  "public_payload profile =
     [(''business_type'', JStr (business_type_value (bp_business_type profile))),
      (''provider_ids'', JList (map (\<lambda>i. JStr (str_uuid i)) (bp_provider_ids profile))),
      (''payment_method_ids'', JList (map (\<lambda>i. JStr (str_uuid i)) (bp_payment_method_ids profile))),
      (''routing_strategy'', json_opt (map_option routing_strategy_value (bp_routing_strategy profile))),
      (''preferred_provider_id'', json_opt (map_option str_uuid (bp_preferred_provider_id profile))),
      (''default_pricing_tier_id'', json_opt (map_option str_uuid (bp_default_pricing_tier_id profile))),
      (''allow_flexible_auto_credit'', JBool (bp_allow_flexible_auto_credit profile))]"

fun allowed_provider_categories :: "BotBusinessType \<Rightarrow> ProviderCategory list" where
  "allowed_provider_categories BotBusinessType.GENERAL = provider_categories"
| "allowed_provider_categories BotBusinessType.RESELLER = provider_categories"
| "allowed_provider_categories BotBusinessType.HYBRID = provider_categories"
| "allowed_provider_categories BotBusinessType.NUMBER_SMS = [NUMBER]"
| "allowed_provider_categories BotBusinessType.ACCOUNT = [ProviderCategory.ACCOUNT]"
| "allowed_provider_categories BotBusinessType.GIFT_CARD = [GIFT, ProviderCategory.DIGITAL_PRODUCT]"
| "allowed_provider_categories BotBusinessType.DIGITAL_PRODUCT = [ProviderCategory.DIGITAL_PRODUCT, GIFT, SERVICE]"

section \<open>Parsing\<close>

text \<open>\<open>value in (None, "")\<close>\<close>

definition json_blank :: "json \<Rightarrow> bool" where
  "json_blank j \<longleftrightarrow> j = JNull \<or> j = JStr []"

definition parse_uuid_json :: "'e deposit_env_scheme \<Rightarrow> json \<Rightarrow> uuid res" where
  "parse_uuid_json env raw = (case parse_uuid (py_str env raw) of None \<Rightarrow> Inl ValueError | Some u \<Rightarrow> Inr u)"

fun uuid_list_loop :: "'e deposit_env_scheme \<Rightarrow> json list \<Rightarrow> uuid list \<Rightarrow> uuid list res" where
  "uuid_list_loop env [] result = Inr result"
| "uuid_list_loop env (raw # rest) result =
     res_bind (parse_uuid_json env raw) (\<lambda>parsed.
       uuid_list_loop env rest (if parsed \<in> set result then result else result @ [parsed]))"

definition uuid_list :: "'e deposit_env_scheme \<Rightarrow> json \<Rightarrow> uuid list res" where
  "uuid_list env v =
     (if json_blank v then Inr []
      else case v of
        JList xs \<Rightarrow> res_bind (uuid_list_loop env xs []) (\<lambda>result. if 100 < length result then Inl ValueError else Inr result)
      | _ \<Rightarrow> Inl ValueError)"

definition optional_uuid :: "'e deposit_env_scheme \<Rightarrow> json \<Rightarrow> uuid option res" where
  "optional_uuid env v = (if json_blank v then Inr None else res_bind (parse_uuid_json env v) (\<lambda>u. Inr (Some u)))"

definition parse_routing_strategy :: "'e deposit_env_scheme \<Rightarrow> json \<Rightarrow> ProviderRoutingStrategy option res" where
  "parse_routing_strategy env raw_routing =
     (if json_blank raw_routing then Inr None
      else res_bind (enum_member routing_strategy_value routing_strategies (upper (strip (py_str env raw_routing))))
        (\<lambda>s. Inr (Some s)))"

definition profile_fields :: "str list" where
  "profile_fields = [''business_type'', ''provider_ids'', ''payment_method_ids'', ''routing_strategy'',
     ''preferred_provider_id'', ''default_pricing_tier_id'', ''allow_flexible_auto_credit'']"

definition parse_profile_dict :: "'e deposit_env_scheme \<Rightarrow> dict \<Rightarrow> bot_business_profile res" where
  "parse_profile_dict env d =
     (let field = (\<lambda>k. dict_get d k JNull) in
      if \<not> list_all (\<lambda>k. k \<in> set profile_fields) (map fst d) then Inl ValueError
      else
        let raw_type = field ''business_type'' in
        res_bind (enum_member business_type_value business_types
            (upper (strip (if json_truthy raw_type then py_str env raw_type else ''GENERAL'')))) (\<lambda>business_type.
        res_bind (parse_routing_strategy env (field ''routing_strategy'')) (\<lambda>routing_strategy.
        case dict_get d ''allow_flexible_auto_credit'' (JBool False) of
          JBool allow_auto_credit \<Rightarrow>
            res_bind (uuid_list env (field ''provider_ids'')) (\<lambda>provider_ids.
            res_bind (uuid_list env (field ''payment_method_ids'')) (\<lambda>payment_method_ids.
            res_bind (optional_uuid env (field ''preferred_provider_id'')) (\<lambda>preferred_provider_id.
            res_bind (optional_uuid env (field ''default_pricing_tier_id'')) (\<lambda>default_pricing_tier_id.
            let profile = \<lparr>bp_business_type = business_type, bp_provider_ids = provider_ids,
                  bp_payment_method_ids = payment_method_ids, bp_routing_strategy = routing_strategy,
                  bp_preferred_provider_id = preferred_provider_id,
                  bp_default_pricing_tier_id = default_pricing_tier_id,
                  bp_allow_flexible_auto_credit = allow_auto_credit\<rparr>
            in if (case preferred_provider_id of None \<Rightarrow> False | Some p \<Rightarrow> p \<notin> set provider_ids) then Inl ValueError
               else if routing_strategy = Some MANUAL \<and> preferred_provider_id = None then Inl ValueError
               else Inr profile))))
        | _ \<Rightarrow> Inl ValueError)))"

definition parse_business_profile :: "'e deposit_env_scheme \<Rightarrow> json \<Rightarrow> bot_business_profile res" where
  "parse_business_profile env v =
     (case v of JNull \<Rightarrow> Inr default_profile | JObj d \<Rightarrow> parse_profile_dict env d | _ \<Rightarrow> Inl ValueError)"

definition deny_profile :: bot_business_profile where
  "deny_profile = default_profile\<lparr>bp_provider_ids := [0], bp_payment_method_ids := [0], bp_routing_strategy := None,
     bp_allow_flexible_auto_credit := False\<rparr>"

definition business_profile_from_config :: "'e deposit_env_scheme \<Rightarrow> json \<Rightarrow> bot_business_profile" where
  "business_profile_from_config env config =
     (case config of
        JObj d \<Rightarrow>
          (case parse_business_profile env (dict_get d ''_business'' JNull) of
             Inr profile \<Rightarrow> profile
           | Inl _ \<Rightarrow> deny_profile)
      | _ \<Rightarrow> default_profile)"

section \<open>Validation for a tenant\<close>

definition validate_business_profile_for_tenant ::
  "'x shop_db_scheme \<Rightarrow> uuid \<Rightarrow> bot_business_profile \<Rightarrow> bot_business_profile res" where
  "validate_business_profile_for_tenant db tenant_id profile =
     (let selected = filter (\<lambda>p. pr_tenant_id p = tenant_id \<and> pr_id p \<in> set (bp_provider_ids profile)) (providers db);
          methods = filter (\<lambda>m. pm_tenant_id m = tenant_id \<and> pm_id m \<in> set (bp_payment_method_ids profile)) (payment_methods db)
      in if bp_provider_ids profile \<noteq> [] \<and> set (map pr_id selected) \<noteq> set (bp_provider_ids profile) then Inl ValueError
         else if bp_provider_ids profile \<noteq> [] \<and>
                 \<not> list_all (\<lambda>p. pr_category p \<in> set (allowed_provider_categories (bp_business_type profile))) selected
         then Inl ValueError
         else if bp_payment_method_ids profile \<noteq> [] \<and> set (map pm_id methods) \<noteq> set (bp_payment_method_ids profile)
         then Inl ValueError
         else case bp_default_pricing_tier_id profile of
           None \<Rightarrow> Inr profile
         | Some tier_id \<Rightarrow>
             (case first_row (\<lambda>t. ti_id t = tier_id \<and> ti_tenant_id t = tenant_id \<and> ti_is_active t) (pricing_tiers db) of
                None \<Rightarrow> Inl ValueError
              | Some _ \<Rightarrow> Inr profile))"

section \<open>What a parsed profile satisfies\<close>

definition profile_wf :: "bot_business_profile \<Rightarrow> bool" where
  "profile_wf p \<longleftrightarrow>
     distinct (bp_provider_ids p) \<and> length (bp_provider_ids p) \<le> 100 \<and>
     distinct (bp_payment_method_ids p) \<and> length (bp_payment_method_ids p) \<le> 100 \<and>
     (case bp_preferred_provider_id p of None \<Rightarrow> bp_routing_strategy p \<noteq> Some MANUAL | Some q \<Rightarrow> q \<in> set (bp_provider_ids p))"

lemma default_profile_wf: "profile_wf default_profile"
  by (simp add: profile_wf_def default_profile_def)

lemma uuid_list_loop_distinct:
  "uuid_list_loop env xs acc = Inr ids \<Longrightarrow> distinct acc \<Longrightarrow> distinct ids"
proof (induction xs arbitrary: acc)
  case (Cons x xs)
  then show ?case by (auto simp: res_bind_Inr_iff split: if_splits)
qed simp

lemma uuid_list_InrD: "uuid_list env v = Inr ids \<Longrightarrow> distinct ids \<and> length ids \<le> 100"
  by (auto simp: uuid_list_def res_bind_Inr_iff not_less dest: uuid_list_loop_distinct
      split: if_splits json.splits)

lemma parse_profile_dict_wf: "parse_profile_dict env d = Inr p \<Longrightarrow> profile_wf p"
  by (cases "dict_get d ''allow_flexible_auto_credit'' (JBool False)")
    (auto simp: parse_profile_dict_def Let_def res_bind_Inr_iff profile_wf_def dest: uuid_list_InrD
      split: if_split_asm option.split_asm)

section \<open>The public form parses back\<close>

lemma business_type_value_parses:
  "enum_member business_type_value business_types (upper (strip (business_type_value t))) = Inr t"
  "business_type_value t \<noteq> []"
  by (cases t; simp add: enum_member_def business_types_def str_simps)+

lemma routing_strategy_value_parses:
  "enum_member routing_strategy_value routing_strategies (upper (strip (routing_strategy_value s))) = Inr s"
  "routing_strategy_value s \<noteq> []"
  by (cases s; simp add: enum_member_def routing_strategies_def str_simps)+

lemma uuid_list_loop_strings:
  "distinct (acc @ ids) \<Longrightarrow> uuid_list_loop env (map (\<lambda>i. JStr (str_uuid i)) ids) acc = Inr (acc @ ids)"
proof (induction ids arbitrary: acc)
  case (Cons i ids)
  then have "distinct ((acc @ [i]) @ ids)" and "i \<notin> set acc" by auto
  with Cons.IH [of "acc @ [i]"] show ?case by (simp add: parse_uuid_json_def py_str_def)
qed simp

lemma uuid_list_strings:
  "distinct ids \<Longrightarrow> length ids \<le> 100 \<Longrightarrow> uuid_list env (JList (map (\<lambda>i. JStr (str_uuid i)) ids)) = Inr ids"
  using uuid_list_loop_strings [of "[]" ids env] by (simp add: uuid_list_def json_blank_def)

lemma optional_uuid_string: "optional_uuid env (json_opt (map_option str_uuid i)) = Inr i"
  by (cases i) (simp_all add: optional_uuid_def json_blank_def json_opt_def parse_uuid_json_def py_str_def)

lemma parse_public_payload:
  assumes "profile_wf p"
  shows "parse_business_profile env (JObj (public_payload p)) = Inr p"
proof -
  have routing: "parse_routing_strategy env (json_opt (map_option routing_strategy_value s)) = Inr s" for s
    by (cases s) (simp_all add: parse_routing_strategy_def json_blank_def json_opt_def py_str_def routing_strategy_value_parses)
  show ?thesis
    using assms
    by (cases p)
      (auto simp: parse_business_profile_def parse_profile_dict_def public_payload_def profile_fields_def Let_def
        dict_get_def business_type_value_parses routing py_str_def [of env "JStr s" for s]
        uuid_list_strings optional_uuid_string profile_wf_def split: option.splits)
qed

text \<open>C32: A stored business profile is well formed. Whatever JSON a bot's configuration holds, the profile the
  program works with lists at most a hundred distinct suppliers and payment methods, a preferred
  supplier is one of the listed ones, and manual routing names one.\<close>

theorem business_profile_wf:
  shows "profile_wf (business_profile_from_config env config)"
proof -
  have deny: "profile_wf deny_profile"
    by (simp add: profile_wf_def deny_profile_def default_profile_def)
  have parsed: "profile_wf p" if "parse_business_profile env v = Inr p" for v p
    using that by (auto simp: parse_business_profile_def default_profile_wf dest: parse_profile_dict_wf split: json.splits)
  show ?thesis
    by (auto simp: business_profile_from_config_def deny default_profile_wf dest: parsed split: json.splits sum.splits)
qed

text \<open>C31: The public form of a profile parses back to the same profile: storing what \<open>public_payload\<close> shows of any
  parsed profile and parsing it again gives the profile that was parsed first.\<close>

theorem business_profile_roundtrip:
  assumes "parse_business_profile env v = Inr p"
  shows "parse_business_profile env (JObj (public_payload p)) = Inr p"
proof -
  have "profile_wf p"
    using assms by (auto simp: parse_business_profile_def default_profile_wf dest: parse_profile_dict_wf split: json.splits)
  then show ?thesis by (rule parse_public_payload)
qed

definition sample_profile_json :: json where
  "sample_profile_json = JObj [(''provider_ids'', JList [JStr ''b'', JStr ''a'', JStr ''b'']),
     (''routing_strategy'', JStr '' manual ''), (''preferred_provider_id'', JStr ''a'')]"

definition sample_profile :: bot_business_profile where
  "sample_profile = default_profile\<lparr>bp_provider_ids := [11, 10], bp_routing_strategy := Some MANUAL,
     bp_preferred_provider_id := Some 10, bp_allow_flexible_auto_credit := False\<rparr>"

definition plain_env :: deposit_env where
  "plain_env = \<lparr>env_provider = (\<lambda>_ _. Inl PaymentProviderError), env_sha256 = (\<lambda>s. s), env_str_decimal = (\<lambda>_. []),
     env_str_json = (\<lambda>_. []), env_message = (\<lambda>_. [])\<rparr>"

lemma sample_profile_parses: "parse_business_profile plain_env sample_profile_json = Inr sample_profile"
  by code_simp

theorem business_profile_roundtrip_witness:
  "parse_business_profile plain_env (JObj (public_payload sample_profile)) = Inr sample_profile"
  using business_profile_roundtrip [OF sample_profile_parses] .

end
