(* ===== verification/Pricing.thy ===== *)
theory Pricing
  imports Profiles
begin

text \<open>
  \<open>PricingService\<close> (\<open>packages/commerce/economics.py\<close>): which tier a customer has, which rule and which supplier
  offer decide a price, the price they give, the quote that records it, and the cost attributed to a
  sale after delivery. \<open>shop_env\<close> adds to the environment what the shop takes from libraries and from the secret
  store: \<open>json.dumps\<close> with sorted keys, \<open>float\<close> and \<open>int\<close> of a string, and the first eight bytes of a SHA-256 digest as
  a number.
\<close>

record shop_env = deposit_env +
  env_json_dumps :: "json \<Rightarrow> str"
  env_secret :: "str \<Rightarrow> str res"
  env_float :: "str \<Rightarrow> decimal option"
  env_int :: "str \<Rightarrow> int option"
  env_digest8 :: "str \<Rightarrow> nat"

section \<open>Queries\<close>

text \<open>\<open>order_by(...)\<close> with \<open>first()\<close>: a stable sort by the key, then the first row.\<close>

definition first_by :: "('r \<Rightarrow> 'k :: linorder) \<Rightarrow> 'r list \<Rightarrow> 'r option" where
  "first_by key rows = (case sort_key key rows of [] \<Rightarrow> None | r # _ \<Rightarrow> Some r)"

lemma first_by_SomeD:
  assumes "first_by key rows = Some r"
  shows "r \<in> set rows" and "\<And>x. x \<in> set rows \<Longrightarrow> key r \<le> key x"
proof -
  from assms obtain rest where sorted: "sort_key key rows = r # rest"
    by (auto simp: first_by_def split: list.splits)
  have rows: "set (r # rest) = set rows"
    by (metis sorted set_sort)
  then show "r \<in> set rows" by auto
  have "sorted (map key (r # rest))"
    using sorted_sort_key [of key rows] by (simp add: sorted)
  then show "\<And>x. x \<in> set rows \<Longrightarrow> key r \<le> key x"
    unfolding rows [symmetric] by auto
qed

lemma first_by_None_iff: "first_by key rows = None \<longleftrightarrow> rows = []"
  by (auto simp: first_by_def split: list.splits) (metis set_empty set_sort)+

section \<open>Tier, rule and offer\<close>

definition resolve_tier ::
  "'e deposit_env_scheme \<Rightarrow> 'x shop_db_scheme \<Rightarrow> uuid \<Rightarrow> uuid \<Rightarrow> uuid option \<Rightarrow> pricing_tier option" where
  "resolve_tier env db tenant_id user_id bot_id =
     (case first_row (\<lambda>t. ti_tenant_id t = tenant_id \<and> ti_is_active t \<and>
              list_ex (\<lambda>u. ut_tier_id u = ti_id t \<and> ut_tenant_id u = tenant_id \<and> ut_user_id u = user_id)
                (user_pricing_tiers db)) (pricing_tiers db) of
        Some assigned \<Rightarrow> Some assigned
      | None \<Rightarrow>
          let bot_tier =
            (case bot_id of
               None \<Rightarrow> None
             | Some b \<Rightarrow>
                 (case get_row bt_id b (bots db) of
                    None \<Rightarrow> None
                  | Some bot_record \<Rightarrow>
                      if bt_tenant_id bot_record = tenant_id \<and> bt_deleted_at bot_record = None
                      then case bp_default_pricing_tier_id (business_profile_from_config env (bt_config bot_record)) of
                          None \<Rightarrow> None
                        | Some tier_id \<Rightarrow>
                            first_row (\<lambda>t. ti_id t = tier_id \<and> ti_tenant_id t = tenant_id \<and> ti_is_active t) (pricing_tiers db)
                      else None))
          in case bot_tier of
               Some t \<Rightarrow> Some t
             | None \<Rightarrow> first_by (\<lambda>t. (ti_priority t, ti_id t))
                 (filter (\<lambda>t. ti_tenant_id t = tenant_id \<and> ti_is_active t \<and> ti_is_default t) (pricing_tiers db)))"

definition fresh_offers :: "'x shop_db_scheme \<Rightarrow> uuid \<Rightarrow> product_variant \<Rightarrow> timestamp \<Rightarrow> provider_offer_snapshot list" where
  "fresh_offers db tenant_id variant now =
     filter (\<lambda>s. of_tenant_id s = tenant_id \<and> of_product_id s = v_product_id variant \<and>
        (of_product_variant_id s = Some (v_id variant) \<or> of_product_variant_id s = None) \<and>
        of_is_available s \<and> of_expires_at s > now \<and> of_cost_currency s = v_currency variant) (offer_snapshots db)"

definition best_fresh_offer ::
  "'x shop_db_scheme \<Rightarrow> uuid \<Rightarrow> product_variant \<Rightarrow> timestamp \<Rightarrow> provider_offer_snapshot option" where
  "best_fresh_offer db tenant_id variant now =
     first_by (\<lambda>s. (of_cost_amount s, of_provider_id s)) (fresh_offers db tenant_id variant now)"

fun specificity :: "PricingScope \<Rightarrow> nat" where
  "specificity VARIANT = 0"
| "specificity PRODUCT = 1"
| "specificity CATEGORY = 2"
| "specificity GLOBAL = 3"

definition in_scope :: "pricing_rule \<Rightarrow> product_variant \<Rightarrow> product \<Rightarrow> bool" where
  "in_scope r variant pdt \<longleftrightarrow>
     (case ru_scope r of
        VARIANT \<Rightarrow> ru_product_variant_id r = Some (v_id variant)
      | PRODUCT \<Rightarrow> ru_product_id r = Some (p_id pdt)
      | CATEGORY \<Rightarrow> ru_category_id r = p_category_id pdt
      | GLOBAL \<Rightarrow> True)"

definition matching_rules ::
  "'x shop_db_scheme \<Rightarrow> uuid \<Rightarrow> product_variant \<Rightarrow> product \<Rightarrow> uuid option \<Rightarrow> pricing_rule list" where
  "matching_rules db tenant_id variant pdt tier_id =
     filter (\<lambda>r. ru_tenant_id r = tenant_id \<and> ru_is_active r \<and> (ru_tier_id r = tier_id \<or> ru_tier_id r = None) \<and>
        in_scope r variant pdt) (pricing_rules db)"

definition rule_order :: "pricing_rule \<Rightarrow> nat \<times> bool \<times> int \<times> uuid" where
  "rule_order r = (specificity (ru_scope r), ru_tier_id r = None, ru_priority r, ru_id r)"

definition resolve_rule ::
  "'x shop_db_scheme \<Rightarrow> uuid \<Rightarrow> product_variant \<Rightarrow> product \<Rightarrow> pricing_tier option \<Rightarrow> pricing_rule option" where
  "resolve_rule db tenant_id variant pdt tier =
     first_by rule_order (matching_rules db tenant_id variant pdt (map_option ti_id tier))"

section \<open>The price\<close>

definition round_up :: "decimal \<Rightarrow> decimal \<Rightarrow> decimal res" where
  "round_up amount increment =
     (if increment \<le> 0 then Inl ValueError else Inr (of_int \<lceil>amount / increment\<rceil> * increment))"

definition marked_up :: "decimal \<Rightarrow> pricing_rule \<Rightarrow> decimal" where
  "marked_up cost rule =
     (let percent_component = cost * (ru_markup_percent rule / 100) in
      case ru_markup_mode rule of
        PERCENT \<Rightarrow> cost + percent_component
      | MarkupMode.FIXED \<Rightarrow> cost + ru_markup_fixed rule
      | MIXED \<Rightarrow> cost + percent_component + ru_markup_fixed rule)"

definition apply_rule :: "decimal \<Rightarrow> pricing_rule \<Rightarrow> decimal res" where
  "apply_rule cost rule =
     (if cost < 0 then Inl ValueError
      else round_up (max (marked_up cost rule) (cost + ru_minimum_margin rule)) (ru_rounding_increment rule))"

record price_decision =
  de_sell_price :: decimal
  de_currency :: str
  de_supplier_cost :: "decimal option"
  de_supplier_currency :: "str option"
  de_offer_snapshot_id :: "uuid option"
  de_pricing_rule_id :: "uuid option"
  de_pricing_tier_id :: "uuid option"
  de_source :: str

definition decide ::
  "'e deposit_env_scheme \<Rightarrow> 'x shop_db_scheme \<Rightarrow> uuid \<Rightarrow> uuid \<Rightarrow> product_variant \<Rightarrow> uuid option \<Rightarrow> timestamp \<Rightarrow>
   price_decision res" where
  "decide env db tenant_id user_id variant bot_id now =
     (let tier = resolve_tier env db tenant_id user_id bot_id in
      case get_row p_id (v_product_id variant) (products db) of
        None \<Rightarrow> Inl AttributeError
      | Some pdt \<Rightarrow>
          (case (resolve_rule db tenant_id variant pdt tier, best_fresh_offer db tenant_id variant now) of
             (Some rule, Some offer) \<Rightarrow>
               res_bind (apply_rule (of_cost_amount offer) rule) (\<lambda>price.
                 Inr \<lparr>de_sell_price = price, de_currency = v_currency variant,
                      de_supplier_cost = Some (of_cost_amount offer), de_supplier_currency = Some (of_cost_currency offer),
                      de_offer_snapshot_id = Some (of_id offer), de_pricing_rule_id = Some (ru_id rule),
                      de_pricing_tier_id = map_option ti_id tier, de_source = ''SUPPLIER_MARKUP''\<rparr>)
           | (_, offer) \<Rightarrow>
               Inr \<lparr>de_sell_price = v_price variant, de_currency = v_currency variant,
                    de_supplier_cost = map_option of_cost_amount offer,
                    de_supplier_currency = map_option of_cost_currency offer,
                    de_offer_snapshot_id = map_option of_id offer, de_pricing_rule_id = None,
                    de_pricing_tier_id = map_option ti_id tier, de_source = ''CATALOG_FALLBACK''\<rparr>))"

section \<open>Quotes\<close>

definition quote_ttl_seconds :: "int \<Rightarrow> int" where
  "quote_ttl_seconds n = max 15 (min n 900)"

text \<open>\<open>str(x or "")\<close> for an optional identifier.\<close>

definition str_or_blank :: "uuid option \<Rightarrow> str" where
  "str_or_blank i = (case i of None \<Rightarrow> [] | Some u \<Rightarrow> str_uuid u)"

definition quote_payload ::
  "'e deposit_env_scheme \<Rightarrow> uuid \<Rightarrow> uuid \<Rightarrow> product_variant \<Rightarrow> uuid option \<Rightarrow> price_decision \<Rightarrow> int \<Rightarrow> dict" where
  "quote_payload env tenant_id user_id variant bot_id decision expires_bucket =
     [(''tenant_id'', JStr (str_uuid tenant_id)), (''user_id'', JStr (str_uuid user_id)),
      (''variant_id'', JStr (str_uuid (v_id variant))), (''bot_id'', JStr (str_or_blank bot_id)),
      (''offer'', JStr (str_or_blank (de_offer_snapshot_id decision))),
      (''rule'', JStr (str_or_blank (de_pricing_rule_id decision))),
      (''tier'', JStr (str_or_blank (de_pricing_tier_id decision))),
      (''cost'', JStr (case de_supplier_cost decision of None \<Rightarrow> [] | Some c \<Rightarrow> if c = 0 then [] else env_str_decimal env c)),
      (''cost_currency'', JStr (case de_supplier_currency decision of None \<Rightarrow> [] | Some c \<Rightarrow> c)),
      (''price'', JStr (env_str_decimal env (de_sell_price decision))),
      (''currency'', JStr (de_currency decision)), (''expires_bucket'', JNum (of_int expires_bucket))]"

definition quote_key :: "commerce_price_quote \<Rightarrow> uuid \<times> str" where
  "quote_key q = (cq_tenant_id q, cq_quote_fingerprint q)"

definition flush_quote ::
  "'x shop_db_scheme \<Rightarrow> commerce_price_quote \<Rightarrow> ('x shop_db_scheme, commerce_price_quote) run" where
  "flush_quote db q =
     (if violates (\<lambda>_. True) quote_key (price_quotes db) q then (db, Inl IntegrityError)
      else (db\<lparr>price_quotes := price_quotes db @ [q], next_id := Suc (next_id db)\<rparr>, Inr q))"

definition find_quote :: "'x shop_db_scheme \<Rightarrow> uuid \<Rightarrow> str \<Rightarrow> commerce_price_quote option" where
  "find_quote db tenant_id fingerprint =
     first_row (\<lambda>q. cq_tenant_id q = tenant_id \<and> cq_quote_fingerprint q = fingerprint) (price_quotes db)"

definition quote ::
  "'e shop_env_scheme \<Rightarrow> int \<Rightarrow> 'x shop_db_scheme \<Rightarrow> uuid \<Rightarrow> uuid \<Rightarrow> product_variant \<Rightarrow> uuid option \<Rightarrow> timestamp \<Rightarrow>
   ('x shop_db_scheme, commerce_price_quote \<times> price_decision) run" where
  "quote env ttl db tenant_id user_id variant bot_id now =
     lift_res db (decide env db tenant_id user_id variant bot_id now) (\<lambda>db decision.
     let expires_at = now + timedelta_seconds (quote_ttl_seconds ttl);
         expires_bucket = (expires_at div 1000000) div quote_ttl_seconds ttl;
         fingerprint = env_sha256 env (env_json_dumps env
           (JObj (quote_payload env tenant_id user_id variant bot_id decision expires_bucket)))
     in case find_quote db tenant_id fingerprint of
          Some existing \<Rightarrow> (db, Inr (existing, decision))
        | None \<Rightarrow>
            and_then
              (on_integrity_error
                (nested db (flush_quote db
                   \<lparr>cq_id = next_id db, cq_tenant_id = tenant_id, cq_user_id = user_id,
                    cq_product_variant_id = v_id variant,
                    cq_provider_offer_snapshot_id = de_offer_snapshot_id decision,
                    cq_pricing_rule_id = de_pricing_rule_id decision, cq_pricing_tier_id = de_pricing_tier_id decision,
                    cq_supplier_cost = de_supplier_cost decision, cq_supplier_currency = de_supplier_currency decision,
                    cq_sell_price = de_sell_price decision, cq_currency = de_currency decision,
                    cq_quote_fingerprint = fingerprint, cq_expires_at = expires_at\<rparr>))
                (\<lambda>db. case find_quote db tenant_id fingerprint of
                    None \<Rightarrow> (db, Inl IntegrityError)
                  | Some q \<Rightarrow> (db, Inr q)))
              (\<lambda>db q. (db, Inr (q, decision))))"

section \<open>Cost of a delivered item\<close>

definition attributed ::
  "order_item_economics \<Rightarrow> uuid option \<Rightarrow> decimal \<Rightarrow> str \<Rightarrow> timestamp \<Rightarrow> order_item_economics" where
  "attributed econ provider_id actual_cost actual_currency now =
     econ\<lparr>ec_provider_id := provider_id, ec_actual_supplier_cost := Some actual_cost,
          ec_actual_cost_currency := Some actual_currency,
          ec_gross_profit := (if actual_currency = ec_sale_currency econ then Some (ec_sale_amount econ - actual_cost) else None),
          ec_attributed_at := Some now\<rparr>"

definition attribute_actual_cost ::
  "'x shop_db_scheme \<Rightarrow> uuid \<Rightarrow> uuid option \<Rightarrow> decimal \<Rightarrow> str \<Rightarrow> timestamp \<Rightarrow>
   'x shop_db_scheme \<times> order_item_economics option" where
  "attribute_actual_cost db order_item_id provider_id actual_cost actual_currency now =
     (case first_row (\<lambda>e. ec_order_item_id e = order_item_id) (item_economics db) of
        None \<Rightarrow> (db, None)
      | Some econ \<Rightarrow>
          let e = attributed econ provider_id actual_cost actual_currency now
          in (db\<lparr>item_economics := put_row ec_id e (item_economics db)\<rparr>, Some e))"

definition load_variants_for_pricing :: "'x shop_db_scheme \<Rightarrow> uuid \<Rightarrow> uuid list \<Rightarrow> product_variant list" where
  "load_variants_for_pricing db tenant_id variant_ids =
     filter (\<lambda>v. v_id v \<in> set variant_ids \<and> v_is_active v \<and> v_deleted_at v = None \<and>
        list_ex (\<lambda>p. p_id p = v_product_id v \<and> p_tenant_id p = tenant_id \<and> p_is_active p \<and> p_deleted_at p = None) (products db))
       (product_variants db)"

end
