(* ===== verification/Suppliers.thy ===== *)
theory Suppliers
  imports Pricing
begin

text \<open>
  The supplier side: the exceptions of \<open>packages/providers/exceptions.py\<close> with the attributes the callers read, the
  vendor-neutral states and messages of \<open>contracts.py\<close> and \<open>interface.py\<close>, the adapter manifests of \<open>catalog.py\<close> and
  the adapter registry of \<open>clients/registry.py\<close>.

  An adapter talks to a supplier over the network: \<open>provider_client\<close> is what it answers, a parameter. An answer
  may depend on everything that was sent to suppliers before.
\<close>

section \<open>Exceptions\<close>

datatype provider_error_class =
    ProviderBaseError
  | ProviderConfigurationError
  | ProviderAuthenticationError
  | ProviderRateLimitError
  | ProviderInsufficientBalanceError
  | ProviderProductUnavailableError
  | ProviderTimeoutError
  | ProviderOrderFailedError

fun class_is_retryable :: "provider_error_class \<Rightarrow> bool" where
  "class_is_retryable ProviderBaseError = False"
| "class_is_retryable ProviderConfigurationError = False"
| "class_is_retryable ProviderAuthenticationError = False"
| "class_is_retryable ProviderRateLimitError = True"
| "class_is_retryable ProviderInsufficientBalanceError = True"
| "class_is_retryable ProviderProductUnavailableError = True"
| "class_is_retryable ProviderTimeoutError = True"
| "class_is_retryable ProviderOrderFailedError = False"

fun class_safe_to_failover :: "provider_error_class \<Rightarrow> bool" where
  "class_safe_to_failover ProviderRateLimitError = True"
| "class_safe_to_failover ProviderInsufficientBalanceError = True"
| "class_safe_to_failover ProviderProductUnavailableError = True"
| "class_safe_to_failover _ = False"

text \<open>
  A raised exception: a \<open>ProviderError\<close> with its class and its own \<open>is_retryable\<close>, or any other one; the last
  component is \<open>__cause__\<close>.
\<close>

datatype exc = ProviderExc provider_error_class bool "exc option" | OtherExc error "exc option"

definition provider_exc :: "provider_error_class \<Rightarrow> exc" where
  "provider_exc c = ProviderExc c (class_is_retryable c) None"

fun is_provider_error :: "exc \<Rightarrow> bool" where
  "is_provider_error (ProviderExc _ _ _) = True"
| "is_provider_error (OtherExc _ _) = False"

text \<open>\<open>getattr(exc, "is_retryable", False)\<close>\<close>

fun is_retryable :: "exc \<Rightarrow> bool" where
  "is_retryable (ProviderExc _ r _) = r"
| "is_retryable (OtherExc _ _) = False"

fun safe_to_failover :: "exc \<Rightarrow> bool" where
  "safe_to_failover (ProviderExc c _ _) = class_safe_to_failover c"
| "safe_to_failover (OtherExc _ _) = False"

fun exc_cause :: "exc \<Rightarrow> exc option" where
  "exc_cause (ProviderExc _ _ c) = c"
| "exc_cause (OtherExc _ c) = c"

fun is_timeout_exc :: "exc \<Rightarrow> bool" where
  "is_timeout_exc (ProviderExc c _ _) = (c = ProviderTimeoutError)"
| "is_timeout_exc (OtherExc e _) = (e = TimeoutError)"

fun provider_class_name :: "provider_error_class \<Rightarrow> str" where
  "provider_class_name ProviderBaseError = ''ProviderError''"
| "provider_class_name ProviderConfigurationError = ''ProviderConfigurationError''"
| "provider_class_name ProviderAuthenticationError = ''ProviderAuthenticationError''"
| "provider_class_name ProviderRateLimitError = ''ProviderRateLimitError''"
| "provider_class_name ProviderInsufficientBalanceError = ''ProviderInsufficientBalanceError''"
| "provider_class_name ProviderProductUnavailableError = ''ProviderProductUnavailableError''"
| "provider_class_name ProviderTimeoutError = ''ProviderTimeoutError''"
| "provider_class_name ProviderOrderFailedError = ''ProviderOrderFailedError''"

section \<open>Messages\<close>

datatype ProviderOrderState =
    CREATED | PENDING | PROCESSING | WAITING_DELIVERY | COMPLETED | FAILED | CANCELLED | EXPIRED | REFUNDED | UNKNOWN

fun order_state_value :: "ProviderOrderState \<Rightarrow> str" where
  "order_state_value ProviderOrderState.CREATED = ''CREATED''"
| "order_state_value ProviderOrderState.PENDING = ''PENDING''"
| "order_state_value ProviderOrderState.PROCESSING = ''PROCESSING''"
| "order_state_value ProviderOrderState.WAITING_DELIVERY = ''WAITING_DELIVERY''"
| "order_state_value ProviderOrderState.COMPLETED = ''COMPLETED''"
| "order_state_value ProviderOrderState.FAILED = ''FAILED''"
| "order_state_value ProviderOrderState.CANCELLED = ''CANCELLED''"
| "order_state_value ProviderOrderState.EXPIRED = ''EXPIRED''"
| "order_state_value ProviderOrderState.REFUNDED = ''REFUNDED''"
| "order_state_value ProviderOrderState.UNKNOWN = ''UNKNOWN''"

definition replace_char :: "char \<Rightarrow> char \<Rightarrow> str \<Rightarrow> str" where
  "replace_char a b s = map (\<lambda>c. if c = a then b else c) s"

definition order_state_aliases :: "(str \<times> ProviderOrderState) list" where
  "order_state_aliases =
     [(''NEW'', ProviderOrderState.CREATED), (''CREATED'', ProviderOrderState.CREATED),
      (''PENDING'', ProviderOrderState.PENDING), (''WAITING'', ProviderOrderState.PENDING),
      (''IN_PROGRESS'', ProviderOrderState.PROCESSING), (''PROCESSING'', ProviderOrderState.PROCESSING),
      (''WAITING_DELIVERY'', ProviderOrderState.WAITING_DELIVERY), (''PARTIAL'', ProviderOrderState.WAITING_DELIVERY),
      (''DONE'', ProviderOrderState.COMPLETED), (''SUCCESS'', ProviderOrderState.COMPLETED),
      (''SUCCESSFUL'', ProviderOrderState.COMPLETED), (''COMPLETED'', ProviderOrderState.COMPLETED),
      (''FAILED'', ProviderOrderState.FAILED), (''ERROR'', ProviderOrderState.FAILED),
      (''REJECTED'', ProviderOrderState.FAILED), (''CANCELED'', ProviderOrderState.CANCELLED),
      (''CANCELLED'', ProviderOrderState.CANCELLED), (''EXPIRED'', ProviderOrderState.EXPIRED),
      (''REFUNDED'', ProviderOrderState.REFUNDED)]"

definition normalize_provider_order_state :: "str option \<Rightarrow> ProviderOrderState" where
  "normalize_provider_order_state v =
     (let normalized = replace_char (CHR '' '') (CHR ''_'') (replace_char (CHR ''-'') (CHR ''_'')
            (upper (strip (case v of None \<Rightarrow> [] | Some s \<Rightarrow> s))))
      in case map_of order_state_aliases normalized of None \<Rightarrow> ProviderOrderState.UNKNOWN | Some st \<Rightarrow> st)"

record delivery_artifact =
  da_kind :: str
  da_value :: "str option"
  da_fields :: dict

record provider_order_response =
  os_external_order_id :: str
  os_status :: str
  os_cost :: decimal
  os_is_success :: bool
  os_raw_data :: dict
  os_canonical_state :: ProviderOrderState
  os_delivery :: "delivery_artifact list"

text \<open>\<open>__post_init__\<close>: a response built without a cost or a canonical state takes them from its other fields.\<close>

definition order_response ::
  "str \<Rightarrow> str \<Rightarrow> decimal \<Rightarrow> bool \<Rightarrow> dict \<Rightarrow> decimal option \<Rightarrow> dict option \<Rightarrow> ProviderOrderState option \<Rightarrow> delivery_artifact list \<Rightarrow>
   provider_order_response" where
  "order_response external_order_id status cost is_success raw_data total_cost details canonical_state delivery =
     \<lparr>os_external_order_id = external_order_id, os_status = status,
      os_cost = (case total_cost of None \<Rightarrow> cost | Some c \<Rightarrow> if cost = 0 then c else cost),
      os_is_success = is_success,
      os_raw_data = (case details of None \<Rightarrow> raw_data | Some d \<Rightarrow> if raw_data = [] then d else raw_data),
      os_canonical_state = (case canonical_state of None \<Rightarrow> normalize_provider_order_state (Some status) | Some st \<Rightarrow> st),
      os_delivery = delivery\<rparr>"

record provider_order_check =
  oc_external_order_id :: str
  oc_status :: str
  oc_is_completed :: bool
  oc_is_failed :: bool
  oc_raw_data :: dict
  oc_canonical_state :: ProviderOrderState
  oc_delivery :: "delivery_artifact list"

type_synonym dispatch_log = "(uuid \<times> provider_order_request) list"

text \<open>
  What an adapter answers, given what was sent before: to a purchase abandoned after so many seconds, to a
  query for the state of an order, to a request to cancel it.
\<close>

record provider_client =
  client_create_order :: "decimal \<Rightarrow> dispatch_log \<Rightarrow> provider_order_request \<Rightarrow> exc + provider_order_response"
  client_get_order :: "dispatch_log \<Rightarrow> str \<Rightarrow> exc + provider_order_check"
  client_cancel_order :: "dispatch_log \<Rightarrow> str \<Rightarrow> exc + bool"

section \<open>Adapter manifests\<close>

datatype ProviderCapability =
    HEALTH | BALANCE | CATALOG | PRODUCT_DETAIL | CREATE_ORDER | ORDER_STATUS | CANCEL_ORDER | WEBHOOK | POLLING
  | NUMBER_SERVICES | NUMBER_COUNTRIES | NUMBER_OFFERS | NUMBER_RESERVE | NUMBER_ACTIVATION | NUMBER_CANCEL | NUMBER_FINISH

record credential_spec =
  cs_key :: str
  cs_required :: bool

record provider_definition =
  pd_key :: str
  pd_categories :: "ProviderCategory list"
  pd_capabilities :: "ProviderCapability list"
  pd_credentials :: "credential_spec list"
  pd_driver_family :: str
  pd_category_capabilities :: "(ProviderCategory \<times> ProviderCapability list) list"

definition normalized_key :: "str \<Rightarrow> str" where
  "normalized_key key = upper (strip key)"

definition supports_category :: "provider_definition \<Rightarrow> ProviderCategory \<Rightarrow> bool" where
  "supports_category d category \<longleftrightarrow> category \<in> set (pd_categories d)"

definition definition_capabilities_for :: "provider_definition \<Rightarrow> ProviderCategory \<Rightarrow> ProviderCapability list" where
  "definition_capabilities_for d category =
     (case map_of (pd_category_capabilities d) category of None \<Rightarrow> pd_capabilities d | Some cs \<Rightarrow> cs)"

definition required_credential_keys :: "provider_definition \<Rightarrow> str list" where
  "required_credential_keys d = map (\<lambda>c. normalized_key (cs_key c)) (filter cs_required (pd_credentials d))"

definition CORE_PROVIDER_CAPABILITIES :: "ProviderCapability list" where
  "CORE_PROVIDER_CAPABILITIES = [HEALTH, BALANCE, CATALOG, PRODUCT_DETAIL, CREATE_ORDER, ORDER_STATUS]"

section \<open>Adapter registry\<close>

record client_registry =
  cr_factories :: "(str \<times> (str \<Rightarrow> dict \<Rightarrow> provider_client)) list"
  cr_singletons :: "(str \<times> provider_client) list"
  cr_definitions :: "(str \<times> provider_definition) list"
  cr_config_validators :: "(str \<times> (dict \<Rightarrow> ProviderCategory \<Rightarrow> exc + unit)) list"
  cr_capability_resolvers :: "(str \<times> (dict \<Rightarrow> ProviderCategory \<Rightarrow> exc + ProviderCapability list)) list"
  cr_credential_resolvers :: "(str \<times> (dict \<Rightarrow> exc + str list)) list"

text \<open>\<open>if x is not None: table[key] = x\<close>\<close>

definition register_optional :: "str \<Rightarrow> 'f option \<Rightarrow> (str \<times> 'f) list \<Rightarrow> (str \<times> 'f) list" where
  "register_optional key f table = (case f of None \<Rightarrow> table | Some g \<Rightarrow> AList.update key g table)"

definition register_type ::
  "client_registry \<Rightarrow> str \<Rightarrow> (str \<Rightarrow> dict \<Rightarrow> provider_client) \<Rightarrow> provider_definition option \<Rightarrow>
   (dict \<Rightarrow> ProviderCategory \<Rightarrow> exc + unit) option \<Rightarrow> (dict \<Rightarrow> ProviderCategory \<Rightarrow> exc + ProviderCapability list) option \<Rightarrow>
   (dict \<Rightarrow> exc + str list) option \<Rightarrow> (exc, client_registry, unit) step" where
  "register_type reg provider_type factory defn config_validator capability_resolver credential_resolver =
     (let key = normalized_key provider_type in
      if key = [] then (reg, Inl (OtherExc ValueError None))
      else
        let d = (case defn of
                   Some d \<Rightarrow> d
                 | None \<Rightarrow> \<lparr>pd_key = key, pd_categories = [ProviderCategory.DIGITAL_PRODUCT],
                            pd_capabilities = CORE_PROVIDER_CAPABILITIES, pd_credentials = [],
                            pd_driver_family = ''python'', pd_category_capabilities = []\<rparr>)
        in (reg\<lparr>cr_factories := AList.update key factory (cr_factories reg),
               cr_definitions := AList.update key d (cr_definitions reg),
               cr_config_validators := register_optional key config_validator (cr_config_validators reg),
               cr_capability_resolvers := register_optional key capability_resolver (cr_capability_resolvers reg),
               cr_credential_resolvers := register_optional key credential_resolver (cr_credential_resolvers reg)\<rparr>, Inr ()))"

definition get_definition :: "client_registry \<Rightarrow> str \<Rightarrow> exc + provider_definition" where
  "get_definition reg provider_type =
     (case map_of (cr_definitions reg) (normalized_key provider_type) of
        None \<Rightarrow> Inl (provider_exc ProviderBaseError) | Some d \<Rightarrow> Inr d)"

definition validate_config :: "client_registry \<Rightarrow> str \<Rightarrow> dict \<Rightarrow> ProviderCategory \<Rightarrow> exc + unit" where
  "validate_config reg provider_type metadata category =
     (let key = normalized_key provider_type in
      res_bind (get_definition reg key) (\<lambda>d.
        if \<not> supports_category d category then Inl (provider_exc ProviderConfigurationError)
        else case map_of (cr_config_validators reg) key of None \<Rightarrow> Inr () | Some validator \<Rightarrow> validator metadata category))"

definition capabilities_for ::
  "client_registry \<Rightarrow> str \<Rightarrow> ProviderCategory \<Rightarrow> dict \<Rightarrow> exc + ProviderCapability list" where
  "capabilities_for reg provider_type category metadata =
     (let key = normalized_key provider_type in
      res_bind (get_definition reg key) (\<lambda>d.
        case map_of (cr_capability_resolvers reg) key of
          Some resolver \<Rightarrow> resolver metadata category
        | None \<Rightarrow> Inr (definition_capabilities_for d category)))"

definition required_credentials_for :: "client_registry \<Rightarrow> str \<Rightarrow> dict \<Rightarrow> exc + str list" where
  "required_credentials_for reg provider_type metadata =
     (let key = normalized_key provider_type in
      case map_of (cr_credential_resolvers reg) key of
        Some resolver \<Rightarrow> resolver metadata
      | None \<Rightarrow> res_bind (get_definition reg key) (\<lambda>d. Inr (required_credential_keys d)))"

definition register_singleton :: "client_registry \<Rightarrow> str \<Rightarrow> provider_client \<Rightarrow> client_registry" where
  "register_singleton reg key client = reg\<lparr>cr_singletons := AList.update key client (cr_singletons reg)\<rparr>"

definition get_client ::
  "client_registry \<Rightarrow> str \<Rightarrow> str \<Rightarrow> dict \<Rightarrow> str \<Rightarrow> (exc, client_registry, provider_client) step" where
  "get_client reg provider_type pname config provider_id =
     (case map_of (cr_singletons reg) provider_id of
        Some client \<Rightarrow> (reg, Inr client)
      | None \<Rightarrow>
          (case map_of (cr_singletons reg) pname of
             Some client \<Rightarrow> (reg, Inr client)
           | None \<Rightarrow>
               let key = normalized_key provider_type in
               lift_res reg (get_definition reg key) (\<lambda>reg d.
               case map_of (cr_factories reg) key of
                 None \<Rightarrow> (reg, Inl (provider_exc ProviderBaseError))
               | Some factory \<Rightarrow>
                   let client = factory pname config
                   in (if pd_driver_family d = ''sandbox'' then register_singleton reg provider_id client else reg, Inr client))))"

end
