(* ===== verification/Routing.thy ===== *)
theory Routing
  imports Suppliers
begin

text \<open>
  \<open>ProviderRouter\<close> (\<open>packages/providers/router.py\<close>): which supplier mappings may serve a product, in which order they
  are tried, and the loop that tries them. A purchase request is logged in \<open>dispatched\<close> when it is sent.
\<close>

record supply_env = shop_env +
  env_registry :: client_registry
  env_max_failures :: int
  env_exc_str :: "exc \<Rightarrow> str"
  env_log :: "decimal \<Rightarrow> decimal"

type_synonym offer_source = "provider_product_mapping \<times> provider"

record routing_directive =
  rd_strategy :: ProviderRoutingStrategy
  rd_preferred_provider_id :: "uuid option"
  rd_failover_enabled :: bool
  rd_weights_json :: dict

section \<open>Eligible mappings\<close>

definition candidate_mappings ::
  "'x shop_db_scheme \<Rightarrow> uuid \<Rightarrow> uuid \<Rightarrow> uuid option \<Rightarrow> uuid list \<Rightarrow> ProviderCategory list \<Rightarrow> offer_source list" where
  "candidate_mappings db tenant_id product_id variant_id allowed_provider_ids allowed_categories =
     List.map_filter (\<lambda>m.
       case get_row pr_id (mp_provider_id m) (providers db) of
         None \<Rightarrow> None
       | Some p \<Rightarrow>
           if mp_tenant_id m = tenant_id \<and> mp_product_id m = product_id \<and> mp_is_enabled m \<and> pr_is_enabled p \<and>
              (allowed_provider_ids = [] \<or> pr_id p \<in> set allowed_provider_ids) \<and>
              (allowed_categories = [] \<or> pr_category p \<in> set allowed_categories) \<and>
              (variant_id = None \<or> mp_product_variant_id m = variant_id \<or> mp_product_variant_id m = None)
           then Some (m, p) else None) (product_mappings db)"

definition is_healthy :: "int \<Rightarrow> provider \<Rightarrow> bool" where
  "is_healthy max_failures p \<longleftrightarrow> pr_health_status p \<noteq> UNAVAILABLE \<and> \<not> pr_consecutive_failures p \<ge> max_failures"

definition snapshot_is_fresh :: "provider_offer_snapshot option \<Rightarrow> timestamp \<Rightarrow> bool" where
  "snapshot_is_fresh snapshot now = (case snapshot of None \<Rightarrow> False | Some s \<Rightarrow> of_expires_at s > now)"

text \<open>\<open>{row.mapping_id: row for row in rows}\<close>: the last row of a mapping wins.\<close>

definition snapshot_of ::
  "'x shop_db_scheme \<Rightarrow> uuid \<Rightarrow> provider_product_mapping \<Rightarrow> provider_offer_snapshot option" where
  "snapshot_of db tenant_id m =
     first_row (\<lambda>s. of_tenant_id s = tenant_id \<and> of_mapping_id s = mp_id m) (rev (offer_snapshots db))"

definition eligible_mappings ::
  "'e supply_env_scheme \<Rightarrow> 'x shop_db_scheme \<Rightarrow> uuid \<Rightarrow> uuid \<Rightarrow> uuid option \<Rightarrow> uuid list \<Rightarrow> ProviderCategory list \<Rightarrow>
   timestamp \<Rightarrow> offer_source list" where
  "eligible_mappings env db tenant_id product_id variant_id allowed_provider_ids allowed_categories now =
     filter (\<lambda>(m, p). is_healthy (env_max_failures env) p \<and>
        \<not> (snapshot_is_fresh (snapshot_of db tenant_id m) now \<and>
           (case snapshot_of db tenant_id m of None \<Rightarrow> False | Some s \<Rightarrow> \<not> of_is_available s)))
       (candidate_mappings db tenant_id product_id variant_id allowed_provider_ids allowed_categories)"

section \<open>Order\<close>

definition effective_cost ::
  "(provider_product_mapping \<Rightarrow> provider_offer_snapshot option) \<Rightarrow> timestamp \<Rightarrow> provider_product_mapping \<Rightarrow> decimal \<times> str" where
  "effective_cost snapshots now m =
     (case snapshots m of
        Some s \<Rightarrow> if of_expires_at s > now then (of_cost_amount s, upper (of_cost_currency s))
                   else (mp_cost_price m, upper (mp_cost_currency m))
      | None \<Rightarrow> (mp_cost_price m, upper (mp_cost_currency m)))"

fun health_rank :: "ProviderHealthStatus \<Rightarrow> int" where
  "health_rank HEALTHY = 0"
| "health_rank ProviderHealthStatus.UNKNOWN = 1"
| "health_rank DEGRADED = 2"
| "health_rank UNAVAILABLE = 3"

definition mapping_priority :: "offer_source \<Rightarrow> int" where
  "mapping_priority = (\<lambda>(m, p). case mp_priority_override m of None \<Rightarrow> pr_priority p | Some k \<Rightarrow> k)"

text \<open>
  \<open>str(provider_id)\<close> as the last part of a sort key: the fixed-width rendering of two identifiers compares as
  their numbers do. \<open>env_log\<close> is \<open>math.log\<close> on floating point numbers.
\<close>

definition weighted_score :: "'e supply_env_scheme \<Rightarrow> provider_product_mapping \<Rightarrow> str \<Rightarrow> int \<Rightarrow> decimal" where
  "weighted_score env m routing_key weight =
     (let seed = routing_key @ '':'' @ str_uuid (mp_provider_id m) @ '':'' @ mp_external_product_id m;
          unit = (of_nat (env_digest8 env seed) + 1) / (2 ^ 64 + 1)
      in - env_log env unit / of_int (max weight 1))"

definition weight_for :: "'e supply_env_scheme \<Rightarrow> dict \<Rightarrow> provider_product_mapping \<Rightarrow> int" where
  "weight_for env weights m =
     (let v = (case dict_get weights (str_uuid (mp_provider_id m)) (JNum 1) of
                 JNum x \<Rightarrow> round_down x
               | JBool b \<Rightarrow> if b then 1 else 0
               | JStr s \<Rightarrow> (case env_int env s of None \<Rightarrow> 1 | Some n \<Rightarrow> n)
               | _ \<Rightarrow> 1)
      in max 1 (min v 1000))"

definition order_mappings ::
  "'e supply_env_scheme \<Rightarrow> offer_source list \<Rightarrow> routing_directive option \<Rightarrow> str \<Rightarrow>
   (provider_product_mapping \<Rightarrow> provider_offer_snapshot option) \<Rightarrow> timestamp \<Rightarrow> exc + offer_source list" where
  "order_mappings env mappings policy routing_key snapshots now =
     (let cost = (\<lambda>(m, p). fst (effective_cost snapshots now m));
          comparable_costs = length (remdups (map (\<lambda>(m, p). snd (effective_cost snapshots now m)) mappings)) \<le> 1;
          cost_or_zero = (\<lambda>mp. if comparable_costs then cost mp else 0);
          pid = (\<lambda>(m, p). mp_provider_id m);
          by_priority = sort_key (\<lambda>mp. (mapping_priority mp, cost_or_zero mp, pid mp))
      in case (case policy of None \<Rightarrow> PRIORITY | Some d \<Rightarrow> rd_strategy d) of
           PRIORITY \<Rightarrow> Inr (by_priority mappings)
         | LOWEST_COST \<Rightarrow>
             if \<not> comparable_costs then Inl (provider_exc ProviderConfigurationError)
             else Inr (sort_key (\<lambda>mp. (cost mp, mapping_priority mp, pid mp)) mappings)
         | AVAILABILITY \<Rightarrow>
             Inr (sort_key (\<lambda>(m, p). (health_rank (pr_health_status p), pr_consecutive_failures p, mapping_priority (m, p), mp_provider_id m))
               mappings)
         | HEALTHIEST \<Rightarrow>
             Inr (sort_key (\<lambda>(m, p). (health_rank (pr_health_status p), pr_consecutive_failures p,
                 (case pr_last_health_latency_ms p of None \<Rightarrow> (True, 0) | Some l \<Rightarrow> (False, l)), cost_or_zero (m, p), mp_provider_id m))
               mappings)
         | MANUAL \<Rightarrow>
             (case policy of
                Some d \<Rightarrow>
                  (case rd_preferred_provider_id d of
                     None \<Rightarrow> Inr []
                   | Some preferred \<Rightarrow>
                       let preferred_rows = filter (\<lambda>mp. pid mp = preferred) mappings;
                           others = by_priority (filter (\<lambda>mp. pid mp \<noteq> preferred) mappings)
                       in Inr (if preferred_rows = [] then [] else preferred_rows @ others))
              | None \<Rightarrow> Inr [])
         | WEIGHTED \<Rightarrow>
             let weights = (case policy of None \<Rightarrow> [] | Some d \<Rightarrow> rd_weights_json d)
             in Inr (sort_key (\<lambda>(m, p). (weighted_score env m routing_key (weight_for env weights m), mp_provider_id m)) mappings))"

definition routing_policy ::
  "'x shop_db_scheme \<Rightarrow> uuid \<Rightarrow> uuid \<Rightarrow> uuid option \<Rightarrow> provider_routing_policy option" where
  "routing_policy db tenant_id product_id variant_id =
     (let query = (\<lambda>v. first_row (\<lambda>r. rp_tenant_id r = tenant_id \<and> rp_product_id r = product_id \<and> rp_product_variant_id r = v)
                         (routing_policies db))
      in case variant_id of
           None \<Rightarrow> query None
         | Some _ \<Rightarrow> (case query variant_id of Some r \<Rightarrow> Some r | None \<Rightarrow> query None))"

definition policy_directive :: "provider_routing_policy \<Rightarrow> routing_directive" where
  "policy_directive r = \<lparr>rd_strategy = rp_strategy r, rd_preferred_provider_id = rp_preferred_provider_id r,
     rd_failover_enabled = rp_failover_enabled r, rd_weights_json = rp_weights_json r\<rparr>"

text \<open>The restrictions a caller puts on routing, the named arguments of \<open>get_eligible_mappings\<close>.\<close>

record routing_options =
  ro_allowed_provider_ids :: "uuid list"
  ro_allowed_categories :: "ProviderCategory list"
  ro_strategy_override :: "ProviderRoutingStrategy option"
  ro_preferred_provider_id :: "uuid option"
  ro_failover_enabled :: "bool option"

definition get_eligible_mappings ::
  "'e supply_env_scheme \<Rightarrow> 'x shop_db_scheme \<Rightarrow> uuid \<Rightarrow> uuid \<Rightarrow> uuid option \<Rightarrow> str option \<Rightarrow> routing_options \<Rightarrow> timestamp \<Rightarrow>
   exc + offer_source list" where
  "get_eligible_mappings env db tenant_id product_id variant_id routing_key opts now =
     (let eligible = eligible_mappings env db tenant_id product_id variant_id (ro_allowed_provider_ids opts) (ro_allowed_categories opts) now;
          policy = (case ro_strategy_override opts of
                      Some s \<Rightarrow> Some \<lparr>rd_strategy = s, rd_preferred_provider_id = ro_preferred_provider_id opts,
                                 rd_failover_enabled = (case ro_failover_enabled opts of None \<Rightarrow> True | Some b \<Rightarrow> b),
                                 rd_weights_json = []\<rparr>
                    | None \<Rightarrow> map_option policy_directive (routing_policy db tenant_id product_id variant_id));
          key = (if truthy routing_key then the routing_key
                 else ''preview:'' @ str_uuid tenant_id @ '':'' @ str_uuid product_id @ '':'' @
                      (case variant_id of None \<Rightarrow> ''default'' | Some v \<Rightarrow> str_uuid v))
      in res_bind (order_mappings env eligible policy key (snapshot_of db tenant_id) now) (\<lambda>ordered.
           Inr (case policy of
                  Some d \<Rightarrow> if \<not> rd_failover_enabled d then take 1 ordered else ordered
                | None \<Rightarrow> ordered)))"

section \<open>Configuration of an adapter\<close>

text \<open>
  The credentials of a supplier by type, each read from the secret store. A missing secret is an
  authentication error; what else the store raises is passed on.
\<close>

fun read_credentials :: "'e shop_env_scheme \<Rightarrow> provider_credential list \<Rightarrow> dict \<Rightarrow> exc + dict" where
  "read_credentials env [] acc = Inr acc"
| "read_credentials env (c # cs) acc =
     (case env_secret env (cd_secret_ref c) of
        Inr secret \<Rightarrow> read_credentials env cs (dict_set acc (cd_credential_type c) (JStr secret))
      | Inl SecretNotFoundError \<Rightarrow> Inl (ProviderExc ProviderAuthenticationError False (Some (OtherExc SecretNotFoundError None)))
      | Inl e \<Rightarrow> Inl (OtherExc e None))"

fun capability_value :: "ProviderCapability \<Rightarrow> str" where
  "capability_value HEALTH = ''HEALTH''"
| "capability_value BALANCE = ''BALANCE''"
| "capability_value CATALOG = ''CATALOG''"
| "capability_value PRODUCT_DETAIL = ''PRODUCT_DETAIL''"
| "capability_value CREATE_ORDER = ''CREATE_ORDER''"
| "capability_value ORDER_STATUS = ''ORDER_STATUS''"
| "capability_value CANCEL_ORDER = ''CANCEL_ORDER''"
| "capability_value WEBHOOK = ''WEBHOOK''"
| "capability_value POLLING = ''POLLING''"
| "capability_value NUMBER_SERVICES = ''NUMBER_SERVICES''"
| "capability_value NUMBER_COUNTRIES = ''NUMBER_COUNTRIES''"
| "capability_value NUMBER_OFFERS = ''NUMBER_OFFERS''"
| "capability_value NUMBER_RESERVE = ''NUMBER_RESERVE''"
| "capability_value NUMBER_ACTIVATION = ''NUMBER_ACTIVATION''"
| "capability_value NUMBER_CANCEL = ''NUMBER_CANCEL''"
| "capability_value NUMBER_FINISH = ''NUMBER_FINISH''"

fun category_value :: "ProviderCategory \<Rightarrow> str" where
  "category_value NUMBER = ''NUMBER''"
| "category_value ProviderCategory.ACCOUNT = ''ACCOUNT''"
| "category_value GIFT = ''GIFT''"
| "category_value ProviderCategory.DIGITAL_PRODUCT = ''DIGITAL_PRODUCT''"
| "category_value SERVICE = ''SERVICE''"
| "category_value OTHER = ''OTHER''"

definition build_provider_config :: "'e supply_env_scheme \<Rightarrow> 'x shop_db_scheme \<Rightarrow> provider \<Rightarrow> exc + dict" where
  "build_provider_config env db p =
     (let reg = env_registry env; metadata = pr_metadata_json p;
          creds = filter (\<lambda>c. cd_provider_id c = pr_id p) (provider_credentials db)
      in res_bind (get_definition reg (pr_provider_type p)) (\<lambda>defn.
         res_bind (validate_config reg (pr_provider_type p) metadata (pr_category p)) (\<lambda>_.
         res_bind (required_credentials_for reg (pr_provider_type p) metadata) (\<lambda>required.
         if \<not> list_all (\<lambda>k. k \<in> set (map (\<lambda>c. upper (cd_credential_type c)) creds)) required
         then Inl (provider_exc ProviderConfigurationError)
         else res_bind (read_credentials env creds []) (\<lambda>credentials.
         res_bind (capabilities_for reg (pr_provider_type p) (pr_category p) metadata) (\<lambda>capabilities.
         Inr (dict_set (dict_set (dict_set (dict_set metadata ''credentials'' (JObj credentials))
               ''provider_category'' (JStr (category_value (pr_category p))))
               ''adapter_key'' (JStr (normalized_key (pd_key defn))))
               ''capabilities'' (JList (map (\<lambda>c. JStr (capability_value c)) capabilities)))))))))"

definition provider_timeout :: "'e shop_env_scheme \<Rightarrow> provider \<Rightarrow> decimal" where
  "provider_timeout env p =
     (let timeout = (case dict_get (pr_metadata_json p) ''timeout_seconds'' (JNum 15) of
                       JNum x \<Rightarrow> x
                     | JBool b \<Rightarrow> if b then 1 else 0
                     | JStr s \<Rightarrow> (case env_float env s of None \<Rightarrow> 15 | Some x \<Rightarrow> x)
                     | _ \<Rightarrow> 15)
      in max 1 (min timeout 60))"

section \<open>Trying the suppliers\<close>

text \<open>\<open>except TimeoutError as exc: raise ProviderTimeoutError(...) from exc\<close>\<close>

definition timeout_to_provider_error :: "exc \<Rightarrow> exc" where
  "timeout_to_provider_error e =
     (case e of OtherExc TimeoutError _ \<Rightarrow> ProviderExc ProviderTimeoutError True (Some e) | _ \<Rightarrow> e)"

definition note_failure :: "int \<Rightarrow> provider \<Rightarrow> provider" where
  "note_failure max_failures p =
     (let n = pr_consecutive_failures p + 1
      in p\<lparr>pr_consecutive_failures := n,
           pr_health_status := (if n \<ge> max_failures then DEGRADED else pr_health_status p)\<rparr>)"

definition note_success :: "provider \<Rightarrow> provider" where
  "note_success p = (if pr_consecutive_failures p > 0
     then p\<lparr>pr_consecutive_failures := 0, pr_health_status := HEALTHY\<rparr> else p)"

definition adapter_for :: "'e supply_env_scheme \<Rightarrow> 'x shop_db_scheme \<Rightarrow> provider \<Rightarrow> exc + provider_client" where
  "adapter_for env db p =
     res_bind (build_provider_config env db p) (\<lambda>config.
       snd (get_client (env_registry env) (pr_provider_type p) (pr_name p) config (str_uuid (pr_id p))))"

fun route_loop ::
  "'e supply_env_scheme \<Rightarrow> 'x shop_db_scheme \<Rightarrow> provider_product_mapping list \<Rightarrow> int \<Rightarrow> str \<Rightarrow> str \<Rightarrow> dict \<Rightarrow> exc option \<Rightarrow>
   (exc, 'x shop_db_scheme, provider \<times> provider_product_mapping \<times> provider_order_response) step" where
  "route_loop env db [] quantity recipient idempotency_key parameters last_exception =
     (db, Inl (ProviderExc ProviderBaseError (case last_exception of None \<Rightarrow> False | Some e \<Rightarrow> is_retryable e) last_exception))"
| "route_loop env db (m # ms) quantity recipient idempotency_key parameters last_exception =
     (case get_row pr_id (mp_provider_id m) (providers db) of
        None \<Rightarrow> (db, Inl (OtherExc AttributeError None))
      | Some p \<Rightarrow>
          lift_res db (adapter_for env db p) (\<lambda>db client.
          let request = \<lparr>oq_external_product_id = mp_external_product_id m, oq_quantity = quantity, oq_recipient = recipient,
                         oq_idempotency_key = idempotency_key, oq_parameters = parameters\<rparr>;
              answer = client_create_order client (provider_timeout env p) (dispatched db) request;
              db = db\<lparr>dispatched := dispatched db @ [(pr_id p, request)]\<rparr>
          in case answer of
               Inr response \<Rightarrow> (put_provider (note_success p) db, Inr (note_success p, m, response))
             | Inl e \<Rightarrow>
                 let e = timeout_to_provider_error e in
                 if is_provider_error e
                 then let db = put_provider (note_failure (env_max_failures env) p) db
                      in if \<not> is_retryable e \<or> \<not> safe_to_failover e then (db, Inl e)
                         else route_loop env db ms quantity recipient idempotency_key parameters (Some e)
                 else (db, Inl (ProviderExc ProviderBaseError False (Some e)))))"

definition route_and_execute_order ::
  "'e supply_env_scheme \<Rightarrow> 'x shop_db_scheme \<Rightarrow> uuid \<Rightarrow> uuid \<Rightarrow> int \<Rightarrow> str \<Rightarrow> str \<Rightarrow> uuid option \<Rightarrow> dict \<Rightarrow> routing_options \<Rightarrow> timestamp \<Rightarrow>
   (exc, 'x shop_db_scheme, provider \<times> provider_product_mapping \<times> provider_order_response) step" where
  "route_and_execute_order env db tenant_id product_id quantity recipient idempotency_key variant_id parameters opts now =
     lift_res db (get_eligible_mappings env db tenant_id product_id variant_id (Some idempotency_key) opts now) (\<lambda>db mappings.
     if mappings = [] then (db, Inl (provider_exc ProviderProductUnavailableError))
     else route_loop env db (map fst mappings) quantity recipient idempotency_key parameters None)"

end
