(* ===== verification/Fulfillment.thy ===== *)
theory Fulfillment
  imports Routing
begin

text \<open>
  \<open>FulfillmentService\<close> (\<open>packages/fulfillment/service.py\<close>): one attempt to buy the items of a paid order from suppliers.
  The attempt is recorded under its idempotency key; it ends with the order fulfilled, with the
  attempt waiting for the supplier, or in the failure path, which schedules a retry or refunds the order
  through the ledger. Every path commits before it returns or raises, so \<open>execute_order_fulfillment\<close> maps
  committed stores to committed stores.
\<close>

section \<open>Preparation\<close>

definition to_notice :: "NotificationEventType \<Rightarrow> order \<Rightarrow> str \<Rightarrow> notification_payload" where
  "to_notice event_type ord recipient =
     \<lparr>np_event_type = event_type, np_tenant_id = o_tenant_id ord, np_recipient = recipient, np_order_id = o_id ord,
      np_order_number = o_order_number ord\<rparr>"

definition provider_response_payload :: "str \<Rightarrow> ProviderOrderState \<Rightarrow> dict \<Rightarrow> delivery_artifact list \<Rightarrow> json" where
  "provider_response_payload external_order_id canonical_state raw_data delivery =
     JObj [(''external_order_id'', JStr external_order_id), (''canonical_state'', JStr (order_state_value canonical_state)),
       (''raw_data'', JObj raw_data),
       (''delivery'', JList (map (\<lambda>a. JObj [(''kind'', JStr (da_kind a)), (''value'', json_opt (da_value a)), (''fields'', JObj (da_fields a))])
          delivery))]"

definition response_payload :: "provider_order_response \<Rightarrow> json" where
  "response_payload r = provider_response_payload (os_external_order_id r) (os_canonical_state r) (os_raw_data r) (os_delivery r)"

definition items_of :: "'x shop_db_scheme \<Rightarrow> uuid \<Rightarrow> order_item list" where
  "items_of db order_id = filter (\<lambda>i. oi_order_id i = order_id) (order_items db)"

definition fulfillment_profile :: "'e supply_env_scheme \<Rightarrow> 'x shop_db_scheme \<Rightarrow> order \<Rightarrow> bot_business_profile" where
  "fulfillment_profile env db ord =
     (case first_row (\<lambda>e. ec_order_id e = o_id ord \<and> ec_bot_id e \<noteq> None) (item_economics db) of
        None \<Rightarrow> default_profile
      | Some e \<Rightarrow>
          (case get_row bt_id (the (ec_bot_id e)) (bots db) of
             None \<Rightarrow> default_profile
           | Some bot_record \<Rightarrow>
               if bt_tenant_id bot_record = o_tenant_id ord \<and> bt_deleted_at bot_record = None
               then business_profile_from_config env (bt_config bot_record) else default_profile))"

definition attempt_key :: "uuid \<Rightarrow> int \<Rightarrow> str" where
  "attempt_key order_id attempt_number = ''order:'' @ str_uuid order_id @ '':attempt:'' @ str_int attempt_number"

definition new_attempt :: "uuid \<Rightarrow> order \<Rightarrow> int \<Rightarrow> timestamp \<Rightarrow> fulfillment_attempt" where
  "new_attempt i ord attempt_number now =
     \<lparr>fa_id = i, fa_created_at = now, fa_tenant_id = o_tenant_id ord, fa_order_id = o_id ord, fa_order_item_id = None,
      fa_provider_id = None, fa_attempt_number = attempt_number, fa_idempotency_key = attempt_key (o_id ord) attempt_number,
      fa_status = FulfillmentStatus.PROCESSING, fa_external_order_id = None, fa_cost_amount = 0,
      fa_cost_currency = o_currency ord, fa_request_payload = [], fa_response_payload = JObj [],
      fa_error_classification = None, fa_started_at = now, fa_completed_at = None\<rparr>"

definition flush_attempt ::
  "'x shop_db_scheme \<Rightarrow> fulfillment_attempt \<Rightarrow> ('x shop_db_scheme, fulfillment_attempt) run" where
  "flush_attempt db a =
     (if violates (\<lambda>_. True) fa_idempotency_key (fulfillment_attempts db) a then (db, Inl IntegrityError)
      else (db\<lparr>fulfillment_attempts := fulfillment_attempts db @ [a], next_id := Suc (next_id db)\<rparr>, Inr a))"

definition raise_other :: "('s, 'a) run \<Rightarrow> (exc, 's, 'a) step" where
  "raise_other m = (case m of (s, Inl e) \<Rightarrow> (s, Inl (OtherExc e None)) | (s, Inr x) \<Rightarrow> (s, Inr x))"

definition start_attempt ::
  "'x shop_db_scheme \<Rightarrow> order \<Rightarrow> fulfillment_attempt option \<Rightarrow> int \<Rightarrow> timestamp \<Rightarrow> (exc, 'x shop_db_scheme, fulfillment_attempt) step" where
  "start_attempt db ord existing_attempt attempt_number now =
     (case existing_attempt of
        None \<Rightarrow> raise_other (flush_attempt db (new_attempt (next_id db) ord attempt_number now))
      | Some a \<Rightarrow> let a = a\<lparr>fa_status := FulfillmentStatus.PROCESSING\<rparr> in (put_attempt a db, Inr a))"

section \<open>Buying the items\<close>

definition profile_options :: "bot_business_profile \<Rightarrow> routing_options" where
  "profile_options profile =
     \<lparr>ro_allowed_provider_ids = bp_provider_ids profile,
      ro_allowed_categories = allowed_provider_categories (bp_business_type profile),
      ro_strategy_override = bp_routing_strategy profile,
      ro_preferred_provider_id = bp_preferred_provider_id profile, ro_failover_enabled = Some True\<rparr>"

definition failed_states :: "ProviderOrderState list" where
  "failed_states = [ProviderOrderState.FAILED, ProviderOrderState.CANCELLED, ProviderOrderState.EXPIRED, ProviderOrderState.REFUNDED]"

definition product_of_variant :: "'x shop_db_scheme \<Rightarrow> uuid \<Rightarrow> uuid option" where
  "product_of_variant db variant_id = map_option v_product_id (get_row v_id variant_id (product_variants db))"

record purchases =
  pu_responses :: "provider_order_response list"
  pu_last_provider :: "provider option"
  pu_currencies :: "str list"
  pu_total :: decimal

definition no_purchases :: purchases where
  "no_purchases = \<lparr>pu_responses = [], pu_last_provider = None, pu_currencies = [], pu_total = 0\<rparr>"

definition add_purchase :: "purchases \<Rightarrow> provider \<Rightarrow> str \<Rightarrow> provider_order_response \<Rightarrow> purchases" where
  "add_purchase acc p currency response =
     (let currencies = List.insert currency (pu_currencies acc)
      in \<lparr>pu_responses = pu_responses acc @ [response], pu_last_provider = Some p, pu_currencies = currencies,
          pu_total = (if length currencies = 1 then pu_total acc + os_cost response else pu_total acc)\<rparr>)"

definition item_key :: "str \<Rightarrow> nat \<Rightarrow> order_item \<Rightarrow> str" where
  "item_key idempotency_key n item = (if n = 1 then idempotency_key else idempotency_key @ '':item:'' @ str_uuid (oi_id item))"

fun buy_items ::
  "'e supply_env_scheme \<Rightarrow> 'x shop_db_scheme \<Rightarrow> order \<Rightarrow> fulfillment_attempt \<Rightarrow> str \<Rightarrow> routing_options \<Rightarrow> nat \<Rightarrow> order_item list \<Rightarrow>
   purchases \<Rightarrow> timestamp \<Rightarrow> (exc, 'x shop_db_scheme, purchases) step" where
  "buy_items env db ord attempt recipient opts n [] acc now = (db, Inr acc)"
| "buy_items env db ord attempt recipient opts n (item # rest) acc now =
     (case product_of_variant db (oi_product_variant_id item) of
        None \<Rightarrow> (db, Inl (OtherExc KeyError None))
      | Some product_id \<Rightarrow>
          and_then (route_and_execute_order env db (o_tenant_id ord) product_id (oi_quantity item) recipient
              (item_key (fa_idempotency_key attempt) n item) (Some (oi_product_variant_id item)) [] opts now)
            (\<lambda>db (p, m, response).
              let cost_currency = upper (mp_cost_currency m);
                  acc = add_purchase acc p cost_currency response;
                  db = (if os_canonical_state response = ProviderOrderState.COMPLETED
                        then fst (attribute_actual_cost db (oi_id item) (Some (pr_id p)) (os_cost response) cost_currency now) else db)
              in if os_canonical_state response \<in> set failed_states
                 then (put_attempt (attempt\<lparr>fa_provider_id := Some (pr_id p),
                         fa_external_order_id := Some (os_external_order_id response),
                         fa_response_payload := response_payload response\<rparr>) db,
                       Inl (provider_exc ProviderOrderFailedError))
                 else buy_items env db ord attempt recipient opts n rest acc now))"

section \<open>Outcomes\<close>

definition purchased_attempt :: "fulfillment_attempt \<Rightarrow> purchases \<Rightarrow> fulfillment_attempt" where
  "purchased_attempt attempt acc =
     attempt\<lparr>fa_provider_id := map_option pr_id (pu_last_provider acc),
       fa_external_order_id := Some (os_external_order_id (hd (pu_responses acc))),
       fa_cost_amount := (if length (pu_currencies acc) = 1 then pu_total acc else 0),
       fa_cost_currency := (if length (pu_currencies acc) = 1 then hd (pu_currencies acc) else ''MIX''),
       fa_response_payload := (if length (pu_responses acc) = 1 then response_payload (hd (pu_responses acc))
                               else JList (map response_payload (pu_responses acc)))\<rparr>"

definition pending_attempt :: "fulfillment_attempt \<Rightarrow> purchases \<Rightarrow> provider_order_response \<Rightarrow> fulfillment_attempt" where
  "pending_attempt attempt acc first_pending =
     (if length (pu_responses acc) > 1
      then attempt\<lparr>fa_status := FulfillmentStatus.UNKNOWN, fa_error_classification := Some ''MULTI_ITEM_NONTERMINAL_PROVIDER_STATE'',
             fa_completed_at := None\<rparr>
      else if os_canonical_state first_pending = ProviderOrderState.UNKNOWN
      then attempt\<lparr>fa_status := FulfillmentStatus.UNKNOWN, fa_error_classification := Some ''UPSTREAM_STATE_UNKNOWN'',
             fa_completed_at := None\<rparr>
      else attempt\<lparr>fa_status := FulfillmentStatus.PROCESSING, fa_error_classification := None, fa_completed_at := None\<rparr>)"

text \<open>The body of the \<open>try\<close>.\<close>

definition fulfill ::
  "'e supply_env_scheme \<Rightarrow> 'x shop_db_scheme \<Rightarrow> order \<Rightarrow> fulfillment_attempt \<Rightarrow> order_item list \<Rightarrow> str \<Rightarrow> bot_business_profile \<Rightarrow> timestamp \<Rightarrow>
   (exc, 'x shop_db_scheme, fulfillment_attempt) step" where
  "fulfill env db ord attempt items recipient profile now =
     (if \<not> list_all (\<lambda>i. product_of_variant db (oi_product_variant_id i) \<noteq> None) items
      then (db, Inl (provider_exc ProviderBaseError))
      else and_then (buy_items env db ord attempt recipient (profile_options profile) (length items) items no_purchases now) (\<lambda>db acc.
        let attempt = purchased_attempt attempt acc;
            nonterminal = filter (\<lambda>r. os_canonical_state r \<noteq> ProviderOrderState.COMPLETED) (pu_responses acc)
        in case nonterminal of
             first_pending # _ \<Rightarrow>
               let attempt = pending_attempt attempt acc first_pending
               in (notify (to_notice FULFILLMENT_STARTED ord recipient) (put_attempt attempt db), Inr attempt)
           | [] \<Rightarrow>
               let attempt = attempt\<lparr>fa_status := FulfillmentStatus.SUCCEEDED, fa_completed_at := Some now\<rparr>;
                   db = put_attempt attempt db
               in (case OrderStateMachine_transition ord OrderStatus.FULFILLED of
                     Inl e \<Rightarrow> (db, Inl (OtherExc e None))
                   | Inr ord \<Rightarrow> (notify (to_notice FULFILLMENT_SUCCEEDED ord recipient) (put_order ord db), Inr attempt))))"

definition refund_order ::
  "'x shop_db_scheme \<Rightarrow> order \<Rightarrow> str \<Rightarrow> timestamp \<Rightarrow> ('x shop_db_scheme, unit) run" where
  "refund_order db ord description now =
     and_then (get_or_create_wallet db (o_tenant_id ord) (o_user_id ord) (o_currency ord)) (\<lambda>db wlt.
     and_then (refund db wlt (o_total_amount ord) (Some (str_uuid (o_id ord))) (Some CANONICAL_REFUND_TYPE) (Some description) now) (\<lambda>db _.
     lift_res db (OrderStateMachine_transition ord OrderStatus.FAILED) (\<lambda>db ord. (put_order ord db, Inr ()))))"

fun exc_name :: "exc \<Rightarrow> str" where
  "exc_name (ProviderExc c _ _) = provider_class_name c"
| "exc_name (OtherExc e _) = error_name e"

definition retryable_failure :: "exc \<Rightarrow> bool" where
  "retryable_failure e \<longleftrightarrow> is_retryable e \<or> (case exc_cause e of None \<Rightarrow> False | Some c \<Rightarrow> is_retryable c)"

definition timeout_failure :: "exc \<Rightarrow> bool" where
  "timeout_failure e \<longleftrightarrow> is_timeout_exc e \<or> (case exc_cause e of None \<Rightarrow> False | Some c \<Rightarrow> is_timeout_exc c)"

text \<open>The \<open>except Exception\<close> clause; the attempt is the session's object, with what the body assigned before it raised.\<close>

definition fulfillment_failed ::
  "'e supply_env_scheme \<Rightarrow> 'x shop_db_scheme \<Rightarrow> order \<Rightarrow> uuid \<Rightarrow> int \<Rightarrow> str \<Rightarrow> exc \<Rightarrow> timestamp \<Rightarrow> 'x shop_db_scheme" where
  "fulfillment_failed env db ord attempt_id attempt_number recipient e now =
     (case get_row fa_id attempt_id (fulfillment_attempts db) of
        None \<Rightarrow> db
      | Some attempt \<Rightarrow>
          let attempt = attempt\<lparr>fa_error_classification := Some (exc_name e),
                fa_response_payload := JObj [(''error'', JStr (env_exc_str env e)), (''retryable'', JBool (retryable_failure e))],
                fa_completed_at := Some now\<rparr>
          in if retryable_failure e \<and> attempt_number < 3
             then notify (to_notice FULFILLMENT_STARTED ord recipient)
                    (put_attempt (attempt\<lparr>fa_status := (if timeout_failure e then FulfillmentStatus.UNKNOWN else FulfillmentStatus.RETRYING)\<rparr>) db)
             else
               let db = put_attempt (attempt\<lparr>fa_status := FulfillmentStatus.FAILED\<rparr>) db
               in case refund_order db ord (''Automated refund for unfulfilled order #'' @ o_order_number ord) now of
                    (db, Inr _) \<Rightarrow> notify (to_notice ORDER_REFUNDED ord recipient) db
                  | (db, Inl _) \<Rightarrow> notify (to_notice FULFILLMENT_FAILED ord recipient) db)"

definition as_provider_error :: "exc \<Rightarrow> exc" where
  "as_provider_error e = (if is_provider_error e then e else ProviderExc ProviderBaseError False (Some e))"

definition run_attempt ::
  "'e supply_env_scheme \<Rightarrow> 'x shop_db_scheme \<Rightarrow> order \<Rightarrow> fulfillment_attempt \<Rightarrow> str \<Rightarrow> int \<Rightarrow> bot_business_profile \<Rightarrow> timestamp \<Rightarrow>
   (exc, 'x shop_db_scheme, fulfillment_attempt) step" where
  "run_attempt env db ord attempt recipient attempt_number profile now =
     (let ord' = (if o_status ord = OrderStatus.PAID then ord\<lparr>o_status := OrderStatus.PROCESSING\<rparr> else ord);
          db = notify (to_notice FULFILLMENT_STARTED ord' recipient) (put_order ord' db);
          items = items_of db (o_id ord)
      in case items of
           [] \<Rightarrow>
             let attempt = attempt\<lparr>fa_status := FulfillmentStatus.FAILED, fa_error_classification := Some ''EMPTY_ORDER_ITEMS'',
                   fa_completed_at := Some now\<rparr>
             in (put_attempt attempt db, Inr attempt)
         | primary_item # _ \<Rightarrow>
             let attempt = attempt\<lparr>fa_order_item_id := Some (oi_id primary_item)\<rparr>
             in (case fulfill env (put_attempt attempt db) ord' attempt items recipient profile now of
                   (db, Inr a) \<Rightarrow> (db, Inr a)
                 | (db, Inl e) \<Rightarrow>
                     (fulfillment_failed env db ord' (fa_id attempt) attempt_number recipient e now, Inl (as_provider_error e))))"

definition execute_order_fulfillment ::
  "'e supply_env_scheme \<Rightarrow> 'x shop_db_scheme \<Rightarrow> uuid \<Rightarrow> str \<Rightarrow> int \<Rightarrow> timestamp \<Rightarrow> (exc, 'x shop_db_scheme, fulfillment_attempt) step" where
  "execute_order_fulfillment env db order_id recipient attempt_number now =
     (case scalar_one_or_none (\<lambda>o1. o_id o1 = order_id) (orders db) of
        Inl e \<Rightarrow> (db, Inl (OtherExc e None))
      | Inr None \<Rightarrow> (db, Inl (OtherExc ValueError None))
      | Inr (Some ord) \<Rightarrow>
          (case scalar_one_or_none (\<lambda>a. fa_idempotency_key a = attempt_key (o_id ord) attempt_number) (fulfillment_attempts db) of
             Inl e \<Rightarrow> (db, Inl (OtherExc e None))
           | Inr existing_attempt \<Rightarrow>
               (case existing_attempt of
                  Some a \<Rightarrow>
                    if fa_status a = FulfillmentStatus.SUCCEEDED then (db, Inr a)
                    else and_then (start_attempt db ord existing_attempt attempt_number now) (\<lambda>db attempt.
                           run_attempt env db ord attempt recipient attempt_number (fulfillment_profile env db ord) now)
                | None \<Rightarrow>
                    and_then (start_attempt db ord existing_attempt attempt_number now) (\<lambda>db attempt.
                      run_attempt env db ord attempt recipient attempt_number (fulfillment_profile env db ord) now))))"

end
