(* ===== verification/Fulfillment_Worker.thy ===== *)
theory Fulfillment_Worker
  imports Fulfillment
begin

text \<open>
  The durable job queue (\<open>packages/fulfillment/worker.py\<close>) and the operator's requeue of dead jobs
  (\<open>packages/fulfillment/operations.py\<close>). A job is a row of \<open>fulfillment_jobs\<close>; \<open>fulfillment_worker\<close> is the memory of one
  worker process: the jobs it has scheduled, the ids among them, and the jobs it gave up. Every operation
  that writes rows commits them. The pause before a retry is not modelled: time is an argument.
\<close>

section \<open>Jobs\<close>

record fulfillment_job =
  jb_order_id :: uuid
  jb_recipient :: str
  jb_attempt_number :: int
  jb_metadata :: "dict option"
  jb_job_id :: "uuid option"

record fulfillment_worker =
  fw_max_retries :: int
  fw_queue :: "fulfillment_job list"
  fw_dead_letter_queue :: "fulfillment_job list"
  fw_queued_job_ids :: "uuid list"

definition default_worker :: fulfillment_worker where
  "default_worker = \<lparr>fw_max_retries = 3, fw_queue = [], fw_dead_letter_queue = [], fw_queued_job_ids = []\<rparr>"

definition claim_job :: "'x shop_db_scheme \<Rightarrow> uuid \<Rightarrow> timestamp \<Rightarrow> 'x shop_db_scheme \<times> bool" where
  "claim_job db job_record_id now =
     (let claimable = (\<lambda>j. fj_id j = job_record_id \<and> fj_status j = FulfillmentJobStatus.QUEUED)
      in (db\<lparr>fulfillment_jobs := update_where claimable
              (\<lambda>j. j\<lparr>fj_status := FulfillmentJobStatus.RUNNING, fj_locked_at := Some now\<rparr>) (fulfillment_jobs db)\<rparr>,
          list_ex claimable (fulfillment_jobs db)))"

definition job_of_record :: "fulfillment_job_record \<Rightarrow> fulfillment_job" where
  "job_of_record rec = \<lparr>jb_order_id = fj_order_id rec, jb_recipient = fj_recipient rec, jb_attempt_number = fj_attempt_number rec,
     jb_metadata = Some (fj_payload rec), jb_job_id = Some (fj_id rec)\<rparr>"

definition stage_durable_job ::
  "'x shop_db_scheme \<Rightarrow> order \<Rightarrow> str \<Rightarrow> int \<Rightarrow> dict option \<Rightarrow> uuid option \<Rightarrow> timestamp \<Rightarrow> ('x shop_db_scheme, fulfillment_job) run" where
  "stage_durable_job db ord recipient attempt_number metadata job_id now =
     (let i = (case job_id of None \<Rightarrow> next_id db | Some j \<Rightarrow> j);
          job = \<lparr>jb_order_id = o_id ord, jb_recipient = recipient, jb_attempt_number = attempt_number,
                 jb_metadata = metadata, jb_job_id = Some i\<rparr>;
          rec = \<lparr>fj_id = i, fj_created_at = now, fj_tenant_id = o_tenant_id ord, fj_order_id = o_id ord,
                 fj_recipient = recipient, fj_attempt_number = attempt_number, fj_status = FulfillmentJobStatus.QUEUED,
                 fj_payload = (case metadata of None \<Rightarrow> [] | Some d \<Rightarrow> d), fj_last_error = None, fj_failure_classification = None,
                 fj_manual_requeue_count = 0, fj_last_requeued_at = None, fj_last_requeued_by = None, fj_locked_at = None,
                 fj_completed_at = None\<rparr>
      in if violates (\<lambda>_. True) fj_id (fulfillment_jobs db) rec then (db, Inl IntegrityError)
         else (db\<lparr>fulfillment_jobs := fulfillment_jobs db @ [rec],
                  next_id := (if job_id = None then Suc (next_id db) else next_id db)\<rparr>, Inr job))"

section \<open>The queue in memory\<close>

definition enqueue_persisted_job :: "fulfillment_worker \<Rightarrow> fulfillment_job \<Rightarrow> fulfillment_worker \<times> bool" where
  "enqueue_persisted_job wk job =
     (case jb_job_id job of
        None \<Rightarrow> (wk\<lparr>fw_queue := fw_queue wk @ [job]\<rparr>, True)
      | Some i \<Rightarrow>
          if i \<in> set (fw_queued_job_ids wk) then (wk, False)
          else (wk\<lparr>fw_queued_job_ids := List.insert i (fw_queued_job_ids wk), fw_queue := fw_queue wk @ [job]\<rparr>, True))"

definition enqueue ::
  "fulfillment_worker \<Rightarrow> 'x shop_db_scheme \<Rightarrow> uuid \<Rightarrow> str \<Rightarrow> int \<Rightarrow> dict option \<Rightarrow> bool \<Rightarrow> uuid option \<Rightarrow> timestamp \<Rightarrow>
   ('x shop_db_scheme, fulfillment_worker \<times> fulfillment_job) run" where
  "enqueue wk db order_id recipient attempt_number metadata persist_db job_id now =
     (if persist_db
      then case get_row o_id order_id (orders db) of
             None \<Rightarrow> (db, Inl RuntimeError)
           | Some ord \<Rightarrow>
               (case stage_durable_job db ord recipient attempt_number metadata job_id now of
                  (_, Inl _) \<Rightarrow> (db, Inl RuntimeError)
                | (db, Inr job) \<Rightarrow> (db, Inr (fst (enqueue_persisted_job wk job), job)))
      else
        let job = \<lparr>jb_order_id = order_id, jb_recipient = recipient, jb_attempt_number = attempt_number,
                   jb_metadata = metadata, jb_job_id = job_id\<rparr>
        in (db, Inr (fst (enqueue_persisted_job wk job), job)))"

fun enqueue_records :: "fulfillment_worker \<Rightarrow> fulfillment_job_record list \<Rightarrow> fulfillment_worker \<times> nat" where
  "enqueue_records wk [] = (wk, 0)"
| "enqueue_records wk (rec # recs) =
     (let (wk, scheduled) = enqueue_persisted_job wk (job_of_record rec); (wk, n) = enqueue_records wk recs
      in (wk, (if scheduled then Suc n else n)))"

definition poll_queued_jobs :: "fulfillment_worker \<Rightarrow> 'x shop_db_scheme \<Rightarrow> nat \<Rightarrow> fulfillment_worker \<times> nat" where
  "poll_queued_jobs wk db limit =
     enqueue_records wk
       (take limit (sort_key fj_created_at (filter (\<lambda>j. fj_status j = FulfillmentJobStatus.QUEUED) (fulfillment_jobs db))))"

definition abandoned :: "fulfillment_job_record \<Rightarrow> bool" where
  "abandoned j \<longleftrightarrow> fj_status j \<in> {FulfillmentJobStatus.QUEUED, FulfillmentJobStatus.RUNNING}"

definition recover_pending_jobs ::
  "fulfillment_worker \<Rightarrow> 'x shop_db_scheme \<Rightarrow> (fulfillment_worker \<times> 'x shop_db_scheme) \<times> nat" where
  "recover_pending_jobs wk db =
     (let recs = map (\<lambda>j. j\<lparr>fj_status := FulfillmentJobStatus.QUEUED\<rparr>) (filter abandoned (fulfillment_jobs db));
          (wk, count) = enqueue_records wk recs
      in ((wk, db\<lparr>fulfillment_jobs := update_where abandoned (\<lambda>j. j\<lparr>fj_status := FulfillmentJobStatus.QUEUED\<rparr>) (fulfillment_jobs db)\<rparr>), count))"

section \<open>Running a job\<close>

text \<open>\<open>if rec_id: rec = await session.get(...); if rec: ...; await session.commit()\<close>\<close>

definition update_record ::
  "uuid option \<Rightarrow> (fulfillment_job_record \<Rightarrow> fulfillment_job_record) \<Rightarrow> 'x shop_db_scheme \<Rightarrow> 'x shop_db_scheme" where
  "update_record rec_id f db =
     (case rec_id of
        None \<Rightarrow> db
      | Some i \<Rightarrow> (case get_row fj_id i (fulfillment_jobs db) of None \<Rightarrow> db | Some rec \<Rightarrow> put_job (f rec) db))"

definition job_completed :: "timestamp \<Rightarrow> fulfillment_job_record \<Rightarrow> fulfillment_job_record" where
  "job_completed now rec = rec\<lparr>fj_status := FulfillmentJobStatus.COMPLETED, fj_completed_at := Some now\<rparr>"

definition job_requeued :: "int \<Rightarrow> str \<Rightarrow> str \<Rightarrow> fulfillment_job_record \<Rightarrow> fulfillment_job_record" where
  "job_requeued attempt_number msg name rec =
     rec\<lparr>fj_status := FulfillmentJobStatus.QUEUED, fj_attempt_number := attempt_number, fj_last_error := Some msg,
         fj_failure_classification := Some name\<rparr>"

definition job_dead :: "str \<Rightarrow> str \<Rightarrow> fulfillment_job_record \<Rightarrow> fulfillment_job_record" where
  "job_dead msg name rec =
     rec\<lparr>fj_status := FulfillmentJobStatus.DEAD_LETTER, fj_last_error := Some msg, fj_failure_classification := Some name\<rparr>"

definition latest_queued :: "'x shop_db_scheme \<Rightarrow> uuid \<Rightarrow> uuid option" where
  "latest_queued db order_id =
     map_option fj_id (first_by (\<lambda>j. - fj_created_at j)
       (filter (\<lambda>j. fj_order_id j = order_id \<and> fj_status j = FulfillmentJobStatus.QUEUED) (fulfillment_jobs db)))"

definition run_job ::
  "'e supply_env_scheme \<Rightarrow> fulfillment_worker \<Rightarrow> 'x shop_db_scheme \<Rightarrow> fulfillment_job \<Rightarrow> uuid option \<Rightarrow> timestamp \<Rightarrow>
   (fulfillment_worker \<times> 'x shop_db_scheme) \<times> fulfillment_attempt option" where
  "run_job env wk db job rec_id now =
     (case execute_order_fulfillment env db (jb_order_id job) (jb_recipient job) (jb_attempt_number job) now of
        (db, Inr attempt) \<Rightarrow> ((wk, update_record rec_id (job_completed now) db), Some attempt)
      | (db, Inl e) \<Rightarrow>
          if is_provider_error e \<and> is_retryable e \<and> jb_attempt_number job < fw_max_retries wk
          then let job' = job\<lparr>jb_attempt_number := jb_attempt_number job + 1, jb_job_id := rec_id\<rparr>
               in ((fst (enqueue_persisted_job wk job'),
                    update_record rec_id (job_requeued (jb_attempt_number job + 1) (env_exc_str env e) (exc_name e)) db), None)
          else ((wk\<lparr>fw_dead_letter_queue := fw_dead_letter_queue wk @ [job]\<rparr>,
                 update_record rec_id (job_dead (env_exc_str env e) (exc_name e)) db), None))"

definition process_job ::
  "'e supply_env_scheme \<Rightarrow> fulfillment_worker \<Rightarrow> 'x shop_db_scheme \<Rightarrow> fulfillment_job \<Rightarrow> timestamp \<Rightarrow>
   (fulfillment_worker \<times> 'x shop_db_scheme) \<times> fulfillment_attempt option" where
  "process_job env wk db job now =
     (case (case jb_job_id job of Some i \<Rightarrow> Some i | None \<Rightarrow> latest_queued db (jb_order_id job)) of
        None \<Rightarrow> run_job env wk db job None now
      | Some i \<Rightarrow>
          (let (db, claimed) = claim_job db i now
           in if \<not> claimed then ((wk, db), None) else run_job env wk db job (Some i) now))"

text \<open>One turn of \<open>_run_loop\<close>: take the first scheduled job, or look for durable ones when there is none.\<close>

definition take_job :: "fulfillment_worker \<Rightarrow> fulfillment_job \<Rightarrow> fulfillment_job list \<Rightarrow> fulfillment_worker" where
  "take_job wk job rest =
     wk\<lparr>fw_queue := rest,
        fw_queued_job_ids := (case jb_job_id job of None \<Rightarrow> fw_queued_job_ids wk | Some i \<Rightarrow> removeAll i (fw_queued_job_ids wk))\<rparr>"

definition run_loop_turn ::
  "'e supply_env_scheme \<Rightarrow> fulfillment_worker \<times> 'x shop_db_scheme \<Rightarrow> timestamp \<Rightarrow> fulfillment_worker \<times> 'x shop_db_scheme" where
  "run_loop_turn env state now =
     (let (wk, db) = state in
      case fw_queue wk of
        [] \<Rightarrow> (fst (poll_queued_jobs wk db 100), db)
      | job # rest \<Rightarrow> fst (process_job env (take_job wk job rest) db job now))"

definition process_one_now ::
  "'e supply_env_scheme \<Rightarrow> fulfillment_worker \<times> 'x shop_db_scheme \<Rightarrow> timestamp \<Rightarrow>
   (fulfillment_worker \<times> 'x shop_db_scheme) \<times> fulfillment_attempt option" where
  "process_one_now env state now =
     (let (wk, db) = state in
      case fw_queue wk of
        [] \<Rightarrow> (state, None)
      | job # rest \<Rightarrow> process_job env (take_job wk job rest) db job now)"

section \<open>Requeue by an operator\<close>

record requeue_decision =
  rq_allowed :: bool
  rq_reason_code :: str
  rq_next_attempt_number :: "int option"

definition refuse :: "str \<Rightarrow> requeue_decision" where
  "refuse reason_code = \<lparr>rq_allowed = False, rq_reason_code = reason_code, rq_next_attempt_number = None\<rparr>"

definition latest_fulfillment_attempt ::
  "'x shop_db_scheme \<Rightarrow> uuid \<Rightarrow> uuid \<Rightarrow> fulfillment_attempt option" where
  "latest_fulfillment_attempt db tenant_id order_id =
     first_by (\<lambda>a. (- fa_attempt_number a, - fa_created_at a))
       (filter (\<lambda>a. fa_tenant_id a = tenant_id \<and> fa_order_id a = order_id) (fulfillment_attempts db))"

definition order_has_fulfillment_refund :: "'x ledger_db_scheme \<Rightarrow> uuid \<Rightarrow> uuid \<Rightarrow> bool" where
  "order_has_fulfillment_refund db tenant_id order_id =
     list_ex (\<lambda>t. lt_tenant_id t = tenant_id \<and> lt_transaction_type t = TransactionType.REFUND \<and>
        lt_reference_type t = Some CANONICAL_REFUND_TYPE \<and> lt_reference_id t = Some (str_uuid order_id)) (ledger db)"

text \<open>\<open>bool((payload or {}).get("retryable"))\<close>; what is not a dictionary has no \<open>get\<close>.\<close>

definition payload_retryable :: "json \<Rightarrow> bool res" where
  "payload_retryable payload =
     (if \<not> json_truthy payload then Inr False
      else case payload of JObj d \<Rightarrow> Inr (json_truthy (dict_get d ''retryable'' JNull)) | _ \<Rightarrow> Inl AttributeError)"

text \<open>The checks of the latest attempt; \<open>None\<close> when none of them refuses.\<close>

definition attempt_refusal :: "fulfillment_attempt \<Rightarrow> requeue_decision option res" where
  "attempt_refusal latest =
     (if truthy (fa_external_order_id latest) then Inr (Some (refuse ''EXTERNAL_ORDER_EXISTS''))
      else if fa_status latest = FulfillmentStatus.UNKNOWN then Inr (Some (refuse ''ATTEMPT_STATUS_UNKNOWN''))
      else if fa_status latest \<in> {FulfillmentStatus.SUCCEEDED, FulfillmentStatus.PROCESSING}
      then Inr (Some (refuse ''ATTEMPT_ACTIVE_OR_SUCCEEDED''))
      else if fa_status latest = FulfillmentStatus.FAILED
      then res_bind (payload_retryable (fa_response_payload latest)) (\<lambda>retryable.
             Inr (if \<not> retryable then Some (refuse ''PERMANENT_PROVIDER_FAILURE'') else None))
      else Inr None)"

definition evaluate_manual_requeue ::
  "'x shop_db_scheme \<Rightarrow> uuid \<Rightarrow> fulfillment_job_record \<Rightarrow> requeue_decision res" where
  "evaluate_manual_requeue db tenant_id job =
     (if fj_tenant_id job \<noteq> tenant_id then Inr (refuse ''TENANT_MISMATCH'')
      else if fj_status job \<noteq> FulfillmentJobStatus.DEAD_LETTER then Inr (refuse ''JOB_NOT_DEAD_LETTER'')
      else case first_row (\<lambda>ord. o_id ord = fj_order_id job \<and> o_tenant_id ord = tenant_id) (orders db) of
        None \<Rightarrow> Inr (refuse ''ORDER_NOT_FOUND'')
      | Some ord \<Rightarrow>
          if o_status ord \<notin> {OrderStatus.PAID, OrderStatus.PROCESSING} then Inr (refuse ''ORDER_TERMINAL_OR_UNSAFE'')
          else if order_has_fulfillment_refund db tenant_id (o_id ord) then Inr (refuse ''ORDER_ALREADY_REFUNDED'')
          else
            let latest = latest_fulfillment_attempt db tenant_id (o_id ord);
                next = max (fj_attempt_number job) (case latest of None \<Rightarrow> 0 | Some a \<Rightarrow> fa_attempt_number a) + 1
            in res_bind (case latest of None \<Rightarrow> Inr None | Some a \<Rightarrow> attempt_refusal a) (\<lambda>refusal.
                 Inr (case refusal of
                        Some d \<Rightarrow> d
                      | None \<Rightarrow> \<lparr>rq_allowed = True, rq_reason_code = ''SAFE_TO_REQUEUE'', rq_next_attempt_number = Some next\<rparr>)))"

definition requeued_by_operator :: "int \<Rightarrow> uuid \<Rightarrow> timestamp \<Rightarrow> fulfillment_job_record \<Rightarrow> fulfillment_job_record" where
  "requeued_by_operator next_attempt actor_user_id now job =
     job\<lparr>fj_status := FulfillmentJobStatus.QUEUED, fj_attempt_number := next_attempt, fj_locked_at := None,
         fj_completed_at := None, fj_last_error := None, fj_failure_classification := None,
         fj_manual_requeue_count := fj_manual_requeue_count job + 1, fj_last_requeued_at := Some now,
         fj_last_requeued_by := Some actor_user_id\<rparr>"

definition requeue_dead_letter_job ::
  "'x shop_db_scheme \<Rightarrow> uuid \<Rightarrow> uuid \<Rightarrow> uuid \<Rightarrow> timestamp \<Rightarrow> ('x shop_db_scheme, fulfillment_job_record \<times> requeue_decision) run" where
  "requeue_dead_letter_job db tenant_id job_id actor_user_id now =
     lift_res db (scalar_one_or_none (\<lambda>j. fj_id j = job_id \<and> fj_tenant_id j = tenant_id) (fulfillment_jobs db)) (\<lambda>db found.
     case found of
       None \<Rightarrow> (db, Inl (FulfillmentOperationError ''JOB_NOT_FOUND''))
     | Some job \<Rightarrow>
         lift_res db (evaluate_manual_requeue db tenant_id job) (\<lambda>db decision.
         case rq_next_attempt_number decision of
           None \<Rightarrow> (db, Inl (FulfillmentOperationError (rq_reason_code decision)))
         | Some next \<Rightarrow>
             if \<not> rq_allowed decision then (db, Inl (FulfillmentOperationError (rq_reason_code decision)))
             else
               let dead = (\<lambda>j. fj_id j = fj_id job \<and> fj_tenant_id j = tenant_id \<and> fj_status j = FulfillmentJobStatus.DEAD_LETTER)
               in if \<not> list_ex dead (fulfillment_jobs db) then (db, Inl (FulfillmentOperationError ''JOB_ALREADY_CHANGED''))
                  else
                    let db = db\<lparr>fulfillment_jobs := update_where dead (requeued_by_operator next actor_user_id now) (fulfillment_jobs db)\<rparr>
                    in (case first_row (\<lambda>j. fj_id j = fj_id job \<and> fj_tenant_id j = tenant_id) (fulfillment_jobs db) of
                          None \<Rightarrow> (db, Inl AssertionError)
                        | Some refreshed \<Rightarrow> (db, Inr (refreshed, decision)))))"

end
