(* ===== verification/Fulfillment_Laws.thy ===== *)
theory Fulfillment_Laws
  imports Fulfillment
begin

text \<open>
  What fulfilment leaves alone and what it does to money. Buying from suppliers touches neither the
  ledger nor the orders (\<open>supply_core\<close>); only the outcome of an attempt does.
\<close>

section \<open>Frames\<close>

definition supply_core :: "'x shop_db_scheme \<Rightarrow> 'x shop_db_scheme" where
  "supply_core db = db\<lparr>dispatched := [], providers := [], item_economics := [], fulfillment_attempts := [], notices := []\<rparr>"

lemma supply_core_updates [simp]:
  "supply_core (db\<lparr>dispatched := d\<rparr>) = supply_core db"
  "supply_core (put_provider p db) = supply_core db"
  "supply_core (put_attempt a db) = supply_core db"
  "supply_core (notify x db) = supply_core db"
  "supply_core (db\<lparr>item_economics := e\<rparr>) = supply_core db"
  by (simp_all add: supply_core_def put_provider_def put_attempt_def notify_def)

lemma notify_frame [simp]:
  "orders (notify x db) = orders db" "wallets (notify x db) = wallets db" "ledger (notify x db) = ledger db"
  "holds (notify x db) = holds db" "next_id (notify x db) = next_id db" "notices (notify x db) = notices db @ [x]"
  "balance_of (notify x db) = balance_of db" "order_items (notify x db) = order_items db"
  "fulfillment_jobs (notify x db) = fulfillment_jobs db" "dispatched (notify x db) = dispatched db"
  by (simp_all add: notify_def balance_of_def fun_eq_iff)

lemma put_attempt_frame [simp]:
  "orders (put_attempt a db) = orders db" "wallets (put_attempt a db) = wallets db" "ledger (put_attempt a db) = ledger db"
  "holds (put_attempt a db) = holds db" "next_id (put_attempt a db) = next_id db" "notices (put_attempt a db) = notices db"
  "balance_of (put_attempt a db) = balance_of db" "order_items (put_attempt a db) = order_items db"
  "fulfillment_attempts (put_attempt a db) = put_row fa_id a (fulfillment_attempts db)"
  "fulfillment_jobs (put_attempt a db) = fulfillment_jobs db" "dispatched (put_attempt a db) = dispatched db"
  by (simp_all add: put_attempt_def balance_of_def fun_eq_iff)

lemma put_order_shop [simp]:
  "order_items (put_order ord db) = order_items db" "notices (put_order ord db) = notices db"
  "fulfillment_jobs (put_order ord db) = fulfillment_jobs db" "dispatched (put_order ord db) = dispatched db"
  by (simp_all add: put_order_def)

lemma supply_core_eqD:
  assumes "supply_core db' = supply_core db"
  shows "wallets db' = wallets db" "ledger db' = ledger db" "holds db' = holds db" "next_id db' = next_id db"
    "orders db' = orders db" "order_items db' = order_items db" "product_variants db' = product_variants db"
    "bots db' = bots db" "fulfillment_jobs db' = fulfillment_jobs db"
  using arg_cong [OF assms, of wallets] arg_cong [OF assms, of ledger] arg_cong [OF assms, of holds]
    arg_cong [OF assms, of next_id] arg_cong [OF assms, of orders] arg_cong [OF assms, of order_items]
    arg_cong [OF assms, of product_variants] arg_cong [OF assms, of bots] arg_cong [OF assms, of fulfillment_jobs]
  by (simp_all add: supply_core_def)

lemma ledger_same:
  assumes "wallets db' = wallets db" and "ledger db' = ledger db" and "holds db' = holds db" and "next_id db' = next_id db"
  shows "ledger_inv db' = ledger_inv db" and "balance_of db' = balance_of db" and "find_entry db' = find_entry db"
  using assms by (simp_all add: ledger_inv_def entries_def balance_of_def find_entry_def fun_eq_iff)

lemma attribute_actual_cost_core [simp]:
  "supply_core (fst (attribute_actual_cost db i p c cur now)) = supply_core db"
  by (simp add: attribute_actual_cost_def Let_def split: option.splits)

lemma attempts_frame [simp]:
  "fulfillment_attempts (put_provider p db) = fulfillment_attempts db"
  "fulfillment_attempts (fst (attribute_actual_cost db i q c cur now)) = fulfillment_attempts db"
  "fulfillment_attempts (notify x db) = fulfillment_attempts db"
  "fulfillment_attempts (put_order ord db) = fulfillment_attempts db"
  by (simp_all add: put_provider_def notify_def put_order_def attribute_actual_cost_def Let_def split: option.splits)

lemma route_loop_core:
  "supply_core (fst (route_loop env db ms q r k ps le)) = supply_core db \<and>
   fulfillment_attempts (fst (route_loop env db ms q r k ps le)) = fulfillment_attempts db"
proof (induction ms arbitrary: db le)
  case (Cons m ms)
  then show ?case
    by (auto simp: Let_def lift_res_def split: option.splits sum.splits)
qed simp

lemma route_core:
  "supply_core (fst (route_and_execute_order env db n pid q r k v ps opts now)) = supply_core db \<and>
   fulfillment_attempts (fst (route_and_execute_order env db n pid q r k v ps opts now)) = fulfillment_attempts db"
  by (auto simp: route_and_execute_order_def lift_res_def route_loop_core split: sum.splits)

text \<open>While the items are bought the attempt row may only be rewritten as a whole, keeping its key.\<close>

definition attempts_kept :: "fulfillment_attempt \<Rightarrow> 'x shop_db_scheme \<Rightarrow> 'x shop_db_scheme \<Rightarrow> bool" where
  "attempts_kept a db db' \<longleftrightarrow> fulfillment_attempts db' = fulfillment_attempts db \<or>
     (\<exists>a'. fa_id a' = fa_id a \<and> fa_idempotency_key a' = fa_idempotency_key a \<and>
        fulfillment_attempts db' = put_row fa_id a' (fulfillment_attempts db))"

lemma buy_items_core:
  "supply_core (fst (buy_items env db ord a r opts n items acc now)) = supply_core db \<and>
   attempts_kept a db (fst (buy_items env db ord a r opts n items acc now))"
proof (induction items arbitrary: db acc)
  case Nil
  then show ?case by (simp add: attempts_kept_def)
next
  case (Cons item rest)
  let ?route = "\<lambda>pid. route_and_execute_order env db (o_tenant_id ord) pid (oi_quantity item) r
    (item_key (fa_idempotency_key a) n item) (Some (oi_product_variant_id item)) [] opts now"
  have core: "supply_core (fst (?route pid)) = supply_core db" and
    att: "fulfillment_attempts (fst (?route pid)) = fulfillment_attempts db" for pid
    using route_core by blast+
  have att': "attempts_kept a db db2" if "attempts_kept a db1 db2" "fulfillment_attempts db1 = fulfillment_attempts db" for db1 db2
    using that by (simp add: attempts_kept_def)
  show ?case
  proof (cases "product_of_variant db (oi_product_variant_id item)")
    case None
    then show ?thesis by (simp add: attempts_kept_def)
  next
    case (Some pid)
    obtain db1 res where route: "?route pid = (db1, res)" by (cases "?route pid")
    have c1: "supply_core db1 = supply_core db" "fulfillment_attempts db1 = fulfillment_attempts db"
      using core [of pid] att [of pid] route by simp_all
    show ?thesis
    proof (cases res)
      case (Inl e)
      then show ?thesis using Some route c1 by (simp add: attempts_kept_def)
    next
      case (Inr x)
      obtain p m resp where x: "x = (p, m, resp)" by (cases x)
      let ?db2 = "if os_canonical_state resp = ProviderOrderState.COMPLETED
        then fst (attribute_actual_cost db1 (oi_id item) (Some (pr_id p)) (os_cost resp) (upper (mp_cost_currency m)) now) else db1"
      have c2: "supply_core ?db2 = supply_core db" "fulfillment_attempts ?db2 = fulfillment_attempts db"
        using c1 by simp_all
      show ?thesis
      proof (cases "os_canonical_state resp \<in> set failed_states")
        case True
        let ?a = "a\<lparr>fa_provider_id := Some (pr_id p), fa_external_order_id := Some (os_external_order_id resp),
          fa_response_payload := response_payload resp\<rparr>"
        have "attempts_kept a db (put_attempt ?a ?db2)"
          unfolding attempts_kept_def using c2(2) by (intro disjI2 exI [of _ ?a]) (simp add: put_attempt_def)
        then show ?thesis
          using True Some route Inr x c2(1) by (simp add: Let_def)
      next
        case False
        then show ?thesis
          using Some route Inr x c2 Cons.IH [of ?db2 "add_purchase acc p (upper (mp_cost_currency m)) resp"] att' [of ?db2]
          by (simp add: Let_def)
      qed
    qed
  qed
qed

section \<open>The refund of an order\<close>

definition order_account :: "order \<Rightarrow> uuid \<times> uuid \<times> str" where
  "order_account ord = (o_tenant_id ord, o_user_id ord, o_currency ord)"

definition not_refunded :: "'x ledger_db_scheme \<Rightarrow> order \<Rightarrow> bool" where
  "not_refunded db ord \<longleftrightarrow> (\<forall>w \<in> set (wallets db). wallet_key w = order_account ord \<longrightarrow>
     find_entry db (w_id w) TransactionType.REFUND CANONICAL_REFUND_TYPE (str_uuid (o_id ord)) = None)"

lemma pay_back_effect:
  assumes inv: "ledger_inv db" and a: "0 < o_total_amount ord" and none: "not_refunded db ord"
  shows "\<exists>db0 w db1 t. get_or_create_wallet db (o_tenant_id ord) (o_user_id ord) (o_currency ord) = (db0, Inr w) \<and>
    refund db0 w (o_total_amount ord) (Some (str_uuid (o_id ord))) (Some CANONICAL_REFUND_TYPE) (Some d) now = (db1, Inr t) \<and>
    ledger_inv db1 \<and> ledger_db.more db1 = ledger_db.more db \<and>
    balance_of db1 = (balance_of db)(order_account ord := balance_of db (order_account ord) + o_total_amount ord)"
proof -
  obtain db0 w where g: "get_or_create_wallet db (o_tenant_id ord) (o_user_id ord) (o_currency ord) = (db0, Inr w)"
    using get_or_create_wallet_total [OF inv] by blast
  note f = get_or_create_wallet_InrD [OF inv g]
  have key: "wallet_key w = order_account ord" using f(3) by (simp add: order_account_def)
  have n0: "find_entry db0 (w_id w) TransactionType.REFUND CANONICAL_REFUND_TYPE (str_uuid (o_id ord)) = None"
    using inv
  proof (cases rule: get_or_create_wallet_cases [of db "o_tenant_id ord" "o_user_id ord" "o_currency ord"])
    case (found v)
    then show ?thesis using g none by (auto simp: not_refunded_def order_account_def)
  next
    case (created v)
    then have "w_id w = next_id db" "ledger db0 = ledger db" using g f(4) by auto
    then show ?thesis
      using entries_new_wallet [OF inv] by (auto simp: find_entry_def first_row_None_iff entries_def filter_empty_conv)
  qed
  have ne: "CANONICAL_REFUND_TYPE \<noteq> []" by (simp add: reference_type_defs)
  obtain db1 t where r: "refund db0 w (o_total_amount ord) (Some (str_uuid (o_id ord))) (Some CANONICAL_REFUND_TYPE) (Some d) now = (db1, Inr t)"
      and b: "books now db0 db1 t"
      and bal: "balance_of db1 = (balance_of db0)(wallet_key w := balance_of db0 (wallet_key w) + o_total_amount ord)"
    using refund_fresh [OF f(1,2) a str_uuid_nonempty ne n0] by blast
  have "ledger_inv db1" using b f(1) by (rule books_keeps_inv [rotated])
  moreover have "ledger_db.more db1 = ledger_db.more db" using books_more [OF b] f(6) by simp
  moreover have "balance_of db1 = (balance_of db)(order_account ord := balance_of db (order_account ord) + o_total_amount ord)"
    using bal balance_of_get_or_create [OF inv g] key by simp
  ultimately show ?thesis using g r by blast
qed

lemma refund_order_effect:
  assumes "ledger_inv db" and "0 < o_total_amount ord" and "not_refunded db ord"
  shows "\<exists>db1. ledger_inv db1 \<and> ledger_db.more db1 = ledger_db.more db \<and>
    balance_of db1 = (balance_of db)(order_account ord := balance_of db (order_account ord) + o_total_amount ord) \<and>
    refund_order db ord d now =
      (case OrderStateMachine_transition ord OrderStatus.FAILED of Inl e \<Rightarrow> (db1, Inl e) | Inr o' \<Rightarrow> (put_order o' db1, Inr ()))"
proof -
  obtain db0 w db1 t where g: "get_or_create_wallet db (o_tenant_id ord) (o_user_id ord) (o_currency ord) = (db0, Inr w)"
      and r: "refund db0 w (o_total_amount ord) (Some (str_uuid (o_id ord))) (Some CANONICAL_REFUND_TYPE) (Some d) now = (db1, Inr t)"
      and e: "ledger_inv db1" "ledger_db.more db1 = ledger_db.more db"
        "balance_of db1 = (balance_of db)(order_account ord := balance_of db (order_account ord) + o_total_amount ord)"
    using pay_back_effect [OF assms] by blast
  have "refund_order db ord d now =
      (case OrderStateMachine_transition ord OrderStatus.FAILED of Inl e \<Rightarrow> (db1, Inl e) | Inr o' \<Rightarrow> (put_order o' db1, Inr ()))"
    by (simp add: refund_order_def g r lift_res_def)
  then show ?thesis using e by blast
qed

section \<open>A failed attempt\<close>

definition attempt_status :: "'x shop_db_scheme \<Rightarrow> uuid \<Rightarrow> (str \<times> FulfillmentStatus) option" where
  "attempt_status db i = map_option (\<lambda>a. (fa_idempotency_key a, fa_status a)) (get_row fa_id i (fulfillment_attempts db))"

definition paid_back :: "'x shop_db_scheme \<Rightarrow> 'x shop_db_scheme \<Rightarrow> order \<Rightarrow> bool" where
  "paid_back db db' ord \<longleftrightarrow>
     balance_of db' = (balance_of db)(order_account ord := balance_of db (order_account ord) + o_total_amount ord)"

lemma fulfillment_failed_effect:
  assumes inv: "ledger_inv db" and a: "0 < o_total_amount ord" and none: "not_refunded db ord"
    and att: "get_row fa_id i (fulfillment_attempts db) = Some a"
    and db': "db' = fulfillment_failed env db ord i n r e now"
  shows "if retryable_failure e \<and> n < 3
    then wallets db' = wallets db \<and> ledger db' = ledger db \<and> orders db' = orders db \<and>
         attempt_status db' i = Some (fa_idempotency_key a, if timeout_failure e then FulfillmentStatus.UNKNOWN else FulfillmentStatus.RETRYING)
    else paid_back db db' ord \<and> attempt_status db' i = Some (fa_idempotency_key a, FulfillmentStatus.FAILED) \<and>
         (case OrderStateMachine_transition ord OrderStatus.FAILED of
            Inl _ \<Rightarrow> orders db' = orders db \<and> last (notices db') = to_notice FULFILLMENT_FAILED ord r
          | Inr o' \<Rightarrow> orders db' = put_row o_id o' (orders db) \<and> last (notices db') = to_notice ORDER_REFUNDED ord r)"
proof -
  have id: "fa_id a = i" using get_row_Some [OF att] by simp
  let ?a = "a\<lparr>fa_error_classification := Some (exc_name e),
    fa_response_payload := JObj [(''error'', JStr (env_exc_str env e)), (''retryable'', JBool (retryable_failure e))],
    fa_completed_at := Some now\<rparr>"
  show ?thesis
  proof (cases "retryable_failure e \<and> n < 3")
    case True
    then show ?thesis
      using att id
      by (auto simp: db' fulfillment_failed_def Let_def notify_def put_attempt_def attempt_status_def get_row_put_row)
  next
    case False
    let ?db = "put_attempt (?a\<lparr>fa_status := FulfillmentStatus.FAILED\<rparr>) db"
    have same: "wallets ?db = wallets db" "ledger ?db = ledger db" "holds ?db = holds db" "next_id ?db = next_id db"
      "orders ?db = orders db"
      by (simp_all add: put_attempt_def)
    note l = ledger_same [OF same(1-4)]
    have st: "get_row fa_id i (fulfillment_attempts ?db) = Some (?a\<lparr>fa_status := FulfillmentStatus.FAILED\<rparr>)"
      using att id by (simp add: put_attempt_def get_row_put_row)
    have inv': "ledger_inv ?db" using inv l by simp
    have none': "not_refunded ?db ord" using none by (simp add: not_refunded_def l same)
    obtain db1 where d: "ledger_db.more db1 = ledger_db.more ?db"
        "balance_of db1 = (balance_of ?db)(order_account ord := balance_of ?db (order_account ord) + o_total_amount ord)"
        "refund_order ?db ord (''Automated refund for unfulfilled order #'' @ o_order_number ord) now =
          (case OrderStateMachine_transition ord OrderStatus.FAILED of Inl e \<Rightarrow> (db1, Inl e) | Inr o' \<Rightarrow> (put_order o' db1, Inr ()))"
      using refund_order_effect [of ?db ord] inv' a none' by blast
    have att1: "get_row fa_id i (fulfillment_attempts db1) = Some (?a\<lparr>fa_status := FulfillmentStatus.FAILED\<rparr>)"
      using shop_tables_eq(3) [OF d(1)] st by simp
    have o1: "orders db1 = orders db" using pay_tables_eq(5) [OF d(1)] same(5) by simp
    have res: "db' = (case OrderStateMachine_transition ord OrderStatus.FAILED of
        Inl _ \<Rightarrow> notify (to_notice FULFILLMENT_FAILED ord r) db1 | Inr o' \<Rightarrow> notify (to_notice ORDER_REFUNDED ord r) (put_order o' db1))"
      unfolding db' fulfillment_failed_def att option.case Let_def if_not_P [OF False] d(3)
      by (simp split: sum.splits)
    have bal: "balance_of db1 = (balance_of db)(order_account ord := balance_of db (order_account ord) + o_total_amount ord)"
      using d(2) unfolding l .
    show ?thesis
      unfolding if_not_P [OF False] res paid_back_def attempt_status_def
      using att1 by (simp add: bal o1 split: sum.splits)
  qed
qed

section \<open>What the suppliers answered\<close>

lemma buy_items_Inr:
  assumes "buy_items env db ord a r opts n items acc now = (db', Inr acc')"
  shows "\<exists>rs. pu_responses acc' = pu_responses acc @ rs \<and> length rs = length items \<and>
    (\<forall>x \<in> set rs. os_canonical_state x \<notin> set failed_states)"
  using assms
proof (induction items arbitrary: db acc)
  case (Cons item rest)
  from Cons.prems obtain p and m :: provider_product_mapping and resp db2 where
    nf: "os_canonical_state resp \<notin> set failed_states" and
    rec: "buy_items env db2 ord a r opts n rest (add_purchase acc p (upper (mp_cost_currency m)) resp) now = (db', Inr acc')"
    by (auto simp: Let_def and_then_def split: option.splits prod.splits sum.splits if_splits)
  obtain rs where "pu_responses acc' = pu_responses (add_purchase acc p (upper (mp_cost_currency m)) resp) @ rs"
      "length rs = length rest" "\<forall>x \<in> set rs. os_canonical_state x \<notin> set failed_states"
    using Cons.IH [OF rec] by blast
  then show ?case using nf by (intro exI [of _ "resp # rs"]) (simp add: add_purchase_def Let_def)
qed simp

definition all_completed :: "provider_order_response list \<Rightarrow> bool" where
  "all_completed rs \<longleftrightarrow> list_all (\<lambda>x. os_canonical_state x = ProviderOrderState.COMPLETED) rs"

definition answers_payload :: "provider_order_response list \<Rightarrow> json" where
  "answers_payload rs = (if length rs = 1 then response_payload (hd rs) else JList (map response_payload rs))"

lemma purchased_attempt_keeps [simp]:
  "fa_id (purchased_attempt a acc) = fa_id a" "fa_idempotency_key (purchased_attempt a acc) = fa_idempotency_key a"
  "fa_response_payload (purchased_attempt a acc) = answers_payload (pu_responses acc)"
  by (simp_all add: purchased_attempt_def answers_payload_def)

lemma pending_attempt_keeps [simp]:
  "fa_id (pending_attempt a acc x) = fa_id a" "fa_idempotency_key (pending_attempt a acc x) = fa_idempotency_key a"
  "fa_response_payload (pending_attempt a acc x) = fa_response_payload a"
  "fa_status (pending_attempt a acc x) \<in> {FulfillmentStatus.UNKNOWN, FulfillmentStatus.PROCESSING}"
  by (simp_all add: pending_attempt_def)

definition holds_attempt :: "'x shop_db_scheme \<Rightarrow> fulfillment_attempt \<Rightarrow> bool" where
  "holds_attempt db a \<longleftrightarrow> (\<exists>b. get_row fa_id (fa_id a) (fulfillment_attempts db) = Some b \<and> fa_idempotency_key b = fa_idempotency_key a)"

lemma holds_attempt_put [simp]:
  "fa_id a = fa_id b \<Longrightarrow> fa_idempotency_key a = fa_idempotency_key b \<Longrightarrow> holds_attempt db b \<Longrightarrow> holds_attempt (put_attempt a db) b"
  by (auto simp: holds_attempt_def put_attempt_def get_row_put_row)

lemma get_put_attempt:
  "holds_attempt db b \<Longrightarrow> fa_id a = fa_id b \<Longrightarrow> get_row fa_id (fa_id b) (fulfillment_attempts (put_attempt a db)) = Some a"
  by (auto simp: holds_attempt_def put_attempt_def get_row_put_row)

lemma attempts_kept_holds: "attempts_kept a db db' \<Longrightarrow> holds_attempt db a \<Longrightarrow> holds_attempt db' a"
  by (auto simp: attempts_kept_def holds_attempt_def get_row_put_row)

lemma holds_attempt_frame [simp]:
  "holds_attempt (notify x db) a = holds_attempt db a" "holds_attempt (put_order ord db) a = holds_attempt db a"
  by (simp_all add: holds_attempt_def)

lemma fulfill_Inl:
  assumes "fulfill env db ord a items r p now = (db', Inl e)" and held: "holds_attempt db a"
  shows "supply_core db' = supply_core db \<and> holds_attempt db' a"
proof -
  let ?b = "buy_items env db ord a r (profile_options p) (length items) items no_purchases now"
  obtain db1 res where b: "?b = (db1, res)" by (cases ?b)
  have "supply_core db1 = supply_core db" "holds_attempt db1 a"
    using buy_items_core [of env db ord a r "profile_options p" "length items" items no_purchases now] held attempts_kept_holds b by auto
  then show ?thesis
    using assms b by (auto simp: fulfill_def and_then_def Let_def split: if_splits sum.splits list.splits)
qed

lemma fulfill_Inr:
  assumes f: "fulfill env db ord a items r p now = (db', Inr a')" and held: "holds_attempt db a" and ne: "items \<noteq> []"
  shows "\<exists>rs. length rs = length items \<and> (\<forall>x \<in> set rs. os_canonical_state x \<notin> set failed_states) \<and>
    fa_id a' = fa_id a \<and> fa_idempotency_key a' = fa_idempotency_key a \<and> fa_response_payload a' = answers_payload rs \<and>
    get_row fa_id (fa_id a) (fulfillment_attempts db') = Some a' \<and>
    wallets db' = wallets db \<and> ledger db' = ledger db \<and> holds db' = holds db \<and> next_id db' = next_id db \<and>
    (if all_completed rs
     then fa_status a' = FulfillmentStatus.SUCCEEDED \<and> OrderStateMachine_can_transition (o_status ord) OrderStatus.FULFILLED \<and>
       orders db' = put_row o_id (ord\<lparr>o_status := OrderStatus.FULFILLED\<rparr>) (orders db) \<and>
       last (notices db') = to_notice FULFILLMENT_SUCCEEDED ord r
     else fa_status a' \<in> {FulfillmentStatus.UNKNOWN, FulfillmentStatus.PROCESSING} \<and> orders db' = orders db)"
proof -
  let ?b = "buy_items env db ord a r (profile_options p) (length items) items no_purchases now"
  from f obtain db1 acc where b: "?b = (db1, Inr acc)"
    by (auto simp: fulfill_def and_then_def split: if_splits sum.splits prod.splits)
  obtain rs where rs: "pu_responses acc = rs" "length rs = length items" "\<forall>x \<in> set rs. os_canonical_state x \<notin> set failed_states"
    using buy_items_Inr [OF b] by (auto simp: no_purchases_def)
  have core: "supply_core db1 = supply_core db" and held1: "holds_attempt db1 a"
    using buy_items_core [of env db ord a r "profile_options p" "length items" items no_purchases now] held attempts_kept_holds b by auto
  note same = supply_core_eqD [OF core]
  have empty: "filter (\<lambda>x. os_canonical_state x \<noteq> ProviderOrderState.COMPLETED) rs = [] \<longleftrightarrow> all_completed rs"
    by (auto simp: all_completed_def filter_empty_conv list_all_iff)
  have row: "get_row fa_id (fa_id a) (fulfillment_attempts (put_attempt c db1)) = Some c" if "fa_id c = fa_id a" for c
    using get_put_attempt [OF held1 that] .
  show ?thesis
  proof (cases "all_completed rs")
    case True
    then show ?thesis
      using f b rs empty row
      by (intro exI [of _ rs]) (auto simp: fulfill_def and_then_def Let_def same to_notice_def split: if_splits sum.splits)
  next
    case False
    then obtain x xs where "filter (\<lambda>x. os_canonical_state x \<noteq> ProviderOrderState.COMPLETED) rs = x # xs"
      using empty by (cases "filter (\<lambda>x. os_canonical_state x \<noteq> ProviderOrderState.COMPLETED) rs") auto
    then show ?thesis
      using f b rs False row
      by (intro exI [of _ rs]) (auto simp: fulfill_def and_then_def Let_def same pending_attempt_def split: if_splits)
  qed
qed

end
