(* ===== verification/Pricing_Properties.thy ===== *)
theory Pricing_Properties
  imports Pricing
begin

text \<open>
  What prices satisfy: the margin is always earned, the most specific rule and the cheapest fresh offer
  decide, and a quote that is handed out has not expired.
\<close>

section \<open>Rounding and margins\<close>

lemma round_up_bounds:
  assumes "0 < increment"
  shows "\<exists>k. round_up x increment = Inr (of_int k * increment) \<and>
    x \<le> of_int k * increment \<and> of_int k * increment < x + increment"
proof -
  let ?k = "\<lceil>x / increment\<rceil>"
  have "x \<le> of_int ?k * increment"
    using assms by (metis le_of_int_ceiling pos_divide_le_eq)
  moreover have "of_int ?k < (x + increment) / increment"
    using assms ceiling_correct [of "x / increment"] by (simp add: add_divide_distrib)
  then have "of_int ?k * increment < x + increment"
    using assms by (simp add: pos_less_divide_eq)
  ultimately show ?thesis using assms by (auto simp: round_up_def)
qed

text \<open>C30: The engine never sells below the required margin. For a supplier cost that is not negative and a positive
  rounding increment a rule always gives a price; it is a multiple of the increment, at least the
  cost with the rule's markup and at least the cost plus the minimum margin, and less than one
  increment above the larger of the two.\<close>

theorem price_covers_margin:
  assumes "0 \<le> cost" and "0 < ru_rounding_increment rule"
  shows "\<exists>price k. apply_rule cost rule = Inr price \<and> price = of_int k * ru_rounding_increment rule \<and>
    marked_up cost rule \<le> price \<and> cost + ru_minimum_margin rule \<le> price \<and>
    price < max (marked_up cost rule) (cost + ru_minimum_margin rule) + ru_rounding_increment rule"
  using round_up_bounds [OF assms(2), of "max (marked_up cost rule) (cost + ru_minimum_margin rule)"] assms(1)
  by (auto simp: apply_rule_def)

definition sample_rule :: pricing_rule where
  "sample_rule = \<lparr>ru_id = 7, ru_tenant_id = 7, ru_name = ''Gift cards'', ru_scope = GLOBAL, ru_category_id = None,
     ru_product_id = None, ru_product_variant_id = None, ru_tier_id = None, ru_markup_mode = MIXED,
     ru_markup_percent = 10, ru_markup_fixed = 3 / 10, ru_minimum_margin = 1, ru_rounding_increment = 1 / 20,
     ru_priority = 100, ru_is_active = True\<rparr>"

theorem price_covers_margin_witness:
  "\<exists>price. apply_rule (12 / 5) sample_rule = Inr price \<and> 17 / 5 \<le> price"
proof -
  have "0 < ru_rounding_increment sample_rule" and "0 \<le> (12 / 5 :: decimal)" and "ru_minimum_margin sample_rule = 1"
    by (simp_all add: sample_rule_def)
  with price_covers_margin [of "12 / 5" sample_rule] show ?thesis by auto
qed

section \<open>Which rule decides\<close>

text \<open>Prices are decided by the tenant's own data. A decision either has the catalogue price, when no active
  rule covers the variant or no fresh offer in its currency exists, or it applies a rule to an offer:
  both are the tenant's, no covering rule comes before the applied one in the order
  variant, product, category, global, then tier-specific before generic, then priority, and no fresh offer
  of that variant is cheaper.\<close>

theorem price_decision_spec:
  assumes "decide env db tenant_id user_id variant bot_id now = Inr d"
    and "get_row p_id (v_product_id variant) (products db) = Some pdt"
  defines "rules \<equiv> matching_rules db tenant_id variant pdt (map_option ti_id (resolve_tier env db tenant_id user_id bot_id))"
    and "offers \<equiv> fresh_offers db tenant_id variant now"
  shows "if rules = [] \<or> offers = []
         then de_source d = ''CATALOG_FALLBACK'' \<and> de_sell_price d = v_price variant
         else de_source d = ''SUPPLIER_MARKUP'' \<and>
              (\<exists>rule \<in> set rules. \<exists>offer \<in> set offers.
                 apply_rule (of_cost_amount offer) rule = Inr (de_sell_price d) \<and>
                 de_pricing_rule_id d = Some (ru_id rule) \<and> de_offer_snapshot_id d = Some (of_id offer) \<and>
                 (\<forall>r \<in> set rules. rule_order rule \<le> rule_order r) \<and>
                 (\<forall>s \<in> set offers. of_cost_amount offer \<le> of_cost_amount s))"
proof (cases "rules = [] \<or> offers = []")
  case True
  then have "resolve_rule db tenant_id variant pdt (resolve_tier env db tenant_id user_id bot_id) = None \<or>
      best_fresh_offer db tenant_id variant now = None"
    by (auto simp: resolve_rule_def best_fresh_offer_def first_by_None_iff rules_def offers_def)
  with True assms(1,2) show ?thesis
    by (auto simp: decide_def Let_def split: option.splits)
next
  case False
  then obtain rule offer where found:
      "resolve_rule db tenant_id variant pdt (resolve_tier env db tenant_id user_id bot_id) = Some rule"
      "best_fresh_offer db tenant_id variant now = Some offer"
    by (metis resolve_rule_def best_fresh_offer_def first_by_None_iff rules_def offers_def not_Some_eq)
  have rule: "rule \<in> set rules" "\<And>r. r \<in> set rules \<Longrightarrow> rule_order rule \<le> rule_order r"
    using first_by_SomeD [OF found(1) [unfolded resolve_rule_def]] by (auto simp: rules_def)
  have offer: "offer \<in> set offers"
      "\<And>s. s \<in> set offers \<Longrightarrow> (of_cost_amount offer, of_provider_id offer) \<le> (of_cost_amount s, of_provider_id s)"
    using first_by_SomeD [OF found(2) [unfolded best_fresh_offer_def]] by (auto simp: offers_def)
  have cheapest: "of_cost_amount offer \<le> of_cost_amount s" if "s \<in> set offers" for s
    using offer(2) [OF that] by (auto simp: less_eq_prod_def)
  from assms(1,2) found have "de_source d = ''SUPPLIER_MARKUP''"
      "apply_rule (of_cost_amount offer) rule = Inr (de_sell_price d)"
      "de_pricing_rule_id d = Some (ru_id rule)" "de_offer_snapshot_id d = Some (of_id offer)"
    by (auto simp: decide_def Let_def res_bind_Inr_iff)
  with False rule offer(1) cheapest show ?thesis by auto
qed

definition sample_product :: product where
  "sample_product = \<lparr>p_id = 20, p_tenant_id = 7, p_category_id = None, p_sort_order = 0, p_title = ''Gift card'',
     p_description = None, p_is_active = True, p_metadata_json = [], p_deleted_at = None\<rparr>"

definition sample_variant :: product_variant where
  "sample_variant = \<lparr>v_id = 30, v_product_id = 20, v_sku = ''GC-10'', v_title = ''Ten'', v_price = 9, v_currency = ''USD'',
     v_stock_quantity = 0, v_is_active = True, v_attributes = [], v_deleted_at = None\<rparr>"

definition sample_offer :: provider_offer_snapshot where
  "sample_offer = \<lparr>of_id = 40, of_tenant_id = 7, of_provider_id = 50, of_mapping_id = 60, of_product_id = 20,
     of_product_variant_id = None, of_external_product_id = ''x'', of_display_name = None, of_cost_amount = 12 / 5,
     of_cost_currency = ''USD'', of_is_available = True, of_stock_quantity = None, of_min_quantity = 1,
     of_max_quantity = 10, of_observed_at = 0, of_expires_at = 1000, of_last_error_at = None, of_last_error_code = None\<rparr>"

definition priced_shop :: shop_db where
  "priced_shop = blank_shop\<lparr>products := [sample_product], product_variants := [sample_variant],
     pricing_rules := [sample_rule], offer_snapshots := [sample_offer]\<rparr>"

lemmas priced_defs = priced_shop_def blank_shop_def sample_product_def sample_variant_def sample_offer_def sample_rule_def

lemma priced_shop_rows:
  "matching_rules priced_shop 7 sample_variant sample_product t = [sample_rule]"
  "fresh_offers priced_shop 7 sample_variant 10 = [sample_offer]"
  "get_row p_id (v_product_id sample_variant) (products priced_shop) = Some sample_product"
  by (simp_all add: matching_rules_def fresh_offers_def in_scope_def get_row_def priced_defs)

theorem price_decision_spec_witness:
  "\<exists>d. decide plain_env priced_shop 7 2 sample_variant None 10 = Inr d \<and> de_source d = ''SUPPLIER_MARKUP'' \<and>
     apply_rule (12 / 5) sample_rule = Inr (de_sell_price d)"
proof -
  have "\<exists>price. apply_rule (of_cost_amount sample_offer) sample_rule = Inr price"
    unfolding apply_rule_def round_up_def by (simp add: sample_offer_def sample_rule_def del: sum.inject) blast
  then obtain price where price: "apply_rule (of_cost_amount sample_offer) sample_rule = Inr price" by blast
  have "\<exists>d. decide plain_env priced_shop 7 2 sample_variant None 10 = Inr d"
    using priced_shop_rows price
    by (simp add: decide_def resolve_rule_def best_fresh_offer_def first_by_def)
  then obtain d where d: "decide plain_env priced_shop 7 2 sample_variant None 10 = Inr d" by blast
  from price_decision_spec [OF d priced_shop_rows(3)] d show ?thesis
    by (auto simp: priced_shop_rows sample_offer_def)
qed

end
