(* ===== verification/Fulfillment_Properties.thy ===== *)
theory Fulfillment_Properties
  imports Fulfillment_Laws Pricing_Properties
begin

text \<open>
  One call of \<open>execute_order_fulfillment\<close> as a whole: which of its outcomes move money, what the order and the
  attempt then say, and what the suppliers must have answered.
\<close>

section \<open>Rows\<close>

definition shop_rows :: "'x shop_db_scheme \<Rightarrow> bool" where
  "shop_rows db \<longleftrightarrow> distinct (map o_id (orders db)) \<and> distinct (map fa_id (fulfillment_attempts db)) \<and>
     distinct (map fa_idempotency_key (fulfillment_attempts db)) \<and>
     list_all (\<lambda>a. fa_id a < next_id db) (fulfillment_attempts db)"

lemma shop_rowsD:
  assumes "shop_rows db"
  shows "distinct (map o_id (orders db))" "distinct (map fa_id (fulfillment_attempts db))"
    "distinct (map fa_idempotency_key (fulfillment_attempts db))" "a \<in> set (fulfillment_attempts db) \<Longrightarrow> fa_id a < next_id db"
  using assms by (auto simp: shop_rows_def list_all_iff)

lemma ledger_inv_next: "ledger_inv db \<Longrightarrow> ledger_inv (db\<lparr>fulfillment_attempts := as, next_id := Suc (next_id db)\<rparr>)"
  by (auto simp: ledger_inv_def entries_def)

text \<open>The attempt row of this call: the one found under its key, or the one just added.\<close>

definition attempt_started ::
  "'x shop_db_scheme \<Rightarrow> 'x shop_db_scheme \<Rightarrow> fulfillment_attempt \<Rightarrow> bool" where
  "attempt_started db db1 a \<longleftrightarrow> wallets db1 = wallets db \<and> ledger db1 = ledger db \<and> holds db1 = holds db \<and>
     orders db1 = orders db \<and> order_items db1 = order_items db \<and> (ledger_inv db \<longrightarrow> ledger_inv db1) \<and>
     dispatched db1 = dispatched db \<and> holds_attempt db1 a"

lemma start_attempt_Inr:
  assumes rows: "shop_rows db" and lookup: "scalar_one_or_none (\<lambda>a. fa_idempotency_key a = attempt_key (o_id ord) n) (fulfillment_attempts db) = Inr found"
  shows "\<exists>db1 a. start_attempt db ord found n now = (db1, Inr a) \<and> attempt_started db db1 a \<and> fa_idempotency_key a = attempt_key (o_id ord) n"
proof (cases found)
  case None
  let ?a = "new_attempt (next_id db) ord n now"
  let ?db = "db\<lparr>fulfillment_attempts := fulfillment_attempts db @ [?a], next_id := Suc (next_id db)\<rparr>"
  have fresh: "fa_id b \<noteq> next_id db \<and> fa_idempotency_key b \<noteq> attempt_key (o_id ord) n" if "b \<in> set (fulfillment_attempts db)" for b
    using that shop_rowsD(4) [OF rows that] lookup None scalar_one_or_none_NoneD [of "\<lambda>a. fa_idempotency_key a = attempt_key (o_id ord) n"]
    by fastforce
  have "get_row fa_id (next_id db) (fulfillment_attempts db @ [?a]) = Some ?a"
    using fresh first_row_None_iff [of "\<lambda>r. fa_id r = next_id db" "fulfillment_attempts db"]
    by (simp add: get_row_def new_attempt_def)
  then have "attempt_started db ?db ?a"
    using ledger_inv_next by (auto simp: attempt_started_def holds_attempt_def new_attempt_def)
  moreover have "start_attempt db ord found n now = (?db, Inr ?a)"
    using fresh None by (auto simp: start_attempt_def flush_attempt_def violates_def raise_other_def new_attempt_def list_ex_iff)
  ultimately show ?thesis by (auto simp: new_attempt_def)
next
  case (Some b)
  let ?b = "b\<lparr>fa_status := FulfillmentStatus.PROCESSING\<rparr>"
  have b: "b \<in> set (fulfillment_attempts db)" "fa_idempotency_key b = attempt_key (o_id ord) n"
    using scalar_one_or_none_SomeD lookup Some by fastforce+
  have "get_row fa_id (fa_id b) (fulfillment_attempts db) = Some b"
    using get_row_in [OF shop_rowsD(2) [OF rows] b(1)] .
  then have "attempt_started db (put_attempt ?b db) ?b"
    using ledger_same(1) [of "put_attempt ?b db" db] by (auto simp: attempt_started_def holds_attempt_def get_row_put_row)
  then show ?thesis using Some b(2) by (auto simp: start_attempt_def Let_def)
qed

lemma execute_cases:
  assumes rows: "shop_rows db" and ord: "get_row o_id i (orders db) = Some ord"
  obtains (replay) a where "a \<in> set (fulfillment_attempts db)" "fa_status a = FulfillmentStatus.SUCCEEDED"
      "execute_order_fulfillment env db i r n now = (db, Inr a)"
  | (run) db1 a where "attempt_started db db1 a" "fa_idempotency_key a = attempt_key i n"
      "execute_order_fulfillment env db i r n now = run_attempt env db1 ord a r n (fulfillment_profile env db1 ord) now"
proof -
  have o1: "scalar_one_or_none (\<lambda>o1. o_id o1 = i) (orders db) = Inr (Some ord)" and id: "o_id ord = i"
    using scalar_get_row [OF shop_rowsD(1) [OF rows]] ord get_row_Some [OF ord] by auto
  let ?found = "first_row (\<lambda>a. fa_idempotency_key a = attempt_key (o_id ord) n) (fulfillment_attempts db)"
  have f: "scalar_one_or_none (\<lambda>a. fa_idempotency_key a = attempt_key (o_id ord) n) (fulfillment_attempts db) = Inr ?found"
    by (rule scalar_one_or_none_unique [OF shop_rowsD(3) [OF rows]]) simp
  obtain db1 a where s: "start_attempt db ord ?found n now = (db1, Inr a)" "attempt_started db db1 a"
      "fa_idempotency_key a = attempt_key (o_id ord) n"
    using start_attempt_Inr [OF rows f] by blast
  show ?thesis
  proof (cases "\<exists>b. ?found = Some b \<and> fa_status b = FulfillmentStatus.SUCCEEDED")
    case True
    then obtain b where b: "?found = Some b" "fa_status b = FulfillmentStatus.SUCCEEDED" by blast
    then show ?thesis
      using replay [of b] first_row_SomeD [OF b(1)] o1 f by (simp add: execute_order_fulfillment_def)
  next
    case False
    have "execute_order_fulfillment env db i r n now = run_attempt env db1 ord a r n (fulfillment_profile env db1 ord) now"
      unfolding execute_order_fulfillment_def o1 sum.case option.case f using False s(1)
      by (cases ?found) auto
    then show ?thesis using run [of db1 a] s id by simp
  qed
qed

section \<open>Purchase requests\<close>

text \<open>
  The requests of one routing: each but the last was answered with an error after which another
  supplier may be tried.
\<close>

definition refused_safely ::
  "'e supply_env_scheme \<Rightarrow> 'x shop_db_scheme \<Rightarrow> dispatch_log \<Rightarrow> uuid \<times> provider_order_request \<Rightarrow> bool" where
  "refused_safely env db before sent \<longleftrightarrow>
     (\<exists>p client e. pr_id p = fst sent \<and> adapter_for env db p = Inr client \<and>
        client_create_order client (provider_timeout env p) before (snd sent) = Inl e \<and>
        safe_to_failover (timeout_to_provider_error e))"

fun failover_chain ::
  "'e supply_env_scheme \<Rightarrow> 'x shop_db_scheme \<Rightarrow> dispatch_log \<Rightarrow> dispatch_log \<Rightarrow> bool" where
  "failover_chain env db before (x # y # rest) \<longleftrightarrow> refused_safely env db before x \<and> failover_chain env db (before @ [x]) (y # rest)"
| "failover_chain env db before _ \<longleftrightarrow> True"

lemma failover_chain_Cons:
  "failover_chain env db before (x # xs) \<longleftrightarrow> xs = [] \<or> (refused_safely env db before x \<and> failover_chain env db (before @ [x]) xs)"
  by (cases xs) auto

lemma adapter_for_frame:
  assumes "provider_credentials db' = provider_credentials db"
  shows "adapter_for env db' p = adapter_for env db p" and "refused_safely env db' before x = refused_safely env db before x"
    and "failover_chain env db' before xs = failover_chain env db before xs"
proof -
  show a: "adapter_for env db' p = adapter_for env db p" for p
    using assms by (simp add: adapter_for_def build_provider_config_def)
  show r: "refused_safely env db' before x = refused_safely env db before x" for before x
    by (simp add: refused_safely_def a)
  show "failover_chain env db' before xs = failover_chain env db before xs"
    by (induction xs arbitrary: before) (simp_all add: failover_chain_Cons r)
qed

definition same_purchase :: "str \<Rightarrow> int \<Rightarrow> str \<Rightarrow> uuid \<times> provider_order_request \<Rightarrow> bool" where
  "same_purchase idempotency_key quantity recipient sent \<longleftrightarrow> oq_idempotency_key (snd sent) = idempotency_key \<and>
     oq_quantity (snd sent) = quantity \<and> oq_recipient (snd sent) = recipient"

lemma route_loop_chain:
  assumes "route_loop env db ms q r k ps le = (db', res)"
  shows "\<exists>sent. dispatched db' = dispatched db @ sent \<and> length sent \<le> length ms \<and> list_all (same_purchase k q r) sent \<and>
    failover_chain env db (dispatched db) sent \<and>
    (case res of Inr (p, m, _) \<Rightarrow> sent \<noteq> [] \<and> fst (last sent) = pr_id p | Inl _ \<Rightarrow> True)"
  using assms
proof (induction ms arbitrary: db le)
  case (Cons m ms)
  show ?case
  proof (cases "get_row pr_id (mp_provider_id m) (providers db)")
    case None
    then show ?thesis using Cons.prems by auto
  next
    case (Some p)
    show ?thesis
    proof (cases "adapter_for env db p")
      case (Inl e)
      then show ?thesis using Some Cons.prems by (auto simp: lift_res_def)
    next
      case (Inr client)
      let ?q = "\<lparr>oq_external_product_id = mp_external_product_id m, oq_quantity = q, oq_recipient = r,
        oq_idempotency_key = k, oq_parameters = ps\<rparr>"
      let ?x = "(pr_id p, ?q)"
      let ?fail = "\<lambda>n. put_provider (note_failure n p) (db\<lparr>dispatched := dispatched db @ [?x]\<rparr>)"
      have x: "same_purchase k q r ?x" by (simp add: same_purchase_def)
      have frame: "provider_credentials (?fail n) = provider_credentials db" "dispatched (?fail n) = dispatched db @ [?x]" for n
        by (simp_all add: put_provider_def)
      let ?ans = "client_create_order client (provider_timeout env p) (dispatched db) ?q"
      have eq: "route_loop env db (m # ms) q r k ps le =
        (case ?ans of
           Inr response \<Rightarrow> (put_provider (note_success p) (db\<lparr>dispatched := dispatched db @ [?x]\<rparr>), Inr (note_success p, m, response))
         | Inl e \<Rightarrow>
             if is_provider_error (timeout_to_provider_error e)
             then if \<not> is_retryable (timeout_to_provider_error e) \<or> \<not> safe_to_failover (timeout_to_provider_error e)
               then (?fail (env_max_failures env), Inl (timeout_to_provider_error e))
               else route_loop env (?fail (env_max_failures env)) ms q r k ps (Some (timeout_to_provider_error e))
             else (db\<lparr>dispatched := dispatched db @ [?x]\<rparr>, Inl (ProviderExc ProviderBaseError False (Some (timeout_to_provider_error e)))))"
        using Some Inr by (simp add: lift_res_def Let_def split: sum.splits)
      show ?thesis
      proof (cases "\<exists>e. ?ans = Inl e \<and> is_provider_error (timeout_to_provider_error e) \<and> is_retryable (timeout_to_provider_error e) \<and>
          safe_to_failover (timeout_to_provider_error e)")
        case True
        then obtain e where e: "?ans = Inl e" "is_provider_error (timeout_to_provider_error e)"
          "is_retryable (timeout_to_provider_error e)" "safe_to_failover (timeout_to_provider_error e)" by blast
        have ref: "refused_safely env db (dispatched db) ?x" unfolding refused_safely_def using Inr e by (intro exI [of _ p]) auto
        have "route_loop env (?fail (env_max_failures env)) ms q r k ps (Some (timeout_to_provider_error e)) = (db', res)"
          using Cons.prems unfolding eq using e by simp
        from Cons.IH [OF this] obtain sent where sent: "dispatched db' = (dispatched db @ [?x]) @ sent" "length sent \<le> length ms"
          "list_all (same_purchase k q r) sent" "failover_chain env db (dispatched db @ [?x]) sent"
          "case res of Inr (p, m, _) \<Rightarrow> sent \<noteq> [] \<and> fst (last sent) = pr_id p | Inl _ \<Rightarrow> True"
          unfolding frame(2) adapter_for_frame(3) [OF frame(1)] by blast
        then show ?thesis
          using x ref by (intro exI [of _ "?x # sent"]) (auto simp: failover_chain_Cons split: sum.splits)
      next
        case False
        have "dispatched db' = dispatched db @ [?x] \<and> (case res of Inr (p1, m, _) \<Rightarrow> pr_id p1 = pr_id p | Inl _ \<Rightarrow> True)"
          using Cons.prems False unfolding eq
          by (auto simp: put_provider_def note_success_def split: sum.splits if_splits)
        then show ?thesis using x by (intro exI [of _ "[?x]"]) (auto split: sum.splits)
      qed
    qed
  qed
qed auto

text \<open>C7: At most one purchase of a routing can have gone through. The requests that one routing sends all carry its
  idempotency key, quantity and recipient, and each of them but the last was refused by its supplier with
  an error that says nothing was bought: after a timeout, an unknown error or an accepted order no other
  supplier is asked. A routing that returns a response got it for the last request it sent.\<close>

theorem routing_buys_at_most_once:
  assumes "route_and_execute_order env db n pid q r k v ps opts now = (db', res)"
  shows "\<exists>sent. dispatched db' = dispatched db @ sent \<and> list_all (same_purchase k q r) sent \<and>
    failover_chain env db (dispatched db) sent \<and>
    (case res of Inr (p, m, _) \<Rightarrow> sent \<noteq> [] \<and> fst (last sent) = pr_id p | Inl _ \<Rightarrow> True)"
proof (cases "get_eligible_mappings env db n pid v (Some k) opts now")
  case (Inl e)
  then show ?thesis using assms by (auto simp: route_and_execute_order_def lift_res_def)
next
  case (Inr ms)
  show ?thesis
  proof (cases "ms = []")
    case True
    then show ?thesis using assms Inr by (auto simp: route_and_execute_order_def lift_res_def)
  next
    case False
    then have "route_loop env db (map fst ms) q r k ps None = (db', res)"
      using assms Inr by (simp add: route_and_execute_order_def lift_res_def)
    from route_loop_chain [OF this] show ?thesis by blast
  qed
qed

section \<open>Attempts that raise\<close>

text \<open>The order as the attempt sees it: a paid order is moved to processing first.\<close>

definition in_processing :: "order \<Rightarrow> order" where
  "in_processing ord = (if o_status ord = OrderStatus.PAID then ord\<lparr>o_status := OrderStatus.PROCESSING\<rparr> else ord)"

lemma in_processing_fields [simp]:
  "o_id (in_processing ord) = o_id ord" "o_total_amount (in_processing ord) = o_total_amount ord"
  "order_account (in_processing ord) = order_account ord" "to_notice x (in_processing ord) r = to_notice x ord r"
  "not_refunded db (in_processing ord) = not_refunded db ord"
  by (simp_all add: in_processing_def order_account_def to_notice_def not_refunded_def)

definition order_status :: "'x pay_db_scheme \<Rightarrow> uuid \<Rightarrow> OrderStatus option" where
  "order_status db i = map_option o_status (get_row o_id i (orders db))"

definition attempt_in :: "'x shop_db_scheme \<Rightarrow> str \<Rightarrow> FulfillmentStatus \<Rightarrow> bool" where
  "attempt_in db key st \<longleftrightarrow> list_ex (\<lambda>a. fa_idempotency_key a = key \<and> fa_status a = st) (fulfillment_attempts db)"

lemma attempt_status_in: "attempt_status db i = Some (key, st) \<Longrightarrow> attempt_in db key st"
  by (auto simp: attempt_status_def attempt_in_def list_ex_iff dest!: get_row_Some)

text \<open>What the attempt leaves behind when the body of the \<open>try\<close> raises.\<close>

definition failure_outcome ::
  "'x shop_db_scheme \<Rightarrow> 'x shop_db_scheme \<Rightarrow> order \<Rightarrow> int \<Rightarrow> str \<Rightarrow> exc \<Rightarrow> bool" where
  "failure_outcome db db' ord n r e \<longleftrightarrow>
     (if retryable_failure e \<and> n < 3
      then wallets db' = wallets db \<and> ledger db' = ledger db \<and> order_status db' (o_id ord) = Some (o_status (in_processing ord)) \<and>
        attempt_in db' (attempt_key (o_id ord) n) (if timeout_failure e then FulfillmentStatus.UNKNOWN else FulfillmentStatus.RETRYING)
      else paid_back db db' ord \<and> attempt_in db' (attempt_key (o_id ord) n) FulfillmentStatus.FAILED \<and>
        (if OrderStateMachine_can_transition (o_status (in_processing ord)) OrderStatus.FAILED
         then order_status db' (o_id ord) = Some OrderStatus.FAILED \<and> last (notices db') = to_notice ORDER_REFUNDED ord r
         else order_status db' (o_id ord) = Some (o_status ord) \<and> last (notices db') = to_notice FULFILLMENT_FAILED ord r))"

lemma run_attempt_raises:
  assumes run: "run_attempt env db1 ord a r n p now = (db', Inl e)" and st: "attempt_started db db1 a"
    and key: "fa_idempotency_key a = attempt_key (o_id ord) n"
    and inv: "ledger_inv db" and ord: "get_row o_id (o_id ord) (orders db) = Some ord"
    and total: "0 < o_total_amount ord" and none: "not_refunded db ord"
  shows "\<exists>e0. e = as_provider_error e0 \<and> failure_outcome db db' ord n r e0"
proof -
  let ?o = "in_processing ord"
  let ?db2 = "notify (to_notice FULFILLMENT_STARTED ?o r) (put_order ?o db1)"
  from run obtain it its where items: "items_of ?db2 (o_id ord) = it # its"
    by (auto simp: run_attempt_def Let_def in_processing_def split: list.splits)
  let ?a = "a\<lparr>fa_order_item_id := Some (oi_id it)\<rparr>"
  from run items obtain db3 e0 where
    f: "fulfill env (put_attempt ?a ?db2) ?o ?a (it # its) r p now = (db3, Inl e0)" and
    res: "db' = fulfillment_failed env db3 ?o (fa_id a) n r e0 now" "e = as_provider_error e0"
    by (auto simp: run_attempt_def Let_def in_processing_def split: list.splits prod.splits sum.splits)
  have held: "holds_attempt (put_attempt ?a ?db2) ?a"
    using st by (auto simp: attempt_started_def holds_attempt_def get_row_put_row)
  have core: "supply_core db3 = supply_core (put_attempt ?a ?db2)" and held3: "holds_attempt db3 ?a"
    using fulfill_Inl [OF f held] by auto
  note same = supply_core_eqD [OF core]
  have w: "wallets db3 = wallets db" "ledger db3 = ledger db" "holds db3 = holds db" "next_id db3 = next_id db1"
    "orders db3 = put_row o_id ?o (orders db)"
    using st same by (auto simp: attempt_started_def)
  have inv3: "ledger_inv db3"
    using st inv ledger_same(1) [of db3 db1] w by (auto simp: attempt_started_def)
  have b: "balance_of db3 = balance_of db" "not_refunded db3 ord = not_refunded db ord"
    using w by (auto simp: balance_of_def not_refunded_def find_entry_def fun_eq_iff)
  obtain c where c: "get_row fa_id (fa_id a) (fulfillment_attempts db3) = Some c" "fa_idempotency_key c = attempt_key (o_id ord) n"
    using held3 key by (auto simp: holds_attempt_def)
  have row: "get_row o_id (o_id ord) (put_row o_id o2 (put_row o_id ?o (orders db))) = Some o2"
      "get_row o_id (o_id ord) (put_row o_id ?o (orders db)) = Some ?o" if "o_id o2 = o_id ord" for o2
    using ord that by (auto intro!: get_row_put_row)
  have none3: "not_refunded db3 ?o" using none b by simp
  have total': "0 < o_total_amount ?o" using total by simp
  have stay: "o_status ?o = o_status ord" if "\<not> OrderStateMachine_can_transition (o_status ?o) OrderStatus.FAILED"
    using that by (auto simp: in_processing_def OrderStateMachine_can_transition_def)
  have "failure_outcome db db' ord n r e0"
    using fulfillment_failed_effect [OF inv3 total' none3 c(1) res(1)] stay
    unfolding failure_outcome_def order_status_def
    by (auto simp: w b paid_back_def c(2) row OrderStateMachine_transition_def Let_def
        dest!: attempt_status_in split: if_splits)
  then show ?thesis using res(2) by blast
qed

section \<open>A shop with one supplier\<close>

definition answering :: "ProviderOrderState \<Rightarrow> provider_client" where
  "answering st = \<lparr>client_create_order = (\<lambda>_ _ _. Inr (order_response ''ext-1'' (order_state_value st) 2 True [] None None None [])),
     client_get_order = (\<lambda>_ i. Inr \<lparr>oc_external_order_id = i, oc_status = order_state_value st,
        oc_is_completed = (st = ProviderOrderState.COMPLETED), oc_is_failed = (st = ProviderOrderState.FAILED), oc_raw_data = [],
        oc_canonical_state = st, oc_delivery = []\<rparr>),
     client_cancel_order = (\<lambda>_ _. Inr True)\<rparr>"

definition demo_definition :: provider_definition where
  "demo_definition = \<lparr>pd_key = ''DEMO'', pd_categories = [ProviderCategory.DIGITAL_PRODUCT],
     pd_capabilities = CORE_PROVIDER_CAPABILITIES, pd_credentials = [], pd_driver_family = ''python'', pd_category_capabilities = []\<rparr>"

definition registry_with :: "provider_client \<Rightarrow> client_registry" where
  "registry_with c = \<lparr>cr_factories = [(''DEMO'', \<lambda>_ _. c)], cr_singletons = [], cr_definitions = [(''DEMO'', demo_definition)],
     cr_config_validators = [], cr_capability_resolvers = [], cr_credential_resolvers = []\<rparr>"

definition supplied_by :: "provider_client \<Rightarrow> supply_env" where
  "supplied_by c = deposit_env.extend plain_env
     \<lparr>env_json_dumps = (\<lambda>_. []), env_secret = (\<lambda>_. Inl SecretNotFoundError), env_float = (\<lambda>_. None), env_int = (\<lambda>_. None),
      env_digest8 = (\<lambda>_. 0), env_registry = registry_with c, env_max_failures = 3, env_exc_str = (\<lambda>_. ''error''), env_log = (\<lambda>_. 0)\<rparr>"

definition demo_provider :: provider where
  "demo_provider = \<lparr>pr_id = 50, pr_tenant_id = 7, pr_name = ''Demo'', pr_slug = ''demo'', pr_provider_type = ''DEMO'',
     pr_category = ProviderCategory.DIGITAL_PRODUCT, pr_is_enabled = True, pr_priority = 10, pr_health_status = HEALTHY,
     pr_consecutive_failures = 0, pr_last_health_check_at = None, pr_last_health_latency_ms = None,
     pr_last_health_message = None, pr_metadata_json = []\<rparr>"

definition demo_mapping :: provider_product_mapping where
  "demo_mapping = \<lparr>mp_id = 60, mp_tenant_id = 7, mp_provider_id = 50, mp_product_id = 20, mp_product_variant_id = None,
     mp_external_product_id = ''x'', mp_is_enabled = True, mp_cost_price = 2, mp_cost_currency = ''USD'',
     mp_priority_override = None, mp_provider_metadata = []\<rparr>"

definition paid_order :: order where
  "paid_order = \<lparr>o_id = 70, o_created_at = 0, o_tenant_id = 7, o_user_id = 8, o_order_number = ''A-1'', o_status = OrderStatus.PAID,
     o_total_amount = 5, o_currency = ''USD'', o_checkout_idempotency_key = None, o_checkout_request_hash = None\<rparr>"

definition paid_item :: order_item where
  "paid_item = \<lparr>oi_id = 71, oi_order_id = 70, oi_product_variant_id = v_id sample_variant, oi_sale_terms = [], oi_quantity = 1,
     oi_unit_price = 5, oi_total_price = 5\<rparr>"

definition supplied_shop :: "OrderStatus \<Rightarrow> shop_db" where
  "supplied_shop st = priced_shop\<lparr>orders := [paid_order\<lparr>o_status := st\<rparr>], order_items := [paid_item], providers := [demo_provider],
     product_mappings := [demo_mapping]\<rparr>"

lemmas supplied_defs = supplied_shop_def paid_item_def paid_order_def demo_mapping_def demo_provider_def supplied_by_def
  registry_with_def demo_definition_def answering_def deposit_env.defs plain_env_def

lemma supplied_shop_ok:
  "shop_rows (supplied_shop st)" "ledger_inv (supplied_shop st)" "not_refunded (supplied_shop st) (paid_order\<lparr>o_status := st\<rparr>)"
  "get_row o_id 70 (orders (supplied_shop st)) = Some (paid_order\<lparr>o_status := st\<rparr>)"
  by (simp_all add: shop_rows_def ledger_inv_def not_refunded_def get_row_def supplied_shop_def priced_shop_def blank_shop_def
      paid_order_def unique_on_def)

text \<open>Two suppliers: the first reports that it has no stock, the second delivers.\<close>

definition out_of_stock :: provider_client where
  "out_of_stock = (answering ProviderOrderState.COMPLETED)\<lparr>client_create_order := \<lambda>_ _ _. Inl (provider_exc ProviderProductUnavailableError)\<rparr>"

definition two_supplier_env :: supply_env where
  "two_supplier_env = (supplied_by (answering ProviderOrderState.COMPLETED))
     \<lparr>env_registry := register_singleton (registry_with (answering ProviderOrderState.COMPLETED)) ''Empty'' out_of_stock\<rparr>"

definition two_supplier_shop :: shop_db where
  "two_supplier_shop = supplied_shop OrderStatus.PAID
     \<lparr>providers := [demo_provider\<lparr>pr_id := 51, pr_name := ''Empty'', pr_priority := 5\<rparr>, demo_provider],
      product_mappings := [demo_mapping\<lparr>mp_id := 61, mp_provider_id := 51\<rparr>, demo_mapping]\<rparr>"

lemma two_supplier_run:
  "case route_and_execute_order two_supplier_env two_supplier_shop 7 20 1 ''r'' ''k'' None [] (profile_options default_profile) 10 of
     (db', Inr _) \<Rightarrow> map fst (dispatched db') = [51, 50] | _ \<Rightarrow> False"
  by code_simp

theorem routing_buys_at_most_once_witness:
  "\<exists>db' res x y. route_and_execute_order two_supplier_env two_supplier_shop 7 20 1 ''r'' ''k'' None [] (profile_options default_profile) 10 = (db', res) \<and>
     dispatched db' = [(51, x), (50, y)] \<and> refused_safely two_supplier_env two_supplier_shop [] (51, x)"
proof -
  obtain db' res where r: "route_and_execute_order two_supplier_env two_supplier_shop 7 20 1 ''r'' ''k'' None []
      (profile_options default_profile) 10 = (db', res)" and d: "map fst (dispatched db') = [51, 50]"
    using two_supplier_run by (auto split: prod.splits sum.splits)
  from d obtain x y where xy: "dispatched db' = [(51, x), (50, y)]" by (auto simp: map_eq_Cons_conv)
  have "dispatched two_supplier_shop = []" by (simp add: two_supplier_shop_def supplied_shop_def priced_shop_def blank_shop_def)
  with routing_buys_at_most_once [OF r] r xy show ?thesis by auto
qed

lemma execute_raises:
  assumes inv: "ledger_inv db" and rows: "shop_rows db" and ord: "get_row o_id i (orders db) = Some ord"
    and total: "0 < o_total_amount ord" and none: "not_refunded db ord"
    and run: "execute_order_fulfillment env db i r n now = (db', Inl e)"
  shows "\<exists>e0. e = as_provider_error e0 \<and> failure_outcome db db' ord n r e0"
  using rows ord
proof (cases rule: execute_cases [of db i ord env r n now])
  case (replay a)
  then show ?thesis using run by simp
next
  case (run db1 a)
  have "o_id ord = i" using get_row_Some [OF ord] by simp
  then show ?thesis
    using run_attempt_raises [of env db1 ord a r n _ now db' e db] run assms by simp
qed

text \<open>C6: A purchase that fails never costs the customer the price. When a fulfilment attempt of a paid order raises,
  then either no money moved, the order is still being processed and the attempt waits for a retry, which
  happens only before the third attempt, or the whole total is back on the customer's wallet, the
  attempt and the order are failed and the customer is told of the refund.\<close>

theorem failed_attempt_compensated:
  assumes inv: "ledger_inv db" and rows: "shop_rows db" and ord: "get_row o_id i (orders db) = Some ord"
    and open_order: "o_status ord = OrderStatus.PAID \<or> o_status ord = OrderStatus.PROCESSING"
    and total: "0 < o_total_amount ord" and none: "not_refunded db ord"
    and run: "execute_order_fulfillment env db i r n now = (db', Inl e)"
  shows "(n < 3 \<and> wallets db' = wallets db \<and> ledger db' = ledger db \<and> order_status db' i = Some OrderStatus.PROCESSING \<and>
      (attempt_in db' (attempt_key i n) FulfillmentStatus.RETRYING \<or> attempt_in db' (attempt_key i n) FulfillmentStatus.UNKNOWN)) \<or>
    (balance_of db' = (balance_of db)(order_account ord := balance_of db (order_account ord) + o_total_amount ord) \<and>
      order_status db' i = Some OrderStatus.FAILED \<and> attempt_in db' (attempt_key i n) FulfillmentStatus.FAILED \<and>
      last (notices db') = to_notice ORDER_REFUNDED ord r)"
proof -
  have st: "o_status (in_processing ord) = OrderStatus.PROCESSING" using open_order by (auto simp: in_processing_def)
  then have can: "OrderStateMachine_can_transition (o_status (in_processing ord)) OrderStatus.FAILED"
    by (simp add: OrderStateMachine_can_transition_def)
  have id: "o_id ord = i" using get_row_Some [OF ord] by simp
  show ?thesis
    using execute_raises [OF inv rows ord total none run] st can id
    by (auto simp: failure_outcome_def paid_back_def split: if_splits)
qed

text \<open>One paid order whose supplier answers that the purchase failed.\<close>

lemma supplied_failure:
  "case execute_order_fulfillment (supplied_by (answering ProviderOrderState.FAILED)) (supplied_shop st) 70 ''r'' 3 10 of
     (_, Inl _) \<Rightarrow> True | _ \<Rightarrow> False"
  if "st = OrderStatus.PAID \<or> st = OrderStatus.FULFILLED"
  using that by (elim disjE; simp only:; code_simp)

theorem failed_attempt_compensated_witness:
  "\<exists>db' e. execute_order_fulfillment (supplied_by (answering ProviderOrderState.FAILED)) (supplied_shop OrderStatus.PAID) 70 ''r'' 3 10 = (db', Inl e) \<and>
     balance_of db' (7, 8, ''USD'') = balance_of (supplied_shop OrderStatus.PAID) (7, 8, ''USD'') + 5"
proof -
  obtain db' e where r: "execute_order_fulfillment (supplied_by (answering ProviderOrderState.FAILED))
      (supplied_shop OrderStatus.PAID) 70 ''r'' 3 10 = (db', Inl e)"
    using supplied_failure [of OrderStatus.PAID] by (auto split: prod.splits sum.splits)
  from failed_attempt_compensated [OF supplied_shop_ok(2,1,4) _ _ supplied_shop_ok(3) r] r show ?thesis
    by (simp add: paid_order_def order_account_def)
qed

text \<open>C29: Nothing stops fulfilment of an order that is already fulfilled. If a third or later attempt of such an order
  raises, its total is credited to the customer although the goods were delivered: the refund is booked
  before the illegal step from fulfilled to failed raises, and what is caught there is then committed.\<close>

theorem fulfilled_order_refunded:
  assumes inv: "ledger_inv db" and rows: "shop_rows db" and ord: "get_row o_id i (orders db) = Some ord"
    and done_order: "o_status ord = OrderStatus.FULFILLED"
    and total: "0 < o_total_amount ord" and none: "not_refunded db ord"
    and run: "execute_order_fulfillment env db i r n now = (db', Inl e)" and last_try: "3 \<le> n"
  shows "balance_of db' (order_account ord) = balance_of db (order_account ord) + o_total_amount ord \<and>
    order_status db' i = Some OrderStatus.FULFILLED"
proof -
  have st: "o_status (in_processing ord) = OrderStatus.FULFILLED" using done_order by (simp add: in_processing_def)
  then have cannot: "\<not> OrderStateMachine_can_transition (o_status (in_processing ord)) OrderStatus.FAILED"
    by (simp add: OrderStateMachine_can_transition_def)
  have id: "o_id ord = i" using get_row_Some [OF ord] by simp
  show ?thesis
    using execute_raises [OF inv rows ord total none run] st cannot id last_try done_order
    by (auto simp: failure_outcome_def paid_back_def split: if_splits)
qed

theorem fulfilled_order_refunded_witness:
  "\<exists>db' e. execute_order_fulfillment (supplied_by (answering ProviderOrderState.FAILED)) (supplied_shop OrderStatus.FULFILLED) 70 ''r'' 3 10 = (db', Inl e) \<and>
     balance_of db' (7, 8, ''USD'') = balance_of (supplied_shop OrderStatus.FULFILLED) (7, 8, ''USD'') + 5"
proof -
  obtain db' e where r: "execute_order_fulfillment (supplied_by (answering ProviderOrderState.FAILED))
      (supplied_shop OrderStatus.FULFILLED) 70 ''r'' 3 10 = (db', Inl e)"
    using supplied_failure [of OrderStatus.FULFILLED] by (auto split: prod.splits sum.splits)
  from fulfilled_order_refunded [OF supplied_shop_ok(2,1,4) _ _ supplied_shop_ok(3) r] r show ?thesis
    by (simp add: paid_order_def order_account_def)
qed

section \<open>Attempts that return\<close>

text \<open>C14: An order is fulfilled only by delivered goods, and waiting moves no money. When an attempt returns for an
  order with items, then it either replays a succeeded attempt and changes nothing, or no wallet and no ledger
  entry changed and every item was bought: the recorded answers, one per item, are none of them
  failed. If they are all completed the attempt succeeded and the order is fulfilled, otherwise the
  order is still being processed and the attempt waits as processing or unknown.\<close>

theorem fulfilled_only_when_delivered:
  assumes rows: "shop_rows db" and ord: "get_row o_id i (orders db) = Some ord" and items: "items_of db i \<noteq> []"
    and run: "execute_order_fulfillment env db i r n now = (db', Inr a)"
  shows "(db' = db \<and> a \<in> set (fulfillment_attempts db) \<and> fa_status a = FulfillmentStatus.SUCCEEDED) \<or>
    (wallets db' = wallets db \<and> ledger db' = ledger db \<and> a \<in> set (fulfillment_attempts db') \<and> fa_idempotency_key a = attempt_key i n \<and>
     (\<exists>rs. fa_response_payload a = answers_payload rs \<and> length rs = length (items_of db i) \<and>
        list_all (\<lambda>x. os_canonical_state x \<notin> set failed_states) rs \<and>
        (if all_completed rs
         then fa_status a = FulfillmentStatus.SUCCEEDED \<and> order_status db' i = Some OrderStatus.FULFILLED
         else (fa_status a = FulfillmentStatus.PROCESSING \<or> fa_status a = FulfillmentStatus.UNKNOWN) \<and>
           order_status db' i = Some (o_status (in_processing ord)))))"
  using rows ord
proof (cases rule: execute_cases [of db i ord env r n now])
  case (replay b)
  then show ?thesis using run by auto
next
  case (run db1 b)
  let ?o = "in_processing ord"
  let ?db2 = "notify (to_notice FULFILLMENT_STARTED ?o r) (put_order ?o db1)"
  have id: "o_id ord = i" using get_row_Some [OF ord] by simp
  have its: "items_of ?db2 i = items_of db i" using run(1) by (simp add: items_of_def attempt_started_def)
  then obtain it rest where it: "items_of ?db2 i = it # rest" using items by (cases "items_of db i") auto
  let ?b = "b\<lparr>fa_order_item_id := Some (oi_id it)\<rparr>"
  have "run_attempt env db1 ord b r n (fulfillment_profile env db1 ord) now = (db', Inr a)" using run(3) assms(4) by simp
  then have f: "fulfill env (put_attempt ?b ?db2) ?o ?b (it # rest) r (fulfillment_profile env db1 ord) now = (db', Inr a)"
    using it id by (auto simp: run_attempt_def Let_def in_processing_def split: prod.splits sum.splits if_splits)
  have held: "holds_attempt (put_attempt ?b ?db2) ?b"
    using run(1) by (auto simp: attempt_started_def holds_attempt_def get_row_put_row)
  have row: "get_row o_id i (put_row o_id o2 (put_row o_id ?o (orders db))) = Some o2"
      "get_row o_id i (put_row o_id ?o (orders db)) = Some ?o" if "o_id o2 = i" for o2
    using ord that id by (auto intro!: get_row_put_row)
  show ?thesis
    using fulfill_Inr [OF f held] run(1,2) its it row id
    by (intro disjI2) (auto simp: attempt_started_def order_status_def list_all_iff dest!: get_row_Some split: if_splits)
qed

lemma supplied_execution:
  "case execute_order_fulfillment (supplied_by (answering ProviderOrderState.COMPLETED)) (supplied_shop OrderStatus.PAID) 70 ''r'' 1 10 of
     (db', Inr a) \<Rightarrow> order_status db' 70 = Some OrderStatus.FULFILLED | _ \<Rightarrow> False"
  by code_simp

theorem fulfilled_only_when_delivered_witness:
  "\<exists>db' a. execute_order_fulfillment (supplied_by (answering ProviderOrderState.COMPLETED)) (supplied_shop OrderStatus.PAID) 70 ''r'' 1 10 = (db', Inr a) \<and>
     fa_status a = FulfillmentStatus.SUCCEEDED"
proof -
  obtain db' a where r: "execute_order_fulfillment (supplied_by (answering ProviderOrderState.COMPLETED))
      (supplied_shop OrderStatus.PAID) 70 ''r'' 1 10 = (db', Inr a)" and st: "order_status db' 70 = Some OrderStatus.FULFILLED"
    using supplied_execution by (auto split: prod.splits sum.splits)
  have "items_of (supplied_shop OrderStatus.PAID) 70 \<noteq> []" by (simp add: items_of_def supplied_shop_def paid_item_def)
  from fulfilled_only_when_delivered [OF supplied_shop_ok(1,4) this r] r st show ?thesis
    by (auto simp: in_processing_def paid_order_def split: if_splits)
qed

end
