(* ===== verification/Worker_Properties.thy ===== *)
theory Worker_Properties
  imports Fulfillment_Worker Fulfillment_Properties
begin

text \<open>
  The job queue: a job has one runner at a time, the worker empties its queue, a job that is given up has been
  paid back, and an operator can only requeue an order whose goods cannot be on the way.
\<close>

section \<open>Fulfilment leaves the jobs alone\<close>

lemma wallet_jobs:
  "get_or_create_wallet db t u c = (db', x) \<Longrightarrow> fulfillment_jobs db' = fulfillment_jobs (db :: 'x shop_db_scheme)"
  using shop_tables_eq(4) [of db' db] ledger_more_frame(1) [of db t u c] by simp

lemma refund_jobs:
  "refund db w a rid rty d now = (db', x) \<Longrightarrow> fulfillment_jobs db' = fulfillment_jobs (db :: 'x shop_db_scheme)"
  using shop_tables_eq(4) [of db' db] ledger_more_frame(2) [of db w a rid rty d now] by simp

lemma refund_order_jobs: "fulfillment_jobs (fst (refund_order db ord d now)) = fulfillment_jobs db"
  by (auto simp: refund_order_def and_then_def lift_res_def dest!: wallet_jobs refund_jobs split: prod.splits sum.splits)

lemma fulfill_jobs: "fulfillment_jobs (fst (fulfill env db ord a items r p now)) = fulfillment_jobs db"
proof -
  let ?b = "buy_items env db ord a r (profile_options p) (length items) items no_purchases now"
  obtain db1 x where b: "?b = (db1, x)" by (cases ?b)
  have "fulfillment_jobs db1 = fulfillment_jobs db"
    using supply_core_eqD(9) [of db1 db] buy_items_core [of env db ord a r "profile_options p" "length items" items no_purchases now] b
    by simp
  then show ?thesis
    using b by (auto simp: fulfill_def and_then_def Let_def split: sum.splits list.splits)
qed

lemma fulfillment_failed_jobs: "fulfillment_jobs (fulfillment_failed env db ord i n r e now) = fulfillment_jobs db"
proof -
  have "fulfillment_jobs s = fulfillment_jobs db" if "refund_order (put_attempt a db) ord d now = (s, x)" for a d s x
    using refund_order_jobs [of "put_attempt a db" ord d now] that by simp
  then show ?thesis
    by (auto simp: fulfillment_failed_def Let_def split: option.splits prod.splits sum.splits)
qed

lemma run_attempt_jobs: "fulfillment_jobs (fst (run_attempt env db ord a r n p now)) = fulfillment_jobs db"
proof -
  have f: "fulfill env d ord' a' items r p now = (s, x) \<Longrightarrow> fulfillment_jobs s = fulfillment_jobs d" for d s x ord' a' items
    using fulfill_jobs [of env d ord' a' items r p now] by simp
  show ?thesis
    by (auto simp: run_attempt_def Let_def fulfillment_failed_jobs dest!: f split: list.splits prod.splits sum.splits)
qed

lemma start_attempt_jobs: "fulfillment_jobs (fst (start_attempt db ord found n now)) = fulfillment_jobs db"
  by (simp add: start_attempt_def raise_other_def flush_attempt_def Let_def split: option.splits)

lemma execute_jobs: "fulfillment_jobs (fst (execute_order_fulfillment env db i r n now)) = fulfillment_jobs db"
proof -
  have s: "fulfillment_jobs d = fulfillment_jobs db" if "start_attempt db ord found n now = (d, x)" for ord found d x
    using start_attempt_jobs [of db ord found n now] that by simp
  show ?thesis
    by (auto simp: execute_order_fulfillment_def and_then_def run_attempt_jobs dest!: s split: sum.splits option.splits prod.splits)
qed

section \<open>The worker empties its queue\<close>

text \<open>A queue that is worked off turn by turn: every turn on a queue that is not empty takes away from the weight.\<close>

locale draining_queue =
  fixes turn :: "timestamp \<Rightarrow> 's \<Rightarrow> 's" and pending :: "'s \<Rightarrow> bool" and weight :: "'s \<Rightarrow> nat"
  assumes idle: "\<not> pending s \<Longrightarrow> turn now s = s"
    and works: "pending s \<Longrightarrow> weight (turn now s) < weight s"
begin

lemma stays_idle: "\<not> pending s \<Longrightarrow> fold turn clock s = s"
  by (induction clock) (simp_all add: idle)

lemma drained: "weight s \<le> length clock \<Longrightarrow> \<not> pending (fold turn clock s)"
proof (induction clock arbitrary: s)
  case Nil
  then show ?case using works [of s] by fastforce
next
  case (Cons now clock)
  then show ?case
  proof (cases "pending s")
    case True
    then have "weight (turn now s) \<le> length clock" using works [of s now] Cons.prems by simp
    then show ?thesis using Cons.IH by simp
  next
    case False
    then show ?thesis using idle stays_idle by simp
  qed
qed

end

definition job_weight :: "int \<Rightarrow> fulfillment_job \<Rightarrow> nat" where
  "job_weight max_retries job = Suc (nat (max_retries - jb_attempt_number job))"

definition queue_weight :: "fulfillment_worker \<times> 'x shop_db_scheme \<Rightarrow> nat" where
  "queue_weight state = (let wk = fst state in sum_list (map (job_weight (fw_max_retries wk)) (fw_queue wk)))"

definition worker_turn ::
  "'e supply_env_scheme \<Rightarrow> timestamp \<Rightarrow> fulfillment_worker \<times> 'x shop_db_scheme \<Rightarrow> fulfillment_worker \<times> 'x shop_db_scheme" where
  "worker_turn env now state = fst (process_one_now env state now)"

lemma enqueue_persisted_queue:
  "fw_queue (fst (enqueue_persisted_job wk job)) = fw_queue wk \<or> fw_queue (fst (enqueue_persisted_job wk job)) = fw_queue wk @ [job]"
  "fw_max_retries (fst (enqueue_persisted_job wk job)) = fw_max_retries wk"
  by (auto simp: enqueue_persisted_job_def split: option.splits)

lemma run_job_queue:
  "fw_max_retries (fst (fst (run_job env wk db job rec now))) = fw_max_retries wk \<and>
   (fw_queue (fst (fst (run_job env wk db job rec now))) = fw_queue wk \<or>
    (jb_attempt_number job < fw_max_retries wk \<and>
     (\<exists>job'. jb_attempt_number job' = jb_attempt_number job + 1 \<and>
        fw_queue (fst (fst (run_job env wk db job rec now))) = fw_queue wk @ [job'])))"
proof -
  let ?job' = "job\<lparr>jb_attempt_number := jb_attempt_number job + 1, jb_job_id := rec\<rparr>"
  have "fw_queue (fst (enqueue_persisted_job wk ?job')) = fw_queue wk \<or>
      (\<exists>job'. jb_attempt_number job' = jb_attempt_number job + 1 \<and> fw_queue (fst (enqueue_persisted_job wk ?job')) = fw_queue wk @ [job'])"
    using enqueue_persisted_queue(1) [of wk ?job'] by fastforce
  then show ?thesis
    by (auto simp: run_job_def Let_def enqueue_persisted_queue(2) split: prod.splits sum.splits)
qed

lemma process_job_queue:
  "fw_max_retries (fst (fst (process_job env wk db job now))) = fw_max_retries wk \<and>
   (fw_queue (fst (fst (process_job env wk db job now))) = fw_queue wk \<or>
    (jb_attempt_number job < fw_max_retries wk \<and>
     (\<exists>job'. jb_attempt_number job' = jb_attempt_number job + 1 \<and>
        fw_queue (fst (fst (process_job env wk db job now))) = fw_queue wk @ [job'])))"
  using run_job_queue [of env wk _ job _ now]
  by (auto simp: process_job_def claim_job_def Let_def split: option.splits)

interpretation fulfillment_queue: draining_queue "worker_turn env" "\<lambda>state. fw_queue (fst state) \<noteq> []" queue_weight
proof
  fix s :: "fulfillment_worker \<times> 'b shop_db_scheme" and now
  show "\<not> fw_queue (fst s) \<noteq> [] \<Longrightarrow> worker_turn env now s = s"
    by (cases s) (simp add: worker_turn_def process_one_now_def)
next
  fix s :: "fulfillment_worker \<times> 'b shop_db_scheme" and now
  assume ne: "fw_queue (fst s) \<noteq> []"
  obtain wk db where s: "s = (wk, db)" by (cases s)
  with ne obtain job rest where q: "fw_queue wk = job # rest" by (cases "fw_queue wk") auto
  have turn: "worker_turn env now s = fst (process_job env (take_job wk job rest) db job now)"
    using s q by (simp add: worker_turn_def process_one_now_def)
  have t: "fw_queue (take_job wk job rest) = rest" "fw_max_retries (take_job wk job rest) = fw_max_retries wk"
    by (simp_all add: take_job_def)
  show "queue_weight (worker_turn env now s) < queue_weight s"
    using process_job_queue [of env "take_job wk job rest" db job now] s q
    unfolding turn queue_weight_def Let_def by (auto simp: t job_weight_def)
qed

text \<open>C21: The worker always gets through its queue. Whatever the suppliers answer, after as many turns as the queue
  weighs, one for each job and one more for each retry it has left, no job is waiting in the memory of the
  worker: a job is scheduled again only with a higher attempt number below the limit.\<close>

theorem worker_drains_queue:
  assumes "queue_weight (wk, db) \<le> length clock"
  shows "fw_queue (fst (fold (worker_turn env) clock (wk, db))) = []"
  using fulfillment_queue.drained [OF assms] by simp

definition first_job :: fulfillment_job where
  "first_job = \<lparr>jb_order_id = 70, jb_recipient = ''r'', jb_attempt_number = 1, jb_metadata = None, jb_job_id = Some 80\<rparr>"

definition queued_record :: fulfillment_job_record where
  "queued_record = \<lparr>fj_id = 80, fj_created_at = 0, fj_tenant_id = 7, fj_order_id = 70, fj_recipient = ''r'', fj_attempt_number = 1,
     fj_status = FulfillmentJobStatus.QUEUED, fj_payload = [], fj_last_error = None, fj_failure_classification = None,
     fj_manual_requeue_count = 0, fj_last_requeued_at = None, fj_last_requeued_by = None, fj_locked_at = None, fj_completed_at = None\<rparr>"

definition queued_shop :: shop_db where
  "queued_shop = (supplied_shop OrderStatus.PAID)\<lparr>fulfillment_jobs := [queued_record]\<rparr>"

definition scheduled_worker :: fulfillment_worker where
  "scheduled_worker = default_worker\<lparr>fw_queue := [first_job], fw_queued_job_ids := [80]\<rparr>"

theorem worker_drains_queue_witness:
  "fw_queue (fst (fold (worker_turn (supplied_by (answering ProviderOrderState.FAILED))) [1, 2, 3] (scheduled_worker, queued_shop))) = []"
proof -
  have "queue_weight (scheduled_worker, queued_shop) \<le> length [1, 2, 3 :: timestamp]"
    by (simp add: queue_weight_def scheduled_worker_def default_worker_def first_job_def job_weight_def)
  then show ?thesis by (rule worker_drains_queue)
qed

section \<open>A purchase that is bought twice\<close>

text \<open>
  A supplier that accepts every purchase but answers the first one too late. The worker retries under the key
  of the second attempt, so the supplier cannot see that it is the same purchase and delivers again: the order
  was paid once and bought twice, under two different idempotency keys.
\<close>

definition late_first :: provider_client where
  "late_first = (answering ProviderOrderState.COMPLETED)\<lparr>client_create_order := \<lambda>t sent q.
     if sent = [] then Inl (OtherExc TimeoutError None)
     else client_create_order (answering ProviderOrderState.COMPLETED) t sent q\<rparr>"

lemma timeout_buys_twice:
  "case fold (worker_turn (supplied_by late_first)) [1, 2] (scheduled_worker, queued_shop) of
     (_, db) \<Rightarrow> order_status db 70 = Some OrderStatus.FULFILLED \<and>
       map (\<lambda>x. oq_idempotency_key (snd x)) (dispatched db) = [attempt_key 70 1, attempt_key 70 2]"
  by code_simp

section \<open>One runner\<close>

definition job_status :: "'x shop_db_scheme \<Rightarrow> uuid \<Rightarrow> FulfillmentJobStatus option" where
  "job_status db i = map_option fj_status (get_row fj_id i (fulfillment_jobs db))"

lemma claim_job_running:
  assumes "claim_job db i t = (db', True)" and "distinct (map fj_id (fulfillment_jobs db))"
  shows "\<forall>j \<in> set (fulfillment_jobs db'). fj_id j = i \<longrightarrow> fj_status j = FulfillmentJobStatus.RUNNING"
proof -
  obtain j0 where j0: "j0 \<in> set (fulfillment_jobs db)" "fj_id j0 = i" "fj_status j0 = FulfillmentJobStatus.QUEUED"
    using assms(1) by (auto simp: claim_job_def Let_def list_ex_iff)
  have only: "j = j0" if "j \<in> set (fulfillment_jobs db)" "fj_id j = i" for j
    using that j0 assms(2) by (auto simp: distinct_map inj_on_def)
  let ?q = "\<lambda>j. fj_id j = i \<and> fj_status j = FulfillmentJobStatus.QUEUED"
  let ?f = "\<lambda>j. j\<lparr>fj_status := FulfillmentJobStatus.RUNNING, fj_locked_at := Some t\<rparr>"
  have jobs: "fulfillment_jobs db' = update_where ?q ?f (fulfillment_jobs db)"
    using assms(1) by (auto simp: claim_job_def Let_def)
  show ?thesis
  proof (intro ballI impI)
    fix j assume j: "j \<in> set (fulfillment_jobs db')" "fj_id j = i"
    obtain r where r: "r \<in> set (fulfillment_jobs db)" "j = (if ?q r then ?f r else r)"
      using j(1) unfolding jobs in_update_where by blast
    have "fj_id r = i" using j(2) unfolding r(2) by (cases "?q r") simp_all
    then have "?q r" using only [OF r(1)] j0 by simp
    then show "fj_status j = FulfillmentJobStatus.RUNNING" using r(2) by simp
  qed
qed

text \<open>A job has one runner. Once a worker has claimed a job, no worker that takes up the same job runs it, even if
  it does so in the middle of the run: as long as no worker has written the job rows again the second
  one changes nothing, sends nothing to a supplier and leaves its own queues alone.\<close>

theorem claimed_job_not_run_again:
  assumes "claim_job db i t = (db1, True)" and "distinct (map fj_id (fulfillment_jobs db))"
    and "fulfillment_jobs db2 = fulfillment_jobs db1" and "jb_job_id job = Some i"
  shows "process_job env wk db2 job now = ((wk, db2), None)"
proof -
  let ?q = "\<lambda>j. fj_id j = i \<and> fj_status j = FulfillmentJobStatus.QUEUED"
  have none: "\<not> ?q j" if "j \<in> set (fulfillment_jobs db2)" for j
    using claim_job_running [OF assms(1,2)] that assms(3) by auto
  then have "update_where ?q f (fulfillment_jobs db2) = fulfillment_jobs db2" for f
    unfolding update_where_def by (intro map_idI) auto
  then show ?thesis
    using none assms(4) by (auto simp: process_job_def claim_job_def Let_def list_ex_iff)
qed

theorem claimed_job_not_run_again_witness:
  "\<exists>db1. claim_job queued_shop 80 5 = (db1, True) \<and>
     process_job (supplied_by late_first) default_worker
       (fst (execute_order_fulfillment (supplied_by late_first) db1 70 ''r'' 1 6)) first_job 7 =
     ((default_worker, fst (execute_order_fulfillment (supplied_by late_first) db1 70 ''r'' 1 6)), None)"
proof -
  obtain db1 where c: "claim_job queued_shop 80 5 = (db1, True)"
    by (simp add: claim_job_def Let_def queued_shop_def queued_record_def)
  have d: "distinct (map fj_id (fulfillment_jobs queued_shop))" and j: "jb_job_id first_job = Some 80"
    by (simp_all add: queued_shop_def first_job_def)
  show ?thesis
    using claimed_job_not_run_again [OF c d execute_jobs j] c by blast
qed

section \<open>A job that is given up\<close>

lemma update_record_row:
  assumes "get_row fj_id i (fulfillment_jobs db) = Some rec" and "fj_id (f rec) = i"
  shows "job_status (update_record (Some i) f db) i = Some (fj_status (f rec))"
  using assms get_row_put_row [OF assms(1), of "f rec"] by (simp add: update_record_def job_status_def put_job_def)

lemma update_record_frame [simp]:
  "wallets (update_record r f db) = wallets db" "ledger (update_record r f db) = ledger db" "orders (update_record r f db) = orders db"
  "balance_of (update_record r f db) = balance_of db" "dispatched (update_record r f db) = dispatched db"
  "notices (update_record r f db) = notices db" "fulfillment_attempts (update_record r f db) = fulfillment_attempts db"
  by (auto simp: update_record_def put_job_def balance_of_def fun_eq_iff split: option.splits)

lemma claim_job_frame:
  assumes "claim_job db i now = (db1, b)"
  shows "wallets db1 = wallets db" "ledger db1 = ledger db" "holds db1 = holds db" "next_id db1 = next_id db" "orders db1 = orders db"
    "fulfillment_attempts db1 = fulfillment_attempts db" "order_items db1 = order_items db" "dispatched db1 = dispatched db"
  using assms by (auto simp: claim_job_def Let_def)

text \<open>C16: A job is given up only with the money back. When the worker runs a queued job of a paid order at its last
  attempt and no attempt comes out of it, then the job is a dead letter, the order is failed, and the
  customer's wallet holds the whole total again.\<close>

theorem given_up_job_refunded:
  assumes inv: "ledger_inv db" and rows: "shop_rows db" and ord: "get_row o_id (jb_order_id job) (orders db) = Some ord"
    and open_order: "o_status ord = OrderStatus.PAID \<or> o_status ord = OrderStatus.PROCESSING"
    and total: "0 < o_total_amount ord" and none: "not_refunded db ord"
    and job: "jb_job_id job = Some i" "get_row fj_id i (fulfillment_jobs db) = Some rec" "fj_status rec = FulfillmentJobStatus.QUEUED"
    and last_try: "fw_max_retries wk = 3" "3 \<le> jb_attempt_number job"
    and run: "process_job env wk db job now = ((wk', db'), None)"
  shows "job_status db' i = Some FulfillmentJobStatus.DEAD_LETTER \<and> fw_dead_letter_queue wk' = fw_dead_letter_queue wk @ [job] \<and>
    order_status db' (jb_order_id job) = Some OrderStatus.FAILED \<and>
    balance_of db' (order_account ord) = balance_of db (order_account ord) + o_total_amount ord"
proof -
  let ?q = "\<lambda>j. fj_id j = i \<and> fj_status j = FulfillmentJobStatus.QUEUED"
  let ?x = "execute_order_fulfillment env (fst (claim_job db i now)) (jb_order_id job) (jb_recipient job) (jb_attempt_number job) now"
  obtain db1 c where c: "claim_job db i now = (db1, c)" by (cases "claim_job db i now")
  note same = claim_job_frame [OF c]
  have rec: "rec \<in> set (fulfillment_jobs db)" "fj_id rec = i" using get_row_Some [OF job(2)] by auto
  then have True: "c" using c job(3) by (auto simp: claim_job_def Let_def list_ex_iff)
  obtain db2 x where e: "?x = (db2, x)" by (cases ?x)
  have jobs2: "fulfillment_jobs db2 = fulfillment_jobs db1"
    using execute_jobs [of env db1 "jb_order_id job" "jb_recipient job" "jb_attempt_number job" now] e c by simp
  have res: "process_job env wk db job now = run_job env wk db1 job (Some i) now"
    using job(1) c True by (simp add: process_job_def)
  from run res e c last_try obtain er where er: "x = Inl er"
    and db': "db' = update_record (Some i) (job_dead (env_exc_str env er) (exc_name er)) db2"
    and wk': "fw_dead_letter_queue wk' = fw_dead_letter_queue wk @ [job]"
    by (auto simp: run_job_def split: sum.splits if_splits)
  have "get_row fj_id i (update_where ?q f (fulfillment_jobs db)) = Some (f rec)" if "\<And>j. fj_id (f j) = fj_id j" for f
    using job(2,3) that first_row_update_where [of "\<lambda>j. fj_id j = i" f ?q] by (simp add: get_row_def rec(2))
  then have "\<exists>rec'. get_row fj_id i (fulfillment_jobs db2) = Some rec' \<and> fj_id rec' = i"
    using jobs2 c rec(2) by (auto simp: claim_job_def Let_def)
  then have st: "job_status db' i = Some FulfillmentJobStatus.DEAD_LETTER"
    unfolding db' using update_record_row by (fastforce simp: job_dead_def)
  have inv1: "ledger_inv db1" using inv ledger_same(1) [of db1 db] same by simp
  have rows1: "shop_rows db1" using rows same by (simp add: shop_rows_def)
  have none1: "not_refunded db1 ord" using none same by (simp add: not_refunded_def find_entry_def)
  have ord1: "get_row o_id (jb_order_id job) (orders db1) = Some ord" using ord same by simp
  have can: "OrderStateMachine_can_transition (o_status (in_processing ord)) OrderStatus.FAILED"
    using open_order by (auto simp: in_processing_def OrderStateMachine_can_transition_def)
  have id: "o_id ord = jb_order_id job" using get_row_Some [OF ord] by simp
  have "execute_order_fulfillment env db1 (jb_order_id job) (jb_recipient job) (jb_attempt_number job) now = (db2, Inl er)"
    using e c er by simp
  from execute_raises [OF inv1 rows1 ord1 total none1 this]
  have "paid_back db1 db2 ord" "order_status db2 (jb_order_id job) = Some OrderStatus.FAILED"
    using can last_try(2) id by (auto simp: failure_outcome_def)
  moreover have "balance_of db1 = balance_of db" using same by (simp add: balance_of_def fun_eq_iff)
  ultimately show ?thesis
    using st wk' unfolding db' by (simp add: paid_back_def order_status_def)
qed

definition last_job :: fulfillment_job where
  "last_job = first_job\<lparr>jb_attempt_number := 3\<rparr>"

lemma last_job_fails:
  "case process_job (supplied_by (answering ProviderOrderState.FAILED)) default_worker queued_shop last_job 9 of (_, a) \<Rightarrow> a = None"
  by code_simp

theorem given_up_job_refunded_witness:
  "\<exists>wk' db'. process_job (supplied_by (answering ProviderOrderState.FAILED)) default_worker queued_shop last_job 9 = ((wk', db'), None) \<and>
     job_status db' 80 = Some FulfillmentJobStatus.DEAD_LETTER \<and> balance_of db' (7, 8, ''USD'') = balance_of queued_shop (7, 8, ''USD'') + 5"
proof -
  let ?o = "paid_order\<lparr>o_status := OrderStatus.PAID\<rparr>"
  have ok: "ledger_inv queued_shop" "shop_rows queued_shop" "get_row o_id (jb_order_id last_job) (orders queued_shop) = Some ?o"
      "not_refunded queued_shop ?o"
    using supplied_shop_ok [of OrderStatus.PAID] ledger_same(1) [of queued_shop "supplied_shop OrderStatus.PAID"]
    by (simp_all add: queued_shop_def shop_rows_def not_refunded_def find_entry_def last_job_def first_job_def)
  have job: "jb_job_id last_job = Some 80" "get_row fj_id 80 (fulfillment_jobs queued_shop) = Some queued_record"
      "fj_status queued_record = FulfillmentJobStatus.QUEUED" "fw_max_retries default_worker = 3" "3 \<le> jb_attempt_number last_job"
    by (simp_all add: last_job_def first_job_def queued_shop_def queued_record_def get_row_def default_worker_def)
  obtain wk' db' where r: "process_job (supplied_by (answering ProviderOrderState.FAILED)) default_worker queued_shop last_job 9 = ((wk', db'), None)"
    using last_job_fails by (auto split: prod.splits)
  from given_up_job_refunded [OF ok(1-3) _ _ ok(4) job r] r show ?thesis
    by (simp add: paid_order_def order_account_def)
qed

section \<open>Requeue by an operator\<close>

lemma attempt_refusal_None:
  "attempt_refusal a = Inr None \<Longrightarrow> \<not> truthy (fa_external_order_id a) \<and>
     fa_status a \<notin> {FulfillmentStatus.UNKNOWN, FulfillmentStatus.SUCCEEDED, FulfillmentStatus.PROCESSING}"
  by (auto simp: attempt_refusal_def split: if_splits)

lemma attempt_refusal_refuses: "attempt_refusal a = Inr (Some d) \<Longrightarrow> \<not> rq_allowed d"
  by (auto simp: attempt_refusal_def refuse_def res_bind_Inr_iff split: if_splits)

lemma latest_attempt_max:
  assumes "latest_fulfillment_attempt db t i = Some a" and "b \<in> set (fulfillment_attempts db)" "fa_tenant_id b = t" "fa_order_id b = i"
  shows "fa_attempt_number b \<le> fa_attempt_number a"
proof -
  have "(- fa_attempt_number a, - fa_created_at a) \<le> (- fa_attempt_number b, - fa_created_at b)"
    using first_by_SomeD(2) [OF assms(1) [unfolded latest_fulfillment_attempt_def], of b] assms(2-4) by simp
  then show ?thesis by (auto simp: less_eq_prod_def)
qed

lemma requeue_allowed:
  assumes "evaluate_manual_requeue db t job = Inr d" and "rq_allowed d" and "rq_next_attempt_number d = Some n"
  shows "fj_tenant_id job = t \<and> fj_status job = FulfillmentJobStatus.DEAD_LETTER \<and>
    (\<exists>ord \<in> set (orders db). o_id ord = fj_order_id job \<and> o_tenant_id ord = t \<and>
       (o_status ord = OrderStatus.PAID \<or> o_status ord = OrderStatus.PROCESSING)) \<and>
    \<not> order_has_fulfillment_refund db t (fj_order_id job) \<and>
    (\<forall>a \<in> set (fulfillment_attempts db). fa_tenant_id a = t \<and> fa_order_id a = fj_order_id job \<longrightarrow> fa_attempt_number a < n) \<and>
    (case latest_fulfillment_attempt db t (fj_order_id job) of
       None \<Rightarrow> True
     | Some a \<Rightarrow> \<not> truthy (fa_external_order_id a) \<and>
         fa_status a \<notin> {FulfillmentStatus.UNKNOWN, FulfillmentStatus.SUCCEEDED, FulfillmentStatus.PROCESSING})"
proof -
  from assms obtain ord where o1: "first_row (\<lambda>ord. o_id ord = fj_order_id job \<and> o_tenant_id ord = t) (orders db) = Some ord"
      "fj_tenant_id job = t" "fj_status job = FulfillmentJobStatus.DEAD_LETTER"
      "o_status ord \<in> {OrderStatus.PAID, OrderStatus.PROCESSING}" "\<not> order_has_fulfillment_refund db t (o_id ord)"
    by (auto simp: evaluate_manual_requeue_def refuse_def split: if_splits option.splits)
  have id: "ord \<in> set (orders db)" "o_id ord = fj_order_id job" "o_tenant_id ord = t" using first_row_SomeD [OF o1(1)] by auto
  let ?latest = "latest_fulfillment_attempt db t (fj_order_id job)"
  let ?next = "max (fj_attempt_number job) (case ?latest of None \<Rightarrow> 0 | Some a \<Rightarrow> fa_attempt_number a) + 1"
  obtain ref where ref: "(case ?latest of None \<Rightarrow> Inr None | Some a \<Rightarrow> attempt_refusal a) = Inr ref"
      "d = (case ref of Some x \<Rightarrow> x | None \<Rightarrow> \<lparr>rq_allowed = True, rq_reason_code = ''SAFE_TO_REQUEUE'', rq_next_attempt_number = Some ?next\<rparr>)"
    using assms(1) o1 id(2) by (auto simp: evaluate_manual_requeue_def Let_def res_bind_Inr_iff)
  have "ref = None"
  proof (rule ccontr)
    assume "ref \<noteq> None"
    then obtain x a where "ref = Some x" "attempt_refusal a = Inr (Some x)" using ref(1) by (cases ?latest) auto
    then show False using ref(2) assms(2) attempt_refusal_refuses by simp
  qed
  then have n: "n = ?next" and ok: "\<And>a. ?latest = Some a \<Longrightarrow> attempt_refusal a = Inr None"
    using ref assms(3) by auto
  have "fa_attempt_number a < n" if "a \<in> set (fulfillment_attempts db)" "fa_tenant_id a = t" "fa_order_id a = fj_order_id job" for a
  proof (cases ?latest)
    case None
    then have "filter (\<lambda>a. fa_tenant_id a = t \<and> fa_order_id a = fj_order_id job) (fulfillment_attempts db) = []"
      by (simp add: latest_fulfillment_attempt_def first_by_None_iff)
    then show ?thesis using that by (auto simp: filter_empty_conv)
  next
    case (Some b)
    then show ?thesis using latest_attempt_max [OF Some that] n by simp
  qed
  moreover have "case ?latest of None \<Rightarrow> True | Some a \<Rightarrow> \<not> truthy (fa_external_order_id a) \<and>
      fa_status a \<notin> {FulfillmentStatus.UNKNOWN, FulfillmentStatus.SUCCEEDED, FulfillmentStatus.PROCESSING}"
    using attempt_refusal_None [OF ok] by (cases ?latest) auto
  ultimately show ?thesis using o1 id by auto
qed

text \<open>C28: A requeue cannot buy what may already be bought or is already refunded. An operator's requeue succeeds only
  for a dead job of the operator's own tenant whose order is paid or processing and has no refund entry, and
  whose latest attempt has no order id at a supplier and is neither unknown, active nor succeeded; the job is then
  queued again under an attempt number no earlier attempt of the order has, and no money moves.\<close>

theorem requeue_is_safe:
  assumes "requeue_dead_letter_job db t i actor now = (db', Inr (job, d))"
  shows "fj_id job = i \<and> fj_tenant_id job = t \<and> fj_status job = FulfillmentJobStatus.QUEUED \<and> wallets db' = wallets db \<and> ledger db' = ledger db \<and>
    (\<exists>old \<in> set (fulfillment_jobs db). fj_id old = i \<and> fj_tenant_id old = t \<and> fj_status old = FulfillmentJobStatus.DEAD_LETTER \<and>
       fj_order_id old = fj_order_id job) \<and>
    (\<exists>ord \<in> set (orders db). o_id ord = fj_order_id job \<and> o_tenant_id ord = t \<and>
       (o_status ord = OrderStatus.PAID \<or> o_status ord = OrderStatus.PROCESSING)) \<and>
    \<not> order_has_fulfillment_refund db t (fj_order_id job) \<and>
    list_all (\<lambda>a. fa_tenant_id a = t \<and> fa_order_id a = fj_order_id job \<longrightarrow> fa_attempt_number a < fj_attempt_number job) (fulfillment_attempts db) \<and>
    (case latest_fulfillment_attempt db t (fj_order_id job) of
       None \<Rightarrow> True
     | Some a \<Rightarrow> \<not> truthy (fa_external_order_id a) \<and>
         fa_status a \<notin> {FulfillmentStatus.UNKNOWN, FulfillmentStatus.SUCCEEDED, FulfillmentStatus.PROCESSING})"
proof -
  from assms obtain old n where old: "scalar_one_or_none (\<lambda>j. fj_id j = i \<and> fj_tenant_id j = t) (fulfillment_jobs db) = Inr (Some old)"
    and dec: "evaluate_manual_requeue db t old = Inr d" "rq_allowed d" "rq_next_attempt_number d = Some n"
    and db': "db' = db\<lparr>fulfillment_jobs := update_where (\<lambda>j. fj_id j = fj_id old \<and> fj_tenant_id j = t \<and> fj_status j = FulfillmentJobStatus.DEAD_LETTER)
        (requeued_by_operator n actor now) (fulfillment_jobs db)\<rparr>"
    and job: "first_row (\<lambda>j. fj_id j = fj_id old \<and> fj_tenant_id j = t) (fulfillment_jobs db') = Some job"
    by (auto simp: requeue_dead_letter_job_def lift_res_def Let_def split: sum.splits option.splits if_splits)
  note safe = requeue_allowed [OF dec]
  have first: "first_row (\<lambda>j. fj_id j = i \<and> fj_tenant_id j = t) (fulfillment_jobs db) = Some old"
    using old by (auto simp: scalar_one_or_none_def first_row_hd_filter split: list.splits)
  then have o1: "old \<in> set (fulfillment_jobs db)" "fj_id old = i" "fj_tenant_id old = t"
    using first_row_SomeD by fastforce+
  have "first_row (\<lambda>j. fj_id j = i \<and> fj_tenant_id j = t) (fulfillment_jobs db') = Some (requeued_by_operator n actor now old)"
    using first_row_update_where [of "\<lambda>j. fj_id j = i \<and> fj_tenant_id j = t" "requeued_by_operator n actor now"] first safe o1
    by (simp add: db' requeued_by_operator_def)
  then have j: "job = requeued_by_operator n actor now old" using job o1 by simp
  show ?thesis
    using safe o1 unfolding j by (auto simp: requeued_by_operator_def db' list_all_iff)
qed

definition dead_shop :: shop_db where
  "dead_shop = queued_shop\<lparr>fulfillment_jobs := [queued_record\<lparr>fj_status := FulfillmentJobStatus.DEAD_LETTER\<rparr>]\<rparr>"

lemma dead_shop_requeues:
  "case requeue_dead_letter_job dead_shop 7 80 9 20 of (_, Inr (job, _)) \<Rightarrow> fj_attempt_number job = 2 | _ \<Rightarrow> False"
  by code_simp

theorem requeue_is_safe_witness:
  "\<exists>db' job d. requeue_dead_letter_job dead_shop 7 80 9 20 = (db', Inr (job, d)) \<and> fj_status job = FulfillmentJobStatus.QUEUED \<and>
     ledger db' = ledger dead_shop"
proof -
  obtain db' job d where r: "requeue_dead_letter_job dead_shop 7 80 9 20 = (db', Inr (job, d))"
    using dead_shop_requeues by (auto split: prod.splits sum.splits)
  from requeue_is_safe [OF r] r show ?thesis by auto
qed

end
