(* ===== verification/Fulfillment_Reconciliation.thy ===== *)
theory Fulfillment_Reconciliation
  imports Fulfillment
begin

text \<open>
  Pull reconciliation of dispatched purchases (\<open>packages/fulfillment/reconciliation.py\<close> and its worker). One call works on the
  session's store; \<open>reconcile_attempt\<close> says beside the new store whether the call ended in a commit. What it
  raises inside its \<open>try\<close> is swallowed, and the assignments made before it stay in the session: a later commit of
  the same session writes them. A batch therefore runs on a pair of stores, the committed one and the session's.
\<close>

record recon_env = supply_env +
  env_activation_timeout :: decimal

record discrepancy =
  dy_order_id :: uuid
  dy_order_number :: str
  dy_issue_type :: str

definition discrepancy_of :: "order \<Rightarrow> str \<Rightarrow> discrepancy" where
  "discrepancy_of ord issue_type = \<lparr>dy_order_id = o_id ord, dy_order_number = o_order_number ord, dy_issue_type = issue_type\<rparr>"

section \<open>One attempt\<close>

definition queried_provider :: "'e deposit_env_scheme \<Rightarrow> 'x shop_db_scheme \<Rightarrow> fulfillment_attempt \<Rightarrow> provider option res" where
  "queried_provider env db attempt =
     (let provider_id = (case fa_provider_id attempt of
            Some p \<Rightarrow> Some p
          | None \<Rightarrow> (case map_of (fa_request_payload attempt) ''provider_id'' of
                       None \<Rightarrow> None
                     | Some raw \<Rightarrow> (case parse_uuid_json env raw of Inl _ \<Rightarrow> None | Inr p \<Rightarrow> Some p)))
      in case provider_id of
           None \<Rightarrow> Inr None
         | Some i \<Rightarrow> scalar_one_or_none (\<lambda>p. pr_id p = i \<and> pr_tenant_id p = fa_tenant_id attempt) (providers db))"

definition query_target :: "fulfillment_attempt \<Rightarrow> str" where
  "query_target attempt = (if truthy (fa_external_order_id attempt) then the (fa_external_order_id attempt) else fa_idempotency_key attempt)"

definition check_payload :: "provider_order_check \<Rightarrow> json" where
  "check_payload c = provider_response_payload (oc_external_order_id c) (oc_canonical_state c) (oc_raw_data c) (oc_delivery c)"

definition json_float :: "'e shop_env_scheme \<Rightarrow> json \<Rightarrow> decimal res" where
  "json_float env v =
     (case v of
        JNum x \<Rightarrow> Inr x
      | JBool b \<Rightarrow> Inr (if b then 1 else 0)
      | JStr s \<Rightarrow> (case env_float env s of None \<Rightarrow> Inl ValueError | Some x \<Rightarrow> Inr x)
      | _ \<Rightarrow> Inl TypeError)"

definition total_seconds :: "int \<Rightarrow> decimal" where
  "total_seconds delta = of_int delta / of_int (timedelta_seconds 1)"

definition activation_timeout :: "'e recon_env_scheme \<Rightarrow> provider \<Rightarrow> decimal res" where
  "activation_timeout env p =
     (let v = dict_get (pr_metadata_json p) ''activation_timeout_seconds'' JNull
      in if json_truthy v then json_float env v else Inr (env_activation_timeout env))"

text \<open>The upstream order is completed.\<close>

definition reconcile_completed ::
  "'x shop_db_scheme \<Rightarrow> fulfillment_attempt \<Rightarrow> order \<Rightarrow> provider_order_check \<Rightarrow> timestamp \<Rightarrow> ('x shop_db_scheme, str) run" where
  "reconcile_completed db attempt ord check now =
     (let attempt = attempt\<lparr>fa_status := FulfillmentStatus.SUCCEEDED, fa_error_classification := None,
            fa_external_order_id := (if oc_external_order_id check = [] then fa_external_order_id attempt
                                     else Some (oc_external_order_id check))\<rparr>;
          db = put_attempt attempt db
      in lift_res db (if o_status ord = OrderStatus.FULFILLED then Inr ord else OrderStateMachine_transition ord OrderStatus.FULFILLED) (\<lambda>db ord.
           let db = put_order ord db;
               db = (case fa_order_item_id attempt of
                       Some item \<Rightarrow>
                         if fa_cost_amount attempt \<ge> 0
                         then fst (attribute_actual_cost db item (fa_provider_id attempt) (fa_cost_amount attempt) (fa_cost_currency attempt) now)
                         else db
                     | None \<Rightarrow> db)
           in (notify (to_notice FULFILLMENT_SUCCEEDED ord ''customer'') db, Inr ''OUT_OF_SYNC_RESOLVED'')))"

text \<open>
  The upstream order failed, or waited too long for its activation: the order fails first, then the refund is
  booked.
\<close>

definition reconcile_refund ::
  "'x shop_db_scheme \<Rightarrow> fulfillment_attempt \<Rightarrow> order \<Rightarrow> str \<Rightarrow> str \<Rightarrow> str \<Rightarrow> timestamp \<Rightarrow> ('x shop_db_scheme, str) run" where
  "reconcile_refund db attempt ord classification description issue_type now =
     (let db = put_attempt (attempt\<lparr>fa_status := FulfillmentStatus.FAILED, fa_error_classification := Some classification\<rparr>) db
      in lift_res db (OrderStateMachine_transition ord OrderStatus.FAILED) (\<lambda>db ord.
         and_then (get_or_create_wallet (put_order ord db) (o_tenant_id ord) (o_user_id ord) (o_currency ord)) (\<lambda>db wlt.
         and_then (refund db wlt (o_total_amount ord) (Some (str_uuid (o_id ord))) (Some CANONICAL_REFUND_TYPE) (Some description) now) (\<lambda>db _.
         (notify (to_notice ORDER_REFUNDED ord ''customer'') db, Inr issue_type)))))"

definition reconcile_pending ::
  "'x shop_db_scheme \<Rightarrow> fulfillment_attempt \<Rightarrow> provider_order_check \<Rightarrow> ('x shop_db_scheme, str) run" where
  "reconcile_pending db attempt check =
     (let unknown = (oc_canonical_state check = ProviderOrderState.UNKNOWN)
      in (put_attempt (attempt\<lparr>fa_status := (if unknown then FulfillmentStatus.UNKNOWN else FulfillmentStatus.PROCESSING),
             fa_error_classification := (if unknown then Some ''UPSTREAM_STATE_UNKNOWN'' else None)\<rparr>) db,
          Inr ''UPSTREAM_STILL_PENDING''))"

text \<open>The body of the \<open>try\<close>, after the adapter was found; only \<open>cancel_order\<close> may fail silently.\<close>

definition reconcile_check ::
  "'e recon_env_scheme \<Rightarrow> 'x shop_db_scheme \<Rightarrow> fulfillment_attempt \<Rightarrow> order \<Rightarrow> provider \<Rightarrow> provider_order_check \<Rightarrow> timestamp \<Rightarrow>
   ('x shop_db_scheme, str) run" where
  "reconcile_check env db attempt ord p check now =
     (let attempt = attempt\<lparr>fa_response_payload := check_payload check\<rparr>; db = put_attempt attempt db
      in if oc_is_completed check \<or> oc_canonical_state check = ProviderOrderState.COMPLETED
         then reconcile_completed db attempt ord check now
         else if oc_is_failed check \<or> oc_canonical_state check \<in> set failed_states
         then reconcile_refund db attempt ord ''UPSTREAM_FAILED_RECONCILED''
                (''Automated refund via reconciliation for failed order #'' @ o_order_number ord) ''UPSTREAM_FAILED_RESOLVED'' now
         else lift_res db (activation_timeout env p) (\<lambda>db limit.
           if total_seconds (now - fa_started_at attempt) \<ge> limit \<and>
              oc_canonical_state check \<in> {ProviderOrderState.PROCESSING, ProviderOrderState.PENDING}
           then reconcile_refund db attempt ord ''UPSTREAM_ACTIVATION_TIMEOUT''
                  (''Automated refund: activation timed out after '' @ str_int (round_down (limit / 60)) @ ''m for order #'' @ o_order_number ord)
                  ''ACTIVATION_TIMED_OUT_REFUNDED'' now
           else reconcile_pending db attempt check))"

definition reconcile_attempt ::
  "'e recon_env_scheme \<Rightarrow> 'x shop_db_scheme \<Rightarrow> fulfillment_attempt \<Rightarrow> timestamp \<Rightarrow> (error, 'x shop_db_scheme, bool \<times> discrepancy list) step" where
  "reconcile_attempt env db attempt now =
     (case get_row o_id (fa_order_id attempt) (orders db) of
        None \<Rightarrow> (db, Inr (False, []))
      | Some ord \<Rightarrow>
          if o_tenant_id ord \<noteq> fa_tenant_id attempt then (db, Inr (False, []))
          else lift_res db (queried_provider env db attempt) (\<lambda>db found.
            case (if query_target attempt = [] then None else found) of
              Some p \<Rightarrow>
                (case adapter_for env db p of
                   Inl _ \<Rightarrow> (db, Inr (False, [discrepancy_of ord ''PROVIDER_QUERY_FAILED'']))
                 | Inr client \<Rightarrow>
                     (case client_get_order client (dispatched db) (query_target attempt) of
                        Inl _ \<Rightarrow> (db, Inr (False, [discrepancy_of ord ''PROVIDER_QUERY_FAILED'']))
                      | Inr check \<Rightarrow>
                          (case reconcile_check env db attempt ord p check now of
                             (db, Inr issue_type) \<Rightarrow> (db, Inr (True, [discrepancy_of ord issue_type]))
                           | (db, Inl _) \<Rightarrow> (db, Inr (False, [discrepancy_of ord ''PROVIDER_QUERY_FAILED''])))))
            | None \<Rightarrow>
                (db, Inr (False, if truthy (fa_external_order_id attempt) then []
                                 else [discrepancy_of ord ''STUCK_PROCESSING_WITHOUT_EXTERNAL_ID'']))))"

section \<open>Batches\<close>

definition active :: "fulfillment_attempt \<Rightarrow> bool" where
  "active a \<longleftrightarrow> fa_status a \<in> {FulfillmentStatus.PROCESSING, FulfillmentStatus.RETRYING, FulfillmentStatus.UNKNOWN}"

text \<open>
  The attempts of a batch are objects of the session, so each is seen as the session then has it. The stores
  are the committed one and the session's.
\<close>

fun reconcile_all ::
  "'e recon_env_scheme \<Rightarrow> 'x shop_db_scheme \<Rightarrow> 'x shop_db_scheme \<Rightarrow> uuid list \<Rightarrow> timestamp \<Rightarrow>
   (error, 'x shop_db_scheme \<times> 'x shop_db_scheme, discrepancy list) step" where
  "reconcile_all env committed db [] now = ((committed, db), Inr [])"
| "reconcile_all env committed db (i # is) now =
     (case get_row fa_id i (fulfillment_attempts db) of
        None \<Rightarrow> reconcile_all env committed db is now
      | Some attempt \<Rightarrow>
          (case reconcile_attempt env db attempt now of
             (db, Inl e) \<Rightarrow> ((committed, db), Inl e)
           | (db, Inr (commit, ds)) \<Rightarrow>
               (case reconcile_all env (if commit then db else committed) db is now of
                  (s, Inl e) \<Rightarrow> (s, Inl e)
                | (s, Inr rest) \<Rightarrow> (s, Inr (ds @ rest)))))"

definition reconcile_active_attempts ::
  "'e recon_env_scheme \<Rightarrow> 'x shop_db_scheme \<Rightarrow> int \<Rightarrow> timestamp \<Rightarrow> (error, 'x shop_db_scheme \<times> 'x shop_db_scheme, discrepancy list) step" where
  "reconcile_active_attempts env db limit now =
     reconcile_all env db db
       (map fa_id (take (nat (max 1 (min limit 1000))) (sort_key fa_started_at (filter active (fulfillment_attempts db))))) now"

definition reconcile_order ::
  "'e recon_env_scheme \<Rightarrow> 'x shop_db_scheme \<Rightarrow> uuid \<Rightarrow> uuid \<Rightarrow> timestamp \<Rightarrow> (error, 'x shop_db_scheme, bool \<times> discrepancy list) step" where
  "reconcile_order env db tenant_id order_id now =
     (case get_row o_id order_id (orders db) of
        None \<Rightarrow> (db, Inr (False, []))
      | Some ord \<Rightarrow>
          if o_tenant_id ord \<noteq> tenant_id then (db, Inr (False, []))
          else case first_by (\<lambda>a. (- fa_attempt_number a, - fa_created_at a))
                 (filter (\<lambda>a. fa_tenant_id a = tenant_id \<and> fa_order_id a = order_id \<and> active a) (fulfillment_attempts db)) of
                 None \<Rightarrow> (db, Inr (False, []))
               | Some attempt \<Rightarrow> reconcile_attempt env db attempt now)"

definition scan_and_reconcile_tenant ::
  "'e recon_env_scheme \<Rightarrow> 'x shop_db_scheme \<Rightarrow> uuid \<Rightarrow> timestamp \<Rightarrow> (error, 'x shop_db_scheme \<times> 'x shop_db_scheme, discrepancy list) step" where
  "scan_and_reconcile_tenant env db tenant_id now =
     reconcile_all env db db (map fa_id (filter (\<lambda>a. fa_tenant_id a = tenant_id \<and> active a) (fulfillment_attempts db))) now"

text \<open>\<open>ProviderReconciliationWorker\<close>: the bounds its constructor puts on the settings, and one cycle, in a session of its own.\<close>

definition clamped_interval :: "int \<Rightarrow> int" where
  "clamped_interval seconds = max 3 (min seconds 3600)"

definition clamped_batch :: "int \<Rightarrow> int" where
  "clamped_batch batch_size = max 1 (min batch_size 1000)"

definition reconcile_run_once ::
  "'e recon_env_scheme \<Rightarrow> bool \<Rightarrow> int \<Rightarrow> 'x shop_db_scheme \<Rightarrow> timestamp \<Rightarrow> (error, 'x shop_db_scheme, nat) step" where
  "reconcile_run_once env enabled batch_size db now =
     (if \<not> enabled then (db, Inr 0)
      else case reconcile_active_attempts env db (clamped_batch batch_size) now of
             ((committed, _), Inr ds) \<Rightarrow> (committed, Inr (length ds))
           | ((committed, _), Inl e) \<Rightarrow> (committed, Inl e))"

end
