(* ===== verification/Reconciliation_Properties.thy ===== *)
theory Reconciliation_Properties
  imports Fulfillment_Reconciliation Fulfillment_Properties
begin

text \<open>
  What reconciliation may conclude from the answer of a supplier: an order is fulfilled only if the supplier
  says so, and it is refunded exactly when it is failed.
\<close>

section \<open>Branches\<close>




section \<open>One answer\<close>

text \<open>What the supplier's answer says about the purchase.\<close>

definition says_completed :: "provider_order_check \<Rightarrow> bool" where
  "says_completed c \<longleftrightarrow> oc_is_completed c \<or> oc_canonical_state c = ProviderOrderState.COMPLETED"







definition recon_with :: "provider_client \<Rightarrow> recon_env" where
  "recon_with c = supply_env.extend (supplied_by c) \<lparr>env_activation_timeout = 900\<rparr>"



section \<open>Orders with several items\<close>

text \<open>
  An attempt keeps the supplier's id of its first item only, and reconciliation asks for that one. Two items, of which
  the supplier has delivered the first and still works on the second, are so reported as fulfilled.
\<close>

definition half_done :: provider_client where
  "half_done = (answering ProviderOrderState.COMPLETED)\<lparr>
     client_create_order := (\<lambda>_ sent _. Inr (if sent = []
        then order_response ''ext-1'' ''COMPLETED'' 2 True [] None None None []
        else order_response ''ext-2'' ''PENDING'' 2 True [] None None None [])),
     client_get_order := (\<lambda>_ i. Inr \<lparr>oc_external_order_id = i, oc_status = [], oc_is_completed = (i = ''ext-1''), oc_is_failed = False,
        oc_raw_data = [], oc_canonical_state = (if i = ''ext-1'' then ProviderOrderState.COMPLETED else ProviderOrderState.PENDING),
        oc_delivery = []\<rparr>)\<rparr>"

definition two_item_shop :: shop_db where
  "two_item_shop = (supplied_shop OrderStatus.PAID)\<lparr>order_items := [paid_item, paid_item\<lparr>oi_id := 72\<rparr>]\<rparr>"

lemma half_delivered_order_fulfilled:
  "case execute_order_fulfillment (supplied_by half_done) two_item_shop 70 ''r'' 1 10 of
     (db, Inr a) \<Rightarrow> fa_status a = FulfillmentStatus.UNKNOWN \<and> order_status db 70 = Some OrderStatus.PROCESSING \<and>
       (case reconcile_attempt (recon_with half_done) db a 20 of
          (db, Inr (True, _)) \<Rightarrow> order_status db 70 = Some OrderStatus.FULFILLED \<and>
            (case client_get_order half_done (dispatched db) ''ext-2'' of Inr c \<Rightarrow> \<not> says_completed c | _ \<Rightarrow> False)
        | _ \<Rightarrow> False)
   | _ \<Rightarrow> False"
  by code_simp

end
