(* ===== verification/Care.thy ===== *)
theory Care
  imports Shop_Store
begin

text \<open>
  \<open>packages/operations/service.py\<close>: support and warranty cases, coupons and announcements, with the audit entry each
  change of a case or an announcement leaves. Rows that are added without a flush get their key here,
  when they are added; nothing reads them before the flush.
\<close>

section \<open>Audit and membership\<close>

definition audit ::
  "'x shop_db_scheme \<Rightarrow> uuid \<Rightarrow> uuid \<Rightarrow> str \<Rightarrow> str \<Rightarrow> uuid \<Rightarrow> dict \<Rightarrow> 'x shop_db_scheme" where
  "audit db tenant_id actor_id action resource_type resource_id details =
     db\<lparr>audit_logs := audit_logs db @
          [\<lparr>au_id = next_id db, au_tenant_id = tenant_id, au_user_id = Some actor_id, au_action = action,
            au_resource_type = resource_type, au_resource_id = str_uuid resource_id, au_details = details,
            au_ip_address = None\<rparr>],
        next_id := Suc (next_id db)\<rparr>"

definition tenant_user :: "'x shop_db_scheme \<Rightarrow> uuid \<Rightarrow> uuid \<Rightarrow> unit res" where
  "tenant_user db tenant_id user_id =
     (if list_ex (\<lambda>m. me_tenant_id m = tenant_id \<and> me_user_id m = user_id \<and> me_is_active m) (memberships db) \<or>
         list_ex (\<lambda>b. tu_tenant_id b = tenant_id \<and> tu_user_id b = user_id \<and> \<not> tu_is_blocked b) (telegram_users db)
      then Inr () else Inl ValueError)"

section \<open>Cases\<close>

text \<open>\<open>isinstance(days, int)\<close>; a boolean is an integer in Python, and a JSON number is one when it is whole.\<close>

fun json_int :: "json \<Rightarrow> int option" where
  "json_int (JNum x) = (if of_int \<lfloor>x\<rfloor> = x then Some \<lfloor>x\<rfloor> else None)"
| "json_int (JBool b) = Some (if b then 1 else 0)"
| "json_int _ = None"

definition timedelta_days :: "int \<Rightarrow> int" where
  "timedelta_days n = timedelta_seconds (86400 * n)"

definition warranty_valid :: "dict \<Rightarrow> timestamp \<Rightarrow> timestamp \<Rightarrow> bool" where
  "warranty_valid snapshot created_at now =
     (case json_int (dict_get snapshot ''warranty_days'' (JNum 0)) of
        None \<Rightarrow> False
      | Some days \<Rightarrow> 1 \<le> days \<and> days \<le> 3650 \<and> \<not> now > created_at + timedelta_days days)"

definition case_key :: "support_case \<Rightarrow> uuid \<times> uuid option" where
  "case_key c = (sc_tenant_id c, sc_warranty_item_id c)"

definition flush_support_case ::
  "'x shop_db_scheme \<Rightarrow> support_case \<Rightarrow> ('x shop_db_scheme, support_case) run" where
  "flush_support_case db c =
     (if violates (\<lambda>c. sc_warranty_item_id c \<noteq> None) case_key (support_cases db) c then (db, Inl IntegrityError)
      else (db\<lparr>support_cases := support_cases db @ [c], next_id := Suc (next_id db)\<rparr>, Inr c))"

definition add_message :: "'x shop_db_scheme \<Rightarrow> uuid \<Rightarrow> uuid \<Rightarrow> uuid \<Rightarrow> str \<Rightarrow> bool \<Rightarrow> 'x shop_db_scheme" where
  "add_message db tenant_id case_id author_id body is_staff =
     db\<lparr>support_messages := support_messages db @
          [\<lparr>sm_id = next_id db, sm_tenant_id = tenant_id, sm_case_id = case_id, sm_author_id = author_id,
            sm_is_staff = is_staff, sm_body = body\<rparr>],
        next_id := Suc (next_id db)\<rparr>"

definition new_support_case ::
  "'x shop_db_scheme \<Rightarrow> uuid \<Rightarrow> uuid \<Rightarrow> uuid \<Rightarrow> str \<Rightarrow> str \<Rightarrow> uuid option \<Rightarrow> uuid option \<Rightarrow> bool \<Rightarrow> json option \<Rightarrow>
   ('x shop_db_scheme, support_case) run" where
  "new_support_case db tenant_id user_id actor_id subject body order_id warranty_item_id is_staff terms =
     and_then (flush_support_case db
       \<lparr>sc_id = next_id db, sc_tenant_id = tenant_id, sc_user_id = user_id, sc_order_id = order_id,
        sc_warranty_item_id = warranty_item_id, sc_kind = (if warranty_item_id = None then ''SUPPORT'' else ''WARRANTY''),
        sc_subject = subject, sc_status = ''OPEN'', sc_version = 1, sc_warranty_terms = terms, sc_resolution = None\<rparr>)
     (\<lambda>db c. (audit (add_message db tenant_id (sc_id c) actor_id body is_staff) tenant_id actor_id ''care.case_opened''
               ''support_cases'' (sc_id c) [], Inr c))"

definition open_case ::
  "'x shop_db_scheme \<Rightarrow> uuid \<Rightarrow> uuid \<Rightarrow> uuid \<Rightarrow> str \<Rightarrow> str \<Rightarrow> uuid option \<Rightarrow> uuid option \<Rightarrow> bool \<Rightarrow> timestamp \<Rightarrow>
   ('x shop_db_scheme, support_case) run" where
  "open_case db tenant_id user_id actor_id subject body order_id warranty_item_id is_staff now =
     lift_res db (tenant_user db tenant_id user_id) (\<lambda>db _.
     let ord = (case order_id of
                  None \<Rightarrow> None
                | Some oid \<Rightarrow> first_row (\<lambda>o1. o_id o1 = oid \<and> o_tenant_id o1 = tenant_id \<and> o_user_id o1 = user_id) (orders db))
     in if order_id \<noteq> None \<and> ord = None then (db, Inl ValueError)
        else case warranty_item_id of
          None \<Rightarrow> new_support_case db tenant_id user_id actor_id subject body order_id None is_staff None
        | Some item_id \<Rightarrow>
            (case ord of
               None \<Rightarrow> (db, Inl ValueError)
             | Some o1 \<Rightarrow>
                 if o_status o1 \<noteq> OrderStatus.FULFILLED then (db, Inl ValueError)
                 else case first_row (\<lambda>c. sc_tenant_id c = tenant_id \<and> sc_warranty_item_id c = Some item_id) (support_cases db) of
                   Some existing \<Rightarrow> (db, Inr existing)
                 | None \<Rightarrow>
                     let snapshot = (case first_row (\<lambda>i. oi_id i = item_id \<and> oi_order_id i = o_id o1) (order_items db) of
                                       None \<Rightarrow> [] | Some item \<Rightarrow> oi_sale_terms item)
                     in if \<not> warranty_valid snapshot (o_created_at o1) now then (db, Inl ValueError)
                        else new_support_case db tenant_id user_id actor_id subject body order_id (Some item_id) is_staff
                               (Some (dict_get snapshot ''warranty_terms'' (JStr [])))))"

definition case_transitions :: "str \<Rightarrow> str list" where
  "case_transitions status =
     (if status = ''OPEN'' then [''IN_PROGRESS'', ''APPROVED'', ''DECLINED'', ''RESOLVED'']
      else if status = ''IN_PROGRESS'' then [''APPROVED'', ''DECLINED'', ''RESOLVED'']
      else if status = ''APPROVED'' then [''RESOLVED''] else [])"

definition case_updated :: "support_case \<Rightarrow> int \<Rightarrow> str \<Rightarrow> str option \<Rightarrow> support_case" where
  "case_updated c expected_version body target =
     c\<lparr>sc_version := expected_version + 1,
       sc_status := (if truthy target then the target else sc_status c),
       sc_resolution := (if target \<in> {Some ''RESOLVED'', Some ''DECLINED''} then Some body else sc_resolution c)\<rparr>"

definition update_case ::
  "'x shop_db_scheme \<Rightarrow> uuid \<Rightarrow> uuid \<Rightarrow> uuid \<Rightarrow> int \<Rightarrow> str \<Rightarrow> str option \<Rightarrow> uuid option \<Rightarrow>
   ('x shop_db_scheme, support_case) run" where
  "update_case db tenant_id case_id actor_id expected_version body target customer_id =
     (case first_row (\<lambda>c. sc_tenant_id c = tenant_id \<and> sc_id c = case_id) (support_cases db) of
        None \<Rightarrow> (db, Inl ValueError)
      | Some c \<Rightarrow>
          if customer_id \<noteq> None \<and> Some (sc_user_id c) \<noteq> customer_id then (db, Inl ValueError)
          else if sc_version c \<noteq> expected_version then (db, Inl ValueError)
          else if sc_status c \<in> {''RESOLVED'', ''DECLINED''} then (db, Inl ValueError)
          else if truthy target \<and> (customer_id \<noteq> None \<or> the target \<notin> set (case_transitions (sc_status c))) then (db, Inl ValueError)
          else if truthy target \<and> the target \<in> {''APPROVED'', ''DECLINED''} \<and> sc_kind c \<noteq> ''WARRANTY'' then (db, Inl ValueError)
          else
            let hit = (\<lambda>r. sc_id r = sc_id c \<and> sc_tenant_id r = tenant_id \<and> sc_version r = expected_version);
                c' = case_updated c expected_version body target;
                rowcount = length (filter hit (support_cases db));
                db = db\<lparr>support_cases := update_where hit (\<lambda>r. case_updated r expected_version body target) (support_cases db)\<rparr>
            in if rowcount \<noteq> 1 then (db, Inl ValueError)
               else (audit (add_message db tenant_id (sc_id c) actor_id body (customer_id = None)) tenant_id actor_id
                       ''care.case_updated'' ''support_cases'' (sc_id c) [(''status'', JStr (sc_status c'))], Inr c'))"

section \<open>Coupons\<close>

definition discounted :: "decimal \<Rightarrow> decimal \<Rightarrow> decimal" where
  "discounted percent price = max (1 / 100) (price - quantize round_down 2 (price * percent / 100))"

definition coupon_usable :: "coupon \<Rightarrow> order \<Rightarrow> timestamp \<Rightarrow> bool" where
  "coupon_usable c ord now \<longleftrightarrow>
     cp_is_active c \<and> \<not> cp_expires_at c \<le> now \<and> cp_currency c = o_currency ord \<and>
     \<not> o_total_amount ord < cp_minimum_amount c"

definition redemption_key :: "coupon_redemption \<Rightarrow> uuid \<times> uuid" where
  "redemption_key r = (cn_tenant_id r, cn_order_id r)"

definition flush_redemption ::
  "'x shop_db_scheme \<Rightarrow> coupon_redemption \<Rightarrow> ('x shop_db_scheme, coupon_redemption) run" where
  "flush_redemption db r =
     (if violates (\<lambda>_. True) redemption_key (coupon_redemptions db) r then (db, Inl IntegrityError)
      else (db\<lparr>coupon_redemptions := coupon_redemptions db @ [r], next_id := Suc (next_id db)\<rparr>, Inr r))"

text \<open>\<open>sum(effective[key] * quantities[key] for key in effective)\<close>; a missing quantity is a \<open>KeyError\<close>.\<close>

fun cart_total :: "(uuid \<times> decimal) list \<Rightarrow> (uuid \<times> int) list \<Rightarrow> decimal res" where
  "cart_total [] quantities = Inr 0"
| "cart_total ((k, price) # rest) quantities =
     (case map_of quantities k of
        None \<Rightarrow> Inl KeyError
      | Some n \<Rightarrow> res_bind (cart_total rest quantities) (\<lambda>total. Inr (price * of_int n + total)))"

definition take_coupon_use :: "uuid \<Rightarrow> uuid \<Rightarrow> coupon \<Rightarrow> bool" where
  "take_coupon_use tenant_id coupon_id r \<longleftrightarrow>
     cp_tenant_id r = tenant_id \<and> cp_id r = coupon_id \<and> cp_used_count r < cp_max_uses r \<and> cp_is_active r"

definition apply_coupon ::
  "'x shop_db_scheme \<Rightarrow> uuid \<Rightarrow> uuid \<Rightarrow> order \<Rightarrow> str \<Rightarrow> (uuid \<times> decimal) list \<Rightarrow> (uuid \<times> int) list \<Rightarrow> timestamp \<Rightarrow>
   ('x shop_db_scheme, order \<times> (uuid \<times> decimal) list) run" where
  "apply_coupon db tenant_id user_id ord code prices quantities now =
     (case first_row (\<lambda>c. cp_tenant_id c = tenant_id \<and> cp_code c = code) (coupons db) of
        None \<Rightarrow> (db, Inl ValueError)
      | Some c \<Rightarrow>
          if \<not> coupon_usable c ord now then (db, Inl ValueError)
          else
            let hit = take_coupon_use tenant_id (cp_id c);
                rowcount = length (filter hit (coupons db));
                db = db\<lparr>coupons := update_where hit (\<lambda>r. r\<lparr>cp_used_count := cp_used_count r + 1\<rparr>) (coupons db)\<rparr>
            in if rowcount \<noteq> 1 then (db, Inl ValueError)
               else
                 let effective = map (\<lambda>(k, price). (k, discounted (cp_percent c) price)) prices in
                 lift_res db (cart_total effective quantities) (\<lambda>db discounted_total.
                 let discount = o_total_amount ord - discounted_total in
                 if discount \<le> 0 then (db, Inl ValueError)
                 else
                   let ord' = ord\<lparr>o_total_amount := discounted_total\<rparr> in
                   and_then (flush_redemption db
                     \<lparr>cn_id = next_id db, cn_tenant_id = tenant_id, cn_coupon_id = cp_id c, cn_order_id = o_id ord,
                      cn_user_id = user_id, cn_code = cp_code c, cn_discount_amount = discount, cn_currency = o_currency ord\<rparr>)
                   (\<lambda>db _. (put_order ord' db, Inr (ord', effective)))))"

section \<open>Announcements\<close>

definition audience ::
  "'x shop_db_scheme \<Rightarrow> uuid \<Rightarrow> announcement \<Rightarrow> tenant_telegram_user list" where
  "audience db tenant_id item =
     filter (\<lambda>b. tu_tenant_id b = tenant_id \<and> tu_bot_id b = an_bot_id item \<and> \<not> tu_is_blocked b \<and> tu_telegram_user_id b > 0 \<and>
        (an_audience item = ''BUYERS'' \<longrightarrow>
           list_ex (\<lambda>o1. o_tenant_id o1 = tenant_id \<and> o_user_id o1 = tu_user_id b \<and> o_status o1 = OrderStatus.FULFILLED) (orders db)))
       (telegram_users db)"

definition new_deliveries :: "uuid \<Rightarrow> uuid \<Rightarrow> uuid \<Rightarrow> tenant_telegram_user list \<Rightarrow> timestamp \<Rightarrow> announcement_delivery list" where
  "new_deliveries i tenant_id announcement_id recipients now =
     map (\<lambda>(k, b). \<lparr>ad_id = i + k, ad_tenant_id = tenant_id, ad_announcement_id = announcement_id, ad_binding_id = tu_id b,
                    ad_status = ''QUEUED'', ad_next_attempt_at = now, ad_error_code = None, ad_telegram_message_id = None\<rparr>)
       (enumerate 0 recipients)"

definition put_announcement :: "announcement \<Rightarrow> 'x shop_db_scheme \<Rightarrow> 'x shop_db_scheme" where
  "put_announcement a db = db\<lparr>announcements := put_row an_id a (announcements db)\<rparr>"

definition queue_announcement ::
  "'x shop_db_scheme \<Rightarrow> uuid \<Rightarrow> uuid \<Rightarrow> uuid \<Rightarrow> timestamp \<Rightarrow> ('x shop_db_scheme, announcement) run" where
  "queue_announcement db tenant_id announcement_id actor_id now =
     (case first_row (\<lambda>a. an_id a = announcement_id \<and> an_tenant_id a = tenant_id) (announcements db) of
        None \<Rightarrow> (db, Inl ValueError)
      | Some item \<Rightarrow>
          if an_status item \<noteq> ''DRAFT'' then (db, Inl ValueError)
          else if \<not> list_ex (\<lambda>b. bt_id b = an_bot_id item \<and> bt_tenant_id b = tenant_id \<and> bt_is_enabled b \<and> bt_deleted_at b = None) (bots db)
          then (db, Inl ValueError)
          else
            let recipients = take 10001 (audience db tenant_id item) in
            if recipients = [] \<or> 10000 < length recipients then (db, Inl ValueError)
            else
              let item = item\<lparr>an_status := ''QUEUED'', an_queued_at := Some now\<rparr>;
                  db = put_announcement item
                    (db\<lparr>announcement_deliveries := announcement_deliveries db @
                          new_deliveries (next_id db) tenant_id (an_id item) recipients now,
                        next_id := next_id db + length recipients\<rparr>)
              in (audit db tenant_id actor_id ''announcement.queued'' ''announcements'' (an_id item)
                    [(''recipients'', JNum (of_nat (length recipients))), (''audience'', JStr (an_audience item))], Inr item))"

end
