(* ===== verification/Checkout.thy ===== *)
theory Checkout
  imports Fulfillment Care
begin

text \<open>
  \<open>CheckoutService\<close> (\<open>packages/commerce/checkout.py\<close>). Until its commit, \<open>checkout_cart\<close> works in the transaction of the
  request: what it raises there is rolled back, so those branches return the store they were given. After the
  commit the fulfilment of a synchronous checkout runs on the committed store. The random part of the
  order number is the argument \<open>hex8\<close>.
\<close>

section \<open>The request\<close>

record checkout_line =
  cl_variant_id :: uuid
  cl_quantity :: int

text \<open>\<open>quantity_by_variant\<close>\<close>

fun quantities_of :: "checkout_line list \<Rightarrow> (uuid \<times> int) list \<Rightarrow> (uuid \<times> int) list res" where
  "quantities_of [] acc = Inr acc"
| "quantities_of (line # lines) acc =
     (if cl_quantity line \<le> 0 then Inl ValueError
      else quantities_of lines (AList.update (cl_variant_id line)
             ((case map_of acc (cl_variant_id line) of None \<Rightarrow> 0 | Some n \<Rightarrow> n) + cl_quantity line) acc))"

definition normalize_checkout_key :: "str option \<Rightarrow> str option res" where
  "normalize_checkout_key idempotency_key =
     (case idempotency_key of
        None \<Rightarrow> Inr None
      | Some k \<Rightarrow>
          let k = strip k in
          if k = [] then Inl ValueError else if length k > 100 then Inl ValueError else Inr (Some k))"

definition normalize_coupon_code :: "str option \<Rightarrow> str option res" where
  "normalize_coupon_code coupon_code =
     (let code = (if truthy coupon_code then Some (upper (strip (the coupon_code))) else None)
      in if truthy code \<and> length (the code) > 40 then Inl ValueError else Inr code)"

definition request_hash :: "'e shop_env_scheme \<Rightarrow> (uuid \<times> int) list \<Rightarrow> str \<Rightarrow> str option \<Rightarrow> str" where
  "request_hash env quantity_by_variant recipient coupon_code =
     env_sha256 env (env_json_dumps env (JObj (
       [(''items'', JList (map (\<lambda>(i, n). JList [JStr (str_uuid i), JNum (of_int n)]) (sort quantity_by_variant))),
        (''recipient'', JStr recipient)] @
       (if truthy coupon_code then [(''coupon_code'', JStr (the coupon_code))] else []))))"

definition load_authoritative_variants :: "'x shop_db_scheme \<Rightarrow> uuid \<Rightarrow> uuid list \<Rightarrow> product_variant list" where
  "load_authoritative_variants db tenant_id variant_ids =
     filter (\<lambda>v. v_id v \<in> set variant_ids \<and> v_is_active v \<and> v_deleted_at v = None \<and>
        list_ex (\<lambda>p. p_id p = v_product_id v \<and> p_tenant_id p = tenant_id \<and> p_is_active p \<and> p_deleted_at p = None) (products db))
       (product_variants db)"

definition find_idempotent_order :: "'x pay_db_scheme \<Rightarrow> uuid \<Rightarrow> uuid \<Rightarrow> str \<Rightarrow> order option res" where
  "find_idempotent_order db tenant_id user_id idempotency_key =
     scalar_one_or_none (\<lambda>ord. o_tenant_id ord = tenant_id \<and> o_user_id ord = user_id \<and>
        o_checkout_idempotency_key ord = Some idempotency_key) (orders db)"

section \<open>The order\<close>

definition order_key :: "order \<Rightarrow> uuid \<times> uuid \<times> str option" where
  "order_key ord = (o_tenant_id ord, o_user_id ord, o_checkout_idempotency_key ord)"

definition flush_order :: "'x pay_db_scheme \<Rightarrow> order \<Rightarrow> ('x pay_db_scheme, order) run" where
  "flush_order db ord =
     (if violates (\<lambda>_. True) o_order_number (orders db) ord \<or>
         violates (\<lambda>ord. o_checkout_idempotency_key ord \<noteq> None) order_key (orders db) ord
      then (db, Inl IntegrityError)
      else (db\<lparr>orders := orders db @ [ord], next_id := Suc (next_id db)\<rparr>, Inr ord))"

fun quote_variants ::
  "'e shop_env_scheme \<Rightarrow> int \<Rightarrow> 'x shop_db_scheme \<Rightarrow> uuid \<Rightarrow> uuid \<Rightarrow> product_variant list \<Rightarrow> uuid option \<Rightarrow> timestamp \<Rightarrow>
   ('x shop_db_scheme, (product_variant \<times> commerce_price_quote \<times> price_decision) list) run" where
  "quote_variants env ttl db tenant_id user_id [] bot_id now = (db, Inr [])"
| "quote_variants env ttl db tenant_id user_id (v # vs) bot_id now =
     and_then (quote env ttl db tenant_id user_id v bot_id now) (\<lambda>db q.
     and_then (quote_variants env ttl db tenant_id user_id vs bot_id now) (\<lambda>db qs. (db, Inr ((v, q) # qs))))"

text \<open>\<open>quantity_by_variant[variant.id]\<close>; the loaded variants are among the keys.\<close>

definition quantity_of :: "(uuid \<times> int) list \<Rightarrow> uuid \<Rightarrow> int" where
  "quantity_of quantities i = (case map_of quantities i of None \<Rightarrow> 0 | Some n \<Rightarrow> n)"

definition quoted_total ::
  "(product_variant \<times> commerce_price_quote \<times> price_decision) list \<Rightarrow> (uuid \<times> int) list \<Rightarrow> decimal" where
  "quoted_total quoted quantities = sum_list (map (\<lambda>(v, q, d). de_sell_price d * of_int (quantity_of quantities (v_id v))) quoted)"

definition sale_terms ::
  "'e shop_env_scheme \<Rightarrow> 'x shop_db_scheme \<Rightarrow> product_variant \<Rightarrow> price_decision \<Rightarrow> str option \<Rightarrow> dict" where
  "sale_terms env db v d coupon_code =
     (let meta = (case get_row p_id (v_product_id v) (products db) of None \<Rightarrow> [] | Some p \<Rightarrow> p_metadata_json p)
      in [(''warranty_days'', dict_get meta ''warranty_days'' (JNum 0)),
          (''warranty_terms'', JStr (take 2000 (py_str env (dict_get meta ''warranty_terms'' (JStr []))))),
          (''base_unit_price'', JStr (env_str_decimal env (de_sell_price d))),
          (''coupon_code'', json_opt coupon_code)])"

definition order_item_of ::
  "'e shop_env_scheme \<Rightarrow> 'x shop_db_scheme \<Rightarrow> order \<Rightarrow> (uuid \<times> int) list \<Rightarrow> (uuid \<times> decimal) list \<Rightarrow> str option \<Rightarrow> product_variant \<Rightarrow>
   price_decision \<Rightarrow> order_item" where
  "order_item_of env db ord quantities effective_prices coupon_code v d =
     (let price = (case map_of effective_prices (v_id v) of None \<Rightarrow> 0 | Some x \<Rightarrow> x);
          quantity = quantity_of quantities (v_id v)
      in \<lparr>oi_id = next_id db, oi_order_id = o_id ord, oi_product_variant_id = v_id v,
          oi_sale_terms = sale_terms env db v d coupon_code, oi_quantity = quantity, oi_unit_price = price,
          oi_total_price = price * of_int quantity\<rparr>)"

definition item_economics_of ::
  "uuid \<Rightarrow> uuid \<Rightarrow> order_item \<Rightarrow> uuid option \<Rightarrow> commerce_price_quote \<Rightarrow> price_decision \<Rightarrow> order_item_economics" where
  "item_economics_of i tenant_id item bot_id q d =
     \<lparr>ec_id = i, ec_tenant_id = tenant_id, ec_order_id = oi_order_id item, ec_order_item_id = oi_id item, ec_bot_id = bot_id,
      ec_price_quote_id = Some (cq_id q), ec_pricing_tier_id = de_pricing_tier_id d, ec_pricing_rule_id = de_pricing_rule_id d,
      ec_provider_id = None, ec_sale_amount = oi_total_price item, ec_sale_currency = de_currency d,
      ec_estimated_supplier_cost = map_option (\<lambda>c. c * of_int (oi_quantity item)) (de_supplier_cost d),
      ec_estimated_cost_currency = de_supplier_currency d, ec_actual_supplier_cost = None, ec_actual_cost_currency = None,
      ec_gross_profit = None, ec_attributed_at = None\<rparr>"

fun add_order_items ::
  "'e shop_env_scheme \<Rightarrow> 'x shop_db_scheme \<Rightarrow> uuid \<Rightarrow> order \<Rightarrow> (uuid \<times> int) list \<Rightarrow> (uuid \<times> decimal) list \<Rightarrow> str option \<Rightarrow> uuid option \<Rightarrow>
   (product_variant \<times> commerce_price_quote \<times> price_decision) list \<Rightarrow> 'x shop_db_scheme" where
  "add_order_items env db tenant_id ord quantities effective_prices coupon_code bot_id [] = db"
| "add_order_items env db tenant_id ord quantities effective_prices coupon_code bot_id ((v, q, d) # rest) =
     (let item = order_item_of env db ord quantities effective_prices coupon_code v d;
          db = db\<lparr>order_items := order_items db @ [item], next_id := Suc (next_id db)\<rparr>;
          db = db\<lparr>item_economics := item_economics db @ [item_economics_of (next_id db) tenant_id item bot_id q d],
                  next_id := Suc (next_id db)\<rparr>
      in add_order_items env db tenant_id ord quantities effective_prices coupon_code bot_id rest)"

definition new_order ::
  "uuid \<Rightarrow> uuid \<Rightarrow> uuid \<Rightarrow> str \<Rightarrow> decimal \<Rightarrow> str \<Rightarrow> str option \<Rightarrow> str \<Rightarrow> timestamp \<Rightarrow> order" where
  "new_order i tenant_id user_id order_number total_amount currency idempotency_key rhash now =
     \<lparr>o_id = i, o_created_at = now, o_tenant_id = tenant_id, o_user_id = user_id, o_order_number = order_number,
      o_status = OrderStatus.PENDING, o_total_amount = total_amount, o_currency = currency,
      o_checkout_idempotency_key = idempotency_key,
      o_checkout_request_hash = (if truthy idempotency_key then Some rhash else None)\<rparr>"

text \<open>The debit, between the two status changes.\<close>

definition pay_for_order ::
  "'x shop_db_scheme \<Rightarrow> order \<Rightarrow> (uuid \<times> int) list \<Rightarrow> timestamp \<Rightarrow> ('x shop_db_scheme, order) run" where
  "pay_for_order db ord quantities now =
     lift_res db (OrderStateMachine_transition ord OrderStatus.PAYMENT_PENDING) (\<lambda>db ord.
     and_then (get_or_create_wallet (put_order ord db) (o_tenant_id ord) (o_user_id ord) (o_currency ord)) (\<lambda>db wlt.
     and_then (debit db wlt (o_total_amount ord) (Some (o_order_number ord)) (Some ''ORDER_CHECKOUT'')
         (Some (''Purchase of '' @ str_int (sum_list (map snd quantities)) @ '' item(s)'')) now) (\<lambda>db _.
     lift_res db (OrderStateMachine_transition ord OrderStatus.PAID) (\<lambda>db ord. (put_order ord db, Inr ord)))))"

definition durable_job :: "uuid \<Rightarrow> order \<Rightarrow> str \<Rightarrow> timestamp \<Rightarrow> fulfillment_job_record" where
  "durable_job i ord recipient now =
     \<lparr>fj_id = i, fj_created_at = now, fj_tenant_id = o_tenant_id ord, fj_order_id = o_id ord, fj_recipient = recipient,
      fj_attempt_number = 1, fj_status = FulfillmentJobStatus.QUEUED, fj_payload = [(''source'', JStr ''checkout'')],
      fj_last_error = None, fj_failure_classification = None, fj_manual_requeue_count = 0, fj_last_requeued_at = None,
      fj_last_requeued_by = None, fj_locked_at = None, fj_completed_at = None\<rparr>"

section \<open>Checkout\<close>

definition sales_paused :: "'x shop_db_scheme \<Rightarrow> uuid \<Rightarrow> bool" where
  "sales_paused db tenant_id =
     (case first_row (\<lambda>t. tn_id t = tenant_id) (tenants db) of
        None \<Rightarrow> True
      | Some t \<Rightarrow> dict_get (tn_settings t) ''sales_paused'' JNull = JBool True)"

text \<open>
  Everything between the idempotency lookup and the commit, except the recovery of a lost insertion race. The
  result tells the flush of the order (\<open>None\<close>, the constraint refused it) from the rest.
\<close>

definition priced_cart ::
  "'e shop_env_scheme \<Rightarrow> int \<Rightarrow> 'x shop_db_scheme \<Rightarrow> uuid \<Rightarrow> uuid \<Rightarrow> (uuid \<times> int) list \<Rightarrow> uuid option \<Rightarrow> timestamp \<Rightarrow>
   ('x shop_db_scheme, (product_variant \<times> commerce_price_quote \<times> price_decision) list \<times> str) run" where
  "priced_cart env ttl db tenant_id user_id quantities bot_id now =
     (if sales_paused db tenant_id then (db, Inl ValueError)
      else
        let variants = load_authoritative_variants db tenant_id (map fst quantities) in
        if length variants \<noteq> length quantities then (db, Inl ValueError)
        else and_then (quote_variants env ttl db tenant_id user_id variants bot_id now) (\<lambda>db quoted.
          case remdups (map (\<lambda>(v, q, d). de_currency d) quoted) of
            [currency] \<Rightarrow> (db, Inr (quoted, currency))
          | _ \<Rightarrow> (db, Inl ValueError)))"

definition fill_order ::
  "'e shop_env_scheme \<Rightarrow> 'x shop_db_scheme \<Rightarrow> order \<Rightarrow> (product_variant \<times> commerce_price_quote \<times> price_decision) list \<Rightarrow>
   (uuid \<times> int) list \<Rightarrow> str option \<Rightarrow> uuid option \<Rightarrow> str \<Rightarrow> bool \<Rightarrow> timestamp \<Rightarrow> ('x shop_db_scheme, order) run" where
  "fill_order env db ord quoted quantities coupon_code bot_id recipient enqueue_durable now =
     (let prices = map (\<lambda>(v, q, d). (v_id v, de_sell_price d)) quoted
      in and_then (if truthy coupon_code
                   then apply_coupon db (o_tenant_id ord) (o_user_id ord) ord (the coupon_code) prices quantities now
                   else (db, Inr (ord, prices))) (\<lambda>db (ord, effective_prices).
         let db = add_order_items env db (o_tenant_id ord) ord quantities effective_prices coupon_code bot_id quoted
         in and_then (pay_for_order db ord quantities now) (\<lambda>db ord.
            (if enqueue_durable
             then db\<lparr>fulfillment_jobs := fulfillment_jobs db @ [durable_job (next_id db) ord recipient now],
                     next_id := Suc (next_id db)\<rparr>
             else db, Inr ord))))"

definition resume_or_return ::
  "'e supply_env_scheme \<Rightarrow> 'x shop_db_scheme \<Rightarrow> order \<Rightarrow> str \<Rightarrow> bool \<Rightarrow> timestamp \<Rightarrow>
   (exc, 'x shop_db_scheme, order \<times> fulfillment_attempt option) step" where
  "resume_or_return env db ord recipient execute_sync now =
     (if execute_sync \<and> o_status ord \<in> {OrderStatus.PAID, OrderStatus.PROCESSING}
      then and_then (execute_order_fulfillment env db (o_id ord) recipient 1 now) (\<lambda>db attempt.
             (db, Inr (case get_row o_id (o_id ord) (orders db) of None \<Rightarrow> ord | Some o2 \<Rightarrow> o2, Some attempt)))
      else (db, Inr (ord, None)))"

definition replay_order ::
  "'e supply_env_scheme \<Rightarrow> 'x shop_db_scheme \<Rightarrow> order \<Rightarrow> str \<Rightarrow> str \<Rightarrow> bool \<Rightarrow> timestamp \<Rightarrow>
   (exc, 'x shop_db_scheme, order \<times> fulfillment_attempt option) step" where
  "replay_order env db existing rhash recipient execute_sync now =
     (if o_checkout_request_hash existing \<noteq> Some rhash then (db, Inl (OtherExc ValueError None))
      else resume_or_return env db existing recipient execute_sync now)"

record checkout_request =
  ck_tenant_id :: uuid
  ck_user_id :: uuid
  ck_lines :: "checkout_line list"
  ck_recipient :: str
  ck_execute_sync :: bool
  ck_idempotency_key :: "str option"
  ck_enqueue_durable :: bool
  ck_bot_id :: "uuid option"
  ck_coupon_code :: "str option"

text \<open>A cart that passed the checks of the request: recipient, quantities, key, coupon code.\<close>

definition checked_request :: "checkout_request \<Rightarrow> (str \<times> (uuid \<times> int) list \<times> str option \<times> str option) res" where
  "checked_request req =
     (if ck_execute_sync req \<and> ck_enqueue_durable req then Inl ValueError
      else
        let recipient = strip (ck_recipient req) in
        if recipient = [] then Inl ValueError
        else if ck_lines req = [] then Inl ValueError
        else if length (ck_lines req) > 50 then Inl ValueError
        else res_bind (quantities_of (ck_lines req) []) (\<lambda>quantities.
             res_bind (normalize_checkout_key (ck_idempotency_key req)) (\<lambda>key.
             res_bind (normalize_coupon_code (ck_coupon_code req)) (\<lambda>coupon_code.
             Inr (recipient, quantities, key, coupon_code)))))"

definition place_order ::
  "'e supply_env_scheme \<Rightarrow> int \<Rightarrow> 'x shop_db_scheme \<Rightarrow> checkout_request \<Rightarrow> str \<Rightarrow> (uuid \<times> int) list \<Rightarrow> str option \<Rightarrow> str option \<Rightarrow> str \<Rightarrow>
   timestamp \<Rightarrow> (exc, 'x shop_db_scheme, order \<times> fulfillment_attempt option) step" where
  "place_order env ttl db req recipient quantities key coupon_code hex8 now =
     (let rhash = request_hash env quantities recipient coupon_code in
      case priced_cart env ttl db (ck_tenant_id req) (ck_user_id req) quantities (ck_bot_id req) now of
        (_, Inl e) \<Rightarrow> (db, Inl (OtherExc e None))
      | (db1, Inr (quoted, currency)) \<Rightarrow>
          (case flush_order db1 (new_order (next_id db1) (ck_tenant_id req) (ck_user_id req) (''ORD-'' @ upper hex8)
                  (quoted_total quoted quantities) currency key rhash now) of
             (_, Inl e) \<Rightarrow>
               (case key of
                  None \<Rightarrow> (db, Inl (OtherExc e None))
                | Some k \<Rightarrow>
                    (case find_idempotent_order db (ck_tenant_id req) (ck_user_id req) k of
                       Inl e \<Rightarrow> (db, Inl (OtherExc e None))
                     | Inr None \<Rightarrow> (db, Inl (OtherExc e None))
                     | Inr (Some existing) \<Rightarrow> replay_order env db existing rhash recipient (ck_execute_sync req) now))
           | (db2, Inr ord) \<Rightarrow>
               (case fill_order env db2 ord quoted quantities coupon_code (ck_bot_id req) recipient (ck_enqueue_durable req) now of
                  (_, Inl e) \<Rightarrow> (db, Inl (OtherExc e None))
                | (db3, Inr ord) \<Rightarrow>
                    let db3 = notify (to_notice PAYMENT_CONFIRMED ord recipient) db3
                    in if ck_execute_sync req
                       then and_then (execute_order_fulfillment env db3 (o_id ord) recipient 1 now) (\<lambda>db attempt.
                              (db, Inr (case get_row o_id (o_id ord) (orders db) of None \<Rightarrow> ord | Some o2 \<Rightarrow> o2, Some attempt)))
                       else (db3, Inr (ord, None)))))"

definition checkout_cart ::
  "'e supply_env_scheme \<Rightarrow> int \<Rightarrow> 'x shop_db_scheme \<Rightarrow> checkout_request \<Rightarrow> str \<Rightarrow> timestamp \<Rightarrow>
   (exc, 'x shop_db_scheme, order \<times> fulfillment_attempt option) step" where
  "checkout_cart env ttl db req hex8 now =
     (case checked_request req of
        Inl e \<Rightarrow> (db, Inl (OtherExc e None))
      | Inr (recipient, quantities, key, coupon_code) \<Rightarrow>
          (case key of
             None \<Rightarrow> place_order env ttl db req recipient quantities key coupon_code hex8 now
           | Some k \<Rightarrow>
               (case find_idempotent_order db (ck_tenant_id req) (ck_user_id req) k of
                  Inl e \<Rightarrow> (db, Inl (OtherExc e None))
                | Inr (Some existing) \<Rightarrow>
                    replay_order env db existing (request_hash env quantities recipient coupon_code) recipient (ck_execute_sync req) now
                | Inr None \<Rightarrow> place_order env ttl db req recipient quantities key coupon_code hex8 now)))"

definition checkout ::
  "'e supply_env_scheme \<Rightarrow> int \<Rightarrow> 'x shop_db_scheme \<Rightarrow> uuid \<Rightarrow> int \<Rightarrow> checkout_request \<Rightarrow> str \<Rightarrow> timestamp \<Rightarrow>
   (exc, 'x shop_db_scheme, order \<times> fulfillment_attempt option) step" where
  "checkout env ttl db variant_id quantity req hex8 now =
     checkout_cart env ttl db (req\<lparr>ck_lines := [\<lparr>cl_variant_id = variant_id, cl_quantity = quantity\<rparr>]\<rparr>) hex8 now"

end
