(* ===== verification/Checkout_Laws.thy ===== *)
theory Checkout_Laws
  imports Checkout Fulfillment_Properties
begin

text \<open>
  What each part of a checkout changes: quotes and coupons leave the ledger alone, the items add up to the
  total of the order, and the payment books that total once.
\<close>

section \<open>Quotes\<close>

definition quotes_only :: "'x shop_db_scheme \<Rightarrow> 'x shop_db_scheme \<Rightarrow> bool" where
  "quotes_only db db' \<longleftrightarrow> (\<exists>qs n. db' = db\<lparr>price_quotes := qs, next_id := n\<rparr> \<and> next_id db \<le> n)"

lemma quotes_only_refl [simp]: "quotes_only db db"
  unfolding quotes_only_def by (intro exI [of _ "price_quotes db"] exI [of _ "next_id db"]) simp

lemma quotes_only_trans: "quotes_only a b \<Longrightarrow> quotes_only b c \<Longrightarrow> quotes_only a c"
  unfolding quotes_only_def by fastforce

lemma quotes_onlyI [intro]: "next_id db \<le> n \<Longrightarrow> quotes_only db (db\<lparr>price_quotes := qs, next_id := n\<rparr>)"
  by (auto simp: quotes_only_def)

lemma flush_quote_only: "flush_quote db q = (db', x) \<Longrightarrow> quotes_only db db'"
  by (auto simp: flush_quote_def split: if_splits)

lemma recovered_quote_only:
  assumes "on_integrity_error (nested db (flush_quote db q)) (\<lambda>db. case find_quote db t fp of None \<Rightarrow> (db, Inl IntegrityError) | Some q \<Rightarrow> (db, Inr q))
    = (db', x)"
  shows "quotes_only db db'"
  using assms flush_quote_only [of db q]
  by (cases "flush_quote db q"; cases "snd (flush_quote db q)") (auto simp: nested_def on_integrity_error_def split: option.splits if_splits error.splits)

lemma quote_only: "quote env ttl db t u v b now = (db', x) \<Longrightarrow> quotes_only db db'"
  by (auto simp: quote_def Let_def lift_res_def and_then_def dest: recovered_quote_only split: sum.splits option.splits prod.splits)

lemma quote_variants_only:
  assumes "quote_variants env ttl db t u vs b now = (db', Inr qs)"
  shows "quotes_only db db' \<and> map fst qs = vs"
  using assms
proof (induction vs arbitrary: db qs)
  case (Cons v vs)
  then obtain db1 q rest where q: "quote env ttl db t u v b now = (db1, Inr q)"
      "quote_variants env ttl db1 t u vs b now = (db', Inr rest)" "qs = (v, q) # rest"
    by (auto simp: and_then_Inr_iff)
  then show ?case using Cons.IH [OF q(2)] quotes_only_trans [OF quote_only [OF q(1)]] by auto
qed simp

lemma priced_cart_only:
  assumes "priced_cart env ttl db t u quantities b now = (db', Inr (quoted, currency))"
  shows "quotes_only db db'" and "map fst quoted = load_authoritative_variants db t (map fst quantities)"
    and "\<not> sales_paused db t" and "quoted \<noteq> []"
proof -
  let ?vs = "load_authoritative_variants db t (map fst quantities)"
  let ?c = "\<lambda>qs :: (product_variant \<times> commerce_price_quote \<times> price_decision) list. remdups (map (\<lambda>(v, q, d). de_currency d) qs)"
  obtain db1 qs where r: "quote_variants env ttl db t u ?vs b now = (db1, Inr qs)" "\<not> sales_paused db t"
      "(case ?c qs of [currency] \<Rightarrow> (db1, Inr (qs, currency)) | _ \<Rightarrow> (db1, Inl ValueError)) = (db', Inr (quoted, currency))"
    using assms by (auto simp: priced_cart_def Let_def and_then_Inr_iff split: if_splits)
  from r(3) have "db1 = db'" "qs = quoted" "?c quoted = [currency]"
    by (cases "?c qs" rule: remdups_adj.cases; auto)+
  then have q: "quote_variants env ttl db t u ?vs b now = (db', Inr quoted)" "quoted = quoted" "?c quoted = [currency]" "\<not> sales_paused db t"
    using r by auto
  then show "quotes_only db db'" "map fst quoted = load_authoritative_variants db t (map fst quantities)" "\<not> sales_paused db t"
    using quote_variants_only [OF q(1)] by auto
  show "quoted \<noteq> []" using q(3) by auto
qed

section \<open>Totals\<close>

lemma cart_total_sum:
  "cart_total ps qs = Inr x \<Longrightarrow> x = sum_list (map (\<lambda>(k, price). price * of_int (quantity_of qs k)) ps)"
  by (induction ps arbitrary: x) (auto simp: res_bind_Inr_iff quantity_of_def split: option.splits)

text \<open>The prices by variant, as the loop over the variants reads them.\<close>

definition charged ::
  "(uuid \<times> decimal) list \<Rightarrow> (uuid \<times> int) list \<Rightarrow> (product_variant \<times> 'q) list \<Rightarrow> decimal" where
  "charged prices quantities quoted =
     sum_list (map (\<lambda>(v, _). (case map_of prices (v_id v) of None \<Rightarrow> 0 | Some x \<Rightarrow> x) * of_int (quantity_of quantities (v_id v))) quoted)"

lemma charged_by_key:
  assumes "distinct (map (\<lambda>(v, _). v_id v) quoted)" and "map fst prices = map (\<lambda>(v, _). v_id v) quoted"
  shows "charged prices quantities quoted = sum_list (map (\<lambda>(k, price). price * of_int (quantity_of quantities k)) prices)"
  using assms
proof (induction quoted arbitrary: prices)
  case (Cons x quoted)
  obtain v y where x: "x = (v, y)" by (cases x)
  with Cons.prems obtain c ps where ps: "prices = (v_id v, c) # ps" "map fst ps = map (\<lambda>(v, _). v_id v) quoted"
    by (cases prices) auto
  have "charged prices quantities quoted = charged ps quantities quoted"
    unfolding charged_def
    using Cons.prems(1) x ps by (intro arg_cong [of _ _ sum_list] map_cong) (auto simp: image_iff split: prod.splits)
  then show ?case using Cons.IH [OF _ ps(2)] Cons.prems(1) x ps(1) by (simp add: charged_def)
qed (simp add: charged_def)

lemma add_order_items_spec:
  "\<exists>is es n. add_order_items env db t ord quantities prices coupon b quoted =
       db\<lparr>order_items := order_items db @ is, item_economics := es, next_id := n\<rparr> \<and> next_id db \<le> n \<and>
     list_all (\<lambda>i. oi_order_id i = o_id ord) is \<and> length is = length quoted \<and>
     sum_list (map oi_total_price is) = charged prices quantities quoted"
proof (induction quoted arbitrary: db)
  case Nil
  then show ?case by (intro exI [of _ "[]"] exI [of _ "item_economics db"] exI [of _ "next_id db"]) (simp add: charged_def)
next
  case (Cons x quoted)
  obtain v q d where x: "x = (v, q, d)" by (cases x)
  let ?i = "order_item_of env db ord quantities prices coupon v d"
  let ?db = "db\<lparr>order_items := order_items db @ [?i],
    item_economics := item_economics db @ [item_economics_of (Suc (next_id db)) t ?i b q d], next_id := Suc (Suc (next_id db))\<rparr>"
  from Cons.IH [of ?db] obtain "is" es n where
    IH: "add_order_items env ?db t ord quantities prices coupon b quoted =
       ?db\<lparr>order_items := order_items ?db @ is, item_economics := es, next_id := n\<rparr>" "next_id ?db \<le> n"
      "list_all (\<lambda>i. oi_order_id i = o_id ord) is" "length is = length quoted"
      "sum_list (map oi_total_price is) = charged prices quantities quoted" by blast
  show ?case
    using IH x by (intro exI [of _ "?i # is"] exI [of _ es] exI [of _ n])
      (simp add: Let_def order_item_of_def charged_def)
qed

section \<open>Coupons\<close>

definition other_orders :: "uuid \<Rightarrow> order list \<Rightarrow> order list" where
  "other_orders i rs = filter (\<lambda>r. o_id r \<noteq> i) rs"

lemma other_orders_put [simp]: "other_orders (o_id r) (put_row o_id r rs) = other_orders (o_id r) rs"
  unfolding other_orders_def put_row_def by (induction rs) auto

lemma apply_coupon_Inr:
  assumes "apply_coupon db t u ord code prices quantities now = (db', Inr (ord', effective))"
  shows "\<exists>c cs rs. first_row (\<lambda>c. cp_tenant_id c = t \<and> cp_code c = code) (coupons db) = Some c \<and> coupon_usable c ord now \<and>
    effective = map (\<lambda>(k, price). (k, discounted (cp_percent c) price)) prices \<and>
    cart_total effective quantities = Inr (o_total_amount ord') \<and> o_total_amount ord' < o_total_amount ord \<and>
    ord' = ord\<lparr>o_total_amount := o_total_amount ord'\<rparr> \<and>
    db' = put_order ord' (db\<lparr>coupons := cs, coupon_redemptions := rs, next_id := Suc (next_id db)\<rparr>)"
proof -
  obtain c where c: "first_row (\<lambda>c. cp_tenant_id c = t \<and> cp_code c = code) (coupons db) = Some c" "coupon_usable c ord now"
    using assms by (auto simp: apply_coupon_def split: option.splits if_splits)
  let ?db = "db\<lparr>coupons := update_where (take_coupon_use t (cp_id c)) (\<lambda>r. r\<lparr>cp_used_count := cp_used_count r + 1\<rparr>) (coupons db)\<rparr>"
  let ?e = "map (\<lambda>(k, price). (k, discounted (cp_percent c) price)) prices"
  from assms c obtain x where x: "cart_total ?e quantities = Inr x" "\<not> o_total_amount ord - x \<le> 0"
      "and_then (flush_redemption ?db
         \<lparr>cn_id = next_id ?db, cn_tenant_id = t, cn_coupon_id = cp_id c, cn_order_id = o_id ord,
          cn_user_id = u, cn_code = cp_code c, cn_discount_amount = o_total_amount ord - x, cn_currency = o_currency ord\<rparr>)
         (\<lambda>db _. (put_order (ord\<lparr>o_total_amount := x\<rparr>) db, Inr (ord\<lparr>o_total_amount := x\<rparr>, ?e))) = (db', Inr (ord', effective))"
    by (auto simp: apply_coupon_def Let_def lift_res_def split: if_splits sum.splits)
  then show ?thesis
    using c by (auto simp: and_then_Inr_iff flush_redemption_def split: if_splits)
qed

section \<open>Payment of an order\<close>

lemma pay_for_order_Inr:
  assumes inv: "ledger_inv db" and st: "o_status ord = OrderStatus.PENDING"
    and run: "pay_for_order db ord quantities now = (db', Inr ord')"
  shows "ord' = ord\<lparr>o_status := OrderStatus.PAID\<rparr> \<and> ledger_inv db' \<and> next_id db \<le> next_id db' \<and>
    orders db' = put_row o_id ord' (put_row o_id (ord\<lparr>o_status := OrderStatus.PAYMENT_PENDING\<rparr>) (orders db)) \<and>
    order_items db' = order_items db \<and> fulfillment_jobs db' = fulfillment_jobs db \<and> fulfillment_attempts db' = fulfillment_attempts db \<and>
    dispatched db' = dispatched db \<and> notices db' = notices db \<and>
    0 < o_total_amount ord \<and> o_total_amount ord \<le> balance_of db (order_account ord) \<and>
    balance_of db' = (balance_of db)(order_account ord := balance_of db (order_account ord) - o_total_amount ord) \<and>
    (\<exists>t. ledger db' = ledger db @ [t] \<and> lt_transaction_type t = TransactionType.DEBIT \<and> lt_amount t = o_total_amount ord \<and>
       lt_reference_id t = Some (o_order_number ord) \<and> lt_reference_type t = Some ''ORDER_CHECKOUT'')"
proof -
  let ?o = "ord\<lparr>o_status := OrderStatus.PAYMENT_PENDING\<rparr>"
  let ?db = "put_order ?o db"
  have pp: "OrderStateMachine_transition ord OrderStatus.PAYMENT_PENDING = Inr ?o"
    using st by (simp add: OrderStateMachine_can_transition_def)
  from run obtain db0 w db1 t where g: "get_or_create_wallet ?db (o_tenant_id ord) (o_user_id ord) (o_currency ord) = (db0, Inr w)"
    and d: "debit db0 w (o_total_amount ord) (Some (o_order_number ord)) (Some ''ORDER_CHECKOUT'')
         (Some (''Purchase of '' @ str_int (sum_list (map snd quantities)) @ '' item(s)'')) now = (db1, Inr t)"
    and res: "ord' = ord\<lparr>o_status := OrderStatus.PAID\<rparr>" "db' = put_order ord' db1"
    unfolding pay_for_order_def pp by (auto simp: and_then_Inr_iff lift_res_def split: sum.splits)
  have inv1: "ledger_inv ?db" using inv by simp
  note f = get_or_create_wallet_InrD [OF inv1 g]
  have key: "wallet_key w = order_account ord" using f(3) by (simp add: order_account_def)
  note e = debit_entry [OF f(1) d]
  note tab0 = pay_tables_eq(5) [OF f(6)] and tab1 = pay_tables_eq(5) [OF books_more [OF e(2)]]
  note shop0 = shop_tables_eq [OF f(6)] and shop1 = shop_tables_eq [OF books_more [OF e(2)]]
  have wid: "w_id w = lt_wallet_id t" "lt_transaction_type t = TransactionType.DEBIT" "lt_amount t = o_total_amount ord"
    using e(1) by (auto simp: one_entry_def)
  have bal0: "balance_of db0 = balance_of db" using balance_of_get_or_create [OF inv1 g] by simp
  have bal: "balance_of db1 = (balance_of db)(order_account ord := balance_of db (order_account ord) - o_total_amount ord)"
    using balance_of_move [OF f(1) e(2) f(2) wid(1)] wid bal0 key by simp
  obtain wa where wa: "wa \<in> set (wallets db0)" "w_id wa = w_id w" "lt_balance_before t = w_balance wa"
    using e(2) wid(1) by (auto simp: books_def)
  then have "wa = w" using f(1,2) by (auto simp: ledger_inv_def distinct_map inj_on_def)
  then have "lt_balance_before t = balance_of db0 (wallet_key w)"
    using wa(3) balance_of_wallet [OF f(1,2)] by simp
  then have funds: "o_total_amount ord \<le> balance_of db (order_account ord)"
    using e(4) active_total_nonneg [OF f(1), of "w_id w"] bal0 key by simp
  have ref: "lt_reference_id t = Some (o_order_number ord)" "lt_reference_type t = Some ''ORDER_CHECKOUT''"
    using d by (auto simp: debit_def and_then_Inr_iff Let_def book_def flush_ledger_def split: if_splits)
  have "next_id db \<le> next_id db0"
    using inv1 g by (cases rule: get_or_create_wallet_cases [of ?db "o_tenant_id ord" "o_user_id ord" "o_currency ord"]) auto
  then have led: "ledger db1 = ledger db @ [t]" "next_id db \<le> next_id db1"
    using e(2) f(4) by (auto simp: books_def)
  show ?thesis
    using res e(3) bal funds ref wid led tab0 tab1 shop0 shop1 books_keeps_inv [OF f(1) e(2)] by auto
qed

section \<open>A filled order\<close>

lemma charged_quoted:
  assumes "distinct (map (\<lambda>(v, q). v_id v) quoted)"
  shows "charged (map (\<lambda>(v, q, d). (v_id v, de_sell_price d)) quoted) quantities quoted = quoted_total quoted quantities"
  using charged_by_key [OF assms, of "map (\<lambda>(v, q, d). (v_id v, de_sell_price d)) quoted" quantities]
  by (auto simp: quoted_total_def o_def case_prod_unfold)

lemma charged_effective:
  assumes "distinct (map (\<lambda>(v, q). v_id v) quoted)" and "cart_total effective quantities = Inr x"
    and "map fst effective = map (\<lambda>(v, q). v_id v) quoted"
  shows "charged effective quantities quoted = x"
  using charged_by_key [OF assms(1,3), of quantities] cart_total_sum [OF assms(2)] by simp

text \<open>The prices an order is charged: those of the quotes, or the discounted ones with the discounted total.\<close>

lemma coupon_step:
  assumes "distinct (map (\<lambda>(v, q). v_id v) quoted)" and "o_total_amount ord = quoted_total quoted quantities"
    and ord: "get_row o_id (o_id ord) (orders db) = Some ord" and inv: "ledger_inv db"
    and run: "(if truthy coupon_code
         then apply_coupon db (o_tenant_id ord) (o_user_id ord) ord (the coupon_code) (map (\<lambda>(v, q, d). (v_id v, de_sell_price d)) quoted) quantities now
         else (db, Inr (ord, map (\<lambda>(v, q, d). (v_id v, de_sell_price d)) quoted))) = (db1, Inr (ord1, prices))"
  shows "charged prices quantities quoted = o_total_amount ord1 \<and> o_total_amount ord1 \<le> o_total_amount ord \<and>
    ord1 = ord\<lparr>o_total_amount := o_total_amount ord1\<rparr> \<and> ledger_inv db1 \<and> wallets db1 = wallets db \<and> ledger db1 = ledger db \<and> next_id db \<le> next_id db1 \<and>
    get_row o_id (o_id ord) (orders db1) = Some ord1 \<and> map o_id (orders db1) = map o_id (orders db) \<and>
    other_orders (o_id ord) (orders db1) = other_orders (o_id ord) (orders db) \<and> order_items db1 = order_items db \<and>
    fulfillment_jobs db1 = fulfillment_jobs db \<and> fulfillment_attempts db1 = fulfillment_attempts db \<and>
    dispatched db1 = dispatched db \<and> notices db1 = notices db"
proof (cases "truthy coupon_code")
  case True
  let ?prices = "map (\<lambda>(v, q, d). (v_id v, de_sell_price d)) quoted"
  have "apply_coupon db (o_tenant_id ord) (o_user_id ord) ord (the coupon_code) ?prices quantities now = (db1, Inr (ord1, prices))"
    using run True by simp
  from apply_coupon_Inr [OF this] obtain c :: coupon and cs rs where e: "prices = map (\<lambda>(k, price). (k, discounted (cp_percent c) price)) ?prices"
      "cart_total prices quantities = Inr (o_total_amount ord1)" "o_total_amount ord1 < o_total_amount ord"
      "ord1 = ord\<lparr>o_total_amount := o_total_amount ord1\<rparr>"
      "db1 = put_order ord1 (db\<lparr>coupons := cs, coupon_redemptions := rs, next_id := Suc (next_id db)\<rparr>)"
    by blast
  have "map fst prices = map (\<lambda>(v, q). v_id v) quoted" unfolding e(1) by (auto simp: case_prod_unfold)
  from charged_effective [OF assms(1) e(2) this] have "charged prices quantities quoted = o_total_amount ord1" .
  moreover have "ledger_inv db1" using inv unfolding e(5) by (auto simp: ledger_inv_def entries_def)
  moreover have "o_id ord1 = o_id ord" by (subst e(4)) simp
  moreover have "other_orders (o_id ord) (orders db1) = other_orders (o_id ord) (orders db)"
    using other_orders_put [of ord1] \<open>o_id ord1 = o_id ord\<close> unfolding e(5) by simp
  ultimately show ?thesis using e(3,4) ord unfolding e(5) by (auto simp: get_row_put_row)
next
  case False
  then have "db1 = db" "ord1 = ord" "prices = map (\<lambda>(v, q, d). (v_id v, de_sell_price d)) quoted" using run by auto
  then show ?thesis using charged_quoted [OF assms(1)] assms(2) ord inv by simp
qed

text \<open>What a checkout leaves when it commits.\<close>

definition order_placed ::
  "'x shop_db_scheme \<Rightarrow> 'x shop_db_scheme \<Rightarrow> order \<Rightarrow> bool \<Rightarrow> bool" where
  "order_placed db db' ord durable \<longleftrightarrow>
     o_status ord = OrderStatus.PAID \<and> ledger_inv db' \<and> get_row o_id (o_id ord) (orders db') = Some ord \<and>
     fulfillment_attempts db' = fulfillment_attempts db \<and> dispatched db' = dispatched db \<and> next_id db \<le> next_id db' \<and>
     (\<exists>is. order_items db' = order_items db @ is \<and> is \<noteq> [] \<and> list_all (\<lambda>i. oi_order_id i = o_id ord) is \<and>
        sum_list (map oi_total_price is) = o_total_amount ord) \<and>
     0 < o_total_amount ord \<and> o_total_amount ord \<le> balance_of db (order_account ord) \<and>
     balance_of db' = (balance_of db)(order_account ord := balance_of db (order_account ord) - o_total_amount ord) \<and>
     (\<exists>t. ledger db' = ledger db @ [t] \<and> lt_transaction_type t = TransactionType.DEBIT \<and> lt_amount t = o_total_amount ord \<and>
        lt_reference_id t = Some (o_order_number ord) \<and> lt_reference_type t = Some ''ORDER_CHECKOUT'') \<and>
     (if durable
      then \<exists>j. fulfillment_jobs db' = fulfillment_jobs db @ [j] \<and> fj_order_id j = o_id ord \<and> fj_tenant_id j = o_tenant_id ord \<and>
        fj_status j = FulfillmentJobStatus.QUEUED \<and> fj_attempt_number j = 1
      else fulfillment_jobs db' = fulfillment_jobs db)"

lemma fill_order_Inr:
  assumes vars: "distinct (map (\<lambda>(v, q). v_id v) quoted)" "quoted \<noteq> []" and total: "o_total_amount ord = quoted_total quoted quantities"
    and ord: "get_row o_id (o_id ord) (orders db) = Some ord" and st: "o_status ord = OrderStatus.PENDING" and inv: "ledger_inv db"
    and run: "fill_order env db ord quoted quantities coupon_code bid recipient durable now = (db', Inr ord')"
  shows "order_placed db db' ord' durable \<and> ord' = ord\<lparr>o_status := OrderStatus.PAID, o_total_amount := o_total_amount ord'\<rparr> \<and>
    o_total_amount ord' \<le> o_total_amount ord \<and>
    map o_id (orders db') = map o_id (orders db) \<and> other_orders (o_id ord) (orders db') = other_orders (o_id ord) (orders db)"
proof -
  let ?prices = "map (\<lambda>(v, q, d). (v_id v, de_sell_price d)) quoted"
  from run obtain db1 ord1 prices db3 where
    c: "(if truthy coupon_code then apply_coupon db (o_tenant_id ord) (o_user_id ord) ord (the coupon_code) ?prices quantities now
         else (db, Inr (ord, ?prices))) = (db1, Inr (ord1, prices))"
    and p: "pay_for_order (add_order_items env db1 (o_tenant_id ord1) ord1 quantities prices coupon_code bid quoted) ord1 quantities now = (db3, Inr ord')"
    and db': "db' = (if durable then db3\<lparr>fulfillment_jobs := fulfillment_jobs db3 @ [durable_job (next_id db3) ord' recipient now],
        next_id := Suc (next_id db3)\<rparr> else db3)"
    by (auto simp: fill_order_def Let_def and_then_Inr_iff)
  note s1 = coupon_step [OF vars(1) total ord inv c]
  obtain "is" es n where i: "add_order_items env db1 (o_tenant_id ord1) ord1 quantities prices coupon_code bid quoted =
       db1\<lparr>order_items := order_items db1 @ is, item_economics := es, next_id := n\<rparr>" "next_id db1 \<le> n"
      "list_all (\<lambda>i. oi_order_id i = o_id ord1) is" "length is = length quoted" "sum_list (map oi_total_price is) = charged prices quantities quoted"
    using add_order_items_spec by blast
  let ?db2 = "db1\<lparr>order_items := order_items db1 @ is, item_economics := es, next_id := n\<rparr>"
  have inv2: "ledger_inv ?db2" using s1 i(2) by (auto simp: ledger_inv_def entries_def dest: order.strict_trans2)
  obtain o1: "o_id ord1 = o_id ord" "o_status ord1 = OrderStatus.PENDING" "order_account ord1 = order_account ord"
      "o_order_number ord1 = o_order_number ord" "o_checkout_idempotency_key ord1 = o_checkout_idempotency_key ord"
    using s1 st by (metis (no_types, lifting) order.select_convs order.surjective order.update_convs order_account_def)
  note s3 = pay_for_order_Inr [OF inv2 o1(2) p [unfolded i(1)]]
  have bal: "balance_of ?db2 = balance_of db" using s1 by (auto simp: balance_of_def fun_eq_iff)
  have jobs: "ledger_inv db3 \<Longrightarrow> ledger_inv db'" "balance_of db' = balance_of db3" "orders db' = orders db3" "ledger db' = ledger db3"
    "order_items db' = order_items db3" "fulfillment_attempts db' = fulfillment_attempts db3" "dispatched db' = dispatched db3" "next_id db3 \<le> next_id db'"
    unfolding db' by (auto simp: ledger_inv_def entries_def balance_of_def fun_eq_iff)
  have ord': "o_id ord' = o_id ord" "order_account ord' = order_account ord" "o_total_amount ord' = o_total_amount ord1"
      "o_tenant_id ord' = o_tenant_id ord1"
    using s3 o1 by (auto simp: order_account_def)
  have row: "get_row o_id (o_id ord) (orders db3) = Some ord'"
    using s3 s1 o1 ord' by (auto intro!: get_row_put_row)
  have acc: "order_account ord1 = order_account ord" using o1 by simp
  have status: "o_status ord' = OrderStatus.PAID" using s3 by auto
  have items: "order_items db' = order_items db @ is" "is \<noteq> []" "list_all (\<lambda>i. oi_order_id i = o_id ord') is"
      "sum_list (map oi_total_price is) = o_total_amount ord'"
    using s1 s3 i jobs o1 ord' vars(2) by auto
  have next_ids: "next_id db \<le> next_id db'"
    using s1 s3 i(2) jobs(8) by auto
  have money: "0 < o_total_amount ord'" "o_total_amount ord' \<le> balance_of db (order_account ord')"
      "balance_of db' = (balance_of db)(order_account ord' := balance_of db (order_account ord') - o_total_amount ord')"
    using s3 bal ord' acc jobs(2) by auto
  have entry: "\<exists>t. ledger db' = ledger db @ [t] \<and> lt_transaction_type t = TransactionType.DEBIT \<and> lt_amount t = o_total_amount ord' \<and>
        lt_reference_id t = Some (o_order_number ord') \<and> lt_reference_type t = Some ''ORDER_CHECKOUT''"
    using s3 s1 jobs(4) ord' by auto
  have job: "if durable
      then \<exists>j. fulfillment_jobs db' = fulfillment_jobs db @ [j] \<and> fj_order_id j = o_id ord' \<and> fj_tenant_id j = o_tenant_id ord' \<and>
        fj_status j = FulfillmentJobStatus.QUEUED \<and> fj_attempt_number j = 1
      else fulfillment_jobs db' = fulfillment_jobs db"
    using s3 s1 by (auto simp: db' durable_job_def)
  have "order_placed db db' ord' durable"
    unfolding order_placed_def
    using status items next_ids money entry job row jobs s1 s3 ord' by auto
  moreover have "map o_id (orders db') = map o_id (orders db)" using s1 s3 jobs(3) by simp
  moreover have "other_orders (o_id ord) (orders db') = other_orders (o_id ord) (orders db)"
    using s1 s3 jobs(3) o1(1) other_orders_put [of ord'] other_orders_put [of "ord1\<lparr>o_status := OrderStatus.PAYMENT_PENDING\<rparr>"] by simp
  moreover have "ord' = ord\<lparr>o_status := OrderStatus.PAID, o_total_amount := o_total_amount ord'\<rparr>"
  proof -
    have a: "ord1 = ord\<lparr>o_total_amount := o_total_amount ord1\<rparr>" using s1 by blast
    have "ord' = ord1\<lparr>o_status := OrderStatus.PAID\<rparr>" using s3 by blast
    then have "ord' = ord\<lparr>o_total_amount := o_total_amount ord1\<rparr>\<lparr>o_status := OrderStatus.PAID\<rparr>"
      unfolding a [symmetric] .
    then show ?thesis using ord'(3) by simp
  qed
  ultimately show ?thesis using s1 ord'(3) by simp
qed

end
