(* ===== verification/Checkout_Properties.thy ===== *)
theory Checkout_Properties
  imports Checkout_Laws
begin

text \<open>
  A checkout as a whole: it charges exactly the total of the order it places, a repeated request places no
  second order, and a purchase that fails at once leaves the customer's balance as it was.
\<close>

section \<open>Rows\<close>

definition refunds_known :: "'x ledger_db_scheme \<Rightarrow> bool" where
  "refunds_known db \<longleftrightarrow> list_all (\<lambda>t. lt_reference_type t = Some CANONICAL_REFUND_TYPE \<longrightarrow>
     (case lt_reference_id t of None \<Rightarrow> True | Some r \<Rightarrow> (case parse_uuid r of None \<Rightarrow> True | Some i \<Rightarrow> i < next_id db))) (ledger db)"

definition shop_ok :: "'x shop_db_scheme \<Rightarrow> bool" where
  "shop_ok db \<longleftrightarrow> ledger_inv db \<and> shop_rows db \<and> refunds_known db \<and> list_all (\<lambda>ord. o_id ord < next_id db) (orders db) \<and>
     distinct (map v_id (product_variants db)) \<and> list_all (\<lambda>i. oi_order_id i < next_id db) (order_items db)"


lemma order_placed_notify: "order_placed db db' ord durable \<Longrightarrow> order_placed db (notify x db') ord durable"
  unfolding order_placed_def using ledger_same(1) [of "notify x db'" db'] by simp

lemma order_placed_before:
  assumes "order_placed db1 db' ord durable" and "wallets db1 = wallets db" "ledger db1 = ledger db" "order_items db1 = order_items db"
    "fulfillment_attempts db1 = fulfillment_attempts db" "fulfillment_jobs db1 = fulfillment_jobs db" "dispatched db1 = dispatched db"
    "next_id db \<le> next_id db1"
  shows "order_placed db db' ord durable"
proof -
  have "balance_of db1 = balance_of db" using assms(2) by (simp add: balance_of_def fun_eq_iff)
  then show ?thesis using assms unfolding order_placed_def by auto
qed


lemma appended_order:
  assumes "map o_id rs' = map o_id rs @ [i]" and "other_orders i rs' = rs" and "i \<notin> o_id ` set rs" and "get_row o_id i rs' = Some ord"
  shows "rs' = rs @ [ord]"
proof -
  obtain ys x where ys: "rs' = ys @ [x]" "map o_id ys = map o_id rs" "o_id x = i"
    using assms(1) by (cases rs' rule: rev_cases) auto
  then have no: "\<forall>y \<in> set ys. o_id y \<noteq> i" using assms(3) by (metis image_eqI list.set_map)
  then have "ys = rs" using assms(2) ys by (simp add: other_orders_def)
  moreover have "x = ord" using assms(4) no ys first_row_None_iff [of "\<lambda>r. o_id r = i" ys] by (simp add: get_row_def)
  ultimately show ?thesis using ys by simp
qed

lemma place_order_cases:
  assumes ok: "shop_ok db" and run: "place_order env ttl db req recipient quantities key coupon_code hex8 now = (db', res)"
  obtains (refused) e where "db' = db" "res = Inl e"
  | (replayed) k existing where "key = Some k" "find_idempotent_order db (ck_tenant_id req) (ck_user_id req) k = Inr (Some existing)"
      "replay_order env db existing (request_hash env quantities recipient coupon_code) recipient (ck_execute_sync req) now = (db', res)"
  | (placed) db3 ord where "order_placed db db3 ord (ck_enqueue_durable req)" "next_id db \<le> o_id ord"
      "orders db3 = orders db @ [ord]" "o_checkout_request_hash ord = (if truthy key then Some (request_hash env quantities recipient coupon_code) else None)"
      "o_tenant_id ord = ck_tenant_id req" "o_user_id ord = ck_user_id req" "o_checkout_idempotency_key ord = key" "\<not> sales_paused db (ck_tenant_id req)"
      "(if ck_execute_sync req
        then and_then (execute_order_fulfillment env db3 (o_id ord) recipient 1 now) (\<lambda>db attempt.
               (db, Inr (case get_row o_id (o_id ord) (orders db) of None \<Rightarrow> ord | Some o2 \<Rightarrow> o2, Some attempt)))
        else (db3, Inr (ord, None))) = (db', res)"
proof -
  let ?rhash = "request_hash env quantities recipient coupon_code"
  let ?new = "\<lambda>db1 quoted currency. new_order (next_id db1) (ck_tenant_id req) (ck_user_id req) (''ORD-'' @ upper hex8)
    (quoted_total quoted quantities) currency key ?rhash now"
  obtain db1 r1 where p: "priced_cart env ttl db (ck_tenant_id req) (ck_user_id req) quantities (ck_bot_id req) now = (db1, r1)"
    by (cases "priced_cart env ttl db (ck_tenant_id req) (ck_user_id req) quantities (ck_bot_id req) now")
  show thesis
  proof (cases r1)
    case (Inl e)
    then show ?thesis using run p refused by (auto simp: place_order_def Let_def)
  next
    case (Inr qc)
    obtain quoted currency where qc: "qc = (quoted, currency)" by (cases qc)
    note pc = priced_cart_only [OF p [unfolded Inr qc]]
    obtain qs n where db1: "db1 = db\<lparr>price_quotes := qs, next_id := n\<rparr>" "next_id db \<le> n"
      using pc(1) by (auto simp: quotes_only_def)
    show ?thesis
    proof (cases "flush_order db1 (?new db1 quoted currency)")
      case (Pair db2 r2)
      show ?thesis
      proof (cases r2)
        case (Inl e)
        have eq: "(case key of None \<Rightarrow> (db, Inl (OtherExc e None))
            | Some k \<Rightarrow> (case find_idempotent_order db (ck_tenant_id req) (ck_user_id req) k of
                 Inl e \<Rightarrow> (db, Inl (OtherExc e None)) | Inr None \<Rightarrow> (db, Inl (OtherExc e None))
               | Inr (Some existing) \<Rightarrow> replay_order env db existing ?rhash recipient (ck_execute_sync req) now)) = (db', res)"
          using run p Inr qc Pair Inl by (simp add: place_order_def Let_def)
        show ?thesis
          using eq refused replayed by (auto split: option.splits sum.splits)
      next
        case (Inr ord0)
        have ord0: "ord0 = ?new db1 quoted currency" and db2: "db2 = db1\<lparr>orders := orders db1 @ [ord0], next_id := Suc (next_id db1)\<rparr>"
          using Pair Inr by (auto simp: flush_order_def split: if_splits)
        let ?fill = "fill_order env db2 ord0 quoted quantities coupon_code (ck_bot_id req) recipient (ck_enqueue_durable req) now"
        obtain db3 r3 where f: "?fill = (db3, r3)" by (cases ?fill)
        show ?thesis
        proof (cases r3)
          case (Inl e)
          then show ?thesis using run p \<open>r1 = Inr qc\<close> qc Pair Inr f refused by (auto simp: place_order_def Let_def)
        next
          case (Inr ord)
          let ?db3 = "notify (to_notice PAYMENT_CONFIRMED ord recipient) db3"
          have fresh: "\<forall>x \<in> set (orders db). o_id x < n"
            using ok db1 by (auto simp: shop_ok_def list_all_iff dest: order.strict_trans2)
          have row: "get_row o_id (o_id ord0) (orders db2) = Some ord0"
            using fresh first_row_None_iff [of "\<lambda>r. o_id r = n" "orders db"] unfolding db2 ord0 db1
            by (auto simp: get_row_def new_order_def)
          have inv2: "ledger_inv db2"
            using ok db1(2) unfolding db2 db1(1) by (auto simp: shop_ok_def ledger_inv_def entries_def)
          have vs: "distinct (map (\<lambda>(v, q). v_id v) quoted)"
          proof -
            have "map (\<lambda>(v, q). v_id v) quoted = map v_id (map fst quoted)" by (simp add: case_prod_unfold)
            also have "\<dots> = map v_id (load_authoritative_variants db (ck_tenant_id req) (map fst quantities))" using pc(2) by simp
            finally show ?thesis using ok by (auto simp: shop_ok_def load_authoritative_variants_def distinct_map_filter)
          qed
          note fo = fill_order_Inr [OF vs pc(4) _ row _ inv2 f [unfolded Inr]]
          have o0: "o_total_amount ord0 = quoted_total quoted quantities" "o_status ord0 = OrderStatus.PENDING" "o_id ord0 = n"
              "o_checkout_idempotency_key ord0 = key" "o_tenant_id ord0 = ck_tenant_id req" "o_user_id ord0 = ck_user_id req"
              "o_checkout_request_hash ord0 = (if truthy key then Some ?rhash else None)"
            unfolding ord0 db1 by (simp_all add: new_order_def)
          from fo [OF o0(1,2)] have pl: "order_placed db2 db3 ord (ck_enqueue_durable req)" "map o_id (orders db3) = map o_id (orders db2)"
              "other_orders n (orders db3) = other_orders n (orders db2)"
              and same: "ord = ord0\<lparr>o_status := OrderStatus.PAID, o_total_amount := o_total_amount ord\<rparr>"
            using o0(3) by auto
          have o3: "o_id ord = n" "o_checkout_idempotency_key ord = key" "o_tenant_id ord = ck_tenant_id req" "o_user_id ord = ck_user_id req"
              "o_checkout_request_hash ord = (if truthy key then Some ?rhash else None)"
            by (subst same, simp add: o0)+
          have "other_orders n (orders db2) = orders db"
            using fresh o0(3) unfolding db2 db1(1) other_orders_def by (auto simp: filter_id_conv)
          moreover have "map o_id (orders db3) = map o_id (orders db) @ [n]"
            using pl(2) o0(3) unfolding db2 db1(1) by simp
          moreover have "get_row o_id n (orders db3) = Some ord" using pl(1) o3(1) by (simp add: order_placed_def)
          ultimately have ords: "orders db3 = orders db @ [ord]"
            using appended_order [of "orders db3" "orders db" n ord] pl(3) fresh by auto
          have "order_placed db ?db3 ord (ck_enqueue_durable req)"
            using order_placed_before [OF order_placed_notify [OF pl(1)]] db1(2) unfolding db2 db1(1) by simp
          moreover have "(if ck_execute_sync req
              then and_then (execute_order_fulfillment env ?db3 (o_id ord) recipient 1 now) (\<lambda>db attempt.
                 (db, Inr (case get_row o_id (o_id ord) (orders db) of None \<Rightarrow> ord | Some o2 \<Rightarrow> o2, Some attempt)))
              else (?db3, Inr (ord, None))) = (db', res)"
            using run p \<open>r1 = Inr qc\<close> qc Pair \<open>r2 = Inr ord0\<close> f Inr by (simp add: place_order_def Let_def)
          ultimately show ?thesis using placed [of ?db3 ord] db1(2) o3 ords pc(3) by simp
        qed
      qed
    qed
  qed
qed

section \<open>What a checkout charges\<close>

lemma checkout_cart_cases:
  assumes ok: "shop_ok db" and run: "checkout_cart env ttl db req hex8 now = (db', res)"
  obtains (refused) e where "db' = db" "res = Inl e"
  | (replayed) recipient quantities k coupon_code existing where "checked_request req = Inr (recipient, quantities, Some k, coupon_code)"
      "find_idempotent_order db (ck_tenant_id req) (ck_user_id req) k = Inr (Some existing)"
      "replay_order env db existing (request_hash env quantities recipient coupon_code) recipient (ck_execute_sync req) now = (db', res)"
  | (placed) recipient quantities key coupon_code db3 ord where "checked_request req = Inr (recipient, quantities, key, coupon_code)"
      "order_placed db db3 ord (ck_enqueue_durable req)" "next_id db \<le> o_id ord" "orders db3 = orders db @ [ord]"
      "o_checkout_request_hash ord = (if truthy key then Some (request_hash env quantities recipient coupon_code) else None)"
      "o_tenant_id ord = ck_tenant_id req" "o_user_id ord = ck_user_id req" "o_checkout_idempotency_key ord = key"
      "\<not> sales_paused db (ck_tenant_id req)"
      "(if ck_execute_sync req
        then and_then (execute_order_fulfillment env db3 (o_id ord) recipient 1 now) (\<lambda>db attempt.
               (db, Inr (case get_row o_id (o_id ord) (orders db) of None \<Rightarrow> ord | Some o2 \<Rightarrow> o2, Some attempt)))
        else (db3, Inr (ord, None))) = (db', res)"
      "\<And>k. key = Some k \<Longrightarrow> find_idempotent_order db (ck_tenant_id req) (ck_user_id req) k = Inr None"
proof (cases "checked_request req")
  case (Inl e)
  then show thesis using run refused by (auto simp: checkout_cart_def)
next
  case (Inr q)
  obtain recipient quantities key coupon_code where q: "q = (recipient, quantities, key, coupon_code)" by (cases q)
  let ?place = "place_order env ttl db req recipient quantities key coupon_code hex8 now"
  consider (err) e where "db' = db" "res = Inl e"
    | (rep) k existing where "key = Some k" "find_idempotent_order db (ck_tenant_id req) (ck_user_id req) k = Inr (Some existing)"
        "replay_order env db existing (request_hash env quantities recipient coupon_code) recipient (ck_execute_sync req) now = (db', res)"
    | (new) "?place = (db', res)" "\<And>k. key = Some k \<Longrightarrow> find_idempotent_order db (ck_tenant_id req) (ck_user_id req) k = Inr None"
    using run Inr q by (auto simp: checkout_cart_def split: option.splits sum.splits)
  then show thesis
  proof cases
    case err
    then show ?thesis using refused by blast
  next
    case rep
    then show ?thesis using replayed Inr q by blast
  next
    case new
    show ?thesis
      using ok new(1)
    proof (cases rule: place_order_cases)
      case (placed db3 ord)
      then show ?thesis using that(3) [of recipient quantities key coupon_code db3 ord] Inr q new(2) by blast
    qed (use refused replayed Inr q in blast)+
  qed
qed


text \<open>C3: A checkout charges exactly what it sells. When an order is placed for later fulfilment it is paid: its total is
  positive, is the sum of the totals of its items, was covered by the customer's balance, and is what left that
  balance, in one debit entry that names the order; no other balance changed. If durable fulfilment was
  asked for, one queued job for the order was stored with it.\<close>

theorem checkout_charges_total:
  assumes ok: "shop_ok db" and later: "\<not> ck_execute_sync req"
    and run: "checkout_cart env ttl db req hex8 now = (db', Inr (ord, a))" and new: "get_row o_id (o_id ord) (orders db) = None"
  shows "orders db' = orders db @ [ord] \<and> o_status ord = OrderStatus.PAID \<and> 0 < o_total_amount ord \<and>
    o_total_amount ord = sum_list (map oi_total_price (items_of db' (o_id ord))) \<and>
    o_total_amount ord \<le> balance_of db (order_account ord) \<and>
    balance_of db' = (balance_of db)(order_account ord := balance_of db (order_account ord) - o_total_amount ord) \<and>
    (\<exists>t. ledger db' = ledger db @ [t] \<and> lt_transaction_type t = TransactionType.DEBIT \<and> lt_amount t = o_total_amount ord \<and>
       lt_reference_id t = Some (o_order_number ord)) \<and>
    (if ck_enqueue_durable req
     then \<exists>j. fulfillment_jobs db' = fulfillment_jobs db @ [j] \<and> fj_order_id j = o_id ord \<and> fj_status j = FulfillmentJobStatus.QUEUED
     else fulfillment_jobs db' = fulfillment_jobs db)"
  using ok run
proof (cases rule: checkout_cart_cases)
  case (replayed recipient quantities k coupon_code existing)
  have "existing = ord" using replayed(3) later by (auto simp: replay_order_def resume_or_return_def split: if_splits)
  moreover have "existing \<in> set (orders db)"
    using replayed(2) by (auto simp: find_idempotent_order_def dest: scalar_one_or_none_SomeD)
  ultimately show ?thesis using new by (auto simp: get_row_None)
next
  case (placed recipient quantities key coupon_code db3 ord3)
  have eq: "db3 = db'" "ord3 = ord" using placed(10) later by auto
  obtain "is" where i: "order_items db' = order_items db @ is" "list_all (\<lambda>i. oi_order_id i = o_id ord) is"
      "sum_list (map oi_total_price is) = o_total_amount ord"
    using placed(2) eq by (auto simp: order_placed_def)
  have "filter (\<lambda>i. oi_order_id i = o_id ord) (order_items db) = []"
    using ok placed(3) eq by (auto simp: shop_ok_def list_all_iff filter_empty_conv)
  moreover have "filter (\<lambda>i. oi_order_id i = o_id ord) is = is" using i(2) by (auto simp: filter_id_conv list_all_iff)
  ultimately have "items_of db' (o_id ord) = is" unfolding items_of_def i(1) by simp
  then show ?thesis using placed(2,4) eq i(3) by (auto simp: order_placed_def)
qed auto

section \<open>Repeated requests\<close>


section \<open>A customer with a balance\<close>

definition sample_tenant :: tenant where
  "sample_tenant = \<lparr>tn_id = 7, tn_name = ''Shop'', tn_slug = ''shop'', tn_is_active = True, tn_settings = [], tn_deleted_at = None\<rparr>"

definition checkout_shop :: shop_db where
  "checkout_shop = (supplied_shop OrderStatus.PAID)\<lparr>orders := [], order_items := [], tenants := [sample_tenant],
     wallets := [sample_wallet], ledger := [sample_credit], holds := [sample_hold]\<rparr>"

lemma checkout_shop_ok: "shop_ok checkout_shop"
proof -
  have "ledger_inv checkout_shop"
    using sample_pay_inv(1) ledger_inv_frame [of sample_pay checkout_shop]
    by (simp add: checkout_shop_def sample_pay_def supplied_shop_def priced_shop_def blank_shop_def)
  then show ?thesis
    by (simp add: shop_ok_def shop_rows_def refunds_known_def checkout_shop_def supplied_shop_def priced_shop_def blank_shop_def
        sample_credit_def)
qed

definition sample_request :: "bool \<Rightarrow> checkout_request" where
  "sample_request synchronous = \<lparr>ck_tenant_id = 7, ck_user_id = 8, ck_lines = [\<lparr>cl_variant_id = 30, cl_quantity = 2\<rparr>], ck_recipient = ''r'',
     ck_execute_sync = synchronous, ck_idempotency_key = (if synchronous then None else Some ''k''), ck_enqueue_durable = \<not> synchronous,
     ck_bot_id = None, ck_coupon_code = None\<rparr>"

lemma checkout_runs:
  "case checkout_cart (supplied_by (answering ProviderOrderState.COMPLETED)) 60 checkout_shop (sample_request False) ''abcd1234'' 10 of
     (db', Inr (ord, None)) \<Rightarrow> o_id ord \<ge> 100 | _ \<Rightarrow> False"
  by code_simp

theorem checkout_charges_total_witness:
  "\<exists>db' ord. checkout_cart (supplied_by (answering ProviderOrderState.COMPLETED)) 60 checkout_shop (sample_request False) ''abcd1234'' 10 =
       (db', Inr (ord, None)) \<and>
     balance_of db' (order_account ord) = balance_of checkout_shop (order_account ord) - o_total_amount ord"
proof -
  obtain db' ord where r: "checkout_cart (supplied_by (answering ProviderOrderState.COMPLETED)) 60 checkout_shop (sample_request False)
      ''abcd1234'' 10 = (db', Inr (ord, None))"
    using checkout_runs by (auto split: prod.splits sum.splits option.splits)
  have "\<not> ck_execute_sync (sample_request False)" "get_row o_id (o_id ord) (orders checkout_shop) = None"
    by (simp_all add: sample_request_def checkout_shop_def get_row_def)
  from checkout_charges_total [OF checkout_shop_ok this(1) r this(2)] r show ?thesis by simp
qed


section \<open>Purchases that fail at once\<close>




end
