(* ===== verification/Payment_Reconciliation.thy ===== *)
theory Payment_Reconciliation
  imports Payment_Requests
begin

text \<open>
  \<open>PaymentReconciliationService\<close> (\<open>packages/payments/reconciliation.py\<close>), the turn of its worker
  (\<open>packages/payments/provider_reconciliation_worker.py\<close>) and the health report of
  \<open>packages/payments/operations.py\<close>. The service asks the provider what became of an open intent and
  follows the answer. A batch catches what a single intent raises and goes on in the same session, so the
  changes made before the exception are committed with the rest of the batch: the definitions below
  store each change of the intent at the place where the source assigns it.

  The message texts of the alerts are left out. \<open>env_updated_at\<close> is the \<open>updated_at\<close> column of the intents, which the database layer maintains.
\<close>

record polling_env = pay_env +
  env_updated_at :: "payment_intent \<Rightarrow> timestamp"
  env_operations_stale_seconds :: int

definition has_creation_ambiguity :: "payment_intent \<Rightarrow> bool" where
  "has_creation_ambiguity intent \<longleftrightarrow>
     (case dict_get (pi_metadata_json intent) ''_provider_creation_ambiguity'' JNull of
        JObj marker \<Rightarrow> dict_get marker ''reason'' JNull = JStr ''transport_outcome_unknown''
      | _ \<Rightarrow> False)"

fun purpose_value :: "PaymentIntentPurpose \<Rightarrow> str" where
  "purpose_value ORDER_PAYMENT = ''ORDER_PAYMENT''"
| "purpose_value WALLET_TOPUP = ''WALLET_TOPUP''"

definition recovery_request :: "payment_intent \<Rightarrow> payment_create_request" where
  "recovery_request intent =
     (let metadata = [(''purpose'', JStr (purpose_value (pi_purpose intent))),
            (''payment_intent_id'', JStr (str_uuid (pi_id intent))), (''tenant_id'', JStr (str_uuid (pi_tenant_id intent))),
            (''user_id'', JStr (str_uuid (pi_user_id intent)))];
          metadata = (case pi_payment_method_id intent of None \<Rightarrow> metadata
            | Some m \<Rightarrow> dict_set metadata ''payment_method_id'' (JStr (str_uuid m)))
      in \<lparr>cr_order_id = pi_order_id intent, cr_amount = pi_amount intent, cr_currency = pi_currency intent,
          cr_idempotency_key = pi_idempotency_key intent, cr_metadata = metadata, cr_return_url = None\<rparr>)"

section \<open>Following the provider\<close>

definition adopt_payment_identity ::
  "'x pay_db_scheme \<Rightarrow> payment_intent \<Rightarrow> payment_details_result \<Rightarrow> ('x pay_db_scheme, payment_intent) run" where
  "adopt_payment_identity db intent details =
     (if Some (ds_provider_payment_id details) \<noteq> pi_provider_payment_id intent then
        if pi_provider_payment_id intent \<noteq> None then (db, Inl PaymentIntegrityError)
        else let intent = intent\<lparr>pi_provider_payment_id := Some (ds_provider_payment_id details)\<rparr>
             in (put_intent intent db, Inr intent)
      else (db, Inr intent))"

definition check_attributes ::
  "'e deposit_env_scheme \<Rightarrow> 'x pay_db_scheme \<Rightarrow> payment_intent \<Rightarrow> payment_details_result \<Rightarrow> bool \<Rightarrow>
   ('x pay_db_scheme, payment_intent) run" where
  "check_attributes env db intent details allow_store_initial_verification =
     (if json_truthy (dict_get (pi_metadata_json intent) ''_provider_verification'' JNull)
      then lift_res db (assert_provider_verification_attributes env intent (ds_verification_attributes details))
             (\<lambda>db _. (db, Inr intent))
      else if allow_store_initial_verification
      then lift_res db (store_provider_verification_attributes intent (ds_verification_attributes details))
             (\<lambda>db intent. (put_intent intent db, Inr intent))
      else (db, Inr intent))"

definition follow_details ::
  "'x pay_db_scheme \<Rightarrow> payment_intent \<Rightarrow> payment_details_result \<Rightarrow> timestamp \<Rightarrow> ('x pay_db_scheme, payment_intent) run" where
  "follow_details db intent details now =
     (if ds_status details = PaymentIntentStatus.SUCCEEDED
      then and_then (settle_payment_intent db (pi_tenant_id intent) (pi_id intent) (Some (ds_amount details)) (Some (ds_currency details)) now)
             (\<lambda>db (i, _). (db, Inr i))
      else if ds_status details \<in> {PaymentIntentStatus.FAILED, PaymentIntentStatus.CANCELLED, PaymentIntentStatus.EXPIRED} \<and>
              pi_status intent \<noteq> ds_status details \<or>
              ds_status details = PaymentIntentStatus.PROCESSING \<and> pi_status intent \<noteq> PaymentIntentStatus.PROCESSING
      then lift_res db (PaymentStateMachine_transition intent (ds_status details)) (\<lambda>db i. (put_intent i db, Inr i))
      else (db, Inr intent))"

definition apply_details ::
  "'e deposit_env_scheme \<Rightarrow> 'x pay_db_scheme \<Rightarrow> payment_intent \<Rightarrow> payment_details_result \<Rightarrow> bool \<Rightarrow> timestamp \<Rightarrow>
   ('x pay_db_scheme, payment_intent) run" where
  "apply_details env db intent details allow_store_initial_verification now =
     and_then (adopt_payment_identity db intent details) (\<lambda>db intent.
     if ds_amount details \<noteq> pi_amount intent \<or> ds_currency details \<noteq> pi_currency intent
     then (db, Inl PaymentIntegrityError)
     else and_then (check_attributes env db intent details allow_store_initial_verification) (\<lambda>db intent.
       follow_details db intent details now))"

text \<open>\<open>except (TimeoutError, PaymentProviderError)\<close>, subclasses included.\<close>

definition provider_trouble :: "error \<Rightarrow> bool" where
  "provider_trouble e \<longleftrightarrow>
     e \<in> {TimeoutError, PaymentProviderError, PaymentProviderTransportError, UnsupportedProviderCapabilityError}"

definition recovered_metadata :: "'e pay_env_scheme \<Rightarrow> payment_intent \<Rightarrow> timestamp \<Rightarrow> dict" where
  "recovered_metadata env intent now =
     dict_set (AList.delete ''_provider_creation_ambiguity'' (pi_metadata_json intent)) ''_provider_creation_recovery''
       (JObj [(''recovered_at'', JStr (env_isoformat env now)), (''provider'', JStr (pi_provider intent)),
              (''original_ambiguity'', dict_get (pi_metadata_json intent) ''_provider_creation_ambiguity'' JNull)])"

definition recover_creation_ambiguity ::
  "'e pay_env_scheme \<Rightarrow> 'x pay_db_scheme \<Rightarrow> payment_intent \<Rightarrow> timestamp \<Rightarrow> ('x pay_db_scheme, payment_intent) run" where
  "recover_creation_ambiguity env db intent now =
     lift_res db (env_provider env (pi_tenant_id intent) (pi_provider intent)) (\<lambda>db provider.
     if \<not> supports_creation_recovery provider then (db, Inr intent)
     else case recover_payment_creation provider of
       None \<Rightarrow> (db, Inl UnsupportedProviderCapabilityError)
     | Some recover \<Rightarrow>
         (case recover (recovery_request intent) of
            Inl e \<Rightarrow> if provider_trouble e then (db, Inr intent) else (db, Inl e)
          | Inr details \<Rightarrow>
              if ds_provider_payment_id details = [] then (db, Inl PaymentIntegrityError)
              else let intent = intent\<lparr>pi_metadata_json := recovered_metadata env intent now\<rparr>
                   in apply_details env (put_intent intent db) intent details True now))"

definition reconcile_intent ::
  "'e pay_env_scheme \<Rightarrow> 'x pay_db_scheme \<Rightarrow> uuid \<Rightarrow> uuid \<Rightarrow> timestamp \<Rightarrow> ('x pay_db_scheme, payment_intent) run" where
  "reconcile_intent env db tenant_id intent_id now =
     lift_res db (get_payment_intent db tenant_id intent_id) (\<lambda>db intent.
     if pi_status intent = PaymentIntentStatus.SUCCEEDED then (db, Inr intent)
     else if \<not> truthy (pi_provider_payment_id intent) then
       if pi_status intent = PaymentIntentStatus.UNKNOWN \<and> has_creation_ambiguity intent
       then recover_creation_ambiguity env db intent now
       else (db, Inl PaymentError)
     else
       lift_res db (env_provider env tenant_id (pi_provider intent)) (\<lambda>db provider.
       if \<not> supports_payment_lookup provider then (db, Inl UnsupportedProviderCapabilityError)
       else case get_payment provider (the (pi_provider_payment_id intent)) of
         Inl e \<Rightarrow>
           if provider_trouble e then
             if pi_status intent \<noteq> PaymentIntentStatus.UNKNOWN
             then lift_res db (PaymentStateMachine_transition intent PaymentIntentStatus.UNKNOWN)
                    (\<lambda>db i. (put_intent i db, Inr i))
             else (db, Inr intent)
           else (db, Inl e)
       | Inr details \<Rightarrow> apply_details env db intent details False now))"

section \<open>A batch\<close>

definition open_intent :: "payment_intent \<Rightarrow> bool" where
  "open_intent i \<longleftrightarrow> pi_status i \<in> {PaymentIntentStatus.PENDING, PaymentIntentStatus.PROCESSING, PaymentIntentStatus.UNKNOWN}"

definition intent_in_scope :: "uuid option \<Rightarrow> str list \<Rightarrow> payment_intent \<Rightarrow> bool" where
  "intent_in_scope tenant_id exclusions i \<longleftrightarrow>
     (tenant_id = None \<or> tenant_id = Some (pi_tenant_id i)) \<and> pi_provider i \<notin> set exclusions"

definition oldest_first :: "'e polling_env_scheme \<Rightarrow> payment_intent list \<Rightarrow> payment_intent list" where
  "oldest_first env is = sort_key (\<lambda>i. (env_updated_at env i, pi_id i)) is"

definition due_intents ::
  "'e polling_env_scheme \<Rightarrow> 'x pay_db_scheme \<Rightarrow> uuid option \<Rightarrow> int \<Rightarrow> str list \<Rightarrow> payment_intent list" where
  "due_intents env db tenant_id limit exclude_providers =
     (let limit = nat (max 1 (min limit 200));
          exclusions = filter (\<lambda>n. n \<noteq> []) (map (\<lambda>n. lower (strip n)) exclude_providers);
          intents = take limit (oldest_first env (filter
            (\<lambda>i. open_intent i \<and> pi_provider_payment_id i \<noteq> None \<and> intent_in_scope tenant_id exclusions i) (payment_intents db)));
          remaining = limit - length intents
      in if remaining = 0 then intents
         else
           let candidates = take (min (remaining * 4) 200) (oldest_first env (filter
             (\<lambda>i. pi_status i = PaymentIntentStatus.UNKNOWN \<and> pi_provider_payment_id i = None \<and> intent_in_scope tenant_id exclusions i)
             (payment_intents db)))
           in take limit (intents @ filter has_creation_ambiguity candidates))"

text \<open>\<open>except Exception\<close>: what one intent raises is logged, and the batch goes on where the intent left the session.\<close>

fun reconcile_each ::
  "'e pay_env_scheme \<Rightarrow> 'x pay_db_scheme \<Rightarrow> payment_intent list \<Rightarrow> timestamp \<Rightarrow> 'x pay_db_scheme \<times> payment_intent list" where
  "reconcile_each env db [] now = (db, [])"
| "reconcile_each env db (i # is) now =
     (case reconcile_intent env db (pi_tenant_id i) (pi_id i) now of
        (db, Inl _) \<Rightarrow> reconcile_each env db is now
      | (db, Inr rec) \<Rightarrow> (case reconcile_each env db is now of (db, reconciled) \<Rightarrow> (db, rec # reconciled)))"

definition reconcile_pending_intents ::
  "'e polling_env_scheme \<Rightarrow> 'x pay_db_scheme \<Rightarrow> uuid option \<Rightarrow> int \<Rightarrow> str list \<Rightarrow> timestamp \<Rightarrow>
   'x pay_db_scheme \<times> payment_intent list" where
  "reconcile_pending_intents env db tenant_id limit exclude_providers now =
     reconcile_each env db (due_intents env db tenant_id limit exclude_providers) now"

section \<open>The worker's turn\<close>

record reconciliation_stats =
  rst_scanned :: nat
  rst_succeeded :: nat
  rst_processing :: nat
  rst_unknown :: nat
  rst_terminal :: nat

definition count_status :: "reconciliation_stats \<Rightarrow> payment_intent \<Rightarrow> reconciliation_stats" where
  "count_status stats i =
     (if pi_status i = PaymentIntentStatus.SUCCEEDED then stats\<lparr>rst_succeeded := Suc (rst_succeeded stats)\<rparr>
      else if pi_status i \<in> {PaymentIntentStatus.PENDING, PaymentIntentStatus.PROCESSING}
      then stats\<lparr>rst_processing := Suc (rst_processing stats)\<rparr>
      else if pi_status i = PaymentIntentStatus.UNKNOWN then stats\<lparr>rst_unknown := Suc (rst_unknown stats)\<rparr>
      else stats\<lparr>rst_terminal := Suc (rst_terminal stats)\<rparr>)"

definition provider_run_once ::
  "'e polling_env_scheme \<Rightarrow> 'x pay_db_scheme \<Rightarrow> int \<Rightarrow> timestamp \<Rightarrow> 'x pay_db_scheme \<times> reconciliation_stats" where
  "provider_run_once env db batch_size now =
     (case reconcile_pending_intents env db None batch_size [''telegram_stars''] now of
        (db, intents) \<Rightarrow> (db, foldl count_status
           \<lparr>rst_scanned = length intents, rst_succeeded = 0, rst_processing = 0, rst_unknown = 0, rst_terminal = 0\<rparr> intents))"

section \<open>The health report\<close>

record payment_operations_alert =
  al_code :: str
  al_severity :: str
  al_count :: nat

record payment_operations_snapshot =
  sn_tenant_id :: uuid
  sn_generated_at :: timestamp
  sn_stale_after_seconds :: int
  sn_status :: str
  sn_open_intents :: nat
  sn_pending_intents :: nat
  sn_processing_intents :: nat
  sn_unknown_intents :: nat
  sn_stale_provider_intents :: nat
  sn_creation_ambiguities :: nat
  sn_manual_review_observations :: nat
  sn_reversal_reconciliation_items :: nat
  sn_open_financial_cases :: nat
  sn_enabled_provider_configs :: nat
  sn_enabled_payment_methods :: nat
  sn_alerts :: "payment_operations_alert list"

definition count_rows :: "('r \<Rightarrow> bool) \<Rightarrow> 'r list \<Rightarrow> nat" where
  "count_rows q rs = length (filter q rs)"

definition operations_alerts :: "nat \<Rightarrow> nat \<Rightarrow> nat \<Rightarrow> nat \<Rightarrow> nat \<Rightarrow> payment_operations_alert list" where
  "operations_alerts ambiguity_count stale_count manual_review reversal_review open_cases =
     filter (\<lambda>a. al_count a \<noteq> 0)
       [\<lparr>al_code = ''PAYMENT_CREATION_AMBIGUITY'', al_severity = ''HIGH'', al_count = ambiguity_count\<rparr>,
        \<lparr>al_code = ''STALE_PROVIDER_PAYMENT'', al_severity = ''MEDIUM'', al_count = stale_count\<rparr>,
        \<lparr>al_code = ''MANUAL_PAYMENT_REVIEW'', al_severity = ''MEDIUM'', al_count = manual_review\<rparr>,
        \<lparr>al_code = ''REVERSAL_RECONCILIATION'', al_severity = ''HIGH'', al_count = reversal_review\<rparr>,
        \<lparr>al_code = ''FINANCIAL_CASES_OPEN'', al_severity = ''HIGH'', al_count = open_cases\<rparr>]"

definition snapshot ::
  "'e polling_env_scheme \<Rightarrow> 'x pay_db_scheme \<Rightarrow> uuid \<Rightarrow> int option \<Rightarrow> timestamp \<Rightarrow> payment_operations_snapshot" where
  "snapshot env db tenant_id stale_after_seconds now =
     (let stale_seconds = (case stale_after_seconds of Some s \<Rightarrow> s | None \<Rightarrow> env_operations_stale_seconds env);
          stale_seconds = max 60 (min stale_seconds 86400);
          cutoff = now - timedelta_seconds stale_seconds;
          mine = filter (\<lambda>i. pi_tenant_id i = tenant_id) (payment_intents db);
          pending = count_rows (\<lambda>i. pi_status i = PaymentIntentStatus.PENDING) mine;
          processing = count_rows (\<lambda>i. pi_status i = PaymentIntentStatus.PROCESSING) mine;
          unknown = count_rows (\<lambda>i. pi_status i = PaymentIntentStatus.UNKNOWN) mine;
          stale_count = count_rows (\<lambda>i. open_intent i \<and> pi_provider_payment_id i \<noteq> None \<and> env_updated_at env i \<le> cutoff) mine;
          ambiguity_count = count_rows (\<lambda>i. pi_status i = PaymentIntentStatus.UNKNOWN \<and> pi_provider_payment_id i = None \<and>
            has_creation_ambiguity i) mine;
          manual_review = count_rows (\<lambda>ob. po_tenant_id ob = tenant_id \<and> po_status ob = PaymentObservationStatus.MANUAL_REVIEW)
            (payment_observations db);
          reversal_review = count_rows (\<lambda>r. rv_tenant_id r = tenant_id \<and>
            rv_status r \<in> {RECONCILIATION_REQUIRED, WalletTopUpReversalStatus.MANUAL_REVIEW}) (topup_reversals db);
          open_cases = count_rows (\<lambda>c. fc_tenant_id c = tenant_id \<and> fc_status c \<noteq> RESOLVED) (resolution_cases db);
          enabled_providers = count_rows (\<lambda>c. pc_tenant_id c = tenant_id \<and> pc_is_enabled c) (provider_configs db);
          enabled_methods = count_rows (\<lambda>m. pm_tenant_id m = tenant_id \<and> pm_is_enabled m) (payment_methods db);
          alerts = operations_alerts ambiguity_count stale_count manual_review reversal_review open_cases;
          high = list_ex (\<lambda>a. al_severity a = ''HIGH'') alerts
      in \<lparr>sn_tenant_id = tenant_id, sn_generated_at = now, sn_stale_after_seconds = stale_seconds,
          sn_status = (if high then ''ATTENTION'' else if alerts \<noteq> [] then ''DEGRADED'' else ''HEALTHY''),
          sn_open_intents = pending + processing + unknown, sn_pending_intents = pending, sn_processing_intents = processing,
          sn_unknown_intents = unknown, sn_stale_provider_intents = stale_count, sn_creation_ambiguities = ambiguity_count,
          sn_manual_review_observations = manual_review, sn_reversal_reconciliation_items = reversal_review,
          sn_open_financial_cases = open_cases, sn_enabled_provider_configs = enabled_providers,
          sn_enabled_payment_methods = enabled_methods, sn_alerts = alerts\<rparr>)"

end
