(* ===== verification/Polling_Properties.thy ===== *)
theory Polling_Properties
  imports Payment_Reconciliation
begin

text \<open>
  What the reconciliation of open intents promises. A batch swallows the exceptions of single intents and commits whatever
  they had changed, so the invariant of the payment service has to survive a settlement that stops half way;
  \<open>settle_open_cases\<close> says that an open intent's settlement either books nothing or books the payment together with the
  success of the intent.
\<close>

section \<open>Settlements that raise\<close>

lemma settle_open_core:
  assumes inv: "pay_inv db" and i: "i \<in> set (payment_intents db)" and st: "\<not> payment_terminal (pi_status i)"
  obtains db1 w where "get_or_create_wallet db (pi_tenant_id i) (pi_user_id i) (pi_currency i) = (db1, Inr w)" "pay_inv db1"
    "payment_intents db1 = payment_intents db" "balance_of db1 = balance_of db" "find_settlement db1 w (pi_id i) = None"
    "\<And>d. (\<exists>e. settle_payment db1 w (pi_amount i) (pi_id i) d now = (db1, Inl e)) \<or>
       (\<exists>db2 db3 t. settle_payment db1 w (pi_amount i) (pi_id i) d now = (db2, Inr t) \<and>
          succeed_intent db2 i = (db3, Inr (i\<lparr>pi_status := PaymentIntentStatus.SUCCEEDED\<rparr>)) \<and>
          settles db i db3 (i\<lparr>pi_status := PaymentIntentStatus.SUCCEEDED\<rparr>) t)"
proof -
  have li: "ledger_inv db" using inv by (simp add: pay_inv_def)
  obtain db1 w where g: "get_or_create_wallet db (pi_tenant_id i) (pi_user_id i) (pi_currency i) = (db1, Inr w)"
    using get_or_create_wallet_total [OF li] by blast
  note gd = get_or_create_wallet_InrD [OF li g]
  note tab = pay_tables_eq [OF gd(6)]
  have is1: "payment_intents db1 = payment_intents db" using tab by simp
  have inv1: "pay_inv db1" using get_or_create_wallet_keeps [OF inv g] .
  have new: "find_settlement db1 w (pi_id i) = None"
    using find_settlement_iff [OF inv1 _ gd(2,3)] i tab st by (auto simp: payment_terminal.simps)
  show thesis
  proof (rule that [OF g inv1 is1 _ new])
    show "balance_of db1 = balance_of db" using balance_of_get_or_create [OF li g] .
    fix d
    show "(\<exists>e. settle_payment db1 w (pi_amount i) (pi_id i) d now = (db1, Inl e)) \<or>
       (\<exists>db2 db3 t. settle_payment db1 w (pi_amount i) (pi_id i) d now = (db2, Inr t) \<and>
          succeed_intent db2 i = (db3, Inr (i\<lparr>pi_status := PaymentIntentStatus.SUCCEEDED\<rparr>)) \<and>
          settles db i db3 (i\<lparr>pi_status := PaymentIntentStatus.SUCCEEDED\<rparr>) t)"
    proof (cases "settle_payment db1 w (pi_amount i) (pi_id i) d now")
      case (Pair db2 r)
      show ?thesis
      proof (cases r)
        case (Inl e)
        then show ?thesis using Pair settle_payment_failure by blast
      next
        case (Inr t)
        obtain db3 where u: "succeed_intent db2 i = (db3, Inr (i\<lparr>pi_status := PaymentIntentStatus.SUCCEEDED\<rparr>))"
          using succeed_intent_ok [OF st] by blast
        have "settle_payment db1 w (pi_amount i) (pi_id i) d now = (db2, Inr t)" using Pair Inr by simp
        then show ?thesis using settle_core(1) [OF inv i g disjI2 [OF conjI [OF new]] u] u by blast
      qed
    qed
  qed
qed

text \<open>Whatever a settlement of an open intent returns or raises.\<close>

definition settled_or_not :: "'x pay_db_scheme \<Rightarrow> payment_intent \<Rightarrow> 'x pay_db_scheme \<Rightarrow> bool" where
  "settled_or_not db i db' \<longleftrightarrow>
     pay_inv db' \<and> payment_intents db' = payment_intents db \<and> balance_of db' = balance_of db \<or>
     (\<exists>t. settles db i db' (i\<lparr>pi_status := PaymentIntentStatus.SUCCEEDED\<rparr>) t)"

lemma settled_or_notI [intro]:
  "pay_inv db' \<Longrightarrow> payment_intents db' = payment_intents db \<Longrightarrow> balance_of db' = balance_of db \<Longrightarrow> settled_or_not db i db'"
  "settles db i db' (i\<lparr>pi_status := PaymentIntentStatus.SUCCEEDED\<rparr>) t \<Longrightarrow> settled_or_not db i db'"
  by (auto simp: settled_or_not_def)

lemma flush_settlement_keeps:
  assumes "settles db i db1 i' t"
  shows "\<exists>db2 x. flush_payment_transaction db1 (settlement_transaction db1 k m) = (db2, Inr x) \<and> settles db i db2 i' t"
proof -
  obtain db2 where f: "flush_payment_transaction db1 (settlement_transaction db1 k m) = (db2, Inr (settlement_transaction db1 k m))"
    using flush_settlement by blast
  note fk = flush_payment_transaction_keeps [OF settles_inv [OF assms] f]
  show ?thesis using f settles_frame [OF assms fk(1)] fk by auto
qed

lemma pay_order_keeps:
  assumes "settles db i db1 i' t"
  shows "settles db i (fst (pay_order db1 ord)) i' t"
proof -
  have "fst (pay_order db1 ord) = db1 \<or> (\<exists>x. fst (pay_order db1 ord) = put_order x db1)"
    by (auto simp: pay_order_def lift_res_def split: sum.splits)
  then show ?thesis using assms settles_frame [OF assms put_order_keeps [OF settles_inv [OF assms]]] by auto
qed

lemma settle_open_cases:
  assumes inv: "pay_inv db" and i: "i \<in> set (payment_intents db)" and st: "\<not> payment_terminal (pi_status i)"
  shows "settled_or_not db i (fst (settle_payment_intent db n (pi_id i) va vc now))"
proof -
  let ?s = "i\<lparr>pi_status := PaymentIntentStatus.SUCCEEDED\<rparr>"
  have same: "settled_or_not db i db" using inv by blast
  obtain db1 w where g: "get_or_create_wallet db (pi_tenant_id i) (pi_user_id i) (pi_currency i) = (db1, Inr w)"
    and k: "pay_inv db1" "payment_intents db1 = payment_intents db" "balance_of db1 = balance_of db"
    and new: "find_settlement db1 w (pi_id i) = None"
    and core: "\<And>d. (\<exists>e. settle_payment db1 w (pi_amount i) (pi_id i) d now = (db1, Inl e)) \<or>
       (\<exists>db2 db3 t. settle_payment db1 w (pi_amount i) (pi_id i) d now = (db2, Inr t) \<and>
          succeed_intent db2 i = (db3, Inr ?s) \<and> settles db i db3 ?s t)"
    using settle_open_core [OF inv i st] by metis
  have topup: "settled_or_not db i (fst (settle_wallet_topup db i va vc now))"
  proof -
    let ?d = "Some (''Wallet top-up settlement via '' @ pi_provider i)"
    from core [of ?d] show ?thesis
    proof (elim disjE exE conjE)
      fix db2 db3 t
      assume "settle_payment db1 w (pi_amount i) (pi_id i) ?d now = (db2, Inr t)" "succeed_intent db2 i = (db3, Inr ?s)"
        and s: "settles db i db3 ?s t"
      then show ?thesis
        using same g new flush_settlement_keeps [OF s, of ?s "[(''purpose'', JStr ''WALLET_TOPUP'')]"]
        by (auto simp: settle_wallet_topup_def)
    qed (use same g new k in \<open>auto simp: settle_wallet_topup_def\<close>)
  qed
  have order: "settled_or_not db i (fst (and_then (get_or_create_wallet db (pi_tenant_id i) (pi_user_id i) (pi_currency i)) (\<lambda>db wlt.
             case find_settlement db wlt (pi_id i) of
               Some existing_tx \<Rightarrow>
                 and_then (succeed_intent db i) (\<lambda>db intent.
                 and_then (pay_order db ord) (\<lambda>db _. (db, Inr (intent, existing_tx))))
             | None \<Rightarrow>
                 and_then (settle_payment db wlt (pi_amount i) (pi_id i)
                     (Some (''Payment settlement for order '' @ o_order_number ord)) now) (\<lambda>db ledger_tx.
                 and_then (succeed_intent db i) (\<lambda>db intent.
                 and_then (pay_order db ord) (\<lambda>db _.
                 and_then (flush_payment_transaction db (settlement_transaction db intent [])) (\<lambda>db _.
                   (db, Inr (intent, ledger_tx)))))))))" for ord
  proof -
    let ?d = "Some (''Payment settlement for order '' @ o_order_number ord)"
    from core [of ?d] show ?thesis
    proof (elim disjE exE conjE)
      fix db2 db3 t
      assume a: "settle_payment db1 w (pi_amount i) (pi_id i) ?d now = (db2, Inr t)" "succeed_intent db2 i = (db3, Inr ?s)"
        and s: "settles db i db3 ?s t"
      obtain db4 r where po: "pay_order db3 ord = (db4, r)" by (cases "pay_order db3 ord")
      then have s4: "settles db i db4 ?s t" using pay_order_keeps [OF s, of ord] by simp
      show ?thesis using g new a po s4 flush_settlement_keeps [OF s4, of ?s "[]"] by (cases r) auto
    qed (use g new k in auto)
  qed
  show ?thesis
    using same topup order
    by (auto simp: settle_payment_intent_def get_payment_intent_row [OF inv i] split: option.splits)
qed

section \<open>What one step may do\<close>

text \<open>The provider of the intent, asked for the payment or for the lost creation, answered with a success for the amount.\<close>

definition provider_confirms :: "'e deposit_env_scheme \<Rightarrow> payment_intent \<Rightarrow> bool" where
  "provider_confirms env i \<longleftrightarrow>
     (\<exists>p details. env_provider env (pi_tenant_id i) (pi_provider i) = Inr p \<and>
        pi_provider_payment_id i = Some (ds_provider_payment_id details) \<and>
        ds_status details = PaymentIntentStatus.SUCCEEDED \<and>
        ds_amount details = pi_amount i \<and> ds_currency details = pi_currency i \<and>
        (get_payment p (ds_provider_payment_id details) = Inr details \<or>
         (\<exists>recover. recover_payment_creation p = Some recover \<and> recover (recovery_request i) = Inr details)))"

definition same_payment :: "payment_intent \<Rightarrow> payment_intent \<Rightarrow> bool" where
  "same_payment i i' \<longleftrightarrow> pi_id i' = pi_id i \<and> intent_key i' = intent_key i \<and> account_of i' = account_of i \<and>
     pi_amount i' = pi_amount i \<and> pi_purpose i' = pi_purpose i \<and> pi_order_id i' = pi_order_id i \<and>
     pi_provider i' = pi_provider i \<and> pi_payment_method_id i' = pi_payment_method_id i"

definition paid_total :: "'x pay_db_scheme \<Rightarrow> account \<Rightarrow> decimal" where
  "paid_total db acc = sum_list (map pi_amount
     (filter (\<lambda>i. account_of i = acc \<and> pi_status i = PaymentIntentStatus.SUCCEEDED) (payment_intents db)))"

text \<open>A step on the intents \<open>J\<close>.\<close>

definition polled :: "'e deposit_env_scheme \<Rightarrow> uuid set \<Rightarrow> 'x pay_db_scheme \<Rightarrow> 'x pay_db_scheme \<Rightarrow> bool" where
  "polled env J db db' \<longleftrightarrow> pay_inv db' \<and>
     (\<forall>i \<in> set (payment_intents db). pi_id i \<notin> J \<longrightarrow> i \<in> set (payment_intents db')) \<and>
     (\<forall>i' \<in> set (payment_intents db'). \<exists>i \<in> set (payment_intents db). same_payment i i' \<and>
        (pi_status i' = PaymentIntentStatus.SUCCEEDED \<longrightarrow> i' = i \<or> provider_confirms env i')) \<and>
     (\<forall>acc. balance_of db' acc - paid_total db' acc = balance_of db acc - paid_total db acc)"

lemma same_payment_refl [simp]: "same_payment i i"
  by (simp add: same_payment_def)

lemma same_payment_trans: "same_payment i j \<Longrightarrow> same_payment j k \<Longrightarrow> same_payment i k"
  by (simp add: same_payment_def)

lemma recovery_request_same: "same_payment i i' \<Longrightarrow> recovery_request i' = recovery_request i"
  by (simp add: same_payment_def recovery_request_def intent_key_def)

lemma polled_refl: "pay_inv db \<Longrightarrow> polled env J db db"
  by (force simp: polled_def)

lemma polled_trans:
  assumes a: "polled env J db db1" and b: "polled env K db1 db2"
  shows "polled env (J \<union> K) db db2"
  unfolding polled_def
proof (intro conjI ballI impI allI)
  show "pay_inv db2" using b by (simp add: polled_def)
  show "i \<in> set (payment_intents db2)" if "i \<in> set (payment_intents db)" "pi_id i \<notin> J \<union> K" for i
    using that a b by (auto simp: polled_def)
  show "balance_of db2 acc - paid_total db2 acc = balance_of db acc - paid_total db acc" for acc
    using a b unfolding polled_def by metis
  fix i2
  assume "i2 \<in> set (payment_intents db2)"
  then obtain i1 where i1: "i1 \<in> set (payment_intents db1)" "same_payment i1 i2"
    "pi_status i2 = PaymentIntentStatus.SUCCEEDED \<longrightarrow> i2 = i1 \<or> provider_confirms env i2"
    using b unfolding polled_def by blast
  then obtain i where "i \<in> set (payment_intents db)" "same_payment i i1"
    "pi_status i1 = PaymentIntentStatus.SUCCEEDED \<longrightarrow> i1 = i \<or> provider_confirms env i1"
    using a unfolding polled_def by blast
  then show "\<exists>i \<in> set (payment_intents db). same_payment i i2 \<and>
      (pi_status i2 = PaymentIntentStatus.SUCCEEDED \<longrightarrow> i2 = i \<or> provider_confirms env i2)"
    using i1 same_payment_trans by metis
qed

lemma polled_again: "polled env J db db1 \<Longrightarrow> polled env J db1 db2 \<Longrightarrow> polled env J db db2"
  using polled_trans [of env J db db1 J db2] by simp

text \<open>The payments booked for an account, when one row changes.\<close>

lemma paid_total_put:
  assumes d: "distinct (map pi_id is)" and i: "i \<in> set is" and s: "pi_id i' = pi_id i" "account_of i' = account_of i" "pi_amount i' = pi_amount i"
    and st: "pi_status i = PaymentIntentStatus.SUCCEEDED \<Longrightarrow> pi_status i' = PaymentIntentStatus.SUCCEEDED"
  shows "sum_list (map pi_amount (filter (\<lambda>i. account_of i = acc \<and> pi_status i = PaymentIntentStatus.SUCCEEDED) (put_row pi_id i' is))) =
    sum_list (map pi_amount (filter (\<lambda>i. account_of i = acc \<and> pi_status i = PaymentIntentStatus.SUCCEEDED) is)) +
    (if account_of i = acc \<and> pi_status i \<noteq> PaymentIntentStatus.SUCCEEDED \<and> pi_status i' = PaymentIntentStatus.SUCCEEDED
     then pi_amount i else 0)"
  using d i
proof (induction "is")
  case (Cons x xs)
  show ?case
  proof (cases "x = i")
    case True
    then have "pi_id y \<noteq> pi_id i'" if "y \<in> set xs" for y using that Cons.prems(1) s(1) by (auto simp: image_iff)
    then have "put_row pi_id i' xs = xs" unfolding put_row_def update_where_def by (intro map_idI) simp
    then show ?thesis using True s st by (auto simp: put_row_def)
  next
    case False
    then have "pi_id x \<noteq> pi_id i" "i \<in> set xs" using Cons.prems by auto
    then show ?thesis using Cons s(1) by (simp add: put_row_def)
  qed
qed simp

lemma paid_total_cong: "payment_intents db' = payment_intents db \<Longrightarrow> paid_total db' = paid_total db"
  by (simp add: paid_total_def fun_eq_iff)

lemma polled_row:
  assumes inv: "pay_inv db" "pay_inv db'" and i: "i \<in> set (payment_intents db)" and s: "same_payment i i'"
    and is': "payment_intents db' = put_row pi_id i' (payment_intents db)"
    and c: "if pi_status i \<noteq> PaymentIntentStatus.SUCCEEDED \<and> pi_status i' = PaymentIntentStatus.SUCCEEDED
      then provider_confirms env i' \<and> balance_of db' = (balance_of db)(account_of i := balance_of db (account_of i) + pi_amount i)
      else balance_of db' = balance_of db \<and> (pi_status i = PaymentIntentStatus.SUCCEEDED \<longrightarrow> i' = i)"
  shows "polled env {pi_id i} db db'"
  unfolding polled_def
proof (intro conjI ballI impI allI)
  show "pay_inv db'" by (rule inv(2))
  have d: "distinct (map pi_id (payment_intents db))" using inv(1) by (simp add: pay_inv_def pay_rows_def)
  have id: "pi_id i' = pi_id i" "account_of i' = account_of i" "pi_amount i' = pi_amount i" using s by (simp_all add: same_payment_def)
  have st: "pi_status i = PaymentIntentStatus.SUCCEEDED \<Longrightarrow> pi_status i' = PaymentIntentStatus.SUCCEEDED" using c by (auto split: if_splits)
  show "k \<in> set (payment_intents db')" if "k \<in> set (payment_intents db)" "pi_id k \<notin> {pi_id i}" for k
    using that id(1) by (auto simp: is' put_row_def in_update_where)
  show "balance_of db' acc - paid_total db' acc = balance_of db acc - paid_total db acc" for acc
    using paid_total_put [OF d i id st, of acc] c by (auto simp: paid_total_def is' split: if_splits)
  fix k
  assume "k \<in> set (payment_intents db')"
  then have "k = i' \<or> k \<in> set (payment_intents db)" unfolding is' by (rule in_put_row)
  then show "\<exists>i \<in> set (payment_intents db). same_payment i k \<and>
      (pi_status k = PaymentIntentStatus.SUCCEEDED \<longrightarrow> k = i \<or> provider_confirms env k)"
  proof
    assume "k = i'"
    moreover have "pi_status i' = PaymentIntentStatus.SUCCEEDED \<longrightarrow> i' = i \<or> provider_confirms env i'" using c by (auto split: if_splits)
    ultimately show ?thesis using i s by blast
  qed (use same_payment_refl in blast)
qed

lemma put_polled:
  assumes inv: "pay_inv db" and i: "i \<in> set (payment_intents db)" and s: "same_payment i i'"
    and st: "pi_status i \<noteq> PaymentIntentStatus.SUCCEEDED" "pi_status i' \<noteq> PaymentIntentStatus.SUCCEEDED"
  shows "polled env {pi_id i} db (put_intent i' db)" and "i' \<in> set (payment_intents (put_intent i' db))"
    and "pay_inv (put_intent i' db)"
proof -
  have v: "money_view i' = money_view i" "intent_key i' = intent_key i" "pi_id i' = pi_id i"
    using s st by (auto simp: same_payment_def money_view_def)
  show k: "pay_inv (put_intent i' db)" using put_intent_keeps [OF inv i v(1,2)] .
  show "i' \<in> set (payment_intents (put_intent i' db))" using i v(3) by (auto intro: put_row_in)
  show "polled env {pi_id i} db (put_intent i' db)" by (rule polled_row [OF inv k i s]) (simp_all add: st)
qed

lemma settled_polled:
  assumes inv: "pay_inv db" and i: "i \<in> set (payment_intents db)" and st: "\<not> payment_terminal (pi_status i)"
    and s: "settled_or_not db i db'" and c: "provider_confirms env (i\<lparr>pi_status := PaymentIntentStatus.SUCCEEDED\<rparr>)"
  shows "polled env {pi_id i} db db'"
  using s unfolding settled_or_not_def
proof
  have ns: "pi_status i \<noteq> PaymentIntentStatus.SUCCEEDED" using st by (auto simp: payment_terminal.simps)
  show ?thesis if "\<exists>t. settles db i db' (i\<lparr>pi_status := PaymentIntentStatus.SUCCEEDED\<rparr>) t"
  proof -
    from that obtain t where t: "settles db i db' (i\<lparr>pi_status := PaymentIntentStatus.SUCCEEDED\<rparr>) t" ..
    show ?thesis
      using t c ns by (intro polled_row [OF inv settles_inv [OF t] i]) (auto simp: settles_def same_payment_def intent_key_def)
  qed
  assume a: "pay_inv db' \<and> payment_intents db' = payment_intents db \<and> balance_of db' = balance_of db"
  then show ?thesis
    using i inv st ns by (intro polled_row [OF inv _ i same_payment_refl]) (auto simp: pay_inv_def pay_rows_def)
qed

lemma put_transition_polled:
  assumes inv: "pay_inv db" and i: "i \<in> set (payment_intents db)" and ns: "pi_status i \<noteq> PaymentIntentStatus.SUCCEEDED"
    and s: "s \<noteq> PaymentIntentStatus.SUCCEEDED"
  shows "polled env {pi_id i} db (fst (lift_res db (PaymentStateMachine_transition i s) (\<lambda>db i. (put_intent i db, Inr i))))"
proof (rule lift_res_keeps [where P = "polled env {pi_id i} db"])
  show "polled env {pi_id i} db db" using inv by (rule polled_refl)
  fix i'
  assume t: "PaymentStateMachine_transition i s = Inr i'"
  have "same_payment i i'" "pi_status i' = s"
    using transition_InrD(1) [OF t] by (simp_all add: same_payment_def intent_key_def)
  then show "polled env {pi_id i} db (fst (put_intent i' db, Inr i'))" using put_polled(1) [OF inv i _ ns] s by auto
qed

lemma follow_details_polled:
  assumes inv: "pay_inv db" and i: "i \<in> set (payment_intents db)" and st: "\<not> payment_terminal (pi_status i)"
    and c: "ds_status ds = PaymentIntentStatus.SUCCEEDED \<Longrightarrow> provider_confirms env (i\<lparr>pi_status := PaymentIntentStatus.SUCCEEDED\<rparr>)"
  shows "polled env {pi_id i} db (fst (follow_details db i ds now))"
proof (cases "ds_status ds = PaymentIntentStatus.SUCCEEDED")
  case True
  obtain db' r where r: "settle_payment_intent db (pi_tenant_id i) (pi_id i) (Some (ds_amount ds)) (Some (ds_currency ds)) now = (db', r)"
    by force
  then have "settled_or_not db i db'" using settle_open_cases [OF inv i st] by (metis fst_conv)
  then have "polled env {pi_id i} db db'" using settled_polled [OF inv i st] c True by blast
  then show ?thesis using True r by (cases r) (auto simp: follow_details_def)
next
  case False
  have ns: "pi_status i \<noteq> PaymentIntentStatus.SUCCEEDED" using st by (auto simp: payment_terminal.simps)
  then show ?thesis
    using False put_transition_polled [OF inv i ns False, of env] polled_refl [OF inv, of env] by (simp add: follow_details_def)
qed

text \<open>The parts of \<open>_apply_details\<close> before the status: the intent stays the same payment and open.\<close>

definition still_open :: "'e deposit_env_scheme \<Rightarrow> 'x pay_db_scheme \<Rightarrow> payment_intent \<Rightarrow> 'x pay_db_scheme \<Rightarrow> payment_intent \<Rightarrow> bool" where
  "still_open env db i db' i' \<longleftrightarrow> polled env {pi_id i} db db' \<and> pay_inv db' \<and> i' \<in> set (payment_intents db') \<and>
     same_payment i i' \<and> pi_status i' = pi_status i"

lemma still_open_same:
  "pay_inv db \<Longrightarrow> i \<in> set (payment_intents db) \<Longrightarrow> still_open env db i db i"
  by (simp add: still_open_def polled_refl)

lemma still_open_put:
  assumes "pay_inv db" and "i \<in> set (payment_intents db)" and "pi_status i \<noteq> PaymentIntentStatus.SUCCEEDED"
    and "same_payment i i'" and "pi_status i' = pi_status i"
  shows "still_open env db i (put_intent i' db) i'"
  using put_polled(1) [OF assms(1,2,4,3), where env = env] put_polled(2,3) [OF assms(1,2,4,3)] assms by (simp add: still_open_def)

lemma adopt_payment_identity_cases:
  assumes inv: "pay_inv db" and i: "i \<in> set (payment_intents db)" and ns: "pi_status i \<noteq> PaymentIntentStatus.SUCCEEDED"
  obtains e where "adopt_payment_identity db i ds = (db, Inl e)"
  | db' i' where "adopt_payment_identity db i ds = (db', Inr i')" "still_open env db i db' i'"
      "pi_provider_payment_id i' = Some (ds_provider_payment_id ds)"
proof (cases "pi_provider_payment_id i = Some (ds_provider_payment_id ds)")
  case True
  then show thesis using that(2) [OF _ still_open_same [OF inv i]] by (simp add: adopt_payment_identity_def)
next
  case False
  let ?i = "i\<lparr>pi_provider_payment_id := Some (ds_provider_payment_id ds)\<rparr>"
  have "still_open env db i (put_intent ?i db) ?i"
    by (rule still_open_put [OF inv i ns]) (simp_all add: same_payment_def intent_key_def)
  then show thesis
    using that(1) that(2) [of "put_intent ?i db" ?i] False
    by (cases "pi_provider_payment_id i") (auto simp: adopt_payment_identity_def Let_def)
qed

lemma check_attributes_cases:
  assumes inv: "pay_inv db" and i: "i \<in> set (payment_intents db)" and ns: "pi_status i \<noteq> PaymentIntentStatus.SUCCEEDED"
  obtains e where "check_attributes env db i ds b = (db, Inl e)"
  | db' i' where "check_attributes env db i ds b = (db', Inr i')" "still_open env db i db' i'"
      "pi_provider_payment_id i' = pi_provider_payment_id i"
proof -
  have keep: "still_open env db i db i" using still_open_same [OF inv i] .
  have "check_attributes env db i ds b = (db, Inr i) \<or> (\<exists>e. check_attributes env db i ds b = (db, Inl e)) \<or>
      (\<exists>i'. store_provider_verification_attributes i (ds_verification_attributes ds) = Inr i' \<and>
         check_attributes env db i ds b = (put_intent i' db, Inr i'))"
    by (simp add: check_attributes_def lift_res_def split: sum.split)
  then consider "check_attributes env db i ds b = (db, Inr i)" | e where "check_attributes env db i ds b = (db, Inl e)"
    | i' where "store_provider_verification_attributes i (ds_verification_attributes ds) = Inr i'"
        "check_attributes env db i ds b = (put_intent i' db, Inr i')" by blast
  then show thesis
  proof cases
    case (3 i')
    obtain m where "i' = i\<lparr>pi_metadata_json := m\<rparr>"
    proof (cases "i' = i")
      case True
      then have "i' = i\<lparr>pi_metadata_json := pi_metadata_json i\<rparr>" by simp
      then show thesis by (rule that)
    qed (use 3(1) in \<open>auto simp: store_provider_verification_attributes_def res_bind_Inr_iff split: if_splits intro: that\<close>)
    then have "still_open env db i (put_intent i' db) i'" "pi_provider_payment_id i' = pi_provider_payment_id i"
      by (auto intro!: still_open_put [OF inv i ns] simp: same_payment_def intent_key_def)
    then show thesis using that(2) 3(2) by blast
  qed (use that keep in blast)+
qed

lemma apply_details_polled:
  assumes inv: "pay_inv db" and i: "i \<in> set (payment_intents db)" and st: "\<not> payment_terminal (pi_status i)"
    and p: "env_provider env (pi_tenant_id i) (pi_provider i) = Inr p"
    and asked: "Some (ds_provider_payment_id ds) = pi_provider_payment_id i \<Longrightarrow> get_payment p (ds_provider_payment_id ds) = Inr ds \<or>
      (\<exists>recover. recover_payment_creation p = Some recover \<and> recover (recovery_request i) = Inr ds)"
    and asked': "pi_provider_payment_id i = None \<Longrightarrow>
      \<exists>recover. recover_payment_creation p = Some recover \<and> recover (recovery_request i) = Inr ds"
  shows "polled env {pi_id i} db (fst (apply_details env db i ds b now))"
proof -
  have ns: "pi_status i \<noteq> PaymentIntentStatus.SUCCEEDED" using st by (auto simp: payment_terminal.simps)
  from adopt_payment_identity_cases [OF inv i ns, where env = env and ds = ds] show ?thesis
  proof cases
    case (2 db1 i1)
    have o1: "polled env {pi_id i} db db1" "pay_inv db1" "i1 \<in> set (payment_intents db1)" "same_payment i i1" "pi_status i1 = pi_status i"
      using 2(2) by (simp_all add: still_open_def)
    show ?thesis
    proof (cases "ds_amount ds \<noteq> pi_amount i1 \<or> ds_currency ds \<noteq> pi_currency i1")
      case True
      then show ?thesis using 2(1) o1(1) by (simp add: apply_details_def)
    next
      case eq: False
      have "pi_status i1 \<noteq> PaymentIntentStatus.SUCCEEDED" using ns o1(5) by simp
      from check_attributes_cases [OF o1(2,3) this, of env ds b] show ?thesis
      proof cases
        case 3: (2 db2 i2)
        have o2: "polled env {pi_id i1} db1 db2" "pay_inv db2" "i2 \<in> set (payment_intents db2)" "same_payment i1 i2" "pi_status i2 = pi_status i1"
          using 3(2) by (simp_all add: still_open_def)
        have same: "same_payment i i2" using same_payment_trans [OF o1(4) o2(4)] .
        have id: "pi_id i1 = pi_id i" "pi_id i2 = pi_id i" using o1(4) same by (simp_all add: same_payment_def)
        have "provider_confirms env (i2\<lparr>pi_status := PaymentIntentStatus.SUCCEEDED\<rparr>)" if "ds_status ds = PaymentIntentStatus.SUCCEEDED"
        proof -
          have "get_payment p (ds_provider_payment_id ds) = Inr ds \<or>
              (\<exists>recover. recover_payment_creation p = Some recover \<and> recover (recovery_request i) = Inr ds)"
            using asked asked' 2(1) by (auto simp: adopt_payment_identity_def split: if_splits)
          moreover have "recovery_request (i2\<lparr>pi_status := PaymentIntentStatus.SUCCEEDED\<rparr>) = recovery_request i"
            using same by (intro recovery_request_same) (simp add: same_payment_def intent_key_def)
          ultimately show ?thesis using that p same eq o1(4) 2(3) 3(3) by (auto simp: provider_confirms_def same_payment_def)
        qed
        moreover have "\<not> payment_terminal (pi_status i2)" using st o1(5) o2(5) by simp
        ultimately have "polled env {pi_id i} db2 (fst (follow_details db2 i2 ds now))"
          using follow_details_polled [OF o2(2,3)] id by metis
        then have "polled env {pi_id i} db (fst (follow_details db2 i2 ds now))"
          using o1(1) o2(1) id polled_again by metis
        then show ?thesis using 2(1) 3(1) eq by (simp add: apply_details_def)
      qed (use 2(1) eq o1(1) in \<open>auto simp: apply_details_def\<close>)
    qed
  qed (use polled_refl [OF inv, of env] in \<open>auto simp: apply_details_def\<close>)
qed

lemma recover_polled:
  assumes inv: "pay_inv db" and i: "i \<in> set (payment_intents db)" and st: "\<not> payment_terminal (pi_status i)"
    and no: "\<not> truthy (pi_provider_payment_id i)"
  shows "polled env {pi_id i} db (fst (recover_creation_ambiguity env db i now))"
proof -
  have ns: "pi_status i \<noteq> PaymentIntentStatus.SUCCEEDED" using st by (auto simp: payment_terminal.simps)
  have same: "polled env {pi_id i} db db" using inv by (rule polled_refl)
  let ?i = "i\<lparr>pi_metadata_json := recovered_metadata env i now\<rparr>"
  have so: "still_open env db i (put_intent ?i db) ?i"
    by (rule still_open_put [OF inv i ns]) (simp_all add: same_payment_def intent_key_def)
  have "polled env {pi_id i} db (fst (apply_details env (put_intent ?i db) ?i ds True now))"
    if p: "env_provider env (pi_tenant_id i) (pi_provider i) = Inr p" and r: "recover_payment_creation p = Some recover"
      "recover (recovery_request i) = Inr ds" "ds_provider_payment_id ds \<noteq> []" for p recover ds
  proof -
    have "recovery_request ?i = recovery_request i" by (simp add: recovery_request_def)
    then have "polled env {pi_id ?i} (put_intent ?i db) (fst (apply_details env (put_intent ?i db) ?i ds True now))"
      using so st p r no by (intro apply_details_polled [where p = p]) (auto simp: still_open_def)
    then show ?thesis using so polled_again [of env "{pi_id i}" db "put_intent ?i db"] by (simp add: still_open_def)
  qed
  then show ?thesis
    using same by (auto simp: recover_creation_ambiguity_def lift_res_def Let_def split: sum.split option.split)
qed

lemma reconcile_intent_polled:
  assumes inv: "pay_inv db" and i: "i \<in> set (payment_intents db)"
    and st: "pi_status i = PaymentIntentStatus.SUCCEEDED \<or> \<not> payment_terminal (pi_status i)"
  shows "polled env {pi_id i} db (fst (reconcile_intent env db n (pi_id i) now))"
proof (cases "pi_tenant_id i = n \<and> pi_status i \<noteq> PaymentIntentStatus.SUCCEEDED")
  case True
  then have st: "\<not> payment_terminal (pi_status i)" and ns: "pi_status i \<noteq> PaymentIntentStatus.SUCCEEDED" using st by auto
  have same: "polled env {pi_id i} db db" using inv by (rule polled_refl)
  have lookup: "polled env {pi_id i} db (fst (case get_payment p (the (pi_provider_payment_id i)) of
         Inl e \<Rightarrow>
           if provider_trouble e then
             if pi_status i \<noteq> PaymentIntentStatus.UNKNOWN
             then lift_res db (PaymentStateMachine_transition i PaymentIntentStatus.UNKNOWN)
                    (\<lambda>db i. (put_intent i db, Inr i))
             else (db, Inr i)
           else (db, Inl e)
       | Inr details \<Rightarrow> apply_details env db i details False now))"
    if p: "env_provider env n (pi_provider i) = Inr p" "truthy (pi_provider_payment_id i)" for p
  proof (cases "get_payment p (the (pi_provider_payment_id i))")
    case (Inl e)
    then show ?thesis using same put_transition_polled [OF inv i ns, of PaymentIntentStatus.UNKNOWN env] by simp
  next
    case (Inr ds)
    then have "polled env {pi_id i} db (fst (apply_details env db i ds False now))"
      using True p by (intro apply_details_polled [OF inv i st, where p = p]) (auto simp: truthy_def dest: sym)
    then show ?thesis using Inr by simp
  qed
  show ?thesis
  proof (cases "truthy (pi_provider_payment_id i)")
    case asked: True
    then show ?thesis
      using True same lookup
      by (cases "env_provider env n (pi_provider i)") (simp_all add: reconcile_intent_def get_payment_intent_row [OF inv i])
  qed (use True same recover_polled [OF inv i st, of env now] in
        \<open>simp add: reconcile_intent_def get_payment_intent_row [OF inv i]\<close>)
next
  case False
  then have "fst (reconcile_intent env db n (pi_id i) now) = db"
    by (auto simp: reconcile_intent_def get_payment_intent_row [OF inv i])
  then show ?thesis using polled_refl [OF inv] by metis
qed

section \<open>A batch\<close>

lemma due_intents_open:
  assumes inv: "pay_inv db"
  shows "set (due_intents env db n l x) \<subseteq> set (payment_intents db)" and "\<forall>i \<in> set (due_intents env db n l x). open_intent i"
    and "distinct (map pi_id (due_intents env db n l x))"
proof -
  define xs where "xs = filter (\<lambda>n. n \<noteq> []) (map (\<lambda>n. lower (strip n)) x)"
  define A where "A = filter (\<lambda>i. open_intent i \<and> pi_provider_payment_id i \<noteq> None \<and> intent_in_scope n xs i) (payment_intents db)"
  define B where "B = filter (\<lambda>i. pi_status i = PaymentIntentStatus.UNKNOWN \<and> pi_provider_payment_id i = None \<and> intent_in_scope n xs i)
    (payment_intents db)"
  have inj: "inj_on pi_id (set (payment_intents db))" and d: "distinct (payment_intents db)"
    using inv by (simp_all add: pay_inv_def pay_rows_def distinct_map)
  define L where "L = nat (max 1 (min l 200))"
  define is1 where "is1 = take L (oldest_first env A)"
  have "due_intents env db n l x = (if L - length is1 = 0 then is1
      else take L (is1 @ filter has_creation_ambiguity (take (min ((L - length is1) * 4) 200) (oldest_first env B))))"
    by (simp only: due_intents_def is1_def L_def A_def B_def xs_def Let_def)
  moreover have "is1 = take L (is1 @ filter has_creation_ambiguity (take 0 (oldest_first env B)))" by (simp add: is1_def)
  ultimately obtain k where due: "due_intents env db n l x = take L (is1 @ filter has_creation_ambiguity (take k (oldest_first env B)))"
    by metis
  have subs: "set is1 \<subseteq> set A" "set (take k (oldest_first env B)) \<subseteq> set B"
    using set_take_subset [of L "oldest_first env A"] set_take_subset [of k "oldest_first env B"]
    by (auto simp: oldest_first_def is1_def)
  have sub: "set (due_intents env db n l x) \<subseteq> set A \<union> set B"
    unfolding due using subs set_take_subset by fastforce
  then show "set (due_intents env db n l x) \<subseteq> set (payment_intents db)" by (auto simp: A_def B_def)
  show "\<forall>i \<in> set (due_intents env db n l x). open_intent i" using sub by (auto simp: A_def B_def open_intent_def)
  have "distinct is1" "distinct (take k (oldest_first env B))" "set A \<inter> set B = {}"
    using d by (auto simp: oldest_first_def A_def B_def is1_def)
  then have "distinct (is1 @ filter has_creation_ambiguity (take k (oldest_first env B)))" using subs by auto
  then have "distinct (due_intents env db n l x)" unfolding due by (rule distinct_take)
  then show "distinct (map pi_id (due_intents env db n l x))"
    using inj sub by (auto simp: distinct_map A_def B_def inj_on_def)
qed

lemma reconcile_each_polled:
  assumes "pay_inv db" and "set is \<subseteq> set (payment_intents db)" and "\<forall>i \<in> set is. open_intent i" and "distinct (map pi_id is)"
  shows "polled env (pi_id ` set is) db (fst (reconcile_each env db is now))"
  using assms
proof (induction "is" arbitrary: db)
  case (Cons i "is")
  obtain db1 r where r: "reconcile_intent env db (pi_tenant_id i) (pi_id i) now = (db1, r)" by force
  have "\<not> payment_terminal (pi_status i)" using Cons.prems(3) by (auto simp: open_intent_def payment_terminal.simps)
  then have p: "polled env {pi_id i} db db1"
    using reconcile_intent_polled [OF Cons.prems(1), of i env "pi_tenant_id i" now] Cons.prems(2) r by simp
  have "pi_id x \<noteq> pi_id i" if "x \<in> set is" for x using that Cons.prems(4) by (metis distinct.simps(2) image_eqI list.set_map list.simps(9))
  then have "pay_inv db1" "set is \<subseteq> set (payment_intents db1)" using p Cons.prems(2) unfolding polled_def by auto
  then have "polled env (pi_id ` set is) db1 (fst (reconcile_each env db1 is now))" using Cons.IH Cons.prems(3,4) by simp
  from polled_trans [OF p this] show ?case using r by (cases r) (auto split: prod.split)
qed (simp add: polled_refl)

section \<open>The properties\<close>

text \<open>C11: Polling settles what the providers confirm, and nothing else: a turn of the worker, whatever the
  providers answer or raise and although it commits what an intent had changed before its exception, keeps the
  books of all payments; every intent keeps its account, amount and order; one that succeeded in the turn was confirmed
  by its own provider with a success for exactly its amount and currency; and every wallet grows by the sum of
  the amounts of its intents that succeeded in the turn.\<close>

theorem polling_settles_confirmed:
  assumes "pay_inv db" and "provider_run_once env db batch_size now = (db', stats)"
  shows "pay_inv db' \<and>
    (\<forall>i' \<in> set (payment_intents db'). \<exists>i \<in> set (payment_intents db). same_payment i i' \<and>
       (pi_status i' = PaymentIntentStatus.SUCCEEDED \<longrightarrow> i' = i \<or> provider_confirms env i')) \<and>
    (\<forall>acc. balance_of db' acc = balance_of db acc + (paid_total db' acc - paid_total db acc))"
proof -
  let ?due = "due_intents env db None batch_size [''telegram_stars'']"
  have "db' = fst (reconcile_each env db ?due now)"
    using assms(2) by (auto simp: provider_run_once_def reconcile_pending_intents_def split: prod.splits)
  moreover have "polled env (pi_id ` set ?due) db (fst (reconcile_each env db ?due now))"
    using reconcile_each_polled [OF assms(1) due_intents_open [OF assms(1)]] .
  ultimately have p: "polled env (pi_id ` set ?due) db db'" by simp
  have "balance_of db' acc = balance_of db acc + (paid_total db' acc - paid_total db acc)" for acc
  proof -
    have "balance_of db' acc - paid_total db' acc = balance_of db acc - paid_total db acc"
      using p unfolding polled_def by blast
    then show ?thesis by (simp add: algebra_simps)
  qed
  then show ?thesis using p unfolding polled_def by blast
qed

definition recovering_provider :: payment_provider where
  "recovering_provider = sample_provider\<lparr>supports_creation_recovery := True,
     recover_payment_creation := Some (\<lambda>req. Inr \<lparr>ds_provider_payment_id = ''p9'', ds_status = PaymentIntentStatus.SUCCEEDED,
       ds_amount = cr_amount req, ds_currency = cr_currency req, ds_raw_data = [], ds_verification_attributes = []\<rparr>)\<rparr>"

definition sample_polling :: polling_env where
  "sample_polling = \<lparr>env_provider = (\<lambda>_ _. Inr recovering_provider), env_sha256 = id, env_str_decimal = (\<lambda>_. []), env_str_json = (\<lambda>_. []),
     env_message = (\<lambda>_. []), env_isoformat = (\<lambda>_. []), env_decimal = (\<lambda>_. None), env_get_secret = Inr,
     env_json_loads = (\<lambda>_. None), env_updated_at = pi_created_at, env_operations_stale_seconds = 900\<rparr>"

lemma sample_shop_polled:
  "case provider_run_once sample_polling sample_shop 50 9 of (db', stats) \<Rightarrow>
     rst_succeeded stats = 1 \<and> balance_of db' (7, 8, ''USD'') = 40 \<and> list_all (\<lambda>ord. o_status ord = OrderStatus.PAID) (orders db')"
  by code_simp

theorem polling_settles_confirmed_witness:
  "\<exists>db' stats. provider_run_once sample_polling sample_shop 50 9 = (db', stats) \<and> pay_inv db' \<and>
     balance_of db' (7, 8, ''USD'') = 40 \<and> paid_total db' (7, 8, ''USD'') = 40"
proof -
  obtain db' stats where r: "provider_run_once sample_polling sample_shop 50 9 = (db', stats)" by force
  have inv: "pay_inv sample_shop" using sample_shop_history by (rule pay_history_inv)
  have "balance_of db' (7, 8, ''USD'') = 40" using sample_shop_polled r by simp
  moreover have "balance_of sample_shop (7, 8, ''USD'') = 0" "paid_total sample_shop (7, 8, ''USD'') = 0"
    by (simp_all add: sample_shop_def empty_shop_def sample_intent_def balance_of_def paid_total_def)
  ultimately show ?thesis using r polling_settles_confirmed [OF inv r] by auto
qed

end
