(* ===== verification/Payment_Platform.thy ===== *)
theory Payment_Platform
  imports Payment_Reconciliation
begin

text \<open>
  \<open>PaymentPlatformService\<close> (\<open>packages/payments/platform.py\<close>) and the turn of the on-chain worker
  (\<open>packages/payments/onchain_reconciliation.py\<close>): the payment methods a tenant offers, quotes of an amount in an
  asset, and the evidence (observations) that customers submit for payments made outside the program. Chain
  verifiers are outside the program, records of functions like the payment adapters.

  The worker catches what verification raises and goes on in the same session, so each assignment to an
  observation is stored where the source makes it. Whether a \<open>datetime\<close> carries a time zone is a flag beside it.
\<close>

section \<open>Chain verifiers\<close>

record onchain_verification_result =
  ov_network :: str
  ov_tx_hash :: str
  ov_asset :: str
  ov_destination_address :: str
  ov_asset_amount :: decimal
  ov_confirmations :: int
  ov_is_final :: bool
  ov_succeeded :: bool
  ov_observed_at :: "timestamp option"
  ov_observed_at_aware :: bool

record onchain_verifier =
  verifier_name :: str
  verify_transaction :: "str \<Rightarrow> str \<Rightarrow> str option \<Rightarrow> str option \<Rightarrow> onchain_verification_result res"

type_synonym verifier_registry = "(str \<times> onchain_verifier) list"

definition register_verifier :: "verifier_registry \<Rightarrow> str \<Rightarrow> onchain_verifier \<Rightarrow> verifier_registry" where
  "register_verifier reg network verifier = AList.update (upper (strip network)) verifier reg"

definition get_verifier :: "verifier_registry \<Rightarrow> str \<Rightarrow> onchain_verifier res" where
  "get_verifier reg network =
     (case map_of reg (upper (strip network)) of None \<Rightarrow> Inl PaymentError | Some v \<Rightarrow> Inr v)"

definition has_verifier :: "verifier_registry \<Rightarrow> str \<Rightarrow> bool" where
  "has_verifier reg network \<longleftrightarrow> map_of reg (upper (strip network)) \<noteq> None"

definition registered_networks :: "verifier_registry \<Rightarrow> str list" where
  "registered_networks reg = sort (map fst reg)"

record platform_env = polling_env +
  env_verifiers :: verifier_registry
  env_dumps :: "dict \<Rightarrow> str"
  env_format_decimal :: "decimal \<Rightarrow> str"

section \<open>Normalisation\<close>

text \<open>\<open>(s or "").strip() or None\<close>\<close>

definition strip_or_none :: "str option \<Rightarrow> str option" where
  "strip_or_none s = (case s of None \<Rightarrow> None | Some x \<Rightarrow> if strip x = [] then None else Some (strip x))"

definition is_code_char :: "char \<Rightarrow> bool" where
  "is_code_char c \<longleftrightarrow> is_digit_char c \<or> is_alpha c \<and> lower_char c = c"

definition normalize_code :: "str \<Rightarrow> str res" where
  "normalize_code code =
     (case lower (strip code) of
        c # rest \<Rightarrow>
          if is_code_char c \<and> 1 \<le> length rest \<and> length rest \<le> 63 \<and>
             list_all (\<lambda>c. is_code_char c \<or> c \<in> {CHR ''_'', CHR ''-''}) rest
          then Inr (c # rest) else Inl PaymentError
      | [] \<Rightarrow> Inl PaymentError)"

definition normalize_identifier :: "nat \<Rightarrow> char set \<Rightarrow> str option \<Rightarrow> str option res" where
  "normalize_identifier width punctuation s =
     (case map_option upper (strip_or_none s) of
        None \<Rightarrow> Inr None
      | Some n \<Rightarrow>
          if width < length n \<or> \<not> list_all (\<lambda>c. is_digit_char c \<or> is_alpha c \<and> upper_char c = c \<or> c \<in> punctuation) n
          then Inl PaymentError else Inr (Some n))"

definition normalize_payment_asset :: "str option \<Rightarrow> str option res" where
  "normalize_payment_asset = normalize_identifier 24 {CHR ''.'', CHR ''_'', CHR ''-''}"

definition normalize_payment_network :: "str option \<Rightarrow> str option res" where
  "normalize_payment_network = normalize_identifier 64 {CHR ''.'', CHR ''_'', CHR '':'', CHR ''-''}"

definition is_hex_char :: "char \<Rightarrow> bool" where
  "is_hex_char c \<longleftrightarrow> is_digit_char c \<or> lower_char c \<in> set ''abcdef''"

definition normalize_onchain_reference :: "str \<Rightarrow> str" where
  "normalize_onchain_reference reference =
     (let n = strip reference; digits = (\<lambda>s. length s = 64 \<and> list_all is_hex_char s) in
      if starts_with ''0x'' n \<and> digits (drop 2 n) then lower n
      else if digits n then lower n
      else n)"

text \<open>\<open>_SECRET_KEY_RE\<close> and the walk over the settings.\<close>

definition secret_key :: "str \<Rightarrow> bool" where
  "secret_key key \<longleftrightarrow> list_ex (\<lambda>w. contains w (lower key))
     [''secret'', ''password'', ''privatekey'', ''private_key'', ''private-key'', ''apikey'', ''api_key'', ''api-key'',
      ''token'', ''seed'', ''mnemonic'']"

fun public_json :: "json \<Rightarrow> bool" and public_items :: "dict \<Rightarrow> bool" and public_list :: "json list \<Rightarrow> bool" where
  "public_json (JObj d) = public_items d"
| "public_json (JList xs) = public_list xs"
| "public_json _ = True"
| "public_items [] = True"
| "public_items ((k, v) # d) = (\<not> secret_key k \<and> public_json v \<and> public_items d)"
| "public_list [] = True"
| "public_list (x # xs) = (public_json x \<and> public_list xs)"

definition assert_public_settings :: "dict option \<Rightarrow> dict res" where
  "assert_public_settings settings =
     (let result = (case settings of None \<Rightarrow> [] | Some d \<Rightarrow> d) in
      if public_items result then Inr result else Inl PaymentIntegrityError)"

section \<open>Payment methods\<close>

definition validate_method_shape ::
  "PaymentMethodType \<Rightarrow> PaymentVerificationMode \<Rightarrow> str option \<Rightarrow> str option \<Rightarrow> str option \<Rightarrow> str option \<Rightarrow> bool \<Rightarrow> unit res" where
  "validate_method_shape method_type mode prov_name asset network destination_address requires_admin_approval =
     (let provider = strip_or_none prov_name; destination = strip_or_none destination_address in
      if method_type \<in> {REGULATED_PROVIDER, CRYPTO_GATEWAY} \<and>
         (provider = None \<or> mode \<notin> {PROVIDER_RECONCILIATION, HYBRID}) then Inl PaymentError
      else if mode \<in> {PaymentVerificationMode.ONCHAIN, HYBRID} \<and> (\<not> truthy asset \<or> \<not> truthy network \<or> destination = None)
      then Inl PaymentError
      else if method_type = SELF_CUSTODY \<and> mode \<notin> {PaymentVerificationMode.ONCHAIN, HYBRID} then Inl PaymentError
      else if method_type \<in> {MANUAL_TRANSFER, EXCHANGE_TRANSFER} \<and>
         (mode \<notin> {PaymentVerificationMode.MANUAL, HYBRID} \<or> \<not> requires_admin_approval) then Inl PaymentError
      else Inr ())"

definition credit_target :: "str \<Rightarrow> str res" where
  "credit_target target =
     (let t = upper (strip target) in if t \<in> {''ASSET_WALLET'', ''SETTLEMENT_WALLET''} then Inr t else Inl PaymentError)"

definition checked_display_name :: "str \<Rightarrow> str res" where
  "checked_display_name display_name =
     (let name = strip display_name in if name = [] \<or> 120 < length name then Inl PaymentError else Inr name)"

definition put_method :: "payment_method_config \<Rightarrow> 'x pay_db_scheme \<Rightarrow> 'x pay_db_scheme" where
  "put_method m db = db\<lparr>payment_methods := put_row pm_id m (payment_methods db)\<rparr>"

definition flush_method ::
  "'x pay_db_scheme \<Rightarrow> payment_method_config \<Rightarrow> ('x pay_db_scheme, payment_method_config) run" where
  "flush_method db m =
     (if violates (\<lambda>_. True) (\<lambda>m. (pm_tenant_id m, pm_code m)) (payment_methods db) m then (db, Inl IntegrityError)
      else (db\<lparr>payment_methods := payment_methods db @ [m], next_id := Suc (next_id db)\<rparr>, Inr m))"

text \<open>The arguments of \<open>create_method\<close>.\<close>

record method_request =
  mr_code :: str
  mr_display_name :: str
  mr_method_type :: PaymentMethodType
  mr_verification_mode :: PaymentVerificationMode
  mr_provider_name :: "str option"
  mr_asset :: "str option"
  mr_network :: "str option"
  mr_destination_address :: "str option"
  mr_destination_memo :: "str option"
  mr_instructions :: "str option"
  mr_is_enabled :: bool
  mr_requires_admin_approval :: bool
  mr_auto_credit_enabled :: bool
  mr_auto_credit_target :: str
  mr_settings :: "dict option"

definition create_method ::
  "'x pay_db_scheme \<Rightarrow> uuid \<Rightarrow> method_request \<Rightarrow> ('x pay_db_scheme, payment_method_config) run" where
  "create_method db tenant_id req =
     lift_res db (normalize_code (mr_code req)) (\<lambda>db code.
     lift_res db (normalize_payment_asset (mr_asset req)) (\<lambda>db asset.
     lift_res db (normalize_payment_network (mr_network req)) (\<lambda>db network.
     let provider = map_option lower (strip_or_none (mr_provider_name req));
         destination = strip_or_none (mr_destination_address req) in
     lift_res db (assert_public_settings (mr_settings req)) (\<lambda>db settings.
     lift_res db (validate_method_shape (mr_method_type req) (mr_verification_mode req) provider asset network destination
         (mr_requires_admin_approval req)) (\<lambda>db _.
     lift_res db (credit_target (if mr_auto_credit_target req = [] then ''ASSET_WALLET'' else mr_auto_credit_target req)) (\<lambda>db target.
     lift_res db (checked_display_name (mr_display_name req)) (\<lambda>db name.
     on_integrity_error (nested db (flush_method db
         \<lparr>pm_id = next_id db, pm_tenant_id = tenant_id, pm_code = code, pm_display_name = name,
          pm_method_type = mr_method_type req, pm_verification_mode = mr_verification_mode req, pm_provider_name = provider,
          pm_asset = asset, pm_network = network, pm_destination_address = destination,
          pm_destination_memo = strip_or_none (mr_destination_memo req), pm_instructions = strip_or_none (mr_instructions req),
          pm_is_enabled = mr_is_enabled req, pm_requires_admin_approval = mr_requires_admin_approval req,
          pm_auto_credit_enabled = mr_auto_credit_enabled req, pm_auto_credit_target = target, pm_settings_json = settings\<rparr>))
       (\<lambda>db. (db, Inl PaymentIntegrityError)))))))))"

definition get_method :: "'x pay_db_scheme \<Rightarrow> uuid \<Rightarrow> uuid \<Rightarrow> bool \<Rightarrow> payment_method_config res" where
  "get_method db tenant_id method_id enabled_only =
     res_bind (scalar_one_or_none (\<lambda>m. pm_id m = method_id \<and> pm_tenant_id m = tenant_id \<and> (enabled_only \<longrightarrow> pm_is_enabled m))
         (payment_methods db))
       (\<lambda>found. case found of None \<Rightarrow> Inl PaymentError | Some m \<Rightarrow> Inr m)"

definition list_methods :: "'x pay_db_scheme \<Rightarrow> uuid \<Rightarrow> bool \<Rightarrow> payment_method_config list" where
  "list_methods db tenant_id enabled_only =
     sort_key (\<lambda>m. (pm_display_name m, pm_id m))
       (filter (\<lambda>m. pm_tenant_id m = tenant_id \<and> (enabled_only \<longrightarrow> pm_is_enabled m)) (payment_methods db))"

text \<open>The arguments of \<open>update_method\<close>: what is not given stays.\<close>

record method_update =
  mu_display_name :: "str option"
  mu_provider_name :: "str option"
  mu_asset :: "str option"
  mu_network :: "str option"
  mu_destination_address :: "str option"
  mu_destination_memo :: "str option"
  mu_instructions :: "str option"
  mu_requires_admin_approval :: "bool option"
  mu_auto_credit_enabled :: "bool option"
  mu_auto_credit_target :: "str option"
  mu_settings :: "dict option"

definition given :: "'a option \<Rightarrow> 'b \<Rightarrow> ('a \<Rightarrow> 'b) \<Rightarrow> 'b" where
  "given v dflt f = (case v of None \<Rightarrow> dflt | Some x \<Rightarrow> f x)"

definition update_method ::
  "'x pay_db_scheme \<Rightarrow> uuid \<Rightarrow> uuid \<Rightarrow> method_update \<Rightarrow> ('x pay_db_scheme, payment_method_config) run" where
  "update_method db tenant_id method_id req =
     lift_res db (get_method db tenant_id method_id False) (\<lambda>db m.
     lift_res db (normalize_payment_asset (given (mu_asset req) (pm_asset m) Some)) (\<lambda>db asset.
     lift_res db (normalize_payment_network (given (mu_network req) (pm_network m) Some)) (\<lambda>db network.
     lift_res db (validate_method_shape (pm_method_type m) (pm_verification_mode m)
         (given (mu_provider_name req) (pm_provider_name m) Some) asset network
         (given (mu_destination_address req) (pm_destination_address m) Some)
         (given (mu_requires_admin_approval req) (pm_requires_admin_approval m) id)) (\<lambda>db _.
     lift_res db (given (mu_display_name req) (Inr (pm_display_name m)) checked_display_name) (\<lambda>db name.
     let m = m\<lparr>pm_display_name := name,
           pm_provider_name := given (mu_provider_name req) (pm_provider_name m) (\<lambda>s. map_option lower (strip_or_none (Some s))),
           pm_asset := given (mu_asset req) (pm_asset m) (\<lambda>_. asset),
           pm_network := given (mu_network req) (pm_network m) (\<lambda>_. network),
           pm_destination_address := given (mu_destination_address req) (pm_destination_address m) (\<lambda>s. strip_or_none (Some s)),
           pm_destination_memo := given (mu_destination_memo req) (pm_destination_memo m) (\<lambda>s. strip_or_none (Some s)),
           pm_instructions := given (mu_instructions req) (pm_instructions m) (\<lambda>s. strip_or_none (Some s)),
           pm_requires_admin_approval := given (mu_requires_admin_approval req) (pm_requires_admin_approval m) id,
           pm_auto_credit_enabled := given (mu_auto_credit_enabled req) (pm_auto_credit_enabled m) id\<rparr> in
     lift_res (put_method m db) (given (mu_auto_credit_target req) (Inr (pm_auto_credit_target m)) credit_target) (\<lambda>db target.
     let m = m\<lparr>pm_auto_credit_target := target\<rparr> in
     lift_res (put_method m db) (given (mu_settings req) (Inr (pm_settings_json m)) (\<lambda>s. assert_public_settings (Some s))) (\<lambda>db settings.
     let m = m\<lparr>pm_settings_json := settings\<rparr> in (put_method m db, Inr m))))))))"

definition set_method_enabled ::
  "'x pay_db_scheme \<Rightarrow> uuid \<Rightarrow> uuid \<Rightarrow> bool \<Rightarrow> ('x pay_db_scheme, payment_method_config) run" where
  "set_method_enabled db tenant_id method_id is_enabled =
     lift_res db (get_method db tenant_id method_id False) (\<lambda>db m.
       let m = m\<lparr>pm_is_enabled := is_enabled\<rparr> in (put_method m db, Inr m))"

section \<open>Top-ups through a method\<close>

definition normalize_topup_amount :: "decimal \<Rightarrow> str \<Rightarrow> (decimal \<times> str) res" where
  "normalize_topup_amount amount currency =
     (let c = upper (strip currency); a = quantize round_half_even 2 amount in
      if length c \<noteq> 3 \<or> \<not> isalpha c then Inl PaymentError
      else if a \<noteq> amount \<or> a \<le> 0 then Inl PaymentError
      else Inr (a, c))"

definition method_limit :: "'e pay_env_scheme \<Rightarrow> dict \<Rightarrow> str \<Rightarrow> str \<Rightarrow> decimal res" where
  "method_limit env settings key dflt =
     (case env_decimal env (py_str env (dict_get settings key (JStr dflt))) of
        None \<Rightarrow> Inl PaymentIntegrityError
      | Some x \<Rightarrow> Inr x)"

definition method_currencies :: "'e deposit_env_scheme \<Rightarrow> dict \<Rightarrow> str list res" where
  "method_currencies env settings =
     (let render = (\<lambda>vs. Inr (filter (\<lambda>s. s \<noteq> []) (map (\<lambda>s. upper (strip s)) vs))) in
      case dict_get settings ''topup_currencies'' (JList [JStr ''USD'']) of
        JList vs \<Rightarrow> render (map (py_str env) vs)
      | JStr s \<Rightarrow> render (map (\<lambda>c. [c]) s)
      | JObj d \<Rightarrow> render (map fst d)
      | _ \<Rightarrow> Inl TypeError)"

definition validate_topup_policy :: "'e pay_env_scheme \<Rightarrow> payment_method_config \<Rightarrow> decimal \<Rightarrow> str \<Rightarrow> unit res" where
  "validate_topup_policy env m amount currency =
     (let settings = pm_settings_json m in
      res_bind (method_limit env settings ''topup_min_amount'' ''1.00'') (\<lambda>min_amount.
      res_bind (method_limit env settings ''topup_max_amount'' ''1000.00'') (\<lambda>max_amount.
      if min_amount \<le> 0 \<or> max_amount < min_amount then Inl PaymentIntegrityError
      else res_bind (method_currencies env settings) (\<lambda>currencies.
        if currency \<notin> set currencies then Inl PaymentError
        else if amount < min_amount \<or> max_amount < amount then Inl PaymentError
        else Inr ()))))"

definition provider_backed :: "payment_method_config \<Rightarrow> bool" where
  "provider_backed m \<longleftrightarrow> pm_method_type m \<in> {REGULATED_PROVIDER, CRYPTO_GATEWAY}"

fun method_type_value :: "PaymentMethodType \<Rightarrow> str" where
  "method_type_value REGULATED_PROVIDER = ''REGULATED_PROVIDER''"
| "method_type_value CRYPTO_GATEWAY = ''CRYPTO_GATEWAY''"
| "method_type_value SELF_CUSTODY = ''SELF_CUSTODY''"
| "method_type_value MANUAL_TRANSFER = ''MANUAL_TRANSFER''"
| "method_type_value EXCHANGE_TRANSFER = ''EXCHANGE_TRANSFER''"

fun verification_mode_value :: "PaymentVerificationMode \<Rightarrow> str" where
  "verification_mode_value PROVIDER_RECONCILIATION = ''PROVIDER_RECONCILIATION''"
| "verification_mode_value PaymentVerificationMode.ONCHAIN = ''ONCHAIN''"
| "verification_mode_value PaymentVerificationMode.MANUAL = ''MANUAL''"
| "verification_mode_value HYBRID = ''HYBRID''"

definition local_topup :: "uuid \<Rightarrow> timestamp \<Rightarrow> uuid \<Rightarrow> uuid \<Rightarrow> payment_method_config \<Rightarrow> decimal \<Rightarrow> str \<Rightarrow> str \<Rightarrow> payment_intent" where
  "local_topup i now tenant_id user_id m amount currency idempotency_key =
     (new_intent i now tenant_id None WALLET_TOPUP user_id (Some (pm_id m)) (''method:'' @ pm_code m) currency amount idempotency_key
       [(''payment_instruction'', JObj [(''method_code'', JStr (pm_code m)), (''display_name'', JStr (pm_display_name m)),
          (''method_type'', JStr (method_type_value (pm_method_type m))),
          (''verification_mode'', JStr (verification_mode_value (pm_verification_mode m))), (''asset'', json_opt (pm_asset m)),
          (''network'', json_opt (pm_network m)), (''destination_address'', json_opt (pm_destination_address m)),
          (''destination_memo'', json_opt (pm_destination_memo m)), (''instructions'', json_opt (pm_instructions m))])])
     \<lparr>pi_status := PaymentIntentStatus.PENDING\<rparr>"

definition same_method_topup :: "payment_intent \<Rightarrow> uuid \<Rightarrow> uuid \<Rightarrow> decimal \<Rightarrow> str \<Rightarrow> bool" where
  "same_method_topup e user_id method_id amount currency \<longleftrightarrow>
     pi_purpose e = WALLET_TOPUP \<and> pi_user_id e = user_id \<and> pi_payment_method_id e = Some method_id \<and>
     pi_amount e = amount \<and> pi_currency e = currency"

definition create_local_topup_intent ::
  "'e pay_env_scheme \<Rightarrow> 'x pay_db_scheme \<Rightarrow> uuid \<Rightarrow> uuid \<Rightarrow> uuid \<Rightarrow> decimal \<Rightarrow> str \<Rightarrow> str \<Rightarrow> timestamp \<Rightarrow>
   ('x pay_db_scheme, payment_intent) run" where
  "create_local_topup_intent env db tenant_id user_id method_id amount currency idempotency_key now =
     (if idempotency_key = [] \<or> 100 < length idempotency_key then (db, Inl PaymentError)
      else
        lift_res db (get_method db tenant_id method_id True) (\<lambda>db m.
        if provider_backed m then (db, Inl PaymentError)
        else
          lift_res db (normalize_topup_amount amount currency) (\<lambda>db (amount, currency).
          lift_res db (validate_topup_policy env m amount currency) (\<lambda>db _.
          lift_res db (find_intent_by_key db tenant_id idempotency_key) (\<lambda>db existing.
          case existing of
            Some e \<Rightarrow> if same_method_topup e user_id (pm_id m) amount currency then (db, Inr e) else (db, Inl PaymentIntegrityError)
          | None \<Rightarrow>
              on_integrity_error (nested db (flush_intent db
                  (local_topup (next_id db) now tenant_id user_id m amount currency idempotency_key)))
                (\<lambda>db. lift_res db (find_intent_by_key db tenant_id idempotency_key) (\<lambda>db concurrent.
                  case concurrent of
                    Some e \<Rightarrow> if same_method_topup e user_id (pm_id m) amount currency then (db, Inr e)
                              else (db, Inl PaymentIntegrityError)
                  | None \<Rightarrow> (db, Inl PaymentIntegrityError))))))))"

definition create_topup_intent ::
  "'e pay_env_scheme \<Rightarrow> 'x pay_db_scheme \<Rightarrow> uuid \<Rightarrow> uuid \<Rightarrow> uuid \<Rightarrow> decimal \<Rightarrow> str \<Rightarrow> str \<Rightarrow> (str \<times> str) list \<Rightarrow> timestamp \<Rightarrow>
   ('x pay_db_scheme, payment_intent) run" where
  "create_topup_intent env db tenant_id user_id method_id amount currency idempotency_key provider_context now =
     lift_res db (get_method db tenant_id method_id True) (\<lambda>db m.
     lift_res db (normalize_topup_amount amount currency) (\<lambda>db (amount, currency).
     lift_res db (validate_topup_policy env m amount currency) (\<lambda>db _.
     if \<not> provider_backed m
     then create_local_topup_intent env db tenant_id user_id (pm_id m) amount currency idempotency_key now
     else case map_option lower (strip_or_none (pm_provider_name m)) of
       None \<Rightarrow> (db, Inl PaymentIntegrityError)
     | Some prov_name \<Rightarrow>
         let pay_currency = lower (strip (settings_str env (pm_settings_json m) ''provider_pay_currency'' []));
             metadata = [(''source'', JStr ''payment_method''), (''payment_method_code'', JStr (pm_code m))];
             metadata = (if pay_currency = [] then metadata else metadata @ [(''provider_pay_currency'', JStr pay_currency)])
         in create_wallet_topup_intent env db tenant_id user_id amount currency prov_name idempotency_key metadata None
              (Some (pm_id m)) provider_context now)))"

section \<open>Quotes\<close>

definition quote_fingerprint ::
  "'e platform_env_scheme \<Rightarrow> uuid \<Rightarrow> uuid \<Rightarrow> uuid \<Rightarrow> decimal \<Rightarrow> str \<Rightarrow> decimal \<Rightarrow> str \<Rightarrow> str \<Rightarrow> decimal \<Rightarrow> str \<Rightarrow> str option \<Rightarrow> timestamp \<Rightarrow> str" where
  "quote_fingerprint env tenant_id intent_id method_id settlement_amount settlement_currency asset_amount asset network rate rate_source
     quote_reference expires_at =
     env_sha256 env (env_dumps env
       [(''asset'', JStr asset), (''asset_amount'', JStr (env_format_decimal env asset_amount)),
        (''expires_at'', JStr (env_isoformat env expires_at)), (''intent_id'', JStr (str_uuid intent_id)),
        (''method_id'', JStr (str_uuid method_id)), (''network'', JStr network), (''quote_reference'', json_opt quote_reference),
        (''rate'', JStr (env_format_decimal env rate)), (''rate_source'', JStr rate_source),
        (''settlement_amount'', JStr (env_format_decimal env settlement_amount)), (''settlement_currency'', JStr settlement_currency),
        (''tenant_id'', JStr (str_uuid tenant_id))])"

record quote_request =
  qr_settlement_amount :: decimal
  qr_settlement_currency :: str
  qr_asset_amount :: decimal
  qr_asset :: str
  qr_network :: str
  qr_rate :: decimal
  qr_rate_source :: str
  qr_expires_at :: timestamp
  qr_expires_at_aware :: bool
  qr_quote_reference :: "str option"
  qr_metadata :: "dict option"

definition find_payment_quote :: "'x pay_db_scheme \<Rightarrow> uuid \<Rightarrow> str \<Rightarrow> payment_quote option res" where
  "find_payment_quote db tenant_id fingerprint =
     scalar_one_or_none (\<lambda>q. pq_tenant_id q = tenant_id \<and> pq_quote_fingerprint q = fingerprint) (payment_quotes db)"

definition flush_quote_row :: "'x pay_db_scheme \<Rightarrow> payment_quote \<Rightarrow> ('x pay_db_scheme, payment_quote) run" where
  "flush_quote_row db q =
     (if violates (\<lambda>_. True) (\<lambda>q. (pq_tenant_id q, pq_quote_fingerprint q)) (payment_quotes db) q then (db, Inl IntegrityError)
      else (db\<lparr>payment_quotes := payment_quotes db @ [q], next_id := Suc (next_id db)\<rparr>, Inr q))"

definition record_quote ::
  "'e platform_env_scheme \<Rightarrow> 'x pay_db_scheme \<Rightarrow> uuid \<Rightarrow> uuid \<Rightarrow> quote_request \<Rightarrow> timestamp \<Rightarrow> ('x pay_db_scheme, payment_quote) run" where
  "record_quote env db tenant_id intent_id req now =
     lift_res db (get_payment_intent db tenant_id intent_id) (\<lambda>db intent.
     case pi_payment_method_id intent of
       None \<Rightarrow> (db, Inl PaymentError)
     | Some method_id \<Rightarrow>
         lift_res db (get_method db tenant_id method_id False) (\<lambda>db m.
         let currency = upper (strip (qr_settlement_currency req)) in
         lift_res db (normalize_payment_asset (Some (qr_asset req))) (\<lambda>db asset.
         lift_res db (normalize_payment_network (Some (qr_network req))) (\<lambda>db network.
         if qr_settlement_amount req \<noteq> pi_amount intent \<or> currency \<noteq> pi_currency intent then (db, Inl PaymentIntegrityError)
         else
           lift_res db (normalize_payment_asset (pm_asset m)) (\<lambda>db method_asset.
           if asset \<noteq> method_asset then (db, Inl PaymentIntegrityError)
           else
             lift_res db (normalize_payment_network (pm_network m)) (\<lambda>db method_network.
             if network \<noteq> method_network then (db, Inl PaymentIntegrityError)
             else if qr_asset_amount req \<le> 0 \<or> qr_rate req \<le> 0 then (db, Inl PaymentError)
             else if \<not> qr_expires_at_aware req then (db, Inl PaymentError)
             else if qr_expires_at req \<le> now then (db, Inl PaymentError)
             else
               let source = strip (qr_rate_source req) in
               if source = [] \<or> 100 < length source then (db, Inl PaymentError)
               else
                 let asset' = (case asset of None \<Rightarrow> [] | Some a \<Rightarrow> a); network' = (case network of None \<Rightarrow> [] | Some n \<Rightarrow> n);
                     reference = strip_or_none (qr_quote_reference req);
                     fingerprint = quote_fingerprint env tenant_id (pi_id intent) (pm_id m) (qr_settlement_amount req) currency
                       (qr_asset_amount req) asset' network' (qr_rate req) source reference (qr_expires_at req)
                 in lift_res db (find_payment_quote db tenant_id fingerprint) (\<lambda>db existing.
                    case existing of
                      Some q \<Rightarrow> (db, Inr q)
                    | None \<Rightarrow>
                        lift_res db (assert_public_settings (qr_metadata req)) (\<lambda>db metadata.
                        on_integrity_error (nested db (flush_quote_row db
                            \<lparr>pq_id = next_id db, pq_created_at = now, pq_tenant_id = tenant_id, pq_payment_intent_id = pi_id intent,
                             pq_payment_method_id = pm_id m, pq_settlement_amount = qr_settlement_amount req,
                             pq_settlement_currency = currency, pq_asset_amount = qr_asset_amount req, pq_asset = asset',
                             pq_network = network', pq_rate = qr_rate req, pq_rate_source = source, pq_quote_reference = reference,
                             pq_quote_fingerprint = fingerprint, pq_expires_at = qr_expires_at req, pq_metadata_json = metadata\<rparr>))
                          (\<lambda>db. lift_res db (find_payment_quote db tenant_id fingerprint) (\<lambda>db existing.
                             case existing of Some q \<Rightarrow> (db, Inr q) | None \<Rightarrow> (db, Inl IntegrityError)))))))))))"

definition latest_live_quote :: "'x pay_db_scheme \<Rightarrow> uuid \<Rightarrow> uuid \<Rightarrow> timestamp \<Rightarrow> payment_quote option" where
  "latest_live_quote db tenant_id intent_id now =
     (case rev (sort_key (\<lambda>q. (pq_created_at q, pq_id q))
        (filter (\<lambda>q. pq_tenant_id q = tenant_id \<and> pq_payment_intent_id q = intent_id \<and> now \<le> pq_expires_at q) (payment_quotes db))) of
        [] \<Rightarrow> None | q # _ \<Rightarrow> Some q)"

section \<open>Evidence\<close>

fun source_value :: "PaymentObservationSource \<Rightarrow> str" where
  "source_value PROVIDER = ''PROVIDER''"
| "source_value PaymentObservationSource.ONCHAIN = ''ONCHAIN''"
| "source_value PaymentObservationSource.MANUAL = ''MANUAL''"
| "source_value EXCHANGE = ''EXCHANGE''"

definition evidence_fingerprint ::
  "'e platform_env_scheme \<Rightarrow> uuid \<Rightarrow> uuid \<Rightarrow> uuid \<Rightarrow> PaymentObservationSource \<Rightarrow> str option \<Rightarrow> str option \<Rightarrow> str option \<Rightarrow>
   str option \<Rightarrow> decimal option \<Rightarrow> str" where
  "evidence_fingerprint env tenant_id intent_id method_id source external_reference asset network destination_address asset_amount =
     env_sha256 env (env_dumps env
       [(''asset'', json_opt asset), (''asset_amount'', json_opt (map_option (env_format_decimal env) asset_amount)),
        (''destination_address'', JStr (case strip_or_none destination_address of None \<Rightarrow> [] | Some d \<Rightarrow> d)),
        (''external_reference'', JStr (case strip_or_none external_reference of None \<Rightarrow> [] | Some r \<Rightarrow> r)),
        (''intent_id'', JStr (str_uuid intent_id)), (''method_id'', JStr (str_uuid method_id)), (''network'', json_opt network),
        (''source'', JStr (source_value source)), (''tenant_id'', JStr (str_uuid tenant_id))])"

definition find_evidence :: "'x pay_db_scheme \<Rightarrow> uuid \<Rightarrow> str \<Rightarrow> payment_observation option res" where
  "find_evidence db tenant_id fingerprint =
     scalar_one_or_none (\<lambda>ob. po_tenant_id ob = tenant_id \<and> po_evidence_fingerprint ob = fingerprint) (payment_observations db)"

text \<open>The two unique indexes: the fingerprint within a tenant, and the chain reference across all tenants.\<close>

definition chain_evidence :: "payment_observation \<Rightarrow> bool" where
  "chain_evidence ob \<longleftrightarrow> po_source ob = PaymentObservationSource.ONCHAIN \<and> po_network ob \<noteq> None \<and> po_external_reference ob \<noteq> None"

definition flush_observation ::
  "'x pay_db_scheme \<Rightarrow> payment_observation \<Rightarrow> ('x pay_db_scheme, payment_observation) run" where
  "flush_observation db ob =
     (if violates (\<lambda>_. True) (\<lambda>ob. (po_tenant_id ob, po_evidence_fingerprint ob)) (payment_observations db) ob \<or>
         violates chain_evidence (\<lambda>ob. (po_network ob, po_external_reference ob)) (payment_observations db) ob
      then (db, Inl IntegrityError)
      else (db\<lparr>payment_observations := payment_observations db @ [ob], next_id := Suc (next_id db)\<rparr>, Inr ob))"

definition put_observation :: "payment_observation \<Rightarrow> 'x pay_db_scheme \<Rightarrow> 'x pay_db_scheme" where
  "put_observation ob db = db\<lparr>payment_observations := put_row po_id ob (payment_observations db)\<rparr>"

definition accepts_source :: "payment_method_config \<Rightarrow> PaymentObservationSource \<Rightarrow> str option \<Rightarrow> unit res" where
  "accepts_source m source external_reference =
     (case source of
        PaymentObservationSource.ONCHAIN \<Rightarrow>
          if pm_verification_mode m \<notin> {PaymentVerificationMode.ONCHAIN, HYBRID} then Inl PaymentError
          else if strip_or_none external_reference = None then Inl PaymentError else Inr ()
      | PROVIDER \<Rightarrow> Inl PaymentError
      | _ \<Rightarrow> if pm_verification_mode m \<notin> {PaymentVerificationMode.MANUAL, HYBRID} then Inl PaymentError else Inr ())"

definition new_observation ::
  "uuid \<Rightarrow> timestamp \<Rightarrow> uuid \<Rightarrow> uuid \<Rightarrow> payment_method_config \<Rightarrow> payment_quote option \<Rightarrow> PaymentObservationSource \<Rightarrow> str option \<Rightarrow>
   str option \<Rightarrow> str option \<Rightarrow> decimal option \<Rightarrow> str \<Rightarrow> dict \<Rightarrow> payment_observation" where
  "new_observation i now tenant_id intent_id m quote source ref asset network asset_amount fingerprint details =
     \<lparr>po_id = i, po_created_at = now, po_tenant_id = tenant_id, po_payment_intent_id = intent_id,
      po_payment_method_id = pm_id m, po_payment_quote_id = map_option pq_id quote, po_source = source,
      po_status = (if source = PaymentObservationSource.ONCHAIN then PENDING_VERIFICATION else PaymentObservationStatus.MANUAL_REVIEW),
      po_assurance_level = None, po_external_reference = ref, po_asset = asset, po_network = network,
      po_destination_address = pm_destination_address m, po_asset_amount = asset_amount,
      po_settlement_amount = None, po_settlement_currency = None, po_confirmations = None, po_is_final = False,
      po_evidence_fingerprint = fingerprint, po_observed_at = Some now, po_verified_at = None,
      po_verified_by_user_id = None, po_rejection_reason = None, po_details_json = details\<rparr>"

definition submit_observation ::
  "'e platform_env_scheme \<Rightarrow> 'x pay_db_scheme \<Rightarrow> uuid \<Rightarrow> uuid \<Rightarrow> uuid \<Rightarrow> PaymentObservationSource \<Rightarrow> str option \<Rightarrow> decimal option \<Rightarrow>
   dict option \<Rightarrow> timestamp \<Rightarrow> ('x pay_db_scheme, payment_observation) run" where
  "submit_observation env db tenant_id user_id intent_id source external_reference asset_amount details now =
     lift_res db (get_payment_intent db tenant_id intent_id) (\<lambda>db intent.
     if pi_user_id intent \<noteq> user_id \<or> pi_purpose intent \<noteq> WALLET_TOPUP then (db, Inl PaymentError)
     else case pi_payment_method_id intent of
       None \<Rightarrow> (db, Inl PaymentError)
     | Some method_id \<Rightarrow>
         if pi_status intent \<in> {PaymentIntentStatus.FAILED, PaymentIntentStatus.EXPIRED, PaymentIntentStatus.CANCELLED}
         then (db, Inl PaymentError)
         else
           lift_res db (get_method db tenant_id method_id False) (\<lambda>db m.
           lift_res db (accepts_source m source external_reference) (\<lambda>db _.
           if (case asset_amount of None \<Rightarrow> False | Some a \<Rightarrow> a \<le> 0) then (db, Inl PaymentError)
           else
             lift_res db (normalize_payment_asset (pm_asset m)) (\<lambda>db asset.
             lift_res db (normalize_payment_network (pm_network m)) (\<lambda>db network.
             let ref = strip_or_none external_reference;
                 ref = (if source = PaymentObservationSource.ONCHAIN then map_option normalize_onchain_reference ref else ref);
                 fingerprint = evidence_fingerprint env tenant_id (pi_id intent) (pm_id m) source ref asset network
                   (pm_destination_address m) asset_amount
             in lift_res db (find_evidence db tenant_id fingerprint) (\<lambda>db existing.
                case existing of
                  Some ob \<Rightarrow> if po_payment_intent_id ob \<noteq> pi_id intent then (db, Inl PaymentIntegrityError) else (db, Inr ob)
                | None \<Rightarrow>
                    lift_res db (assert_public_settings details) (\<lambda>db details.
                    let quote = (if source = PaymentObservationSource.ONCHAIN then latest_live_quote db tenant_id (pi_id intent) now else None)
                    in on_integrity_error (nested db (flush_observation db
                         (new_observation (next_id db) now tenant_id (pi_id intent) m quote source ref asset network asset_amount fingerprint
                            details)))
                       (\<lambda>db. lift_res db (find_evidence db tenant_id fingerprint) (\<lambda>db existing.
                          case existing of Some ob \<Rightarrow> (db, Inr ob) | None \<Rightarrow> (db, Inl PaymentIntegrityError))))))))))"

definition get_observation :: "'x pay_db_scheme \<Rightarrow> uuid \<Rightarrow> uuid \<Rightarrow> payment_observation res" where
  "get_observation db tenant_id observation_id =
     res_bind (scalar_one_or_none (\<lambda>ob. po_id ob = observation_id \<and> po_tenant_id ob = tenant_id) (payment_observations db))
       (\<lambda>found. case found of None \<Rightarrow> Inl PaymentError | Some ob \<Rightarrow> Inr ob)"

section \<open>Decisions\<close>

definition approve_manual_observation ::
  "'x pay_db_scheme \<Rightarrow> uuid \<Rightarrow> uuid \<Rightarrow> uuid \<Rightarrow> decimal option \<Rightarrow> str option \<Rightarrow> timestamp \<Rightarrow>
   ('x pay_db_scheme, payment_observation) run" where
  "approve_manual_observation db tenant_id observation_id actor_user_id approved_amount approved_currency now =
     lift_res db (get_observation db tenant_id observation_id) (\<lambda>db ob.
     if po_status ob = VERIFIED then
       and_then (settle_payment_intent db tenant_id (po_payment_intent_id ob) (po_settlement_amount ob) (po_settlement_currency ob) now)
         (\<lambda>db _. (db, Inr ob))
     else if po_status ob = REJECTED then (db, Inl PaymentIntegrityError)
     else if po_source ob \<notin> {PaymentObservationSource.MANUAL, EXCHANGE, PaymentObservationSource.ONCHAIN}
     then (db, Inl PaymentIntegrityError)
     else
       lift_res db (get_payment_intent db tenant_id (po_payment_intent_id ob)) (\<lambda>db intent.
       let amount = (case approved_amount of None \<Rightarrow> pi_amount intent | Some a \<Rightarrow> a);
           currency = upper (strip (if truthy approved_currency then the approved_currency else pi_currency intent))
       in if amount \<noteq> pi_amount intent \<or> currency \<noteq> pi_currency intent then (db, Inl PaymentIntegrityError)
       else
         let ob = ob\<lparr>po_settlement_amount := Some (pi_amount intent), po_settlement_currency := Some (pi_currency intent),
               po_assurance_level := Some MANUAL_APPROVED, po_status := VERIFIED, po_is_final := True, po_verified_at := Some now,
               po_verified_by_user_id := Some actor_user_id, po_rejection_reason := None\<rparr>
         in and_then (settle_payment_intent (put_observation ob db) tenant_id (pi_id intent) (Some (pi_amount intent))
              (Some (pi_currency intent)) now) (\<lambda>db _. (db, Inr ob))))"

definition reject_observation ::
  "'x pay_db_scheme \<Rightarrow> uuid \<Rightarrow> uuid \<Rightarrow> uuid \<Rightarrow> str \<Rightarrow> timestamp \<Rightarrow> ('x pay_db_scheme, payment_observation) run" where
  "reject_observation db tenant_id observation_id actor_user_id reason now =
     lift_res db (get_observation db tenant_id observation_id) (\<lambda>db ob.
     if po_status ob = VERIFIED then (db, Inl PaymentIntegrityError)
     else if po_status ob = REJECTED then (db, Inr ob)
     else
       let reason = strip reason in
       if reason = [] \<or> 500 < length reason then (db, Inl PaymentError)
       else
         let ob = ob\<lparr>po_status := REJECTED, po_rejection_reason := Some reason, po_verified_by_user_id := Some actor_user_id,
               po_verified_at := Some now, po_is_final := True\<rparr>
         in (put_observation ob db, Inr ob))"

text \<open>What the verifier's answer changes in the observation before anything is decided.\<close>

definition observed :: "payment_observation \<Rightarrow> onchain_verifier \<Rightarrow> onchain_verification_result \<Rightarrow> timestamp \<Rightarrow> payment_observation" where
  "observed ob verifier result now =
     ob\<lparr>po_asset_amount := Some (ov_asset_amount result), po_confirmations := Some (max 0 (ov_confirmations result)),
        po_is_final := ov_is_final result,
        po_observed_at := Some (case ov_observed_at result of None \<Rightarrow> now | Some t \<Rightarrow> t),
        po_details_json := dict_set (dict_set (po_details_json ob) ''verifier'' (JStr (verifier_name verifier)))
          ''verification_summary'' (JObj [(''network'', JStr (ov_network result)), (''asset'', JStr (ov_asset result)),
             (''confirmations'', JNum (of_int (ov_confirmations result))), (''is_final'', JBool (ov_is_final result)),
             (''succeeded'', JBool (ov_succeeded result))])\<rparr>"

definition chain_failure :: "payment_observation \<Rightarrow> onchain_verification_result \<Rightarrow> timestamp \<Rightarrow> payment_observation" where
  "chain_failure ob result now =
     ob\<lparr>po_status := REJECTED, po_rejection_reason := Some ''Authoritative chain verifier reports transaction failure.'',
        po_is_final := ov_is_final result, po_confirmations := Some (max 0 (ov_confirmations result)),
        po_observed_at := Some (case ov_observed_at result of None \<Rightarrow> now | Some t \<Rightarrow> t)\<rparr>"

definition answer_matches ::
  "payment_observation \<Rightarrow> payment_method_config \<Rightarrow> onchain_verification_result \<Rightarrow> unit res" where
  "answer_matches ob m result =
     res_bind (normalize_payment_network (pm_network m)) (\<lambda>expected_network.
     res_bind (normalize_payment_asset (pm_asset m)) (\<lambda>expected_asset.
     res_bind (normalize_payment_network (Some (ov_network result))) (\<lambda>network.
     if network \<noteq> expected_network then Inl PaymentIntegrityError
     else res_bind (normalize_payment_asset (Some (ov_asset result))) (\<lambda>asset.
       if asset \<noteq> expected_asset then Inl PaymentIntegrityError
       else if lower (strip (ov_tx_hash result)) \<noteq> lower (strip (the (po_external_reference ob))) then Inl PaymentIntegrityError
       else if strip (case pm_destination_address m of None \<Rightarrow> [] | Some d \<Rightarrow> d) \<noteq> strip (ov_destination_address result)
       then Inl PaymentIntegrityError
       else Inr ()))))"

definition to_review :: "payment_observation \<Rightarrow> payment_observation" where
  "to_review ob = ob\<lparr>po_status := PaymentObservationStatus.MANUAL_REVIEW, po_assurance_level := Some ONCHAIN_VERIFIED\<rparr>"

definition quote_covers ::
  "payment_quote \<Rightarrow> payment_intent \<Rightarrow> payment_method_config \<Rightarrow> onchain_verification_result \<Rightarrow> bool res" where
  "quote_covers q intent m result =
     (if pq_payment_intent_id q \<noteq> pi_id intent \<or> pq_payment_method_id q \<noteq> pm_id m \<or>
         pq_settlement_amount q \<noteq> pi_amount intent \<or> pq_settlement_currency q \<noteq> pi_currency intent then Inr False
      else
        res_bind (normalize_payment_asset (Some (pq_asset q))) (\<lambda>asset.
        res_bind (normalize_payment_asset (pm_asset m)) (\<lambda>expected_asset.
        if asset \<noteq> expected_asset then Inr False
        else
          res_bind (normalize_payment_network (Some (pq_network q))) (\<lambda>network.
          res_bind (normalize_payment_network (pm_network m)) (\<lambda>expected_network.
            Inr (network = expected_network \<and> ov_asset_amount result = pq_asset_amount q))))))"

definition settle_by_quote ::
  "'x pay_db_scheme \<Rightarrow> uuid \<Rightarrow> payment_observation \<Rightarrow> payment_method_config \<Rightarrow> onchain_verification_result \<Rightarrow> timestamp \<Rightarrow>
   ('x pay_db_scheme, payment_observation) run" where
  "settle_by_quote db tenant_id ob m result now =
     lift_res db (get_payment_intent db tenant_id (po_payment_intent_id ob)) (\<lambda>db intent.
     case (case po_payment_quote_id ob of None \<Rightarrow> None | Some k \<Rightarrow> first_row (\<lambda>q. pq_id q = k) (payment_quotes db)) of
       None \<Rightarrow> (put_observation (to_review ob) db, Inr (to_review ob))
     | Some q \<Rightarrow>
         if pq_tenant_id q \<noteq> tenant_id then (db, Inl PaymentIntegrityError)
         else if ov_observed_at result \<noteq> None \<and> \<not> ov_observed_at_aware result then (db, Inl PaymentIntegrityError)
         else if pq_expires_at q < (case ov_observed_at result of None \<Rightarrow> now | Some t \<Rightarrow> t) then
           let ob = (to_review ob)\<lparr>po_rejection_reason :=
             Some ''Transaction occurred after the authoritative payment quote expired.''\<rparr>
           in (put_observation ob db, Inr ob)
         else
           lift_res db (quote_covers q intent m result) (\<lambda>db covers.
           if \<not> covers then
             let ob = (to_review ob)\<lparr>po_settlement_amount := Some (pq_settlement_amount q),
                   po_settlement_currency := Some (pq_settlement_currency q),
                   po_rejection_reason := Some ''Verified chain payment does not exactly match the authoritative quote.''\<rparr>
             in (put_observation ob db, Inr ob)
           else
             let ob = ob\<lparr>po_status := VERIFIED, po_assurance_level := Some ONCHAIN_VERIFIED,
                   po_settlement_amount := Some (pq_settlement_amount q), po_settlement_currency := Some (pq_settlement_currency q),
                   po_verified_at := Some now\<rparr>
             in and_then (settle_payment_intent (put_observation ob db) tenant_id (pi_id intent) (Some (pq_settlement_amount q))
                  (Some (pq_settlement_currency q)) now) (\<lambda>db _. (db, Inr ob))))"

definition verify_onchain_observation ::
  "'e platform_env_scheme \<Rightarrow> 'x pay_db_scheme \<Rightarrow> uuid \<Rightarrow> uuid \<Rightarrow> timestamp \<Rightarrow> ('x pay_db_scheme, payment_observation) run" where
  "verify_onchain_observation env db tenant_id observation_id now =
     lift_res db (get_observation db tenant_id observation_id) (\<lambda>db ob.
     if po_source ob \<noteq> PaymentObservationSource.ONCHAIN then (db, Inl PaymentError)
     else if po_status ob = VERIFIED then (db, Inr ob)
     else if po_status ob = REJECTED then (db, Inl PaymentIntegrityError)
     else
       lift_res db (get_method db tenant_id (po_payment_method_id ob) False) (\<lambda>db m.
       if \<not> truthy (po_external_reference ob) \<or> \<not> truthy (pm_network m) then (db, Inl PaymentIntegrityError)
       else
         lift_res db (get_verifier (env_verifiers env) (the (pm_network m))) (\<lambda>db verifier.
         lift_res db (verify_transaction verifier (the (pm_network m)) (the (po_external_reference ob)) (pm_asset m)
             (pm_destination_address m)) (\<lambda>db result.
         lift_res db (answer_matches ob m result) (\<lambda>db _.
         if \<not> ov_succeeded result
         then (put_observation (chain_failure ob result now) db, Inr (chain_failure ob result now))
         else
           let ob = observed ob verifier result now in
           if \<not> ov_is_final result
           then let ob = ob\<lparr>po_status := PENDING_VERIFICATION\<rparr> in (put_observation ob db, Inr ob)
           else settle_by_quote (put_observation ob db) tenant_id ob m result now)))))"

section \<open>The on-chain worker's turn\<close>

record onchain_stats =
  os_scanned :: nat
  os_verified :: nat
  os_review :: nat
  os_pending :: nat
  os_errors :: nat

text \<open>\<open>except (PaymentError, PaymentIntegrityError)\<close>, subclasses included.\<close>

definition payment_error :: "error \<Rightarrow> bool" where
  "payment_error e \<longleftrightarrow>
     e \<in> {PaymentError, PaymentIntentNotFoundError, PaymentIntegrityError, OnChainVerificationPending, PaymentProviderError,
          PaymentProviderTransportError, UnsupportedProviderCapabilityError, WebhookVerificationError}"

definition method_of :: "'x pay_db_scheme \<Rightarrow> payment_observation \<Rightarrow> payment_method_config option" where
  "method_of db ob = first_row (\<lambda>m. pm_id m = po_payment_method_id ob) (payment_methods db)"

definition pending_evidence :: "'e platform_env_scheme \<Rightarrow> 'x pay_db_scheme \<Rightarrow> nat \<Rightarrow> payment_observation list" where
  "pending_evidence env db batch_size =
     take batch_size (sort_key (\<lambda>ob. (po_created_at ob, po_id ob)) (filter (\<lambda>ob.
       po_source ob = PaymentObservationSource.ONCHAIN \<and> po_status ob = PENDING_VERIFICATION \<and>
       (case method_of db ob of None \<Rightarrow> False
        | Some m \<Rightarrow> pm_is_enabled m \<and> (case pm_network m of None \<Rightarrow> False | Some n \<Rightarrow> n \<in> set (registered_networks (env_verifiers env)))))
       (payment_observations db)))"

fun verify_each ::
  "'e platform_env_scheme \<Rightarrow> 'x pay_db_scheme \<Rightarrow> payment_observation list \<Rightarrow> onchain_stats \<Rightarrow> timestamp \<Rightarrow>
   ('x pay_db_scheme, onchain_stats) run" where
  "verify_each env db [] stats now = (db, Inr stats)"
| "verify_each env db (ob # obs) stats now =
     (let stats = stats\<lparr>os_scanned := Suc (os_scanned stats)\<rparr> in
      case verify_onchain_observation env db (po_tenant_id ob) (po_id ob) now of
        (db, Inr ob') \<Rightarrow>
          verify_each env db obs
            (if po_status ob' = VERIFIED then stats\<lparr>os_verified := Suc (os_verified stats)\<rparr>
             else if po_status ob' = PaymentObservationStatus.MANUAL_REVIEW then stats\<lparr>os_review := Suc (os_review stats)\<rparr>
             else stats\<lparr>os_pending := Suc (os_pending stats)\<rparr>) now
      | (db, Inl e) \<Rightarrow>
          if e = OnChainVerificationPending then verify_each env db obs (stats\<lparr>os_pending := Suc (os_pending stats)\<rparr>) now
          else if payment_error e then verify_each env db obs (stats\<lparr>os_errors := Suc (os_errors stats)\<rparr>) now
          else (db, Inl e))"

definition onchain_run_once ::
  "'e platform_env_scheme \<Rightarrow> 'x pay_db_scheme \<Rightarrow> nat \<Rightarrow> timestamp \<Rightarrow> ('x pay_db_scheme, onchain_stats) run" where
  "onchain_run_once env db batch_size now =
     (let stats = \<lparr>os_scanned = 0, os_verified = 0, os_review = 0, os_pending = 0, os_errors = 0\<rparr> in
      if registered_networks (env_verifiers env) = [] then (db, Inr stats)
      else verify_each env db (pending_evidence env db batch_size) stats now)"

text \<open>An iteration of the loop: commit, or log the exception and drop the session.\<close>

definition onchain_iteration :: "'e platform_env_scheme \<Rightarrow> 'x pay_db_scheme \<Rightarrow> nat \<Rightarrow> timestamp \<Rightarrow> 'x pay_db_scheme" where
  "onchain_iteration env db batch_size now = fst (get_db_session (\<lambda>db. onchain_run_once env db batch_size now) db)"

end
