(* ===== verification/Platform_Properties.thy ===== *)
theory Platform_Properties
  imports Payment_Platform
begin

text \<open>
  What the evidence of payments is worth. \<open>evidence_inv\<close> ties the observations to the intents: verified evidence
  belongs to an intent that succeeded for exactly the amount of the evidence, and no chain transaction is used twice.
  \<open>evidence_history\<close> are the stores that the requests of the platform service, turns of its worker and other requests
  produce in any order.
\<close>

section \<open>Frames\<close>

lemma put_observation_frame [simp]:
  "wallets (put_observation ob db) = wallets db" "ledger (put_observation ob db) = ledger db" "holds (put_observation ob db) = holds db"
  "next_id (put_observation ob db) = next_id db" "orders (put_observation ob db) = orders db"
  "payment_intents (put_observation ob db) = payment_intents db" "webhook_events (put_observation ob db) = webhook_events db"
  "provider_configs (put_observation ob db) = provider_configs db" "payment_quotes (put_observation ob db) = payment_quotes db" "payment_methods (put_observation ob db) = payment_methods db"
  "payment_observations (put_observation ob db) = put_row po_id ob (payment_observations db)"
  by (simp_all add: put_observation_def)

lemma put_observation_inv [simp]:
  "pay_inv (put_observation ob db) = pay_inv db" "balance_of (put_observation ob db) = balance_of db"
  "get_payment_intent (put_observation ob db) = get_payment_intent db"
  by (auto simp: pay_inv_def pay_rows_def ledger_inv_def wallet_rows_def entries_def balance_of_def get_payment_intent_def fun_eq_iff)

text \<open>A settlement leaves the evidence alone.\<close>

definition evidence_tables :: "'x pay_db_scheme \<Rightarrow> payment_observation list \<times> payment_quote list \<times> payment_method_config list" where
  "evidence_tables db = (payment_observations db, payment_quotes db, payment_methods db)"

lemma evidence_tables_put [simp]:
  "evidence_tables (put_intent i db) = evidence_tables db" "evidence_tables (put_order ord db) = evidence_tables db"
  by (simp_all add: evidence_tables_def put_intent_def put_order_def)

lemma evidence_tables_more: "ledger_db.more db' = ledger_db.more db \<Longrightarrow> evidence_tables db' = evidence_tables db"
  using pay_tables_eq [of db' db] by (simp add: evidence_tables_def)

lemma ledger_steps_tables [simp]:
  "evidence_tables (fst (get_or_create_wallet db n u c)) = evidence_tables db"
  "evidence_tables (fst (settle_payment db w a i d now)) = evidence_tables db"
  by (rule evidence_tables_more [OF ledger_more_frame(1)], rule evidence_tables_more [OF ledger_more_frame(3)])

lemma row_steps_tables [simp]:
  "evidence_tables (fst (succeed_intent db j)) = evidence_tables db"
  "evidence_tables (fst (pay_order db ord)) = evidence_tables db"
  "evidence_tables (fst (flush_payment_transaction db t)) = evidence_tables db"
  by (auto simp: succeed_intent_def pay_order_def flush_payment_transaction_def lift_res_def evidence_tables_def put_intent_def put_order_def
      split: sum.splits)

lemma tables_and_then:
  assumes "evidence_tables (fst m) = T" and "\<And>s x. evidence_tables s = T \<Longrightarrow> evidence_tables (fst (f s x)) = T"
  shows "evidence_tables (fst (and_then m f)) = T"
  using assms by (cases m; cases "snd m") auto

lemma settle_payment_intent_tables [simp]:
  "evidence_tables (fst (settle_payment_intent db n j va vc now)) = evidence_tables db"
  unfolding settle_payment_intent_def settle_wallet_topup_def lift_res_def
  by (auto intro!: tables_and_then split: sum.split option.split)

section \<open>The invariant\<close>

definition paid_evidence :: "payment_intent list \<Rightarrow> payment_observation \<Rightarrow> bool" where
  "paid_evidence is ob \<longleftrightarrow> (\<exists>i \<in> set is. pi_id i = po_payment_intent_id ob \<and> pi_tenant_id i = po_tenant_id ob \<and>
     pi_status i = PaymentIntentStatus.SUCCEEDED \<and> po_settlement_amount ob = Some (pi_amount i) \<and>
     po_settlement_currency ob = Some (pi_currency i))"

definition evidence_inv :: "'x pay_db_scheme \<Rightarrow> bool" where
  "evidence_inv db \<longleftrightarrow> pay_inv db \<and> (\<forall>i \<in> set (payment_intents db). pi_purpose i = WALLET_TOPUP \<longrightarrow> pi_order_id i = None) \<and>
     distinct (map po_id (payment_observations db)) \<and> (\<forall>ob \<in> set (payment_observations db). po_id ob < next_id db) \<and>
     unique_on chain_evidence (\<lambda>ob. (po_network ob, po_external_reference ob)) (payment_observations db) \<and>
     (\<forall>ob \<in> set (payment_observations db). \<exists>i \<in> set (payment_intents db).
        pi_id i = po_payment_intent_id ob \<and> pi_purpose i = WALLET_TOPUP) \<and>
     (\<forall>ob \<in> set (payment_observations db). po_status ob = VERIFIED \<longrightarrow> paid_evidence (payment_intents db) ob)"

text \<open>How other requests may change the intents: those of evidence stay top-ups, those that succeeded stay as they are.\<close>

definition intents_grow :: "payment_intent list \<Rightarrow> payment_intent list \<Rightarrow> bool" where
  "intents_grow is is' \<longleftrightarrow> (\<forall>i \<in> set is. \<exists>i' \<in> set is'. pi_id i' = pi_id i \<and> pi_tenant_id i' = pi_tenant_id i \<and> pi_purpose i' = pi_purpose i \<and>
     pi_amount i' = pi_amount i \<and> pi_currency i' = pi_currency i \<and>
     (pi_status i = PaymentIntentStatus.SUCCEEDED \<longrightarrow> pi_status i' = PaymentIntentStatus.SUCCEEDED))"

lemma intents_grow_refl [simp]: "intents_grow is is"
  by (auto simp: intents_grow_def)

lemma paid_evidence_grows: "paid_evidence is ob \<Longrightarrow> intents_grow is is' \<Longrightarrow> paid_evidence is' ob"
  unfolding paid_evidence_def intents_grow_def by metis

lemma settles_grow:
  assumes "settles db i db' i' t" and "i \<in> set (payment_intents db)"
  shows "intents_grow (payment_intents db) (payment_intents db')" and "i' \<in> set (payment_intents db')"
proof -
  have p: "payment_intents db' = put_row pi_id i' (payment_intents db)" "i' = i\<lparr>pi_status := PaymentIntentStatus.SUCCEEDED\<rparr>"
    using assms(1) by (simp_all add: settles_def)
  then show in': "i' \<in> set (payment_intents db')" using assms(2) by (auto intro: put_row_in)
  have "\<exists>k' \<in> set (payment_intents db'). pi_id k' = pi_id k \<and> pi_tenant_id k' = pi_tenant_id k \<and> pi_purpose k' = pi_purpose k \<and>
     pi_amount k' = pi_amount k \<and> pi_currency k' = pi_currency k \<and>
     (pi_status k = PaymentIntentStatus.SUCCEEDED \<longrightarrow> pi_status k' = PaymentIntentStatus.SUCCEEDED)"
    if k: "k \<in> set (payment_intents db)" for k
  proof (cases "pi_id k = pi_id i")
    case True
    have "pay_inv db'" using assms(1) by (rule settles_inv)
    then have "distinct (map pi_id (payment_intents db))" by (simp add: pay_inv_def pay_rows_def p)
    then have "k = i" using True k assms(2) by (auto simp: distinct_map inj_on_def)
    then show ?thesis using p(2) by (intro bexI [OF _ in']) simp
  next
    case False
    then have "k \<in> set (payment_intents db')" using k p(2) unfolding p(1) put_row_def in_update_where by auto
    then show ?thesis by (rule bexI [rotated]) simp
  qed
  then show "intents_grow (payment_intents db) (payment_intents db')" by (simp add: intents_grow_def)
qed

lemma evidence_frame:
  assumes inv: "evidence_inv db" and "pay_inv db'" and "next_id db \<le> next_id db'"
    and obs: "payment_observations db' = payment_observations db"
    and g: "intents_grow (payment_intents db) (payment_intents db')"
    and t: "\<forall>i \<in> set (payment_intents db'). pi_purpose i = WALLET_TOPUP \<longrightarrow> pi_order_id i = None"
  shows "evidence_inv db'"
proof -
  have "paid_evidence (payment_intents db') ob" if "ob \<in> set (payment_observations db)" "po_status ob = VERIFIED" for ob
    using that inv paid_evidence_grows [OF _ g] by (simp add: evidence_inv_def)
  moreover have "\<exists>i \<in> set (payment_intents db'). pi_id i = po_payment_intent_id ob \<and> pi_purpose i = WALLET_TOPUP"
    if "ob \<in> set (payment_observations db)" for ob
    using that inv g unfolding evidence_inv_def intents_grow_def by metis
  moreover have "po_id ob < next_id db'" if "ob \<in> set (payment_observations db)" for ob
    using that inv assms(3) by (auto simp: evidence_inv_def intro: less_le_trans)
  ultimately show ?thesis using assms(2) t inv by (simp add: evidence_inv_def obs)
qed

text \<open>What identifies a piece of evidence.\<close>

definition evidence_key ::
  "payment_observation \<Rightarrow> uuid \<times> uuid \<times> uuid \<times> uuid \<times> PaymentObservationSource \<times> str option \<times> str option \<times> str" where
  "evidence_key ob = (po_id ob, po_tenant_id ob, po_payment_intent_id ob, po_payment_method_id ob, po_source ob, po_network ob,
     po_external_reference ob, po_evidence_fingerprint ob)"

lemma unique_on_map:
  assumes "map k rs' = map k rs" and "\<And>x y. k x = k y \<Longrightarrow> p x = p y \<and> f x = f y" and "unique_on p f rs"
  shows "unique_on p f rs'"
proof -
  have "map f (filter p rs') = map f (filter p rs)"
    using assms(1)
  proof (induction rs' arbitrary: rs)
    case (Cons x xs)
    then obtain y ys where rs: "rs = y # ys" "k x = k y" "map k xs = map k ys" by (cases rs) auto
    then show ?case using Cons.IH [OF rs(3)] assms(2) [OF rs(2)] by simp
  qed simp
  then show ?thesis using assms(3) by (simp add: unique_on_def)
qed

lemma evidence_put_rows:
  assumes inv: "evidence_inv db" and ob: "ob \<in> set (payment_observations db)" and k: "evidence_key ob' = evidence_key ob"
  shows "map po_id (put_row po_id ob' (payment_observations db)) = map po_id (payment_observations db)"
    and "unique_on chain_evidence (\<lambda>ob. (po_network ob, po_external_reference ob)) (put_row po_id ob' (payment_observations db))"
proof -
  have d: "distinct (map po_id (payment_observations db))"
    and u: "unique_on chain_evidence (\<lambda>ob. (po_network ob, po_external_reference ob)) (payment_observations db)"
    using inv by (simp_all add: evidence_inv_def)
  show "map po_id (put_row po_id ob' (payment_observations db)) = map po_id (payment_observations db)" by simp
  have "map evidence_key (put_row po_id ob' (payment_observations db)) = map evidence_key (payment_observations db)"
    using put_row_maps [OF ob d _ k] k by (simp add: evidence_key_def [of ob] evidence_key_def [of ob'])
  then show "unique_on chain_evidence (\<lambda>ob. (po_network ob, po_external_reference ob)) (put_row po_id ob' (payment_observations db))"
    by (rule unique_on_map [OF _ _ u]) (auto simp: evidence_key_def chain_evidence_def)
qed

lemma evidence_put_settled:
  assumes inv: "evidence_inv db" and ob: "ob \<in> set (payment_observations db)" and k: "evidence_key ob' = evidence_key ob"
    and "pay_inv db'" and "next_id db \<le> next_id db'" and obs: "payment_observations db' = put_row po_id ob' (payment_observations db)"
    and g: "intents_grow (payment_intents db) (payment_intents db')"
    and t: "\<forall>i \<in> set (payment_intents db'). pi_purpose i = WALLET_TOPUP \<longrightarrow> pi_order_id i = None"
    and v: "po_status ob' = VERIFIED \<Longrightarrow> paid_evidence (payment_intents db') ob'"
  shows "evidence_inv db'"
proof -
  note rows = evidence_put_rows [OF inv ob k]
  have old: "ob'' = ob' \<or> ob'' \<in> set (payment_observations db)" if "ob'' \<in> set (payment_observations db')" for ob''
    using that in_put_row by (fastforce simp: obs)
  have "paid_evidence (payment_intents db') x" if "x \<in> set (payment_observations db')" "po_status x = VERIFIED" for x
    using old [OF that(1)] that(2) inv v paid_evidence_grows [OF _ g] unfolding evidence_inv_def by blast
  moreover have "\<exists>i \<in> set (payment_intents db'). pi_id i = po_payment_intent_id x \<and> pi_purpose i = WALLET_TOPUP"
    if x: "x \<in> set (payment_observations db')" for x
  proof -
    obtain y where "y \<in> set (payment_observations db)" "po_payment_intent_id y = po_payment_intent_id x"
      using old [OF x] ob k by (auto simp: evidence_key_def)
    then obtain i where "i \<in> set (payment_intents db)" "pi_id i = po_payment_intent_id x" "pi_purpose i = WALLET_TOPUP"
      using inv unfolding evidence_inv_def by metis
    then show ?thesis using g unfolding intents_grow_def by metis
  qed
  moreover have "po_id x < next_id db'" if x: "x \<in> set (payment_observations db')" for x
  proof -
    obtain y where "y \<in> set (payment_observations db)" "po_id y = po_id x" using old [OF x] ob k by (auto simp: evidence_key_def)
    then show ?thesis using inv assms(5) unfolding evidence_inv_def by (metis less_le_trans)
  qed
  moreover have "distinct (map po_id (payment_observations db'))" using inv rows(1) by (simp add: obs evidence_inv_def)
  ultimately show ?thesis using assms(4) t rows(2) by (simp add: evidence_inv_def obs)
qed

lemma evidence_put:
  assumes "evidence_inv db" and "ob \<in> set (payment_observations db)" and "evidence_key ob' = evidence_key ob"
    and "po_status ob' \<noteq> VERIFIED"
  shows "evidence_inv (put_observation ob' db)"
  using assms by (intro evidence_put_settled [OF assms(1-3)]) (auto simp: evidence_inv_def)

lemma evidence_flush:
  assumes inv: "evidence_inv db" and f: "flush_observation db ob = (db', Inr ob')" and new: "po_id ob = next_id db" "po_status ob \<noteq> VERIFIED"
    and i: "i \<in> set (payment_intents db)" "pi_id i = po_payment_intent_id ob" "pi_purpose i = WALLET_TOPUP"
  shows "evidence_inv db'" and "ob' = ob" and "payment_observations db' = payment_observations db @ [ob]"
proof -
  have db': "db' = db\<lparr>payment_observations := payment_observations db @ [ob], next_id := Suc (next_id db)\<rparr>" and "ob' = ob"
    and u: "\<not> violates chain_evidence (\<lambda>ob. (po_network ob, po_external_reference ob)) (payment_observations db) ob"
    using f by (auto simp: flush_observation_def split: if_splits)
  then show "ob' = ob" "payment_observations db' = payment_observations db @ [ob]" by simp_all
  have pi: "pay_inv db" using inv by (simp add: evidence_inv_def)
  then have "ledger_inv db'" using ledger_inv_frame [of db db'] by (simp add: db' pay_inv_def)
  then have p: "pay_inv db'" by (intro pay_inv_frame [OF pi]) (simp_all add: db' wallet_rows_def)
  have "po_id ob \<notin> po_id ` set (payment_observations db)" using inv new(1) by (auto simp: evidence_inv_def)
  moreover have "unique_on chain_evidence (\<lambda>ob. (po_network ob, po_external_reference ob)) (payment_observations db @ [ob])"
    using inv u by (simp add: evidence_inv_def unique_on_snoc)
  moreover have "\<forall>x \<in> set (payment_observations db @ [ob]). po_id x < Suc (next_id db)"
    using inv new(1) by (auto simp: evidence_inv_def less_SucI)
  moreover have "\<forall>x \<in> set (payment_observations db @ [ob]). \<exists>i \<in> set (payment_intents db). pi_id i = po_payment_intent_id x \<and> pi_purpose i = WALLET_TOPUP"
    using inv i by (auto simp: evidence_inv_def)
  moreover have "\<forall>x \<in> set (payment_observations db @ [ob]). po_status x = VERIFIED \<longrightarrow> paid_evidence (payment_intents db) x"
    using inv new(2) by (auto simp: evidence_inv_def)
  moreover have "\<forall>i \<in> set (payment_intents db). pi_purpose i = WALLET_TOPUP \<longrightarrow> pi_order_id i = None"
    and "distinct (map po_id (payment_observations db))" using inv by (auto simp: evidence_inv_def)
  ultimately show "evidence_inv db'" using p unfolding evidence_inv_def db' by simp
qed

section \<open>Every request keeps the invariant\<close>

lemma get_observation_InrD:
  assumes "get_observation db n k = Inr ob"
  shows "ob \<in> set (payment_observations db)" and "po_id ob = k" and "po_tenant_id ob = n"
  using assms by (auto simp: get_observation_def res_bind_Inr_iff dest!: scalar_one_or_none_SomeD split: option.splits)

lemma evidence_inv_pay [dest]: "evidence_inv db \<Longrightarrow> pay_inv db"
  by (simp add: evidence_inv_def)

text \<open>A settlement started for verified evidence, with the evidence stored first.\<close>

lemma put_topup:
  assumes "evidence_inv db" and "i \<in> set (payment_intents db)" and "i' = i\<lparr>pi_status := s\<rparr>"
    and is': "payment_intents db' = put_row pi_id i' (payment_intents db)"
  shows "\<forall>i \<in> set (payment_intents db'). pi_purpose i = WALLET_TOPUP \<longrightarrow> pi_order_id i = None"
proof
  have t: "\<forall>i \<in> set (payment_intents db). pi_purpose i = WALLET_TOPUP \<longrightarrow> pi_order_id i = None"
    using assms(1) by (simp add: evidence_inv_def)
  fix k
  assume "k \<in> set (payment_intents db')"
  then have "k = i' \<or> k \<in> set (payment_intents db)" unfolding is' by (rule in_put_row)
  then show "pi_purpose k = WALLET_TOPUP \<longrightarrow> pi_order_id k = None" using t assms(2,3) by auto
qed

lemma evidence_settles:
  assumes inv: "evidence_inv db" and ob: "ob \<in> set (payment_observations db)" and k: "evidence_key ob' = evidence_key ob"
    and gi: "get_payment_intent db n (po_payment_intent_id ob) = Inr i" and n: "po_tenant_id ob = n"
    and amt: "po_settlement_amount ob' = Some (pi_amount i)" "po_settlement_currency ob' = Some (pi_currency i)"
    and s: "settle_payment_intent (put_observation ob' db) n (pi_id i) va vc now = (db', Inr r)"
  shows "evidence_inv db'"
    and "settles db i db' (i\<lparr>pi_status := PaymentIntentStatus.SUCCEEDED\<rparr>) (snd r)"
    and "payment_observations db' = put_row po_id ob' (payment_observations db)"
proof -
  obtain i' t where r: "r = (i', t)" by (cases r)
  have pinv: "pay_inv (put_observation ob' db)" using inv by auto
  obtain i0 where g0: "get_payment_intent (put_observation ob' db) n (pi_id i) = Inr i0"
    and st0: "settles (put_observation ob' db) i0 db' i' t"
    using settle_payment_intent_InrD [OF pinv s [unfolded r]] by blast
  note gd = get_payment_intent_InrD [OF gi]
  have "i0 = i" using g0 get_payment_intent_InrD(1,2) [of db n "pi_id i" i0] intent_by_id [of db i0 i] gd(1) inv by auto
  then have st1: "settles (put_observation ob' db) i db' i' t" using st0 by simp
  then have i': "i' = i\<lparr>pi_status := PaymentIntentStatus.SUCCEEDED\<rparr>" by (simp add: settles_def)
  show st: "settles db i db' (i\<lparr>pi_status := PaymentIntentStatus.SUCCEEDED\<rparr>) (snd r)"
    using st1 i' unfolding settles_def r by (simp split: if_splits)
  have tab: "evidence_tables db' = evidence_tables (put_observation ob' db)"
    using settle_payment_intent_tables [of "put_observation ob' db" n "pi_id i" va vc now] s by simp
  then show obs: "payment_observations db' = put_row po_id ob' (payment_observations db)" by (simp add: evidence_tables_def)
  note grow = settles_grow [OF st gd(1)]
  show "evidence_inv db'"
  proof (rule evidence_put_settled [OF inv ob k settles_inv [OF st] _ obs grow(1)])
    show "next_id db \<le> next_id db'" using st by (simp add: settles_def)
    have "payment_intents db' = put_row pi_id i' (payment_intents db)" using st i' by (simp add: settles_def)
    then show "\<forall>i \<in> set (payment_intents db'). pi_purpose i = WALLET_TOPUP \<longrightarrow> pi_order_id i = None"
      by (rule put_topup [OF inv gd(1) i'])
    have "po_payment_intent_id ob' = po_payment_intent_id ob" "po_tenant_id ob' = n" using k n by (simp_all add: evidence_key_def)
    then show "paid_evidence (payment_intents db') ob'"
      using grow(2) amt gd(2,3) unfolding paid_evidence_def by (intro bexI [OF _ grow(2)]) simp
  qed
qed

lemma settle_again_keeps:
  assumes inv: "evidence_inv db" and s: "settle_payment_intent db n j va vc now = (db', Inr r)"
  shows "evidence_inv db'" and "payment_observations db' = payment_observations db"
proof -
  obtain i' t where r: "r = (i', t)" by (cases r)
  obtain i where gi: "get_payment_intent db n j = Inr i" and st: "settles db i db' i' t"
    using settle_payment_intent_InrD [OF evidence_inv_pay [OF inv] s [unfolded r]] by blast
  note gd = get_payment_intent_InrD [OF gi]
  show obs: "payment_observations db' = payment_observations db"
    using settle_payment_intent_tables [of db n j va vc now] s by (simp add: evidence_tables_def)
  have n: "next_id db \<le> next_id db'" and is': "payment_intents db' = put_row pi_id i' (payment_intents db)"
    and i': "i' = i\<lparr>pi_status := PaymentIntentStatus.SUCCEEDED\<rparr>" using st by (simp_all add: settles_def)
  show "evidence_inv db'"
    by (rule evidence_frame [OF inv settles_inv [OF st] n obs settles_grow(1) [OF st gd(1)] put_topup [OF inv gd(1) i' is']])
qed

lemma submit_observation_cases:
  assumes "submit_observation env db n u j src ref a det now = (db', Inr ob)"
  obtains (existing) "db' = db" "ob \<in> set (payment_observations db)"
  | (fresh) i nob where "get_payment_intent db n j = Inr i" "pi_purpose i = WALLET_TOPUP" "flush_observation db nob = (db', Inr ob)"
      "po_id nob = next_id db" "po_status nob \<noteq> VERIFIED" "po_payment_intent_id nob = pi_id i" "po_tenant_id nob = n"
proof -
  have found: "ob \<in> set (payment_observations db)" if "find_evidence db n f = Inr (Some ob)" for f
    using that by (auto simp: find_evidence_def dest: scalar_one_or_none_SomeD)
  have "db' = db \<and> ob \<in> set (payment_observations db) \<or>
    (\<exists>i m quote ref' asset network f d. get_payment_intent db n j = Inr i \<and> pi_purpose i = WALLET_TOPUP \<and>
       flush_observation db (new_observation (next_id db) now n (pi_id i) m quote src ref' asset network a f d) = (db', Inr ob))"
    using assms found
    by (fastforce simp: submit_observation_def lift_res_Inr_iff savepoint_Inr_iff Let_def split: if_splits option.splits)
  then show thesis
  proof (elim disjE exE conjE)
    fix i m quote ref' asset network f d
    assume "get_payment_intent db n j = Inr i" "pi_purpose i = WALLET_TOPUP"
      "flush_observation db (new_observation (next_id db) now n (pi_id i) m quote src ref' asset network a f d) = (db', Inr ob)"
    then show thesis by (rule fresh) (simp_all add: new_observation_def)
  qed (rule existing)
qed

lemma submit_observation_keeps:
  assumes inv: "evidence_inv db" and s: "submit_observation env db n u j src ref a det now = (db', Inr ob)"
  shows "evidence_inv db'" and "set (payment_observations db) \<subseteq> set (payment_observations db')" and "balance_of db' = balance_of db"
proof -
  have "evidence_inv db' \<and> set (payment_observations db) \<subseteq> set (payment_observations db') \<and> balance_of db' = balance_of db"
    using s
  proof (cases rule: submit_observation_cases)
    case (fresh i nob)
    note i = get_payment_intent_InrD [OF fresh(1)]
    have "wallets db' = wallets db" using fresh(3) by (auto simp: flush_observation_def split: if_splits)
    then show ?thesis
      using evidence_flush [OF inv fresh(3-5) i(1) _ fresh(2)] fresh(6) by (auto simp: balance_of_def fun_eq_iff)
  qed (use inv in auto)
  then show "evidence_inv db'" "set (payment_observations db) \<subseteq> set (payment_observations db')" "balance_of db' = balance_of db" by auto
qed

text \<open>What a decision on the evidence \<open>ob\<close> may do to the store, with \<open>ob'\<close> its new row.\<close>

definition evidence_step :: "'x pay_db_scheme \<Rightarrow> payment_observation \<Rightarrow> 'x pay_db_scheme \<Rightarrow> payment_observation \<Rightarrow> bool" where
  "evidence_step db ob db' ob' \<longleftrightarrow>
     evidence_inv db' \<and> ob \<in> set (payment_observations db) \<and> evidence_key ob' = evidence_key ob \<and>
     payment_observations db' = put_row po_id ob' (payment_observations db) \<and>
     (po_status ob = VERIFIED \<or> po_status ob = REJECTED \<longrightarrow> ob' = ob) \<and>
     (if po_status ob' = VERIFIED
      then \<exists>i t. i \<in> set (payment_intents db) \<and> pi_id i = po_payment_intent_id ob \<and>
        settles db i db' (i\<lparr>pi_status := PaymentIntentStatus.SUCCEEDED\<rparr>) t
      else balance_of db' = balance_of db \<and> payment_intents db' = payment_intents db)"

lemma evidence_step_put:
  assumes "evidence_inv db" and "ob \<in> set (payment_observations db)" and "evidence_key ob' = evidence_key ob"
    and "po_status ob \<noteq> VERIFIED" "po_status ob \<noteq> REJECTED" "po_status ob' \<noteq> VERIFIED"
  shows "evidence_step db ob (put_observation ob' db) ob'"
  using evidence_put [OF assms(1-3,6)] assms by (simp add: evidence_step_def)

lemma evidence_step_settle:
  assumes "evidence_inv db" and "ob \<in> set (payment_observations db)" and "evidence_key ob' = evidence_key ob"
    and gi: "get_payment_intent db n (po_payment_intent_id ob) = Inr i" and "po_tenant_id ob = n"
    and "po_settlement_amount ob' = Some (pi_amount i)" "po_settlement_currency ob' = Some (pi_currency i)"
    and "settle_payment_intent (put_observation ob' db) n (pi_id i) va vc now = (db', Inr r)"
    and "po_status ob \<noteq> VERIFIED" "po_status ob \<noteq> REJECTED" "po_status ob' = VERIFIED"
  shows "evidence_step db ob db' ob'"
  using evidence_settles [OF assms(1-8)] get_payment_intent_InrD [OF gi] assms unfolding evidence_step_def by auto

lemma verified_intent:
  assumes inv: "evidence_inv db" and ob: "ob \<in> set (payment_observations db)" and v: "po_status ob = VERIFIED"
  obtains i where "i \<in> set (payment_intents db)" "pi_id i = po_payment_intent_id ob" "pi_tenant_id i = po_tenant_id ob"
    "pi_status i = PaymentIntentStatus.SUCCEEDED" "po_settlement_amount ob = Some (pi_amount i)"
    "po_settlement_currency ob = Some (pi_currency i)"
proof -
  have "paid_evidence (payment_intents db) ob" using inv ob v by (simp add: evidence_inv_def)
  then show thesis unfolding paid_evidence_def using that by blast
qed

lemma approve_step:
  assumes inv: "evidence_inv db" and a: "approve_manual_observation db n k actor amt cur now = (db', Inr ob')"
  obtains ob where "get_observation db n k = Inr ob" "evidence_step db ob db' ob'" "po_status ob' = VERIFIED"
proof -
  obtain ob where g: "get_observation db n k = Inr ob"
    using a by (auto simp: approve_manual_observation_def lift_res_Inr_iff)
  note gd = get_observation_InrD [OF g]
  show thesis
  proof (cases "po_status ob = VERIFIED")
    case True
    let ?s = "settle_payment_intent db n (po_payment_intent_id ob) (po_settlement_amount ob) (po_settlement_currency ob) now"
    have at: "and_then ?s (\<lambda>db _. (db, Inr ob)) = (db', Inr ob')" using a g True by (simp add: approve_manual_observation_def)
    then obtain r where s: "?s = (db', Inr r)" unfolding and_then_Inr_iff by blast
    have ob': "ob' = ob" using at unfolding s and_then_Inr by simp
    obtain i' t where r: "r = (i', t)" by (cases r)
    obtain i where gi: "get_payment_intent db n (po_payment_intent_id ob) = Inr i" and st: "settles db i db' i' t"
      using settle_payment_intent_InrD [OF evidence_inv_pay [OF inv] s [unfolded r]] by blast
    note sk = settle_again_keeps [OF inv s]
    have "i' = i\<lparr>pi_status := PaymentIntentStatus.SUCCEEDED\<rparr>" using st unfolding settles_def by blast
    then have "settles db i db' (i\<lparr>pi_status := PaymentIntentStatus.SUCCEEDED\<rparr>) t" using st by simp
    moreover have "put_row po_id ob (payment_observations db) = payment_observations db"
      using gd(1) inv by (simp add: evidence_inv_def)
    ultimately have "evidence_step db ob db' ob"
      using sk gd(1) True get_payment_intent_InrD(1,2) [OF gi] unfolding evidence_step_def if_P [OF True]
      by (intro conjI exI [of _ i] exI [of _ t]) simp_all
    then show thesis using that [OF g] True ob' by simp
  next
    case False
    let ?new = "\<lambda>i. ob\<lparr>po_settlement_amount := Some (pi_amount i), po_settlement_currency := Some (pi_currency i),
               po_assurance_level := Some MANUAL_APPROVED, po_status := VERIFIED, po_is_final := True, po_verified_at := Some now,
               po_verified_by_user_id := Some actor, po_rejection_reason := None\<rparr>"
    obtain i r where rej: "po_status ob \<noteq> REJECTED" and gi: "get_payment_intent db n (po_payment_intent_id ob) = Inr i" and ob': "ob' = ?new i"
      and s: "settle_payment_intent (put_observation (?new i) db) n (pi_id i) (Some (pi_amount i)) (Some (pi_currency i)) now = (db', Inr r)"
      using a g False by (auto simp: approve_manual_observation_def lift_res_Inr_iff and_then_Inr_iff Let_def split: if_splits)
    have "evidence_step db ob db' (?new i)"
      using rej False by (intro evidence_step_settle [OF inv gd(1) _ gi gd(3) _ _ s]) (simp_all add: evidence_key_def)
    then show thesis using that g ob' by simp
  qed
qed

lemma reject_step:
  assumes inv: "evidence_inv db" and a: "reject_observation db n k actor reason now = (db', Inr ob')"
  obtains ob where "get_observation db n k = Inr ob" "evidence_step db ob db' ob'" "po_status ob' = REJECTED"
proof -
  obtain ob where g: "get_observation db n k = Inr ob" using a by (auto simp: reject_observation_def lift_res_Inr_iff)
  note gd = get_observation_InrD [OF g]
  have same: "put_row po_id ob (payment_observations db) = payment_observations db" using gd(1) inv by (simp add: evidence_inv_def)
  have nv: "po_status ob \<noteq> VERIFIED" using a g by (auto simp: reject_observation_def split: if_splits)
  show thesis
  proof (cases "po_status ob = REJECTED")
    case True
    then have "db' = db" "ob' = ob" using a g by (auto simp: reject_observation_def)
    then show thesis using that [OF g] gd(1) inv same True by (simp add: evidence_step_def)
  next
    case False
    let ?new = "ob\<lparr>po_status := REJECTED, po_rejection_reason := Some (strip reason), po_verified_by_user_id := Some actor,
               po_verified_at := Some now, po_is_final := True\<rparr>"
    have "db' = put_observation ?new db" "ob' = ?new"
      using a g False nv by (auto simp: reject_observation_def Let_def split: if_splits)
    then show thesis
      using that [OF g] evidence_step_put [OF inv gd(1), of ?new] nv False by (simp add: evidence_key_def)
  qed
qed

subsection \<open>Verification on the chain\<close>

lemma settle_payment_error:
  assumes "settle_payment db w a i d now = (db', Inl e)"
  shows "e \<in> {ValueError, MultipleResultsFound, LedgerIntegrityError, IntegrityError}"
proof -
  have lock: "e \<in> {ValueError, MultipleResultsFound}" if "lock_wallet db w = (s, Inl e)" for s e
    using that by (auto simp: lock_wallet_def lift_res_def scalar_one_or_none_def split: sum.splits option.splits list.splits)
  have book: "x = IntegrityError" if "book s v ty y z r1 r2 t n = (s', Inl x)" for s s' :: "'a ledger_db_scheme" and v ty y z r1 r2 t n x
    using that by (auto simp: book_def flush_ledger_def split: if_splits)
  show ?thesis
  proof (cases "0 < a")
    case True
    show ?thesis
    proof (cases "lock_wallet db w")
      case (Pair s r)
      then show ?thesis
        using assms True lock
        by (cases r) (auto simp: settle_payment_def Let_def split: if_splits option.splits dest!: savepoint_Inl_cases book)
    qed
  qed (use assms in \<open>simp add: settle_payment_def\<close>)
qed

lemma settle_topup_error:
  assumes inv: "pay_inv db" and gi: "get_payment_intent db n j = Inr i" and t: "pi_purpose i = WALLET_TOPUP" "pi_order_id i = None"
    and ok: "\<not> amounts_mismatch i va vc" and s: "settle_payment_intent db n j va vc now = (db', Inl e)"
  shows "\<not> payment_error e"
proof -
  have li: "ledger_inv db" using inv by (simp add: pay_inv_def)
  obtain db1 w where g: "get_or_create_wallet db (pi_tenant_id i) (pi_user_id i) (pi_currency i) = (db1, Inr w)"
    using get_or_create_wallet_total [OF li] by blast
  have tr: "x = InvalidStateTransitionError" if "succeed_intent s i = (s', Inl x)" for s s' :: "'a pay_db_scheme" and x
    using that by (auto simp: succeed_intent_def lift_res_def PaymentStateMachine_transition_def Let_def split: if_splits sum.splits)
  have fl: "flush_payment_transaction s (settlement_transaction s k m) \<noteq> (s', Inl x)" for s s' :: "'a pay_db_scheme" and k m x
    using flush_settlement [of s k m] by auto
  have "e \<in> {ValueError, MultipleResultsFound, LedgerIntegrityError, IntegrityError, InvalidStateTransitionError}"
    using s gi t ok g tr fl
    by (auto simp: settle_payment_intent_def settle_wallet_topup_def and_then_def
        split: option.splits prod.splits sum.splits dest!: settle_payment_error)
  then show ?thesis by (auto simp: payment_error_def)
qed

lemma quote_covers_InrD:
  assumes "quote_covers q i m result = Inr True"
  shows "pq_payment_intent_id q = pi_id i" "pq_payment_method_id q = pm_id m" "pq_settlement_amount q = pi_amount i"
    "pq_settlement_currency q = pi_currency i" "ov_asset_amount result = pq_asset_amount q"
  using assms by (auto simp: quote_covers_def res_bind_Inr_iff split: if_splits)

definition quote_of :: "'x pay_db_scheme \<Rightarrow> payment_observation \<Rightarrow> payment_quote option" where
  "quote_of db ob = (case po_payment_quote_id ob of None \<Rightarrow> None | Some k \<Rightarrow> first_row (\<lambda>q. pq_id q = k) (payment_quotes db))"

lemma settle_by_quote_Inr:
  assumes inv: "evidence_inv db" and ob: "ob \<in> set (payment_observations db)" and n: "po_tenant_id ob = n"
    and st: "po_status ob \<noteq> VERIFIED" "po_status ob \<noteq> REJECTED"
    and s: "settle_by_quote db n ob m result now = (db', Inr ob')"
  shows "evidence_step db ob db' ob'"
    and "po_status ob' = VERIFIED \<Longrightarrow> \<exists>i q. get_payment_intent db n (po_payment_intent_id ob) = Inr i \<and> quote_of db ob = Some q \<and>
      pq_tenant_id q = n \<and> quote_covers q i m result = Inr True \<and> (ov_observed_at result \<noteq> None \<longrightarrow> ov_observed_at_aware result) \<and>
      (case ov_observed_at result of None \<Rightarrow> now | Some t \<Rightarrow> t) \<le> pq_expires_at q"
proof -
  obtain i where gi: "get_payment_intent db n (po_payment_intent_id ob) = Inr i"
    using s by (auto simp: settle_by_quote_def lift_res_Inr_iff)
  have review: "evidence_step db ob (put_observation x db) x" if "evidence_key x = evidence_key ob" "po_status x = PaymentObservationStatus.MANUAL_REVIEW" for x
    using evidence_step_put [OF inv ob that(1) st] that(2) by simp
  have both: "evidence_step db ob db' ob' \<and> (po_status ob' = VERIFIED \<longrightarrow> (\<exists>q. quote_of db ob = Some q \<and>
      pq_tenant_id q = n \<and> quote_covers q i m result = Inr True \<and> (ov_observed_at result \<noteq> None \<longrightarrow> ov_observed_at_aware result) \<and>
      (case ov_observed_at result of None \<Rightarrow> now | Some t \<Rightarrow> t) \<le> pq_expires_at q))"
  proof (cases "quote_of db ob")
    case None
    then have "db' = put_observation (to_review ob) db" "ob' = to_review ob"
      using s gi by (auto simp: settle_by_quote_def quote_of_def)
    then show ?thesis using review [of "to_review ob"] by (simp add: to_review_def evidence_key_def)
  next
    case (Some q)
    show ?thesis
    proof (cases "pq_expires_at q < (case ov_observed_at result of None \<Rightarrow> now | Some t \<Rightarrow> t)")
      case True
      let ?x = "(to_review ob)\<lparr>po_rejection_reason := Some ''Transaction occurred after the authoritative payment quote expired.''\<rparr>"
      have "db' = put_observation ?x db" "ob' = ?x"
        using s gi Some True unfolding settle_by_quote_def quote_of_def by (auto simp: Let_def split: if_splits)
      then show ?thesis using review [of ?x] by (simp add: to_review_def evidence_key_def)
    next
      case live: False
      then obtain c where tq: "pq_tenant_id q = n" and c: "quote_covers q i m result = Inr c"
        and aw: "ov_observed_at result \<noteq> None \<longrightarrow> ov_observed_at_aware result"
        using s gi Some unfolding settle_by_quote_def quote_of_def by (auto simp: lift_res_Inr_iff split: if_splits)
      show ?thesis
      proof (cases c)
        case False
        let ?x = "(to_review ob)\<lparr>po_settlement_amount := Some (pq_settlement_amount q),
                   po_settlement_currency := Some (pq_settlement_currency q),
                   po_rejection_reason := Some ''Verified chain payment does not exactly match the authoritative quote.''\<rparr>"
        have "db' = put_observation ?x db" "ob' = ?x"
          using s gi Some live c False unfolding settle_by_quote_def quote_of_def by (auto simp: Let_def split: if_splits)
        then show ?thesis using review [of ?x] by (simp add: to_review_def evidence_key_def)
      next
        case True
        let ?x = "ob\<lparr>po_status := VERIFIED, po_assurance_level := Some ONCHAIN_VERIFIED,
                   po_settlement_amount := Some (pq_settlement_amount q), po_settlement_currency := Some (pq_settlement_currency q),
                   po_verified_at := Some now\<rparr>"
        let ?s = "settle_payment_intent (put_observation ?x db) n (pi_id i) (Some (pq_settlement_amount q)) (Some (pq_settlement_currency q)) now"
        have at: "and_then ?s (\<lambda>db _. (db, Inr ?x)) = (db', Inr ob')"
          using s gi Some live c True tq unfolding settle_by_quote_def quote_of_def by (simp add: Let_def split: if_splits)
        then obtain r where r: "?s = (db', Inr r)" unfolding and_then_Inr_iff by blast
        have ob': "ob' = ?x" using at unfolding r and_then_Inr by simp
        have cov: "quote_covers q i m result = Inr True" using c True by simp
        have "evidence_step db ob db' ?x"
          by (rule evidence_step_settle [OF inv ob _ gi n _ _ r]) (simp_all add: st quote_covers_InrD [OF cov] evidence_key_def)
        then show ?thesis using ob' Some tq cov aw live by (simp add: not_less)
      qed
    qed
  qed
  show "evidence_step db ob db' ob'" using both ..
  show "\<exists>i q. get_payment_intent db n (po_payment_intent_id ob) = Inr i \<and> quote_of db ob = Some q \<and>
      pq_tenant_id q = n \<and> quote_covers q i m result = Inr True \<and> (ov_observed_at result \<noteq> None \<longrightarrow> ov_observed_at_aware result) \<and>
      (case ov_observed_at result of None \<Rightarrow> now | Some t \<Rightarrow> t) \<le> pq_expires_at q" if "po_status ob' = VERIFIED"
    using both that gi by blast
qed

lemma settle_by_quote_Inl:
  assumes inv: "evidence_inv db" and ob: "ob \<in> set (payment_observations db)"
    and s: "settle_by_quote db n ob m result now = (db', Inl e)" and pe: "payment_error e"
  shows "db' = db"
proof (cases "get_payment_intent db n (po_payment_intent_id ob)")
  case (Inl e')
  then show ?thesis using s by (simp add: settle_by_quote_def)
next
  case gi: (Inr i)
  note gd = get_payment_intent_InrD [OF gi]
  obtain k where k: "k \<in> set (payment_intents db)" "pi_id k = po_payment_intent_id ob" "pi_purpose k = WALLET_TOPUP"
    using inv ob unfolding evidence_inv_def by blast
  have "k = i" using intent_by_id [OF evidence_inv_pay [OF inv] k(1) gd(1)] k(2) gd(2) by simp
  then have t: "pi_purpose i = WALLET_TOPUP" "pi_order_id i = None" using k(3) gd(1) inv by (auto simp: evidence_inv_def)
  have no: False if "settle_payment_intent (put_observation x db) n (pi_id i) (Some (pi_amount i)) (Some (pi_currency i)) now = (db2, Inl e)" for x db2
  proof -
    have "get_payment_intent (put_observation x db) n (pi_id i) = Inr i"
      using get_payment_intent_row [OF evidence_inv_pay [OF inv] gd(1)] gd(3) by simp
    moreover have "\<not> amounts_mismatch i (Some (pi_amount i)) (Some (pi_currency i))" by (simp add: amounts_mismatch_def)
    moreover have "pay_inv (put_observation x db)" using inv by auto
    ultimately show False using settle_topup_error [OF _ _ t _ that] pe by blast
  qed
  show ?thesis
  proof (cases "quote_of db ob")
    case None
    then show ?thesis using s gi by (simp add: settle_by_quote_def quote_of_def)
  next
    case (Some q)
    show ?thesis
    proof (rule ccontr)
      assume ne: "db' \<noteq> db"
      then have cov: "quote_covers q i m result = Inr True"
        using s gi Some unfolding settle_by_quote_def quote_of_def
        by (auto simp: Let_def lift_res_def split: if_splits sum.splits)
      note cd = quote_covers_InrD [OF cov]
      obtain x where "and_then (settle_payment_intent (put_observation x db) n (pi_id i) (Some (pi_amount i)) (Some (pi_currency i)) now)
          (\<lambda>db _. (db, Inr x)) = (db', Inl e)"
        using s gi Some ne cov unfolding settle_by_quote_def quote_of_def by (simp add: Let_def cd split: if_splits)
      then obtain db2 where "settle_payment_intent (put_observation x db) n (pi_id i) (Some (pi_amount i)) (Some (pi_currency i)) now = (db2, Inl e)"
        unfolding and_then_def by (simp split: prod.splits sum.splits)
      then show False by (rule no)
    qed
  qed
qed

lemma evidence_step_after_put:
  assumes inv: "evidence_inv db" and ob: "ob \<in> set (payment_observations db)" and k: "evidence_key ob1 = evidence_key ob"
    and st: "po_status ob \<noteq> VERIFIED" "po_status ob \<noteq> REJECTED" and s: "evidence_step (put_observation ob1 db) ob1 db' ob'"
  shows "evidence_step db ob db' ob'"
proof -
  have id: "po_id ob1 = po_id ob" "po_id ob' = po_id ob" "po_payment_intent_id ob1 = po_payment_intent_id ob"
    using k s by (simp_all add: evidence_key_def evidence_step_def)
  have put: "put_row po_id ob' (put_row po_id ob1 (payment_observations db)) = put_row po_id ob' (payment_observations db)"
    using id by (simp add: put_row_def update_where_def)
  have st': "settles db i db' i' t" if "settles (put_observation ob1 db) i db' i' t" for i i' t
    using that unfolding settles_def by (simp split: if_splits)
  show ?thesis
  proof (cases "po_status ob' = VERIFIED")
    case True
    then obtain i t where "i \<in> set (payment_intents db)" "pi_id i = po_payment_intent_id ob"
      "settles db i db' (i\<lparr>pi_status := PaymentIntentStatus.SUCCEEDED\<rparr>) t"
      using s True id(3) st' unfolding evidence_step_def by force
    then show ?thesis using s True ob k st put unfolding evidence_step_def by auto
  next
    case False
    then show ?thesis using s ob k st put by (simp add: evidence_step_def)
  qed
qed

text \<open>What a verifier must have answered before evidence is verified.\<close>

definition chain_confirms :: "'e platform_env_scheme \<Rightarrow> 'x pay_db_scheme \<Rightarrow> payment_observation \<Rightarrow> timestamp \<Rightarrow> bool" where
  "chain_confirms env db ob now \<longleftrightarrow>
     (\<exists>m verifier result i q. get_method db (po_tenant_id ob) (po_payment_method_id ob) False = Inr m \<and>
        get_verifier (env_verifiers env) (the (pm_network m)) = Inr verifier \<and>
        verify_transaction verifier (the (pm_network m)) (the (po_external_reference ob)) (pm_asset m) (pm_destination_address m) = Inr result \<and>
        truthy (po_external_reference ob) \<and> truthy (pm_network m) \<and> answer_matches ob m result = Inr () \<and>
        ov_succeeded result \<and> ov_is_final result \<and> (ov_observed_at result \<noteq> None \<longrightarrow> ov_observed_at_aware result) \<and>
        get_payment_intent db (po_tenant_id ob) (po_payment_intent_id ob) = Inr i \<and> quote_of db ob = Some q \<and>
        pq_tenant_id q = po_tenant_id ob \<and> quote_covers q i m result = Inr True \<and> (case ov_observed_at result of None \<Rightarrow> now | Some t \<Rightarrow> t) \<le> pq_expires_at q)"

lemma verify_cases:
  assumes inv: "evidence_inv db" and v: "verify_onchain_observation env db n k now = (db', r)"
  shows "case r of Inr ob' \<Rightarrow> (\<exists>ob. get_observation db n k = Inr ob \<and>
        (po_status ob = VERIFIED \<and> db' = db \<and> ob' = ob \<or>
         po_status ob \<noteq> VERIFIED \<and> evidence_step db ob db' ob' \<and> (po_status ob' = VERIFIED \<longrightarrow> chain_confirms env db ob now)))
    | Inl e \<Rightarrow> payment_error e \<longrightarrow> db' = db \<or> (\<exists>ob ob'. ob \<in> set (payment_observations db) \<and> po_status ob' = po_status ob \<and>
        po_status ob \<noteq> VERIFIED \<and> po_status ob \<noteq> REJECTED \<and> evidence_step db ob db' ob')"
proof (cases "get_observation db n k")
  case (Inl e)
  then have "db' = db" "r = Inl e" using v by (simp_all add: verify_onchain_observation_def)
  then show ?thesis by simp
next
  case g: (Inr ob)
  note gd = get_observation_InrD [OF g]
  show ?thesis
  proof (cases "po_source ob \<noteq> PaymentObservationSource.ONCHAIN \<or> po_status ob = VERIFIED \<or> po_status ob = REJECTED")
    case True
    then have "db' = db \<and> (po_status ob = VERIFIED \<and> r = Inr ob \<or> (\<exists>e. r = Inl e))"
      using v g by (auto simp: verify_onchain_observation_def split: if_splits)
    then show ?thesis using g by auto
  next
    case open': False
    then have st: "po_status ob \<noteq> VERIFIED" "po_status ob \<noteq> REJECTED" by simp_all
    let ?tr = "\<lambda>m vf. verify_transaction vf (the (pm_network m)) (the (po_external_reference ob)) (pm_asset m) (pm_destination_address m)"
    show ?thesis
    proof (cases "\<exists>m vf result. get_method db n (po_payment_method_id ob) False = Inr m \<and> truthy (po_external_reference ob) \<and> truthy (pm_network m) \<and>
        get_verifier (env_verifiers env) (the (pm_network m)) = Inr vf \<and> ?tr m vf = Inr result \<and> answer_matches ob m result = Inr ()")
      case False
      then have "db' = db \<and> (\<exists>e. r = Inl e)"
        using v g open' by (auto simp: verify_onchain_observation_def lift_res_def split: if_splits sum.splits)
      then show ?thesis by auto
    next
      case True
      then obtain m vf result where a: "get_method db n (po_payment_method_id ob) False = Inr m" "truthy (po_external_reference ob)"
        "truthy (pm_network m)" "get_verifier (env_verifiers env) (the (pm_network m)) = Inr vf" "?tr m vf = Inr result"
        "answer_matches ob m result = Inr ()" by blast
      let ?f = "chain_failure ob result now"
      let ?o = "observed ob vf result now"
      let ?p = "?o\<lparr>po_status := PENDING_VERIFICATION\<rparr>"
      have keys: "evidence_key ?f = evidence_key ob" "evidence_key ?o = evidence_key ob" "evidence_key ?p = evidence_key ob"
        "po_status ?f = REJECTED" "po_status ?o = po_status ob" "po_tenant_id ?o = n" "po_payment_quote_id ?o = po_payment_quote_id ob"
        "po_payment_intent_id ?o = po_payment_intent_id ob"
        using gd(3) by (simp_all add: evidence_key_def chain_failure_def observed_def)
      have "verify_onchain_observation env db n k now = (if \<not> ov_succeeded result then (put_observation ?f db, Inr ?f)
           else if \<not> ov_is_final result then (put_observation ?p db, Inr ?p)
           else settle_by_quote (put_observation ?o db) n ?o m result now)"
        using g open' a by (simp add: verify_onchain_observation_def Let_def)
      note v' = trans [OF v [symmetric] this]
      note put = evidence_step_put [OF inv gd(1) _ st]
      show ?thesis
      proof (cases "ov_succeeded result \<and> ov_is_final result")
        case False
        then consider "db' = put_observation ?f db" "r = Inr ?f" | "db' = put_observation ?p db" "r = Inr ?p"
          using v' by (auto split: if_splits)
        then show ?thesis
        proof cases
          case 1
          then show ?thesis using put [OF keys(1)] keys(4) g st by simp
        next
          case 2
          then show ?thesis using put [OF keys(3)] g st by simp
        qed
      next
        case fin: True
        have s: "settle_by_quote (put_observation ?o db) n ?o m result now = (db', r)" using v' fin by simp
        have nv: "po_status ?o \<noteq> VERIFIED" "po_status ?o \<noteq> REJECTED" using keys(5) st by simp_all
        have inv1: "evidence_inv (put_observation ?o db)" using evidence_put [OF inv gd(1) keys(2) nv(1)] .
        have in1: "?o \<in> set (payment_observations (put_observation ?o db))"
          using gd(1) keys(2) by (auto intro: put_row_in simp: evidence_key_def)
        show ?thesis
        proof (cases r)
          case (Inl e)
          have "payment_error e \<longrightarrow> db' = put_observation ?o db"
            using settle_by_quote_Inl [OF inv1 in1] s Inl by blast
          then show ?thesis using Inl put [OF keys(2) nv(1)] gd(1) keys(5) st by auto
        next
          case (Inr ob')
          note sb = settle_by_quote_Inr [OF inv1 in1 keys(6) nv s [unfolded Inr]]
          have "evidence_step db ob db' ob'" using evidence_step_after_put [OF inv gd(1) keys(2) st sb(1)] .
          moreover have "chain_confirms env db ob now" if ver: "po_status ob' = VERIFIED"
          proof -
            obtain i q where iq: "get_payment_intent (put_observation ?o db) n (po_payment_intent_id ?o) = Inr i"
              "quote_of (put_observation ?o db) ?o = Some q" "pq_tenant_id q = n" "quote_covers q i m result = Inr True"
              "ov_observed_at result \<noteq> None \<longrightarrow> ov_observed_at_aware result" "(case ov_observed_at result of None \<Rightarrow> now | Some t \<Rightarrow> t) \<le> pq_expires_at q"
              using sb(2) [OF ver] by blast
            have "quote_of db ob = Some q" using iq(2) keys(7) by (simp add: quote_of_def split: option.splits)
            moreover have "get_payment_intent db n (po_payment_intent_id ob) = Inr i" using iq(1) keys(8) by simp
            ultimately show ?thesis
              unfolding chain_confirms_def gd(3) using a fin iq(3-6) by blast
          qed
          ultimately show ?thesis using Inr g st by simp
        qed
      qed
    qed
  qed
qed

section \<open>Histories\<close>

text \<open>
  The requests of the platform service, iterations of the worker, and what other requests may do in between: they keep the
  payment invariant, they leave the evidence alone, and intents that succeeded stay succeeded for the same amount.
\<close>

inductive evidence_history :: "'x pay_db_scheme \<Rightarrow> 'x pay_db_scheme \<Rightarrow> bool" for db0 :: "'x pay_db_scheme" where
  start: "evidence_inv db0 \<Longrightarrow> evidence_history db0 db0"
| submit: "evidence_history db0 db \<Longrightarrow>
    evidence_history db0 (commit (\<lambda>db. submit_observation (env :: platform_env) db n u j src ref a det now) db)"
| approve: "evidence_history db0 db \<Longrightarrow>
    evidence_history db0 (commit (\<lambda>db. approve_manual_observation db n k actor amt cur now) db)"
| reject: "evidence_history db0 db \<Longrightarrow> evidence_history db0 (commit (\<lambda>db. reject_observation db n k actor reason now) db)"
| verify: "evidence_history db0 db \<Longrightarrow>
    evidence_history db0 (commit (\<lambda>db. verify_onchain_observation (env :: platform_env) db n k now) db)"
| worker: "evidence_history db0 db \<Longrightarrow> evidence_history db0 (onchain_iteration (env :: platform_env) db b now)"
| other: "evidence_history db0 db \<Longrightarrow> pay_inv db' \<Longrightarrow> next_id db \<le> next_id db' \<Longrightarrow> payment_observations db' = payment_observations db \<Longrightarrow>
    intents_grow (payment_intents db) (payment_intents db') \<Longrightarrow>
    \<forall>i \<in> set (payment_intents db'). pi_purpose i = WALLET_TOPUP \<longrightarrow> pi_order_id i = None \<Longrightarrow> evidence_history db0 db'"

text \<open>Evidence that was decided stays decided.\<close>

definition decided_kept :: "payment_observation list \<Rightarrow> payment_observation list \<Rightarrow> bool" where
  "decided_kept obs obs' \<longleftrightarrow> (\<forall>ob \<in> set obs. po_status ob \<in> {VERIFIED, REJECTED} \<longrightarrow> ob \<in> set obs')"

definition good_step :: "'x pay_db_scheme \<Rightarrow> 'x pay_db_scheme \<Rightarrow> bool" where
  "good_step db db' \<longleftrightarrow> evidence_inv db' \<and> decided_kept (payment_observations db) (payment_observations db')"

lemma good_step_refl: "evidence_inv db \<Longrightarrow> good_step db db"
  by (simp add: good_step_def decided_kept_def)

lemma good_step_trans: "good_step db db1 \<Longrightarrow> good_step db1 db2 \<Longrightarrow> good_step db db2"
  by (simp add: good_step_def decided_kept_def)

lemma evidence_step_good:
  assumes "evidence_inv db" and s: "evidence_step db ob db' ob'"
  shows "good_step db db'"
proof -
  have obs: "payment_observations db' = put_row po_id ob' (payment_observations db)" and id: "po_id ob' = po_id ob"
    and dec: "po_status ob \<in> {VERIFIED, REJECTED} \<Longrightarrow> ob' = ob" and ob: "ob \<in> set (payment_observations db)"
    using s by (auto simp: evidence_step_def evidence_key_def)
  have d: "distinct (map po_id (payment_observations db))" using assms(1) by (simp add: evidence_inv_def)
  have "x \<in> set (payment_observations db')" if x: "x \<in> set (payment_observations db)" "po_status x \<in> {VERIFIED, REJECTED}" for x
  proof (cases "po_id x = po_id ob")
    case True
    then have "x = ob" using x(1) ob d by (auto simp: distinct_map inj_on_def)
    then have "ob' = ob" using dec x(2) by simp
    then show ?thesis using \<open>x = ob\<close> obs x(1) d by simp
  next
    case False
    then show ?thesis using x(1) id unfolding obs put_row_def in_update_where by auto
  qed
  then show ?thesis using s by (auto simp: good_step_def decided_kept_def evidence_step_def)
qed

lemma verify_good:
  assumes inv: "evidence_inv db" and v: "verify_onchain_observation env db n k now = (db', r)" and r: "\<And>e. r = Inl e \<Longrightarrow> payment_error e"
  shows "good_step db db'"
proof (cases r)
  case (Inl e)
  then show ?thesis
    using verify_cases [OF inv v] r good_step_refl [OF inv] evidence_step_good [OF inv] by auto
next
  case (Inr ob')
  then show ?thesis using verify_cases [OF inv v] good_step_refl [OF inv] evidence_step_good [OF inv] by auto
qed

lemma verify_each_good:
  assumes "evidence_inv db" and "verify_each env db obs stats now = (db', Inr stats')"
  shows "good_step db db'"
  using assms
proof (induction obs arbitrary: db stats)
  case Nil
  then show ?case using good_step_refl by simp
next
  case (Cons ob obs)
  obtain db1 r where v: "verify_onchain_observation env db (po_tenant_id ob) (po_id ob) now = (db1, r)" by force
  have pe: "payment_error e" if "r = Inl e" for e
    using Cons.prems(2) v that by (auto simp: Let_def payment_error_def split: if_splits)
  note g = verify_good [OF Cons.prems(1) v pe]
  obtain stats1 where "verify_each env db1 obs stats1 now = (db', Inr stats')"
    using Cons.prems(2) v by (cases r) (auto simp: Let_def split: if_splits)
  moreover have "evidence_inv db1" using g by (simp add: good_step_def)
  ultimately have "good_step db1 db'" using Cons.IH by blast
  then show ?case using good_step_trans g by blast
qed

lemma commit_good:
  assumes inv: "evidence_inv db" and "\<And>db' x. handler db = (db', Inr x) \<Longrightarrow> good_step db db'"
  shows "good_step db (commit handler db)"
  using assms(2) good_step_refl [OF inv] by (intro commit_keeps [of "good_step db"]) auto

lemma evidence_history_good:
  assumes "evidence_history db0 db"
  shows "good_step db0 db"
  using assms
proof (induction rule: evidence_history.induct)
  case start
  then show ?case by (rule good_step_refl)
next
  case (submit db env n u j src ref a det now)
  then have inv: "evidence_inv db" by (simp add: good_step_def)
  have "good_step db (commit (\<lambda>db. submit_observation env db n u j src ref a det now) db)"
    by (rule commit_good [OF inv]) (auto simp: good_step_def decided_kept_def dest: submit_observation_keeps [OF inv])
  then show ?case using submit good_step_trans by blast
next
  case (approve db n k actor amt cur now)
  then have inv: "evidence_inv db" by (simp add: good_step_def)
  have "good_step db (commit (\<lambda>db. approve_manual_observation db n k actor amt cur now) db)"
    by (rule commit_good [OF inv], erule approve_step [OF inv]) (rule evidence_step_good [OF inv])
  then show ?case using approve good_step_trans by blast
next
  case (reject db n k actor reason now)
  then have inv: "evidence_inv db" by (simp add: good_step_def)
  have "good_step db (commit (\<lambda>db. reject_observation db n k actor reason now) db)"
    by (rule commit_good [OF inv], erule reject_step [OF inv]) (rule evidence_step_good [OF inv])
  then show ?case using reject good_step_trans by blast
next
  case (verify db env n k now)
  then have inv: "evidence_inv db" by (simp add: good_step_def)
  have "good_step db (commit (\<lambda>db. verify_onchain_observation env db n k now) db)"
    by (rule commit_good [OF inv]) (auto dest: verify_good [OF inv])
  then show ?case using verify good_step_trans by blast
next
  case (worker db env b now)
  then have inv: "evidence_inv db" by (simp add: good_step_def)
  have "good_step db (commit (\<lambda>db. onchain_run_once env db b now) db)"
    by (rule commit_good [OF inv])
       (auto simp: onchain_run_once_def Let_def good_step_refl [OF inv] dest: verify_each_good [OF inv] split: if_splits)
  then show ?case using worker good_step_trans unfolding onchain_iteration_def commit_def by blast
next
  case (other db db')
  then have "evidence_inv db" by (simp add: good_step_def)
  then have "evidence_inv db'" using other evidence_frame by blast
  then show ?case using other by (simp add: good_step_def)
qed

section \<open>The properties\<close>

text \<open>C10: Verified evidence is paid evidence, in every store the service, its worker and other requests produce in any order: an
  observation that is \<open>VERIFIED\<close> belongs to a \<open>SUCCEEDED\<close> intent of its tenant, for exactly the settlement amount and currency of the
  observation, with exactly one settlement row in the ledger for that amount; no two on-chain observations name the same transaction of
  the same network, whichever tenants they belong to; and what was decided, verified or rejected, is never changed again.\<close>

theorem verified_evidence_is_paid:
  assumes h: "evidence_history db0 db" and ob: "ob \<in> set (payment_observations db)"
  shows "(po_status ob = VERIFIED \<longrightarrow> (\<exists>i t. i \<in> set (payment_intents db) \<and> pi_id i = po_payment_intent_id ob \<and>
       pi_tenant_id i = po_tenant_id ob \<and> pi_status i = PaymentIntentStatus.SUCCEEDED \<and>
       po_settlement_amount ob = Some (pi_amount i) \<and> po_settlement_currency ob = Some (pi_currency i) \<and>
       settlement_rows db i = [t] \<and> lt_amount t = pi_amount i)) \<and>
    (\<forall>ob2 \<in> set (payment_observations db). chain_evidence ob \<and> chain_evidence ob2 \<and> po_network ob2 = po_network ob \<and>
       po_external_reference ob2 = po_external_reference ob \<longrightarrow> ob2 = ob) \<and>
    (\<forall>x \<in> set (payment_observations db0). po_status x \<in> {VERIFIED, REJECTED} \<longrightarrow> x \<in> set (payment_observations db))"
proof (intro conjI impI)
  have g: "good_step db0 db" using h by (rule evidence_history_good)
  then have inv: "evidence_inv db" by (simp add: good_step_def)
  show "\<forall>x \<in> set (payment_observations db0). po_status x \<in> {VERIFIED, REJECTED} \<longrightarrow> x \<in> set (payment_observations db)"
    using g by (simp add: good_step_def decided_kept_def)
  have u: "unique_on chain_evidence (\<lambda>ob. (po_network ob, po_external_reference ob)) (payment_observations db)"
    using inv by (simp add: evidence_inv_def)
  show "\<forall>ob2 \<in> set (payment_observations db). chain_evidence ob \<and> chain_evidence ob2 \<and> po_network ob2 = po_network ob \<and>
       po_external_reference ob2 = po_external_reference ob \<longrightarrow> ob2 = ob"
    using unique_on_first_row [OF u] ob by blast
  assume "po_status ob = VERIFIED"
  then obtain i where i: "i \<in> set (payment_intents db)" "pi_id i = po_payment_intent_id ob" "pi_tenant_id i = po_tenant_id ob"
    "pi_status i = PaymentIntentStatus.SUCCEEDED" "po_settlement_amount ob = Some (pi_amount i)"
    "po_settlement_currency ob = Some (pi_currency i)" using verified_intent [OF inv ob] by blast
  obtain t where "settlement_rows db i = [t]" "pays (wallet_rows db) (pi_id i) (account_of i) (pi_amount i) t"
    using settlement_rows_cases [OF evidence_inv_pay [OF inv] i(1)] i(4) by auto
  then show "\<exists>i t. i \<in> set (payment_intents db) \<and> pi_id i = po_payment_intent_id ob \<and>
       pi_tenant_id i = po_tenant_id ob \<and> pi_status i = PaymentIntentStatus.SUCCEEDED \<and>
       po_settlement_amount ob = Some (pi_amount i) \<and> po_settlement_currency ob = Some (pi_currency i) \<and>
       settlement_rows db i = [t] \<and> lt_amount t = pi_amount i"
    using i by (auto simp: pays_def)
qed


subsection \<open>A sample shop\<close>

definition chain_method :: payment_method_config where
  "chain_method = \<lparr>pm_id = 60, pm_tenant_id = 7, pm_code = ''usdt'', pm_display_name = ''USDT'', pm_method_type = SELF_CUSTODY,
     pm_verification_mode = PaymentVerificationMode.ONCHAIN, pm_provider_name = None, pm_asset = Some ''USDT'', pm_network = Some ''TRON'',
     pm_destination_address = Some ''addr'', pm_destination_memo = None, pm_instructions = None, pm_is_enabled = True,
     pm_requires_admin_approval = False, pm_auto_credit_enabled = False, pm_auto_credit_target = ''ASSET_WALLET'', pm_settings_json = []\<rparr>"

definition chain_intent :: payment_intent where
  "chain_intent = sample_intent\<lparr>pi_order_id := None, pi_purpose := WALLET_TOPUP, pi_payment_method_id := Some 60,
     pi_provider := ''method:usdt'', pi_status := PaymentIntentStatus.PENDING, pi_metadata_json := []\<rparr>"

definition chain_quote :: payment_quote where
  "chain_quote = \<lparr>pq_id = 70, pq_created_at = 5, pq_tenant_id = 7, pq_payment_intent_id = 100, pq_payment_method_id = 60,
     pq_settlement_amount = 40, pq_settlement_currency = ''USD'', pq_asset_amount = 41, pq_asset = ''USDT'', pq_network = ''TRON'',
     pq_rate = 1, pq_rate_source = ''desk'', pq_quote_reference = None, pq_quote_fingerprint = ''q'', pq_expires_at = 50,
     pq_metadata_json = []\<rparr>"

definition chain_verifier :: onchain_verifier where
  "chain_verifier = \<lparr>verifier_name = ''tron'', verify_transaction = (\<lambda>network tx asset address. Inr
     \<lparr>ov_network = network, ov_tx_hash = tx, ov_asset = ''USDT'', ov_destination_address = ''addr'', ov_asset_amount = 41,
      ov_confirmations = 20, ov_is_final = True, ov_succeeded = True, ov_observed_at = Some 8, ov_observed_at_aware = True\<rparr>)\<rparr>"

definition chain_env :: platform_env where
  "chain_env = \<lparr>env_provider = (\<lambda>_ _. Inl PaymentProviderError), env_sha256 = id, env_str_decimal = (\<lambda>_. []), env_str_json = (\<lambda>_. []),
     env_message = (\<lambda>_. []), env_isoformat = (\<lambda>_. []), env_decimal = (\<lambda>_. None), env_get_secret = Inr,
     env_json_loads = (\<lambda>_. None), env_updated_at = pi_created_at, env_operations_stale_seconds = 900,
     env_verifiers = [(''TRON'', chain_verifier)], env_dumps = (\<lambda>_. ''f''), env_format_decimal = (\<lambda>_. [])\<rparr>"

definition chain_shop :: pay_db where
  "chain_shop = empty_shop\<lparr>payment_intents := [chain_intent], payment_methods := [chain_method], payment_quotes := [chain_quote],
     next_id := 101\<rparr>"

lemma chain_shop_inv: "evidence_inv chain_shop"
proof -
  have "pay_inv chain_shop"
    by (simp add: pay_inv_def pay_rows_def paid_books_def ledger_inv_def chain_shop_def empty_shop_def chain_intent_def sample_intent_def
        money_view_def)
  then show ?thesis
    by (simp add: evidence_inv_def chain_shop_def empty_shop_def chain_intent_def sample_intent_def)
qed

definition submitted_shop :: pay_db where
  "submitted_shop = commit (\<lambda>db. submit_observation chain_env db 7 8 100 PaymentObservationSource.ONCHAIN (Some ''tx1'') None None 6) chain_shop"

lemma submitted_history: "evidence_history chain_shop submitted_shop"
  unfolding submitted_shop_def by (rule evidence_history.submit [OF evidence_history.start [OF chain_shop_inv]])



lemma iteration_verifies:
  "map po_status (payment_observations (onchain_iteration chain_env submitted_shop 10 9)) = [VERIFIED] \<and>
   balance_of (onchain_iteration chain_env submitted_shop 10 9) (7, 8, ''USD'') = 40"
  by code_simp

theorem verified_evidence_is_paid_witness:
  "\<exists>(db :: pay_db) ob i t. evidence_history chain_shop db \<and> ob \<in> set (payment_observations db) \<and> po_status ob = VERIFIED \<and>
     i \<in> set (payment_intents db) \<and> pi_id i = po_payment_intent_id ob \<and> settlement_rows db i = [t] \<and> lt_amount t = pi_amount i"
proof -
  let ?db = "onchain_iteration chain_env submitted_shop 10 9"
  have h: "evidence_history chain_shop ?db" using submitted_history by (rule evidence_history.worker)
  obtain ob where ob: "payment_observations ?db = [ob]" "po_status ob = VERIFIED" using iteration_verifies by (auto simp: map_eq_Cons_conv)
  then have "ob \<in> set (payment_observations ?db)" by simp
  from verified_evidence_is_paid [OF h this] ob(2) h this show ?thesis by blast
qed


subsection \<open>A cancelled intent stops the worker\<close>

lemma cancelled_settlement_raises:
  assumes inv: "pay_inv db" and gi: "get_payment_intent db n j = Inr i" and t: "pi_purpose i = WALLET_TOPUP" "pi_order_id i = None"
    and ok: "\<not> amounts_mismatch i va vc" and c: "pi_status i = PaymentIntentStatus.CANCELLED"
  shows "\<exists>db' e. settle_payment_intent db n j va vc now = (db', Inl e) \<and> \<not> payment_error e"
proof -
  obtain db' r where s: "settle_payment_intent db n j va vc now = (db', r)" by force
  show ?thesis
  proof (cases r)
    case (Inl e)
    then show ?thesis using s settle_topup_error [OF inv gi t ok] by blast
  next
    case (Inr x)
    obtain i' t where x: "x = (i', t)" by (cases x)
    have "settles db i db' i' t" using settle_payment_intent_InrD [OF inv s [unfolded Inr x]] gi by auto
    then show ?thesis using c by (simp add: settles_def)
  qed
qed

lemma pending_evidence_found:
  assumes inv: "evidence_inv db" and "ob \<in> set (pending_evidence env db b)"
  shows "ob \<in> set (payment_observations db)" and "po_source ob = PaymentObservationSource.ONCHAIN" "po_status ob = PENDING_VERIFICATION"
    and "get_observation db (po_tenant_id ob) (po_id ob) = Inr ob"
proof -
  show ob: "ob \<in> set (payment_observations db)" and "po_source ob = PaymentObservationSource.ONCHAIN" "po_status ob = PENDING_VERIFICATION"
    using assms(2) by (auto simp: pending_evidence_def dest!: in_set_takeD)
  have "distinct (map po_id (payment_observations db))" using inv by (simp add: evidence_inv_def)
  then have "scalar_one_or_none (\<lambda>x. po_id x = po_id ob \<and> po_tenant_id x = po_tenant_id ob) (payment_observations db) = Inr (Some ob)"
    using unique_found [of "\<lambda>x. (po_id x, po_tenant_id x)" "payment_observations db" ob] ob
    by (auto simp: distinct_map inj_on_def)
  then show "get_observation db (po_tenant_id ob) (po_id ob) = Inr ob" by (simp add: get_observation_def)
qed

lemma cancelled_intent_raises:
  assumes inv: "evidence_inv db" and g: "get_observation db (po_tenant_id ob) (po_id ob) = Inr ob" and ob: "ob \<in> set (payment_observations db)"
    and st: "po_source ob = PaymentObservationSource.ONCHAIN" "po_status ob = PENDING_VERIFICATION" and cc: "chain_confirms env db ob now"
    and gi: "get_payment_intent db (po_tenant_id ob) (po_payment_intent_id ob) = Inr i"
    and cancelled: "pi_status i = PaymentIntentStatus.CANCELLED"
  shows "\<exists>db' e. verify_onchain_observation env db (po_tenant_id ob) (po_id ob) now = (db', Inl e) \<and> \<not> payment_error e"
    and "registered_networks (env_verifiers env) \<noteq> []"
proof -
  obtain m vf result q where a: "get_method db (po_tenant_id ob) (po_payment_method_id ob) False = Inr m"
    "get_verifier (env_verifiers env) (the (pm_network m)) = Inr vf"
    "verify_transaction vf (the (pm_network m)) (the (po_external_reference ob)) (pm_asset m) (pm_destination_address m) = Inr result"
    "truthy (po_external_reference ob)" "truthy (pm_network m)" "answer_matches ob m result = Inr ()" "ov_succeeded result" "ov_is_final result"
    "ov_observed_at result \<noteq> None \<longrightarrow> ov_observed_at_aware result" "quote_of db ob = Some q" "pq_tenant_id q = po_tenant_id ob"
    "quote_covers q i m result = Inr True" "\<not> pq_expires_at q < (case ov_observed_at result of None \<Rightarrow> now | Some t \<Rightarrow> t)"
    using cc gi unfolding chain_confirms_def by (auto simp: not_less)
  let ?o = "observed ob vf result now"
  let ?v = "?o\<lparr>po_status := VERIFIED, po_assurance_level := Some ONCHAIN_VERIFIED, po_settlement_amount := Some (pq_settlement_amount q),
     po_settlement_currency := Some (pq_settlement_currency q), po_verified_at := Some now\<rparr>"
  let ?db = "put_observation ?v (put_observation ?o db)"
  note gd = get_payment_intent_InrD [OF gi]
  obtain k where k: "k \<in> set (payment_intents db)" "pi_id k = po_payment_intent_id ob" "pi_purpose k = WALLET_TOPUP"
    using inv ob unfolding evidence_inv_def by blast
  have "k = i" using intent_by_id [OF evidence_inv_pay [OF inv] k(1) gd(1)] k(2) gd(2) by simp
  then have t: "pi_purpose i = WALLET_TOPUP" "pi_order_id i = None" using k(3) gd(1) inv by (auto simp: evidence_inv_def)
  note cov = quote_covers_InrD [OF a(12)]
  have gi': "get_payment_intent ?db (po_tenant_id ob) (pi_id i) = Inr i" using gi gd(2) by simp
  have pi: "pay_inv ?db" using inv by auto
  have am: "\<not> amounts_mismatch i (Some (pq_settlement_amount q)) (Some (pq_settlement_currency q))" by (simp add: amounts_mismatch_def cov)
  obtain db' e where s: "settle_payment_intent ?db (po_tenant_id ob) (pi_id i) (Some (pq_settlement_amount q)) (Some (pq_settlement_currency q)) now
      = (db', Inl e)" and e: "\<not> payment_error e"
    using cancelled_settlement_raises [OF pi gi' t am cancelled] by blast
  have o: "po_payment_intent_id ?o = po_payment_intent_id ob" "po_payment_quote_id ?o = po_payment_quote_id ob"
    "quote_of (put_observation ?o db) ?o = Some q"
    using a(10) by (simp_all add: observed_def quote_of_def split: option.splits)
  have "settle_by_quote (put_observation ?o db) (po_tenant_id ob) ?o m result now = (db', Inl e)"
    using gi a(9,11,12,13) o s unfolding settle_by_quote_def quote_of_def [symmetric] by (simp add: Let_def) blast
  then have "verify_onchain_observation env db (po_tenant_id ob) (po_id ob) now = (db', Inl e)"
    using g st a by (simp add: verify_onchain_observation_def Let_def)
  then show "\<exists>db' e. verify_onchain_observation env db (po_tenant_id ob) (po_id ob) now = (db', Inl e) \<and> \<not> payment_error e"
    using e by blast
  show "registered_networks (env_verifiers env) \<noteq> []" using a(2)
    by (cases "env_verifiers env") (simp_all add: get_verifier_def registered_networks_def)
qed

text \<open>C40: One cancelled top-up stops the on-chain worker for all tenants: when the oldest pending observation belongs to an intent that
  was cancelled after the evidence was submitted, and the chain then confirms the quoted payment, the settlement raises
  \<open>InvalidStateTransitionError\<close>, which the worker's handler for payment errors does not catch; the iteration is rolled back as a
  whole, the store stays exactly as it was, and the next iteration meets the same observation first.\<close>

theorem cancelled_intent_blocks_onchain_worker:
  assumes inv: "evidence_inv db" and p: "pending_evidence env db b = ob # obs" and cc: "chain_confirms env db ob now"
    and gi: "get_payment_intent db (po_tenant_id ob) (po_payment_intent_id ob) = Inr i"
    and cancelled: "pi_status i = PaymentIntentStatus.CANCELLED"
  shows "onchain_iteration env db b now = db"
proof -
  have "ob \<in> set (pending_evidence env db b)" using p by simp
  note ob = pending_evidence_found [OF inv this]
  note r = cancelled_intent_raises [OF inv ob(4,1,2,3) cc gi cancelled]
  obtain db' e where v: "verify_onchain_observation env db (po_tenant_id ob) (po_id ob) now = (db', Inl e)" and e: "\<not> payment_error e"
    using r(1) by blast
  have "e \<noteq> OnChainVerificationPending" using e by (auto simp: payment_error_def)
  then have "onchain_run_once env db b now = (db', Inl e)" using p e v r(2) by (simp add: onchain_run_once_def Let_def)
  then show ?thesis by (simp add: onchain_iteration_def get_db_session_def)
qed

definition other_intent :: payment_intent where
  "other_intent = chain_intent\<lparr>pi_id := 99, pi_tenant_id := 9, pi_idempotency_key := ''other''\<rparr>"

text \<open>Two tenants with a confirmed payment each; the customer of the first has cancelled the top-up.\<close>

definition blocked_shop :: pay_db where
  "blocked_shop = empty_shop\<lparr>
     payment_intents := [chain_intent\<lparr>pi_status := PaymentIntentStatus.CANCELLED\<rparr>, other_intent],
     payment_methods := [chain_method, chain_method\<lparr>pm_id := 61, pm_tenant_id := 9\<rparr>],
     payment_quotes := [chain_quote, chain_quote\<lparr>pq_id := 71, pq_tenant_id := 9, pq_payment_intent_id := 99, pq_payment_method_id := 61\<rparr>],
     payment_observations :=
       [new_observation 101 6 7 100 chain_method (Some chain_quote)
          PaymentObservationSource.ONCHAIN (Some ''tx1'') (Some ''USDT'') (Some ''TRON'') None ''f'' [],
        new_observation 102 7 9 99 (chain_method\<lparr>pm_id := 61, pm_tenant_id := 9\<rparr>)
          (Some (chain_quote\<lparr>pq_id := 71, pq_tenant_id := 9, pq_payment_intent_id := 99, pq_payment_method_id := 61\<rparr>))
          PaymentObservationSource.ONCHAIN (Some ''tx2'') (Some ''USDT'') (Some ''TRON'') None ''g'' []],
     next_id := 103\<rparr>"

lemmas blocked_defs = blocked_shop_def empty_shop_def chain_intent_def other_intent_def sample_intent_def new_observation_def chain_method_def
  chain_quote_def

lemma blocked_inv: "evidence_inv blocked_shop"
proof -
  have "pay_inv blocked_shop"
    by (simp add: pay_inv_def pay_rows_def paid_books_def ledger_inv_def money_view_def intent_key_def blocked_defs)
  then show ?thesis
    by (simp add: evidence_inv_def unique_on_def chain_evidence_def blocked_defs)
qed

lemma blocked_pending: "map po_id (pending_evidence chain_env blocked_shop 10) = [101, 102]"
  by code_simp

lemma blocked_confirmed: "chain_confirms chain_env blocked_shop (hd (payment_observations blocked_shop)) 9"
proof -
  have "upper (strip ''TRON'') = ''TRON''" by code_simp
  then have "get_verifier (env_verifiers chain_env) ''TRON'' = Inr chain_verifier" by (simp add: get_verifier_def chain_env_def)
  moreover have "get_method blocked_shop 7 60 False = Inr chain_method" by code_simp
  moreover have "get_payment_intent blocked_shop 7 100 = Inr (chain_intent\<lparr>pi_status := PaymentIntentStatus.CANCELLED\<rparr>)"
    "quote_of blocked_shop (hd (payment_observations blocked_shop)) = Some chain_quote"
    by code_simp+
  moreover have "answer_matches (hd (payment_observations blocked_shop)) chain_method
      (case verify_transaction chain_verifier ''TRON'' ''tx1'' (Some ''USDT'') (Some ''addr'') of Inr r \<Rightarrow> r) = Inr ()"
    "quote_covers chain_quote (chain_intent\<lparr>pi_status := PaymentIntentStatus.CANCELLED\<rparr>) chain_method
      (case verify_transaction chain_verifier ''TRON'' ''tx1'' (Some ''USDT'') (Some ''addr'') of Inr r \<Rightarrow> r) = Inr True"
    by code_simp+
  ultimately show ?thesis
    unfolding chain_confirms_def by (simp add: chain_verifier_def blocked_defs truthy_def)
qed

theorem cancelled_intent_blocks_onchain_worker_witness:
  "onchain_iteration chain_env blocked_shop 10 9 = blocked_shop \<and>
   (\<exists>db' ob'. verify_onchain_observation chain_env blocked_shop 9 102 9 = (db', Inr ob') \<and> po_status ob' = VERIFIED)"
proof
  obtain ob obs where p: "pending_evidence chain_env blocked_shop 10 = ob # obs" "po_id ob = 101"
    using blocked_pending by (auto simp: map_eq_Cons_conv)
  have "ob \<in> set (pending_evidence chain_env blocked_shop 10)" using p(1) by simp
  then have "ob \<in> set (payment_observations blocked_shop)" by (auto simp: pending_evidence_def dest!: in_set_takeD)
  then have ob: "ob = hd (payment_observations blocked_shop)" using p(2) by (auto simp: blocked_defs)
  have "get_payment_intent blocked_shop (po_tenant_id ob) (po_payment_intent_id ob) = Inr (chain_intent\<lparr>pi_status := PaymentIntentStatus.CANCELLED\<rparr>)"
    unfolding ob by code_simp
  from cancelled_intent_blocks_onchain_worker [OF blocked_inv p(1) blocked_confirmed [folded ob] this]
  show "onchain_iteration chain_env blocked_shop 10 9 = blocked_shop" by simp
  have "case verify_onchain_observation chain_env blocked_shop 9 102 9 of (db', Inr ob') \<Rightarrow> po_status ob' = VERIFIED | _ \<Rightarrow> False"
    by code_simp
  then show "\<exists>db' ob'. verify_onchain_observation chain_env blocked_shop 9 102 9 = (db', Inr ob') \<and> po_status ob' = VERIFIED"
    by (auto split: prod.splits sum.splits)
qed

end
