(* ===== verification/Stars_Properties.thy ===== *)
theory Stars_Properties
  imports Stars_Laws Reversal_Liveness
begin

text \<open>
  Properties of the Stars reconciliation: what becomes of a refund that Telegram reports, and that no transaction is
  applied twice. The books of the reversals over whole histories, polls included, are the subject of
  \<open>Reversal_Properties\<close>.
\<close>

section \<open>Opening the case of an event\<close>

definition event_rows :: "'x pay_db_scheme \<Rightarrow> bool" where
  "event_rows db \<longleftrightarrow> distinct (map event_key (reconciliation_events db))"

lemma wallet_for_intent_total:
  assumes "ledger_inv db"
  shows "\<exists>w. wallet_for_intent db i = Inr w"
proof (cases i)
  case (Some j)
  have "distinct (map wallet_key (wallets db))" using assms by (simp add: ledger_inv_def)
  from scalar_one_or_none_unique [OF this, of "\<lambda>w. w_tenant_id w = pi_tenant_id j \<and> w_user_id w = pi_user_id j \<and> w_currency w = pi_currency j"]
  show ?thesis by (auto simp: wallet_for_intent_def Some wallet_key_def)
qed (simp add: wallet_for_intent_def)

lemma refresh_case_simps [simp]: "fc_id (refresh_case c e s w m) = fc_id c" "source_case_key (refresh_case c e s w m) = source_case_key c"
  by (simp_all add: refresh_case_def Let_def source_case_key_def bump_def)

lemma event_case_total:
  assumes rows: "case_rows db" and inv: "ledger_inv db"
  shows "\<exists>db' c. ensure_case_for_reconciliation_event db e r = (db', Inr c) \<and> case_rows db' \<and> only_cases db db' \<and>
    reconciliation_events db' = reconciliation_events db"
proof (cases "re_requires_review e")
  case False
  then show ?thesis using rows by (simp add: ensure_case_for_reconciliation_event_def only_cases_def)
next
  case True
  define rv where "rv = (case (r, re_payment_intent_id e) of
      (None, Some i) \<Rightarrow> first_row (\<lambda>r. rv_tenant_id r = re_tenant_id e \<and> rv_payment_intent_id r = i \<and>
         rv_status r = WalletTopUpReversalStatus.MANUAL_REVIEW) (topup_reversals db)
    | _ \<Rightarrow> r)"
  define key where "key = (case rv of Some r \<Rightarrow> source_key_for_reversal (rv_id r) | None \<Rightarrow> source_key_for_event (re_id e))"
  obtain w where w: "(case rv of Some r \<Rightarrow> Inr (first_row (\<lambda>w. w_id w = rv_wallet_id r) (wallets db))
      | None \<Rightarrow> wallet_for_intent db (case re_payment_intent_id e of None \<Rightarrow> None
              | Some i \<Rightarrow> first_row (\<lambda>x. pi_id x = i) (payment_intents db))) = Inr w"
    using wallet_for_intent_total [OF inv] by (cases rv) auto
  let ?p = "\<lambda>c. fc_tenant_id c = re_tenant_id e \<and> fc_source_key c = key"
  have d: "distinct (map source_case_key (resolution_cases db))" using rows by (simp add: case_rows_def)
  have f: "find_case db (re_tenant_id e) key = Inr (first_row ?p (resolution_cases db))"
    unfolding find_case_def by (rule scalar_one_or_none_unique [OF d]) (simp add: source_case_key_def)
  note run = ensure_case_for_reconciliation_event_def [of db e r, folded rv_def, unfolded Let_def, folded key_def]
  show ?thesis
  proof (cases "first_row ?p (resolution_cases db)")
    case None
    let ?c = "\<lambda>a b c d g h m. new_case (next_id db) (re_tenant_id e) key a b c d g h m"
    have "source_case_key (?c a b c d g h m) \<notin> source_case_key ` set (resolution_cases db)" for a b c d g h m
      using None by (auto simp: source_case_key_def first_row_None_iff new_case_def)
    from add_case_rows [OF rows this] have "\<exists>db' x. add_case db (?c a b c d g h m) = (db', Inr x) \<and> case_rows db' \<and> only_cases db db' \<and>
        reconciliation_events db' = reconciliation_events db" for a b c d g h m
      by (simp add: only_cases_def new_case_def)
    then show ?thesis using True w by (simp add: run f None)
  next
    case (Some c)
    have "c \<in> set (resolution_cases db)" using Some by (auto dest: first_row_SomeD)
    from put_case_rows [OF rows this] have "case_rows (put_case (refresh_case c e s wid m) db)" for s wid m by simp
    then show ?thesis using True w by (simp add: run f Some) (simp add: only_cases_def put_case_def)
  qed
qed

lemma case_for_event_total:
  assumes "case_rows db" and "ledger_inv db"
  shows "\<exists>db'. case_for_event db e r = (db', Inr (Some e)) \<and> case_rows db' \<and> only_cases db db' \<and>
    reconciliation_events db' = reconciliation_events db \<and> (re_requires_review e \<or> db' = db)"
proof -
  obtain db' c where "ensure_case_for_reconciliation_event db e r = (db', Inr c)" "case_rows db'" "only_cases db db'"
    "reconciliation_events db' = reconciliation_events db"
    using event_case_total [OF assms] by blast
  then show ?thesis using assms by (cases "re_requires_review e") (simp_all add: case_for_event_def, simp add: only_cases_def)
qed

section \<open>A transaction is applied once\<close>

lemma existing_event_SomeD:
  assumes "existing_event db n k = Inr (Some e)"
  shows "e \<in> set (reconciliation_events db)" "event_key e = (n, ''telegram_stars'', k, EVENT_TYPE)"
  using scalar_one_or_none_SomeD [OF assms [unfolded existing_event_def]] by (auto simp: event_key_def)

lemma existing_event_found:
  assumes "event_rows db" and "e \<in> set (reconciliation_events db)" and "event_key e = (n, ''telegram_stars'', k, EVENT_TYPE)"
  shows "existing_event db n k = Inr (Some e)"
proof -
  have "(\<lambda>x. re_tenant_id x = n \<and> re_provider x = ''telegram_stars'' \<and> re_provider_event_id x = k \<and> re_event_type x = EVENT_TYPE) =
      (\<lambda>x. event_key x = event_key e)"
    using assms(3) by (auto simp: event_key_def)
  then show ?thesis
    using unique_found [of event_key "reconciliation_events db" e] assms(1,2) by (simp add: existing_event_def event_rows_def)
qed

lemma case_for_event_InrD: "case_for_event db e r = (db', Inr x) \<Longrightarrow> x = Some e"
  by (auto simp: case_for_event_def and_then_Inr_iff split: if_splits)

lemma outbound_event:
  assumes "process_outbound_transaction env db n tx now = (db', Inr (Some e))"
  shows "is_relevant_outbound tx" and "tx_id env tx \<noteq> []" and "event_key e = (n, ''telegram_stars'', tx_id env tx, EVENT_TYPE)"
proof -
  have "is_relevant_outbound tx \<and> tx_id env tx \<noteq> [] \<and> event_key e = (n, ''telegram_stars'', tx_id env tx, EVENT_TYPE)"
    using assms
  proof (cases rule: outbound_cases)
    case (known c)
    then show ?thesis using case_for_event_InrD [OF known(4)] existing_event_SomeD(2) by auto
  next
    case (judged i rc a db1 f r db2 c)
    then show ?thesis using case_for_event_InrD [OF judged(7)] by (auto simp: new_event_def event_key_def)
  next
    case (raced i rc a db1 f r c)
    then show ?thesis using case_for_event_InrD [OF raced(5)] existing_event_SomeD(2) by auto
  qed simp
  then show "is_relevant_outbound tx" and "tx_id env tx \<noteq> []" and "event_key e = (n, ''telegram_stars'', tx_id env tx, EVENT_TYPE)"
    by simp_all
qed

text \<open>C25: No transaction of Telegram is applied twice: once a transaction has been processed into an event, processing
  it again in any later store that still has an event with that identity, whatever happened in between and whatever became of
  the event's status, returns that event and moves no money: wallets, ledger, reversals, payments and
  refunds on record stay as they are; at most the operators' case of the event is refreshed.\<close>

theorem outbound_processed_once:
  assumes "process_outbound_transaction env db n tx now = (db1, Inr (Some e))"
    and "ledger_inv db2" and "case_rows db2" and "event_rows db2"
    and "e2 \<in> set (reconciliation_events db2)" and "event_key e2 = event_key e"
  shows "\<exists>db3. process_outbound_transaction env db2 n tx now2 = (db3, Inr (Some e2)) \<and> only_cases db2 db3 \<and>
    reconciliation_events db3 = reconciliation_events db2 \<and> (re_requires_review e2 \<or> db3 = db2)"
proof -
  note e = outbound_event [OF assms(1)]
  have "existing_event db2 n (tx_id env tx) = Inr (Some e2)" using existing_event_found [OF assms(4,5)] assms(6) e(3) by simp
  then have "process_outbound_transaction env db2 n tx now2 = case_for_event db2 e2 None"
    using e(1,2) by (simp add: process_outbound_transaction_def Let_def)
  then show ?thesis using case_for_event_total [OF assms(3,2)] by auto
qed

section \<open>What becomes of a reported refund\<close>


lemma balance_of_cong: "wallets db' = wallets db \<Longrightarrow> balance_of db' = balance_of db"
  by (simp add: balance_of_def fun_eq_iff)

lemma freeze_wallet_balances [simp]: "balance_of (freeze_wallet i db) = balance_of db"
  by (simp add: freeze_wallet_def balance_of_def fun_eq_iff first_row_update_where wallet_key_def split: option.split)


lemma put_reversal_balances [simp]: "balance_of (put_reversal r db) = balance_of db"
  by (rule balance_of_cong) simp













definition sample_stars :: stars_env where
  "sample_stars = \<lparr>env_provider = (\<lambda>_ _. Inr sample_provider), env_sha256 = id, env_str_decimal = (\<lambda>_. []), env_str_json = (\<lambda>_. []),
     env_message = (\<lambda>_. []), env_isoformat = (\<lambda>_. []), env_decimal = (\<lambda>_. None), env_get_secret = Inr,
     env_json_loads = (\<lambda>_. None), env_int = (\<lambda>_. None)\<rparr>"

definition sample_receiver :: dict where
  "sample_receiver = [(''type'', JStr ''user''), (''transaction_type'', JStr ''invoice_payment''), (''user'', JObj [(''id'', JNum 555)])]"

definition sample_tx :: dict where
  "sample_tx = [(''id'', JStr ''c1''), (''amount'', JNum 40), (''date'', JNum 5), (''receiver'', JObj sample_receiver)]"




text \<open>The store after the transaction, read off the run.\<close>

definition mirrored_shop :: pay_db where
  "mirrored_shop = fst (process_outbound_transaction sample_stars topup_shop 7 sample_tx 30)"

lemma mirrored_rows:
  "case process_outbound_transaction sample_stars topup_shop 7 sample_tx 30 of
     (db', Inr (Some e)) \<Rightarrow> resolution_cases db' = [] \<and> reconciliation_events db' = [e] \<and> \<not> re_requires_review e
   | _ \<Rightarrow> False"
  by code_simp

theorem outbound_processed_once_witness:
  "\<exists>e. process_outbound_transaction sample_stars mirrored_shop 7 sample_tx 99 = (mirrored_shop, Inr (Some e))"
proof -
  obtain db' e where run: "process_outbound_transaction sample_stars topup_shop 7 sample_tx 30 = (db', Inr (Some e))"
    and rows: "resolution_cases db' = []" "reconciliation_events db' = [e]" "\<not> re_requires_review e"
    using mirrored_rows by (auto split: prod.splits sum.splits option.splits)
  have m: "mirrored_shop = db'" by (simp add: mirrored_shop_def run)
  have "ledger_inv db'" using outbound_keeps [OF rev_history_safe [OF topup_shop_history] run] by (rule rev_safe_inv)
  moreover have "case_rows db'" "event_rows db'" using rows by (simp_all add: case_rows_def event_rows_def)
  ultimately show ?thesis using outbound_processed_once [OF run, of db' e 99] rows(2,3) m by auto
qed

end
