(* ===== verification/Subscriptions.thy ===== *)
theory Subscriptions
  imports Shop_Store
begin

text \<open>
  The operator's subscriptions: plans and their limits (\<open>packages/saas/service.py\<close>), the control plane
  (\<open>packages/saas/control_plane.py\<close>), commercial access and features (\<open>packages/saas/product_entitlements.py\<close>). A tenant's
  limits come from its plan overlaid with the overrides of its subscription; without a subscription the
  installation's own limits hold. A JSON number is an \<open>int\<close> when it is whole.
\<close>

section \<open>Rows\<close>

datatype SubscriptionStatus = TRIALING | ACTIVE | PAST_DUE | PAUSED | CANCELED

fun subscription_status_value :: "SubscriptionStatus \<Rightarrow> str" where
  "subscription_status_value TRIALING = ''TRIALING''"
| "subscription_status_value ACTIVE = ''ACTIVE''"
| "subscription_status_value PAST_DUE = ''PAST_DUE''"
| "subscription_status_value PAUSED = ''PAUSED''"
| "subscription_status_value CANCELED = ''CANCELED''"

datatype BillingEventStatus = RECEIVED | APPLIED | IGNORED | FAILED

datatype BillingInterval = MONTH | YEAR

fun billing_interval_value :: "BillingInterval \<Rightarrow> str" where
  "billing_interval_value MONTH = ''MONTH''"
| "billing_interval_value YEAR = ''YEAR''"

record saas_plan =
  pl_id :: uuid
  pl_created_at :: timestamp
  pl_key :: str
  pl_name :: str
  pl_description :: "str option"
  pl_is_active :: bool
  pl_is_public :: bool
  pl_entitlements :: dict
  pl_metadata_json :: dict

record saas_plan_price =
  pp_id :: uuid
  pp_plan_id :: uuid
  pp_provider :: str
  pp_external_price_id :: str
  pp_currency :: str
  pp_unit_amount_minor :: int
  pp_interval :: BillingInterval
  pp_interval_count :: int
  pp_is_active :: bool
  pp_metadata_json :: dict

record tenant_subscription =
  ts_id :: uuid
  ts_tenant_id :: uuid
  ts_plan_id :: uuid
  ts_status :: SubscriptionStatus
  ts_billing_provider :: "str option"
  ts_external_customer_id :: "str option"
  ts_external_subscription_id :: "str option"
  ts_current_period_start :: "timestamp option"
  ts_current_period_end :: "timestamp option"
  ts_trial_ends_at :: "timestamp option"
  ts_grace_ends_at :: "timestamp option"
  ts_provider_synced_at :: "timestamp option"
  ts_provider_sync_source :: "str option"
  ts_provider_sync_error :: "str option"
  ts_provider_sync_error_at :: "timestamp option"
  ts_cancel_at_period_end :: bool
  ts_entitlement_overrides :: dict
  ts_billing_metadata :: dict

record billing_event =
  be_id :: uuid
  be_provider :: str
  be_external_event_id :: str
  be_event_type :: str
  be_payload_sha256 :: str
  be_status :: BillingEventStatus
  be_tenant_id :: "uuid option"
  be_subscription_id :: "uuid option"
  be_attempts :: int
  be_processed_at :: "timestamp option"
  be_event_metadata :: dict
  be_last_error :: "str option"

record platform_audit_log =
  pa_id :: uuid
  pa_actor :: str
  pa_action :: str
  pa_resource_type :: str
  pa_resource_id :: str
  pa_tenant_id :: "uuid option"
  pa_details :: dict
  pa_ip_address :: "str option"

datatype BotProvisioningStatus = PENDING | RUNNING | RETRY | READY | FAILED | CANCELLED

record bot_provisioning_job =
  pj_id :: uuid
  pj_tenant_id :: uuid
  pj_status :: BotProvisioningStatus

text \<open>The tables this part of the program reads and writes.\<close>

record saas_db =
  saas_next_id :: uuid
  saas_tenants :: "tenant list"
  saas_bots :: "bot_row list"
  provisioning_jobs :: "bot_provisioning_job list"
  saas_plans :: "saas_plan list"
  plan_prices :: "saas_plan_price list"
  subscriptions :: "tenant_subscription list"
  billing_events :: "billing_event list"
  platform_audit_logs :: "platform_audit_log list"

text \<open>Settings, the hash and renderings of the standard library, the message of an exception.\<close>

record saas_env =
  senv_max_bots :: int
  senv_max_enabled_bots :: int
  senv_max_open_jobs :: int
  senv_grace_days :: int
  senv_stale_seconds :: int
  senv_sha256 :: "str \<Rightarrow> str"
  senv_dumps :: "dict \<Rightarrow> str"
  senv_isoformat :: "timestamp \<Rightarrow> str"
  senv_message :: "error \<Rightarrow> str"

section \<open>Entitlements\<close>

record entitlement_snapshot =
  es_source :: str
  es_plan_key :: "str option"
  es_plan_name :: "str option"
  es_subscription_status :: "str option"
  es_max_bots :: int
  es_max_enabled_bots :: int
  es_max_open_provisioning_jobs :: int
  es_features :: dict

fun merge_step :: "dict \<Rightarrow> str \<times> json \<Rightarrow> dict" where
  "merge_step merged (key, value) =
     (case value of
        JObj flags \<Rightarrow>
          if key = ''features''
          then dict_set merged ''features''
            (JObj (foldl (\<lambda>d (k, v). dict_set d k v)
               (case dict_get merged ''features'' JNull of JObj current \<Rightarrow> current | _ \<Rightarrow> []) flags))
          else dict_set merged key value
      | _ \<Rightarrow> dict_set merged key value)"

definition merge_entitlements :: "dict \<Rightarrow> dict \<Rightarrow> dict" where
  "merge_entitlements plan overrides = foldl merge_step plan overrides"

definition required_positive_int :: "dict \<Rightarrow> str \<Rightarrow> int res" where
  "required_positive_int data key =
     (case dict_get data key JNull of
        JNum x \<Rightarrow> if of_int \<lfloor>x\<rfloor> = x \<and> 1 \<le> x then Inr \<lfloor>x\<rfloor> else Inl EntitlementConfigurationError
      | _ \<Rightarrow> Inl EntitlementConfigurationError)"

fun is_flag :: "str \<times> json \<Rightarrow> bool" where
  "is_flag (key, JBool b) = (strip key \<noteq> [])"
| "is_flag _ = False"

definition feature_flags :: "dict \<Rightarrow> dict res" where
  "feature_flags data =
     (let raw = dict_get data ''features'' JNull in
      if \<not> json_truthy raw then Inr []
      else case raw of
        JObj flags \<Rightarrow> if list_all is_flag flags then Inr flags else Inl EntitlementConfigurationError
      | _ \<Rightarrow> Inl EntitlementConfigurationError)"

definition validate_entitlement_document :: "dict \<Rightarrow> unit res" where
  "validate_entitlement_document data =
     res_bind (required_positive_int data ''max_bots'') (\<lambda>max_bots.
     res_bind (required_positive_int data ''max_enabled_bots'') (\<lambda>max_enabled_bots.
     res_bind (required_positive_int data ''max_open_provisioning_jobs'') (\<lambda>_.
     if max_bots < max_enabled_bots then Inl EntitlementConfigurationError
     else res_bind (feature_flags data) (\<lambda>_. Inr ()))))"

definition subscription_of :: "'x saas_db_scheme \<Rightarrow> uuid \<Rightarrow> tenant_subscription option res" where
  "subscription_of db tenant_id = scalar_one_or_none (\<lambda>s. ts_tenant_id s = tenant_id) (subscriptions db)"

definition plan_of :: "'x saas_db_scheme \<Rightarrow> uuid \<Rightarrow> saas_plan option" where
  "plan_of db plan_id = first_row (\<lambda>p. pl_id p = plan_id) (saas_plans db)"

definition resolve_tenant_entitlements :: "'e saas_env_scheme \<Rightarrow> 'x saas_db_scheme \<Rightarrow> uuid \<Rightarrow> entitlement_snapshot res" where
  "resolve_tenant_entitlements env db tenant_id =
     res_bind (subscription_of db tenant_id) (\<lambda>found.
     case found of
       None \<Rightarrow> Inr \<lparr>es_source = ''SELF_HOSTED_DEFAULTS'', es_plan_key = None, es_plan_name = Some ''Self-hosted'',
         es_subscription_status = None, es_max_bots = senv_max_bots env, es_max_enabled_bots = senv_max_enabled_bots env,
         es_max_open_provisioning_jobs = senv_max_open_jobs env, es_features = []\<rparr>
     | Some subscription \<Rightarrow>
         (case plan_of db (ts_plan_id subscription) of
            None \<Rightarrow> Inl EntitlementConfigurationError
          | Some plan \<Rightarrow>
              let merged = merge_entitlements (pl_entitlements plan) (ts_entitlement_overrides subscription) in
              res_bind (validate_entitlement_document merged) (\<lambda>_.
              res_bind (required_positive_int merged ''max_bots'') (\<lambda>max_bots.
              res_bind (required_positive_int merged ''max_enabled_bots'') (\<lambda>max_enabled_bots.
              res_bind (required_positive_int merged ''max_open_provisioning_jobs'') (\<lambda>max_jobs.
              res_bind (feature_flags merged) (\<lambda>features.
                Inr \<lparr>es_source = ''SAAS_PLAN'', es_plan_key = Some (pl_key plan), es_plan_name = Some (pl_name plan),
                  es_subscription_status = Some (subscription_status_value (ts_status subscription)), es_max_bots = max_bots,
                  es_max_enabled_bots = max_enabled_bots, es_max_open_provisioning_jobs = max_jobs, es_features = features\<rparr>)))))))"

record tenant_usage_snapshot =
  us_bots :: nat
  us_enabled_bots :: nat
  us_open_provisioning_jobs :: nat

definition resolve_tenant_usage :: "'x saas_db_scheme \<Rightarrow> uuid \<Rightarrow> tenant_usage_snapshot" where
  "resolve_tenant_usage db tenant_id =
     (let bots = filter (\<lambda>b. bt_tenant_id b = tenant_id \<and> bt_deleted_at b = None) (saas_bots db) in
      \<lparr>us_bots = length bots, us_enabled_bots = length (filter bt_is_enabled bots),
       us_open_provisioning_jobs = length (filter (\<lambda>j. pj_tenant_id j = tenant_id \<and>
         pj_status j \<in> {BotProvisioningStatus.PENDING, RUNNING, RETRY}) (provisioning_jobs db))\<rparr>)"

section \<open>Commercial access\<close>

definition PRODUCT_FEATURES :: "str list" where
  "PRODUCT_FEATURES = [''custom_branding'', ''canary_rollout'', ''runtime_controls'']"

datatype CommercialAccessState = SELF_HOSTED | ACTIVE | GRACE | BLOCKED

text \<open>The reason of a snapshot is a message text and left out.\<close>

record commercial_access_snapshot =
  ca_state :: CommercialAccessState
  ca_allowed :: bool
  ca_subscription_status :: "SubscriptionStatus option"
  ca_grace_ends_at :: "timestamp option"

definition commercial_access_for_subscription :: "tenant_subscription option \<Rightarrow> timestamp \<Rightarrow> commercial_access_snapshot" where
  "commercial_access_for_subscription subscription now =
     (case subscription of
        None \<Rightarrow> \<lparr>ca_state = SELF_HOSTED, ca_allowed = True, ca_subscription_status = None, ca_grace_ends_at = None\<rparr>
      | Some s \<Rightarrow>
          let snapshot = (\<lambda>state allowed. \<lparr>ca_state = state, ca_allowed = allowed, ca_subscription_status = Some (ts_status s),
                ca_grace_ends_at = ts_grace_ends_at s\<rparr>) in
          if ts_status s \<in> {SubscriptionStatus.ACTIVE, TRIALING} then snapshot CommercialAccessState.ACTIVE True
          else if ts_status s = PAST_DUE \<and> (case ts_grace_ends_at s of None \<Rightarrow> False | Some end \<Rightarrow> now < end) then snapshot GRACE True
          else snapshot BLOCKED False)"

definition resolve_commercial_access :: "'x saas_db_scheme \<Rightarrow> uuid \<Rightarrow> timestamp \<Rightarrow> commercial_access_snapshot" where
  "resolve_commercial_access db tenant_id now =
     commercial_access_for_subscription (first_row (\<lambda>s. ts_tenant_id s = tenant_id) (subscriptions db)) now"

definition flag_of :: "dict \<Rightarrow> str \<Rightarrow> bool" where
  "flag_of flags key = json_truthy (dict_get flags key (JBool False))"

definition effective_feature_flags :: "entitlement_snapshot \<Rightarrow> commercial_access_snapshot \<Rightarrow> (str \<times> bool) list" where
  "effective_feature_flags entitlements access =
     (let configured = es_features entitlements;
          keys = sort (remdups (PRODUCT_FEATURES @ map fst configured)) in
      if es_source entitlements = ''SELF_HOSTED_DEFAULTS'' then map (\<lambda>k. (k, True)) keys
      else map (\<lambda>k. (k, flag_of configured k \<and> ca_allowed access)) keys)"

record product_entitlement_snapshot =
  pe_entitlements :: entitlement_snapshot
  pe_access :: commercial_access_snapshot
  pe_effective_features :: "(str \<times> bool) list"

definition resolve_product_entitlements ::
  "'e saas_env_scheme \<Rightarrow> 'x saas_db_scheme \<Rightarrow> uuid \<Rightarrow> timestamp \<Rightarrow> product_entitlement_snapshot res" where
  "resolve_product_entitlements env db tenant_id now =
     res_bind (resolve_tenant_entitlements env db tenant_id) (\<lambda>entitlements.
       let access = resolve_commercial_access db tenant_id now
       in Inr \<lparr>pe_entitlements = entitlements, pe_access = access,
            pe_effective_features = effective_feature_flags entitlements access\<rparr>)"

definition require_commercial_access :: "'x saas_db_scheme \<Rightarrow> uuid \<Rightarrow> timestamp \<Rightarrow> commercial_access_snapshot res" where
  "require_commercial_access db tenant_id now =
     (let access = resolve_commercial_access db tenant_id now in if ca_allowed access then Inr access else Inl CommercialAccessDenied)"

definition require_feature_entitlement ::
  "'e saas_env_scheme \<Rightarrow> 'x saas_db_scheme \<Rightarrow> uuid \<Rightarrow> str \<Rightarrow> timestamp \<Rightarrow> product_entitlement_snapshot res" where
  "require_feature_entitlement env db tenant_id feature now =
     res_bind (resolve_product_entitlements env db tenant_id now) (\<lambda>snapshot.
     if \<not> ca_allowed (pe_access snapshot) then Inl CommercialAccessDenied
     else if es_source (pe_entitlements snapshot) \<noteq> ''SELF_HOSTED_DEFAULTS'' \<and>
        map_of (pe_effective_features snapshot) feature \<noteq> Some True then Inl FeatureEntitlementDenied
     else Inr snapshot)"

end
