(* ===== verification/Control_Plane.thy ===== *)
theory Control_Plane
  imports Subscriptions
begin

text \<open>
  The operations of the platform control plane on plans, prices, subscriptions and billing events
  (\<open>packages/saas/control_plane.py\<close>). An operation stores each assignment where the source makes it; what a request
  that raises had assigned is rolled back with it, what the reconciliation catches is not. Deleting a
  subscription empties the references of billing events to it (\<open>ON DELETE SET NULL\<close>). All times carry a time zone.
\<close>

section \<open>Checks\<close>

definition is_key_char :: "char \<Rightarrow> bool" where
  "is_key_char c \<longleftrightarrow> is_digit_char c \<or> is_alpha c \<and> lower_char c = c"

definition normalize_plan_key :: "str \<Rightarrow> str res" where
  "normalize_plan_key value =
     (let key = lower (strip value) in
      if 3 \<le> length key \<and> length key \<le> 64 \<and> is_key_char (hd key) \<and> is_key_char (last key) \<and>
         list_all (\<lambda>c. is_key_char c \<or> c = CHR ''-'') key
      then Inr key else Inl PlatformValidationError)"

definition secretish :: "str \<Rightarrow> bool" where
  "secretish key \<longleftrightarrow> list_ex (\<lambda>fragment. contains fragment (lower key))
     [''secret'', ''token'', ''password'', ''credential'', ''authorization'', ''api_key'', ''apikey'', ''private_key'']"

fun safe_json :: "json \<Rightarrow> bool" and safe_items :: "dict \<Rightarrow> bool" and safe_list :: "json list \<Rightarrow> bool" where
  "safe_json (JObj d) = safe_items d"
| "safe_json (JList xs) = safe_list xs"
| "safe_json _ = True"
| "safe_items [] = True"
| "safe_items ((k, v) # d) = (\<not> secretish k \<and> safe_json v \<and> safe_items d)"
| "safe_list [] = True"
| "safe_list (x # xs) = (safe_json x \<and> safe_list xs)"

definition ensure_safe_metadata :: "dict \<Rightarrow> unit res" where
  "ensure_safe_metadata metadata = (if safe_items metadata then Inr () else Inl PlatformValidationError)"

definition validate_plan_state :: "bool \<Rightarrow> bool \<Rightarrow> unit res" where
  "validate_plan_state is_active is_public = (if is_public \<and> \<not> is_active then Inl PlatformValidationError else Inr ())"

definition validate_plan_entitlements :: "dict \<Rightarrow> unit res" where
  "validate_plan_entitlements entitlements =
     (case validate_entitlement_document entitlements of
        Inl EntitlementConfigurationError \<Rightarrow> Inl PlatformValidationError | r \<Rightarrow> r)"

definition validate_subscription_overrides :: "dict \<Rightarrow> dict \<Rightarrow> unit res" where
  "validate_subscription_overrides plan_entitlements overrides =
     (case validate_entitlement_document (merge_entitlements plan_entitlements overrides) of
        Inl EntitlementConfigurationError \<Rightarrow> Inl PlatformValidationError | r \<Rightarrow> r)"

fun check_all :: "('a \<Rightarrow> unit res) \<Rightarrow> 'a list \<Rightarrow> unit res" where
  "check_all f [] = Inr ()"
| "check_all f (x # xs) = res_bind (f x) (\<lambda>_. check_all f xs)"

section \<open>Plans\<close>

definition flush_plan :: "'x saas_db_scheme \<Rightarrow> saas_plan \<Rightarrow> ('x saas_db_scheme, saas_plan) run" where
  "flush_plan db plan =
     (if violates (\<lambda>_. True) pl_key (saas_plans db) plan then (db, Inl IntegrityError)
      else (db\<lparr>saas_plans := saas_plans db @ [plan], saas_next_id := Suc (saas_next_id db)\<rparr>, Inr plan))"

definition put_plan :: "saas_plan \<Rightarrow> 'x saas_db_scheme \<Rightarrow> 'x saas_db_scheme" where
  "put_plan plan db = db\<lparr>saas_plans := put_row pl_id plan (saas_plans db)\<rparr>"

definition strip_given :: "str option \<Rightarrow> str option" where
  "strip_given s = (case s of None \<Rightarrow> None | Some x \<Rightarrow> if x = [] then None else Some (strip x))"

definition create_plan ::
  "'x saas_db_scheme \<Rightarrow> str \<Rightarrow> str \<Rightarrow> str option \<Rightarrow> bool \<Rightarrow> bool \<Rightarrow> dict \<Rightarrow> dict \<Rightarrow> timestamp \<Rightarrow> ('x saas_db_scheme, saas_plan) run" where
  "create_plan db key name description is_active is_public entitlements metadata_json now =
     lift_res db (normalize_plan_key key) (\<lambda>db key.
     if strip name = [] then (db, Inl PlatformValidationError)
     else
       lift_res db (validate_plan_entitlements entitlements) (\<lambda>db _.
       lift_res db (validate_plan_state is_active is_public) (\<lambda>db _.
       lift_res db (ensure_safe_metadata metadata_json) (\<lambda>db _.
       if first_row (\<lambda>p. pl_key p = key) (saas_plans db) \<noteq> None then (db, Inl PlatformConflictError)
       else on_integrity_error (flush_plan db
           \<lparr>pl_id = saas_next_id db, pl_created_at = now, pl_key = key, pl_name = strip name, pl_description = strip_given description,
            pl_is_active = is_active, pl_is_public = is_public, pl_entitlements = entitlements, pl_metadata_json = metadata_json\<rparr>)
         (\<lambda>db. (db, Inl PlatformConflictError))))))"

text \<open>The arguments of \<open>update_plan\<close>; a description is given when it is not \<open>None\<close>.\<close>

record plan_update =
  pu_name :: "str option"
  pu_description :: "str option option"
  pu_is_active :: "bool option"
  pu_is_public :: "bool option"
  pu_entitlements :: "dict option"
  pu_metadata_json :: "dict option"

definition subscribers :: "'x saas_db_scheme \<Rightarrow> uuid \<Rightarrow> tenant_subscription list" where
  "subscribers db plan_id = filter (\<lambda>s. ts_plan_id s = plan_id) (subscriptions db)"

definition update_plan :: "'x saas_db_scheme \<Rightarrow> uuid \<Rightarrow> plan_update \<Rightarrow> ('x saas_db_scheme, saas_plan) run" where
  "update_plan db plan_id req =
     lift_res db (scalar_one_or_none (\<lambda>p. pl_id p = plan_id) (saas_plans db)) (\<lambda>db found.
     case found of
       None \<Rightarrow> (db, Inl PlatformNotFoundError)
     | Some plan \<Rightarrow>
         let next_active = (case pu_is_active req of None \<Rightarrow> pl_is_active plan | Some b \<Rightarrow> b);
             next_public = (case pu_is_public req of None \<Rightarrow> pl_is_public plan | Some b \<Rightarrow> b) in
         lift_res db (validate_plan_state next_active next_public) (\<lambda>db _.
         lift_res db (case pu_name req of None \<Rightarrow> Inr (pl_name plan)
             | Some n \<Rightarrow> if strip n = [] then Inl PlatformValidationError else Inr (strip n)) (\<lambda>db name.
         let plan = plan\<lparr>pl_name := name, pl_description := (case pu_description req of None \<Rightarrow> pl_description plan | Some d \<Rightarrow> strip_given d)\<rparr> in
         lift_res (put_plan plan db) (case pu_entitlements req of None \<Rightarrow> Inr ()
             | Some e \<Rightarrow> res_bind (validate_plan_entitlements e) (\<lambda>_.
                 check_all (\<lambda>s. validate_subscription_overrides e (ts_entitlement_overrides s)) (subscribers db (pl_id plan)))) (\<lambda>db _.
         let plan = plan\<lparr>pl_entitlements := (case pu_entitlements req of None \<Rightarrow> pl_entitlements plan | Some e \<Rightarrow> e)\<rparr> in
         lift_res (put_plan plan db) (case pu_metadata_json req of None \<Rightarrow> Inr () | Some m \<Rightarrow> ensure_safe_metadata m) (\<lambda>db _.
         let plan = plan\<lparr>pl_metadata_json := (case pu_metadata_json req of None \<Rightarrow> pl_metadata_json plan | Some m \<Rightarrow> m),
               pl_is_active := next_active, pl_is_public := next_public\<rparr>
         in (put_plan plan db, Inr plan))))))"

definition get_plan_by_key :: "'x saas_db_scheme \<Rightarrow> str \<Rightarrow> bool \<Rightarrow> saas_plan res" where
  "get_plan_by_key db plan_key require_active =
     res_bind (normalize_plan_key plan_key) (\<lambda>key.
     case first_row (\<lambda>p. pl_key p = key) (saas_plans db) of
       None \<Rightarrow> Inl PlatformNotFoundError
     | Some plan \<Rightarrow> if require_active \<and> \<not> pl_is_active plan then Inl PlatformValidationError else Inr plan)"

section \<open>Prices\<close>

definition price_slot :: "saas_plan_price \<Rightarrow> uuid \<times> str \<times> str \<times> BillingInterval \<times> int" where
  "price_slot p = (pp_plan_id p, pp_provider p, pp_currency p, pp_interval p, pp_interval_count p)"

definition flush_price :: "'x saas_db_scheme \<Rightarrow> saas_plan_price \<Rightarrow> ('x saas_db_scheme, saas_plan_price) run" where
  "flush_price db p =
     (if violates (\<lambda>_. True) (\<lambda>p. (pp_provider p, pp_external_price_id p)) (plan_prices db) p \<or>
         violates (\<lambda>_. True) price_slot (plan_prices db) p then (db, Inl IntegrityError)
      else (db\<lparr>plan_prices := plan_prices db @ [p], saas_next_id := Suc (saas_next_id db)\<rparr>, Inr p))"

definition put_price :: "saas_plan_price \<Rightarrow> 'x saas_db_scheme \<Rightarrow> 'x saas_db_scheme" where
  "put_price p db = db\<lparr>plan_prices := put_row pp_id p (plan_prices db)\<rparr>"

definition create_plan_price ::
  "'x saas_db_scheme \<Rightarrow> uuid \<Rightarrow> str \<Rightarrow> str \<Rightarrow> str \<Rightarrow> int \<Rightarrow> BillingInterval \<Rightarrow> int \<Rightarrow> bool \<Rightarrow> dict option \<Rightarrow> ('x saas_db_scheme, saas_plan_price) run" where
  "create_plan_price db plan_id provider external_price_id currency unit_amount_minor interval interval_count is_active metadata_json =
     (case plan_of db plan_id of
        None \<Rightarrow> (db, Inl PlatformNotFoundError)
      | Some plan \<Rightarrow>
          let provider = lower (strip provider); external = strip external_price_id; currency = upper (strip currency);
              metadata = (case metadata_json of None \<Rightarrow> [] | Some m \<Rightarrow> m) in
          if provider = [] \<or> external = [] then (db, Inl PlatformValidationError)
          else if length currency \<noteq> 3 \<or> \<not> isalpha currency then (db, Inl PlatformValidationError)
          else if unit_amount_minor < 0 then (db, Inl PlatformValidationError)
          else if interval_count < 1 \<or> 36 < interval_count then (db, Inl PlatformValidationError)
          else
            lift_res db (ensure_safe_metadata metadata) (\<lambda>db _.
            on_integrity_error (flush_price db
                \<lparr>pp_id = saas_next_id db, pp_plan_id = pl_id plan, pp_provider = provider, pp_external_price_id = external,
                 pp_currency = currency, pp_unit_amount_minor = unit_amount_minor, pp_interval = interval,
                 pp_interval_count = interval_count, pp_is_active = is_active, pp_metadata_json = metadata\<rparr>)
              (\<lambda>db. (db, Inl PlatformConflictError))))"

definition update_plan_price ::
  "'x saas_db_scheme \<Rightarrow> uuid \<Rightarrow> bool option \<Rightarrow> dict option \<Rightarrow> ('x saas_db_scheme, saas_plan_price) run" where
  "update_plan_price db price_id is_active metadata_json =
     lift_res db (scalar_one_or_none (\<lambda>p. pp_id p = price_id) (plan_prices db)) (\<lambda>db found.
     case found of
       None \<Rightarrow> (db, Inl PlatformNotFoundError)
     | Some p \<Rightarrow>
         let p = p\<lparr>pp_is_active := (case is_active of None \<Rightarrow> pp_is_active p | Some b \<Rightarrow> b)\<rparr> in
         lift_res (put_price p db) (case metadata_json of None \<Rightarrow> Inr () | Some m \<Rightarrow> ensure_safe_metadata m) (\<lambda>db _.
         let p = p\<lparr>pp_metadata_json := (case metadata_json of None \<Rightarrow> pp_metadata_json p | Some m \<Rightarrow> m)\<rparr>
         in (put_price p db, Inr p)))"

section \<open>Subscriptions\<close>

record subscription_request =
  sr_tenant_id :: uuid
  sr_plan_key :: str
  sr_status :: SubscriptionStatus
  sr_billing_provider :: "str option"
  sr_external_customer_id :: "str option"
  sr_external_subscription_id :: "str option"
  sr_current_period_start :: "timestamp option"
  sr_current_period_end :: "timestamp option"
  sr_trial_ends_at :: "timestamp option"
  sr_grace_ends_at :: "timestamp option"
  sr_cancel_at_period_end :: bool
  sr_entitlement_overrides :: "dict option"
  sr_billing_metadata :: "dict option"

definition dict_or_empty :: "dict option \<Rightarrow> dict" where
  "dict_or_empty d = (case d of None \<Rightarrow> [] | Some x \<Rightarrow> x)"

definition put_subscription :: "tenant_subscription \<Rightarrow> 'x saas_db_scheme \<Rightarrow> 'x saas_db_scheme" where
  "put_subscription s db = db\<lparr>subscriptions := put_row ts_id s (subscriptions db)\<rparr>"

definition external_key :: "tenant_subscription \<Rightarrow> str option \<times> str option" where
  "external_key s = (ts_billing_provider s, ts_external_subscription_id s)"

text \<open>The flush of an inserted or changed row, with the two unique constraints; null values never collide.\<close>

definition flush_subscription :: "'x saas_db_scheme \<Rightarrow> tenant_subscription \<Rightarrow> ('x saas_db_scheme, tenant_subscription) run" where
  "flush_subscription db s =
     (let others = filter (\<lambda>x. ts_id x \<noteq> ts_id s) (subscriptions db);
          named = (\<lambda>x. ts_billing_provider x \<noteq> None \<and> ts_external_subscription_id x \<noteq> None) in
      if violates (\<lambda>_. True) ts_tenant_id others s \<or> violates named external_key others s then (db, Inl IntegrityError)
      else if ts_id s \<in> ts_id ` set (subscriptions db) then (put_subscription s db, Inr s)
      else (db\<lparr>subscriptions := subscriptions db @ [s], saas_next_id := Suc (saas_next_id db)\<rparr>, Inr s))"

definition new_subscription :: "uuid \<Rightarrow> uuid \<Rightarrow> uuid \<Rightarrow> tenant_subscription" where
  "new_subscription i tenant_id plan_id =
     \<lparr>ts_id = i, ts_tenant_id = tenant_id, ts_plan_id = plan_id, ts_status = SubscriptionStatus.ACTIVE, ts_billing_provider = None,
      ts_external_customer_id = None, ts_external_subscription_id = None, ts_current_period_start = None, ts_current_period_end = None,
      ts_trial_ends_at = None, ts_grace_ends_at = None, ts_provider_synced_at = None, ts_provider_sync_source = None,
      ts_provider_sync_error = None, ts_provider_sync_error_at = None, ts_cancel_at_period_end = False,
      ts_entitlement_overrides = [], ts_billing_metadata = []\<rparr>"

definition live_tenant :: "'x saas_db_scheme \<Rightarrow> uuid \<Rightarrow> bool" where
  "live_tenant db tenant_id \<longleftrightarrow>
     (case first_row (\<lambda>t. tn_id t = tenant_id) (saas_tenants db) of None \<Rightarrow> False | Some t \<Rightarrow> tn_deleted_at t = None)"

definition upsert_subscription :: "'x saas_db_scheme \<Rightarrow> subscription_request \<Rightarrow> ('x saas_db_scheme, tenant_subscription) run" where
  "upsert_subscription db req =
     (if \<not> live_tenant db (sr_tenant_id req) then (db, Inl PlatformNotFoundError)
      else
        lift_res db (subscription_of db (sr_tenant_id req)) (\<lambda>db found.
        lift_res db (get_plan_by_key db (sr_plan_key req) False) (\<lambda>db plan.
        if \<not> pl_is_active plan \<and> (case found of None \<Rightarrow> True | Some s \<Rightarrow> ts_plan_id s \<noteq> pl_id plan)
        then (db, Inl PlatformValidationError)
        else
          let overrides = dict_or_empty (sr_entitlement_overrides req); metadata = dict_or_empty (sr_billing_metadata req) in
          lift_res db (validate_subscription_overrides (pl_entitlements plan) overrides) (\<lambda>db _.
          lift_res db (ensure_safe_metadata metadata) (\<lambda>db _.
          let provider = map_option lower (strip_given (sr_billing_provider req));
              external_subscription = strip_given (sr_external_subscription_id req) in
          if truthy external_subscription \<and> \<not> truthy provider then (db, Inl PlatformValidationError)
          else if (case (sr_current_period_start req, sr_current_period_end req) of (Some a, Some b) \<Rightarrow> b < a | _ \<Rightarrow> False)
          then (db, Inl PlatformValidationError)
          else
            let s = (case found of None \<Rightarrow> new_subscription (saas_next_id db) (sr_tenant_id req) (pl_id plan) | Some s \<Rightarrow> s);
                s = s\<lparr>ts_plan_id := pl_id plan, ts_status := sr_status req, ts_billing_provider := provider,
                  ts_external_customer_id := strip_given (sr_external_customer_id req),
                  ts_external_subscription_id := external_subscription, ts_current_period_start := sr_current_period_start req,
                  ts_current_period_end := sr_current_period_end req, ts_trial_ends_at := sr_trial_ends_at req,
                  ts_grace_ends_at := sr_grace_ends_at req, ts_cancel_at_period_end := sr_cancel_at_period_end req,
                  ts_entitlement_overrides := overrides, ts_billing_metadata := metadata\<rparr>
            in on_integrity_error (flush_subscription db s) (\<lambda>db. (db, Inl PlatformConflictError)))))))"

definition clear_subscription :: "'x saas_db_scheme \<Rightarrow> uuid \<Rightarrow> ('x saas_db_scheme, tenant_subscription) run" where
  "clear_subscription db tenant_id =
     lift_res db (subscription_of db tenant_id) (\<lambda>db found.
     case found of
       None \<Rightarrow> (db, Inl PlatformNotFoundError)
     | Some s \<Rightarrow>
         (db\<lparr>subscriptions := filter (\<lambda>x. ts_id x \<noteq> ts_id s) (subscriptions db),
             billing_events := update_where (\<lambda>e. be_subscription_id e = Some (ts_id s)) (\<lambda>e. e\<lparr>be_subscription_id := None\<rparr>)
               (billing_events db)\<rparr>, Inr s))"

section \<open>Billing events\<close>

record billing_notice = subscription_request +
  bn_provider :: str
  bn_external_event_id :: str
  bn_event_type :: str
  bn_event_metadata :: "dict option"

record billing_convergence_result =
  cv_event :: billing_event
  cv_subscription :: tenant_subscription
  cv_duplicate :: bool

text \<open>A time in the fingerprint is its ISO form in UTC; nested JSON values are their own canonical form.\<close>

definition time_json :: "'e saas_env_scheme \<Rightarrow> timestamp option \<Rightarrow> json" where
  "time_json env t = json_opt (map_option (senv_isoformat env) t)"

definition billing_fingerprint :: "'e saas_env_scheme \<Rightarrow> str \<Rightarrow> str \<Rightarrow> str \<Rightarrow> str \<Rightarrow> billing_notice \<Rightarrow> str" where
  "billing_fingerprint env provider event_id event_type plan_key n =
     senv_sha256 env (senv_dumps env
       [(''provider'', JStr provider), (''external_event_id'', JStr event_id), (''event_type'', JStr event_type),
        (''tenant_id'', JStr (str_uuid (sr_tenant_id n))), (''plan_key'', JStr plan_key),
        (''status'', JStr (subscription_status_value (sr_status n))), (''external_customer_id'', json_opt (sr_external_customer_id n)),
        (''external_subscription_id'', json_opt (sr_external_subscription_id n)),
        (''current_period_start'', time_json env (sr_current_period_start n)), (''current_period_end'', time_json env (sr_current_period_end n)),
        (''trial_ends_at'', time_json env (sr_trial_ends_at n)), (''grace_ends_at'', time_json env (sr_grace_ends_at n)),
        (''cancel_at_period_end'', JBool (sr_cancel_at_period_end n)),
        (''entitlement_overrides'', JObj (dict_or_empty (sr_entitlement_overrides n))),
        (''billing_metadata'', JObj (dict_or_empty (sr_billing_metadata n))),
        (''event_metadata'', JObj (dict_or_empty (bn_event_metadata n)))])"

definition find_billing_event :: "'x saas_db_scheme \<Rightarrow> str \<Rightarrow> str \<Rightarrow> billing_event option res" where
  "find_billing_event db provider event_id =
     scalar_one_or_none (\<lambda>e. be_provider e = provider \<and> be_external_event_id e = event_id) (billing_events db)"

definition replay_event :: "'x saas_db_scheme \<Rightarrow> billing_event \<Rightarrow> str \<Rightarrow> billing_convergence_result res" where
  "replay_event db e payload_sha256 =
     (if be_payload_sha256 e \<noteq> payload_sha256 then Inl BillingEventConflictError
      else
        res_bind (scalar_one_or_none (\<lambda>s. Some (ts_id s) = be_subscription_id e) (subscriptions db)) (\<lambda>found.
        case found of
          None \<Rightarrow> Inl PlatformConflictError
        | Some s \<Rightarrow> Inr \<lparr>cv_event = e, cv_subscription = s, cv_duplicate = True\<rparr>))"

definition flush_billing_event :: "'x saas_db_scheme \<Rightarrow> billing_event \<Rightarrow> ('x saas_db_scheme, billing_event) run" where
  "flush_billing_event db e =
     (if violates (\<lambda>_. True) (\<lambda>e. (be_provider e, be_external_event_id e)) (billing_events db) e then (db, Inl IntegrityError)
      else (db\<lparr>billing_events := billing_events db @ [e], saas_next_id := Suc (saas_next_id db)\<rparr>, Inr e))"

definition put_billing_event :: "billing_event \<Rightarrow> 'x saas_db_scheme \<Rightarrow> 'x saas_db_scheme" where
  "put_billing_event e db = db\<lparr>billing_events := put_row be_id e (billing_events db)\<rparr>"

text \<open>The update of the subscription in a savepoint, and its outcome on the event.\<close>

definition apply_notice ::
  "'e saas_env_scheme \<Rightarrow> 'x saas_db_scheme \<Rightarrow> billing_event \<Rightarrow> str \<Rightarrow> billing_notice \<Rightarrow> timestamp \<Rightarrow>
   ('x saas_db_scheme, billing_convergence_result) run" where
  "apply_notice env db event provider n now =
     (case nested db (upsert_subscription db (subscription_request.truncate (n\<lparr>sr_billing_provider := Some provider\<rparr>))) of
        (db, Inl e) \<Rightarrow>
          (put_billing_event (event\<lparr>be_status := BillingEventStatus.FAILED, be_last_error := Some (take 1000 (senv_message env e)),
             be_processed_at := Some now\<rparr>) db, Inl e)
      | (db, Inr s) \<Rightarrow>
          let event = event\<lparr>be_status := APPLIED, be_subscription_id := Some (ts_id s), be_processed_at := Some now,
                be_last_error := None\<rparr>
          in (put_billing_event event db, Inr \<lparr>cv_event = event, cv_subscription = s, cv_duplicate = False\<rparr>))"

definition converge_billing_event ::
  "'e saas_env_scheme \<Rightarrow> 'x saas_db_scheme \<Rightarrow> billing_notice \<Rightarrow> timestamp \<Rightarrow> ('x saas_db_scheme, billing_convergence_result) run" where
  "converge_billing_event env db n now =
     (let provider = lower (strip (bn_provider n)); event_id = strip (bn_external_event_id n); event_type = strip (bn_event_type n) in
      if provider = [] \<or> event_id = [] \<or> event_type = [] then (db, Inl PlatformValidationError)
      else
        lift_res db (ensure_safe_metadata (dict_or_empty (bn_event_metadata n))) (\<lambda>db _.
        lift_res db (normalize_plan_key (sr_plan_key n)) (\<lambda>db plan_key.
        let payload_sha256 = billing_fingerprint env provider event_id event_type plan_key n in
        lift_res db (find_billing_event db provider event_id) (\<lambda>db existing.
        case existing of
          Some e \<Rightarrow> lift_res db (replay_event db e payload_sha256) (\<lambda>db r. (db, Inr r))
        | None \<Rightarrow>
            (case nested db (flush_billing_event db
                \<lparr>be_id = saas_next_id db, be_provider = provider, be_external_event_id = event_id, be_event_type = event_type,
                 be_payload_sha256 = payload_sha256, be_status = RECEIVED, be_tenant_id = Some (sr_tenant_id n),
                 be_subscription_id = None, be_attempts = 1, be_processed_at = None,
                 be_event_metadata = dict_or_empty (bn_event_metadata n), be_last_error = None\<rparr>) of
               (db, Inr event) \<Rightarrow> apply_notice env db event provider n now
             | (db, Inl IntegrityError) \<Rightarrow>
                 lift_res db (find_billing_event db provider event_id) (\<lambda>db concurrent.
                 case concurrent of
                   None \<Rightarrow> (db, Inl PlatformConflictError)
                 | Some e \<Rightarrow> lift_res db (replay_event db e payload_sha256) (\<lambda>db r. (db, Inr r)))
             | (db, Inl err) \<Rightarrow> (db, Inl err))))))"

section \<open>Audit and counts\<close>

definition append_platform_audit ::
  "'x saas_db_scheme \<Rightarrow> str \<Rightarrow> str \<Rightarrow> str \<Rightarrow> uuid option \<Rightarrow> dict option \<Rightarrow> str option \<Rightarrow> str \<Rightarrow> ('x saas_db_scheme, platform_audit_log) run" where
  "append_platform_audit db action resource_type resource_id tenant_id details ip_address actor =
     (let details = dict_or_empty details in
      lift_res db (ensure_safe_metadata details) (\<lambda>db _.
      let r = \<lparr>pa_id = saas_next_id db, pa_actor = take 120 actor, pa_action = take 100 action, pa_resource_type = take 100 resource_type,
            pa_resource_id = take 100 resource_id, pa_tenant_id = tenant_id, pa_details = details, pa_ip_address = ip_address\<rparr>
      in (db\<lparr>platform_audit_logs := platform_audit_logs db @ [r], saas_next_id := Suc (saas_next_id db)\<rparr>, Inr r)))"

definition platform_counts :: "'x saas_db_scheme \<Rightarrow> (str \<times> nat) list" where
  "platform_counts db =
     [(''tenants'', length (saas_tenants db)),
      (''active_tenants'', length (filter (\<lambda>t. tn_deleted_at t = None \<and> tn_is_active t) (saas_tenants db))),
      (''plans'', length (saas_plans db)), (''active_plans'', length (filter pl_is_active (saas_plans db))),
      (''subscriptions'', length (subscriptions db)), (''billing_events'', length (billing_events db))]"

end
