(* ===== verification/Billing.thy ===== *)
theory Billing
  imports Control_Plane
begin

text \<open>
  Billing of tenants through a provider (\<open>packages/saas/billing_service.py\<close>) and the poll of its worker
  (\<open>packages/saas/reconciliation_worker.py\<close>). The provider's adapter is a record of functions; its Stripe implementation is in \<open>Stripe_Billing\<close>. \<open>benv_updated_at\<close> is the \<open>updated_at\<close> column.
\<close>

record provider_subscription_state =
  st_provider :: str
  st_event_type :: str
  st_external_event_id :: "str option"
  st_tenant_id :: uuid
  st_external_price_id :: str
  st_status :: SubscriptionStatus
  st_external_customer_id :: "str option"
  st_external_subscription_id :: str
  st_current_period_start :: "timestamp option"
  st_current_period_end :: "timestamp option"
  st_trial_ends_at :: "timestamp option"
  st_cancel_at_period_end :: bool
  st_provider_created_at :: timestamp
  st_revision :: str
  st_event_metadata :: dict

record verified_webhook_event =
  vw_provider :: str
  vw_external_event_id :: str
  vw_event_type :: str
  vw_provider_created_at :: timestamp
  vw_subscription_state :: "provider_subscription_state option"
  vw_external_subscription_id :: "str option"
  vw_tenant_id :: "uuid option"

record billing_adapter =
  adapter_name :: str
  fetch_subscription :: "str \<Rightarrow> provider_subscription_state res"

record billing_env = saas_env +
  benv_adapter :: "billing_adapter res"
  benv_reconcile_enabled :: bool
  benv_batch_size :: nat
  benv_updated_at :: "tenant_subscription \<Rightarrow> timestamp"
  benv_str_time :: "timestamp \<Rightarrow> str"

section \<open>Catalogue and checkout\<close>

definition priced :: "'x saas_db_scheme \<Rightarrow> (saas_plan_price \<times> saas_plan) list" where
  "priced db = concat (map (\<lambda>p. map (\<lambda>plan. (p, plan)) (filter (\<lambda>plan. pl_id plan = pp_plan_id p) (saas_plans db))) (plan_prices db))"

definition list_public_billing_catalog :: "'x saas_db_scheme \<Rightarrow> str \<Rightarrow> (saas_plan_price \<times> saas_plan) list" where
  "list_public_billing_catalog db provider =
     sort_key (\<lambda>(p, plan). (pl_created_at plan, pl_key plan, pp_unit_amount_minor p))
       (filter (\<lambda>(p, plan). pl_is_active plan \<and> pl_is_public plan \<and> pp_is_active p \<and> pp_provider p = lower (strip provider)) (priced db))"

definition resolve_checkout_price :: "'x saas_db_scheme \<Rightarrow> uuid \<Rightarrow> str \<Rightarrow> (saas_plan_price \<times> saas_plan) res" where
  "resolve_checkout_price db price_id provider =
     res_bind (scalar_one_or_none (\<lambda>(p, plan). pp_id p = price_id) (priced db)) (\<lambda>row.
     case row of
       None \<Rightarrow> Inl PlatformNotFoundError
     | Some (p, plan) \<Rightarrow>
         if pp_provider p \<noteq> lower (strip provider) then Inl PlatformValidationError
         else if \<not> pp_is_active p \<or> \<not> pl_is_active plan \<or> \<not> pl_is_public plan then Inl PlatformValidationError
         else Inr (p, plan))"

definition ensure_checkout_allowed :: "tenant_subscription option \<Rightarrow> unit res" where
  "ensure_checkout_allowed subscription =
     (case subscription of
        None \<Rightarrow> Inr ()
      | Some s \<Rightarrow> if ts_status s = CANCELED then Inr () else Inl PlatformConflictError)"

section \<open>Convergence\<close>

definition reconciliation_event_id :: "'e billing_env_scheme \<Rightarrow> provider_subscription_state \<Rightarrow> str" where
  "reconciliation_event_id env st =
     (let time = (\<lambda>t. json_opt (map_option (benv_str_time env) t)) in
      ''sync:'' @ st_external_subscription_id st @ '':'' @ take 32 (senv_sha256 env (senv_dumps env
        [(''subscription_id'', JStr (st_external_subscription_id st)), (''tenant_id'', JStr (str_uuid (st_tenant_id st))),
         (''price_id'', JStr (st_external_price_id st)), (''status'', JStr (subscription_status_value (st_status st))),
         (''current_period_start'', time (st_current_period_start st)), (''current_period_end'', time (st_current_period_end st)),
         (''trial_ends_at'', time (st_trial_ends_at st)), (''cancel_at_period_end'', JBool (st_cancel_at_period_end st)),
         (''revision'', JStr (st_revision st))])))"

definition grace_end :: "'e billing_env_scheme \<Rightarrow> provider_subscription_state \<Rightarrow> tenant_subscription option \<Rightarrow> timestamp option" where
  "grace_end env st existing =
     (if st_status st = PAST_DUE then
        (case existing of
           Some s \<Rightarrow>
             if ts_status s = PAST_DUE \<and> ts_grace_ends_at s \<noteq> None then ts_grace_ends_at s
             else Some (st_provider_created_at st + timedelta_seconds (86400 * senv_grace_days env))
         | None \<Rightarrow> Some (st_provider_created_at st + timedelta_seconds (86400 * senv_grace_days env)))
      else None)"

definition price_terms :: "saas_plan_price \<Rightarrow> provider_subscription_state \<Rightarrow> dict" where
  "price_terms p st =
     [(''external_price_id'', JStr (st_external_price_id st)), (''catalog_price_id'', JStr (str_uuid (pp_id p))),
      (''billing_interval'', JStr (billing_interval_value (pp_interval p))),
      (''billing_interval_count'', JNum (of_int (pp_interval_count p))), (''currency'', JStr (pp_currency p)),
      (''unit_amount_minor'', JNum (of_int (pp_unit_amount_minor p)))]"

definition state_notice ::
  "'e billing_env_scheme \<Rightarrow> provider_subscription_state \<Rightarrow> str option \<Rightarrow> str option \<Rightarrow> str \<Rightarrow> saas_plan_price \<Rightarrow> saas_plan \<Rightarrow>
   tenant_subscription option \<Rightarrow> billing_notice" where
  "state_notice env st external_event_id event_type source p plan existing =
     \<lparr>sr_tenant_id = st_tenant_id st, sr_plan_key = pl_key plan, sr_status = st_status st, sr_billing_provider = None,
      sr_external_customer_id = st_external_customer_id st, sr_external_subscription_id = Some (st_external_subscription_id st),
      sr_current_period_start = st_current_period_start st, sr_current_period_end = st_current_period_end st,
      sr_trial_ends_at = st_trial_ends_at st, sr_grace_ends_at = grace_end env st existing,
      sr_cancel_at_period_end = st_cancel_at_period_end st, sr_entitlement_overrides = None,
      sr_billing_metadata = Some (price_terms p st), bn_provider = st_provider st,
      bn_external_event_id = (if truthy external_event_id then the external_event_id else reconciliation_event_id env st),
      bn_event_type = (if truthy event_type then the event_type else st_event_type st),
      bn_event_metadata = Some (dict_set (dict_set (st_event_metadata st) ''source'' (JStr source)) ''external_price_id''
        (JStr (st_external_price_id st)))\<rparr>"

definition synced :: "str \<Rightarrow> timestamp \<Rightarrow> tenant_subscription \<Rightarrow> tenant_subscription" where
  "synced source now s = s\<lparr>ts_provider_synced_at := Some now, ts_provider_sync_source := Some (take 50 source),
     ts_provider_sync_error := None, ts_provider_sync_error_at := None\<rparr>"

definition converge_provider_subscription_state ::
  "'e billing_env_scheme \<Rightarrow> 'x saas_db_scheme \<Rightarrow> provider_subscription_state \<Rightarrow> str option \<Rightarrow> str option \<Rightarrow> str \<Rightarrow> timestamp \<Rightarrow>
   ('x saas_db_scheme, billing_convergence_result) run" where
  "converge_provider_subscription_state env db st external_event_id event_type source now =
     lift_res db (scalar_one_or_none (\<lambda>p. pp_provider p = st_provider st \<and> pp_external_price_id p = st_external_price_id st)
         (plan_prices db)) (\<lambda>db found.
     case (case found of None \<Rightarrow> None | Some p \<Rightarrow> map_option (Pair p) (plan_of db (pp_plan_id p))) of
       None \<Rightarrow> (db, Inl PlatformValidationError)
     | Some (p, plan) \<Rightarrow>
         lift_res db (subscription_of db (st_tenant_id st)) (\<lambda>db existing.
         and_then (converge_billing_event env db (state_notice env st external_event_id event_type source p plan existing) now)
           (\<lambda>db r. let s = synced source now (cv_subscription r)
                   in (put_subscription s db, Inr (r\<lparr>cv_subscription := s\<rparr>)))))"

definition converge_verified_webhook ::
  "'e billing_env_scheme \<Rightarrow> 'x saas_db_scheme \<Rightarrow> billing_adapter \<Rightarrow> verified_webhook_event \<Rightarrow> timestamp \<Rightarrow>
   ('x saas_db_scheme, billing_convergence_result option) run" where
  "converge_verified_webhook env db adapter verified now =
     lift_res db (case vw_subscription_state verified of
         Some st \<Rightarrow> Inr (Some st)
       | None \<Rightarrow>
           if truthy (vw_external_subscription_id verified) then
             res_bind (fetch_subscription adapter (the (vw_external_subscription_id verified))) (\<lambda>st.
               if vw_tenant_id verified \<noteq> None \<and> Some (st_tenant_id st) \<noteq> vw_tenant_id verified
               then Inl PlatformConflictError else Inr (Some st))
           else Inr None) (\<lambda>db state.
     case state of
       None \<Rightarrow> (db, Inr None)
     | Some st \<Rightarrow>
         and_then (converge_provider_subscription_state env db st (Some (vw_external_event_id verified))
             (Some (vw_event_type verified)) ''SIGNED_WEBHOOK'' now) (\<lambda>db r. (db, Inr (Some r))))"

section \<open>Pull reconciliation\<close>

record billing_reconcile_summary =
  su_provider :: str
  su_scanned :: nat
  su_applied :: nat
  su_duplicates :: nat
  su_failed :: nat
  su_errors :: "str list"

text \<open>\<open>except (BillingProviderError, PlatformValidationError, PlatformConflictError)\<close>, subclasses included.\<close>

definition sync_failure :: "error \<Rightarrow> bool" where
  "sync_failure e \<longleftrightarrow>
     e \<in> {BillingProviderError, BillingProviderNotConfiguredError, BillingWebhookVerificationError, BillingProviderResponseError,
          PlatformValidationError, PlatformConflictError, BillingEventConflictError}"

definition note_sync_error :: "'e saas_env_scheme \<Rightarrow> 'x saas_db_scheme \<Rightarrow> uuid \<Rightarrow> error \<Rightarrow> timestamp \<Rightarrow> 'x saas_db_scheme" where
  "note_sync_error env db sid e now =
     db\<lparr>subscriptions := update_where (\<lambda>s. ts_id s = sid)
       (\<lambda>s. s\<lparr>ts_provider_sync_error := Some (take 1000 (senv_message env e)), ts_provider_sync_error_at := Some now\<rparr>) (subscriptions db)\<rparr>"

definition sync_subscription ::
  "'e billing_env_scheme \<Rightarrow> 'x saas_db_scheme \<Rightarrow> billing_adapter \<Rightarrow> tenant_subscription \<Rightarrow> str \<Rightarrow> timestamp \<Rightarrow>
   ('x saas_db_scheme, billing_convergence_result) run" where
  "sync_subscription env db adapter s external_id now =
     lift_res db (fetch_subscription adapter external_id) (\<lambda>db st.
     if st_tenant_id st \<noteq> ts_tenant_id s then (db, Inl PlatformConflictError)
     else converge_provider_subscription_state env db st None None ''PULL_RECONCILIATION'' now)"

fun reconcile_subscriptions ::
  "'e billing_env_scheme \<Rightarrow> 'x saas_db_scheme \<Rightarrow> billing_adapter \<Rightarrow> tenant_subscription list \<Rightarrow> billing_reconcile_summary \<Rightarrow> timestamp \<Rightarrow>
   ('x saas_db_scheme, billing_reconcile_summary) run" where
  "reconcile_subscriptions env db adapter [] summary now = (db, Inr summary)"
| "reconcile_subscriptions env db adapter (s # ss) summary now =
     (if \<not> truthy (ts_external_subscription_id s) then reconcile_subscriptions env db adapter ss summary now
      else
        let external_id = the (ts_external_subscription_id s) in
        case sync_subscription env db adapter s external_id now of
          (db, Inr r) \<Rightarrow>
            reconcile_subscriptions env db adapter ss
              (if cv_duplicate r then summary\<lparr>su_duplicates := Suc (su_duplicates summary)\<rparr>
               else summary\<lparr>su_applied := Suc (su_applied summary)\<rparr>) now
        | (db, Inl e) \<Rightarrow>
            if sync_failure e
            then reconcile_subscriptions env (note_sync_error env db (ts_id s) e now) adapter ss
              (summary\<lparr>su_failed := Suc (su_failed summary),
                 su_errors := su_errors summary @ [external_id @ '': '' @ take 240 (take 1000 (senv_message env e))]\<rparr>) now
            else (db, Inl e))"

definition managed_subscriptions :: "'e billing_env_scheme \<Rightarrow> 'x saas_db_scheme \<Rightarrow> str \<Rightarrow> nat \<Rightarrow> tenant_subscription list" where
  "managed_subscriptions env db provider limit =
     take limit (sort_key (\<lambda>s. (benv_updated_at env s, ts_id s)) (filter (\<lambda>s. ts_billing_provider s = Some provider \<and>
       ts_external_subscription_id s \<noteq> None) (subscriptions db)))"

definition reconcile_provider_subscriptions ::
  "'e billing_env_scheme \<Rightarrow> 'x saas_db_scheme \<Rightarrow> billing_adapter \<Rightarrow> nat \<Rightarrow> timestamp \<Rightarrow> ('x saas_db_scheme, billing_reconcile_summary) run" where
  "reconcile_provider_subscriptions env db adapter limit now =
     (let provider = lower (strip (adapter_name adapter)); subs = managed_subscriptions env db provider limit in
      and_then (reconcile_subscriptions env db adapter subs
          \<lparr>su_provider = provider, su_scanned = length subs, su_applied = 0, su_duplicates = 0, su_failed = 0, su_errors = []\<rparr> now)
        (\<lambda>db summary. (db, Inr (summary\<lparr>su_errors := take 20 (su_errors summary)\<rparr>))))"

definition billing_poll_once ::
  "'e billing_env_scheme \<Rightarrow> 'x saas_db_scheme \<Rightarrow> timestamp \<Rightarrow> ('x saas_db_scheme, billing_reconcile_summary option) run" where
  "billing_poll_once env db now =
     (if \<not> benv_reconcile_enabled env then (db, Inr None)
      else
        lift_res db (benv_adapter env) (\<lambda>db adapter.
        get_db_session (\<lambda>db.
          and_then (reconcile_provider_subscriptions env db adapter (benv_batch_size env) now) (\<lambda>db summary.
          and_then (append_platform_audit db ''BILLING_RECONCILIATION_RUN'' ''BILLING_PROVIDER'' (su_provider summary) None
              (Some [(''scanned'', JNum (of_nat (su_scanned summary))), (''applied'', JNum (of_nat (su_applied summary))),
                 (''duplicates'', JNum (of_nat (su_duplicates summary))), (''failed'', JNum (of_nat (su_failed summary))),
                 (''mode'', JStr ''PERIODIC_PULL'')]) None ''SYSTEM_BILLING_RECONCILER'') (\<lambda>db _. (db, Inr (Some summary))))) db))"

end
