(* ===== verification/Stripe_Billing.thy ===== *)
theory Stripe_Billing
  imports Billing
begin

text \<open>
  The Stripe adapter of the billing of tenants (\<open>packages/saas/billing.py\<close>) and the webhook that feeds it
  (\<open>apps/api/v1/saas_billing.py\<close>). The HTTP client, HMAC-SHA256, the JSON parser, the hash and the rendering of numbers and
  containers are fields of the environment; a header is text in Latin-1, so a character may lie outside ASCII.
\<close>

record stripe_env =
  sk_http :: "str \<Rightarrow> str \<Rightarrow> str \<Rightarrow> (str \<times> str) list \<Rightarrow> str option \<Rightarrow> (nat \<times> json option) option"
  sk_hmac :: "str \<Rightarrow> str \<Rightarrow> str"
  sk_loads :: "str \<Rightarrow> json option"
  sk_render :: "json \<Rightarrow> str"
  sk_sha256 :: "str \<Rightarrow> str"
  sk_dumps :: "dict \<Rightarrow> str"
  sk_provider :: str
  sk_secret_key :: "str option"
  sk_webhook_secret :: "str option"
  sk_tolerance :: int

record stripe_adapter =
  sa_secret_key :: str
  sa_webhook_secret :: str
  sa_tolerance :: int

section \<open>Values of a response\<close>

text \<open>\<open>int(s)\<close> of a text: blanks around it, a sign, digits with single underscores between them.\<close>

definition int_digits :: "str \<Rightarrow> bool" where
  "int_digits s \<longleftrightarrow> s \<noteq> [] \<and> list_all (\<lambda>c. is_digit_char c \<or> c = CHR ''_'') s \<and> hd s \<noteq> CHR ''_'' \<and> last s \<noteq> CHR ''_'' \<and>
     \<not> contains ''__'' s"

definition digits_value :: "str \<Rightarrow> int" where
  "digits_value s = foldl (\<lambda>n c. 10 * n + (int (char_code c) - 48)) 0 (filter is_digit_char s)"

definition py_int :: "str \<Rightarrow> int option" where
  "py_int s =
     (let t = strip s; signed = (t \<noteq> [] \<and> hd t \<in> {CHR ''-'', CHR ''+''}); digits = (if signed then tl t else t) in
      if \<not> int_digits digits then None
      else Some (if signed \<and> hd t = CHR ''-'' then - digits_value digits else digits_value digits))"

fun str_of :: "'e stripe_env_scheme \<Rightarrow> json \<Rightarrow> str" where
  "str_of env JNull = ''None''"
| "str_of env (JBool b) = (if b then ''True'' else ''False'')"
| "str_of env (JStr s) = s"
| "str_of env v = sk_render env v"

definition text_field :: "'e stripe_env_scheme \<Rightarrow> dict \<Rightarrow> str \<Rightarrow> str" where
  "text_field env body key = (let v = dict_get body key JNull in strip (if json_truthy v then str_of env v else []))"

definition string_or_none :: "'e stripe_env_scheme \<Rightarrow> json \<Rightarrow> str option" where
  "string_or_none env v = (if v = JNull \<or> strip (str_of env v) = [] then None else Some (strip (str_of env v)))"

text \<open>\<open>datetime.fromtimestamp\<close> accepts the years 1 to 9999; past the platform's clock type it overflows.\<close>

definition stripe_timestamp :: "json \<Rightarrow> timestamp option res" where
  "stripe_timestamp v =
     (if v = JNull \<or> v = JStr [] then Inr None
      else case (case v of JNum x \<Rightarrow> Some (round_down x) | JBool b \<Rightarrow> Some (of_bool b) | JStr s \<Rightarrow> py_int s | _ \<Rightarrow> None) of
        None \<Rightarrow> Inl BillingProviderResponseError
      | Some n \<Rightarrow>
          if n < -(2 ^ 63) \<or> 2 ^ 63 \<le> n then Inl OverflowError
          else if n < -62135596800 \<or> 253402300800 \<le> n then Inl BillingProviderResponseError
          else Inr (Some (timedelta_seconds n)))"

definition metadata_tenant_id :: "'e stripe_env_scheme \<Rightarrow> dict \<Rightarrow> json \<Rightarrow> uuid res" where
  "metadata_tenant_id env metadata fallback =
     (let raw = dict_get metadata ''ghbf_tenant_id'' JNull in
      case parse_uuid (str_of env (if json_truthy raw then raw else fallback)) of
        None \<Rightarrow> Inl BillingProviderResponseError | Some u \<Rightarrow> Inr u)"

definition stripe_subscription_price_id :: "dict \<Rightarrow> str res" where
  "stripe_subscription_price_id obj =
     (case dict_get obj ''items'' JNull of
        JObj items \<Rightarrow>
          (case dict_get items ''data'' JNull of
             JList [JObj item] \<Rightarrow>
               (case dict_get item ''price'' JNull of
                  JObj price \<Rightarrow>
                    (case dict_get price ''id'' JNull of
                       JStr s \<Rightarrow> if strip s = [] then Inl BillingProviderResponseError else Inr (strip s)
                     | _ \<Rightarrow> Inl BillingProviderResponseError)
                | _ \<Rightarrow> Inl BillingProviderResponseError)
           | _ \<Rightarrow> Inl BillingProviderResponseError)
      | _ \<Rightarrow> Inl BillingProviderResponseError)"

definition stripe_statuses :: "(str \<times> SubscriptionStatus) list" where
  "stripe_statuses =
     [(''trialing'', TRIALING), (''active'', SubscriptionStatus.ACTIVE), (''past_due'', PAST_DUE), (''unpaid'', PAST_DUE),
      (''paused'', PAUSED), (''canceled'', CANCELED), (''incomplete'', PAUSED), (''incomplete_expired'', CANCELED)]"

definition stripe_subscription_status :: "str \<Rightarrow> SubscriptionStatus res" where
  "stripe_subscription_status value =
     (case map_of stripe_statuses (lower (strip value)) of None \<Rightarrow> Inl BillingProviderResponseError | Some s \<Rightarrow> Inr s)"

section \<open>The adapter\<close>

definition new_stripe_adapter :: "str \<Rightarrow> str \<Rightarrow> int \<Rightarrow> stripe_adapter res" where
  "new_stripe_adapter secret_key webhook_secret tolerance =
     (if strip secret_key = [] \<or> strip webhook_secret = [] then Inl BillingProviderNotConfiguredError
      else Inr \<lparr>sa_secret_key = strip secret_key, sa_webhook_secret = strip webhook_secret, sa_tolerance = tolerance\<rparr>)"

definition stripe_request ::
  "'e stripe_env_scheme \<Rightarrow> stripe_adapter \<Rightarrow> str \<Rightarrow> str \<Rightarrow> (str \<times> str) list \<Rightarrow> str option \<Rightarrow> dict res" where
  "stripe_request env a verb path data idempotency_key =
     (case sk_http env (sa_secret_key a) verb (''https://api.stripe.com/v1'' @ path) data
        (if truthy idempotency_key then Some (take 255 (the idempotency_key)) else None) of
        Some (status, Some (JObj body)) \<Rightarrow> if 400 \<le> status then Inl BillingProviderResponseError else Inr body
      | _ \<Rightarrow> Inl BillingProviderResponseError)"

record checkout_session_result =
  cs_provider :: str
  cs_external_session_id :: str
  cs_url :: str
  cs_expires_at :: "timestamp option"

definition create_checkout_session ::
  "'e stripe_env_scheme \<Rightarrow> stripe_adapter \<Rightarrow> uuid \<Rightarrow> str \<Rightarrow> str \<Rightarrow> str \<Rightarrow> str \<Rightarrow> str \<Rightarrow> str \<Rightarrow> str option \<Rightarrow>
   checkout_session_result res" where
  "create_checkout_session env a tenant_id tenant_name plan_key external_price_id success_url cancel_url idempotency_key
     existing_customer_id =
     res_bind (stripe_request env a ''POST'' ''/checkout/sessions''
         ([(''mode'', ''subscription''), (''line_items[0][price]'', external_price_id), (''line_items[0][quantity]'', ''1''),
           (''success_url'', success_url), (''cancel_url'', cancel_url), (''client_reference_id'', str_uuid tenant_id),
           (''subscription_data[metadata][ghbf_tenant_id]'', str_uuid tenant_id),
           (''subscription_data[metadata][ghbf_plan_key]'', plan_key),
           (''subscription_data[metadata][ghbf_price_id]'', external_price_id), (''metadata[ghbf_tenant_id]'', str_uuid tenant_id),
           (''metadata[ghbf_plan_key]'', plan_key), (''metadata[ghbf_price_id]'', external_price_id),
           (''metadata[ghbf_tenant_name]'', take 120 tenant_name)] @
          (if truthy existing_customer_id then [(''customer'', the existing_customer_id)] else [])) (Some idempotency_key)) (\<lambda>body.
     let session_id = text_field env body ''id''; url = text_field env body ''url'' in
     if session_id = [] \<or> \<not> starts_with ''https://'' url then Inl BillingProviderResponseError
     else res_bind (stripe_timestamp (dict_get body ''expires_at'' JNull)) (\<lambda>expires_at.
       Inr \<lparr>cs_provider = ''stripe'', cs_external_session_id = session_id, cs_url = url, cs_expires_at = expires_at\<rparr>))"

record portal_session_result =
  po_provider :: str
  po_external_session_id :: str
  po_url :: str

definition create_portal_session :: "'e stripe_env_scheme \<Rightarrow> stripe_adapter \<Rightarrow> str \<Rightarrow> str \<Rightarrow> portal_session_result res" where
  "create_portal_session env a external_customer_id return_url =
     res_bind (stripe_request env a ''POST'' ''/billing_portal/sessions''
         [(''customer'', external_customer_id), (''return_url'', return_url)] None) (\<lambda>body.
     let session_id = text_field env body ''id''; url = text_field env body ''url'' in
     if session_id = [] \<or> \<not> starts_with ''https://'' url then Inl BillingProviderResponseError
     else Inr \<lparr>po_provider = ''stripe'', po_external_session_id = session_id, po_url = url\<rparr>)"

definition metadata_of :: "dict \<Rightarrow> dict" where
  "metadata_of obj = (case dict_get obj ''metadata'' JNull of JObj m \<Rightarrow> m | _ \<Rightarrow> [])"

definition normalize_subscription_object ::
  "'e stripe_env_scheme \<Rightarrow> dict \<Rightarrow> str \<Rightarrow> str option \<Rightarrow> timestamp \<Rightarrow> str option \<Rightarrow> provider_subscription_state res" where
  "normalize_subscription_object env obj event_type external_event_id provider_created_at revision =
     res_bind (metadata_tenant_id env (metadata_of obj) JNull) (\<lambda>tenant_id.
     res_bind (stripe_subscription_price_id obj) (\<lambda>external_price_id.
     let external_subscription_id = text_field env obj ''id'' in
     if external_subscription_id = [] then Inl BillingProviderResponseError
     else
       res_bind (stripe_subscription_status (text_field env obj ''status'')) (\<lambda>status.
       let seed = (case external_event_id of None \<Rightarrow> [] | Some i \<Rightarrow> i) @ '':'' @ external_subscription_id @ '':'' @
             subscription_status_value status @ '':'' @ external_price_id;
           revision = (case revision of None \<Rightarrow> take 32 (sk_sha256 env seed) | Some r \<Rightarrow> r) in
       res_bind (stripe_timestamp (dict_get obj ''current_period_start'' JNull)) (\<lambda>period_start.
       res_bind (stripe_timestamp (dict_get obj ''current_period_end'' JNull)) (\<lambda>period_end.
       res_bind (stripe_timestamp (dict_get obj ''trial_end'' JNull)) (\<lambda>trial_end.
         Inr \<lparr>st_provider = ''stripe'', st_event_type = event_type, st_external_event_id = external_event_id, st_tenant_id = tenant_id,
           st_external_price_id = external_price_id, st_status = status,
           st_external_customer_id = string_or_none env (dict_get obj ''customer'' JNull),
           st_external_subscription_id = external_subscription_id, st_current_period_start = period_start,
           st_current_period_end = period_end, st_trial_ends_at = trial_end,
           st_cancel_at_period_end = json_truthy (dict_get obj ''cancel_at_period_end'' (JBool False)),
           st_provider_created_at = provider_created_at, st_revision = revision,
           st_event_metadata = [(''source'', JStr ''stripe''), (''external_price_id'', JStr external_price_id)]\<rparr>))))))"

definition stripe_fetch_subscription ::
  "'e stripe_env_scheme \<Rightarrow> stripe_adapter \<Rightarrow> timestamp \<Rightarrow> str \<Rightarrow> provider_subscription_state res" where
  "stripe_fetch_subscription env a now external_subscription_id =
     res_bind (stripe_request env a ''GET'' (''/subscriptions/'' @ external_subscription_id) [] None) (\<lambda>body.
     let field = (\<lambda>k. (k, dict_get body k JNull));
         revision = take 32 (sk_sha256 env (sk_dumps env
           (map field [''id'', ''status'', ''cancel_at_period_end'', ''current_period_start'', ''current_period_end'', ''trial_end'',
              ''items'', ''metadata'']))) in
     normalize_subscription_object env body ''subscription.reconciled'' None now (Some revision))"

definition as_billing_adapter :: "'e stripe_env_scheme \<Rightarrow> timestamp \<Rightarrow> stripe_adapter \<Rightarrow> billing_adapter" where
  "as_billing_adapter env now a = \<lparr>adapter_name = ''stripe'', fetch_subscription = stripe_fetch_subscription env a now\<rparr>"

definition get_billing_provider :: "'e stripe_env_scheme \<Rightarrow> str option \<Rightarrow> stripe_adapter res" where
  "get_billing_provider env provider =
     (let configured = lower (strip (sk_provider env));
          selected = lower (strip (if truthy provider then the provider else configured)) in
      if selected \<noteq> configured then Inl BillingProviderNotConfiguredError
      else if selected = ''stripe'' then new_stripe_adapter (case sk_secret_key env of None \<Rightarrow> [] | Some s \<Rightarrow> s)
        (case sk_webhook_secret env of None \<Rightarrow> [] | Some s \<Rightarrow> s) (sk_tolerance env)
      else Inl BillingProviderNotConfiguredError)"

section \<open>Signed webhooks\<close>

fun split_on :: "char \<Rightarrow> str \<Rightarrow> str list" where
  "split_on sep [] = [[]]"
| "split_on sep (c # s) = (if c = sep then [] # split_on sep s else (case split_on sep s of [] \<Rightarrow> [[c]] | p # ps \<Rightarrow> (c # p) # ps))"

text \<open>\<open>s.partition("=")\<close>; \<open>None\<close> when the separator does not occur.\<close>

definition partition_eq :: "str \<Rightarrow> (str \<times> str) option" where
  "partition_eq s = (case dropWhile (\<lambda>c. c \<noteq> CHR ''='') s of [] \<Rightarrow> None | _ # rest \<Rightarrow> Some (takeWhile (\<lambda>c. c \<noteq> CHR ''='') s, rest))"

fun signature_parts :: "str list \<Rightarrow> int option \<Rightarrow> str list \<Rightarrow> (int option \<times> str list) res" where
  "signature_parts [] timestamp signatures = Inr (timestamp, signatures)"
| "signature_parts (part # parts) timestamp signatures =
     (case partition_eq (strip part) of
        None \<Rightarrow> signature_parts parts timestamp signatures
      | Some (key, raw) \<Rightarrow>
          if key = ''t'' then
            (case py_int raw of None \<Rightarrow> Inl BillingWebhookVerificationError | Some n \<Rightarrow> signature_parts parts (Some n) signatures)
          else if key = ''v1'' \<and> raw \<noteq> [] then signature_parts parts timestamp (signatures @ [raw])
          else signature_parts parts timestamp signatures)"

definition parse_stripe_signature :: "str \<Rightarrow> (int \<times> str list) res" where
  "parse_stripe_signature value =
     res_bind (signature_parts (split_on CHR '','' value) None []) (\<lambda>(timestamp, signatures).
     case timestamp of
       None \<Rightarrow> Inl BillingWebhookVerificationError
     | Some t \<Rightarrow> if signatures = [] then Inl BillingWebhookVerificationError else Inr (t, signatures))"

text \<open>\<open>any(hmac.compare_digest(...))\<close>: the comparison of texts is defined on ASCII only, and \<open>any\<close> stops at the first match.\<close>

fun any_digest :: "str \<Rightarrow> str list \<Rightarrow> bool res" where
  "any_digest expected [] = Inr False"
| "any_digest expected (c # cs) =
     (if list_ex (\<lambda>x. 128 \<le> char_code x) (expected @ c) then Inl TypeError
      else if expected = c then Inr True else any_digest expected cs)"

definition webhook_event :: "str \<Rightarrow> str \<Rightarrow> timestamp \<Rightarrow> provider_subscription_state option \<Rightarrow> str option \<Rightarrow> uuid option \<Rightarrow> verified_webhook_event" where
  "webhook_event event_id event_type created state sid tenant_id =
     \<lparr>vw_provider = ''stripe'', vw_external_event_id = event_id, vw_event_type = event_type, vw_provider_created_at = created,
      vw_subscription_state = state, vw_external_subscription_id = sid, vw_tenant_id = tenant_id\<rparr>"

text \<open>The part of \<open>verify_webhook\<close> after the signature.\<close>

definition read_event :: "'e stripe_env_scheme \<Rightarrow> str \<Rightarrow> timestamp \<Rightarrow> verified_webhook_event res" where
  "read_event env payload now =
     (case sk_loads env payload of
        Some (JObj event) \<Rightarrow>
          let event_id = text_field env event ''id''; event_type = text_field env event ''type'' in
          res_bind (stripe_timestamp (dict_get event ''created'' JNull)) (\<lambda>stamp.
          let created = (case stamp of None \<Rightarrow> now | Some t \<Rightarrow> t) in
          if event_id = [] \<or> event_type = [] then Inl BillingWebhookVerificationError
          else
            (case (case dict_get event ''data'' JNull of JObj data \<Rightarrow> dict_get data ''object'' JNull | _ \<Rightarrow> JNull) of
               JObj obj \<Rightarrow>
                 if starts_with ''customer.subscription.'' event_type then
                   res_bind (normalize_subscription_object env obj event_type (Some event_id) created None) (\<lambda>st.
                     Inr (webhook_event event_id event_type created (Some st) (Some (st_external_subscription_id st)) (Some (st_tenant_id st))))
                 else if event_type = ''checkout.session.completed'' then
                   res_bind (metadata_tenant_id env (metadata_of obj) (dict_get obj ''client_reference_id'' JNull)) (\<lambda>tenant_id.
                   case string_or_none env (dict_get obj ''subscription'' JNull) of
                     None \<Rightarrow> Inl BillingWebhookVerificationError
                   | Some sid \<Rightarrow> Inr (webhook_event event_id event_type created None (Some sid) (Some tenant_id)))
                 else Inr (webhook_event event_id event_type created None None None)
             | _ \<Rightarrow> Inl BillingWebhookVerificationError))
      | _ \<Rightarrow> Inl BillingWebhookVerificationError)"

text \<open>\<open>int(time.time())\<close> is the clock in whole seconds.\<close>

definition verify_webhook :: "'e stripe_env_scheme \<Rightarrow> stripe_adapter \<Rightarrow> str \<Rightarrow> str \<Rightarrow> timestamp \<Rightarrow> verified_webhook_event res" where
  "verify_webhook env a payload signature_header now =
     res_bind (parse_stripe_signature signature_header) (\<lambda>(stamp, signatures).
     if sa_tolerance a < \<bar>now div 1000000 - stamp\<bar> then Inl BillingWebhookVerificationError
     else
       res_bind (any_digest (sk_hmac env (sa_webhook_secret a) (str_int stamp @ ''.'' @ payload)) signatures) (\<lambda>ok.
       if \<not> ok then Inl BillingWebhookVerificationError else read_event env payload now))"

section \<open>The endpoint\<close>

definition billing_http_error :: "error \<Rightarrow> error" where
  "billing_http_error e =
     (if e = PlatformNotFoundError then HTTPException 404
      else if e \<in> {PlatformConflictError, BillingEventConflictError} then HTTPException 409
      else if e = PlatformValidationError then HTTPException 422
      else if e \<in> {BillingProviderError, BillingProviderNotConfiguredError, BillingWebhookVerificationError, BillingProviderResponseError}
      then HTTPException 503 else HTTPException 400)"

text \<open>What the \<open>except\<close> clauses of the webhook make of an error; any other error passes.\<close>

definition webhook_error :: "error \<Rightarrow> error" where
  "webhook_error e =
     (if e = BillingWebhookVerificationError then HTTPException 400
      else if e \<in> {BillingProviderError, BillingProviderNotConfiguredError, BillingProviderResponseError,
        PlatformNotFoundError, PlatformConflictError, BillingEventConflictError, PlatformValidationError} then billing_http_error e
      else e)"

record billing_webhook_response =
  wr_status :: str
  wr_event_id :: str
  wr_duplicate :: bool

definition stripe_billing_webhook ::
  "'e billing_env_scheme \<Rightarrow> 'f stripe_env_scheme \<Rightarrow> 'x saas_db_scheme \<Rightarrow> str \<Rightarrow> str option \<Rightarrow> str option \<Rightarrow> timestamp \<Rightarrow>
   ('x saas_db_scheme, billing_webhook_response) run" where
  "stripe_billing_webhook env senv db payload stripe_signature ip now =
     (let handled =
        lift_res db (get_billing_provider senv (Some ''stripe'')) (\<lambda>db a.
        lift_res db (verify_webhook senv a payload (case stripe_signature of None \<Rightarrow> [] | Some s \<Rightarrow> s) now) (\<lambda>db verified.
        and_then (converge_verified_webhook env db (as_billing_adapter senv now a) verified now) (\<lambda>db' result.
        case result of
          None \<Rightarrow> (db, Inr \<lparr>wr_status = ''IGNORED'', wr_event_id = vw_external_event_id verified, wr_duplicate = False\<rparr>)
        | Some r \<Rightarrow>
            and_then (append_platform_audit db' (if cv_duplicate r then ''BILLING_WEBHOOK_DUPLICATE'' else ''BILLING_WEBHOOK_APPLIED'')
                ''BILLING_EVENT'' (str_uuid (be_id (cv_event r))) (be_tenant_id (cv_event r))
                (Some [(''provider'', JStr (be_provider (cv_event r))), (''event_type'', JStr (be_event_type (cv_event r))),
                   (''duplicate'', JBool (cv_duplicate r))]) ip ''BILLING_WEBHOOK:stripe'') (\<lambda>db' _.
              (db', Inr \<lparr>wr_status = (if cv_duplicate r then ''DUPLICATE'' else ''APPLIED''),
                 wr_event_id = vw_external_event_id verified, wr_duplicate = cv_duplicate r\<rparr>)))))
      in case handled of (db', Inr r) \<Rightarrow> (db', Inr r) | (_, Inl e) \<Rightarrow> (db, Inl (webhook_error e)))"

end
