(* ===== verification/Saas_Operations.thy ===== *)
theory Saas_Operations
  imports Subscriptions
begin

text \<open>
  The operator's health report and the inspection of a tenant (\<open>packages/saas/operations.py\<close>). The texts of an alert are
  left out; its severity, code and tenant are kept.
\<close>

record saas_operations_alert =
  al_severity :: str
  al_code :: str
  al_tenant_id :: uuid
  al_tenant_slug :: str

record saas_health_snapshot =
  hs_total_tenants :: nat
  hs_self_hosted_tenants :: nat
  hs_subscribed_tenants :: nat
  hs_active_access :: nat
  hs_grace_access :: nat
  hs_blocked_access :: nat
  hs_provider_managed_subscriptions :: nat
  hs_stale_provider_syncs :: nat
  hs_status_counts :: "(str \<times> nat) list"
  hs_alerts :: "saas_operations_alert list"

definition alert_for :: "tenant \<Rightarrow> str \<Rightarrow> str \<Rightarrow> saas_operations_alert" where
  "alert_for t severity code = \<lparr>al_severity = severity, al_code = code, al_tenant_id = tn_id t, al_tenant_slug = tn_slug t\<rparr>"

definition add_status :: "(str \<times> nat) list \<Rightarrow> str \<Rightarrow> (str \<times> nat) list" where
  "add_status counts status = AList.update status (Suc (case map_of counts status of None \<Rightarrow> 0 | Some n \<Rightarrow> n)) counts"

definition stale_sync :: "tenant_subscription \<Rightarrow> timestamp \<Rightarrow> int \<Rightarrow> bool" where
  "stale_sync s current stale_after \<longleftrightarrow>
     (case ts_provider_synced_at s of None \<Rightarrow> True | Some t \<Rightarrow> stale_after < current - t) \<and> ts_status s \<noteq> CANCELED"

definition access_alerts :: "tenant \<Rightarrow> tenant_subscription \<Rightarrow> CommercialAccessState \<Rightarrow> saas_operations_alert list" where
  "access_alerts t s state =
     (if state = GRACE then [alert_for t ''WARN'' ''SUBSCRIPTION_IN_GRACE'']
      else if state = BLOCKED \<and> ts_status s \<noteq> CANCELED
      then [alert_for t (if ts_status s = PAST_DUE then ''CRITICAL'' else ''WARN'') ''COMMERCIAL_ACCESS_BLOCKED'']
      else [])"

definition provider_managed :: "tenant_subscription \<Rightarrow> bool" where
  "provider_managed s \<longleftrightarrow> truthy (ts_billing_provider s) \<and> truthy (ts_external_subscription_id s)"

definition sync_alerts :: "tenant \<Rightarrow> tenant_subscription \<Rightarrow> timestamp \<Rightarrow> int \<Rightarrow> saas_operations_alert list" where
  "sync_alerts t s current stale_after =
     (if \<not> provider_managed s then []
      else (if truthy (ts_provider_sync_error s) then [alert_for t ''WARN'' ''PROVIDER_SYNC_ERROR''] else []) @
        (if stale_sync s current stale_after then [alert_for t ''WARN'' ''PROVIDER_SYNC_STALE''] else []))"

text \<open>One round of the loop over the subscriptions; those of deleted tenants are passed over.\<close>

definition health_step ::
  "tenant list \<Rightarrow> timestamp \<Rightarrow> int \<Rightarrow> saas_health_snapshot \<Rightarrow> tenant_subscription \<Rightarrow> saas_health_snapshot" where
  "health_step live current stale_after h s =
     (case first_row (\<lambda>t. tn_id t = ts_tenant_id s) live of
        None \<Rightarrow> h
      | Some t \<Rightarrow>
          let state = ca_state (commercial_access_for_subscription (Some s) current);
              counted = (\<lambda>p n. if p then Suc n else n) in
          h\<lparr>hs_status_counts := add_status (hs_status_counts h) (subscription_status_value (ts_status s)),
            hs_active_access := counted (state = CommercialAccessState.ACTIVE) (hs_active_access h),
            hs_grace_access := counted (state = GRACE) (hs_grace_access h),
            hs_blocked_access := counted (state = BLOCKED) (hs_blocked_access h),
            hs_provider_managed_subscriptions := counted (provider_managed s) (hs_provider_managed_subscriptions h),
            hs_stale_provider_syncs := counted (provider_managed s \<and> stale_sync s current stale_after) (hs_stale_provider_syncs h),
            hs_alerts := hs_alerts h @ access_alerts t s state @ sync_alerts t s current stale_after\<rparr>)"

definition severity_rank :: "str \<Rightarrow> nat" where
  "severity_rank severity = (if severity = ''CRITICAL'' then 0 else if severity = ''WARN'' then 1 else if severity = ''INFO'' then 2 else 9)"

definition collect_saas_health :: "'e saas_env_scheme \<Rightarrow> 'x saas_db_scheme \<Rightarrow> timestamp \<Rightarrow> int option \<Rightarrow> saas_health_snapshot" where
  "collect_saas_health env db current stale_seconds =
     (let stale_after = timedelta_seconds (case stale_seconds of Some n \<Rightarrow> if n = 0 then senv_stale_seconds env else n
            | None \<Rightarrow> senv_stale_seconds env);
          live = filter (\<lambda>t. tn_deleted_at t = None) (saas_tenants db);
          subscribed = (\<lambda>t. list_ex (\<lambda>s. ts_tenant_id s = tn_id t) (subscriptions db));
          h = foldl (health_step live current stale_after)
            \<lparr>hs_total_tenants = length live, hs_self_hosted_tenants = length (filter (\<lambda>t. \<not> subscribed t) live),
             hs_subscribed_tenants = length (filter subscribed live), hs_active_access = 0, hs_grace_access = 0, hs_blocked_access = 0,
             hs_provider_managed_subscriptions = 0, hs_stale_provider_syncs = 0, hs_status_counts = [], hs_alerts = []\<rparr>
            (subscriptions db)
      in h\<lparr>hs_alerts := sort_key (\<lambda>a. (severity_rank (al_severity a), al_tenant_slug a, al_code a)) (hs_alerts h)\<rparr>)"

record tenant_saas_inspection =
  in_tenant :: tenant
  in_subscription :: "tenant_subscription option"
  in_product :: product_entitlement_snapshot
  in_usage :: tenant_usage_snapshot

definition inspect_tenant_saas :: "'e saas_env_scheme \<Rightarrow> 'x saas_db_scheme \<Rightarrow> uuid \<Rightarrow> timestamp \<Rightarrow> tenant_saas_inspection option res" where
  "inspect_tenant_saas env db tenant_id now =
     (case first_row (\<lambda>t. tn_id t = tenant_id) (saas_tenants db) of
        None \<Rightarrow> Inr None
      | Some t \<Rightarrow>
          if tn_deleted_at t \<noteq> None then Inr None
          else
            res_bind (resolve_product_entitlements env db tenant_id now) (\<lambda>product.
              Inr (Some \<lparr>in_tenant = t, in_subscription = first_row (\<lambda>s. ts_tenant_id s = tenant_id) (subscriptions db),
                in_product = product, in_usage = resolve_tenant_usage db tenant_id\<rparr>)))"

section \<open>The counts add up\<close>

definition seen :: "tenant list \<Rightarrow> tenant_subscription \<Rightarrow> bool" where
  "seen live s \<longleftrightarrow> ts_tenant_id s \<in> tn_id ` set live"

lemma seen_iff: "seen live s \<longleftrightarrow> first_row (\<lambda>t. tn_id t = ts_tenant_id s) live \<noteq> None"
  by (simp add: seen_def first_row_None_iff image_iff) metis

text \<open>A subscription has exactly one of the three states of access.\<close>

lemma access_state_cases:
  "ca_state (commercial_access_for_subscription (Some s) now) \<in> {CommercialAccessState.ACTIVE, GRACE, BLOCKED}"
  by (simp add: commercial_access_for_subscription_def Let_def)

lemma health_step_counts:
  "hs_active_access (health_step ts now st h s) + hs_grace_access (health_step ts now st h s) + hs_blocked_access (health_step ts now st h s)
   = hs_active_access h + hs_grace_access h + hs_blocked_access h + of_bool (seen ts s)"
  using access_state_cases [of s now] by (auto simp: health_step_def Let_def seen_iff split: option.split)

lemma health_step_totals [simp]:
  "hs_subscribed_tenants (health_step ts now st h s) = hs_subscribed_tenants h"
  "hs_self_hosted_tenants (health_step ts now st h s) = hs_self_hosted_tenants h"
  "hs_total_tenants (health_step ts now st h s) = hs_total_tenants h"
  by (simp_all add: health_step_def Let_def split: option.split)

lemma health_fold_counts:
  "hs_active_access (foldl (health_step ts now st) h ss) + hs_grace_access (foldl (health_step ts now st) h ss) +
     hs_blocked_access (foldl (health_step ts now st) h ss)
   = hs_active_access h + hs_grace_access h + hs_blocked_access h + length (filter (seen ts) ss)"
  by (induction ss arbitrary: h) (simp_all add: health_step_counts)

lemma health_fold_totals [simp]:
  "hs_subscribed_tenants (foldl (health_step ts now st) h ss) = hs_subscribed_tenants h"
  "hs_self_hosted_tenants (foldl (health_step ts now st) h ss) = hs_self_hosted_tenants h"
  "hs_total_tenants (foldl (health_step ts now st) h ss) = hs_total_tenants h"
  by (induction ss arbitrary: h) simp_all

text \<open>With one subscription per tenant the subscribed tenants and the subscriptions that are seen are as many.\<close>

lemma subscribed_as_many:
  assumes "distinct (map ts_tenant_id ss)" and "distinct (map tn_id ts)"
  shows "length (filter (\<lambda>t. list_ex (\<lambda>s. ts_tenant_id s = tn_id t) ss) ts) = length (filter (seen ts) ss)"
proof -
  let ?A = "set (filter (\<lambda>t. list_ex (\<lambda>s. ts_tenant_id s = tn_id t) ss) ts)" and ?B = "set (filter (seen ts) ss)"
  have "tn_id ` ?A = ts_tenant_id ` ?B"
    by (simp add: seen_def list_ex_iff set_eq_iff image_iff) metis
  moreover have "card (tn_id ` ?A) = length (filter (\<lambda>t. list_ex (\<lambda>s. ts_tenant_id s = tn_id t) ss) ts)"
    using assms(2) by (metis distinct_card distinct_map_filter length_map set_map)
  moreover have "card (ts_tenant_id ` ?B) = length (filter (seen ts) ss)"
    using assms(1) by (metis distinct_card distinct_map_filter length_map set_map)
  ultimately show ?thesis by simp
qed

end
