(* ===== verification/Platform_Api.thy ===== *)
theory Platform_Api
  imports Stripe_Billing Saas_Operations
begin

text \<open>
  The operator's endpoints of the control plane (\<open>apps/api/v1/platform.py\<close>). Each runs one operation, writes an audit row and
  commits; an error of the control plane rolls back and becomes an HTTP error, any other error rolls back and passes. A
  request has passed the length checks of its schema; the response is the row it is built from.
\<close>

record operator_call =
  oc_actor :: str
  oc_ip :: "str option"
  oc_fields :: "str list"

definition platform_http_error :: "error \<Rightarrow> error" where
  "platform_http_error e =
     (if e = PlatformNotFoundError then HTTPException 404
      else if e \<in> {PlatformConflictError, BillingEventConflictError} then HTTPException 409
      else if e = PlatformValidationError then HTTPException 422 else e)"

definition operator_request :: "'s \<Rightarrow> ('s, 'a) run \<Rightarrow> ('s, 'a) run" where
  "operator_request db m = (case m of (db', Inr x) \<Rightarrow> (db', Inr x) | (_, Inl e) \<Rightarrow> (db, Inl (platform_http_error e)))"

definition audited ::
  "('x saas_db_scheme, 'a) run \<Rightarrow> operator_call \<Rightarrow> ('a \<Rightarrow> str) \<Rightarrow> str \<Rightarrow> ('a \<Rightarrow> str) \<Rightarrow> uuid option \<Rightarrow> ('a \<Rightarrow> dict) \<Rightarrow>
   ('x saas_db_scheme, 'a) run" where
  "audited m call action resource_type resource_id tenant_id details =
     and_then m (\<lambda>db x.
     and_then (append_platform_audit db (action x) resource_type (resource_id x) tenant_id (Some (details x)) (oc_ip call) (oc_actor call))
       (\<lambda>db _. (db, Inr x)))"

section \<open>Plans and prices\<close>

definition create_platform_plan ::
  "'x saas_db_scheme \<Rightarrow> operator_call \<Rightarrow> str \<Rightarrow> str \<Rightarrow> str option \<Rightarrow> bool \<Rightarrow> bool \<Rightarrow> dict \<Rightarrow> dict \<Rightarrow> timestamp \<Rightarrow>
   ('x saas_db_scheme, saas_plan) run" where
  "create_platform_plan db call key name description is_active is_public entitlements metadata now =
     operator_request db (audited (create_plan db key name description is_active is_public entitlements metadata now) call
       (\<lambda>_. ''SAAS_PLAN_CREATED'') ''SAAS_PLAN'' (\<lambda>p. str_uuid (pl_id p)) None
       (\<lambda>p. [(''plan_key'', JStr (pl_key p)), (''is_public'', JBool (pl_is_public p))]))"

definition patch_platform_plan ::
  "'x saas_db_scheme \<Rightarrow> operator_call \<Rightarrow> uuid \<Rightarrow> plan_update \<Rightarrow> ('x saas_db_scheme, saas_plan \<times> nat) run" where
  "patch_platform_plan db call plan_id req =
     operator_request db (and_then (audited (update_plan db plan_id req) call
       (\<lambda>_. ''SAAS_PLAN_UPDATED'') ''SAAS_PLAN'' (\<lambda>p. str_uuid (pl_id p)) None
       (\<lambda>p. [(''plan_key'', JStr (pl_key p)), (''changed_fields'', JList (map JStr (sort (oc_fields call))))]))
       (\<lambda>db plan. (db, Inr (plan, length (subscribers db (pl_id plan))))))"

definition create_platform_plan_price ::
  "'x saas_db_scheme \<Rightarrow> operator_call \<Rightarrow> uuid \<Rightarrow> str \<Rightarrow> str \<Rightarrow> str \<Rightarrow> int \<Rightarrow> BillingInterval \<Rightarrow> int \<Rightarrow> bool \<Rightarrow> dict \<Rightarrow>
   ('x saas_db_scheme, saas_plan_price) run" where
  "create_platform_plan_price db call plan_id provider external_price_id currency unit_amount_minor interval interval_count is_active metadata =
     operator_request db (audited (create_plan_price db plan_id provider external_price_id currency unit_amount_minor interval
         interval_count is_active (Some metadata)) call
       (\<lambda>_. ''SAAS_PLAN_PRICE_CREATED'') ''SAAS_PLAN_PRICE'' (\<lambda>p. str_uuid (pp_id p)) None
       (\<lambda>p. [(''plan_id'', JStr (str_uuid plan_id)), (''provider'', JStr (pp_provider p)), (''currency'', JStr (pp_currency p)),
             (''interval'', JStr (billing_interval_value (pp_interval p)))]))"

definition patch_platform_plan_price ::
  "'x saas_db_scheme \<Rightarrow> operator_call \<Rightarrow> uuid \<Rightarrow> bool option \<Rightarrow> dict option \<Rightarrow> ('x saas_db_scheme, saas_plan_price) run" where
  "patch_platform_plan_price db call price_id is_active metadata =
     operator_request db (audited (update_plan_price db price_id is_active metadata) call
       (\<lambda>_. ''SAAS_PLAN_PRICE_UPDATED'') ''SAAS_PLAN_PRICE'' (\<lambda>p. str_uuid (pp_id p)) None
       (\<lambda>_. [(''changed_fields'', JList (map JStr (sort (oc_fields call))))]))"

section \<open>Subscriptions\<close>

definition set_platform_subscription ::
  "'x saas_db_scheme \<Rightarrow> operator_call \<Rightarrow> subscription_request \<Rightarrow> ('x saas_db_scheme, tenant_subscription \<times> saas_plan) run" where
  "set_platform_subscription db call req =
     operator_request db (audited (and_then (upsert_subscription db req) (\<lambda>db s.
         case plan_of db (ts_plan_id s) of None \<Rightarrow> (db, Inl AssertionError) | Some plan \<Rightarrow> (db, Inr (s, plan)))) call
       (\<lambda>_. ''TENANT_SUBSCRIPTION_SET'') ''TENANT_SUBSCRIPTION'' (\<lambda>(s, _). str_uuid (ts_id s)) (Some (sr_tenant_id req))
       (\<lambda>(s, plan). [(''plan_key'', JStr (pl_key plan)), (''status'', JStr (subscription_status_value (ts_status s)))]))"

definition delete_platform_subscription ::
  "'x saas_db_scheme \<Rightarrow> operator_call \<Rightarrow> uuid \<Rightarrow> ('x saas_db_scheme, tenant_subscription) run" where
  "delete_platform_subscription db call tenant_id =
     operator_request db (audited (clear_subscription db tenant_id) call
       (\<lambda>_. ''TENANT_SUBSCRIPTION_CLEARED'') ''TENANT'' (\<lambda>_. str_uuid tenant_id) (Some tenant_id)
       (\<lambda>s. [(''previous_plan_key'', json_opt (map_option pl_key (plan_of db (ts_plan_id s))))]))"

definition converge_platform_billing_event ::
  "'e saas_env_scheme \<Rightarrow> 'x saas_db_scheme \<Rightarrow> operator_call \<Rightarrow> billing_notice \<Rightarrow> timestamp \<Rightarrow>
   ('x saas_db_scheme, billing_convergence_result) run" where
  "converge_platform_billing_event env db call n now =
     operator_request db (audited (converge_billing_event env db n now) call
       (\<lambda>r. if cv_duplicate r then ''BILLING_EVENT_DUPLICATE'' else ''BILLING_EVENT_APPLIED'') ''BILLING_EVENT''
       (\<lambda>r. str_uuid (be_id (cv_event r))) (Some (sr_tenant_id n))
       (\<lambda>r. [(''provider'', JStr (be_provider (cv_event r))), (''event_type'', JStr (be_event_type (cv_event r))),
             (''duplicate'', JBool (cv_duplicate r))]))"

section \<open>Operations\<close>

definition access_state_value :: "CommercialAccessState \<Rightarrow> str" where
  "access_state_value state =
     (case state of SELF_HOSTED \<Rightarrow> ''SELF_HOSTED'' | CommercialAccessState.ACTIVE \<Rightarrow> ''ACTIVE'' | GRACE \<Rightarrow> ''GRACE'' | BLOCKED \<Rightarrow> ''BLOCKED'')"

definition inspect_platform_tenant_entitlements ::
  "'e saas_env_scheme \<Rightarrow> 'x saas_db_scheme \<Rightarrow> operator_call \<Rightarrow> uuid \<Rightarrow> timestamp \<Rightarrow> ('x saas_db_scheme, tenant_saas_inspection) run" where
  "inspect_platform_tenant_entitlements env db call tenant_id now =
     lift_res db (inspect_tenant_saas env db tenant_id now) (\<lambda>db found.
     case found of
       None \<Rightarrow> (db, Inl (HTTPException 404))
     | Some inspection \<Rightarrow>
         audited (db, Inr inspection) call (\<lambda>_. ''TENANT_ENTITLEMENTS_INSPECTED'') ''TENANT'' (\<lambda>_. str_uuid tenant_id) (Some tenant_id)
           (\<lambda>i. [(''support_mode'', JStr ''NO_IMPERSONATION''),
                 (''access_state'', JStr (access_state_value (ca_state (pe_access (in_product i)))))]))"

definition reconcile_platform_billing ::
  "'e billing_env_scheme \<Rightarrow> 'f stripe_env_scheme \<Rightarrow> 'x saas_db_scheme \<Rightarrow> operator_call \<Rightarrow> str option \<Rightarrow> nat \<Rightarrow> timestamp \<Rightarrow>
   ('x saas_db_scheme, billing_reconcile_summary) run" where
  "reconcile_platform_billing env senv db call provider limit now =
     (case operator_request db (lift_res db (get_billing_provider senv provider) (\<lambda>db a.
         audited (reconcile_provider_subscriptions env db (as_billing_adapter senv now a) limit now) call
           (\<lambda>_. ''BILLING_RECONCILIATION_RUN'') ''BILLING_PROVIDER'' su_provider None
           (\<lambda>s. [(''scanned'', JNum (of_nat (su_scanned s))), (''applied'', JNum (of_nat (su_applied s))),
                 (''duplicates'', JNum (of_nat (su_duplicates s))), (''failed'', JNum (of_nat (su_failed s)))]))) of
        (db, Inl e) \<Rightarrow>
          (db, Inl (if e \<in> {BillingProviderError, BillingProviderNotConfiguredError, BillingWebhookVerificationError,
             BillingProviderResponseError} then HTTPException 503 else e))
      | r \<Rightarrow> r)"

section \<open>Requests and the store\<close>

lemma operator_request_keeps:
  "P db \<Longrightarrow> (\<And>db' x. m = (db', Inr x) \<Longrightarrow> P db') \<Longrightarrow> P (fst (operator_request db m))"
  by (cases m; cases "snd m") (auto simp: operator_request_def)

text \<open>An audit row changes only its table and the counter.\<close>

lemma audited_Inr:
  "audited m call action rt rid tid details = (db', Inr x) \<Longrightarrow>
   \<exists>db r. m = (db, Inr x) \<and> db' = db\<lparr>platform_audit_logs := platform_audit_logs db @ [r], saas_next_id := Suc (saas_next_id db)\<rparr>"
  unfolding audited_def append_platform_audit_def Let_def by (auto simp: and_then_Inr_iff lift_res_Inr_iff)

end
