(* ===== verification/Subscription_Laws.thy ===== *)
theory Subscription_Laws
  imports Platform_Api
begin

text \<open>
  The invariant of the subscription tables and that every operation keeps it. \<open>billing_client\<close> states what the billing service
  asks of the control plane; whatever the control plane's operations keep, the webhooks, the poll and the operator's requests
  keep.
\<close>

section \<open>The invariant\<close>

definition entitled :: "saas_plan list \<Rightarrow> tenant_subscription \<Rightarrow> bool" where
  "entitled ps s \<longleftrightarrow> (\<exists>p \<in> set ps. pl_id p = ts_plan_id s \<and>
     validate_entitlement_document (merge_entitlements (pl_entitlements p) (ts_entitlement_overrides s)) = Inr ())"

definition plans_ok :: "uuid \<Rightarrow> saas_plan list \<Rightarrow> bool" where
  "plans_ok i ps \<longleftrightarrow> distinct (map pl_id ps) \<and> distinct (map pl_key ps) \<and> (\<forall>p \<in> set ps. pl_id p < i)"

definition subscriptions_ok :: "uuid \<Rightarrow> saas_plan list \<Rightarrow> tenant_subscription list \<Rightarrow> bool" where
  "subscriptions_ok i ps ss \<longleftrightarrow> distinct (map ts_id ss) \<and> distinct (map ts_tenant_id ss) \<and>
     (\<forall>s \<in> set ss. ts_id s < i \<and> entitled ps s)"

abbreviation billing_key :: "billing_event \<Rightarrow> str \<times> str" where
  "billing_key e \<equiv> (be_provider e, be_external_event_id e)"

definition events_ok :: "uuid \<Rightarrow> billing_event list \<Rightarrow> bool" where
  "events_ok i es \<longleftrightarrow> distinct (map be_id es) \<and> distinct (map billing_key es) \<and> (\<forall>e \<in> set es. be_id e < i)"

definition saas_inv :: "'x saas_db_scheme \<Rightarrow> bool" where
  "saas_inv db \<longleftrightarrow> plans_ok (saas_next_id db) (saas_plans db) \<and>
     subscriptions_ok (saas_next_id db) (saas_plans db) (subscriptions db) \<and> events_ok (saas_next_id db) (billing_events db)"

section \<open>Rows\<close>

lemma map_update_where_set:
  "(\<And>r. r \<in> set rs \<Longrightarrow> p r \<Longrightarrow> k (f r) = k r) \<Longrightarrow> map k (update_where p f rs) = map k rs"
  by (simp add: update_where_def)

lemma map_put_row_key:
  assumes "distinct (map key rs)" and "r0 \<in> set rs" and "key r = key r0" and "k r = k r0"
  shows "map k (put_row key r rs) = map k rs"
  unfolding put_row_def
proof (rule map_update_where_set)
  fix x assume "x \<in> set rs" and "key x = key r"
  with assms have "x = r0" by (auto simp: distinct_map inj_on_def)
  with assms(4) show "k r = k x" by simp
qed

lemma distinct_put_row:
  "distinct (map key rs) \<Longrightarrow> distinct (map k rs) \<Longrightarrow> (\<forall>x \<in> set rs. key r \<noteq> key x \<longrightarrow> k x \<noteq> k r) \<Longrightarrow>
   distinct (map k (put_row key r rs))"
  unfolding put_row_def
proof (induction rs)
  case Nil
  then show ?case by simp
next
  case (Cons a rs)
  have "update_where (\<lambda>x. key x = key r) (\<lambda>_. r) rs = rs" if "key a = key r"
    using Cons.prems(1) that by (auto simp: update_where_def image_iff intro!: map_idI)
  with Cons show ?case by (cases "key a = key r") (auto simp: in_update_where image_iff split: if_splits)
qed

lemma plans_ok_mono: "plans_ok i ps \<Longrightarrow> i \<le> j \<Longrightarrow> plans_ok j ps"
  by (auto simp: plans_ok_def)

lemma subscriptions_ok_mono: "subscriptions_ok i ps ss \<Longrightarrow> i \<le> j \<Longrightarrow> subscriptions_ok j ps ss"
  by (auto simp: subscriptions_ok_def)

lemma events_ok_mono: "events_ok i es \<Longrightarrow> i \<le> j \<Longrightarrow> events_ok j es"
  by (auto simp: events_ok_def)

lemma saas_inv_frame:
  "saas_inv db \<Longrightarrow> saas_next_id db \<le> saas_next_id db' \<Longrightarrow> saas_plans db' = saas_plans db \<Longrightarrow> subscriptions db' = subscriptions db \<Longrightarrow>
   billing_events db' = billing_events db \<Longrightarrow> saas_inv db'"
  unfolding saas_inv_def using plans_ok_mono subscriptions_ok_mono events_ok_mono by metis

section \<open>Plans\<close>

lemma plans_ok_snoc:
  "plans_ok (pl_id p) ps \<Longrightarrow> (\<forall>q \<in> set ps. pl_key q \<noteq> pl_key p) \<Longrightarrow> plans_ok (Suc (pl_id p)) (ps @ [p])"
  by (auto simp: plans_ok_def)

lemma entitled_mono: "entitled ps s \<Longrightarrow> set ps \<subseteq> set ps' \<Longrightarrow> entitled ps' s"
  unfolding entitled_def by blast

lemma subscriptions_ok_plan: "subscriptions_ok i ps ss \<Longrightarrow> subscriptions_ok (Suc i) (ps @ [p]) ss"
  using entitled_mono [of ps _ "ps @ [p]"] by (auto simp: subscriptions_ok_def less_Suc_eq)

lemma flush_plan_inv: "saas_inv db \<Longrightarrow> pl_id p = saas_next_id db \<Longrightarrow> saas_inv (fst (flush_plan db p))"
  using plans_ok_snoc [of p] by (auto simp: flush_plan_def saas_inv_def violates_def list_ex_iff events_ok_mono intro: subscriptions_ok_plan)

lemma put_plan_inv:
  assumes inv: "saas_inv db" and old: "p0 \<in> set (saas_plans db)" "pl_id p = pl_id p0" "pl_key p = pl_key p0"
    and fits: "\<And>s. s \<in> set (subscribers db (pl_id p)) \<Longrightarrow>
      validate_entitlement_document (merge_entitlements (pl_entitlements p) (ts_entitlement_overrides s)) = Inr ()"
  shows "saas_inv (put_plan p db)"
proof -
  let ?ps = "put_row pl_id p (saas_plans db)"
  have ok: "plans_ok (saas_next_id db) (saas_plans db)" using inv by (simp add: saas_inv_def)
  have "map pl_key ?ps = map pl_key (saas_plans db)"
    using ok old by (intro map_put_row_key) (simp_all add: plans_ok_def)
  with ok old have plans: "plans_ok (saas_next_id db) ?ps"
    by (auto simp: plans_ok_def dest!: in_put_row)
  have "entitled ?ps s" if s: "s \<in> set (subscriptions db)" for s
  proof (cases "ts_plan_id s = pl_id p")
    case True
    with s fits old show ?thesis
      by (auto simp: entitled_def subscribers_def intro!: bexI [of _ p] put_row_in)
  next
    case False
    from inv s obtain q where "q \<in> set (saas_plans db)" "pl_id q = ts_plan_id s"
      "validate_entitlement_document (merge_entitlements (pl_entitlements q) (ts_entitlement_overrides s)) = Inr ()"
      by (auto simp: saas_inv_def subscriptions_ok_def entitled_def)
    with False show ?thesis by (auto simp: entitled_def put_row_def in_update_where intro!: bexI [of _ q])
  qed
  with inv plans show ?thesis by (simp add: saas_inv_def put_plan_def subscriptions_ok_def)
qed

lemma if_keeps: "(c \<Longrightarrow> P (fst a)) \<Longrightarrow> (\<not> c \<Longrightarrow> P (fst b)) \<Longrightarrow> P (fst (if c then a else b))"
  by simp

lemmas inv_keeps = lift_res_keeps [where P = saas_inv] and_then_keeps [where P = saas_inv] if_keeps [where P = saas_inv]
  on_integrity_error_keeps [where P = saas_inv]

lemma create_plan_inv:
  "saas_inv db \<Longrightarrow> saas_inv (fst (create_plan db key name description is_active is_public entitlements metadata now))"
  unfolding create_plan_def
  by (intro inv_keeps flush_plan_inv) (auto simp: flush_plan_def split: if_splits)

lemma check_all_Inr: "check_all f xs = Inr () \<Longrightarrow> x \<in> set xs \<Longrightarrow> f x = Inr ()"
  by (induction xs) (auto simp: res_bind_Inr_iff)

lemma overrides_fit:
  "validate_subscription_overrides e o' = Inr () \<Longrightarrow> validate_entitlement_document (merge_entitlements e o') = Inr ()"
  by (auto simp: validate_subscription_overrides_def split: sum.splits error.splits)

lemma put_row_twice: "key q = key p \<Longrightarrow> put_row key q (put_row key p rs) = put_row key q rs"
  by (induction rs) (auto simp: put_row_def)

lemma put_plan_twice [simp]: "pl_id q = pl_id p \<Longrightarrow> put_plan q (put_plan p db) = put_plan q db"
  by (simp add: put_plan_def put_row_twice)

lemma entitled_by_plan:
  assumes "saas_inv db" and "p \<in> set (saas_plans db)" and "s \<in> set (subscribers db (pl_id p))"
  shows "validate_entitlement_document (merge_entitlements (pl_entitlements p) (ts_entitlement_overrides s)) = Inr ()"
proof -
  from assms obtain q where q: "q \<in> set (saas_plans db)" "pl_id q = pl_id p"
    "validate_entitlement_document (merge_entitlements (pl_entitlements q) (ts_entitlement_overrides s)) = Inr ()"
    by (auto simp: saas_inv_def subscriptions_ok_def entitled_def subscribers_def)
  with assms have "q = p" by (auto simp: saas_inv_def plans_ok_def distinct_map inj_on_def)
  with q show ?thesis by simp
qed

text \<open>What an accepted change of a plan stores; new limits have been checked against every subscriber.\<close>

lemma update_plan_Inr:
  assumes "update_plan db plan_id req = (db', Inr p)"
  obtains p0 where "p0 \<in> set (saas_plans db)" "pl_id p0 = plan_id" "pl_id p = pl_id p0" "pl_key p = pl_key p0" "db' = put_plan p db"
    "pu_entitlements req = None \<longrightarrow> pl_entitlements p = pl_entitlements p0"
    "\<forall>e. pu_entitlements req = Some e \<longrightarrow> pl_entitlements p = e \<and>
       check_all (\<lambda>s. validate_subscription_overrides e (ts_entitlement_overrides s)) (subscribers db (pl_id p)) = Inr ()"
proof -
  let ?q = "scalar_one_or_none (\<lambda>p. pl_id p = plan_id) (saas_plans db)"
  have "?q \<noteq> Inl e" "?q \<noteq> Inr None" for e
    using assms by (auto simp: update_plan_def)
  then obtain p0 where "?q = Inr (Some p0)"
    by (cases ?q) auto
  moreover from this have "p0 \<in> set (saas_plans db)" "pl_id p0 = plan_id"
    using scalar_one_or_none_SomeD by fastforce+
  ultimately show thesis
    using assms that [of p0]
    by (auto simp: update_plan_def Let_def lift_res_Inr_iff res_bind_Inr_iff split: option.splits if_splits)
qed

lemma update_plan_inv: "saas_inv db \<Longrightarrow> update_plan db plan_id req = (db', Inr p) \<Longrightarrow> saas_inv db'"
proof (erule update_plan_Inr)
  fix p0
  assume inv: "saas_inv db" and p0: "p0 \<in> set (saas_plans db)" "pl_id p = pl_id p0" "pl_key p = pl_key p0" and db': "db' = put_plan p db"
    and same: "pu_entitlements req = None \<longrightarrow> pl_entitlements p = pl_entitlements p0"
    and new: "\<forall>e. pu_entitlements req = Some e \<longrightarrow> pl_entitlements p = e \<and>
       check_all (\<lambda>s. validate_subscription_overrides e (ts_entitlement_overrides s)) (subscribers db (pl_id p)) = Inr ()"
  have "validate_entitlement_document (merge_entitlements (pl_entitlements p) (ts_entitlement_overrides s)) = Inr ()"
    if s: "s \<in> set (subscribers db (pl_id p))" for s
  proof (cases "pu_entitlements req")
    case None
    with same s p0 entitled_by_plan [OF inv p0(1)] show ?thesis by simp
  next
    case (Some e)
    with new s check_all_Inr [of _ "subscribers db (pl_id p)" s] show ?thesis by (auto intro: overrides_fit)
  qed
  with inv p0 db' show ?thesis by (auto intro: put_plan_inv)
qed

section \<open>Subscriptions\<close>

lemma subscriptions_ok_snoc:
  "subscriptions_ok (ts_id s) ps ss \<Longrightarrow> entitled ps s \<Longrightarrow> (\<forall>x \<in> set ss. ts_tenant_id x \<noteq> ts_tenant_id s) \<Longrightarrow>
   subscriptions_ok (Suc (ts_id s)) ps (ss @ [s])"
  by (auto simp: subscriptions_ok_def)

lemma put_subscription_inv:
  assumes "saas_inv db" and "s0 \<in> set (subscriptions db)" and "ts_id s = ts_id s0" and "entitled (saas_plans db) s"
    and "\<forall>x \<in> set (subscriptions db). ts_id s \<noteq> ts_id x \<longrightarrow> ts_tenant_id x \<noteq> ts_tenant_id s"
  shows "saas_inv (put_subscription s db)"
  using assms unfolding saas_inv_def put_subscription_def subscriptions_ok_def
  by (auto intro!: distinct_put_row dest!: in_put_row)

lemma flush_subscription_inv:
  assumes inv: "saas_inv db" and "entitled (saas_plans db) s"
    and id: "ts_id s = saas_next_id db \<or> ts_id s \<in> ts_id ` set (subscriptions db)"
  shows "saas_inv (fst (flush_subscription db s))"
proof (cases "snd (flush_subscription db s)")
  case (Inl e)
  with inv show ?thesis by (auto simp: flush_subscription_def Let_def split: if_splits)
next
  case (Inr x)
  then have "\<not> violates (\<lambda>_. True) ts_tenant_id (filter (\<lambda>x. ts_id x \<noteq> ts_id s) (subscriptions db)) s"
    by (rule_tac notI) (simp add: flush_subscription_def Let_def)
  then have others: "\<forall>x \<in> set (subscriptions db). ts_id s \<noteq> ts_id x \<longrightarrow> ts_tenant_id x \<noteq> ts_tenant_id s"
    by (simp add: violates_def list_ex_iff) metis
  show ?thesis
  proof (cases "ts_id s \<in> ts_id ` set (subscriptions db)")
    case True
    then obtain s0 where "s0 \<in> set (subscriptions db)" "ts_id s = ts_id s0" by auto
    with inv assms(2) others have "saas_inv (put_subscription s db)" by (rule_tac put_subscription_inv)
    moreover have "fst (flush_subscription db s) = put_subscription s db"
      using Inr True by (simp add: flush_subscription_def Let_def split: if_splits)
    ultimately show ?thesis by simp
  next
    case False
    with id have next_id: "saas_next_id db = ts_id s" by simp
    from Inr False have "fst (flush_subscription db s) = db\<lparr>subscriptions := subscriptions db @ [s], saas_next_id := Suc (saas_next_id db)\<rparr>"
      by (simp add: flush_subscription_def Let_def split: if_splits)
    moreover have "\<forall>x \<in> set (subscriptions db). ts_tenant_id x \<noteq> ts_tenant_id s"
      using others False by (metis image_eqI)
    moreover have "plans_ok (Suc (ts_id s)) (saas_plans db)" "events_ok (Suc (ts_id s)) (billing_events db)"
      using inv next_id by (auto simp: saas_inv_def intro: plans_ok_mono events_ok_mono)
    ultimately show ?thesis
      using inv assms(2) subscriptions_ok_snoc [of s] by (simp add: next_id saas_inv_def)
  qed
qed

lemma get_plan_by_key_in: "get_plan_by_key db k b = Inr p \<Longrightarrow> p \<in> set (saas_plans db)"
  by (auto simp: get_plan_by_key_def res_bind_Inr_iff split: option.splits if_splits dest: first_row_SomeD)

text \<open>The row a request for a subscription flushes.\<close>

definition requested_row :: "subscription_request \<Rightarrow> saas_plan \<Rightarrow> tenant_subscription \<Rightarrow> tenant_subscription" where
  "requested_row req plan s =
     s\<lparr>ts_plan_id := pl_id plan, ts_status := sr_status req, ts_billing_provider := map_option lower (strip_given (sr_billing_provider req)),
       ts_external_customer_id := strip_given (sr_external_customer_id req),
       ts_external_subscription_id := strip_given (sr_external_subscription_id req), ts_current_period_start := sr_current_period_start req,
       ts_current_period_end := sr_current_period_end req, ts_trial_ends_at := sr_trial_ends_at req,
       ts_grace_ends_at := sr_grace_ends_at req, ts_cancel_at_period_end := sr_cancel_at_period_end req,
       ts_entitlement_overrides := dict_or_empty (sr_entitlement_overrides req), ts_billing_metadata := dict_or_empty (sr_billing_metadata req)\<rparr>"

lemma requested_row_simps [simp]:
  "ts_id (requested_row req plan s) = ts_id s" "ts_tenant_id (requested_row req plan s) = ts_tenant_id s"
  "ts_status (requested_row req plan s) = sr_status req" "ts_plan_id (requested_row req plan s) = pl_id plan"
  "ts_entitlement_overrides (requested_row req plan s) = dict_or_empty (sr_entitlement_overrides req)"
  by (simp_all add: requested_row_def)

text \<open>A request either changes nothing or flushes that row, whose plan exists and whose limits have been checked.\<close>

lemma upsert_subscription_run:
  assumes "\<And>e. upsert_subscription db req \<noteq> (db, Inl e)"
  obtains found plan s where "live_tenant db (sr_tenant_id req)" "subscription_of db (sr_tenant_id req) = Inr found"
      "get_plan_by_key db (sr_plan_key req) False = Inr plan"
      "validate_subscription_overrides (pl_entitlements plan) (dict_or_empty (sr_entitlement_overrides req)) = Inr ()"
      "s = requested_row req plan (case found of None \<Rightarrow> new_subscription (saas_next_id db) (sr_tenant_id req) (pl_id plan) | Some s \<Rightarrow> s)"
      "upsert_subscription db req = on_integrity_error (flush_subscription db s) (\<lambda>db. (db, Inl PlatformConflictError))"
proof -
  have stop: "upsert_subscription db req = (db, Inl e) \<Longrightarrow> Q" for e Q
    using assms by blast
  have live: "live_tenant db (sr_tenant_id req)"
    by (rule ccontr, rule stop) (simp add: upsert_subscription_def)
  obtain found where found: "subscription_of db (sr_tenant_id req) = Inr found"
    by (cases "subscription_of db (sr_tenant_id req)", rule stop) (auto simp: upsert_subscription_def live)
  obtain plan where plan: "get_plan_by_key db (sr_plan_key req) False = Inr plan"
    by (cases "get_plan_by_key db (sr_plan_key req) False", rule stop) (auto simp: upsert_subscription_def live found)
  have active: "pl_is_active plan \<or> (\<exists>s. found = Some s \<and> ts_plan_id s = pl_id plan)"
    by (rule ccontr, rule stop) (auto simp: upsert_subscription_def live found plan split: option.splits)
  then have go: "\<not> (\<not> pl_is_active plan \<and> (case found of None \<Rightarrow> True | Some s \<Rightarrow> ts_plan_id s \<noteq> pl_id plan))" by auto
  note run = upsert_subscription_def Let_def live found plan lift_res_Inr if_not_P [OF go]
  have fits: "validate_subscription_overrides (pl_entitlements plan) (dict_or_empty (sr_entitlement_overrides req)) = Inr ()"
    by (cases "validate_subscription_overrides (pl_entitlements plan) (dict_or_empty (sr_entitlement_overrides req))", rule stop)
      (simp_all add: run)
  have safe: "ensure_safe_metadata (dict_or_empty (sr_billing_metadata req)) = Inr ()"
    by (cases "ensure_safe_metadata (dict_or_empty (sr_billing_metadata req))", rule stop) (simp_all add: run fits)
  have named: "\<not> (truthy (strip_given (sr_external_subscription_id req)) \<and> \<not> truthy (map_option lower (strip_given (sr_billing_provider req))))"
    by (rule notI, rule stop) (simp add: run fits safe)
  have period: "\<not> (case (sr_current_period_start req, sr_current_period_end req) of (Some a, Some b) \<Rightarrow> b < a | _ \<Rightarrow> False)"
    by (rule notI, rule stop) (simp add: run fits safe if_not_P [OF named])
  show thesis
    using period by (rule_tac that [OF live found plan fits refl]) (simp add: run fits safe if_not_P [OF named] requested_row_def)
qed

lemma subscription_of_in: "subscription_of db t = Inr (Some s) \<Longrightarrow> s \<in> set (subscriptions db) \<and> ts_tenant_id s = t"
  unfolding subscription_of_def by (rule scalar_one_or_none_SomeD)

lemma upsert_subscription_inv:
  assumes inv: "saas_inv db"
  shows "saas_inv (fst (upsert_subscription db req))"
proof (cases "\<exists>e. upsert_subscription db req = (db, Inl e)")
  case True
  with inv show ?thesis by auto
next
  case False
  then have "upsert_subscription db req \<noteq> (db, Inl e)" for e by blast
  then obtain found plan s where "live_tenant db (sr_tenant_id req)" and found: "subscription_of db (sr_tenant_id req) = Inr found" and plan: "get_plan_by_key db (sr_plan_key req) False = Inr plan"
    and fits: "validate_subscription_overrides (pl_entitlements plan) (dict_or_empty (sr_entitlement_overrides req)) = Inr ()"
    and s: "s = requested_row req plan (case found of None \<Rightarrow> new_subscription (saas_next_id db) (sr_tenant_id req) (pl_id plan) | Some s \<Rightarrow> s)"
    and run: "upsert_subscription db req = on_integrity_error (flush_subscription db s) (\<lambda>db. (db, Inl PlatformConflictError))"
    by (rule upsert_subscription_run)
  have "entitled (saas_plans db) s"
    using get_plan_by_key_in [OF plan] overrides_fit [OF fits] by (auto simp: entitled_def s)
  moreover have "ts_id s = saas_next_id db \<or> ts_id s \<in> ts_id ` set (subscriptions db)"
    using found by (auto simp: s new_subscription_def dest: subscription_of_in split: option.split)
  ultimately have "saas_inv (fst (flush_subscription db s))"
    using inv by (rule_tac flush_subscription_inv)
  then show ?thesis by (auto simp: run intro!: inv_keeps)
qed

lemma clear_subscription_inv: "saas_inv db \<Longrightarrow> clear_subscription db t = (db', Inr s) \<Longrightarrow> saas_inv db'"
  by (auto simp: clear_subscription_def lift_res_Inr_iff saas_inv_def subscriptions_ok_def events_ok_def distinct_map_filter
      in_update_where split: option.splits)

lemma upsert_subscription_events [simp]:
  "billing_events (fst (upsert_subscription db req)) = billing_events db" "saas_plans (fst (upsert_subscription db req)) = saas_plans db"
  "plan_prices (fst (upsert_subscription db req)) = plan_prices db" "saas_tenants (fst (upsert_subscription db req)) = saas_tenants db"
proof -
  let ?keeps = "\<lambda>x. billing_events x = billing_events db \<and> saas_plans x = saas_plans db \<and> plan_prices x = plan_prices db \<and> saas_tenants x = saas_tenants db"
  have flush: "?keeps (fst (flush_subscription db s))" for s
    by (simp add: flush_subscription_def Let_def put_subscription_def)
  have "?keeps (fst (upsert_subscription db req))"
  proof (cases "\<exists>e. upsert_subscription db req = (db, Inl e)")
    case True
    then show ?thesis by auto
  next
    case False
    then obtain s where "upsert_subscription db req = on_integrity_error (flush_subscription db s) (\<lambda>db. (db, Inl PlatformConflictError))"
      by (metis upsert_subscription_run)
    with flush [of s] show ?thesis
      by (simp only:) (rule on_integrity_error_keeps [where P = ?keeps], auto)
  qed
  then show "billing_events (fst (upsert_subscription db req)) = billing_events db"
    "saas_plans (fst (upsert_subscription db req)) = saas_plans db"
    "plan_prices (fst (upsert_subscription db req)) = plan_prices db" "saas_tenants (fst (upsert_subscription db req)) = saas_tenants db"
    by simp_all
qed

lemma flush_subscription_in: "flush_subscription db s = (db', Inr x) \<Longrightarrow> x = s \<and> s \<in> set (subscriptions db')"
  by (auto simp: flush_subscription_def Let_def put_subscription_def image_iff split: if_splits intro!: put_row_in)

lemma upsert_subscription_in: "upsert_subscription db req = (db', Inr s) \<Longrightarrow> s \<in> set (subscriptions db')"
proof -
  assume run: "upsert_subscription db req = (db', Inr s)"
  then have "upsert_subscription db req \<noteq> (db, Inl e)" for e by simp
  then obtain s' where "upsert_subscription db req = on_integrity_error (flush_subscription db s') (\<lambda>db. (db, Inl PlatformConflictError))"
    by (metis upsert_subscription_run)
  with run have "flush_subscription db s' = (db', Inr s)"
    by (cases "flush_subscription db s'"; cases "snd (flush_subscription db s')")
      (auto simp: on_integrity_error_def split: error.splits)
  then show ?thesis using flush_subscription_in by blast
qed

section \<open>Billing events\<close>

lemma events_ok_snoc:
  "events_ok (be_id e) es \<Longrightarrow> (\<forall>x \<in> set es. billing_key x \<noteq> billing_key e) \<Longrightarrow> events_ok (Suc (be_id e)) (es @ [e])"
  by (auto simp: events_ok_def)

lemma flush_billing_event_inv:
  assumes "saas_inv db" and "be_id e = saas_next_id db"
  shows "saas_inv (fst (flush_billing_event db e))"
proof (cases "violates (\<lambda>_. True) billing_key (billing_events db) e")
  case True
  with assms show ?thesis by (simp add: flush_billing_event_def)
next
  case False
  then have "\<forall>x \<in> set (billing_events db). billing_key x \<noteq> billing_key e" by (auto simp: violates_def list_ex_iff)
  with assms False show ?thesis
    using events_ok_snoc [of e "billing_events db"]
    by (auto simp: flush_billing_event_def saas_inv_def intro: plans_ok_mono subscriptions_ok_mono)
qed

lemma put_billing_event_inv:
  assumes "saas_inv db" and "e0 \<in> set (billing_events db)" and "be_id e = be_id e0" and "billing_key e = billing_key e0"
  shows "saas_inv (put_billing_event e db)"
proof -
  have "map billing_key (put_row be_id e (billing_events db)) = map billing_key (billing_events db)"
    using assms by (intro map_put_row_key) (simp_all add: saas_inv_def events_ok_def)
  with assms show ?thesis
    by (auto simp: saas_inv_def put_billing_event_def events_ok_def dest!: in_put_row)
qed

lemma synced_simps [simp]:
  "ts_id (synced src now s) = ts_id s" "ts_tenant_id (synced src now s) = ts_tenant_id s" "ts_plan_id (synced src now s) = ts_plan_id s"
  "ts_entitlement_overrides (synced src now s) = ts_entitlement_overrides s" "ts_status (synced src now s) = ts_status s"
  by (simp_all add: synced_def)

lemma sync_inv:
  assumes "saas_inv db" and "s \<in> set (subscriptions db)"
  shows "saas_inv (put_subscription (synced src now s) db)"
proof (rule put_subscription_inv [OF assms])
  show "entitled (saas_plans db) (synced src now s)"
    using assms by (auto simp: saas_inv_def subscriptions_ok_def entitled_def)
  show "\<forall>x \<in> set (subscriptions db). ts_id (synced src now s) \<noteq> ts_id x \<longrightarrow> ts_tenant_id x \<noteq> ts_tenant_id (synced src now s)"
    using assms by (auto simp: saas_inv_def subscriptions_ok_def distinct_map inj_on_def)
qed simp

lemma note_sync_error_inv: "saas_inv db \<Longrightarrow> saas_inv (note_sync_error env db sid e now)"
  by (auto simp: saas_inv_def note_sync_error_def subscriptions_ok_def in_update_where entitled_def)

section \<open>What the billing service asks of the control plane\<close>

locale billing_client =
  fixes ok :: "'x saas_db_scheme \<Rightarrow> bool"
  assumes upsert_ok: "ok db \<Longrightarrow> ok (fst (upsert_subscription db req))"
    and event_ok: "ok db \<Longrightarrow> be_id e = saas_next_id db \<Longrightarrow> ok (fst (flush_billing_event db e))"
    and outcome_ok: "ok db \<Longrightarrow> e0 \<in> set (billing_events db) \<Longrightarrow> be_id e = be_id e0 \<Longrightarrow> billing_key e = billing_key e0 \<Longrightarrow>
      be_payload_sha256 e = be_payload_sha256 e0 \<Longrightarrow> ok (put_billing_event e db)"
    and sync_ok: "ok db \<Longrightarrow> s \<in> set (subscriptions db) \<Longrightarrow> ok (put_subscription (synced src now s) db)"
    and note_ok: "ok db \<Longrightarrow> ok (db\<lparr>subscriptions := update_where (\<lambda>s. ts_id s = sid)
      (\<lambda>s. s\<lparr>ts_provider_sync_error := msg, ts_provider_sync_error_at := noted\<rparr>) (subscriptions db)\<rparr>)"
    and audit_ok: "ok db \<Longrightarrow> ok (db\<lparr>platform_audit_logs := platform_audit_logs db @ [r], saas_next_id := Suc (saas_next_id db)\<rparr>)"
begin

lemma append_audit_ok: "ok db \<Longrightarrow> ok (fst (append_platform_audit db action rt rid tid details ip actor))"
  unfolding append_platform_audit_def Let_def by (rule lift_res_keeps [where P = ok]) (auto intro: audit_ok)

lemma apply_notice_ok:
  assumes "ok db" and event: "event \<in> set (billing_events db)"
  shows "ok (fst (apply_notice env db event provider n now))"
proof -
  let ?m = "nested db (upsert_subscription db (subscription_request.truncate (n\<lparr>sr_billing_provider := Some provider\<rparr>)))"
  have "ok (fst ?m)"
    using assms by (auto intro: nested_keeps [where P = ok] upsert_ok)
  moreover have "billing_events (fst ?m) = billing_events db"
    by (rule nested_keeps [where P = "\<lambda>x. billing_events x = billing_events db"]) simp_all
  ultimately show ?thesis
    using event unfolding apply_notice_def
    by (cases ?m; cases "snd ?m") (auto simp: Let_def intro: outcome_ok [of _ event])
qed

lemma converge_billing_event_ok:
  assumes "ok db"
  shows "ok (fst (converge_billing_event env db n now))"
proof -
  have recorded: "ok (fst (case nested db (flush_billing_event db e) of (db, Inr event) \<Rightarrow> apply_notice env db event provider n now
      | (db, Inl IntegrityError) \<Rightarrow> f db | (db, Inl err) \<Rightarrow> (db, Inl err)))"
    if "be_id e = saas_next_id db" and "ok (fst (f db))" for e provider and f :: "'x saas_db_scheme \<Rightarrow> ('x saas_db_scheme, billing_convergence_result) run"
  proof (cases "violates (\<lambda>_. True) billing_key (billing_events db) e")
    case True
    with that show ?thesis by (simp add: flush_billing_event_def)
  next
    case False
    then have "flush_billing_event db e = (db\<lparr>billing_events := billing_events db @ [e], saas_next_id := Suc (saas_next_id db)\<rparr>, Inr e)"
      by (simp add: flush_billing_event_def)
    with event_ok [OF assms that(1)] show ?thesis by (auto intro: apply_notice_ok)
  qed
  note keeps = lift_res_keeps [where P = ok]
  have replayed: "ok (fst (lift_res db r (\<lambda>db r. (db, Inr r))))" for r :: "billing_convergence_result res"
    using assms by (cases r) auto
  have concurrent: "ok (fst (lift_res db q (\<lambda>db c. case c of None \<Rightarrow> (db, Inl PlatformConflictError)
      | Some e \<Rightarrow> lift_res db (replay_event db e h) (\<lambda>db r. (db, Inr r)))))" for q h
    using assms replayed by (cases q) (auto split: option.split)
  show ?thesis
    unfolding converge_billing_event_def Let_def
    using assms
    by (intro if_keeps [where P = ok] keeps) (auto split: option.split intro!: recorded concurrent replayed)
qed

end

lemma replay_event_in: "replay_event db e h = Inr r \<Longrightarrow> cv_subscription r \<in> set (subscriptions db) \<and> cv_event r = e \<and> cv_duplicate r"
  by (auto simp: replay_event_def res_bind_Inr_iff split: if_splits option.splits dest!: scalar_one_or_none_SomeD)

lemma apply_notice_in: "apply_notice env db event provider n now = (db', Inr r) \<Longrightarrow> cv_subscription r \<in> set (subscriptions db')"
  unfolding apply_notice_def nested_def Let_def
  by (auto simp: put_billing_event_def split: prod.splits sum.splits if_splits dest!: upsert_subscription_in)

lemma converge_billing_event_in:
  "converge_billing_event env db n now = (db', Inr r) \<Longrightarrow> cv_subscription r \<in> set (subscriptions db')"
  unfolding converge_billing_event_def Let_def
  by (auto simp: lift_res_Inr_iff split: if_splits option.splits prod.splits sum.splits error.splits
      dest!: apply_notice_in replay_event_in)

context billing_client
begin

lemma converge_state_ok:
  assumes "ok db"
  shows "ok (fst (converge_provider_subscription_state env db st external_event_id event_type source now))"
proof -
  have "ok (fst (and_then (converge_billing_event env db n now)
      (\<lambda>db r. let s = synced source now (cv_subscription r) in (put_subscription s db, Inr (r\<lparr>cv_subscription := s\<rparr>)))))" for n
    using assms converge_billing_event_ok [OF assms, of env n now]
    by (intro and_then_keeps [where P = ok]) (auto simp: Let_def intro!: sync_ok dest: converge_billing_event_in)
  with assms show ?thesis
    unfolding converge_provider_subscription_state_def
    by (intro lift_res_keeps [where P = ok]) (auto split: option.split intro!: lift_res_keeps [where P = ok])
qed

lemma and_then_state_keeps: "ok (fst m) \<Longrightarrow> (\<And>s x. ok s \<Longrightarrow> ok (fst (f s x))) \<Longrightarrow> ok (fst (and_then m f))"
  by (cases m; cases "snd m") auto

lemma converge_webhook_ok: "ok db \<Longrightarrow> ok (fst (converge_verified_webhook env db adapter verified now))"
  unfolding converge_verified_webhook_def
  by (rule lift_res_keeps [where P = ok], assumption)
    (auto split: option.split intro!: and_then_state_keeps converge_state_ok)

lemma sync_subscription_ok: "ok db \<Longrightarrow> ok (fst (sync_subscription env db adapter s external_id now))"
  unfolding sync_subscription_def
  by (rule lift_res_keeps [where P = ok]) (auto intro: converge_state_ok)

lemma note_error_ok: "ok db \<Longrightarrow> ok (note_sync_error env db sid err now)"
  unfolding note_sync_error_def by (rule note_ok)

lemma reconcile_subscriptions_ok: "ok db \<Longrightarrow> ok (fst (reconcile_subscriptions env db adapter ss summary now))"
proof (induction ss arbitrary: db summary)
  case Nil
  then show ?case by simp
next
  case (Cons s ss)
  from Cons.prems have "ok (fst (sync_subscription env db adapter s (the (ts_external_subscription_id s)) now))"
    by (rule sync_subscription_ok)
  with Cons show ?case
    by (cases "sync_subscription env db adapter s (the (ts_external_subscription_id s)) now";
        cases "snd (sync_subscription env db adapter s (the (ts_external_subscription_id s)) now)")
      (auto simp: Let_def intro: note_error_ok)
qed

lemma reconcile_provider_ok: "ok db \<Longrightarrow> ok (fst (reconcile_provider_subscriptions env db adapter limit now))"
  unfolding reconcile_provider_subscriptions_def Let_def
  by (rule and_then_state_keeps) (auto intro: reconcile_subscriptions_ok)

end

context billing_client
begin

lemma audited_ok: "audited m call action rt rid tid details = (db', Inr x) \<Longrightarrow> (\<And>db x. m = (db, Inr x) \<Longrightarrow> ok db) \<Longrightarrow> ok db'"
  by (blast dest: audited_Inr intro: audit_ok)

lemma audited_request_ok:
  "ok db \<Longrightarrow> (\<And>db' x. m = (db', Inr x) \<Longrightarrow> ok db') \<Longrightarrow> ok (fst (operator_request db (audited m call action rt rid tid details)))"
  by (rule operator_request_keeps) (auto intro: audited_ok)

lemma fst_ok: "ok (fst m) \<Longrightarrow> m = (db', r) \<Longrightarrow> ok db'"
  by simp

lemma set_subscription_ok:
  assumes "ok db"
  shows "ok (fst (set_platform_subscription db call req))"
proof -
  have "ok db'" if "and_then (upsert_subscription db req) (\<lambda>db s. case plan_of db (ts_plan_id s) of None \<Rightarrow> (db, Inl AssertionError)
      | Some plan \<Rightarrow> (db, Inr (s, plan))) = (db', Inr x)" for db' x
    using that upsert_ok [OF assms, of req] by (auto simp: and_then_Inr_iff split: option.splits)
  with assms show ?thesis unfolding set_platform_subscription_def by (rule audited_request_ok)
qed

lemma converge_request_ok: "ok db \<Longrightarrow> ok (fst (converge_platform_billing_event env db call n now))"
  unfolding converge_platform_billing_event_def
  by (rule audited_request_ok) (auto intro: fst_ok [OF converge_billing_event_ok])

lemma reconcile_request_ok:
  assumes "ok db"
  shows "ok (fst (reconcile_platform_billing env senv db call provider limit now))"
proof -
  let ?m = "lift_res db (get_billing_provider senv provider) (\<lambda>db a.
         audited (reconcile_provider_subscriptions env db (as_billing_adapter senv now a) limit now) call
           (\<lambda>_. ''BILLING_RECONCILIATION_RUN'') ''BILLING_PROVIDER'' su_provider None
           (\<lambda>s. [(''scanned'', JNum (of_nat (su_scanned s))), (''applied'', JNum (of_nat (su_applied s))),
                 (''duplicates'', JNum (of_nat (su_duplicates s))), (''failed'', JNum (of_nat (su_failed s)))]))"
  have "ok (fst (operator_request db ?m))"
    using assms
    by (rule operator_request_keeps) (auto simp: lift_res_Inr_iff dest!: audited_ok intro: fst_ok [OF reconcile_provider_ok] assms)
  then show ?thesis
    unfolding reconcile_platform_billing_def by (auto split: prod.splits sum.splits)
qed

lemma poll_ok:
  assumes "ok db"
  shows "ok (fst (billing_poll_once env db now))"
  using assms unfolding billing_poll_once_def
  by (intro if_keeps [where P = ok] lift_res_keeps [where P = ok] request_keeps [where P = ok])
    (auto elim!: fst_ok [rotated] intro!: and_then_state_keeps append_audit_ok reconcile_provider_ok)

lemma rolled_back_ok:
  "ok db \<Longrightarrow> ok (fst m) \<Longrightarrow> ok (fst (case m of (db', Inr r) \<Rightarrow> (db', Inr r) | (_, Inl e) \<Rightarrow> (db, Inl (f e))))"
  by (cases m; cases "snd m") auto

lemma webhook_request_ok:
  assumes "ok db"
  shows "ok (fst (stripe_billing_webhook env senv db payload signature ip now))"
  unfolding stripe_billing_webhook_def Let_def
proof (rule rolled_back_ok [OF assms], rule lift_res_keeps [where P = ok, OF assms], rule lift_res_keeps [where P = ok, OF assms])
  fix a verified
  show "ok (fst (and_then (converge_verified_webhook env db (as_billing_adapter senv now a) verified now) (\<lambda>db' result.
      case result of None \<Rightarrow> (db, Inr (r1 verified)) | Some r \<Rightarrow> and_then (append_platform_audit db' (action r) rt (rid r) (tid r) (details r) ip actor)
        (\<lambda>db' _. (db', Inr (r2 r verified))))))" for r1 r2 action rt rid tid details actor
    using assms by (auto split: option.split intro!: and_then_state_keeps append_audit_ok converge_webhook_ok)
qed

end

section \<open>What the tables keep\<close>

lemma note_inv:
  "saas_inv db \<Longrightarrow> saas_inv (db\<lparr>subscriptions := update_where (\<lambda>s. ts_id s = sid)
     (\<lambda>s. s\<lparr>ts_provider_sync_error := msg, ts_provider_sync_error_at := noted\<rparr>) (subscriptions db)\<rparr>)"
  by (auto simp: saas_inv_def subscriptions_ok_def in_update_where entitled_def)

lemma audit_inv: "saas_inv db \<Longrightarrow> saas_inv (db\<lparr>platform_audit_logs := platform_audit_logs db @ [r], saas_next_id := Suc (saas_next_id db)\<rparr>)"
  by (rule saas_inv_frame) simp_all

interpretation inv_client: billing_client saas_inv
  by unfold_locales (auto intro: upsert_subscription_inv flush_billing_event_inv put_billing_event_inv sync_inv note_inv audit_inv)

text \<open>An event once recorded stays recorded, under its identity and with its fingerprint.\<close>

definition recorded :: "str \<times> str \<Rightarrow> str \<Rightarrow> 'x saas_db_scheme \<Rightarrow> bool" where
  "recorded key h db \<longleftrightarrow> saas_inv db \<and> (\<exists>e \<in> set (billing_events db). billing_key e = key \<and> be_payload_sha256 e = h)"

lemma recorded_frame: "recorded key h db \<Longrightarrow> (saas_inv db \<Longrightarrow> saas_inv db') \<Longrightarrow> billing_events db' = billing_events db \<Longrightarrow> recorded key h db'"
  by (simp add: recorded_def)

lemma recorded_flush: "recorded key h db \<Longrightarrow> be_id e = saas_next_id db \<Longrightarrow> recorded key h (fst (flush_billing_event db e))"
  using flush_billing_event_inv [of db e] by (auto simp: recorded_def flush_billing_event_def split: if_splits)

lemma recorded_put:
  assumes r: "recorded key h db" and e0: "e0 \<in> set (billing_events db)" "be_id e = be_id e0" "billing_key e = billing_key e0"
    "be_payload_sha256 e = be_payload_sha256 e0"
  shows "recorded key h (put_billing_event e db)"
proof -
  from r obtain x where x: "x \<in> set (billing_events db)" "billing_key x = key" "be_payload_sha256 x = h" and inv: "saas_inv db"
    by (auto simp: recorded_def)
  have "saas_inv (put_billing_event e db)" using inv e0 by (intro put_billing_event_inv)
  moreover have "\<exists>y \<in> set (put_row be_id e (billing_events db)). billing_key y = key \<and> be_payload_sha256 y = h"
  proof (cases "be_id x = be_id e")
    case True
    with x e0 inv have "x = e0" by (auto simp: saas_inv_def events_ok_def distinct_map inj_on_def)
    with x e0 show ?thesis by (intro bexI [of _ e] put_row_in) auto
  next
    case False
    with x show ?thesis by (intro bexI [of _ x]) (auto simp: put_row_def in_update_where)
  qed
  ultimately show ?thesis by (simp add: recorded_def put_billing_event_def)
qed

interpretation recorded_client: billing_client "recorded key h"
proof
  show "recorded key h db \<Longrightarrow> recorded key h (fst (upsert_subscription db req))" for db :: "'a saas_db_scheme" and req
    by (erule recorded_frame) (auto intro: upsert_subscription_inv)
  show "recorded key h db \<Longrightarrow> s \<in> set (subscriptions db) \<Longrightarrow> recorded key h (put_subscription (synced src now s) db)"
    for db :: "'a saas_db_scheme" and s src now
    by (erule recorded_frame) (auto simp: put_subscription_def intro: sync_inv [unfolded put_subscription_def])
  show "recorded key h db \<Longrightarrow> recorded key h (db\<lparr>subscriptions := update_where (\<lambda>s. ts_id s = sid)
     (\<lambda>s. s\<lparr>ts_provider_sync_error := msg, ts_provider_sync_error_at := noted\<rparr>) (subscriptions db)\<rparr>)"
    for db :: "'a saas_db_scheme" and sid msg noted
    by (erule recorded_frame) (auto intro: note_inv)
  show "recorded key h db \<Longrightarrow> recorded key h (db\<lparr>platform_audit_logs := platform_audit_logs db @ [r], saas_next_id := Suc (saas_next_id db)\<rparr>)"
    for db :: "'a saas_db_scheme" and r
    by (erule recorded_frame) (auto intro: audit_inv)
qed (auto intro: recorded_flush recorded_put)

end
