(* ===== verification/Subscription_Properties.thy ===== *)
theory Subscription_Properties
  imports Subscription_Laws
begin

text \<open>
  The properties of the subscription platform: a store reached by the operator's requests, the signed webhooks and the polls
  resolves the limits of every tenant; a billing event takes effect once; a webhook is read only under a valid signature.
\<close>

section \<open>Runs\<close>

inductive saas_run :: "billing_env \<Rightarrow> stripe_env \<Rightarrow> saas_db \<Rightarrow> saas_db \<Rightarrow> bool" for env senv db0 where
  start: "saas_run env senv db0 db0"
| plan: "saas_run env senv db0 db \<Longrightarrow>
    saas_run env senv db0 (fst (create_platform_plan db call key name descr active pub entitlements metadata now))"
| change_plan: "saas_run env senv db0 db \<Longrightarrow> saas_run env senv db0 (fst (patch_platform_plan db call plan_id req))"
| price: "saas_run env senv db0 db \<Longrightarrow>
    saas_run env senv db0 (fst (create_platform_plan_price db call plan_id provider external currency amount interval n active metadata))"
| change_price: "saas_run env senv db0 db \<Longrightarrow> saas_run env senv db0 (fst (patch_platform_plan_price db call price_id active md))"
| subscribe: "saas_run env senv db0 db \<Longrightarrow> saas_run env senv db0 (fst (set_platform_subscription db call sreq))"
| unsubscribe: "saas_run env senv db0 db \<Longrightarrow> saas_run env senv db0 (fst (delete_platform_subscription db call tenant_id))"
| billing_event: "saas_run env senv db0 db \<Longrightarrow> saas_run env senv db0 (fst (converge_platform_billing_event env db call notice now))"
| inspect: "saas_run env senv db0 db \<Longrightarrow> saas_run env senv db0 (fst (inspect_platform_tenant_entitlements env db call tenant_id now))"
| reconcile: "saas_run env senv db0 db \<Longrightarrow> saas_run env senv db0 (fst (reconcile_platform_billing env senv db call selected limit now))"
| poll: "saas_run env senv db0 db \<Longrightarrow> saas_run env senv db0 (fst (billing_poll_once env db now))"
| webhook: "saas_run env senv db0 db \<Longrightarrow> saas_run env senv db0 (fst (stripe_billing_webhook env senv db payload signature ip now))"
| elsewhere: "saas_run env senv db0 db \<Longrightarrow>
    saas_run env senv db0 (db\<lparr>saas_tenants := ts, saas_bots := bs, provisioning_jobs := js\<rparr>)"

definition fresh_installation :: "saas_db \<Rightarrow> bool" where
  "fresh_installation db \<longleftrightarrow> saas_plans db = [] \<and> subscriptions db = [] \<and> billing_events db = []"

lemma fresh_inv: "fresh_installation db \<Longrightarrow> saas_inv db"
  by (simp add: fresh_installation_def saas_inv_def plans_ok_def subscriptions_ok_def events_ok_def)

text \<open>The requests that are not of the billing service, for a predicate that only depends on the tables of the invariant.\<close>

lemma inspect_frame:
  "fst (inspect_platform_tenant_entitlements env db call t now) = db \<or>
   (\<exists>r. fst (inspect_platform_tenant_entitlements env db call t now) =
     db\<lparr>platform_audit_logs := platform_audit_logs db @ [r], saas_next_id := Suc (saas_next_id db)\<rparr>)"
proof (cases "inspect_tenant_saas env db t now")
  case (Inr found)
  then show ?thesis
    by (cases found)
      (auto simp: inspect_platform_tenant_entitlements_def audited_def append_platform_audit_def Let_def lift_res_def split: sum.splits)
qed (simp add: inspect_platform_tenant_entitlements_def)

lemma price_frame:
  "create_plan_price db plan_id provider external currency amount interval n active md = (db', r) \<Longrightarrow>
   saas_plans db' = saas_plans db \<and> subscriptions db' = subscriptions db \<and> billing_events db' = billing_events db \<and> saas_next_id db \<le> saas_next_id db'"
  by (auto simp: create_plan_price_def Let_def flush_price_def lift_res_def on_integrity_error_def split: option.splits if_splits sum.splits)

lemma change_price_frame:
  "update_plan_price db price_id active md = (db', r) \<Longrightarrow>
   saas_plans db' = saas_plans db \<and> subscriptions db' = subscriptions db \<and> billing_events db' = billing_events db \<and> saas_next_id db \<le> saas_next_id db'"
  by (auto simp: update_plan_price_def Let_def put_price_def lift_res_def split: option.splits sum.splits)

locale control_plane_client = billing_client ok for ok :: "saas_db \<Rightarrow> bool" +
  assumes create_plan_ok: "ok db \<Longrightarrow> create_plan db key name descr active pub entitlements metadata now = (db', Inr p) \<Longrightarrow> ok db'"
    and update_plan_ok: "ok db \<Longrightarrow> update_plan db plan_id req = (db', Inr p) \<Longrightarrow> ok db'"
    and clear_ok: "ok db \<Longrightarrow> clear_subscription db tenant_id = (db', Inr s) \<Longrightarrow> ok db'"
    and frame_ok: "ok db \<Longrightarrow> saas_next_id db \<le> saas_next_id db' \<Longrightarrow> saas_plans db' = saas_plans db \<Longrightarrow>
      subscriptions db' = subscriptions db \<Longrightarrow> billing_events db' = billing_events db \<Longrightarrow> ok db'"
begin

lemma price_ok: "ok db \<Longrightarrow> create_plan_price db plan_id provider external currency amount interval n active md = (db', r) \<Longrightarrow> ok db'"
  by (drule price_frame) (erule frame_ok, simp_all)

lemma change_price_ok: "ok db \<Longrightarrow> update_plan_price db price_id active md = (db', r) \<Longrightarrow> ok db'"
  by (drule change_price_frame) (erule frame_ok, simp_all)

lemma run_ok: "saas_run env senv db0 db \<Longrightarrow> ok db0 \<Longrightarrow> ok db"
proof (induction rule: saas_run.induct)
  case (plan db call key name descr active pub entitlements metadata now)
  then have "ok db" by blast
  then show ?case unfolding create_platform_plan_def by (rule audited_request_ok) (erule create_plan_ok [OF \<open>ok db\<close>])
next
  case (change_plan db call plan_id req)
  then have "ok db" by blast
  then show ?case
    unfolding patch_platform_plan_def
    by (rule operator_request_keeps [where P = ok])
      (clarsimp simp: and_then_Inr_iff, erule audited_ok, erule update_plan_ok [OF \<open>ok db\<close>])
next
  case (price db call plan_id provider external currency amount interval n active metadata)
  then have "ok db" by blast
  then show ?case unfolding create_platform_plan_price_def by (rule audited_request_ok) (erule price_ok [OF \<open>ok db\<close>])
next
  case (change_price db call price_id active md)
  then have "ok db" by blast
  then show ?case unfolding patch_platform_plan_price_def by (rule audited_request_ok) (erule change_price_ok [OF \<open>ok db\<close>])
next
  case (unsubscribe db call tenant_id)
  then have "ok db" by blast
  then show ?case unfolding delete_platform_subscription_def by (rule audited_request_ok) (erule clear_ok [OF \<open>ok db\<close>])
next
  case (inspect db call tenant_id now)
  then have "ok db" by blast
  with inspect_frame [of env db call tenant_id now] audit_ok [OF \<open>ok db\<close>] show ?case by auto
next
  case (elsewhere db ts bs js)
  then have "ok db" by blast
  then show ?case by (rule frame_ok) simp_all
qed (blast intro: set_subscription_ok converge_request_ok reconcile_request_ok poll_ok webhook_request_ok)+

end

interpretation inv_plane: control_plane_client saas_inv
proof
  show "saas_inv db \<Longrightarrow> create_plan db key name descr active pub entitlements metadata now = (db', Inr p) \<Longrightarrow> saas_inv db'"
    for db db' :: saas_db and key name descr active pub entitlements metadata now p
    using create_plan_inv [of db key name descr active pub entitlements metadata now] by simp
qed (auto intro: update_plan_inv clear_subscription_inv saas_inv_frame)






section \<open>Limits\<close>

lemma valid_document:
  assumes "validate_entitlement_document d = Inr ()"
  obtains b e j fs where "required_positive_int d ''max_bots'' = Inr b" "required_positive_int d ''max_enabled_bots'' = Inr e"
    "required_positive_int d ''max_open_provisioning_jobs'' = Inr j" "feature_flags d = Inr fs" "e \<le> b"
  using assms by (auto simp: validate_entitlement_document_def res_bind_Inr_iff split: if_splits)

lemma required_positive_int_pos: "required_positive_int d k = Inr n \<Longrightarrow> 1 \<le> n"
  by (auto simp: required_positive_int_def split: json.splits if_splits)

text \<open>In a store with the invariant a tenant's plan is found and its limits are valid.\<close>

lemma subscription_resolves:
  assumes inv: "saas_inv db"
  shows "subscription_of db t = Inr (first_row (\<lambda>s. ts_tenant_id s = t) (subscriptions db))"
  unfolding subscription_of_def using inv
  by (intro scalar_one_or_none_unique [where k = ts_tenant_id]) (simp_all add: saas_inv_def subscriptions_ok_def)

lemma plan_resolves:
  assumes inv: "saas_inv db" and s: "s \<in> set (subscriptions db)"
  obtains p where "plan_of db (ts_plan_id s) = Some p"
    "validate_entitlement_document (merge_entitlements (pl_entitlements p) (ts_entitlement_overrides s)) = Inr ()"
proof -
  from inv s obtain q where q: "q \<in> set (saas_plans db)" "pl_id q = ts_plan_id s"
    "validate_entitlement_document (merge_entitlements (pl_entitlements q) (ts_entitlement_overrides s)) = Inr ()"
    by (auto simp: saas_inv_def subscriptions_ok_def entitled_def)
  then obtain p where p: "plan_of db (ts_plan_id s) = Some p"
    by (cases "plan_of db (ts_plan_id s)") (auto simp: plan_of_def first_row_None_iff)
  then have "p \<in> set (saas_plans db)" "pl_id p = ts_plan_id s"
    unfolding plan_of_def by (auto dest: first_row_SomeD)
  with q inv have "p = q" by (auto simp: saas_inv_def plans_ok_def distinct_map inj_on_def)
  with p q that show thesis by blast
qed

lemma entitlements_resolve:
  assumes inv: "saas_inv db"
  shows "\<exists>r. resolve_tenant_entitlements env db t = Inr r \<and>
    (es_source r = ''SAAS_PLAN'' \<longrightarrow> 1 \<le> es_max_enabled_bots r \<and> es_max_enabled_bots r \<le> es_max_bots r \<and> 1 \<le> es_max_open_provisioning_jobs r)"
proof (cases "first_row (\<lambda>s. ts_tenant_id s = t) (subscriptions db)")
  case None
  then show ?thesis by (simp add: resolve_tenant_entitlements_def subscription_resolves [OF inv])
next
  case (Some s)
  then have "s \<in> set (subscriptions db)" by (auto dest: first_row_SomeD)
  with inv obtain p where p: "plan_of db (ts_plan_id s) = Some p"
    and valid: "validate_entitlement_document (merge_entitlements (pl_entitlements p) (ts_entitlement_overrides s)) = Inr ()"
    by (rule plan_resolves)
  from valid obtain b e j fs where "required_positive_int (merge_entitlements (pl_entitlements p) (ts_entitlement_overrides s)) ''max_bots'' = Inr b"
    "required_positive_int (merge_entitlements (pl_entitlements p) (ts_entitlement_overrides s)) ''max_enabled_bots'' = Inr e"
    "required_positive_int (merge_entitlements (pl_entitlements p) (ts_entitlement_overrides s)) ''max_open_provisioning_jobs'' = Inr j"
    "feature_flags (merge_entitlements (pl_entitlements p) (ts_entitlement_overrides s)) = Inr fs" "e \<le> b"
    by (rule valid_document)
  with valid Some p show ?thesis
    by (simp add: resolve_tenant_entitlements_def subscription_resolves [OF inv] Let_def required_positive_int_pos)
qed

text \<open>C17: Whatever the operator does to plans and subscriptions, and whatever webhooks and polls bring, the limits of a tenant
can be resolved: its subscription names an existing plan and the plan with the overrides of the subscription is a valid
document, so no check of a quota fails for a reason of configuration and a tenant may never have more bots enabled than it may
own. A change of a plan is checked against every subscriber before it is stored.\<close>

theorem limits_always_resolve:
  assumes "fresh_installation db0" and "saas_run env senv db0 db"
  shows "\<exists>r. resolve_tenant_entitlements env db t = Inr r \<and>
    (es_source r = ''SAAS_PLAN'' \<longrightarrow> 1 \<le> es_max_enabled_bots r \<and> es_max_enabled_bots r \<le> es_max_bots r \<and> 1 \<le> es_max_open_provisioning_jobs r)"
  using entitlements_resolve inv_plane.run_ok [OF assms(2) fresh_inv [OF assms(1)]] by blast

section \<open>A sample installation\<close>

text \<open>An installation with one tenant; the hash is the identity and a document is rendered by its first texts.\<close>

definition sample_dumps :: "dict \<Rightarrow> str" where
  "sample_dumps d = concat (map (\<lambda>(k, v). (case v of JStr s \<Rightarrow> s | JBool b \<Rightarrow> if b then ''t'' else ''f'' | _ \<Rightarrow> []) @ '';'') (take 6 d))"

definition sample_state :: "SubscriptionStatus \<Rightarrow> provider_subscription_state" where
  "sample_state status =
     \<lparr>st_provider = ''stripe'', st_event_type = ''subscription.reconciled'', st_external_event_id = None, st_tenant_id = 7,
      st_external_price_id = ''price_1'', st_status = status, st_external_customer_id = Some ''cus_1'',
      st_external_subscription_id = ''sub_1'', st_current_period_start = Some 0, st_current_period_end = Some 100, st_trial_ends_at = None,
      st_cancel_at_period_end = False, st_provider_created_at = 50, st_revision = subscription_status_value status,
      st_event_metadata = []\<rparr>"

text \<open>A provider that reports the given status.\<close>

definition sample_billing :: "SubscriptionStatus \<Rightarrow> billing_env" where
  "sample_billing status =
     \<lparr>senv_max_bots = 3, senv_max_enabled_bots = 3, senv_max_open_jobs = 1, senv_grace_days = 7, senv_stale_seconds = 3600,
      senv_sha256 = (\<lambda>s. s), senv_dumps = sample_dumps, senv_isoformat = (\<lambda>_. []), senv_message = error_name,
      benv_adapter = Inr \<lparr>adapter_name = ''stripe'', fetch_subscription = (\<lambda>_. Inr (sample_state status))\<rparr>,
      benv_reconcile_enabled = True, benv_batch_size = 10, benv_updated_at = (\<lambda>_. 0), benv_str_time = (\<lambda>_. [])\<rparr>"

definition sample_stripe :: stripe_env where
  "sample_stripe =
     \<lparr>sk_http = (\<lambda>_ _ _ _ _. None), sk_hmac = (\<lambda>key msg. key @ ''/'' @ msg),
      sk_loads = (\<lambda>s. if s = ''payload'' then Some (JObj [(''id'', JStr ''evt_1''), (''type'', JStr ''invoice.paid''),
        (''data'', JObj [(''object'', JObj [])])]) else None),
      sk_render = (\<lambda>_. []), sk_sha256 = (\<lambda>s. s), sk_dumps = sample_dumps, sk_provider = ''stripe'', sk_secret_key = Some ''sk'',
      sk_webhook_secret = Some ''wh'', sk_tolerance = 300\<rparr>"

definition sample_operator :: operator_call where
  "sample_operator = \<lparr>oc_actor = ''operator'', oc_ip = None, oc_fields = []\<rparr>"

definition empty_saas :: saas_db where
  "empty_saas =
     \<lparr>saas_next_id = 1, saas_tenants = [\<lparr>tn_id = 7, tn_name = ''Shop'', tn_slug = ''shop'', tn_is_active = True, tn_settings = [],
        tn_deleted_at = None\<rparr>], saas_bots = [], provisioning_jobs = [], saas_plans = [], plan_prices = [], subscriptions = [],
      billing_events = [], platform_audit_logs = []\<rparr>"

definition sample_limits :: "int \<Rightarrow> dict" where
  "sample_limits n = [(''max_bots'', JNum (of_int n)), (''max_enabled_bots'', JNum 2), (''max_open_provisioning_jobs'', JNum 1)]"

definition planned_saas :: saas_db where
  "planned_saas = fst (create_platform_plan empty_saas sample_operator ''basic'' ''Basic'' None True True (sample_limits 5) [] 0)"

definition priced_saas :: saas_db where
  "priced_saas = fst (create_platform_plan_price planned_saas sample_operator 1 ''stripe'' ''price_1'' ''usd'' 900 MONTH 1 True [])"

definition subscribed_saas :: saas_db where
  "subscribed_saas = fst (set_platform_subscription priced_saas sample_operator
     \<lparr>sr_tenant_id = 7, sr_plan_key = ''basic'', sr_status = SubscriptionStatus.ACTIVE, sr_billing_provider = Some ''stripe'',
      sr_external_customer_id = None, sr_external_subscription_id = Some ''sub_1'', sr_current_period_start = None,
      sr_current_period_end = None, sr_trial_ends_at = None, sr_grace_ends_at = None, sr_cancel_at_period_end = False,
      sr_entitlement_overrides = Some [(''max_enabled_bots'', JNum 4)], sr_billing_metadata = None\<rparr>)"

lemma fresh_empty: "fresh_installation empty_saas"
  by (simp add: fresh_installation_def empty_saas_def)

lemma subscribed_run: "saas_run env senv empty_saas subscribed_saas"
  unfolding subscribed_saas_def priced_saas_def planned_saas_def
  by (intro saas_run.subscribe saas_run.price saas_run.plan saas_run.start)

text \<open>The plan with its override; lowering the plan below the override is refused.\<close>

lemma sample_entitlements:
  "(case resolve_tenant_entitlements (sample_billing TRIALING) subscribed_saas 7 of
      Inr r \<Rightarrow> es_source r = ''SAAS_PLAN'' \<and> es_max_bots r = 5 \<and> es_max_enabled_bots r = 4 | Inl _ \<Rightarrow> False)"
  by code_simp

lemma sample_refused:
  "(case patch_platform_plan subscribed_saas sample_operator 1
       \<lparr>pu_name = None, pu_description = None, pu_is_active = None, pu_is_public = None, pu_entitlements = Some (sample_limits 3),
        pu_metadata_json = None\<rparr> of (_, Inl e) \<Rightarrow> e = HTTPException 422 | _ \<Rightarrow> False)"
  by code_simp

theorem limits_always_resolve_witness:
  "(\<exists>r. resolve_tenant_entitlements (sample_billing TRIALING) subscribed_saas 7 = Inr r \<and>
      (es_source r = ''SAAS_PLAN'' \<longrightarrow> 1 \<le> es_max_enabled_bots r \<and> es_max_enabled_bots r \<le> es_max_bots r \<and> 1 \<le> es_max_open_provisioning_jobs r)) \<and>
   (case resolve_tenant_entitlements (sample_billing TRIALING) subscribed_saas 7 of
      Inr r \<Rightarrow> es_source r = ''SAAS_PLAN'' \<and> es_max_bots r = 5 \<and> es_max_enabled_bots r = 4 | Inl _ \<Rightarrow> False)"
  using limits_always_resolve [OF fresh_empty subscribed_run [of "sample_billing TRIALING" sample_stripe], of 7] sample_entitlements
  by blast

section \<open>Billing events\<close>




text \<open>What the platform enforces of a subscription.\<close>

definition billing_terms :: "tenant_subscription \<Rightarrow> uuid \<times> uuid \<times> SubscriptionStatus \<times> timestamp option \<times> timestamp option \<times> bool" where
  "billing_terms s = (ts_tenant_id s, ts_plan_id s, ts_status s, ts_current_period_end s, ts_grace_ends_at s, ts_cancel_at_period_end s)"

lemma billing_terms_synced [simp]: "billing_terms (synced src now s) = billing_terms s"
  by (simp add: billing_terms_def synced_def)


lemma state_notice_key [simp]:
  "bn_provider (state_notice env st None None src p plan existing) = st_provider st"
  "bn_external_event_id (state_notice env st None None src p plan existing) = reconciliation_event_id env st"
  by (simp_all add: state_notice_def truthy_def)



text \<open>The provider reports the subscription active, a notice makes it past due, and the provider still reports it active.\<close>

definition polled_saas :: saas_db where
  "polled_saas = fst (billing_poll_once (sample_billing SubscriptionStatus.ACTIVE) subscribed_saas 60)"

lemma sample_polled: "map ts_status (subscriptions polled_saas) = [SubscriptionStatus.ACTIVE]"
  by code_simp

definition past_due_notice :: billing_notice where
  "past_due_notice =
     \<lparr>sr_tenant_id = 7, sr_plan_key = ''basic'', sr_status = PAST_DUE, sr_billing_provider = None, sr_external_customer_id = Some ''cus_1'',
      sr_external_subscription_id = Some ''sub_1'', sr_current_period_start = Some 0, sr_current_period_end = Some 100,
      sr_trial_ends_at = None, sr_grace_ends_at = Some 90, sr_cancel_at_period_end = False, sr_entitlement_overrides = None,
      sr_billing_metadata = None, bn_provider = ''stripe'', bn_external_event_id = ''evt_2'',
      bn_event_type = ''customer.subscription.updated'', bn_event_metadata = None\<rparr>"

definition past_due_saas :: saas_db where
  "past_due_saas = fst (converge_platform_billing_event (sample_billing SubscriptionStatus.ACTIVE) polled_saas sample_operator past_due_notice 70)"

definition sample_adapter :: billing_adapter where
  "sample_adapter = \<lparr>adapter_name = ''stripe'', fetch_subscription = (\<lambda>_. Inr (sample_state SubscriptionStatus.ACTIVE))\<rparr>"







lemma sample_duplicate:
  "(case sync_subscription (sample_billing SubscriptionStatus.ACTIVE) past_due_saas sample_adapter (hd (subscriptions past_due_saas)) ''sub_1'' 80 of
      (db, Inr r) \<Rightarrow> cv_duplicate r \<and> map ts_provider_synced_at (subscriptions db) = [Some 80] | _ \<Rightarrow> False)"
  by code_simp



section \<open>Signed webhooks\<close>

lemma any_digest_in: "any_digest expected cs = Inr True \<Longrightarrow> expected \<in> set cs"
  by (induction cs) (auto split: if_splits)

lemma verified_signature:
  assumes "verify_webhook senv a payload header now = Inr v"
  shows "\<exists>stamp signatures. parse_stripe_signature header = Inr (stamp, signatures) \<and> \<bar>now div 1000000 - stamp\<bar> \<le> sa_tolerance a \<and>
    sk_hmac senv (sa_webhook_secret a) (str_int stamp @ ''.'' @ payload) \<in> set signatures"
  using assms by (auto simp: verify_webhook_def res_bind_Inr_iff split: prod.splits if_splits dest: any_digest_in)

text \<open>C19: The billing webhook changes the store only for a request that the provider signed: the installation's provider is
configured, the header names a time within the tolerance of the clock and one of its signatures is the keyed hash of that time
and the payload under the installation's secret. Every other request, whatever its payload, leaves all tables as they are.\<close>

theorem webhook_changes_need_signature:
  assumes "fst (stripe_billing_webhook env senv db payload header ip now) \<noteq> db"
  shows "\<exists>a stamp signatures. get_billing_provider senv (Some ''stripe'') = Inr a \<and>
    parse_stripe_signature (case header of None \<Rightarrow> [] | Some s \<Rightarrow> s) = Inr (stamp, signatures) \<and>
    \<bar>now div 1000000 - stamp\<bar> \<le> sa_tolerance a \<and>
    sk_hmac senv (sa_webhook_secret a) (str_int stamp @ ''.'' @ payload) \<in> set signatures"
proof -
  obtain a where a: "get_billing_provider senv (Some ''stripe'') = Inr a"
    using assms by (cases "get_billing_provider senv (Some ''stripe'')") (simp_all add: stripe_billing_webhook_def)
  obtain v where "verify_webhook senv a payload (case header of None \<Rightarrow> [] | Some s \<Rightarrow> s) now = Inr v"
    using assms a by (cases "verify_webhook senv a payload (case header of None \<Rightarrow> [] | Some s \<Rightarrow> s) now")
      (simp_all add: stripe_billing_webhook_def)
  with a show ?thesis using verified_signature by blast
qed

text \<open>A signed notice that the subscription is past due.\<close>

definition signed_stripe :: stripe_env where
  "signed_stripe = sample_stripe\<lparr>sk_loads := (\<lambda>_. Some (JObj [(''id'', JStr ''evt_3''), (''type'', JStr ''customer.subscription.updated''),
     (''data'', JObj [(''object'', JObj [(''id'', JStr ''sub_1''), (''status'', JStr ''past_due''),
        (''metadata'', JObj [(''ghbf_tenant_id'', JStr ''7'')]),
        (''items'', JObj [(''data'', JList [JObj [(''price'', JObj [(''id'', JStr ''price_1'')])]])])])])]))\<rparr>"

definition signed_saas :: saas_db where
  "signed_saas = fst (stripe_billing_webhook (sample_billing SubscriptionStatus.ACTIVE) signed_stripe subscribed_saas ''{}''
     (Some ''t=100,v1=wh/100.{}'') None 200000000)"

lemma signed_changes: "signed_saas \<noteq> subscribed_saas"
proof -
  have "map (\<lambda>s. ts_status s) (subscriptions signed_saas) = [PAST_DUE]" by code_simp
  moreover have "map (\<lambda>s. ts_status s) (subscriptions subscribed_saas) = [SubscriptionStatus.ACTIVE]" by code_simp
  ultimately show ?thesis by auto
qed

theorem webhook_changes_need_signature_witness:
  "\<exists>a stamp signatures. get_billing_provider signed_stripe (Some ''stripe'') = Inr a \<and>
    parse_stripe_signature ''t=100,v1=wh/100.{}'' = Inr (stamp, signatures) \<and> \<bar>200000000 div 1000000 - stamp\<bar> \<le> sa_tolerance a \<and>
    sk_hmac signed_stripe (sa_webhook_secret a) (str_int stamp @ ''.'' @ ''{}'') \<in> set signatures"
  using webhook_changes_need_signature [OF signed_changes [unfolded signed_saas_def]] by simp

section \<open>The health report\<close>

text \<open>In a store with the invariant every live tenant is either without a subscription or counted under one state of access.\<close>

theorem health_counts_add_up:
  assumes "saas_inv db" and "distinct (map tn_id (saas_tenants db))"
  shows "hs_active_access (collect_saas_health env db now stale) + hs_grace_access (collect_saas_health env db now stale) +
    hs_blocked_access (collect_saas_health env db now stale) = hs_subscribed_tenants (collect_saas_health env db now stale)"
  using assms subscribed_as_many [of "subscriptions db" "filter (\<lambda>t. tn_deleted_at t = None) (saas_tenants db)"]
  by (simp add: collect_saas_health_def Let_def health_fold_counts saas_inv_def subscriptions_ok_def distinct_map_filter)

end
