(* ===== verification/Spec2Isabelle.thy ===== *)
theory Spec2Isabelle
  imports Resolution_Properties Worker_Properties Reconciliation_Properties Checkout_Properties
    Polling_Properties Platform_Properties Stars_Properties Subscription_Properties
begin

text \<open>
  A verification library for the money and the orders of GH Bot Factory, a multi-tenant platform for
  Telegram shops. Paths are relative to \<open>src/\<close>.

  \<^bold>\<open>The program.\<close> A tenant's customers have wallets. Money enters a wallet through payments
  (\<open>packages/payments/payment_service.py\<close>), through open-amount deposits
  (\<open>packages/payments/flexible_deposits.py\<close>) and through refunds; it leaves through debits, captured
  holds and reversals of top-ups. Everything that moves money is an append-only row of the ledger
  (\<open>packages/payments/service.py\<close>). Payment services are adapters found by a registry
  (\<open>packages/payments/providers/\<close>). Tenants also offer methods outside a payment service, for which customers submit
  evidence (\<open>packages/payments/platform.py\<close>). Workers run in the background: one reconciles open deposits
  (\<open>flexible_deposit_worker.py\<close>), one asks providers for refunds (\<open>reversal_worker.py\<close>), one asks providers what became of
  open payments (\<open>provider_reconciliation_worker.py\<close>), one verifies chain transactions (\<open>onchain_reconciliation.py\<close>).
  Operators decide the cases that need a human (\<open>resolution.py\<close>).

  The customers spend the money in the tenant's shop. A checkout (\<open>packages/commerce/checkout.py\<close>) prices a cart from
  suppliers' offers and the tenant's rules (\<open>commerce/economics.py\<close>), takes a coupon off
  (\<open>packages/operations/service.py\<close>), debits the wallet and leaves a durable job or fulfils at once. Fulfilment
  (\<open>packages/fulfillment/service.py\<close>) buys the items from suppliers chosen by a router
  (\<open>packages/providers/router.py\<close>) under the profile of the bot that sold them (\<open>packages/factory/business_profiles.py\<close>), and
  refunds the order when it gives up. A worker runs the jobs (\<open>fulfillment/worker.py\<close>), another asks suppliers about purchases
  whose outcome is open (\<open>fulfillment/reconciliation.py\<close>).

  The operator of the platform sells it to the tenants: plans limit what a tenant may run, subscriptions
  (\<open>packages/saas/control_plane.py\<close>) name a plan and follow the state that a billing provider reports by signed webhooks or
  is asked for by a worker (\<open>packages/saas/billing_service.py\<close>, \<open>reconciliation_worker.py\<close>). The operator's requests come in
  through \<open>apps/api/v1/platform.py\<close>.

  \<^bold>\<open>The shape of the model.\<close> A piece of session code is a function from the store to a store and a
  result \<open>error + 'a\<close>; the exceptions are the constructors of \<open>error\<close>. \<open>get_db_session\<close> is the request
  transaction: commit on return, roll back on an exception. Savepoints, \<open>flush\<close> with the unique indexes
  of the tables, and the recovery of the loser of an insertion race are written out. A store is an
  extensible record with one list per table: \<open>ledger_db\<close> (wallets, ledger rows, holds), extended by
  \<open>pay_db\<close> (intents, orders, payment transactions, reversals, events, cases, deposits, policies and the
  configuration tables). \<open>Decimal\<close> amounts are \<open>rat\<close> with the source's quantisation written out;
  Python's \<open>int\<close> is \<open>int\<close>; ids are natural numbers; a timestamp counts microseconds; JSON is a datatype.

  \<^bold>\<open>The theories.\<close>
  \<^item> \<open>Prelude\<close>: exceptions, results, the query forms of the sources (\<open>scalar_one_or_none\<close>, \<open>first\<close>, ...),
    JSON, the Python string functions in use, and their lemmas.
  \<^item> \<open>Lifecycle\<close>: the status machines of orders (\<open>commerce/state_machine.py\<close>) and payment intents
    (\<open>payments/state_machine.py\<close>) with the locales \<open>lifecycle\<close> and \<open>ranked_lifecycle\<close>.
  \<^item> \<open>Ledger\<close>: every operation of \<open>LedgerService\<close> and \<open>WalletHoldService\<close>. \<open>Ledger_Laws\<close>: the invariant
    (audit chain from zero to the booked balance, no negative balance, the unique indexes) and the
    locale \<open>exactly_once\<close>, interpreted for settlements, reversals, deposit settlements and refunds.
    \<open>Ledger_Runs\<close>: the stores that committed requests reach, and the abstract balances the
    operations refine. \<open>Ledger_Properties\<close>: the properties, with \<open>durable_exactly_once\<close>
    interpreted over arbitrary later requests.
  \<^item> \<open>Payment_Store\<close>: the rows of \<open>payments/models.py\<close> and \<open>economics_models.py\<close>, the provider messages.
  \<^item> \<open>Asset_Ledger\<close>, \<open>Asset_Properties\<close>: the asset ledger, conversion policies and deposit settlement
    of \<open>payments/economics.py\<close>; the asset ledger is another instance of \<open>exactly_once\<close>.
  \<^item> \<open>Gateway\<close>: the adapter protocols as a record of functions, and \<open>PaymentProviderRegistry\<close>.
  \<^item> \<open>Deposits\<close>, \<open>Deposit_Properties\<close>: \<open>FlexibleDepositService\<close> and its worker's iteration.
  \<^item> \<open>Payments\<close>: intents, settlement, Telegram Stars, webhooks, gateway refunds.
    \<open>Payment_Properties\<close>: \<open>pay_inv\<close>, which ties the status of every intent to its settlement row, and
    that every request keeps it. \<open>Payment_Runs\<close> and \<open>Payment_Requests\<close>: the request histories and
    the properties of single requests.
  \<^item> \<open>Reversals\<close>, \<open>Resolution\<close>, \<open>Reversal_Worker\<close>: the reversal saga, the operators' cases and the worker,
    with the locale \<open>batch_worker\<close>. \<open>Reversal_Laws\<close>: \<open>rev_inv\<close>, which matches the reversals with the
    reversal debits of the ledger. \<open>Reversal_Runs\<close>, \<open>Reversal_Properties\<close>, \<open>Reversal_Liveness\<close>,
    \<open>Resolution_Properties\<close>: histories of merchants, providers, operators and the worker in any order.
  \<^item> \<open>Stars_Reconciliation\<close>, \<open>Stars_Laws\<close>, \<open>Stars_Properties\<close>: \<open>TelegramStarsReconciliationService\<close> and the poll of its
    worker (\<open>stars_reconciliation.py\<close>), which mirrors refunds and chargebacks that Telegram reports.
  \<^item> \<open>Payment_Reconciliation\<close>, \<open>Polling_Properties\<close>: \<open>PaymentReconciliationService\<close>, the turn of its worker and the health
    report of \<open>payments/operations.py\<close>.
  \<^item> \<open>Payment_Platform\<close>, \<open>Platform_Properties\<close>: \<open>PaymentPlatformService\<close> (methods, quotes, evidence) and the turn of the
    on-chain worker, with the histories of evidence.
  \<^item> \<open>Shop_Store\<close>: the rows of the shop; \<open>shop_db\<close> extends \<open>pay_db\<close>, so the ledger works on it unchanged, and logs what
    is sent to suppliers (\<open>dispatched\<close>) and customers (\<open>notices\<close>).
  \<^item> \<open>Profiles\<close>: \<open>business_profiles.py\<close>. \<open>Pricing\<close>, \<open>Pricing_Properties\<close>: \<open>PricingService\<close>. \<open>Care\<close>: cases, coupons,
    announcements of \<open>operations/service.py\<close>.
  \<^item> \<open>Suppliers\<close>: exceptions, messages and the adapter registry of \<open>packages/providers\<close>; an adapter is a record of
    functions of the log of purchases. \<open>Routing\<close>: \<open>ProviderRouter\<close>. \<open>Fulfillment\<close>: \<open>FulfillmentService\<close>.
    \<open>Fulfillment_Laws\<close>, \<open>Fulfillment_Properties\<close>: what an attempt does to money, order and attempt row.
  \<^item> \<open>Fulfillment_Worker\<close>: \<open>FulfillmentWorker\<close> and \<open>fulfillment/operations.py\<close>; \<open>Worker_Properties\<close> with the locale
    \<open>draining_queue\<close>, interpreted on the worker's turn.
  \<^item> \<open>Fulfillment_Reconciliation\<close>, \<open>Reconciliation_Properties\<close>: \<open>ReconciliationService\<close> and its worker's cycle.
  \<^item> \<open>Checkout\<close>, \<open>Checkout_Laws\<close>, \<open>Checkout_Properties\<close>: \<open>CheckoutService\<close>, and the composition of checkout,
    routing, fulfilment and ledger.
  \<^item> \<open>Subscriptions\<close>: the rows of \<open>saas/models.py\<close> in the record \<open>saas_db\<close>, entitlements (\<open>saas/service.py\<close>) and commercial
    access (\<open>product_entitlements.py\<close>). \<open>Control_Plane\<close>: plans, prices, subscriptions, billing events. \<open>Billing\<close>: convergence of
    provider states and the pull reconciliation. \<open>Stripe_Billing\<close>: the adapter of \<open>saas/billing.py\<close> and the webhook endpoint.
    \<open>Saas_Operations\<close>: \<open>saas/operations.py\<close>. \<open>Platform_Api\<close>: the operator's endpoints.
  \<^item> \<open>Subscription_Laws\<close>: \<open>saas_inv\<close> and the locale \<open>billing_client\<close>, interpreted for the invariant and for the record of an
    event. \<open>Subscription_Properties\<close>: the locale \<open>control_plane_client\<close> extends it to runs of requests, webhooks and polls.

  \<^bold>\<open>What is shown.\<close> The ledger: every reachable ledger audits, keyed operations happen exactly once
  whatever is committed in between, holds stay covered, operations refine arithmetic on balances.
  Payments: an intent is succeeded if and only if its settlement is booked, paid orders were paid,
  webhooks are applied once, polling settles exactly what the providers confirm, verified evidence is paid evidence and a
  chain transaction is credited at the quoted value only. Deposits: a deposit is credited as the tenant's policy says and at most once.
  Reversals: the provider is asked for a refund only after the wallet was debited, the debits and the
  reversals agree in every history, a due reversal is attempted by the next poll, and a refund or chargeback that Telegram reports is
  mirrored in the wallet once, or freezes it.
  The shop: a checkout debits exactly the total of the order it places and a repeated request nothing, a
  routing leaves at most one purchase that may have gone through, an order is fulfilled only by completed
  purchases, and a failed attempt, a job that is given up and an upstream failure give the total back; prices cover
  the margin. The worker gets through its queue whatever the suppliers answer.
  Subscriptions: the limits of every tenant resolve in every reachable store, a billing event takes effect once, a webhook without a
  valid signature changes nothing.
  Some theorems show defects of the code; they are stated as what the code does.

  \<^bold>\<open>Bounds.\<close> The recovery from an insertion race of a settlement or a refund queries the winner's row
  again at most twenty times, as the source does; the batches of the workers, the three fulfilment attempts and the cap of the backoff are
  the source's constants or arguments. No function of the model runs on fuel.

  \<^bold>\<open>Not modelled.\<close> Two sessions interleave only at commits: row locks are taken to serialise the requests
  on a wallet, so a lost update under a database without row locks is out of scope (the insertion races
  on unique keys, which locks do not prevent, are modelled). Column widths and the rounding of a
  \<open>Numeric\<close> column on storage, message texts of exceptions, \<open>Decimal\<close> results beyond the 28 digits of the
  default context, \<open>NaN\<close> and infinities, characters outside ASCII, the IPv6 branch of the URL host check,
  log output, the texts of notifications, the pause of the worker before a retry. \<open>math.log\<close>, SHA-256, HMAC and the JSON
  encoder and decoder are parameters. The clock is a parameter of each request and stands still within one. HTTP handlers other than those of
  the platform operator,
  payment and supplier adapters over the network, the marketplace, the Telegram runtime, provisioning, analytics, migrations and
  scripts are outside the library; the manifest lists them.
\<close>

end
